(* ===== verification/Sched_Prelude.thy ===== *)
theory Sched_Prelude
  imports Main "HOL-Library.Word" "HOL-Library.Monad_Syntax"
begin

text \<open>
  Shared material of the development: the C integer types, the error codes and priority
  constants the scheduler takes from headers outside the repository (at their documented
  values), the result type of an operation that may oops, and the generic lemmas on option
  chains, lists and words that the component theories share.

  An operation that can crash the kernel (a call through a NULL hook of a scheduling class, a
  \<open>BUG()\<close>, an operation of the list library outside its contract) returns an \<open>option\<close>:
  \<open>None\<close> is the oops, \<open>Some\<close> the state or value the operation ends with.
\<close>

section \<open>Integer types and bit operations\<close>

unbundle bit_operations_syntax

type_synonym u32 = "32 word"
type_synonym u64 = "64 word"

text \<open>A C test of a mask: \<open>flags & mask\<close> used as a condition.\<close>

definition has_flag :: "'a::len word \<Rightarrow> 'a word \<Rightarrow> bool" where
  "has_flag w m \<longleftrightarrow> w AND m \<noteq> 0"

text \<open>\<open>flags &= ~mask\<close>.\<close>

definition clear_flag :: "'a::len word \<Rightarrow> 'a word \<Rightarrow> 'a word" where
  "clear_flag w m = w AND NOT m"

lemma or_and_absorb: "(w OR m) AND m = (m :: 'a::len word)"
  by (rule bit_eqI) (auto simp: bit_simps)

lemma has_flag_set: "has_flag (w OR m) m \<longleftrightarrow> m \<noteq> 0"
  by (simp add: has_flag_def or_and_absorb)

lemma clear_and_zero: "(w AND NOT m) AND m = (0 :: 'a::len word)"
  by (auto simp: bit_eq_iff bit_and_iff bit_not_iff)

lemma has_flag_clear [simp]: "\<not> has_flag (clear_flag w m) m"
  by (simp add: has_flag_def clear_flag_def clear_and_zero)

section \<open>Constants of headers outside the repository\<close>

text \<open>
  Error numbers, and the priority scale of \<open>linux/sched/prio.h\<close>. The comments of
  \<open>kernel/sched/core.c\<close> give the scale: -1 is deadline, 0 to 99 real time, 100 to 139
  normal (lines 91-105 and 7078-7087).
\<close>

definition EPERM :: int where "EPERM = 1"
definition ESRCH :: int where "ESRCH = 3"
definition EINTR :: int where "EINTR = 4"
definition E2BIG :: int where "E2BIG = 7"
definition EAGAIN :: int where "EAGAIN = 11"
definition ENOMEM :: int where "ENOMEM = 12"
definition EFAULT :: int where "EFAULT = 14"
definition EBUSY :: int where "EBUSY = 16"
definition EINVAL :: int where "EINVAL = 22"
definition ERANGE :: int where "ERANGE = 34"
definition EOPNOTSUPP :: int where "EOPNOTSUPP = 95"
definition ERESTARTNOINTR :: int where "ERESTARTNOINTR = 513"

lemmas errno_defs = EPERM_def ESRCH_def EINTR_def ERESTARTNOINTR_def E2BIG_def EAGAIN_def ENOMEM_def EFAULT_def EBUSY_def
  EINVAL_def ERANGE_def EOPNOTSUPP_def

definition MAX_NICE :: int where "MAX_NICE = 19"
definition MIN_NICE :: int where "MIN_NICE = -20"
definition NICE_WIDTH :: int where "NICE_WIDTH = 40"
definition MAX_RT_PRIO :: int where "MAX_RT_PRIO = 100"
definition MAX_DL_PRIO :: int where "MAX_DL_PRIO = 0"
definition DEFAULT_PRIO :: int where "DEFAULT_PRIO = 120"

lemmas prio_consts = MAX_NICE_def MIN_NICE_def NICE_WIDTH_def MAX_RT_PRIO_def MAX_DL_PRIO_def
  DEFAULT_PRIO_def

definition NICE_TO_PRIO :: "int \<Rightarrow> int" where "NICE_TO_PRIO nice = nice + DEFAULT_PRIO"
definition PRIO_TO_NICE :: "int \<Rightarrow> int" where "PRIO_TO_NICE pr = pr - DEFAULT_PRIO"

text \<open>\<open>dl_prio()\<close> and \<open>rt_prio()\<close>: the predicates on that scale; a real-time priority
  includes the deadline one.\<close>

definition dl_prio :: "int \<Rightarrow> bool" where "dl_prio pr \<longleftrightarrow> pr < MAX_DL_PRIO"
definition rt_prio :: "int \<Rightarrow> bool" where "rt_prio pr \<longleftrightarrow> pr < MAX_RT_PRIO"

lemma nice_prio_inverse [simp]: "PRIO_TO_NICE (NICE_TO_PRIO n) = n"
  by (simp add: PRIO_TO_NICE_def NICE_TO_PRIO_def)

lemma prio_nice_inverse [simp]: "NICE_TO_PRIO (PRIO_TO_NICE p) = p"
  by (simp add: PRIO_TO_NICE_def NICE_TO_PRIO_def)

lemma dl_prio_imp_rt_prio: "dl_prio p \<Longrightarrow> rt_prio p"
  by (simp add: dl_prio_def rt_prio_def prio_consts)

section \<open>Automation shared by the components\<close>

text \<open>\<open>kupd\<close>: how the update functions of the kernel state act on its parts.\<close>

named_theorems kupd

lemma bind_Some_iff: "Option.bind m f = Some y \<longleftrightarrow> (\<exists>x. m = Some x \<and> f x = Some y)"
  by (cases m) auto

lemma bind_None_iff: "Option.bind m f = None \<longleftrightarrow> m = None \<or> (\<exists>x. m = Some x \<and> f x = None)"
  by (cases m) auto

lemma bind_eq_case: "Option.bind m f = (case m of None \<Rightarrow> None | Some x \<Rightarrow> f x)"
  by (cases m) auto

lemma bind_None_all: "(\<And>x. m = Some x \<Longrightarrow> f x = None) \<Longrightarrow> Option.bind m f = None"
  by (cases m) auto

section \<open>Lists and sums of words\<close>

lemma sum_list_remove1_word:
  fixes f :: "'a \<Rightarrow> 'b::ab_group_add"
  shows "x \<in> set xs \<Longrightarrow> sum_list (map f (remove1 x xs)) = sum_list (map f xs) - f x"
  by (induction xs) (auto simp: algebra_simps)

lemma unat_sum_list:
  fixes f :: "'a \<Rightarrow> 'b::len word"
  shows "sum_list (map (\<lambda>x. unat (f x)) xs) < 2 ^ LENGTH('b) \<Longrightarrow>
    unat (sum_list (map f xs)) = sum_list (map (\<lambda>x. unat (f x)) xs)"
proof (induction xs)
  case Nil
  then show ?case by simp
next
  case (Cons a xs)
  then have "unat (sum_list (map f xs)) = sum_list (map (\<lambda>x. unat (f x)) xs)"
    by simp
  with Cons.prems show ?case
    by (simp add: unat_word_ariths)
qed

lemma of_nat_length_remove1:
  "x \<in> set xs \<Longrightarrow> (of_nat (length (remove1 x xs)) :: 'a::len word) = of_nat (length xs) - 1"
proof -
  assume x: "x \<in> set xs"
  then have "length xs = Suc (length (remove1 x xs))"
    by (metis One_nat_def Suc_pred length_pos_if_in_set length_remove1)
  then show ?thesis by simp
qed

section \<open>Words as signed numbers and across widths\<close>

lemma sint_small:
  assumes "unat (w :: u32) < 2 ^ 31"
  shows "sint w = int (unat w)"
proof -
  have lt: "int (unat w) < int (2 ^ 31)" using assms by (simp only: of_nat_less_iff)
  have "sint w = signed_take_bit 31 (uint w)" by (simp only: sint_uint) simp
  also have "\<dots> = int (unat w)"
  proof -
    have "signed_take_bit 31 (int (unat w)) = int (unat w)"
    proof (rule signed_take_bit_int_eq_self)
      show "- (2 ^ 31) \<le> int (unat w)" by (rule order_trans[of _ 0]) (simp, rule of_nat_0_le_iff)
      show "int (unat w) < 2 ^ 31" using lt by (simp only: of_nat_power of_nat_numeral)
    qed
    then show ?thesis by simp
  qed
  finally show ?thesis .
qed
lemma unat_ucast_up:
  "unat (v :: 'a::len word) < 2 ^ LENGTH('b) \<Longrightarrow> unat (ucast v :: 'b::len word) = unat v"
  by (simp add: unsigned_ucast_eq take_bit_nat_eq_self)

end
