(* ===== verification/Uapi_Sched.thy ===== *)
theory Uapi_Sched
  imports Sched_Prelude
begin

text \<open>
  The constants of the scheduler's user interface and of the task state word:
  \<open>include/uapi/linux/sched.h\<close> (clone flags, scheduling policies, the flags of
\<open>sched_setattr\<close>) and \<open>include/linux/sched.h\<close> (task states and process
    flags),
  one definition per macro, with the C width of the word they are tested against. Each
  definition is preceded by the file and the lines it translates.
\<close>

section \<open>Clone flags (include/uapi/linux/sched.h)\<close>

(* uapi/sched.h 10-10: CSIGNAL *)
definition CSIGNAL :: u64 where "CSIGNAL = 0xff"

(* uapi/sched.h 11-11: CLONE_VM *)
definition CLONE_VM :: u64 where "CLONE_VM = 0x100"

(* uapi/sched.h 12-12: CLONE_FS *)
definition CLONE_FS :: u64 where "CLONE_FS = 0x200"

(* uapi/sched.h 13-13: CLONE_FILES *)
definition CLONE_FILES :: u64 where "CLONE_FILES = 0x400"

(* uapi/sched.h 14-14: CLONE_SIGHAND *)
definition CLONE_SIGHAND :: u64 where "CLONE_SIGHAND = 0x800"

(* uapi/sched.h 15-15: CLONE_PIDFD *)
definition CLONE_PIDFD :: u64 where "CLONE_PIDFD = 0x1000"

(* uapi/sched.h 16-16: CLONE_PTRACE *)
definition CLONE_PTRACE :: u64 where "CLONE_PTRACE = 0x2000"

(* uapi/sched.h 17-17: CLONE_VFORK *)
definition CLONE_VFORK :: u64 where "CLONE_VFORK = 0x4000"

(* uapi/sched.h 18-18: CLONE_PARENT *)
definition CLONE_PARENT :: u64 where "CLONE_PARENT = 0x8000"

(* uapi/sched.h 19-19: CLONE_THREAD *)
definition CLONE_THREAD :: u64 where "CLONE_THREAD = 0x10000"

(* uapi/sched.h 20-20: CLONE_NEWNS *)
definition CLONE_NEWNS :: u64 where "CLONE_NEWNS = 0x20000"

(* uapi/sched.h 21-21: CLONE_SYSVSEM *)
definition CLONE_SYSVSEM :: u64 where "CLONE_SYSVSEM = 0x40000"

(* uapi/sched.h 22-22: CLONE_SETTLS *)
definition CLONE_SETTLS :: u64 where "CLONE_SETTLS = 0x80000"

(* uapi/sched.h 23-23: CLONE_PARENT_SETTID *)
definition CLONE_PARENT_SETTID :: u64 where "CLONE_PARENT_SETTID = 0x100000"

(* uapi/sched.h 24-24: CLONE_CHILD_CLEARTID *)
definition CLONE_CHILD_CLEARTID :: u64 where "CLONE_CHILD_CLEARTID = 0x200000"

(* uapi/sched.h 25-25: CLONE_DETACHED *)
definition CLONE_DETACHED :: u64 where "CLONE_DETACHED = 0x400000"

(* uapi/sched.h 26-26: CLONE_UNTRACED *)
definition CLONE_UNTRACED :: u64 where "CLONE_UNTRACED = 0x800000"

(* uapi/sched.h 27-27: CLONE_CHILD_SETTID *)
definition CLONE_CHILD_SETTID :: u64 where "CLONE_CHILD_SETTID = 0x1000000"

(* uapi/sched.h 28-28: CLONE_NEWCGROUP *)
definition CLONE_NEWCGROUP :: u64 where "CLONE_NEWCGROUP = 0x2000000"

(* uapi/sched.h 29-29: CLONE_NEWUTS *)
definition CLONE_NEWUTS :: u64 where "CLONE_NEWUTS = 0x4000000"

(* uapi/sched.h 30-30: CLONE_NEWIPC *)
definition CLONE_NEWIPC :: u64 where "CLONE_NEWIPC = 0x8000000"

(* uapi/sched.h 31-31: CLONE_NEWUSER *)
definition CLONE_NEWUSER :: u64 where "CLONE_NEWUSER = 0x10000000"

(* uapi/sched.h 32-32: CLONE_NEWPID *)
definition CLONE_NEWPID :: u64 where "CLONE_NEWPID = 0x20000000"

(* uapi/sched.h 33-33: CLONE_NEWNET *)
definition CLONE_NEWNET :: u64 where "CLONE_NEWNET = 0x40000000"

(* uapi/sched.h 34-34: CLONE_IO *)
definition CLONE_IO :: u64 where "CLONE_IO = 0x80000000"

(* uapi/sched.h 37-37: CLONE_CLEAR_SIGHAND *)
definition CLONE_CLEAR_SIGHAND :: u64 where "CLONE_CLEAR_SIGHAND = 0x100000000"

(* uapi/sched.h 38-38: CLONE_INTO_CGROUP *)
definition CLONE_INTO_CGROUP :: u64 where "CLONE_INTO_CGROUP = 0x200000000"

(* uapi/sched.h 44-44: CLONE_NEWTIME *)
definition CLONE_NEWTIME :: u64 where "CLONE_NEWTIME = 0x80"

lemmas clone_flag_defs = CSIGNAL_def CLONE_VM_def CLONE_FS_def CLONE_FILES_def CLONE_SIGHAND_def
    CLONE_PIDFD_def CLONE_PTRACE_def CLONE_VFORK_def CLONE_PARENT_def CLONE_THREAD_def
    CLONE_NEWNS_def CLONE_SYSVSEM_def CLONE_SETTLS_def CLONE_PARENT_SETTID_def
    CLONE_CHILD_CLEARTID_def CLONE_DETACHED_def CLONE_UNTRACED_def CLONE_CHILD_SETTID_def
    CLONE_NEWCGROUP_def CLONE_NEWUTS_def CLONE_NEWIPC_def CLONE_NEWUSER_def CLONE_NEWPID_def
    CLONE_NEWNET_def CLONE_IO_def CLONE_CLEAR_SIGHAND_def CLONE_INTO_CGROUP_def
    CLONE_NEWTIME_def

text \<open>The argument block of \<open>clone3()\<close>: eleven 64-bit words, in the order of
    the ABI.\<close>

(* uapi/sched.h 92-104: struct clone_args *)
record clone_args =
  ca_flags :: u64
  ca_pidfd :: u64
  ca_child_tid :: u64
  ca_parent_tid :: u64
  ca_exit_signal :: u64
  ca_stack :: u64
  ca_stack_size :: u64
  ca_tls :: u64
  ca_set_tid :: u64
  ca_set_tid_size :: u64
  ca_cgroup :: u64

(* uapi/sched.h 107-107: CLONE_ARGS_SIZE_VER0 *)
definition CLONE_ARGS_SIZE_VER0 :: nat where "CLONE_ARGS_SIZE_VER0 = 64"

(* uapi/sched.h 108-108: CLONE_ARGS_SIZE_VER1 *)
definition CLONE_ARGS_SIZE_VER1 :: nat where "CLONE_ARGS_SIZE_VER1 = 80"

(* uapi/sched.h 109-109: CLONE_ARGS_SIZE_VER2 *)
definition CLONE_ARGS_SIZE_VER2 :: nat where "CLONE_ARGS_SIZE_VER2 = 88"

section \<open>Scheduling policies\<close>

(* uapi/sched.h 114-114: SCHED_NORMAL *)
definition SCHED_NORMAL :: int where "SCHED_NORMAL = 0"

(* uapi/sched.h 115-115: SCHED_FIFO *)
definition SCHED_FIFO :: int where "SCHED_FIFO = 1"

(* uapi/sched.h 116-116: SCHED_RR *)
definition SCHED_RR :: int where "SCHED_RR = 2"

(* uapi/sched.h 117-117: SCHED_BATCH *)
definition SCHED_BATCH :: int where "SCHED_BATCH = 3"

(* uapi/sched.h 119-119: SCHED_IDLE *)
definition SCHED_IDLE :: int where "SCHED_IDLE = 5"

(* uapi/sched.h 120-120: SCHED_DEADLINE *)
definition SCHED_DEADLINE :: int where "SCHED_DEADLINE = 6"

(* uapi/sched.h 122-122: SCHED_LOTTERY *)
definition SCHED_LOTTERY :: int where "SCHED_LOTTERY = 7"

lemmas policy_defs = SCHED_NORMAL_def SCHED_FIFO_def SCHED_RR_def SCHED_BATCH_def SCHED_IDLE_def
    SCHED_DEADLINE_def SCHED_LOTTERY_def

(* uapi/sched.h 125-125: SCHED_RESET_ON_FORK *)
definition SCHED_RESET_ON_FORK :: u32 where "SCHED_RESET_ON_FORK = 0x40000000"

section \<open>Flags of sched\_setattr\<close>

(* uapi/sched.h 130-130: SCHED_FLAG_RESET_ON_FORK *)
definition SCHED_FLAG_RESET_ON_FORK :: u64 where "SCHED_FLAG_RESET_ON_FORK = 0x01"

(* uapi/sched.h 131-131: SCHED_FLAG_RECLAIM *)
definition SCHED_FLAG_RECLAIM :: u64 where "SCHED_FLAG_RECLAIM = 0x02"

(* uapi/sched.h 132-132: SCHED_FLAG_DL_OVERRUN *)
definition SCHED_FLAG_DL_OVERRUN :: u64 where "SCHED_FLAG_DL_OVERRUN = 0x04"

(* uapi/sched.h 133-133: SCHED_FLAG_KEEP_POLICY *)
definition SCHED_FLAG_KEEP_POLICY :: u64 where "SCHED_FLAG_KEEP_POLICY = 0x08"

(* uapi/sched.h 134-134: SCHED_FLAG_KEEP_PARAMS *)
definition SCHED_FLAG_KEEP_PARAMS :: u64 where "SCHED_FLAG_KEEP_PARAMS = 0x10"

(* uapi/sched.h 135-135: SCHED_FLAG_UTIL_CLAMP_MIN *)
definition SCHED_FLAG_UTIL_CLAMP_MIN :: u64 where "SCHED_FLAG_UTIL_CLAMP_MIN = 0x20"

(* uapi/sched.h 136-136: SCHED_FLAG_UTIL_CLAMP_MAX *)
definition SCHED_FLAG_UTIL_CLAMP_MAX :: u64 where "SCHED_FLAG_UTIL_CLAMP_MAX = 0x40"

(* uapi/sched.h 138-139: SCHED_FLAG_KEEP_ALL *)
definition SCHED_FLAG_KEEP_ALL :: u64 where
  "SCHED_FLAG_KEEP_ALL = SCHED_FLAG_KEEP_POLICY OR SCHED_FLAG_KEEP_PARAMS"

(* uapi/sched.h 141-142: SCHED_FLAG_UTIL_CLAMP *)
definition SCHED_FLAG_UTIL_CLAMP :: u64 where
  "SCHED_FLAG_UTIL_CLAMP = SCHED_FLAG_UTIL_CLAMP_MIN OR SCHED_FLAG_UTIL_CLAMP_MAX"

(* uapi/sched.h 144-148: SCHED_FLAG_ALL *)
definition SCHED_FLAG_ALL :: u64 where
  "SCHED_FLAG_ALL = SCHED_FLAG_RESET_ON_FORK OR SCHED_FLAG_RECLAIM OR SCHED_FLAG_DL_OVERRUN OR
    SCHED_FLAG_KEEP_ALL OR SCHED_FLAG_UTIL_CLAMP"

lemmas sched_flag_defs = SCHED_FLAG_RESET_ON_FORK_def SCHED_FLAG_RECLAIM_def
    SCHED_FLAG_DL_OVERRUN_def SCHED_FLAG_KEEP_POLICY_def SCHED_FLAG_KEEP_PARAMS_def
    SCHED_FLAG_UTIL_CLAMP_MIN_def SCHED_FLAG_UTIL_CLAMP_MAX_def SCHED_FLAG_KEEP_ALL_def
    SCHED_FLAG_UTIL_CLAMP_def SCHED_FLAG_ALL_def

section \<open>Task states (include/linux/sched.h)\<close>

(* linux/sched.h 83-83: TASK_RUNNING *)
definition TASK_RUNNING :: u32 where "TASK_RUNNING = 0x0000"

(* linux/sched.h 84-84: TASK_INTERRUPTIBLE *)
definition TASK_INTERRUPTIBLE :: u32 where "TASK_INTERRUPTIBLE = 0x0001"

(* linux/sched.h 85-85: TASK_UNINTERRUPTIBLE *)
definition TASK_UNINTERRUPTIBLE :: u32 where "TASK_UNINTERRUPTIBLE = 0x0002"

(* linux/sched.h 86-86: __TASK_STOPPED *)
definition TASK_STOPPED_bit :: u32 where "TASK_STOPPED_bit = 0x0004"

(* linux/sched.h 87-87: __TASK_TRACED *)
definition TASK_TRACED_bit :: u32 where "TASK_TRACED_bit = 0x0008"

(* linux/sched.h 89-89: EXIT_DEAD *)
definition EXIT_DEAD :: u32 where "EXIT_DEAD = 0x0010"

(* linux/sched.h 90-90: EXIT_ZOMBIE *)
definition EXIT_ZOMBIE :: u32 where "EXIT_ZOMBIE = 0x0020"

(* linux/sched.h 91-91: EXIT_TRACE *)
definition EXIT_TRACE :: u32 where "EXIT_TRACE = EXIT_ZOMBIE OR EXIT_DEAD"

(* linux/sched.h 93-93: TASK_PARKED *)
definition TASK_PARKED :: u32 where "TASK_PARKED = 0x0040"

(* linux/sched.h 94-94: TASK_DEAD *)
definition TASK_DEAD :: u32 where "TASK_DEAD = 0x0080"

(* linux/sched.h 95-95: TASK_WAKEKILL *)
definition TASK_WAKEKILL :: u32 where "TASK_WAKEKILL = 0x0100"

(* linux/sched.h 96-96: TASK_WAKING *)
definition TASK_WAKING :: u32 where "TASK_WAKING = 0x0200"

(* linux/sched.h 97-97: TASK_NOLOAD *)
definition TASK_NOLOAD :: u32 where "TASK_NOLOAD = 0x0400"

(* linux/sched.h 98-98: TASK_NEW *)
definition TASK_NEW :: u32 where "TASK_NEW = 0x0800"

(* linux/sched.h 100-100: TASK_RTLOCK_WAIT *)
definition TASK_RTLOCK_WAIT :: u32 where "TASK_RTLOCK_WAIT = 0x1000"

(* linux/sched.h 101-101: TASK_STATE_MAX *)
definition TASK_STATE_MAX :: u32 where "TASK_STATE_MAX = 0x2000"

(* linux/sched.h 104-104: TASK_KILLABLE *)
definition TASK_KILLABLE :: u32 where "TASK_KILLABLE = TASK_WAKEKILL OR TASK_UNINTERRUPTIBLE"

(* linux/sched.h 105-105: TASK_STOPPED *)
definition TASK_STOPPED :: u32 where "TASK_STOPPED = TASK_WAKEKILL OR TASK_STOPPED_bit"

(* linux/sched.h 106-106: TASK_TRACED *)
definition TASK_TRACED :: u32 where "TASK_TRACED = TASK_WAKEKILL OR TASK_TRACED_bit"

(* linux/sched.h 108-108: TASK_IDLE *)
definition TASK_IDLE :: u32 where "TASK_IDLE = TASK_UNINTERRUPTIBLE OR TASK_NOLOAD"

(* linux/sched.h 111-111: TASK_NORMAL *)
definition TASK_NORMAL :: u32 where "TASK_NORMAL = TASK_INTERRUPTIBLE OR TASK_UNINTERRUPTIBLE"

(* linux/sched.h 114-117: TASK_REPORT *)
definition TASK_REPORT :: u32 where
"TASK_REPORT = TASK_RUNNING OR TASK_INTERRUPTIBLE OR TASK_UNINTERRUPTIBLE OR TASK_STOPPED_bit OR
    TASK_TRACED_bit OR EXIT_DEAD OR EXIT_ZOMBIE OR TASK_PARKED"

lemmas task_state_defs = TASK_RUNNING_def TASK_INTERRUPTIBLE_def TASK_UNINTERRUPTIBLE_def
    TASK_STOPPED_bit_def TASK_TRACED_bit_def EXIT_DEAD_def EXIT_ZOMBIE_def EXIT_TRACE_def
    TASK_PARKED_def TASK_DEAD_def TASK_WAKEKILL_def TASK_WAKING_def TASK_NOLOAD_def TASK_NEW_def
    TASK_RTLOCK_WAIT_def TASK_STATE_MAX_def TASK_KILLABLE_def TASK_STOPPED_def TASK_TRACED_def
    TASK_IDLE_def TASK_NORMAL_def TASK_REPORT_def

section \<open>Process flags\<close>

(* linux/sched.h 1674-1674: PF_VCPU *)
definition PF_VCPU :: u32 where "PF_VCPU = 0x00000001"

(* linux/sched.h 1675-1675: PF_IDLE *)
definition PF_IDLE :: u32 where "PF_IDLE = 0x00000002"

(* linux/sched.h 1676-1676: PF_EXITING *)
definition PF_EXITING :: u32 where "PF_EXITING = 0x00000004"

(* linux/sched.h 1677-1677: PF_IO_WORKER *)
definition PF_IO_WORKER :: u32 where "PF_IO_WORKER = 0x00000010"

(* linux/sched.h 1678-1678: PF_WQ_WORKER *)
definition PF_WQ_WORKER :: u32 where "PF_WQ_WORKER = 0x00000020"

(* linux/sched.h 1679-1679: PF_FORKNOEXEC *)
definition PF_FORKNOEXEC :: u32 where "PF_FORKNOEXEC = 0x00000040"

(* linux/sched.h 1680-1680: PF_MCE_PROCESS *)
definition PF_MCE_PROCESS :: u32 where "PF_MCE_PROCESS = 0x00000080"

(* linux/sched.h 1681-1681: PF_SUPERPRIV *)
definition PF_SUPERPRIV :: u32 where "PF_SUPERPRIV = 0x00000100"

(* linux/sched.h 1682-1682: PF_DUMPCORE *)
definition PF_DUMPCORE :: u32 where "PF_DUMPCORE = 0x00000200"

(* linux/sched.h 1683-1683: PF_SIGNALED *)
definition PF_SIGNALED :: u32 where "PF_SIGNALED = 0x00000400"

(* linux/sched.h 1684-1684: PF_MEMALLOC *)
definition PF_MEMALLOC :: u32 where "PF_MEMALLOC = 0x00000800"

(* linux/sched.h 1685-1685: PF_NPROC_EXCEEDED *)
definition PF_NPROC_EXCEEDED :: u32 where "PF_NPROC_EXCEEDED = 0x00001000"

(* linux/sched.h 1686-1686: PF_USED_MATH *)
definition PF_USED_MATH :: u32 where "PF_USED_MATH = 0x00002000"

(* linux/sched.h 1687-1687: PF_NOFREEZE *)
definition PF_NOFREEZE :: u32 where "PF_NOFREEZE = 0x00008000"

(* linux/sched.h 1688-1688: PF_FROZEN *)
definition PF_FROZEN :: u32 where "PF_FROZEN = 0x00010000"

(* linux/sched.h 1689-1689: PF_KSWAPD *)
definition PF_KSWAPD :: u32 where "PF_KSWAPD = 0x00020000"

(* linux/sched.h 1690-1690: PF_MEMALLOC_NOFS *)
definition PF_MEMALLOC_NOFS :: u32 where "PF_MEMALLOC_NOFS = 0x00040000"

(* linux/sched.h 1691-1691: PF_MEMALLOC_NOIO *)
definition PF_MEMALLOC_NOIO :: u32 where "PF_MEMALLOC_NOIO = 0x00080000"

(* linux/sched.h 1692-1692: PF_LOCAL_THROTTLE *)
definition PF_LOCAL_THROTTLE :: u32 where "PF_LOCAL_THROTTLE = 0x00100000"

(* linux/sched.h 1694-1694: PF_KTHREAD *)
definition PF_KTHREAD :: u32 where "PF_KTHREAD = 0x00200000"

(* linux/sched.h 1695-1695: PF_RANDOMIZE *)
definition PF_RANDOMIZE :: u32 where "PF_RANDOMIZE = 0x00400000"

(* linux/sched.h 1696-1696: PF_SWAPWRITE *)
definition PF_SWAPWRITE :: u32 where "PF_SWAPWRITE = 0x00800000"

(* linux/sched.h 1697-1697: PF_NO_SETAFFINITY *)
definition PF_NO_SETAFFINITY :: u32 where "PF_NO_SETAFFINITY = 0x04000000"

(* linux/sched.h 1698-1698: PF_MCE_EARLY *)
definition PF_MCE_EARLY :: u32 where "PF_MCE_EARLY = 0x08000000"

(* linux/sched.h 1699-1699: PF_MEMALLOC_PIN *)
definition PF_MEMALLOC_PIN :: u32 where "PF_MEMALLOC_PIN = 0x10000000"

(* linux/sched.h 1700-1700: PF_FREEZER_SKIP *)
definition PF_FREEZER_SKIP :: u32 where "PF_FREEZER_SKIP = 0x40000000"

(* linux/sched.h 1701-1701: PF_SUSPEND_TASK *)
definition PF_SUSPEND_TASK :: u32 where "PF_SUSPEND_TASK = 0x80000000"

lemmas process_flag_defs = PF_VCPU_def PF_IDLE_def PF_EXITING_def PF_IO_WORKER_def
    PF_WQ_WORKER_def PF_FORKNOEXEC_def PF_MCE_PROCESS_def PF_SUPERPRIV_def PF_DUMPCORE_def
    PF_SIGNALED_def PF_MEMALLOC_def PF_NPROC_EXCEEDED_def PF_USED_MATH_def PF_NOFREEZE_def
    PF_FROZEN_def PF_KSWAPD_def PF_MEMALLOC_NOFS_def PF_MEMALLOC_NOIO_def PF_LOCAL_THROTTLE_def
    PF_KTHREAD_def PF_RANDOMIZE_def PF_SWAPWRITE_def PF_NO_SETAFFINITY_def PF_MCE_EARLY_def
    PF_MEMALLOC_PIN_def PF_FREEZER_SKIP_def PF_SUSPEND_TASK_def

section \<open>Scheduling attributes\<close>

text \<open>\<open>struct sched_attr\<close> of \<open>uapi/linux/sched/types.h\<close>, which is not part of the
  repository: the fields the system calls below pass through, at their documented widths.\<close>

record sched_attr =
  sa_size :: u32
  sa_policy :: u32
  sa_flags :: u64
  sa_nice :: "32 word"
  sa_priority :: u32
  sa_runtime :: u64
  sa_deadline :: u64
  sa_period :: u64
  sa_util_min :: u32
  sa_util_max :: u32

definition zero_attr :: sched_attr where
  "zero_attr = \<lparr>sa_size = 0, sa_policy = 0, sa_flags = 0, sa_nice = 0, sa_priority = 0,
     sa_runtime = 0, sa_deadline = 0, sa_period = 0, sa_util_min = 0, sa_util_max = 0\<rparr>"

end
