(* ===== verification/Sched_State.thy ===== *)
theory Sched_State
  imports Uapi_Sched
begin

text \<open>
  The state the scheduler works on: the fields of \<open>struct task_struct\<close>, \<open>struct rq\<close> and
  \<open>struct task_group\<close> that the modelled functions read or write, one record each, and the
  kernel state that holds them. Pointers to tasks, runqueues and groups are numbers that index
  maps of the state; NULL is \<open>None\<close> of an option.

  Code outside the repository keeps its own state in \<open>k_ext\<close>, whose type is a parameter
  \<open>'x\<close> of the model. The links of the intrusive lists of \<open>linux/list.h\<close> are
  \<open>k_links\<close>, of type \<open>'l\<close>. The table \<open>env\<close> of the outside functions is an argument
  of every definition that calls one.

  Locks, memory barriers, interrupt masking and reference counts are not part of the state:
  a definition is the effect of its function between the lock it takes and the lock it drops.
\<close>

section \<open>Scheduling classes\<close>

text \<open>The order of the constructors is the order of the sections the linker script lays
  the classes out in; the address of a class is its priority.\<close>

datatype sched_class = Idle_class | Fair_class | Rt_class | Dl_class | Stop_class | Lottery_class

(* vmlinux.lds.h 127-136: SCHED_DATA *)
definition sched_class_section :: "sched_class list" where
  "sched_class_section =
     [Idle_class, Fair_class, Rt_class, Dl_class, Stop_class, Lottery_class]"

text \<open>The address of a class, as its index in the section.\<close>

fun class_addr :: "sched_class \<Rightarrow> nat" where
  "class_addr Idle_class = 0"
| "class_addr Fair_class = 1"
| "class_addr Rt_class = 2"
| "class_addr Dl_class = 3"
| "class_addr Stop_class = 4"
| "class_addr Lottery_class = 5"

lemma class_addr_section: "sched_class_section ! class_addr c = c"
  by (cases c) (simp_all add: sched_class_section_def)

lemma class_addr_bound: "class_addr c < length sched_class_section"
  by (cases c) (simp_all add: sched_class_section_def)

lemma class_addr_inj: "class_addr c = class_addr d \<Longrightarrow> c = d"
  by (metis class_addr_section)

instantiation sched_class :: linorder
begin

definition less_eq_sched_class :: "sched_class \<Rightarrow> sched_class \<Rightarrow> bool" where
  "less_eq_sched_class c d \<longleftrightarrow> class_addr c \<le> class_addr d"

definition less_sched_class :: "sched_class \<Rightarrow> sched_class \<Rightarrow> bool" where
  "less_sched_class c d \<longleftrightarrow> class_addr c < class_addr d"

instance
  by standard (auto simp: less_eq_sched_class_def less_sched_class_def intro: class_addr_inj)

end

lemmas class_order_defs = less_eq_sched_class_def less_sched_class_def

section \<open>Tasks\<close>

type_synonym tid = nat
type_synonym cpu = nat
type_synonym tgid = nat

(* sched.h 92-92: TASK_ON_RQ_QUEUED *)
definition TASK_ON_RQ_QUEUED :: nat where "TASK_ON_RQ_QUEUED = 1"

(* sched.h 93-93: TASK_ON_RQ_MIGRATING *)
definition TASK_ON_RQ_MIGRATING :: nat where "TASK_ON_RQ_MIGRATING = 2"

text \<open>The two utilization clamps: \<open>enum uclamp_id\<close>.\<close>

datatype uclamp_id = UCLAMP_MIN | UCLAMP_MAX

text \<open>A clamp value is a bit-field of \<open>bits_per(SCHED_CAPACITY_SCALE)\<close> = 11 bits.\<close>

(* linux/sched.h 681-686: struct uclamp_se *)
record uclamp_se =
  us_value :: "11 word"
  us_bucket_id :: nat
  us_active :: bool
  us_user_defined :: bool

record load_weight =
  lw_weight :: u32
  lw_inv_weight :: u32

text \<open>The lottery entity of a task: its list node is the node \<open>TaskLtr\<close> of the task below.\<close>

(* linux/sched.h 717-720: struct sched_ltr_entity *)
record sched_ltr_entity =
  le_tickets :: u32

text \<open>The wakeup counters of \<open>struct sched_statistics\<close>, and the fields of the fair entity
  (\<open>struct sched_entity\<close>) that \<open>core.c\<close> itself writes.\<close>

record wake_stats =
  ws_nr_wakeups :: u64
  ws_nr_wakeups_sync :: u64
  ws_nr_wakeups_migrate :: u64
  ws_nr_wakeups_local :: u64
  ws_nr_wakeups_remote :: u64

record sched_entity =
  se_on_rq :: u32
  se_exec_start :: u64
  se_prev_sum_exec_runtime :: u64
  se_nr_migrations :: u64
  se_vruntime :: u64

record task =
  t_pid :: int
  t_state :: u32
  t_policy :: int
  t_prio :: int
  t_static_prio :: int
  t_normal_prio :: int
  t_rt_priority :: u32
  t_class :: sched_class
  t_on_rq :: nat
  t_on_cpu :: bool
  t_cpu :: cpu
  t_wake_cpu :: cpu
  t_flags :: u32
  t_reset_on_fork :: bool
  t_need_resched :: bool
  t_polling :: bool
  t_contributes_to_load :: bool
  t_in_iowait :: bool
  t_remote_wakeup :: bool
  t_ltr :: sched_ltr_entity
  t_uclamp_req :: "uclamp_id \<Rightarrow> uclamp_se"
  t_uclamp :: "uclamp_id \<Rightarrow> uclamp_se"
  t_tg :: tgid
  t_load :: load_weight
  t_pi_top_task :: "tid option"
  t_dl_deadline :: u64
  t_dl_flags :: u64
  t_dl_pi_se :: tid
  t_rt_timeout :: u32
  t_nvcsw :: u64
  t_nivcsw :: u64
  t_cpus_mask :: "cpu set"
  t_cpus_ptr :: "cpu set option"
  t_nr_cpus_allowed :: nat
  t_user_cpus_ptr :: "cpu set option"
  t_migration_disabled :: "16 word"
  t_mm :: "nat option"
  t_active_mm :: "nat option"
  t_sum_exec_runtime :: u64
  t_euid :: nat
  t_uid :: nat
  t_saved_state :: u32
  t_wake_stats :: wake_stats
  t_wake_q :: bool
  t_se :: sched_entity
  t_rt_time_slice :: u32
  t_rt_on_rq :: "16 word"
  t_rt_on_list :: "16 word"
  t_recent_used_cpu :: cpu
  t_vfork :: bool
  t_migration_pending :: "nat option"
  t_migration_flags :: "16 word"
  t_numa_preferred_nid :: int
  t_core_cookie :: u32
  t_core_occupation :: u32
  t_core_node :: bool

section \<open>Runqueues\<close>

text \<open>The lottery part of a runqueue; its list head \<open>queue\<close> is the node \<open>RqQueue\<close> of
  the runqueue below.\<close>

(* sched.h 535-539: struct ltr_rq *)
record ltr_rq =
  lr_nr_running :: u32
  lr_total_tickets :: u32

text \<open>A bucket: an 11-bit value and a counter in the rest of a 32-bit \<open>unsigned long\<close>.\<close>

(* sched.h 893-896: struct uclamp_bucket *)
record uclamp_bucket =
  ub_value :: "11 word"
  ub_tasks :: "21 word"

(* sched.h 920-923: struct uclamp_rq *)
record uclamp_rq =
  ur_value :: u32
  ur_bucket :: "nat \<Rightarrow> uclamp_bucket"

text \<open>The fields of core scheduling: \<open>rq_core_rq\<close> is the runqueue the pointer \<open>core\<close> leads to, and
  \<open>rq_core_tree\<close> the tasks of the tree in its order.\<close>

record rq =
  rq_nr_running :: u32
  rq_cfs_nr_running :: u32
  rq_cfs_h_nr_running :: u32
  rq_rt_queued :: int
  rq_rt_nr_running :: u32
  rq_dl_nr_running :: u32
  rq_ltr :: ltr_rq
  rq_uclamp :: "uclamp_id \<Rightarrow> uclamp_rq"
  rq_uclamp_flags :: u32
  rq_nr_uninterruptible :: u32
  rq_nr_iowait :: int
  rq_nr_switches :: u64
  rq_curr :: tid
  rq_idle :: tid
  rq_stop :: "tid option"
  rq_clock_update_flags :: u32
  rq_clock :: u64
  rq_clock_task :: u64
  rq_prev_irq_time :: u64
  rq_prev_steal_time :: u64
  rq_ttwu_pending :: bool
  rq_balance_callback :: "nat list"
  rq_avg_irq :: u32
  rq_avg_rt :: u32
  rq_avg_dl :: u32
  rq_cfs_util_avg :: u32
  rq_cfs_util_est :: u32
  rq_dl_running_bw :: u64
  rq_nr_pinned :: u32
  rq_prev_mm :: "nat option"
  rq_membarrier_state :: int
  rq_last_seen_need_resched_ns :: u64
  rq_ticks_without_resched :: int
  rq_idle_balance :: bool
  rq_nohz_idle_balance :: u32
  rq_nohz_flags :: u32
  rq_rr_nr_running :: u32
  rq_idle_stamp :: u64
  rq_avg_idle :: u64
  rq_max_idle_balance_cost :: u64
  rq_wake_stamp :: u32
  rq_wake_avg_idle :: u64
  rq_ttwu_count :: u32
  rq_ttwu_local :: u32
  rq_push_busy :: bool
  rq_online :: bool
  rq_rd :: "nat option"
  rq_calc_load_active :: u32
  rq_calc_load_update :: u32
  rq_active_balance :: int
  rq_next_balance :: u32
  rq_push_cpu :: int
  rq_cpu_capacity :: u32
  rq_cpu_capacity_orig :: u32
  rq_last_blocked_load_update_tick :: u32
  rq_hrtick_time :: u64
  rq_core_rq :: cpu
  rq_core_pick :: "tid option"
  rq_core_enabled :: bool
  rq_core_sched_seq :: u32
  rq_core_tree :: "tid list"
  rq_core_task_seq :: u32
  rq_core_pick_seq :: u32
  rq_core_cookie :: u32
  rq_core_forceidle :: bool
  rq_core_forceidle_seq :: u32

section \<open>Task groups\<close>

text \<open>The CFS bandwidth of a group; \<open>hierarchical_quota\<close> is signed, its word is read with
  \<open>sint\<close>. The timers and the list of throttled runqueues belong to \<open>fair.c\<close>.\<close>

(* sched.h 370-391: struct cfs_bandwidth#1 *)
record cfs_bandwidth =
  cb_period :: u64
  cb_quota :: u64
  cb_runtime :: u64
  cb_burst :: u64
  cb_hierarchical_quota :: u64
  cb_nr_periods :: int
  cb_nr_throttled :: int
  cb_throttled_time :: u64

text \<open>The fields of the group's runqueue on a CPU (\<open>tg->cfs_rq[i]\<close>) that \<open>core.c\<close> writes.\<close>

record cfs_bw_rq =
  cr_runtime_enabled :: bool
  cr_runtime_remaining :: u64
  cr_throttled :: bool

record task_group =
  tg_parent :: "tgid option"
  tg_autogroup :: bool
  tg_uclamp_pct :: "uclamp_id \<Rightarrow> u32"
  tg_uclamp_req :: "uclamp_id \<Rightarrow> uclamp_se"
  tg_uclamp :: "uclamp_id \<Rightarrow> uclamp_se"
  tg_rt_runtime :: u64
  tg_children :: "tgid list"
  tg_shares :: u32
  tg_idle :: int
  tg_cfs_bandwidth :: cfs_bandwidth
  tg_cfs_rq :: "cpu \<Rightarrow> cfs_bw_rq"

text \<open>\<open>root_task_group\<close>.\<close>

definition root_task_group :: tgid where "root_task_group = 0"

text \<open>The hierarchy below a group, as \<open>css_for_each_descendant_pre\<close> walks it.\<close>

datatype css_tree = Css (css_group: tgid) (css_children: "css_tree list")

section \<open>The kernel state\<close>

text \<open>A node of an intrusive list: the head of a lottery queue or the node of a task.\<close>

datatype lnode = RqQueue cpu | TaskLtr tid

text \<open>The kernel log: the lottery events, with the task's pid, a time stamp and the
  operation's letter, and the warnings a \<open>WARN_ON\<close> raises.\<close>

datatype klog = Lottery_event int u64 string | Warned string

text \<open>A request to move a task to an allowed CPU: it lives on the stack of the caller that installs
  it, so it is a numbered record of the kernel state. \<open>sp_done\<close> is its completion.\<close>

(* core.c !2259-2265: struct set_affinity_pending *)
record set_affinity_pending =
  sp_refs :: int
  sp_stop_pending :: bool
  sp_done :: bool
  sp_dest_cpu :: cpu

definition pending_zero :: set_affinity_pending where
  "pending_zero = \<lparr>sp_refs = 0, sp_stop_pending = False, sp_done = False, sp_dest_cpu = 0\<rparr>"

text \<open>The static calls of a dynamically preemptible kernel; \<open>False\<close> stands for the call that
  returns 0 or for NULL.\<close>

record preempt_calls =
  pc_mode :: int
  pc_cond_resched :: bool
  pc_might_resched :: bool
  pc_preempt_schedule :: bool
  pc_preempt_schedule_notrace :: bool
  pc_irqentry_exit_cond_resched :: bool

(* core.c 5327-5331: struct tick_work *)
record tick_work =
  tw_cpu :: cpu
  tw_state :: int

record ('x, 'l) kernel =
  k_tasks :: "tid \<Rightarrow> task"
  k_rqs :: "cpu \<Rightarrow> rq"
  k_tgs :: "tgid \<Rightarrow> task_group"
  k_task_groups :: "tgid list"
  k_links :: 'l
  k_this_cpu :: cpu
  k_entropy :: "nat \<Rightarrow> u32"
  k_ktime :: "nat \<Rightarrow> u64"
  k_log :: "klog list"
  k_uclamp_default :: "uclamp_id \<Rightarrow> uclamp_se"
  k_uclamp_used :: bool
  k_util_min :: u32
  k_util_max :: u32
  k_util_min_rt :: u32
  k_preempt_need_resched :: bool
  k_sysctl_rt_runtime :: int
  k_latency_warn_ms :: int
  k_latency_warn_once :: bool
  k_warned_once :: bool
  k_pendings :: "nat \<Rightarrow> set_affinity_pending"
  k_nr_pendings :: nat
  k_preempt_count :: u32
  k_irqs_disabled :: bool
  k_preempt_calls :: preempt_calls
  k_tick_works :: "cpu \<Rightarrow> tick_work"
  k_num_cpus_frozen :: int
  k_smp_initialized :: bool
  k_calc_load_tasks :: u32
  k_calc_load_update :: u32
  k_scheduler_running :: bool
  k_core_sched_key :: bool
  k_core_sched_count :: int
  k_ext :: 'x

subsection \<open>Updating one task, one runqueue, one group\<close>

definition upd_task :: "tid \<Rightarrow> (task \<Rightarrow> task) \<Rightarrow> ('x, 'l) kernel \<Rightarrow> ('x, 'l) kernel" where
  "upd_task p f k = k\<lparr>k_tasks := (k_tasks k)(p := f (k_tasks k p))\<rparr>"

definition upd_rq :: "cpu \<Rightarrow> (rq \<Rightarrow> rq) \<Rightarrow> ('x, 'l) kernel \<Rightarrow> ('x, 'l) kernel" where
  "upd_rq c f k = k\<lparr>k_rqs := (k_rqs k)(c := f (k_rqs k c))\<rparr>"

definition upd_tg :: "tgid \<Rightarrow> (task_group \<Rightarrow> task_group) \<Rightarrow> ('x, 'l) kernel \<Rightarrow> ('x, 'l) kernel"
where
  "upd_tg g f k = k\<lparr>k_tgs := (k_tgs k)(g := f (k_tgs k g))\<rparr>"

definition upd_ltr :: "cpu \<Rightarrow> (ltr_rq \<Rightarrow> ltr_rq) \<Rightarrow> ('x, 'l) kernel \<Rightarrow> ('x, 'l) kernel" where
  "upd_ltr c f k = upd_rq c (\<lambda>r. r\<lparr>rq_ltr := f (rq_ltr r)\<rparr>) k"

definition add_log :: "klog \<Rightarrow> ('x, 'l) kernel \<Rightarrow> ('x, 'l) kernel" where
  "add_log e k = k\<lparr>k_log := k_log k @ [e]\<rparr>"

text \<open>\<open>WARN_ON(cond)\<close> with a label that names its place.\<close>

definition warn_on :: "string \<Rightarrow> bool \<Rightarrow> ('x, 'l) kernel \<Rightarrow> ('x, 'l) kernel" where
  "warn_on s b k = (if b then add_log (Warned s) k else k)"

text \<open>A call of code outside the repository that changes that code's own state only.\<close>

definition ext_do :: "(('x, 'l) kernel \<Rightarrow> 'x) \<Rightarrow> ('x, 'l) kernel \<Rightarrow> ('x, 'l) kernel" where
  "ext_do f k = k\<lparr>k_ext := f k\<rparr>"

lemma k_tasks_upd [simp, kupd]:
  "k_tasks (upd_task p f k) = (k_tasks k)(p := f (k_tasks k p))"
  "k_tasks (upd_rq c g k) = k_tasks k"
  "k_tasks (upd_tg t h k) = k_tasks k"
  "k_tasks (upd_ltr c l k) = k_tasks k"
  "k_tasks (add_log e k) = k_tasks k"
  "k_tasks (warn_on s b k) = k_tasks k"
  "k_tasks (ext_do x k) = k_tasks k"
  by (simp_all add: upd_task_def upd_rq_def upd_tg_def upd_ltr_def add_log_def warn_on_def
      ext_do_def)

lemma k_rqs_upd [simp, kupd]:
  "k_rqs (upd_task p f k) = k_rqs k"
  "k_rqs (upd_rq c g k) = (k_rqs k)(c := g (k_rqs k c))"
  "k_rqs (upd_tg t h k) = k_rqs k"
  "k_rqs (upd_ltr c l k) = (k_rqs k)(c := (k_rqs k c)\<lparr>rq_ltr := l (rq_ltr (k_rqs k c))\<rparr>)"
  "k_rqs (add_log e k) = k_rqs k"
  "k_rqs (warn_on s b k) = k_rqs k"
  "k_rqs (ext_do x k) = k_rqs k"
  by (simp_all add: upd_task_def upd_rq_def upd_tg_def upd_ltr_def add_log_def warn_on_def
      ext_do_def)

lemma k_tgs_upd [simp, kupd]:
  "k_tgs (upd_task p f k) = k_tgs k"
  "k_tgs (upd_rq c g k) = k_tgs k"
  "k_tgs (upd_tg t h k) = (k_tgs k)(t := h (k_tgs k t))"
  "k_tgs (upd_ltr c l k) = k_tgs k"
  "k_tgs (add_log e k) = k_tgs k"
  "k_tgs (warn_on s b k) = k_tgs k"
  "k_tgs (ext_do x k) = k_tgs k"
  by (simp_all add: upd_task_def upd_rq_def upd_tg_def upd_ltr_def add_log_def warn_on_def
      ext_do_def)

lemma k_task_groups_upd [simp, kupd]:
  "k_task_groups (upd_task p f k) = k_task_groups k"
  "k_task_groups (upd_rq c g k) = k_task_groups k"
  "k_task_groups (upd_tg t h k) = k_task_groups k"
  "k_task_groups (warn_on s b k) = k_task_groups k"
  "k_task_groups (ext_do x k) = k_task_groups k"
  by (simp_all add: upd_task_def upd_rq_def upd_tg_def add_log_def warn_on_def ext_do_def)

lemma k_links_upd [simp, kupd]:
  "k_links (upd_task p f k) = k_links k"
  "k_links (upd_rq c g k) = k_links k"
  "k_links (upd_tg t h k) = k_links k"
  "k_links (upd_ltr c l k) = k_links k"
  "k_links (add_log e k) = k_links k"
  "k_links (warn_on s b k) = k_links k"
  "k_links (ext_do x k) = k_links k"
  by (simp_all add: upd_task_def upd_rq_def upd_tg_def upd_ltr_def add_log_def warn_on_def
      ext_do_def)

lemma k_this_cpu_upd [simp, kupd]:
  "k_this_cpu (upd_task p f k) = k_this_cpu k"
  "k_this_cpu (upd_rq c g k) = k_this_cpu k"
  "k_this_cpu (upd_tg t h k) = k_this_cpu k"
  "k_this_cpu (upd_ltr c l k) = k_this_cpu k"
  "k_this_cpu (add_log e k) = k_this_cpu k"
  "k_this_cpu (warn_on s b k) = k_this_cpu k"
  "k_this_cpu (ext_do x k) = k_this_cpu k"
  by (simp_all add: upd_task_def upd_rq_def upd_tg_def upd_ltr_def add_log_def warn_on_def
      ext_do_def)

lemma k_streams_upd [simp, kupd]:
  "k_entropy (upd_task p f k) = k_entropy k"
  "k_entropy (upd_rq c g k) = k_entropy k"
  "k_entropy (upd_ltr c l k) = k_entropy k"
  "k_entropy (add_log e k) = k_entropy k"
  "k_ktime (upd_task p f k) = k_ktime k"
  "k_ktime (upd_rq c g k) = k_ktime k"
  "k_ktime (upd_ltr c l k) = k_ktime k"
  "k_ktime (add_log e k) = k_ktime k"
  by (simp_all add: upd_task_def upd_rq_def upd_ltr_def add_log_def)

lemma k_log_upd [simp, kupd]:
  "k_log (upd_task p f k) = k_log k"
  "k_log (upd_rq c g k) = k_log k"
  "k_log (upd_tg t h k) = k_log k"
  "k_log (upd_ltr c l k) = k_log k"
  "k_log (add_log e k) = k_log k @ [e]"
  "k_log (ext_do x k) = k_log k"
  by (simp_all add: upd_task_def upd_rq_def upd_tg_def upd_ltr_def add_log_def ext_do_def)

lemma k_uclamp_upd [simp, kupd]:
  "k_uclamp_used (upd_task p f k) = k_uclamp_used k"
  "k_uclamp_used (upd_rq c g k) = k_uclamp_used k"
  "k_uclamp_used (upd_tg t h k) = k_uclamp_used k"
  "k_uclamp_used (warn_on s b k) = k_uclamp_used k"
  "k_uclamp_used (ext_do x k) = k_uclamp_used k"
  "k_uclamp_used (add_log e k) = k_uclamp_used k"
  "k_uclamp_default (add_log e k) = k_uclamp_default k"
  "k_uclamp_default (upd_task p f k) = k_uclamp_default k"
  "k_uclamp_default (upd_rq c g k) = k_uclamp_default k"
  "k_uclamp_default (upd_tg t h k) = k_uclamp_default k"
  "k_uclamp_default (warn_on s b k) = k_uclamp_default k"
  "k_uclamp_default (ext_do x k) = k_uclamp_default k"
  by (simp_all add: upd_task_def upd_rq_def upd_tg_def add_log_def warn_on_def ext_do_def)

lemma k_util_upd [simp, kupd]:
  "k_util_min (upd_task p f k) = k_util_min k" "k_util_min (upd_rq c g k) = k_util_min k"
  "k_util_min (upd_tg t h k) = k_util_min k" "k_util_min (add_log e k) = k_util_min k"
  "k_util_min (warn_on s b k) = k_util_min k" "k_util_min (ext_do x k) = k_util_min k"
  "k_util_max (upd_task p f k) = k_util_max k" "k_util_max (upd_rq c g k) = k_util_max k"
  "k_util_max (upd_tg t h k) = k_util_max k" "k_util_max (add_log e k) = k_util_max k"
  "k_util_max (warn_on s b k) = k_util_max k" "k_util_max (ext_do x k) = k_util_max k"
  "k_util_min_rt (upd_task p f k) = k_util_min_rt k" "k_util_min_rt (upd_rq c g k) = k_util_min_rt k"
  "k_util_min_rt (upd_tg t h k) = k_util_min_rt k" "k_util_min_rt (add_log e k) = k_util_min_rt k"
  "k_util_min_rt (warn_on s b k) = k_util_min_rt k" "k_util_min_rt (ext_do x k) = k_util_min_rt k"
  by (simp_all add: upd_task_def upd_rq_def upd_tg_def add_log_def warn_on_def ext_do_def)

lemma k_late_upd [simp, kupd]:
  "k_pendings (upd_task p f k) = k_pendings k" "k_pendings (upd_rq c g k) = k_pendings k"
  "k_pendings (add_log e k) = k_pendings k" "k_pendings (warn_on s b k) = k_pendings k" "k_pendings (ext_do x k) = k_pendings k"
  "k_nr_pendings (upd_task p f k) = k_nr_pendings k" "k_nr_pendings (upd_rq c g k) = k_nr_pendings k"
  "k_nr_pendings (add_log e k) = k_nr_pendings k" "k_nr_pendings (warn_on s b k) = k_nr_pendings k" "k_nr_pendings (ext_do x k) = k_nr_pendings k"
  "k_preempt_count (upd_task p f k) = k_preempt_count k" "k_preempt_count (upd_rq c g k) = k_preempt_count k"
  "k_preempt_count (add_log e k) = k_preempt_count k" "k_preempt_count (warn_on s b k) = k_preempt_count k" "k_preempt_count (ext_do x k) = k_preempt_count k"
  "k_irqs_disabled (upd_task p f k) = k_irqs_disabled k" "k_irqs_disabled (upd_rq c g k) = k_irqs_disabled k"
  "k_irqs_disabled (add_log e k) = k_irqs_disabled k" "k_irqs_disabled (warn_on s b k) = k_irqs_disabled k" "k_irqs_disabled (ext_do x k) = k_irqs_disabled k"
  "k_preempt_calls (upd_task p f k) = k_preempt_calls k" "k_preempt_calls (upd_rq c g k) = k_preempt_calls k"
  "k_preempt_calls (add_log e k) = k_preempt_calls k" "k_preempt_calls (warn_on s b k) = k_preempt_calls k" "k_preempt_calls (ext_do x k) = k_preempt_calls k"
  "k_tick_works (upd_task p f k) = k_tick_works k" "k_tick_works (upd_rq c g k) = k_tick_works k"
  "k_tick_works (add_log e k) = k_tick_works k" "k_tick_works (warn_on s b k) = k_tick_works k" "k_tick_works (ext_do x k) = k_tick_works k"
  "k_num_cpus_frozen (upd_task p f k) = k_num_cpus_frozen k" "k_num_cpus_frozen (upd_rq c g k) = k_num_cpus_frozen k"
  "k_num_cpus_frozen (add_log e k) = k_num_cpus_frozen k" "k_num_cpus_frozen (warn_on s b k) = k_num_cpus_frozen k" "k_num_cpus_frozen (ext_do x k) = k_num_cpus_frozen k"
  "k_smp_initialized (upd_task p f k) = k_smp_initialized k" "k_smp_initialized (upd_rq c g k) = k_smp_initialized k"
  "k_smp_initialized (add_log e k) = k_smp_initialized k" "k_smp_initialized (warn_on s b k) = k_smp_initialized k" "k_smp_initialized (ext_do x k) = k_smp_initialized k"
  "k_calc_load_tasks (upd_task p f k) = k_calc_load_tasks k" "k_calc_load_tasks (upd_rq c g k) = k_calc_load_tasks k"
  "k_calc_load_tasks (add_log e k) = k_calc_load_tasks k" "k_calc_load_tasks (warn_on s b k) = k_calc_load_tasks k" "k_calc_load_tasks (ext_do x k) = k_calc_load_tasks k"
  "k_calc_load_update (upd_task p f k) = k_calc_load_update k" "k_calc_load_update (upd_rq c g k) = k_calc_load_update k"
  "k_calc_load_update (add_log e k) = k_calc_load_update k" "k_calc_load_update (warn_on s b k) = k_calc_load_update k" "k_calc_load_update (ext_do x k) = k_calc_load_update k"
  "k_scheduler_running (upd_task p f k) = k_scheduler_running k" "k_scheduler_running (upd_rq c g k) = k_scheduler_running k"
  "k_scheduler_running (add_log e k) = k_scheduler_running k" "k_scheduler_running (warn_on s b k) = k_scheduler_running k" "k_scheduler_running (ext_do x k) = k_scheduler_running k"
  "k_core_sched_key (upd_task p f k) = k_core_sched_key k" "k_core_sched_key (upd_rq c g k) = k_core_sched_key k"
  "k_core_sched_key (warn_on s b k) = k_core_sched_key k" "k_core_sched_key (ext_do x k) = k_core_sched_key k"
  by (simp_all add: upd_task_def upd_rq_def add_log_def warn_on_def ext_do_def)

lemma fold_keeps: "(\<And>x k. g (f x k) = g k) \<Longrightarrow> g (fold f xs k) = g k"
  by (induction xs arbitrary: k) simp_all

lemma warn_on_False [simp]: "warn_on s False k = k"
  by (simp add: warn_on_def)

subsection \<open>Reading the state\<close>

text \<open>\<open>task_rq(p)\<close>, \<open>current\<close>.\<close>

abbreviation tsk :: "('x, 'l) kernel \<Rightarrow> tid \<Rightarrow> task" where
  "tsk k p \<equiv> k_tasks k p"

abbreviation cpu_rq :: "('x, 'l) kernel \<Rightarrow> cpu \<Rightarrow> rq" where
  "cpu_rq k c \<equiv> k_rqs k c"

definition task_cpu :: "('x, 'l) kernel \<Rightarrow> tid \<Rightarrow> cpu" where
  "task_cpu k p = t_cpu (tsk k p)"

definition current_task :: "('x, 'l) kernel \<Rightarrow> tid" where
  "current_task k = rq_curr (cpu_rq k (k_this_cpu k))"

(* sched.h 2044-2047: task_current *)
definition task_current :: "('x, 'l) kernel \<Rightarrow> cpu \<Rightarrow> tid \<Rightarrow> bool" where
  "task_current k c p \<longleftrightarrow> rq_curr (cpu_rq k c) = p"

(* sched.h 2049-2056: task_running *)
definition task_running :: "bool \<Rightarrow> ('x, 'l) kernel \<Rightarrow> cpu \<Rightarrow> tid \<Rightarrow> bool" where
  "task_running smp k c p = (if smp then t_on_cpu (tsk k p) else task_current k c p)"

(* sched.h 2058-2061: task_on_rq_queued *)
definition task_on_rq_queued :: "('x, 'l) kernel \<Rightarrow> tid \<Rightarrow> bool" where
  "task_on_rq_queued k p \<longleftrightarrow> t_on_rq (tsk k p) = TASK_ON_RQ_QUEUED"

(* sched.h 2063-2066: task_on_rq_migrating *)
definition task_on_rq_migrating :: "('x, 'l) kernel \<Rightarrow> tid \<Rightarrow> bool" where
  "task_on_rq_migrating k p \<longleftrightarrow> t_on_rq (tsk k p) = TASK_ON_RQ_MIGRATING"

(* core.c 1961-1964: sched_task_on_rq *)
definition sched_task_on_rq :: "('x, 'l) kernel \<Rightarrow> tid \<Rightarrow> bool" where
  "sched_task_on_rq k p = task_on_rq_queued k p"

(* core.c 2069-2072: task_curr *)
definition task_curr :: "('x, 'l) kernel \<Rightarrow> tid \<Rightarrow> bool" where
  "task_curr k p \<longleftrightarrow> rq_curr (cpu_rq k (task_cpu k p)) = p"

end
