(* ===== verification/List_API.thy ===== *)
theory List_API
  imports Sched_State
begin

text \<open>
  The interface of \<open>linux/list.h\<close> that \<open>lottery.c\<close> uses: \<open>INIT_LIST_HEAD\<close>,
  \<open>list_add_tail\<close>, \<open>list_del\<close>, \<open>list_empty\<close> and the node sequence
  \<open>list_for_each\<close> visits. The header is not part of the repository, so its operations are a
  parameter, the record \<open>list_ops\<close> over an unknown type of links; what the scheduler relies
  on is the locale \<open>linux_list\<close>, which states the documented behaviour of each operation.

  \<open>dll l h xs\<close> reads: in the links \<open>l\<close>, the head \<open>h\<close> holds exactly the nodes
  \<open>xs\<close>, in order. The documentation of \<open>list_del\<close> says that the removed entry is in
  an undefined state and that \<open>list_empty()\<close> on it does not return true.

  The second half shows the contract to be satisfiable: a heap of next and prev pointers with
  poison values implements it.
\<close>

section \<open>The operations and their contract\<close>

record 'l list_ops =
  op_init :: "lnode \<Rightarrow> 'l \<Rightarrow> 'l"
  op_add_tail :: "lnode \<Rightarrow> lnode \<Rightarrow> 'l \<Rightarrow> 'l option"
  op_del :: "lnode \<Rightarrow> 'l \<Rightarrow> 'l option"
  op_empty :: "lnode \<Rightarrow> 'l \<Rightarrow> bool"
  op_entries :: "lnode \<Rightarrow> 'l \<Rightarrow> lnode list"

locale linux_list =
  fixes ops :: "'l list_ops"
    and dll :: "'l \<Rightarrow> lnode \<Rightarrow> lnode list \<Rightarrow> bool"
  assumes dll_distinct: "dll l h xs \<Longrightarrow> distinct (h # xs)"
    and init_dll: "dll (op_init ops h l) h []"
    and init_frame: "dll l h' ys \<Longrightarrow> h \<notin> set (h' # ys) \<Longrightarrow> dll (op_init ops h l) h' ys"
    and add_tail_ok: "dll l h xs \<Longrightarrow> n \<notin> set (h # xs) \<Longrightarrow>
      \<exists>l'. op_add_tail ops n h l = Some l'"
    and add_tail_dll: "dll l h xs \<Longrightarrow> n \<notin> set (h # xs) \<Longrightarrow>
      op_add_tail ops n h l = Some l' \<Longrightarrow> dll l' h (xs @ [n])"
    and add_tail_frame: "dll l h xs \<Longrightarrow> n \<notin> set (h # xs) \<Longrightarrow>
      op_add_tail ops n h l = Some l' \<Longrightarrow> dll l h' ys \<Longrightarrow>
      set (h' # ys) \<inter> set (n # h # xs) = {} \<Longrightarrow> dll l' h' ys"
    and del_ok: "dll l h xs \<Longrightarrow> n \<in> set xs \<Longrightarrow> \<exists>l'. op_del ops n l = Some l'"
    and del_dll: "dll l h xs \<Longrightarrow> n \<in> set xs \<Longrightarrow> op_del ops n l = Some l' \<Longrightarrow>
      dll l' h (remove1 n xs)"
    and del_frame: "dll l h xs \<Longrightarrow> n \<in> set xs \<Longrightarrow> op_del ops n l = Some l' \<Longrightarrow>
      dll l h' ys \<Longrightarrow> set (h' # ys) \<inter> set (h # xs) = {} \<Longrightarrow> dll l' h' ys"
    and del_not_empty: "dll l h xs \<Longrightarrow> n \<in> set xs \<Longrightarrow> op_del ops n l = Some l' \<Longrightarrow>
      \<not> op_empty ops n l'"
    and empty_iff: "dll l h xs \<Longrightarrow> op_empty ops h l \<longleftrightarrow> xs = []"
    and entries_eq: "dll l h xs \<Longrightarrow> op_entries ops h l = xs"
begin

text \<open>The contents of a head are a function of the links.\<close>

lemma dll_unique: "dll l h xs \<Longrightarrow> dll l h ys \<Longrightarrow> xs = ys"
  using entries_eq by metis

text \<open>Appending a node and removing it again restores the list.\<close>

lemma add_del_roundtrip:
  assumes "dll l h xs" and "n \<notin> set (h # xs)" and "op_add_tail ops n h l = Some l1"
  shows "\<exists>l2. op_del ops n l1 = Some l2 \<and> dll l2 h xs"
proof -
  have l1: "dll l1 h (xs @ [n])" using assms by (rule add_tail_dll)
  then obtain l2 where l2: "op_del ops n l1 = Some l2" using del_ok by fastforce
  with l1 have "dll l2 h (remove1 n (xs @ [n]))" using del_dll by fastforce
  with assms(2) l2 show ?thesis by (simp add: remove1_append)
qed

text \<open>Removing a node and appending it again moves it to the tail.\<close>

lemma del_add_rotates:
  assumes "dll l h xs" and "n \<in> set xs" and "op_del ops n l = Some l1"
  shows "\<exists>l2. op_add_tail ops n h l1 = Some l2 \<and> dll l2 h (remove1 n xs @ [n])"
proof -
  have d: "distinct (h # xs)" using assms(1) by (rule dll_distinct)
  have l1: "dll l1 h (remove1 n xs)" using assms by (rule del_dll)
  have n: "n \<notin> set (h # remove1 n xs)" using d assms(2) by auto
  then obtain l2 where l2: "op_add_tail ops n h l1 = Some l2" using l1 add_tail_ok by blast
  with l1 n have "dll l2 h (remove1 n xs @ [n])" using add_tail_dll by blast
  with l2 show ?thesis by blast
qed

end

section \<open>A pointer heap that implements the contract\<close>

datatype ptr = At lnode | Poison1 | Poison2

record list_heap =
  lh_next :: "lnode \<Rightarrow> ptr"
  lh_prev :: "lnode \<Rightarrow> ptr"
  lh_count :: nat

definition heap_init :: "lnode \<Rightarrow> list_heap \<Rightarrow> list_heap" where
  "heap_init h l = l\<lparr>lh_next := (lh_next l)(h := At h), lh_prev := (lh_prev l)(h := At h)\<rparr>"

definition heap_add_tail :: "lnode \<Rightarrow> lnode \<Rightarrow> list_heap \<Rightarrow> list_heap option" where
  "heap_add_tail n h l = (case lh_prev l h of
     At p \<Rightarrow> Some \<lparr>lh_next = (lh_next l)(n := At h, p := At n),
                    lh_prev = (lh_prev l)(h := At n, n := At p),
                    lh_count = Suc (lh_count l)\<rparr>
   | _ \<Rightarrow> None)"

definition heap_del :: "lnode \<Rightarrow> list_heap \<Rightarrow> list_heap option" where
  "heap_del n l = (case lh_prev l n of
     At p \<Rightarrow> (case lh_next l n of
       At q \<Rightarrow> Some (l\<lparr>lh_next := (lh_next l)(p := At q, n := Poison1),
                        lh_prev := (lh_prev l)(q := At p, n := Poison2)\<rparr>)
     | _ \<Rightarrow> None)
   | _ \<Rightarrow> None)"

definition heap_empty :: "lnode \<Rightarrow> list_heap \<Rightarrow> bool" where
  "heap_empty h l \<longleftrightarrow> lh_next l h = At h"

fun heap_walk :: "nat \<Rightarrow> (lnode \<Rightarrow> ptr) \<Rightarrow> lnode \<Rightarrow> lnode \<Rightarrow> lnode list" where
  "heap_walk 0 nx h a = []"
| "heap_walk (Suc m) nx h a =
     (case nx a of At b \<Rightarrow> if b = h then [] else b # heap_walk m nx h b | _ \<Rightarrow> [])"

definition heap_entries :: "lnode \<Rightarrow> list_heap \<Rightarrow> lnode list" where
  "heap_entries h l = heap_walk (lh_count l) (lh_next l) h h"

definition heap_ops :: "list_heap list_ops" where
  "heap_ops = \<lparr>op_init = heap_init, op_add_tail = heap_add_tail, op_del = heap_del,
     op_empty = heap_empty, op_entries = heap_entries\<rparr>"

text \<open>The segment from \<open>a\<close> to \<open>b\<close> with the nodes \<open>xs\<close> between them.\<close>

fun lseg :: "(lnode \<Rightarrow> ptr) \<Rightarrow> (lnode \<Rightarrow> ptr) \<Rightarrow> lnode \<Rightarrow> lnode list \<Rightarrow> lnode \<Rightarrow> bool"
where
  "lseg nx pv a [] b \<longleftrightarrow> nx a = At b \<and> pv b = At a"
| "lseg nx pv a (x # xs) b \<longleftrightarrow> nx a = At x \<and> pv x = At a \<and> lseg nx pv x xs b"

definition heap_dll :: "list_heap \<Rightarrow> lnode \<Rightarrow> lnode list \<Rightarrow> bool" where
  "heap_dll l h xs \<longleftrightarrow>
     distinct (h # xs) \<and> lseg (lh_next l) (lh_prev l) h xs h \<and> length xs \<le> lh_count l"

lemma lseg_append:
  "lseg nx pv a (xs @ y # ys) b \<longleftrightarrow> lseg nx pv a xs y \<and> lseg nx pv y ys b"
  by (induction xs arbitrary: a) auto

lemma lseg_prev: "lseg nx pv a xs b \<Longrightarrow> pv b = At (last (a # xs))"
  by (induction xs arbitrary: a) auto

lemma lseg_frame:
  assumes "lseg nx pv a xs b" and "\<And>y. y \<in> set (a # xs) \<Longrightarrow> nx' y = nx y"
    and "\<And>y. y \<in> set (b # xs) \<Longrightarrow> pv' y = pv y"
  shows "lseg nx' pv' a xs b"
  using assms by (induction xs arbitrary: a) auto

lemma heap_walk_lseg:
  assumes "lseg nx pv a xs h" and "h \<notin> set xs" and "length xs \<le> m"
  shows "heap_walk m nx h a = xs"
  using assms
proof (induction xs arbitrary: a m)
  case Nil
  then show ?case by (cases m) auto
next
  case (Cons x xs)
  then show ?case by (cases m) auto
qed

lemma heap_add_tail_dll:
  assumes d: "heap_dll l h xs" and n: "n \<notin> set (h # xs)"
  shows "\<exists>l'. heap_add_tail n h l = Some l' \<and> heap_dll l' h (xs @ [n])"
proof -
  let ?p = "last (h # xs)"
  let ?nx = "(lh_next l)(n := At h, ?p := At n)" and ?pv = "(lh_prev l)(h := At n, n := At ?p)"
  have seg: "lseg (lh_next l) (lh_prev l) h xs h" and dis: "distinct (h # xs)"
    using d by (auto simp: heap_dll_def)
  have p: "lh_prev l h = At ?p" using seg by (rule lseg_prev)
  have "lseg ?nx ?pv h xs n"
  proof (cases xs rule: rev_cases)
    case Nil
    with n show ?thesis by simp
  next
    case (snoc zs z)
    with seg have z: "lseg (lh_next l) (lh_prev l) h zs z" by (simp add: lseg_append)
    have "lseg ?nx ?pv h zs z"
      using z n dis snoc by (intro lseg_frame[OF z]) auto
    with snoc n dis show ?thesis by (auto simp: lseg_append)
  qed
  moreover have "lseg ?nx ?pv n [] h" using n by auto
  ultimately have "lseg ?nx ?pv h (xs @ [n]) h" by (simp add: lseg_append)
  with p n dis d show ?thesis by (auto simp: heap_add_tail_def heap_dll_def)
qed

lemma heap_del_dll:
  assumes d: "heap_dll l h xs" and n: "n \<in> set xs"
  shows "\<exists>l'. heap_del n l = Some l' \<and> heap_dll l' h (remove1 n xs) \<and> lh_next l' n = Poison1"
proof -
  obtain ys zs where xs: "xs = ys @ n # zs" using n by (meson split_list)
  have dis: "distinct (h # xs)" and seg: "lseg (lh_next l) (lh_prev l) h (ys @ n # zs) h"
    using d xs by (auto simp: heap_dll_def)
  let ?p = "last (h # ys)" and ?q = "hd (zs @ [h])"
  let ?nx = "(lh_next l)(?p := At ?q, n := Poison1)" and ?pv = "(lh_prev l)(?q := At ?p, n := Poison2)"
  have s1: "lseg (lh_next l) (lh_prev l) h ys n" and s2: "lseg (lh_next l) (lh_prev l) n zs h"
    using seg by (auto simp: lseg_append)
  have p: "lh_prev l n = At ?p" using s1 by (rule lseg_prev)
  have q: "lh_next l n = At ?q" using s2 by (cases zs) auto
  have "lseg ?nx ?pv h (ys @ zs) h"
  proof (cases zs)
    case Nil
    show ?thesis
    proof (cases ys rule: rev_cases)
      case (snoc us u)
      with s1 have u: "lseg (lh_next l) (lh_prev l) h us u" by (simp add: lseg_append)
      have "lseg ?nx ?pv h us u" using dis xs snoc Nil by (intro lseg_frame[OF u]) auto
      with snoc Nil dis xs show ?thesis by (auto simp: lseg_append)
    qed (use Nil dis xs in auto)
  next
    case (Cons z vs)
    with s2 have z: "lseg (lh_next l) (lh_prev l) z vs h" by simp
    have "?p \<in> set (h # ys)" by simp
    with dis xs Cons have p_out: "?p \<notin> set (z # vs)" by auto
    have z': "lseg ?nx ?pv z vs h"
      using dis xs Cons p_out by (intro lseg_frame[OF z]) auto
    have "lseg ?nx ?pv h ys z"
    proof (cases ys rule: rev_cases)
      case (snoc us u)
      with s1 have u: "lseg (lh_next l) (lh_prev l) h us u" by (simp add: lseg_append)
      have "lseg ?nx ?pv h us u" using dis xs snoc Cons by (intro lseg_frame[OF u]) auto
      with snoc Cons dis xs show ?thesis by (auto simp: lseg_append)
    qed (use Cons dis xs in auto)
    with z' Cons show ?thesis by (simp add: lseg_append)
  qed
  moreover have "remove1 n xs = ys @ zs" using dis xs by (simp add: remove1_append)
  ultimately show ?thesis
    using p q dis d xs by (auto simp: heap_del_def heap_dll_def)
qed

lemma heap_init_frame:
  assumes "heap_dll l h' ys" and "h \<notin> set (h' # ys)"
  shows "heap_dll (heap_init h l) h' ys"
proof -
  have y: "lseg (lh_next l) (lh_prev l) h' ys h'" using assms(1) by (simp add: heap_dll_def)
  have "lseg (lh_next (heap_init h l)) (lh_prev (heap_init h l)) h' ys h'"
    using assms(2) by (intro lseg_frame[OF y]) (auto simp: heap_init_def)
  with assms(1) show ?thesis by (simp add: heap_dll_def heap_init_def)
qed

lemma heap_add_tail_frame:
  assumes "heap_dll l h xs" and "n \<notin> set (h # xs)" and "heap_add_tail n h l = Some l'"
    and "heap_dll l h' ys" and "set (h' # ys) \<inter> set (n # h # xs) = {}"
  shows "heap_dll l' h' ys"
proof -
  have p: "lh_prev l h = At (last (h # xs))"
    using assms(1) lseg_prev[of "lh_next l" "lh_prev l" h xs h] by (simp add: heap_dll_def)
  have y: "lseg (lh_next l) (lh_prev l) h' ys h'" using assms(4) by (simp add: heap_dll_def)
  have "last (h # xs) \<in> set (h # xs)" by simp
  with assms(5) have "last (h # xs) \<notin> set (h' # ys)" by (metis IntI empty_iff list.set_intros(2))
  with assms(3,5) p have "lseg (lh_next l') (lh_prev l') h' ys h'"
    by (intro lseg_frame[OF y]) (auto simp: heap_add_tail_def)
  with assms(3,4) p show ?thesis by (auto simp: heap_add_tail_def heap_dll_def)
qed

lemma heap_del_frame:
  assumes "heap_dll l h xs" and "n \<in> set xs" and "heap_del n l = Some l'"
    and "heap_dll l h' ys" and "set (h' # ys) \<inter> set (h # xs) = {}"
  shows "heap_dll l' h' ys"
proof -
  obtain us vs where xs: "xs = us @ n # vs" using assms(2) by (meson split_list)
  have seg: "lseg (lh_next l) (lh_prev l) h us n" "lseg (lh_next l) (lh_prev l) n vs h"
    using assms(1) xs by (auto simp: heap_dll_def lseg_append)
  have p: "lh_prev l n = At (last (h # us))" using seg(1) by (rule lseg_prev)
  have q: "lh_next l n = At (hd (vs @ [h]))" using seg(2) by (cases vs) auto
  have y: "lseg (lh_next l) (lh_prev l) h' ys h'" using assms(4) by (simp add: heap_dll_def)
  have "last (h # us) \<in> set (h # xs)" "hd (vs @ [h]) \<in> set (h # xs)"
    using xs by (auto simp: hd_append)
  with assms(2,5) have "\<And>z. z \<in> set (h' # ys) \<Longrightarrow> z \<noteq> last (h # us) \<and> z \<noteq> hd (vs @ [h]) \<and> z \<noteq> n"
    by auto
  then have "lseg (lh_next l') (lh_prev l') h' ys h'"
    using assms(3) p q by (intro lseg_frame[OF y]) (auto simp: heap_del_def)
  with assms(3,4) p q show ?thesis by (auto simp: heap_del_def heap_dll_def)
qed

interpretation heap_list: linux_list heap_ops heap_dll
proof unfold_locales
  fix l :: list_heap and h h' n :: lnode and xs ys :: "lnode list" and l' :: list_heap
  show "heap_dll l h xs \<Longrightarrow> distinct (h # xs)" by (simp add: heap_dll_def)
  show "heap_dll (op_init heap_ops h l) h []"
    by (simp add: heap_ops_def heap_init_def heap_dll_def)
  show "heap_dll l h' ys \<Longrightarrow> h \<notin> set (h' # ys) \<Longrightarrow> heap_dll (op_init heap_ops h l) h' ys"
    using heap_init_frame[of l h' ys h] by (simp add: heap_ops_def)
  show "heap_dll l h xs \<Longrightarrow> n \<notin> set (h # xs) \<Longrightarrow> \<exists>l'. op_add_tail heap_ops n h l = Some l'"
    using heap_add_tail_dll by (fastforce simp: heap_ops_def)
  show "heap_dll l h xs \<Longrightarrow> n \<notin> set (h # xs) \<Longrightarrow> op_add_tail heap_ops n h l = Some l' \<Longrightarrow>
      heap_dll l' h (xs @ [n])"
    using heap_add_tail_dll[of l h xs n] by (auto simp: heap_ops_def)
  show "heap_dll l h xs \<Longrightarrow> n \<notin> set (h # xs) \<Longrightarrow> op_add_tail heap_ops n h l = Some l' \<Longrightarrow>
      heap_dll l h' ys \<Longrightarrow> set (h' # ys) \<inter> set (n # h # xs) = {} \<Longrightarrow> heap_dll l' h' ys"
    using heap_add_tail_frame[of l h xs n l' h' ys] by (simp add: heap_ops_def)
  show "heap_dll l h xs \<Longrightarrow> n \<in> set xs \<Longrightarrow> \<exists>l'. op_del heap_ops n l = Some l'"
    using heap_del_dll by (fastforce simp: heap_ops_def)
  show "heap_dll l h xs \<Longrightarrow> n \<in> set xs \<Longrightarrow> op_del heap_ops n l = Some l' \<Longrightarrow>
      heap_dll l' h (remove1 n xs)"
    using heap_del_dll[of l h xs n] by (auto simp: heap_ops_def)
  show "heap_dll l h xs \<Longrightarrow> n \<in> set xs \<Longrightarrow> op_del heap_ops n l = Some l' \<Longrightarrow>
      heap_dll l h' ys \<Longrightarrow> set (h' # ys) \<inter> set (h # xs) = {} \<Longrightarrow> heap_dll l' h' ys"
    using heap_del_frame[of l h xs n l' h' ys] by (simp add: heap_ops_def)
  show "heap_dll l h xs \<Longrightarrow> n \<in> set xs \<Longrightarrow> op_del heap_ops n l = Some l' \<Longrightarrow>
      \<not> op_empty heap_ops n l'"
    using heap_del_dll[of l h xs n] by (auto simp: heap_ops_def heap_empty_def)
  show "heap_dll l h xs \<Longrightarrow> op_empty heap_ops h l \<longleftrightarrow> xs = []"
    by (cases xs) (auto simp: heap_ops_def heap_empty_def heap_dll_def)
  show "heap_dll l h xs \<Longrightarrow> op_entries heap_ops h l = xs"
    by (auto simp: heap_ops_def heap_entries_def heap_dll_def heap_walk_lseg)
qed

text \<open>An empty heap: no node is linked.\<close>

definition heap0 :: list_heap where
  "heap0 = \<lparr>lh_next = (\<lambda>_. Poison1), lh_prev = (\<lambda>_. Poison2), lh_count = 0\<rparr>"

end
