(* ===== verification/Sched_Env.thy ===== *)
theory Sched_Env
  imports List_API
begin

text \<open>
  The scheduling class interface (\<open>struct sched_class\<close> of \<open>kernel/sched/sched.h\<close>) and the
  table of the functions outside the repository that the runqueue code calls.

  Every hook of a class is an option: \<open>None\<close> is a NULL function pointer, and calling it is an
  oops, which the option chain \<open>do { f \<leftarrow> hook; f args }\<close> makes \<open>None\<close>.
\<close>

section \<open>Class hooks\<close>

(* sched.h 2136-2199: struct sched_class *)
record ('x, 'l) vtable =
  vt_uclamp_enabled :: bool
  vt_enqueue_task ::
    "(cpu \<Rightarrow> tid \<Rightarrow> u32 \<Rightarrow> ('x, 'l) kernel \<Rightarrow> ('x, 'l) kernel option) option"
  vt_dequeue_task ::
    "(cpu \<Rightarrow> tid \<Rightarrow> u32 \<Rightarrow> ('x, 'l) kernel \<Rightarrow> ('x, 'l) kernel option) option"
  vt_yield_task :: "(cpu \<Rightarrow> ('x, 'l) kernel \<Rightarrow> ('x, 'l) kernel option) option"
  vt_yield_to_task ::
    "(cpu \<Rightarrow> tid \<Rightarrow> ('x, 'l) kernel \<Rightarrow> (bool \<times> ('x, 'l) kernel) option) option"
  vt_check_preempt_curr ::
    "(cpu \<Rightarrow> tid \<Rightarrow> u32 \<Rightarrow> ('x, 'l) kernel \<Rightarrow> ('x, 'l) kernel option) option"
  vt_pick_next_task ::
    "(cpu \<Rightarrow> ('x, 'l) kernel \<Rightarrow> (tid option \<times> ('x, 'l) kernel) option) option"
  vt_put_prev_task :: "(cpu \<Rightarrow> tid \<Rightarrow> ('x, 'l) kernel \<Rightarrow> ('x, 'l) kernel option) option"
  vt_set_next_task ::
    "(cpu \<Rightarrow> tid \<Rightarrow> bool \<Rightarrow> ('x, 'l) kernel \<Rightarrow> ('x, 'l) kernel option) option"
  vt_balance ::
    "(cpu \<Rightarrow> tid \<Rightarrow> ('x, 'l) kernel \<Rightarrow> (int \<times> ('x, 'l) kernel) option) option"
  vt_select_task_rq ::
    "(tid \<Rightarrow> cpu \<Rightarrow> u32 \<Rightarrow> ('x, 'l) kernel \<Rightarrow> (cpu \<times> ('x, 'l) kernel) option) option"
  vt_pick_task ::
    "(cpu \<Rightarrow> ('x, 'l) kernel \<Rightarrow> (tid option \<times> ('x, 'l) kernel) option) option"
  vt_migrate_task_rq :: "(tid \<Rightarrow> cpu \<Rightarrow> ('x, 'l) kernel \<Rightarrow> ('x, 'l) kernel option) option"
  vt_task_woken :: "(cpu \<Rightarrow> tid \<Rightarrow> ('x, 'l) kernel \<Rightarrow> ('x, 'l) kernel option) option"
  vt_set_cpus_allowed ::
    "(tid \<Rightarrow> cpu set \<Rightarrow> u32 \<Rightarrow> ('x, 'l) kernel \<Rightarrow> ('x, 'l) kernel option) option"
  vt_rq_online :: "(cpu \<Rightarrow> ('x, 'l) kernel \<Rightarrow> ('x, 'l) kernel option) option"
  vt_rq_offline :: "(cpu \<Rightarrow> ('x, 'l) kernel \<Rightarrow> ('x, 'l) kernel option) option"
  vt_find_lock_rq :: "(tid \<Rightarrow> cpu \<Rightarrow> ('x, 'l) kernel \<Rightarrow> cpu option) option"
  vt_task_tick ::
    "(cpu \<Rightarrow> tid \<Rightarrow> int \<Rightarrow> ('x, 'l) kernel \<Rightarrow> ('x, 'l) kernel option) option"
  vt_task_fork :: "(tid \<Rightarrow> ('x, 'l) kernel \<Rightarrow> ('x, 'l) kernel option) option"
  vt_task_dead :: "(tid \<Rightarrow> ('x, 'l) kernel \<Rightarrow> ('x, 'l) kernel option) option"
  vt_switched_from :: "(cpu \<Rightarrow> tid \<Rightarrow> ('x, 'l) kernel \<Rightarrow> ('x, 'l) kernel option) option"
  vt_switched_to :: "(cpu \<Rightarrow> tid \<Rightarrow> ('x, 'l) kernel \<Rightarrow> ('x, 'l) kernel option) option"
  vt_prio_changed ::
    "(cpu \<Rightarrow> tid \<Rightarrow> int \<Rightarrow> ('x, 'l) kernel \<Rightarrow> ('x, 'l) kernel option) option"
  vt_get_rr_interval :: "(cpu \<Rightarrow> tid \<Rightarrow> ('x, 'l) kernel \<Rightarrow> u32) option"
  vt_update_curr :: "(cpu \<Rightarrow> ('x, 'l) kernel \<Rightarrow> ('x, 'l) kernel option) option"
  vt_task_change_group :: "(tid \<Rightarrow> int \<Rightarrow> ('x, 'l) kernel \<Rightarrow> ('x, 'l) kernel option) option"

text \<open>A table with every hook NULL.\<close>

definition null_vtable :: "('x, 'l) vtable" where
  "null_vtable = \<lparr>vt_uclamp_enabled = False, vt_enqueue_task = None, vt_dequeue_task = None,
     vt_yield_task = None, vt_yield_to_task = None, vt_check_preempt_curr = None,
     vt_pick_next_task = None, vt_put_prev_task = None, vt_set_next_task = None,
     vt_balance = None, vt_select_task_rq = None, vt_pick_task = None,
     vt_migrate_task_rq = None, vt_task_woken = None, vt_set_cpus_allowed = None,
     vt_rq_online = None, vt_rq_offline = None, vt_find_lock_rq = None, vt_task_tick = None,
     vt_task_fork = None, vt_task_dead = None, vt_switched_from = None, vt_switched_to = None,
     vt_prio_changed = None, vt_get_rr_interval = None, vt_update_curr = None,
     vt_task_change_group = None\<rparr>"

section \<open>Enqueue, dequeue and wake flags\<close>

(* sched.h 2116-2116: DEQUEUE_SLEEP *)
definition DEQUEUE_SLEEP :: u32 where "DEQUEUE_SLEEP = 0x01"

(* sched.h 2117-2117: DEQUEUE_SAVE *)
definition DEQUEUE_SAVE :: u32 where "DEQUEUE_SAVE = 0x02"

(* sched.h 2118-2118: DEQUEUE_MOVE *)
definition DEQUEUE_MOVE :: u32 where "DEQUEUE_MOVE = 0x04"

(* sched.h 2119-2119: DEQUEUE_NOCLOCK *)
definition DEQUEUE_NOCLOCK :: u32 where "DEQUEUE_NOCLOCK = 0x08"

(* sched.h 2121-2121: ENQUEUE_WAKEUP *)
definition ENQUEUE_WAKEUP :: u32 where "ENQUEUE_WAKEUP = 0x01"

(* sched.h 2122-2122: ENQUEUE_RESTORE *)
definition ENQUEUE_RESTORE :: u32 where "ENQUEUE_RESTORE = 0x02"

(* sched.h 2123-2123: ENQUEUE_MOVE *)
definition ENQUEUE_MOVE :: u32 where "ENQUEUE_MOVE = 0x04"

(* sched.h 2124-2124: ENQUEUE_NOCLOCK *)
definition ENQUEUE_NOCLOCK :: u32 where "ENQUEUE_NOCLOCK = 0x08"

(* sched.h 2126-2126: ENQUEUE_HEAD *)
definition ENQUEUE_HEAD :: u32 where "ENQUEUE_HEAD = 0x10"

(* sched.h 2127-2127: ENQUEUE_REPLENISH *)
definition ENQUEUE_REPLENISH :: u32 where "ENQUEUE_REPLENISH = 0x20"

(* sched.h !2128-2132: ENQUEUE_MIGRATED *)
definition ENQUEUE_MIGRATED :: "bool \<Rightarrow> u32" where
  "ENQUEUE_MIGRATED smp = (if smp then 0x40 else 0x00)"

(* sched.h 2069-2069: WF_EXEC *)
definition WF_EXEC :: u32 where "WF_EXEC = 0x02"

(* sched.h 2070-2070: WF_FORK *)
definition WF_FORK :: u32 where "WF_FORK = 0x04"

(* sched.h 2071-2071: WF_TTWU *)
definition WF_TTWU :: u32 where "WF_TTWU = 0x08"

(* sched.h 2073-2073: WF_SYNC *)
definition WF_SYNC :: u32 where "WF_SYNC = 0x10"

(* sched.h 2074-2074: WF_MIGRATED *)
definition WF_MIGRATED :: u32 where "WF_MIGRATED = 0x20"

(* sched.h 1468-1468: RQCF_REQ_SKIP *)
definition RQCF_REQ_SKIP :: u32 where "RQCF_REQ_SKIP = 0x01"

(* sched.h 1469-1469: RQCF_ACT_SKIP *)
definition RQCF_ACT_SKIP :: u32 where "RQCF_ACT_SKIP = 0x02"

(* sched.h 1470-1470: RQCF_UPDATED *)
definition RQCF_UPDATED :: u32 where "RQCF_UPDATED = 0x04"

lemmas queue_flag_defs = DEQUEUE_SLEEP_def DEQUEUE_SAVE_def DEQUEUE_MOVE_def DEQUEUE_NOCLOCK_def
  ENQUEUE_WAKEUP_def ENQUEUE_RESTORE_def ENQUEUE_MOVE_def ENQUEUE_NOCLOCK_def ENQUEUE_HEAD_def
  ENQUEUE_REPLENISH_def ENQUEUE_MIGRATED_def WF_EXEC_def WF_FORK_def WF_TTWU_def WF_SYNC_def
  WF_MIGRATED_def RQCF_REQ_SKIP_def RQCF_ACT_SKIP_def RQCF_UPDATED_def

section \<open>The environment\<close>

text \<open>
  The build options the modelled code tests, the tables of the other scheduling classes
  (\<open>fair.c\<close>, \<open>rt.c\<close>, \<open>deadline.c\<close>, \<open>idle.c\<close> and \<open>stop_task.c\<close> are not in
  the repository), and the functions of other subsystems. A function that returns \<open>'x\<close> changes
  only the state of its own subsystem. The components of later theories have tables of their own,
  which an environment carries in the \<open>more\<close> part of the record.
\<close>

text \<open>The result of \<open>pick_next_task_fair\<close>: \<open>RETRY_TASK\<close>, NULL or a task.\<close>

datatype fair_pick = RETRY_TASK | Picked "tid option"

record ('x, 'l) env =
  e_smp :: bool
  e_sched_debug :: bool
  e_warn_double_clock :: bool
  e_irq_time_accounting :: bool
  e_paravirt_time :: bool
  e_sched_avg_irq :: bool
  e_uclamp :: bool
  e_uclamp_group :: bool
  e_uclamp_buckets :: nat
  e_list :: "'l list_ops"
  e_class :: "sched_class \<Rightarrow> ('x, 'l) vtable"
  e_sched_clock_cpu :: "cpu \<Rightarrow> ('x, 'l) kernel \<Rightarrow> u64"
  e_irq_time_read :: "cpu \<Rightarrow> ('x, 'l) kernel \<Rightarrow> u64"
  e_paravirt_steal_clock :: "cpu \<Rightarrow> ('x, 'l) kernel \<Rightarrow> u64"
  e_update_rq_clock_pelt :: "cpu \<Rightarrow> u64 \<Rightarrow> ('x, 'l) kernel \<Rightarrow> 'x"
  e_update_irq_load_avg :: "cpu \<Rightarrow> u64 \<Rightarrow> ('x, 'l) kernel \<Rightarrow> 'x"
  e_smp_send_reschedule :: "cpu \<Rightarrow> ('x, 'l) kernel \<Rightarrow> 'x"
  e_sched_info_enqueue :: "cpu \<Rightarrow> tid \<Rightarrow> ('x, 'l) kernel \<Rightarrow> 'x"
  e_sched_info_dequeue :: "cpu \<Rightarrow> tid \<Rightarrow> ('x, 'l) kernel \<Rightarrow> 'x"
  e_psi_enqueue :: "tid \<Rightarrow> bool \<Rightarrow> ('x, 'l) kernel \<Rightarrow> 'x"
  e_psi_dequeue :: "tid \<Rightarrow> bool \<Rightarrow> ('x, 'l) kernel \<Rightarrow> 'x"
  e_css_tree :: "tgid \<Rightarrow> ('x, 'l) kernel \<Rightarrow> css_tree"
  e_css_tasks :: "tgid \<Rightarrow> ('x, 'l) kernel \<Rightarrow> tid list"
  e_threads :: "('x, 'l) kernel \<Rightarrow> tid list"
  e_proc_dointvec :: "bool \<Rightarrow> u32 \<times> u32 \<times> u32 \<Rightarrow> string \<Rightarrow> int \<times> u32 \<times> u32 \<times> u32"
  e_strim :: "string \<Rightarrow> string"
  e_cgroup_parse_float :: "string \<Rightarrow> nat \<Rightarrow> int \<times> u64"
  e_rt_mutexes :: bool
  e_sugov :: bool
  e_util_est :: bool
  e_reweight_task :: "tid \<Rightarrow> load_weight \<Rightarrow> ('x, 'l) kernel \<Rightarrow> 'x \<times> load_weight"
  e_balance_callback :: "nat \<Rightarrow> cpu \<Rightarrow> ('x, 'l) kernel \<Rightarrow> ('x, 'l) kernel option"
  e_rlimit_nice :: "tid \<Rightarrow> ('x, 'l) kernel \<Rightarrow> u32"
  e_rlimit_rtprio :: "tid \<Rightarrow> ('x, 'l) kernel \<Rightarrow> u32"
  e_capable :: "int \<Rightarrow> ('x, 'l) kernel \<Rightarrow> bool"
  e_security_task_setnice :: "tid \<Rightarrow> int \<Rightarrow> ('x, 'l) kernel \<Rightarrow> int"
  e_vcpu_is_preempted :: "cpu \<Rightarrow> ('x, 'l) kernel \<Rightarrow> bool"
  e_in_interrupt :: "('x, 'l) kernel \<Rightarrow> bool"
  e_checkparam_dl :: "sched_attr \<Rightarrow> bool"
  e_dl_param_changed :: "tid \<Rightarrow> sched_attr \<Rightarrow> ('x, 'l) kernel \<Rightarrow> bool"
  e_sched_dl_overflow :: "tid \<Rightarrow> int \<Rightarrow> sched_attr \<Rightarrow> ('x, 'l) kernel \<Rightarrow> bool \<times> 'x"
  e_setparam_dl :: "tid \<Rightarrow> sched_attr \<Rightarrow> ('x, 'l) kernel \<Rightarrow> 'x \<times> u64"
  e_getparam_dl :: "tid \<Rightarrow> sched_attr \<Rightarrow> ('x, 'l) kernel \<Rightarrow> sched_attr"
  e_security_task_setscheduler :: "tid \<Rightarrow> ('x, 'l) kernel \<Rightarrow> int"
  e_security_task_getscheduler :: "tid \<Rightarrow> ('x, 'l) kernel \<Rightarrow> int"
  e_rt_group_sched :: bool
  e_rd_span :: "cpu \<Rightarrow> ('x, 'l) kernel \<Rightarrow> cpu set"
  e_rd_dl_bw :: "cpu \<Rightarrow> ('x, 'l) kernel \<Rightarrow> u64"
  e_rt_mutex_adjust_pi :: "tid \<Rightarrow> ('x, 'l) kernel \<Rightarrow> ('x, 'l) kernel option"
  e_find_task :: "int \<Rightarrow> ('x, 'l) kernel \<Rightarrow> tid option"
  e_latency_warn :: bool
  e_system_booting :: "('x, 'l) kernel \<Rightarrow> bool"
  e_pick_next_task_fair ::
    "cpu \<Rightarrow> tid \<Rightarrow> ('x, 'l) kernel \<Rightarrow> (fair_pick \<times> ('x, 'l) kernel) option"
  e_pick_next_task_idle :: "cpu \<Rightarrow> ('x, 'l) kernel \<Rightarrow> (tid \<times> ('x, 'l) kernel) option"
  e_schedule_enter :: "cpu \<Rightarrow> bool \<Rightarrow> ('x, 'l) kernel \<Rightarrow> 'x"
  e_signal_pending_state :: "u32 \<Rightarrow> tid \<Rightarrow> ('x, 'l) kernel \<Rightarrow> bool"
  e_delayacct_blkio_start :: "tid \<Rightarrow> ('x, 'l) kernel \<Rightarrow> 'x"
  e_psi_sched_switch :: "tid \<Rightarrow> tid \<Rightarrow> bool \<Rightarrow> ('x, 'l) kernel \<Rightarrow> 'x"
  e_nr_cpu_ids :: nat
  e_cpu_online :: "cpu \<Rightarrow> ('x, 'l) kernel \<Rightarrow> bool"
  e_cpu_active :: "cpu \<Rightarrow> ('x, 'l) kernel \<Rightarrow> bool"
  e_cpu_dying :: "cpu \<Rightarrow> ('x, 'l) kernel \<Rightarrow> bool"
  e_task_cpu_possible :: "cpu \<Rightarrow> tid \<Rightarrow> ('x, 'l) kernel \<Rightarrow> bool"
  e_task_cpu_possible_mask :: "tid \<Rightarrow> ('x, 'l) kernel \<Rightarrow> cpu set"
  e_kthread_is_per_cpu :: "tid \<Rightarrow> ('x, 'l) kernel \<Rightarrow> bool"
  e_cpu_to_node :: "cpu \<Rightarrow> nat option"
  e_cpumask_of_node :: "nat \<Rightarrow> cpu set"
  e_cpuset_fallback :: "tid \<Rightarrow> ('x, 'l) kernel \<Rightarrow> (bool \<times> ('x, 'l) kernel) option"
  e_migrate_task :: "tid \<Rightarrow> ('x, 'l) kernel \<Rightarrow> 'x"
  e_kmalloc_ok :: "('x, 'l) kernel \<Rightarrow> bool"
  e_prepare_switch :: "cpu \<Rightarrow> tid \<Rightarrow> tid \<Rightarrow> ('x, 'l) kernel \<Rightarrow> 'x"
  e_switch_mm :: "nat option \<Rightarrow> nat option \<Rightarrow> tid \<Rightarrow> ('x, 'l) kernel \<Rightarrow> 'x"
  e_mmgrab :: "nat option \<Rightarrow> ('x, 'l) kernel \<Rightarrow> 'x"
  e_mmdrop :: "nat \<Rightarrow> ('x, 'l) kernel \<Rightarrow> 'x"
  e_mm_membarrier_state :: "nat \<Rightarrow> ('x, 'l) kernel \<Rightarrow> int"
  e_finish_switch :: "cpu \<Rightarrow> tid \<Rightarrow> ('x, 'l) kernel \<Rightarrow> 'x"
  e_task_dead :: "tid \<Rightarrow> ('x, 'l) kernel \<Rightarrow> 'x"
  e_submit_work :: "tid \<Rightarrow> ('x, 'l) kernel \<Rightarrow> ('x, 'l) kernel option"
  e_update_worker :: "tid \<Rightarrow> ('x, 'l) kernel \<Rightarrow> ('x, 'l) kernel option"
  e_tick_thermal :: "cpu \<Rightarrow> ('x, 'l) kernel \<Rightarrow> 'x"
  e_calc_global_load_tick :: "cpu \<Rightarrow> ('x, 'l) kernel \<Rightarrow> 'x"
  e_resched_latency_warn :: "cpu \<Rightarrow> u64 \<Rightarrow> ('x, 'l) kernel \<Rightarrow> 'x"
  e_perf_event_task_tick :: "cpu \<Rightarrow> ('x, 'l) kernel \<Rightarrow> 'x"
  e_trigger_load_balance :: "cpu \<Rightarrow> ('x, 'l) kernel \<Rightarrow> 'x"

section \<open>Class order\<close>

(* sched.h 2230-2230: sched_class_highest *)
definition sched_class_highest :: sched_class where
  "sched_class_highest = last sched_class_section"

text \<open>\<open>for_class_range(class, from, to)\<close>: the classes at the addresses from \<open>from\<close> down to,
  but without, \<open>to\<close>; and \<open>for_each_class\<close>, which ends below the first class.\<close>

(* sched.h !2233-2234: for_class_range *)
definition for_class_range :: "sched_class \<Rightarrow> sched_class \<Rightarrow> sched_class list" where
  "for_class_range from to =
     rev (drop (Suc (class_addr to)) (take (Suc (class_addr from)) sched_class_section))"

(* sched.h !2236-2237: for_each_class *)
definition for_each_class :: "sched_class list" where
  "for_each_class = rev (take (Suc (class_addr sched_class_highest)) sched_class_section)"

lemma for_each_class_eq:
  "for_each_class = [Lottery_class, Stop_class, Dl_class, Rt_class, Fair_class, Idle_class]"
  by (simp add: for_each_class_def sched_class_highest_def sched_class_section_def)

text \<open>Every class is visited, from the highest address down.\<close>

lemma for_each_class_sorted: "sorted_wrt (\<lambda>c d. d < c) for_each_class"
  by (simp add: for_each_class_eq class_order_defs)

lemma for_each_class_complete: "set for_each_class = UNIV"
proof -
  have "c \<in> set for_each_class" for c by (cases c) (simp_all add: for_each_class_eq)
  then show ?thesis by blast
qed

end
