(* ===== verification/Rq_Clock.thy ===== *)
theory Rq_Clock
  imports Sched_Env
begin

text \<open>
  The runqueue clocks (\<open>update_rq_clock\<close>, \<open>update_rq_clock_task\<close> and the skip flags) and
  the request to reschedule (\<open>resched_curr\<close>). Clock values are 64-bit words; a difference is
  compared as the signed number the source declares it to be.
\<close>

section \<open>Skip flags\<close>

(* sched.h 1515-1519: rq_clock_skip_update *)
definition rq_clock_skip_update :: "cpu \<Rightarrow> ('x, 'l) kernel \<Rightarrow> ('x, 'l) kernel" where
  "rq_clock_skip_update c =
     upd_rq c (\<lambda>r. r\<lparr>rq_clock_update_flags := rq_clock_update_flags r OR RQCF_REQ_SKIP\<rparr>)"

(* sched.h 1525-1529: rq_clock_cancel_skipupdate *)
definition rq_clock_cancel_skipupdate :: "cpu \<Rightarrow> ('x, 'l) kernel \<Rightarrow> ('x, 'l) kernel" where
  "rq_clock_cancel_skipupdate c = upd_rq c
     (\<lambda>r. r\<lparr>rq_clock_update_flags := clear_flag (rq_clock_update_flags r) RQCF_REQ_SKIP\<rparr>)"

(* sched.h 1472-1479: assert_clock_updated *)
definition assert_clock_updated :: "cpu \<Rightarrow> ('x, 'l) kernel \<Rightarrow> ('x, 'l) kernel" where
  "assert_clock_updated c k =
     warn_on ''assert_clock_updated'' (rq_clock_update_flags (cpu_rq k c) < RQCF_ACT_SKIP) k"

(* sched.h 1481-1487: rq_clock *)
definition rq_clock_read :: "cpu \<Rightarrow> ('x, 'l) kernel \<Rightarrow> u64 \<times> ('x, 'l) kernel" where
  "rq_clock_read c k = (let k = assert_clock_updated c k in (rq_clock (cpu_rq k c), k))"

(* sched.h 1489-1495: rq_clock_task *)
definition rq_clock_task_read :: "cpu \<Rightarrow> ('x, 'l) kernel \<Rightarrow> u64 \<times> ('x, 'l) kernel" where
  "rq_clock_task_read c k = (let k = assert_clock_updated c k in (rq_clock_task (cpu_rq k c), k))"

section \<open>Advancing the clocks\<close>

text \<open>The interrupt time and the steal time that are taken off the task clock, each capped by
  what is left of the delta.\<close>

definition sgt :: "u64 \<Rightarrow> u64 \<Rightarrow> bool" where
  "sgt a b \<longleftrightarrow> sint b < sint a"

(* core.c 611-665: update_rq_clock_task *)
definition update_rq_clock_task ::
    "('x, 'l, 'm) env_scheme \<Rightarrow> cpu \<Rightarrow> u64 \<Rightarrow> ('x, 'l) kernel \<Rightarrow> ('x, 'l) kernel" where
  "update_rq_clock_task env c delta k =
     (let irq_delta = (if e_irq_time_accounting env
            then let d = e_irq_time_read env c k - rq_prev_irq_time (cpu_rq k c)
                 in if sgt d delta then delta else d
            else 0);
          k = (if e_irq_time_accounting env
            then upd_rq c (\<lambda>r. r\<lparr>rq_prev_irq_time := rq_prev_irq_time r + irq_delta\<rparr>) k else k);
          delta = delta - irq_delta;
          prev_steal = e_paravirt_steal_clock env c k;
          steal = (if e_paravirt_time env
            then let s = prev_steal - rq_prev_steal_time (cpu_rq k c)
                 in if sgt s delta then delta else s
            else 0);
          k = (if e_paravirt_time env
            then upd_rq c (\<lambda>r. r\<lparr>rq_prev_steal_time := prev_steal\<rparr>) k else k);
          delta = delta - steal;
          k = upd_rq c (\<lambda>r. r\<lparr>rq_clock_task := rq_clock_task r + delta\<rparr>) k;
          k = (if e_sched_avg_irq env \<and> irq_delta + steal \<noteq> 0
            then ext_do (e_update_irq_load_avg env c (irq_delta + steal)) k else k)
      in ext_do (e_update_rq_clock_pelt env c delta) k)"

(* core.c 667-687: update_rq_clock *)
definition update_rq_clock ::
    "('x, 'l, 'm) env_scheme \<Rightarrow> cpu \<Rightarrow> ('x, 'l) kernel \<Rightarrow> ('x, 'l) kernel" where
  "update_rq_clock env c k =
     (if has_flag (rq_clock_update_flags (cpu_rq k c)) RQCF_ACT_SKIP then k
      else
       let k = (if e_sched_debug env
                then upd_rq c
                  (\<lambda>r. r\<lparr>rq_clock_update_flags := rq_clock_update_flags r OR RQCF_UPDATED\<rparr>)
                  (warn_on ''update_rq_clock''
                    (e_warn_double_clock env \<and>
                     has_flag (rq_clock_update_flags (cpu_rq k c)) RQCF_UPDATED) k)
                else k);
           delta = e_sched_clock_cpu env c k - rq_clock (cpu_rq k c)
       in if sint delta < 0 then k
          else update_rq_clock_task env c delta
                 (upd_rq c (\<lambda>r. r\<lparr>rq_clock := rq_clock r + delta\<rparr>) k))"

section \<open>Requesting a reschedule\<close>

(* core.c 826-830: set_nr_and_not_polling#1 *)
definition set_nr_and_not_polling :: "tid \<Rightarrow> ('x, 'l) kernel \<Rightarrow> bool \<times> ('x, 'l) kernel" where
  "set_nr_and_not_polling p k =
     (\<not> t_polling (tsk k p), upd_task p (\<lambda>t. t\<lparr>t_need_resched := True\<rparr>) k)"

text \<open>The retry loop of \<open>set_nr_if_polling\<close> ends with the flags either seen set or set.\<close>

(* core.c 838-854: set_nr_if_polling#1 *)
definition set_nr_if_polling :: "tid \<Rightarrow> ('x, 'l) kernel \<Rightarrow> bool \<times> ('x, 'l) kernel" where
  "set_nr_if_polling p k =
     (if \<not> t_polling (tsk k p) then (False, k)
      else if t_need_resched (tsk k p) then (True, k)
      else (True, upd_task p (\<lambda>t. t\<lparr>t_need_resched := True\<rparr>) k))"

(* core.c 965-987: resched_curr *)
definition resched_curr ::
    "('x, 'l, 'm) env_scheme \<Rightarrow> cpu \<Rightarrow> ('x, 'l) kernel \<Rightarrow> ('x, 'l) kernel" where
  "resched_curr env c k =
     (let curr = rq_curr (cpu_rq k c) in
      if t_need_resched (tsk k curr) then k
      else if c = k_this_cpu k then
        (upd_task curr (\<lambda>t. t\<lparr>t_need_resched := True\<rparr>) k)\<lparr>k_preempt_need_resched := True\<rparr>
      else
        let (ipi, k) = set_nr_and_not_polling curr k
        in if ipi then ext_do (e_smp_send_reschedule env c) k else k)"

section \<open>What the operations leave alone\<close>

text \<open>Both operations work on one runqueue: the tasks' scheduling data, the lists and the
  counters of the queues are as before.\<close>

lemma update_rq_clock_task_frame [simp]:
  "k_tasks (update_rq_clock_task env c d k) = k_tasks k"
  "k_links (update_rq_clock_task env c d k) = k_links k"
  "k_this_cpu (update_rq_clock_task env c d k) = k_this_cpu k"
  "k_uclamp_used (update_rq_clock_task env c d k) = k_uclamp_used k"
  "k_tgs (update_rq_clock_task env c d k) = k_tgs k"
  by (simp_all add: update_rq_clock_task_def Let_def)

lemma update_rq_clock_frame [simp]:
  "k_tasks (update_rq_clock env c k) = k_tasks k"
  "k_links (update_rq_clock env c k) = k_links k"
  "k_this_cpu (update_rq_clock env c k) = k_this_cpu k"
  "k_uclamp_used (update_rq_clock env c k) = k_uclamp_used k"
  "k_tgs (update_rq_clock env c k) = k_tgs k"
  by (simp_all add: update_rq_clock_def Let_def)

text \<open>The part of a runqueue that is not a clock.\<close>

definition rq_no_clock :: "rq \<Rightarrow> rq" where
  "rq_no_clock r = r\<lparr>rq_clock := 0, rq_clock_task := 0, rq_clock_update_flags := 0,
     rq_prev_irq_time := 0, rq_prev_steal_time := 0\<rparr>"

lemma update_rq_clock_task_rq:
  "rq_no_clock (k_rqs (update_rq_clock_task env c d k) e) = rq_no_clock (k_rqs k e)"
  by (simp add: update_rq_clock_task_def Let_def rq_no_clock_def)

lemma update_rq_clock_rq:
  "rq_no_clock (k_rqs (update_rq_clock env c k) e) = rq_no_clock (k_rqs k e)"
proof -
  have "rq_no_clock (k_rqs (update_rq_clock_task env c d (upd_rq c (\<lambda>r. r\<lparr>rq_clock := f r\<rparr>) k')) e)
      = rq_no_clock (k_rqs k' e)" for d f k'
    by (simp add: update_rq_clock_task_rq) (simp add: rq_no_clock_def)
  then show ?thesis
    by (simp add: update_rq_clock_def Let_def) (simp add: rq_no_clock_def)
qed

lemma rq_no_clock_fields:
  assumes "rq_no_clock r = rq_no_clock s"
  shows "rq_ltr r = rq_ltr s" "rq_curr r = rq_curr s" "rq_nr_running r = rq_nr_running s"
    "rq_uclamp r = rq_uclamp s" "rq_idle r = rq_idle s" "rq_stop r = rq_stop s"
    "rq_cfs_h_nr_running r = rq_cfs_h_nr_running s" "rq_uclamp_flags r = rq_uclamp_flags s"
    "rq_nr_switches r = rq_nr_switches s" "rq_nr_uninterruptible r = rq_nr_uninterruptible s"
proof -
  note eq = assms[unfolded rq_no_clock_def]
  show "rq_ltr r = rq_ltr s" "rq_curr r = rq_curr s" "rq_nr_running r = rq_nr_running s"
    "rq_uclamp r = rq_uclamp s" "rq_idle r = rq_idle s" "rq_stop r = rq_stop s"
    "rq_cfs_h_nr_running r = rq_cfs_h_nr_running s" "rq_uclamp_flags r = rq_uclamp_flags s"
    "rq_nr_switches r = rq_nr_switches s" "rq_nr_uninterruptible r = rq_nr_uninterruptible s"
    using arg_cong[OF eq, of rq_ltr] arg_cong[OF eq, of rq_curr]
      arg_cong[OF eq, of rq_nr_running] arg_cong[OF eq, of rq_uclamp] arg_cong[OF eq, of rq_idle]
      arg_cong[OF eq, of rq_stop] arg_cong[OF eq, of rq_cfs_h_nr_running]
      arg_cong[OF eq, of rq_uclamp_flags] arg_cong[OF eq, of rq_nr_switches]
      arg_cong[OF eq, of rq_nr_uninterruptible] by simp_all
qed

lemmas update_rq_clock_fields [simp] = rq_no_clock_fields[OF update_rq_clock_rq]

lemma resched_curr_frame [simp]:
  "k_rqs (resched_curr env c k) = k_rqs k"
  "k_links (resched_curr env c k) = k_links k"
  "k_this_cpu (resched_curr env c k) = k_this_cpu k"
  "k_uclamp_used (resched_curr env c k) = k_uclamp_used k"
  "k_tgs (resched_curr env c k) = k_tgs k"
  by (simp_all add: resched_curr_def Let_def set_nr_and_not_polling_def upd_task_def ext_do_def)

text \<open>A reschedule request changes the need-resched flag of the running task and nothing else
  of any task.\<close>

lemma resched_curr_task [simp]:
  "k_tasks (resched_curr env c k) p =
     (tsk k p)\<lparr>t_need_resched := (t_need_resched (tsk k p) \<or> p = rq_curr (cpu_rq k c))\<rparr>"
  by (auto simp: resched_curr_def Let_def set_nr_and_not_polling_def upd_task_def ext_do_def)

lemma resched_curr_sets:
  "t_need_resched (tsk (resched_curr env c k) (rq_curr (cpu_rq k c)))"
  by simp

end
