(* ===== verification/Lottery.thy ===== *)
theory Lottery
  imports Rq_Clock
begin

text \<open>
  The lottery scheduling class, \<open>kernel/sched/lottery.c\<close>: its runqueue (a list of tasks, a
  task counter and the sum of the tickets), the class hooks in the order of the file, and the hook
  table. The random words \<open>get_random_bytes\<close> delivers are the stream \<open>k_entropy\<close>, the
  readings of \<open>ktime_get_ns\<close> the stream \<open>k_ktime\<close>.

  The abstract view of a queue is its drum: the list of all tickets, one copy of the owner per
  ticket. The drawing is shown to be an index into the drum, which gives the share of each task.
\<close>

section \<open>Randomness, time and the event log\<close>

definition get_random_u32 :: "('x, 'l) kernel \<Rightarrow> u32 \<times> ('x, 'l) kernel" where
  "get_random_u32 k = (k_entropy k 0, k\<lparr>k_entropy := (\<lambda>n. k_entropy k (Suc n))\<rparr>)"

definition ktime_get_ns :: "('x, 'l) kernel \<Rightarrow> u64 \<times> ('x, 'l) kernel" where
  "ktime_get_ns k = (k_ktime k 0, k\<lparr>k_ktime := (\<lambda>n. k_ktime k (Suc n))\<rparr>)"

(* lottery.c 16-19: log_event *)
definition log_event :: "int \<Rightarrow> string \<Rightarrow> ('x, 'l) kernel \<Rightarrow> ('x, 'l) kernel" where
  "log_event pid op k = (let (t, k) = ktime_get_ns k in add_log (Lottery_event pid t op) k)"

section \<open>The hooks\<close>

(* lottery.c 21-32: init_ltr_rq *)
definition init_ltr_rq ::
    "('x, 'l, 'm) env_scheme \<Rightarrow> cpu \<Rightarrow> ('x, 'l) kernel \<Rightarrow> ('x, 'l) kernel" where
  "init_ltr_rq env c k =
     (let k = k\<lparr>k_links := op_init (e_list env) (RqQueue c) (k_links k)\<rparr>;
          k = upd_ltr c (\<lambda>q. q\<lparr>lr_nr_running := 0\<rparr>) k
      in upd_ltr c (\<lambda>q. q\<lparr>lr_total_tickets := 0\<rparr>) k)"

abbreviation tickets :: "('x, 'l) kernel \<Rightarrow> tid \<Rightarrow> u32" where
  "tickets k p \<equiv> le_tickets (t_ltr (tsk k p))"

text \<open>The test of the task's state at the head of the function has two empty branches.\<close>

(* lottery.c 38-64: enqueue_task_lottery *)
definition enqueue_task_lottery ::
    "('x, 'l, 'm) env_scheme \<Rightarrow> cpu \<Rightarrow> tid \<Rightarrow> u32 \<Rightarrow> ('x, 'l) kernel \<Rightarrow> ('x, 'l) kernel option"
where
  "enqueue_task_lottery env c p flags k = do {
     l \<leftarrow> op_add_tail (e_list env) (TaskLtr p) (RqQueue c) (k_links k);
     let k = k\<lparr>k_links := l\<rparr>;
     let k = upd_ltr c (\<lambda>q. q\<lparr>lr_nr_running := lr_nr_running q + 1\<rparr>) k;
     let k = upd_ltr c (\<lambda>q. q\<lparr>lr_total_tickets := lr_total_tickets q + tickets k p\<rparr>) k;
     Some (log_event (t_pid (tsk k p)) ''e'' k)
   }"

(* lottery.c 70-82: dequeue_task_lottery *)
definition dequeue_task_lottery ::
    "('x, 'l, 'm) env_scheme \<Rightarrow> cpu \<Rightarrow> tid \<Rightarrow> u32 \<Rightarrow> ('x, 'l) kernel \<Rightarrow> ('x, 'l) kernel option"
where
  "dequeue_task_lottery env c p flags k = do {
     l \<leftarrow> op_del (e_list env) (TaskLtr p) (k_links k);
     let k = k\<lparr>k_links := l\<rparr>;
     let k = upd_ltr c (\<lambda>q. q\<lparr>lr_nr_running := lr_nr_running q - 1\<rparr>) k;
     let k = upd_ltr c (\<lambda>q. q\<lparr>lr_total_tickets := lr_total_tickets q - tickets k p\<rparr>) k;
     Some (log_event (t_pid (tsk k p)) ''d'' k)
   }"

(* lottery.c 87-90: yield_task_lottery *)
definition yield_task_lottery :: "cpu \<Rightarrow> ('x, 'l) kernel \<Rightarrow> ('x, 'l) kernel option" where
  "yield_task_lottery c k = Some k"

(* lottery.c 95-102: check_preempt_curr_lottery *)
definition check_preempt_curr_lottery ::
    "cpu \<Rightarrow> tid \<Rightarrow> u32 \<Rightarrow> ('x, 'l) kernel \<Rightarrow> ('x, 'l) kernel option" where
  "check_preempt_curr_lottery c p flags k = Some k"

text \<open>The loop of the drawing: \<open>task\<close> is the task of the last node visited, \<open>cnt\<close> the tickets
  of the lottery tasks passed so far. Tasks of another policy are passed over; a loop that ends
  without a break leaves the last task visited.\<close>

(* lottery.c !135-149: pick_next_task_lottery (list_for_each) *)
fun lottery_scan ::
    "(tid \<Rightarrow> task) \<Rightarrow> u32 \<Rightarrow> u32 \<Rightarrow> tid option \<Rightarrow> tid list \<Rightarrow> tid option" where
  "lottery_scan ts lucky cnt task [] = task"
| "lottery_scan ts lucky cnt task (p # ps) =
     (if t_policy (ts p) \<noteq> SCHED_LOTTERY then lottery_scan ts lucky cnt (Some p) ps
      else if lucky < cnt + le_tickets (t_ltr (ts p)) \<and> lucky \<ge> cnt then Some p
      else lottery_scan ts lucky (cnt + le_tickets (t_ltr (ts p))) (Some p) ps)"

text \<open>\<open>list_entry(pos, struct task_struct, ltr.list)\<close>: only a task's node lies in a task.\<close>

fun node_task :: "lnode \<Rightarrow> tid option" where
  "node_task (TaskLtr p) = Some p"
| "node_task (RqQueue c) = None"

(* lottery.c 108-161: pick_next_task_lottery *)
definition pick_next_task_lottery ::
    "('x, 'l, 'm) env_scheme \<Rightarrow> cpu \<Rightarrow> ('x, 'l) kernel \<Rightarrow> (tid option \<times> ('x, 'l) kernel) option"
where
  "pick_next_task_lottery env c k =
     (let total_tickets = lr_total_tickets (rq_ltr (cpu_rq k c)) in
      if total_tickets = 0 then Some (None, k)
      else if op_empty (e_list env) (RqQueue c) (k_links k) then Some (None, k)
      else do {
        let (r, k) = get_random_u32 k;
        let lucky_one = r mod total_tickets;
        ps \<leftarrow> those (map node_task (op_entries (e_list env) (RqQueue c) (k_links k)));
        case lottery_scan (k_tasks k) lucky_one 0 None ps of
          None \<Rightarrow> Some (None, k)
        | Some task \<Rightarrow> Some (Some task, log_event (t_pid (tsk k task)) ''s'' k)
      })"

(* lottery.c 166-169: put_prev_task_lottery *)
definition put_prev_task_lottery :: "cpu \<Rightarrow> tid \<Rightarrow> ('x, 'l) kernel \<Rightarrow> ('x, 'l) kernel option" where
  "put_prev_task_lottery c p k = Some k"

(* lottery.c 171-176: set_next_task_lottery *)
definition set_next_task_lottery ::
    "cpu \<Rightarrow> tid \<Rightarrow> bool \<Rightarrow> ('x, 'l) kernel \<Rightarrow> ('x, 'l) kernel option" where
  "set_next_task_lottery c p first k = Some k"

(* lottery.c 184-205: task_tick_lottery *)
definition task_tick_lottery ::
    "('x, 'l, 'm) env_scheme \<Rightarrow> cpu \<Rightarrow> tid \<Rightarrow> int \<Rightarrow> ('x, 'l) kernel \<Rightarrow> ('x, 'l) kernel option"
where
  "task_tick_lottery env c p queued k =
     (if lr_nr_running (rq_ltr (cpu_rq k c)) \<le> 1 then Some k
      else let (should_preempt, k) = get_random_u32 k
           in if should_preempt mod 10 = 0 then Some (resched_curr env c k) else Some k)"

(* lottery.c 207-212: switched_to_lottery *)
definition switched_to_lottery :: "cpu \<Rightarrow> tid \<Rightarrow> ('x, 'l) kernel \<Rightarrow> ('x, 'l) kernel option" where
  "switched_to_lottery c p k = Some k"

(* lottery.c 214-222: switched_from_lottery *)
definition switched_from_lottery ::
    "('x, 'l, 'm) env_scheme \<Rightarrow> cpu \<Rightarrow> tid \<Rightarrow> ('x, 'l) kernel \<Rightarrow> ('x, 'l) kernel option" where
  "switched_from_lottery env c p k =
     (if \<not> op_empty (e_list env) (TaskLtr p) (k_links k)
      then dequeue_task_lottery env c p 0 k else Some k)"

(* lottery.c 224-229: prio_changed_lottery *)
definition prio_changed_lottery ::
    "cpu \<Rightarrow> tid \<Rightarrow> int \<Rightarrow> ('x, 'l) kernel \<Rightarrow> ('x, 'l) kernel option" where
  "prio_changed_lottery c p oldprio k = Some k"

text \<open>The hook table: a hook the initialiser does not name is NULL, and the uclamp flag is 0.\<close>

(* lottery.c !232-247: DEFINE_SCHED_CLASS(lottery) *)
definition lottery_sched_class :: "('x, 'l, 'm) env_scheme \<Rightarrow> ('x, 'l) vtable" where
  "lottery_sched_class env = null_vtable\<lparr>
     vt_enqueue_task := Some (enqueue_task_lottery env),
     vt_dequeue_task := Some (dequeue_task_lottery env),
     vt_yield_task := Some yield_task_lottery,
     vt_check_preempt_curr := Some check_preempt_curr_lottery,
     vt_pick_next_task := Some (pick_next_task_lottery env),
     vt_put_prev_task := Some put_prev_task_lottery,
     vt_set_next_task := Some set_next_task_lottery,
     vt_task_tick := Some (task_tick_lottery env),
     vt_switched_to := Some switched_to_lottery,
     vt_switched_from := Some (switched_from_lottery env),
     vt_prio_changed := Some prio_changed_lottery\<rparr>"

text \<open>The table of a class: the lottery class is the repository's, the others are outside.\<close>

definition class_vt :: "('x, 'l, 'm) env_scheme \<Rightarrow> sched_class \<Rightarrow> ('x, 'l) vtable" where
  "class_vt env sc = (if sc = Lottery_class then lottery_sched_class env else e_class env sc)"

lemma class_vt_lottery [simp]: "class_vt env Lottery_class = lottery_sched_class env"
  by (simp add: class_vt_def)

lemma lottery_hooks [simp]:
  "vt_enqueue_task (lottery_sched_class env) = Some (enqueue_task_lottery env)"
  "vt_dequeue_task (lottery_sched_class env) = Some (dequeue_task_lottery env)"
  "vt_yield_task (lottery_sched_class env) = Some yield_task_lottery"
  "vt_check_preempt_curr (lottery_sched_class env) = Some check_preempt_curr_lottery"
  "vt_pick_next_task (lottery_sched_class env) = Some (pick_next_task_lottery env)"
  "vt_put_prev_task (lottery_sched_class env) = Some put_prev_task_lottery"
  "vt_set_next_task (lottery_sched_class env) = Some set_next_task_lottery"
  "vt_task_tick (lottery_sched_class env) = Some (task_tick_lottery env)"
  "vt_switched_to (lottery_sched_class env) = Some switched_to_lottery"
  "vt_switched_from (lottery_sched_class env) = Some (switched_from_lottery env)"
  "vt_prio_changed (lottery_sched_class env) = Some prio_changed_lottery"
  "vt_uclamp_enabled (lottery_sched_class env) = False"
  by (simp_all add: lottery_sched_class_def null_vtable_def)

lemma lottery_null_hooks [simp]:
  "vt_yield_to_task (lottery_sched_class env) = None"
  "vt_balance (lottery_sched_class env) = None"
  "vt_select_task_rq (lottery_sched_class env) = None"
  "vt_pick_task (lottery_sched_class env) = None"
  "vt_migrate_task_rq (lottery_sched_class env) = None"
  "vt_task_woken (lottery_sched_class env) = None"
  "vt_set_cpus_allowed (lottery_sched_class env) = None"
  "vt_rq_online (lottery_sched_class env) = None"
  "vt_rq_offline (lottery_sched_class env) = None"
  "vt_task_fork (lottery_sched_class env) = None"
  "vt_task_dead (lottery_sched_class env) = None"
  "vt_get_rr_interval (lottery_sched_class env) = None"
  "vt_update_curr (lottery_sched_class env) = None"
  "vt_task_change_group (lottery_sched_class env) = None"
  by (simp_all add: lottery_sched_class_def null_vtable_def)

end
