(* ===== verification/Lottery_Queue.thy ===== *)
theory Lottery_Queue
  imports Lottery
begin

text \<open>
  What the lottery runqueue promises. A class's runqueue is an interface, the locale
  \<open>class_runqueue\<close>: a queue of distinct tasks with an operation that appends one and one that
  removes one. The lottery class provides it whenever the list library keeps its contract
  (\<open>sublocale\<close> of \<open>lottery_rq\<close>), with an invariant that ties the list to the two counters.
  The drawing is an index into the drum of tickets.
\<close>

section \<open>The interface of a class's runqueue\<close>

datatype queue_op = Enq tid | Deq tid

text \<open>A history of operations on the model and on the abstract queue, the list of tasks. The
  abstract run is undefined where a task is enqueued twice or dequeued when it is not there.\<close>

fun run_ops :: "(tid \<Rightarrow> 's \<Rightarrow> 's option) \<Rightarrow> (tid \<Rightarrow> 's \<Rightarrow> 's option) \<Rightarrow> queue_op list \<Rightarrow> 's \<Rightarrow> 's option"
where
  "run_ops enq deq [] s = Some s"
| "run_ops enq deq (Enq p # ops) s = Option.bind (enq p s) (run_ops enq deq ops)"
| "run_ops enq deq (Deq p # ops) s = Option.bind (deq p s) (run_ops enq deq ops)"

fun run_spec :: "queue_op list \<Rightarrow> tid list \<Rightarrow> tid list option" where
  "run_spec [] ps = Some ps"
| "run_spec (Enq p # ops) ps = (if p \<in> set ps then None else run_spec ops (ps @ [p]))"
| "run_spec (Deq p # ops) ps = (if p \<in> set ps then run_spec ops (remove1 p ps) else None)"

locale class_runqueue =
  fixes enq deq :: "tid \<Rightarrow> 's \<Rightarrow> 's option"
    and queued :: "'s \<Rightarrow> tid list \<Rightarrow> bool"
  assumes queued_distinct: "queued s ps \<Longrightarrow> distinct ps"
    and enq_total: "queued s ps \<Longrightarrow> p \<notin> set ps \<Longrightarrow> \<exists>s'. enq p s = Some s'"
    and enq_appends: "queued s ps \<Longrightarrow> p \<notin> set ps \<Longrightarrow> enq p s = Some s' \<Longrightarrow> queued s' (ps @ [p])"
    and deq_total: "queued s ps \<Longrightarrow> p \<in> set ps \<Longrightarrow> \<exists>s'. deq p s = Some s'"
    and deq_removes: "queued s ps \<Longrightarrow> p \<in> set ps \<Longrightarrow> deq p s = Some s' \<Longrightarrow> queued s' (remove1 p ps)"
begin

lemma enq_step:
  assumes "queued s ps" and "p \<notin> set ps"
  obtains s' where "enq p s = Some s'" and "queued s' (ps @ [p])"
  using assms enq_total enq_appends by blast

lemma deq_step:
  assumes "queued s ps" and "p \<in> set ps"
  obtains s' where "deq p s = Some s'" and "queued s' (remove1 p ps)"
  using assms deq_total deq_removes by blast

text \<open>Any history the abstract queue can make, the model makes without an oops, and ends with
  the same tasks in the same order.\<close>

lemma run_refines:
  "queued s ps \<Longrightarrow> run_spec ops ps = Some qs \<Longrightarrow>
     \<exists>s'. run_ops enq deq ops s = Some s' \<and> queued s' qs"
proof (induction ops ps arbitrary: s rule: run_spec.induct)
  case (1 ps)
  then show ?case by simp
next
  case (2 p ops ps)
  then have p: "p \<notin> set ps" by (auto split: if_splits)
  obtain s' where "enq p s = Some s'" and "queued s' (ps @ [p])"
    using 2(2) p by (rule enq_step)
  with 2 p show ?case by auto
next
  case (3 p ops ps)
  then have p: "p \<in> set ps" by (auto split: if_splits)
  obtain s' where "deq p s = Some s'" and "queued s' (remove1 p ps)"
    using 3(2) p by (rule deq_step)
  with 3 p show ?case by auto
qed

text \<open>An enqueue and the dequeue of the same task cancel out; a dequeue and an enqueue move the
  task to the tail.\<close>

lemma enq_deq_cancel:
  assumes "queued s ps" and "p \<notin> set ps"
  shows "\<exists>s'. Option.bind (enq p s) (deq p) = Some s' \<and> queued s' ps"
proof -
  obtain s1 where s1: "enq p s = Some s1" "queued s1 (ps @ [p])" using assms by (rule enq_step)
  have p: "p \<in> set (ps @ [p])" by simp
  obtain s2 where "deq p s1 = Some s2" "queued s2 (remove1 p (ps @ [p]))"
    using s1(2) p by (rule deq_step)
  with s1 assms show ?thesis by (simp add: remove1_append)
qed

lemma requeue_rotates:
  assumes "queued s ps" and "p \<in> set ps"
  shows "\<exists>s'. Option.bind (deq p s) (enq p) = Some s' \<and> queued s' (remove1 p ps @ [p])"
proof -
  obtain s1 where s1: "deq p s = Some s1" "queued s1 (remove1 p ps)" using assms by (rule deq_step)
  have "p \<notin> set (remove1 p ps)" using queued_distinct[OF assms(1)] by simp
  with s1(2) obtain s2 where "enq p s1 = Some s2" "queued s2 (remove1 p ps @ [p])"
    by (rule enq_step)
  with s1 show ?thesis by simp
qed

end

section \<open>The lottery queue\<close>

text \<open>The list of runqueue \<open>c\<close> holds exactly the nodes of \<open>ps\<close>, the counter is their
  number and the total the sum of their tickets (both as the 32-bit words they are).\<close>

definition ltr_queue ::
    "('l \<Rightarrow> lnode \<Rightarrow> lnode list \<Rightarrow> bool) \<Rightarrow> cpu \<Rightarrow> ('x, 'l) kernel \<Rightarrow> tid list \<Rightarrow> bool" where
  "ltr_queue dll c k ps \<longleftrightarrow>
     dll (k_links k) (RqQueue c) (map TaskLtr ps) \<and>
     lr_nr_running (rq_ltr (cpu_rq k c)) = of_nat (length ps) \<and>
     lr_total_tickets (rq_ltr (cpu_rq k c)) = sum_list (map (tickets k) ps)"

lemma log_event_frame [simp]:
  "k_tasks (log_event i s k) = k_tasks k"
  "k_rqs (log_event i s k) = k_rqs k"
  "k_links (log_event i s k) = k_links k"
  "k_this_cpu (log_event i s k) = k_this_cpu k"
  "k_tgs (log_event i s k) = k_tgs k"
  "k_entropy (log_event i s k) = k_entropy k"
  "k_log (log_event i s k) = k_log k @ [Lottery_event i (k_ktime k 0) s]"
  "k_uclamp_used (log_event i s k) = k_uclamp_used k"
  by (simp_all add: log_event_def ktime_get_ns_def Let_def add_log_def)

lemma TaskLtr_mem [simp]: "TaskLtr p \<in> TaskLtr ` A \<longleftrightarrow> p \<in> A"
  by auto

lemma remove1_map_TaskLtr: "remove1 (TaskLtr p) (map TaskLtr ps) = map TaskLtr (remove1 p ps)"
  by (induction ps) auto

lemma RqQueue_not_TaskLtr [simp]: "RqQueue c \<notin> TaskLtr ` A"
  by auto

text \<open>What enqueue and dequeue leave alone.\<close>

lemma enqueue_task_lottery_frame:
  assumes "enqueue_task_lottery env c p fl k = Some k'"
  shows "k_tasks k' = k_tasks k" "k_this_cpu k' = k_this_cpu k" "k_tgs k' = k_tgs k"
    "k_entropy k' = k_entropy k" "k_uclamp_used k' = k_uclamp_used k"
    "d \<noteq> c \<Longrightarrow> k_rqs k' d = k_rqs k d"
    "(k_rqs k' c)\<lparr>rq_ltr := q\<rparr> = (k_rqs k c)\<lparr>rq_ltr := q\<rparr>"
  using assms by (auto simp: enqueue_task_lottery_def bind_Some_iff upd_ltr_def)

lemma dequeue_task_lottery_frame:
  assumes "dequeue_task_lottery env c p fl k = Some k'"
  shows "k_tasks k' = k_tasks k" "k_this_cpu k' = k_this_cpu k" "k_tgs k' = k_tgs k"
    "k_entropy k' = k_entropy k" "k_uclamp_used k' = k_uclamp_used k"
    "d \<noteq> c \<Longrightarrow> k_rqs k' d = k_rqs k d"
    "(k_rqs k' c)\<lparr>rq_ltr := q\<rparr> = (k_rqs k c)\<lparr>rq_ltr := q\<rparr>"
  using assms by (auto simp: dequeue_task_lottery_def bind_Some_iff upd_ltr_def)

lemma lottery_run_frame:
  assumes "run_ops (\<lambda>p k. enqueue_task_lottery env c p fl k)
     (\<lambda>p k. dequeue_task_lottery env c p fl k) ops k = Some k'"
  shows "k_tasks k' = k_tasks k" "k_entropy k' = k_entropy k" "k_this_cpu k' = k_this_cpu k"
proof -
  have "k_tasks k' = k_tasks k \<and> k_entropy k' = k_entropy k \<and> k_this_cpu k' = k_this_cpu k"
    using assms
  proof (induction ops arbitrary: k)
    case Nil
    then show ?case by simp
  next
    case (Cons x ops)
    then show ?case
      by (cases x) (fastforce simp: bind_Some_iff
          dest: enqueue_task_lottery_frame dequeue_task_lottery_frame)+
  qed
  then show "k_tasks k' = k_tasks k" "k_entropy k' = k_entropy k" "k_this_cpu k' = k_this_cpu k"
    by auto
qed

locale lottery_rq = linux_list "e_list env" dll
  for env :: "('x, 'l, 'm) env_scheme" and dll +
  fixes c :: cpu and fl :: u32
begin

lemma queue_distinct: "ltr_queue dll c k ps \<Longrightarrow> distinct ps"
  using dll_distinct by (fastforce simp: ltr_queue_def distinct_map)

lemma enqueue_total:
  assumes "ltr_queue dll c k ps" and "p \<notin> set ps"
  shows "\<exists>k'. enqueue_task_lottery env c p fl k = Some k'"
  using add_tail_ok[of "k_links k" "RqQueue c" "map TaskLtr ps" "TaskLtr p"] assms
  by (auto simp: ltr_queue_def enqueue_task_lottery_def bind_Some_iff)

lemma enqueue_appends:
  assumes "ltr_queue dll c k ps" and "p \<notin> set ps"
    and "enqueue_task_lottery env c p fl k = Some k'"
  shows "ltr_queue dll c k' (ps @ [p])"
proof -
  obtain l where l: "op_add_tail (e_list env) (TaskLtr p) (RqQueue c) (k_links k) = Some l"
    using assms(3) by (auto simp: enqueue_task_lottery_def bind_Some_iff)
  have "dll l (RqQueue c) (map TaskLtr ps @ [TaskLtr p])"
    using assms(1,2) l by (intro add_tail_dll) (auto simp: ltr_queue_def)
  with assms l show ?thesis
    by (auto simp: ltr_queue_def enqueue_task_lottery_def Let_def)
qed

lemma dequeue_total:
  assumes "ltr_queue dll c k ps" and "p \<in> set ps"
  shows "\<exists>k'. dequeue_task_lottery env c p fl k = Some k'"
  using del_ok[of "k_links k" "RqQueue c" "map TaskLtr ps" "TaskLtr p"] assms
  by (auto simp: ltr_queue_def dequeue_task_lottery_def bind_Some_iff)

lemma dequeue_removes:
  assumes "ltr_queue dll c k ps" and "p \<in> set ps"
    and "dequeue_task_lottery env c p fl k = Some k'"
  shows "ltr_queue dll c k' (remove1 p ps)"
proof -
  obtain l where l: "op_del (e_list env) (TaskLtr p) (k_links k) = Some l"
    using assms(3) by (auto simp: dequeue_task_lottery_def bind_Some_iff)
  have "dll l (RqQueue c) (remove1 (TaskLtr p) (map TaskLtr ps))"
    using assms(1,2) l by (intro del_dll) (auto simp: ltr_queue_def)
  with assms l show ?thesis
    by (auto simp: ltr_queue_def dequeue_task_lottery_def Let_def remove1_map_TaskLtr
        of_nat_length_remove1 sum_list_remove1_word)
qed

end

sublocale lottery_rq \<subseteq> cq: class_runqueue
  "\<lambda>p k. enqueue_task_lottery env c p fl k" "\<lambda>p k. dequeue_task_lottery env c p fl k"
  "\<lambda>k ps. ltr_queue dll c k ps"
  by unfold_locales (use queue_distinct enqueue_total enqueue_appends dequeue_total
      dequeue_removes in blast)+

lemma lottery_scan_keeps: "lottery_scan ts lucky cnt (Some t) ps \<noteq> None"
  by (induction ps arbitrary: cnt t) auto

lemma lottery_scan_Some: "ps \<noteq> [] \<Longrightarrow> lottery_scan ts lucky cnt t ps \<noteq> None"
  using lottery_scan_keeps by (cases ps) fastforce+

lemma those_map_node_task: "those (map node_task (map TaskLtr ps)) = Some ps"
  by (induction ps) auto

context lottery_rq
begin

lemmas history = cq.run_refines

text \<open>The queue of another runqueue, with other tasks, is as before.\<close>

lemma enqueue_isolated:
  assumes "ltr_queue dll c k ps" and "p \<notin> set ps" and "d \<noteq> c" and "ltr_queue dll d k qs"
    and "set qs \<inter> set (p # ps) = {}" and "enqueue_task_lottery env c p fl k = Some k'"
  shows "ltr_queue dll d k' qs"
proof -
  obtain l where l: "op_add_tail (e_list env) (TaskLtr p) (RqQueue c) (k_links k) = Some l"
    using assms(6) by (auto simp: enqueue_task_lottery_def bind_Some_iff)
  have "dll (k_links k) (RqQueue c) (map TaskLtr ps)" "dll (k_links k) (RqQueue d) (map TaskLtr qs)"
    using assms(1,4) by (simp_all add: ltr_queue_def)
  moreover have "set (RqQueue d # map TaskLtr qs) \<inter> set (TaskLtr p # RqQueue c # map TaskLtr ps) = {}"
    using assms(3,5) by auto
  ultimately have "dll l (RqQueue d) (map TaskLtr qs)"
    using add_tail_frame[OF _ _ l] assms(2) by simp
  with assms(3,4,6) l show ?thesis
    by (auto simp: ltr_queue_def enqueue_task_lottery_def Let_def)
qed

lemma dequeue_isolated:
  assumes "ltr_queue dll c k ps" and "p \<in> set ps" and "d \<noteq> c" and "ltr_queue dll d k qs"
    and "set qs \<inter> set ps = {}" and "dequeue_task_lottery env c p fl k = Some k'"
  shows "ltr_queue dll d k' qs"
proof -
  obtain l where l: "op_del (e_list env) (TaskLtr p) (k_links k) = Some l"
    using assms(6) by (auto simp: dequeue_task_lottery_def bind_Some_iff)
  have "dll (k_links k) (RqQueue c) (map TaskLtr ps)" "dll (k_links k) (RqQueue d) (map TaskLtr qs)"
    using assms(1,4) by (simp_all add: ltr_queue_def)
  moreover have "set (RqQueue d # map TaskLtr qs) \<inter> set (RqQueue c # map TaskLtr ps) = {}"
    using assms(3,5) by auto
  ultimately have "dll l (RqQueue d) (map TaskLtr qs)"
    using del_frame[OF _ _ l] assms(2) by simp
  with assms(3,4,6) l show ?thesis
    by (auto simp: ltr_queue_def dequeue_task_lottery_def Let_def)
qed

lemma init_empty: "ltr_queue dll c (init_ltr_rq env c k) []"
  by (simp add: ltr_queue_def init_ltr_rq_def init_dll)

text \<open>What the drawing reads.\<close>

lemma pick_unfold:
  assumes "ltr_queue dll c k ps"
  shows "pick_next_task_lottery env c k =
    (let total = lr_total_tickets (rq_ltr (cpu_rq k c)) in
     if total = 0 \<or> ps = [] then Some (None, k)
     else let k1 = k\<lparr>k_entropy := (\<lambda>n. k_entropy k (Suc n))\<rparr>;
              p = the (lottery_scan (k_tasks k) (k_entropy k 0 mod total) 0 None ps)
          in Some (Some p, log_event (t_pid (tsk k p)) ''s'' k1))"
proof -
  have "op_empty (e_list env) (RqQueue c) (k_links k) \<longleftrightarrow> ps = []"
    and "op_entries (e_list env) (RqQueue c) (k_links k) = map TaskLtr ps"
    using assms empty_iff entries_eq by (auto simp: ltr_queue_def)
  then show ?thesis
    using lottery_scan_Some[of ps "k_tasks k" "k_entropy k 0 mod lr_total_tickets (rq_ltr (cpu_rq k c))" 0 None]
    by (auto simp: pick_next_task_lottery_def get_random_u32_def those_map_node_task
        Let_def simp del: map_map split: option.splits)
qed

end

section \<open>The drum\<close>

definition drum :: "(tid \<Rightarrow> task) \<Rightarrow> tid list \<Rightarrow> tid list" where
  "drum ts ps = concat (map (\<lambda>p. replicate (unat (le_tickets (t_ltr (ts p)))) p) ps)"

definition all_lottery :: "(tid \<Rightarrow> task) \<Rightarrow> tid list \<Rightarrow> bool" where
  "all_lottery ts ps \<longleftrightarrow> list_all (\<lambda>p. t_policy (ts p) = SCHED_LOTTERY) ps"

lemma drum_Nil [simp]: "drum ts [] = []"
  by (simp add: drum_def)

lemma drum_Cons [simp]:
  "drum ts (p # ps) = replicate (unat (le_tickets (t_ltr (ts p)))) p @ drum ts ps"
  by (simp add: drum_def)

lemma length_drum: "length (drum ts ps) = (\<Sum>p\<leftarrow>ps. unat (le_tickets (t_ltr (ts p))))"
  by (induction ps) auto

lemma set_drum: "set (drum ts ps) = {p \<in> set ps. le_tickets (t_ltr (ts p)) \<noteq> 0}"
  by (auto simp: drum_def unat_eq_0)

lemma count_list_replicate: "count_list (replicate n x) y = (if x = y then n else 0)"
  by (induction n) auto

lemma count_drum:
  "distinct ps \<Longrightarrow> count_list (drum ts ps) p =
     (if p \<in> set ps then unat (le_tickets (t_ltr (ts p))) else 0)"
  by (induction ps) (auto simp: count_list_replicate)

lemma card_index_count: "card {i. i < length xs \<and> xs ! i = x} = count_list xs x"
proof (induction xs rule: rev_induct)
  case Nil
  then show ?case by simp
next
  case (snoc y ys)
  have "{i. i < length (ys @ [y]) \<and> (ys @ [y]) ! i = x} =
      {i. i < length ys \<and> ys ! i = x} \<union> (if y = x then {length ys} else {})"
    by (auto simp: nth_append less_Suc_eq)
  with snoc show ?case by (auto simp: card_insert_if)
qed

text \<open>The scan stops at the owner of the ticket.\<close>

lemma lottery_scan_drum:
  assumes "all_lottery ts ps" and "unat cnt + length (drum ts ps) < 2 ^ 32"
    and "cnt \<le> lucky" and "unat lucky < unat cnt + length (drum ts ps)"
  shows "lottery_scan ts lucky cnt t ps = Some (drum ts ps ! (unat lucky - unat cnt))"
  using assms
proof (induction ps arbitrary: cnt t)
  case Nil
  then show ?case by (simp add: word_le_nat_alt)
next
  case (Cons p ps)
  let ?w = "le_tickets (t_ltr (ts p))"
  have sum: "unat (cnt + ?w) = unat cnt + unat ?w"
    using Cons.prems(2) by (simp add: unat_word_ariths)
  have pol: "t_policy (ts p) = SCHED_LOTTERY" and rest: "all_lottery ts ps"
    using Cons.prems(1) by (auto simp: all_lottery_def)
  show ?case
  proof (cases "lucky < cnt + ?w")
    case True
    then have "unat lucky < unat cnt + unat ?w" by (simp add: word_less_nat_alt sum)
    moreover have "unat cnt \<le> unat lucky" using Cons.prems(3) by (simp add: word_le_nat_alt)
    ultimately have "unat lucky - unat cnt < unat ?w" by arith
    with Cons.prems(3) True pol show ?thesis
      by (simp add: nth_append)
  next
    case False
    then have ge: "unat cnt + unat ?w \<le> unat lucky"
      by (simp add: word_less_nat_alt sum)
    have "lottery_scan ts lucky (cnt + ?w) (Some p) ps =
        Some (drum ts ps ! (unat lucky - unat (cnt + ?w)))"
      using Cons.prems(2,4) ge sum rest by (intro Cons.IH) (auto simp: word_le_nat_alt)
    moreover have "\<not> unat lucky - unat cnt < unat ?w" using ge by arith
    then have "drum ts (p # ps) ! (unat lucky - unat cnt)
        = drum ts ps ! (unat lucky - unat (cnt + ?w))"
      by (simp add: nth_append sum)
    ultimately show ?thesis using False pol by simp
  qed
qed

text \<open>A scan that finds no owner leaves the last task of the queue.\<close>

lemma lottery_scan_mem:
  "lottery_scan ts lucky cnt t ps = Some q \<Longrightarrow> q \<in> set ps \<or> t = Some q"
  by (induction ps arbitrary: cnt t) (auto split: if_splits)

lemma ltr_queue_total:
  "ltr_queue dll c k ps \<Longrightarrow> length (drum (k_tasks k) ps) < 2 ^ 32 \<Longrightarrow>
   unat (lr_total_tickets (rq_ltr (cpu_rq k c))) = length (drum (k_tasks k) ps)"
  using unat_sum_list[of "tickets k" ps] by (simp add: ltr_queue_def length_drum)

lemma pick_draws:
  assumes "linux_list (e_list env) dll" and "ltr_queue dll c k ps"
    and "all_lottery (k_tasks k) ps" and "length (drum (k_tasks k) ps) < 2 ^ 32"
    and "drum (k_tasks k) ps \<noteq> []"
    and p: "p = drum (k_tasks k) ps !
                  (unat (k_entropy k 0) mod length (drum (k_tasks k) ps))"
  shows "pick_next_task_lottery env c k =
    Some (Some p, log_event (t_pid (tsk k p)) ''s''
                    (k\<lparr>k_entropy := (\<lambda>n. k_entropy k (Suc n))\<rparr>))"
proof -
  let ?d = "drum (k_tasks k) ps" and ?t = "lr_total_tickets (rq_ltr (cpu_rq k c))"
  let ?r = "k_entropy k 0"
  have t: "unat ?t = length ?d" using assms(2,4) by (rule ltr_queue_total)
  then have "?t \<noteq> 0" and "ps \<noteq> []" using assms(5) by auto
  have m: "unat (?r mod ?t) = unat ?r mod length ?d" by (simp add: unat_mod t)
  have "lottery_scan (k_tasks k) (?r mod ?t) 0 None ps = Some (?d ! (unat (?r mod ?t) - unat (0::u32)))"
    using assms(3,4,5) by (intro lottery_scan_drum) (simp_all add: m)
  with m p have "lottery_scan (k_tasks k) (?r mod ?t) 0 None ps = Some p" by simp
  with \<open>?t \<noteq> 0\<close> \<open>ps \<noteq> []\<close> show ?thesis
    by (simp add: lottery_rq.pick_unfold[OF lottery_rq.intro[OF assms(1)] assms(2)] Let_def)
qed

end
