(* ===== verification/Machine.thy ===== *)
theory Machine
  imports Lottery_Queue
begin

text \<open>
  A concrete machine, on which the theorems of the development are evaluated: the lists of
  \<open>linux/list.h\<close> are the pointer heap, the classes outside the repository have no task to
  offer but the idle class, and every other outside function keeps its state. Its parts are the
  default records \<open>task0\<close>, \<open>rq0\<close>, \<open>kernel0\<close> and \<open>env0\<close>.
\<close>

definition se0 :: uclamp_se where
  "se0 = \<lparr>us_value = 0, us_bucket_id = 0, us_active = False, us_user_defined = False\<rparr>"

definition ws0 :: wake_stats where
  "ws0 = \<lparr>ws_nr_wakeups = 0, ws_nr_wakeups_sync = 0, ws_nr_wakeups_migrate = 0,
     ws_nr_wakeups_local = 0, ws_nr_wakeups_remote = 0\<rparr>"

definition se_zero :: sched_entity where
  "se_zero = \<lparr>se_on_rq = 0, se_exec_start = 0, se_prev_sum_exec_runtime = 0,
     se_nr_migrations = 0, se_vruntime = 0\<rparr>"

definition task0 :: task where
  "task0 = \<lparr>t_pid = 0, t_state = TASK_RUNNING, t_policy = SCHED_LOTTERY, t_prio = 120,
     t_static_prio = 120, t_normal_prio = 120, t_rt_priority = 0, t_class = Lottery_class,
     t_on_rq = 0, t_on_cpu = False, t_cpu = 0, t_wake_cpu = 0, t_flags = 0,
     t_reset_on_fork = False, t_need_resched = False, t_polling = False,
     t_contributes_to_load = False, t_in_iowait = False, t_remote_wakeup = False,
     t_ltr = \<lparr>le_tickets = 5\<rparr>, t_uclamp_req = (\<lambda>_. se0), t_uclamp = (\<lambda>_. se0), t_tg = 0,
     t_load = \<lparr>lw_weight = 1024, lw_inv_weight = 4194304\<rparr>, t_pi_top_task = None,
     t_dl_deadline = 0, t_dl_flags = 0, t_dl_pi_se = 0, t_rt_timeout = 0, t_nvcsw = 0,
     t_nivcsw = 0, t_cpus_mask = {0}, t_cpus_ptr = None, t_nr_cpus_allowed = 1,
     t_user_cpus_ptr = None, t_migration_disabled = 0, t_mm = Some 1,
     t_active_mm = Some 1, t_sum_exec_runtime = 0, t_euid = 1000,
     t_uid = 1000, t_saved_state = 0, t_wake_stats = ws0, t_wake_q = False, t_se = se_zero,
     t_rt_time_slice = 0, t_rt_on_rq = 0, t_rt_on_list = 0, t_recent_used_cpu = 0,
     t_vfork = False, t_migration_pending = None, t_migration_flags = 0,
     t_numa_preferred_nid = -1, t_core_cookie = 0, t_core_occupation = 0, t_core_node = False\<rparr>"

definition rq0 :: rq where
  "rq0 = \<lparr>rq_nr_running = 0, rq_cfs_nr_running = 0, rq_cfs_h_nr_running = 0, rq_rt_queued = 0, rq_rt_nr_running = 0,
     rq_dl_nr_running = 0, rq_ltr = \<lparr>lr_nr_running = 0, lr_total_tickets = 0\<rparr>,
     rq_uclamp = (\<lambda>_. \<lparr>ur_value = 0, ur_bucket = (\<lambda>_. \<lparr>ub_value = 0, ub_tasks = 0\<rparr>)\<rparr>),
     rq_uclamp_flags = 0, rq_nr_uninterruptible = 0, rq_nr_iowait = 0, rq_nr_switches = 0,
     rq_curr = 0, rq_idle = 0, rq_stop = None, rq_clock_update_flags = RQCF_UPDATED,
     rq_clock = 0, rq_clock_task = 0, rq_prev_irq_time = 0, rq_prev_steal_time = 0,
     rq_ttwu_pending = False, rq_balance_callback = [], rq_avg_irq = 0,
     rq_avg_rt = 0, rq_avg_dl = 0, rq_cfs_util_avg = 0, rq_cfs_util_est = 0,
     rq_dl_running_bw = 0, rq_nr_pinned = 0, rq_prev_mm = None, rq_membarrier_state = 0,
     rq_last_seen_need_resched_ns = 0, rq_ticks_without_resched = 0, rq_idle_balance = False,
     rq_nohz_idle_balance = 0, rq_nohz_flags = 0, rq_rr_nr_running = 0, rq_idle_stamp = 0,
     rq_avg_idle = 0, rq_max_idle_balance_cost = 0, rq_wake_stamp = 0, rq_wake_avg_idle = 0,
     rq_ttwu_count = 0, rq_ttwu_local = 0, rq_push_busy = False, rq_online = False, rq_rd = None,
     rq_calc_load_active = 0, rq_calc_load_update = 0, rq_active_balance = 0, rq_next_balance = 0,
     rq_push_cpu = 0, rq_cpu_capacity = 1024, rq_cpu_capacity_orig = 1024,
     rq_last_blocked_load_update_tick = 0, rq_hrtick_time = 0, rq_core_rq = 0,
     rq_core_pick = None, rq_core_enabled = False, rq_core_sched_seq = 0, rq_core_tree = [],
     rq_core_task_seq = 0, rq_core_pick_seq = 0, rq_core_cookie = 0, rq_core_forceidle = False,
     rq_core_forceidle_seq = 0\<rparr>"

text \<open>A bandwidth of 100 ms without a quota (\<open>RUNTIME_INF\<close>).\<close>

definition bw0 :: cfs_bandwidth where
  "bw0 = \<lparr>cb_period = 100000000, cb_quota = - 1, cb_runtime = 0, cb_burst = 0,
     cb_hierarchical_quota = - 1, cb_nr_periods = 0, cb_nr_throttled = 0, cb_throttled_time = 0\<rparr>"

definition tg0 :: task_group where
  "tg0 = \<lparr>tg_parent = None, tg_autogroup = False, tg_uclamp_pct = (\<lambda>_. 0),
     tg_uclamp_req = (\<lambda>_. se0), tg_uclamp = (\<lambda>_. se0), tg_rt_runtime = 0, tg_children = [],
     tg_shares = 1024, tg_idle = 0, tg_cfs_bandwidth = bw0,
     tg_cfs_rq = (\<lambda>_. \<lparr>cr_runtime_enabled = False, cr_runtime_remaining = 0, cr_throttled = False\<rparr>)\<rparr>"

text \<open>Task 0 is the idle task; every other task is a lottery task with five tickets.\<close>

definition kernel0 :: "(unit, list_heap) kernel" where
  "kernel0 = \<lparr>
     k_tasks = (\<lambda>p. if p = 0 then task0\<lparr>t_policy := 0, t_class := Idle_class\<rparr>
                    else task0\<lparr>t_pid := int p\<rparr>),
     k_rqs = (\<lambda>_. rq0), k_tgs = (\<lambda>_. tg0), k_task_groups = [0], k_links = heap0, k_this_cpu = 0,
     k_entropy = (\<lambda>n. of_nat (7 * n + 8)), k_ktime = (\<lambda>n. of_nat n), k_log = [],
     k_uclamp_default = (\<lambda>_. se0), k_uclamp_used = False, k_util_min = 1024,
     k_util_max = 1024, k_util_min_rt = 1024, k_preempt_need_resched = False, k_sysctl_rt_runtime = 950000,
     k_latency_warn_ms = 100, k_latency_warn_once = True, k_warned_once = False,
     k_pendings = (\<lambda>_. pending_zero), k_nr_pendings = 0, k_preempt_count = 0, k_irqs_disabled = False,
     k_preempt_calls = \<lparr>pc_mode = 2, pc_cond_resched = False, pc_might_resched = False,
       pc_preempt_schedule = True, pc_preempt_schedule_notrace = True, pc_irqentry_exit_cond_resched = True\<rparr>,
     k_tick_works = (\<lambda>_. \<lparr>tw_cpu = 0, tw_state = 0\<rparr>), k_num_cpus_frozen = 0,
     k_smp_initialized = False, k_calc_load_tasks = 0, k_calc_load_update = 0,
     k_scheduler_running = False, k_core_sched_key = False, k_core_sched_count = 0, k_ext = ()\<rparr>"

text \<open>The hooks of an outside class that keeps no queue: nothing to pick, nothing to do.\<close>

definition empty_vtable :: "(unit, list_heap) vtable" where
  "empty_vtable = null_vtable\<lparr>vt_uclamp_enabled := True,
     vt_enqueue_task := Some (\<lambda>c p f k. Some k),
     vt_dequeue_task := Some (\<lambda>c p f k. Some k),
     vt_check_preempt_curr := Some (\<lambda>c p f k. Some k),
     vt_pick_next_task := Some (\<lambda>c k. Some (None, k)),
     vt_put_prev_task := Some (\<lambda>c p k. Some k),
     vt_set_next_task := Some (\<lambda>c p b k. Some k),
     vt_balance := Some (\<lambda>c p k. Some (0, k)),
     vt_select_task_rq := Some (\<lambda>p c f k. Some (c, k)),
     vt_task_tick := Some (\<lambda>c p q k. Some k),
     vt_switched_to := Some (\<lambda>c p k. Some k),
     vt_prio_changed := Some (\<lambda>c p d k. Some k),
     vt_update_curr := Some (\<lambda>c k. Some k)\<rparr>"

definition idle_vtable :: "(unit, list_heap) vtable" where
  "idle_vtable = empty_vtable\<lparr>
     vt_pick_next_task := Some (\<lambda>c k.
       Some (if t_class (tsk k (rq_idle (cpu_rq k c))) = Idle_class
             then Some (rq_idle (cpu_rq k c)) else None, k))\<rparr>"

definition env0 :: "(unit, list_heap) env" where
  "env0 = \<lparr>e_smp = False, e_sched_debug = False, e_warn_double_clock = False,
     e_irq_time_accounting = False, e_paravirt_time = False, e_sched_avg_irq = False,
     e_uclamp = True, e_uclamp_group = False, e_uclamp_buckets = 5, e_list = heap_ops,
     e_class = (\<lambda>c. if c = Idle_class then idle_vtable else empty_vtable),
     e_sched_clock_cpu = (\<lambda>c k. 100), e_irq_time_read = (\<lambda>c k. 0),
     e_paravirt_steal_clock = (\<lambda>c k. 0), e_update_rq_clock_pelt = (\<lambda>c d k. ()),
     e_update_irq_load_avg = (\<lambda>c d k. ()), e_smp_send_reschedule = (\<lambda>c k. ()),
     e_sched_info_enqueue = (\<lambda>c p k. ()), e_sched_info_dequeue = (\<lambda>c p k. ()),
     e_psi_enqueue = (\<lambda>p b k. ()), e_psi_dequeue = (\<lambda>p b k. ()),
     e_css_tree = (\<lambda>g k. Css g []), e_css_tasks = (\<lambda>g k. []), e_threads = (\<lambda>k. []),
     e_proc_dointvec = (\<lambda>w old buf. (0, old)), e_strim = (\<lambda>s. s),
     e_cgroup_parse_float = (\<lambda>s d. (0, 0)), e_rt_mutexes = True, e_sugov = True,
     e_util_est = True, e_reweight_task = (\<lambda>p lw k. ((), lw)),
     e_balance_callback = (\<lambda>f c k. Some k), e_rlimit_nice = (\<lambda>p k. 0),
     e_rlimit_rtprio = (\<lambda>p k. 0), e_capable = (\<lambda>n k. False),
     e_security_task_setnice = (\<lambda>p n k. 0), e_vcpu_is_preempted = (\<lambda>c k. False),
     e_in_interrupt = (\<lambda>k. False), e_checkparam_dl = (\<lambda>a. False),
     e_dl_param_changed = (\<lambda>p a k. False), e_sched_dl_overflow = (\<lambda>p n a k. (False, ())),
     e_setparam_dl = (\<lambda>p a k. ((), 0)), e_getparam_dl = (\<lambda>p a k. a),
     e_security_task_setscheduler = (\<lambda>p k. 0), e_security_task_getscheduler = (\<lambda>p k. 0),
     e_rt_group_sched = False, e_rd_span = (\<lambda>c k. {0}), e_rd_dl_bw = (\<lambda>c k. 0),
     e_rt_mutex_adjust_pi = (\<lambda>p k. Some k),
     e_find_task = (\<lambda>n k. if n < 10 then Some (nat n) else None), e_latency_warn = False,
     e_system_booting = (\<lambda>k. False), e_pick_next_task_fair = (\<lambda>c p k. Some (Picked None, k)),
     e_pick_next_task_idle = (\<lambda>c k. Some (rq_idle (cpu_rq k c), k)),
     e_schedule_enter = (\<lambda>c b k. ()), e_signal_pending_state = (\<lambda>s p k. False),
     e_delayacct_blkio_start = (\<lambda>p k. ()), e_psi_sched_switch = (\<lambda>p n b k. ()),
     e_nr_cpu_ids = 2, e_cpu_online = (\<lambda>c k. True), e_cpu_active = (\<lambda>c k. True),
     e_cpu_dying = (\<lambda>c k. False), e_task_cpu_possible = (\<lambda>c p k. True),
     e_task_cpu_possible_mask = (\<lambda>p k. {0, 1}), e_kthread_is_per_cpu = (\<lambda>p k. False),
     e_cpu_to_node = (\<lambda>c. None), e_cpumask_of_node = (\<lambda>n. {}),
     e_cpuset_fallback = (\<lambda>p k. Some (False, k)), e_migrate_task = (\<lambda>p k. ()),
     e_kmalloc_ok = (\<lambda>k. True), e_prepare_switch = (\<lambda>c p n k. ()),
     e_switch_mm = (\<lambda>m n p k. ()), e_mmgrab = (\<lambda>m k. ()), e_mmdrop = (\<lambda>m k. ()),
     e_mm_membarrier_state = (\<lambda>m k. 0), e_finish_switch = (\<lambda>c p k. ()),
     e_task_dead = (\<lambda>p k. ()), e_submit_work = (\<lambda>p k. Some k), e_update_worker = (\<lambda>p k. Some k),
     e_tick_thermal = (\<lambda>c k. ()), e_calc_global_load_tick = (\<lambda>c k. ()),
     e_resched_latency_warn = (\<lambda>c n k. ()), e_perf_event_task_tick = (\<lambda>c k. ()),
     e_trigger_load_balance = (\<lambda>c k. ())\<rparr>"

lemma e_list_env0 [simp]: "e_list env0 = heap_ops"
  by (simp add: env0_def)

text \<open>The lottery runqueue of the machine: the contract of the list library holds of the
  pointer heap, and with it everything proved of a lottery runqueue.\<close>

interpretation machine: lottery_rq env0 heap_dll c fl for c fl
  unfolding lottery_rq_def e_list_env0 by (rule heap_list.linux_list_axioms)

lemma linux_list_env0: "linux_list (e_list env0) heap_dll"
  by (simp add: heap_list.linux_list_axioms)

text \<open>The machine after boot: the empty queue on runqueue 0.\<close>

definition boot0 :: "(unit, list_heap) kernel" where
  "boot0 = init_ltr_rq env0 0 kernel0"

lemma boot0_queue: "ltr_queue heap_dll 0 boot0 []"
  using heap_list.init_dll[of "RqQueue 0" heap0]
  by (simp add: ltr_queue_def boot0_def init_ltr_rq_def kernel0_def)

text \<open>The queue of tasks 1, 2 and 3, five tickets each.\<close>

definition trio0 :: "(unit, list_heap) kernel" where
  "trio0 = the (run_ops (\<lambda>p k. enqueue_task_lottery env0 0 p 0 k)
                        (\<lambda>p k. dequeue_task_lottery env0 0 p 0 k) [Enq 1, Enq 2, Enq 3] boot0)"

lemma trio0_run:
  "run_ops (\<lambda>p k. enqueue_task_lottery env0 0 p 0 k) (\<lambda>p k. dequeue_task_lottery env0 0 p 0 k)
     [Enq 1, Enq 2, Enq 3] boot0 = Some trio0"
  "ltr_queue heap_dll 0 trio0 [1, 2, 3]"
proof -
  obtain k where k:
    "run_ops (\<lambda>p k. enqueue_task_lottery env0 0 p 0 k) (\<lambda>p k. dequeue_task_lottery env0 0 p 0 k)
       [Enq 1, Enq 2, Enq 3] boot0 = Some k" "ltr_queue heap_dll 0 k [1, 2, 3]"
    using machine.cq.run_refines[where fl=0, OF boot0_queue, of "[Enq 1, Enq 2, Enq 3]" "[1, 2, 3]"]
    by auto
  then have "trio0 = k" unfolding trio0_def by (simp only: option.sel)
  with k show
    "run_ops (\<lambda>p k. enqueue_task_lottery env0 0 p 0 k) (\<lambda>p k. dequeue_task_lottery env0 0 p 0 k)
       [Enq 1, Enq 2, Enq 3] boot0 = Some trio0"
    "ltr_queue heap_dll 0 trio0 [1, 2, 3]" by simp_all
qed

lemma trio0_frame [simp]:
  "k_tasks trio0 = k_tasks kernel0" "k_entropy trio0 = k_entropy kernel0" "k_this_cpu trio0 = 0"
  using lottery_run_frame[OF trio0_run(1)] by (simp_all add: boot0_def init_ltr_rq_def kernel0_def)

lemma trio0_drum: "drum (k_tasks kernel0) [1, 2, 3] = [1,1,1,1,1, 2,2,2,2,2, 3,3,3,3,3]"
proof -
  have "unat (tickets kernel0 p) = 5" if "p \<noteq> 0" for p
    using that by (simp add: kernel0_def task0_def)
  then show ?thesis by (simp add: numeral_eq_Suc)
qed

lemma trio0_small: "length (drum (k_tasks kernel0) [1, 2, 3]) < 2 ^ 32"
  unfolding trio0_drum by simp

lemma trio0_lottery: "all_lottery (k_tasks kernel0) [1, 2, 3]"
  by (simp add: all_lottery_def kernel0_def task0_def)

end
