(* ===== verification/Lottery_Props.thy ===== *)
theory Lottery_Props
  imports Machine
begin

text \<open>
  The properties of the lottery class, over any implementation of the list library that keeps
  its contract: histories of enqueues and dequeues refine the abstract queue, the drawing is an
  index into the drum of tickets, every task gets its share of the random words, and the tick asks
  for a reschedule on one word in ten. Each has an instance on the concrete machine.
\<close>

section \<open>The queue\<close>

text \<open>C2: Any history of enqueues and dequeues that the abstract queue (the list of tasks) can
  make, the lottery runqueue makes without an oops, and ends with exactly those tasks in that
  order, with the counter equal to their number and the total to the sum of their tickets.\<close>

theorem lottery_history_refines:
  assumes "linux_list (e_list env) dll" and "ltr_queue dll c k ps"
    and "run_spec ops ps = Some qs"
  shows "\<exists>k'. run_ops (\<lambda>p k. enqueue_task_lottery env c p fl k)
                (\<lambda>p k. dequeue_task_lottery env c p fl k) ops k = Some k' \<and>
           ltr_queue dll c k' qs"
  using lottery_rq.history[OF lottery_rq.intro[OF assms(1)] assms(2,3)] .

theorem lottery_history_refines_witness:
  "\<exists>k'. run_ops (\<lambda>p k. enqueue_task_lottery env0 0 p 0 k)
          (\<lambda>p k. dequeue_task_lottery env0 0 p 0 k)
          [Enq 1, Enq 2, Deq 1, Enq 3, Enq 1] boot0 = Some k' \<and>
        ltr_queue heap_dll 0 k' [2, 3, 1]"
  using lottery_history_refines[where fl = 0, OF linux_list_env0 boot0_queue,
      of "[Enq 1, Enq 2, Deq 1, Enq 3, Enq 1]" "[2, 3, 1]"] by simp

text \<open>C7: An enqueue or a dequeue on one runqueue leaves the lottery queue of every other
  runqueue, its counter and its total as they were.\<close>

theorem lottery_rqs_isolated:
  assumes "linux_list (e_list env) dll" and "ltr_queue dll c k ps" and "ltr_queue dll d k qs"
    and "d \<noteq> c" and "set qs \<inter> set (p # ps) = {}"
    and "(p \<notin> set ps \<and> enqueue_task_lottery env c p fl k = Some k') \<or>
         (p \<in> set ps \<and> dequeue_task_lottery env c p fl k = Some k')"
  shows "ltr_queue dll d k' qs"
proof -
  note l = lottery_rq.intro[OF assms(1)]
  have qs: "set qs \<inter> set ps = {}" using assms(5) by auto
  show ?thesis using assms(6)
    by (rule disjE) (use lottery_rq.enqueue_isolated[OF l assms(2) _ assms(4,3,5)]
        lottery_rq.dequeue_isolated[OF l assms(2) _ assms(4,3) qs] in blast)+
qed

definition duo0 :: "(unit, list_heap) kernel" where
  "duo0 = init_ltr_rq env0 1 boot0"

lemma duo0_queues: "ltr_queue heap_dll 0 duo0 []" "ltr_queue heap_dll 1 duo0 []"
proof -
  show "ltr_queue heap_dll 1 duo0 []" unfolding duo0_def by (rule machine.init_empty)
  show "ltr_queue heap_dll 0 duo0 []"
    using boot0_queue heap_list.init_frame[of "k_links boot0" "RqQueue 0" "[]" "RqQueue 1"]
    by (simp add: duo0_def ltr_queue_def init_ltr_rq_def)
qed

theorem lottery_rqs_isolated_witness:
  "\<exists>k'. enqueue_task_lottery env0 0 1 0 duo0 = Some k' \<and> ltr_queue heap_dll 1 k' []"
proof -
  obtain k' where "enqueue_task_lottery env0 0 1 0 duo0 = Some k'"
    using machine.enqueue_total[OF duo0_queues(1), of 1] by auto
  with lottery_rqs_isolated[OF linux_list_env0 duo0_queues, of 1 0 k'] show ?thesis by auto
qed

section \<open>The drawing\<close>

text \<open>C3: With a non-empty drum that fits the 32-bit total, the drawing returns the owner of the
  ticket at index \<open>r mod total\<close> of the drum, where \<open>r\<close> is the random word it consumes; it
  logs the selection and changes neither the queue nor a task.\<close>

theorem lottery_pick_is_draw:
  assumes "linux_list (e_list env) dll" and "ltr_queue dll c k ps"
    and "all_lottery (k_tasks k) ps" and "length (drum (k_tasks k) ps) < 2 ^ 32"
    and "drum (k_tasks k) ps \<noteq> []"
  shows "\<exists>p k'. pick_next_task_lottery env c k = Some (Some p, k') \<and>
     p = drum (k_tasks k) ps ! (unat (k_entropy k 0) mod length (drum (k_tasks k) ps)) \<and>
     k_log k' = k_log k @ [Lottery_event (t_pid (tsk k p)) (k_ktime k 0) ''s''] \<and>
     (\<forall>n. k_entropy k' n = k_entropy k (Suc n)) \<and>
     k_tasks k' = k_tasks k \<and> ltr_queue dll c k' ps"
  using pick_draws[OF assms refl] assms(2)
  by (simp add: ltr_queue_def)

theorem lottery_pick_is_draw_witness:
  "\<exists>k'. pick_next_task_lottery env0 0 trio0 = Some (Some 2, k')"
proof -
  let ?d = "drum (k_tasks trio0) [1, 2, 3]"
  have d: "?d = [1,1,1,1,1, 2,2,2,2,2, 3,3,3,3,3]" using trio0_drum by simp
  have r: "unat (k_entropy trio0 0) = 8" by (simp add: kernel0_def)
  have "?d ! (unat (k_entropy trio0 0) mod length ?d) = 2" unfolding d r by simp
  with lottery_pick_is_draw[OF linux_list_env0 trio0_run(2)] trio0_lottery d
  show ?thesis by (metis (no_types, lifting) length_Cons list.distinct(1) list.size(3) trio0_frame(1) trio0_small)
qed

section \<open>Shares\<close>

text \<open>The number of words with a given residue.\<close>

lemma card_residue:
  fixes n j :: nat
  assumes "j < n"
  shows "N div n \<le> card {r. r < N \<and> r mod n = j}" "card {r. r < N \<and> r mod n = j} \<le> N div n + 1"
proof -
  have inj: "inj_on (\<lambda>q. q * n + j) A" for A using assms by (auto simp: inj_on_def)
  have fin: "finite {r. r < N \<and> r mod n = j}" by simp
  have "(\<lambda>q. q * n + j) ` {..< N div n} \<subseteq> {r. r < N \<and> r mod n = j}"
  proof
    fix x assume "x \<in> (\<lambda>q. q * n + j) ` {..< N div n}"
    then obtain q where q: "x = q * n + j" "q < N div n" by auto
    have "Suc q * n \<le> N div n * n" using q(2) by (intro mult_right_mono) auto
    also have "\<dots> \<le> N" by simp
    finally show "x \<in> {r. r < N \<and> r mod n = j}" using q(1) assms by simp
  qed
  from card_mono[OF fin this] show "N div n \<le> card {r. r < N \<and> r mod n = j}"
    by (simp add: card_image[OF inj])
  have "{r. r < N \<and> r mod n = j} \<subseteq> (\<lambda>q. q * n + j) ` {.. N div n}"
  proof
    fix x assume x: "x \<in> {r. r < N \<and> r mod n = j}"
    then have "x = x div n * n + j" by (metis (mono_tags) div_mult_mod_eq mem_Collect_eq)
    moreover have "x div n \<le> N div n" using x by (simp add: div_le_mono)
    ultimately show "x \<in> (\<lambda>q. q * n + j) ` {.. N div n}" by blast
  qed
  from card_mono[OF _ this] show "card {r. r < N \<and> r mod n = j} \<le> N div n + 1"
    by (simp add: card_image[OF inj])
qed

lemma card_draws:
  assumes "xs \<noteq> []"
  shows "count_list xs x * (N div length xs) \<le> card {r. r < N \<and> xs ! (r mod length xs) = x}"
    "card {r. r < N \<and> xs ! (r mod length xs) = x} \<le> count_list xs x * (N div length xs + 1)"
proof -
  let ?J = "{i. i < length xs \<and> xs ! i = x}"
  let ?R = "\<lambda>j. {r. r < N \<and> r mod length xs = j}"
  have "{r. r < N \<and> xs ! (r mod length xs) = x} = (\<Union>j\<in>?J. ?R j)" using assms by auto
  moreover have "card (\<Union>j\<in>?J. ?R j) = (\<Sum>j\<in>?J. card (?R j))"
    by (rule card_UN_disjoint) auto
  ultimately have eq: "card {r. r < N \<and> xs ! (r mod length xs) = x} = (\<Sum>j\<in>?J. card (?R j))"
    by simp
  have J: "card ?J = count_list xs x" by (rule card_index_count)
  show "count_list xs x * (N div length xs) \<le> card {r. r < N \<and> xs ! (r mod length xs) = x}"
    unfolding eq J[symmetric]
    using sum_bounded_below[of ?J "N div length xs" "\<lambda>j. card (?R j)"] card_residue(1)
    by (simp add: mult.commute)
  show "card {r. r < N \<and> xs ! (r mod length xs) = x} \<le> count_list xs x * (N div length xs + 1)"
    unfolding eq J[symmetric]
    using sum_bounded_above[of ?J "\<lambda>j. card (?R j)" "N div length xs + 1"] card_residue(2)
    by (simp add: mult.commute)
qed

lemma card_words: "card {r :: u32. P (unat r)} = card {r :: nat. r < 2 ^ 32 \<and> P r}"
proof -
  have "unat ` {r :: u32. P (unat r)} = {r. r < 2 ^ 32 \<and> P r}"
  proof safe
    fix x :: nat assume "x < 2 ^ 32" "P x"
    then have "unat (of_nat x :: u32) = x" by (simp add: unat_of_nat)
    with \<open>P x\<close> show "x \<in> unat ` {r :: u32. P (unat r)}" by (metis image_eqI mem_Collect_eq)
  next
    fix r :: u32 show "unat r < 2 ^ 32" using unsigned_less[of r] by simp
  qed
  moreover have "inj_on unat {r :: u32. P (unat r)}" by (auto intro!: inj_onI simp: word_unat_eq_iff)
  ultimately show ?thesis by (metis card_image)
qed

text \<open>The words that make the drawing choose \<open>p\<close>.\<close>

definition winning_words ::
    "('x, 'l, 'm) env_scheme \<Rightarrow> cpu \<Rightarrow> ('x, 'l) kernel \<Rightarrow> tid \<Rightarrow> u32 set" where
  "winning_words env c k p =
     {r. \<exists>k'. pick_next_task_lottery env c (k\<lparr>k_entropy := (\<lambda>_. r)\<rparr>) = Some (Some p, k')}"

text \<open>C4: Proportional share: of the 2^32 random words, a queued task wins
  between \<open>tickets * floor(2^32 / total)\<close> and \<open>tickets * (floor(2^32 / total) + 1)\<close>; a task with no
  tickets never wins.\<close>

theorem lottery_share:
  assumes "linux_list (e_list env) dll" and "ltr_queue dll c k ps"
    and "all_lottery (k_tasks k) ps" and "length (drum (k_tasks k) ps) < 2 ^ 32"
    and "drum (k_tasks k) ps \<noteq> []" and "p \<in> set ps"
  shows "unat (tickets k p) * (2 ^ 32 div length (drum (k_tasks k) ps))
           \<le> card (winning_words env c k p) \<and>
         card (winning_words env c k p)
           \<le> unat (tickets k p) * (2 ^ 32 div length (drum (k_tasks k) ps) + 1)"
proof -
  let ?d = "drum (k_tasks k) ps"
  have q: "ltr_queue dll c (k\<lparr>k_entropy := (\<lambda>_. r)\<rparr>) ps" for r
    using assms(2) by (simp add: ltr_queue_def)
  have "\<exists>k'. pick_next_task_lottery env c (k\<lparr>k_entropy := (\<lambda>_. r)\<rparr>) =
          Some (Some (?d ! (unat r mod length ?d)), k')" for r
    using pick_draws[OF assms(1) q _ _ _ refl, of r] assms(3,4,5) by auto
  then obtain K where "pick_next_task_lottery env c (k\<lparr>k_entropy := (\<lambda>_. r)\<rparr>) =
          Some (Some (?d ! (unat r mod length ?d)), K r)" for r by metis
  then have "winning_words env c k p = {r. ?d ! (unat r mod length ?d) = p}"
    by (simp add: winning_words_def)
  then have w: "card (winning_words env c k p) = card {r. r < 2 ^ 32 \<and> ?d ! (r mod length ?d) = p}"
    using card_words[of "\<lambda>r. ?d ! (r mod length ?d) = p"] by simp
  have "distinct ps" using lottery_rq.queue_distinct[OF lottery_rq.intro[OF assms(1)] assms(2)] .
  then have n: "count_list ?d p = unat (tickets k p)" using assms(6) by (simp add: count_drum)
  show ?thesis
    using card_draws[OF assms(5), where x = p and N = "2 ^ 32"] unfolding w n by blast
qed

text \<open>Five tickets of fifteen: a third of the words.\<close>

theorem lottery_share_witness:
  "1431655765 \<le> card (winning_words env0 0 trio0 2) \<and>
   card (winning_words env0 0 trio0 2) \<le> 1431655770"
proof -
  have t: "unat (tickets trio0 2) = 5" by (simp add: kernel0_def task0_def)
  have d: "drum (k_tasks trio0) [1, 2, 3] = [1,1,1,1,1, 2,2,2,2,2, 3,3,3,3,3]"
    using trio0_drum by simp
  have "all_lottery (k_tasks trio0) [1, 2, 3]" using trio0_lottery by simp
  from lottery_share[OF linux_list_env0 trio0_run(2) this, of 2]
  show ?thesis unfolding d t by simp
qed

text \<open>The drawing always returns: NULL exactly when the total of the tickets is zero or the
  queue is empty (and then nothing changes), and otherwise a task of the queue, whatever policies
  the queued tasks have; the queue is as before.\<close>

theorem lottery_pick_total:
  assumes "linux_list (e_list env) dll" and "ltr_queue dll c k ps"
  shows "\<exists>t k'. pick_next_task_lottery env c k = Some (t, k') \<and>
     (t = None \<longleftrightarrow> lr_total_tickets (rq_ltr (cpu_rq k c)) = 0) \<and>
     (t = None \<longrightarrow> k' = k) \<and> set_option t \<subseteq> set ps \<and> ltr_queue dll c k' ps"
proof -
  let ?total = "lr_total_tickets (rq_ltr (cpu_rq k c))"
  note u = lottery_rq.pick_unfold[OF lottery_rq.intro[OF assms(1)] assms(2)]
  show ?thesis
  proof (cases "?total = 0")
    case True
    with assms(2) u show ?thesis by simp
  next
    case False
    then have "ps \<noteq> []" using assms(2) by (auto simp: ltr_queue_def)
    then obtain p where p: "lottery_scan (k_tasks k) (k_entropy k 0 mod ?total) 0 None ps = Some p"
      using lottery_scan_Some by blast
    then have "p \<in> set ps" using lottery_scan_mem by fastforce
    with p False \<open>ps \<noteq> []\<close> assms(2) show ?thesis by (simp add: u Let_def ltr_queue_def)
  qed
qed

theorem lottery_pick_total_witness:
  "\<exists>k'. pick_next_task_lottery env0 0 boot0 = Some (None, k')"
  using lottery_pick_total[OF linux_list_env0 boot0_queue] by auto

section \<open>The tick\<close>

text \<open>The tick of the running task asks for a reschedule exactly when more than one
  lottery task is on the runqueue and the random word is a multiple of ten; otherwise the running
  task's flag stays, and no word is consumed when there is only one task.\<close>

theorem lottery_tick:
  "\<exists>k'. task_tick_lottery env c p queued k = Some k' \<and>
     (let nr = lr_nr_running (rq_ltr (cpu_rq k c)); curr = rq_curr (cpu_rq k c) in
      (t_need_resched (tsk k' curr) \<longleftrightarrow>
         t_need_resched (tsk k curr) \<or> (1 < nr \<and> k_entropy k 0 mod 10 = 0)) \<and>
      (\<forall>q. q \<noteq> curr \<longrightarrow> tsk k' q = tsk k q) \<and> (nr \<le> 1 \<longrightarrow> k' = k) \<and>
      (\<forall>d. cpu_rq k' d = cpu_rq k d))"
  by (auto simp: task_tick_lottery_def get_random_u32_def Let_def not_le)

theorem lottery_tick_witness:
  "\<exists>k'. task_tick_lottery env0 0 1 0 trio0 = Some k' \<and>
     (\<forall>q. q \<noteq> rq_curr (cpu_rq trio0 0) \<longrightarrow> tsk k' q = tsk trio0 q)"
  using lottery_tick[of env0 0 1 0 trio0] by (auto simp: Let_def)

section \<open>Leaving the class\<close>

text \<open>C39: \<open>switched_from_lottery\<close> runs after the task was taken off its queue, but
  \<open>list_del\<close> leaves a node on which \<open>list_empty\<close> is false, so the hook dequeues the task
  a second time; where that second removal returns, the counters are decremented twice. On the
  pointer heap with poisoned links it is an oops (the witness).\<close>

theorem switched_from_dequeues_twice:
  assumes "linux_list (e_list env) dll" and "ltr_queue dll c k ps" and "p \<in> set ps"
    and "dequeue_task_lottery env c p fl k = Some k1"
  shows "switched_from_lottery env c p k1 = dequeue_task_lottery env c p 0 k1 \<and>
    (\<forall>k2. switched_from_lottery env c p k1 = Some k2 \<longrightarrow>
       lr_nr_running (rq_ltr (cpu_rq k2 c)) = of_nat (length ps) - 2 \<and>
       lr_total_tickets (rq_ltr (cpu_rq k2 c)) =
         sum_list (map (tickets k) ps) - 2 * tickets k p)"
proof -
  obtain l where l: "op_del (e_list env) (TaskLtr p) (k_links k) = Some l" "k_links k1 = l"
    using assms(4) by (auto simp: dequeue_task_lottery_def bind_Some_iff)
  have q: "dll (k_links k) (RqQueue c) (map TaskLtr ps)" "TaskLtr p \<in> set (map TaskLtr ps)"
    using assms(2,3) by (simp_all add: ltr_queue_def)
  have "\<not> op_empty (e_list env) (TaskLtr p) l"
    using linux_list.del_not_empty[OF assms(1) q l(1)] .
  then have d: "switched_from_lottery env c p k1 = dequeue_task_lottery env c p 0 k1"
    using l by (simp add: switched_from_lottery_def)
  have t: "k_tasks k1 = k_tasks k" using assms(4) by (rule dequeue_task_lottery_frame)
  have "lr_nr_running (rq_ltr (cpu_rq k2 c)) = of_nat (length ps) - 2 \<and>
      lr_total_tickets (rq_ltr (cpu_rq k2 c)) = sum_list (map (tickets k) ps) - 2 * tickets k p"
    if "dequeue_task_lottery env c p 0 k1 = Some k2" for k2
    using that t assms(2,4)
    by (auto simp: dequeue_task_lottery_def Let_def bind_Some_iff ltr_queue_def)
  with d show ?thesis by simp
qed

lemma heap_del_twice:
  "heap_dll l h xs \<Longrightarrow> n \<in> set xs \<Longrightarrow> heap_del n l = Some l' \<Longrightarrow> heap_del n l' = None"
  using heap_del_dll[of l h xs n] by (auto simp: heap_del_def split: ptr.splits)

theorem switched_from_dequeues_twice_witness:
  "\<exists>k1. dequeue_task_lottery env0 0 2 0 trio0 = Some k1 \<and>
        switched_from_lottery env0 0 2 k1 = None"
proof -
  have two: "(2::tid) \<in> set [1, 2, 3]" by simp
  obtain k1 where k1: "dequeue_task_lottery env0 0 2 0 trio0 = Some k1"
    using machine.dequeue_total[OF trio0_run(2) two] by auto
  then have "heap_del (TaskLtr 2) (k_links trio0) = Some (k_links k1)"
    by (auto simp: dequeue_task_lottery_def bind_Some_iff heap_ops_def)
  then have "heap_del (TaskLtr 2) (k_links k1) = None"
    using heap_del_twice trio0_run(2) by (fastforce simp: ltr_queue_def)
  then have "dequeue_task_lottery env0 0 2 0 k1 = None"
    by (simp add: dequeue_task_lottery_def heap_ops_def)
  with k1 switched_from_dequeues_twice[OF linux_list_env0 trio0_run(2) two k1] show ?thesis
    by simp
qed

end
