(* ===== verification/Uclamp.thy ===== *)
theory Uclamp
  imports Lottery
begin

text \<open>
  Utilization clamping (\<open>core.c\<close>, lines 1294 to 1960, and the cgroup interface at lines 10110
  to 10270). Each task requests a minimum and a maximum; a runqueue counts its runnable tasks in
  buckets of similar values and keeps the largest clamp among them.

  The clamp value is an 11-bit field and the bucket counter a 21-bit one, so a value assigned to
  them is truncated.
\<close>

section \<open>Clamp values\<close>

(* linux/sched.h 391-391: SCHED_CAPACITY_SCALE *)
definition SCHED_CAPACITY_SCALE :: u32 where "SCHED_CAPACITY_SCALE = 1024"

(* sched.h 968-968: UCLAMP_FLAG_IDLE *)
definition UCLAMP_FLAG_IDLE :: u32 where "UCLAMP_FLAG_IDLE = 0x01"

text \<open>\<open>DIV_ROUND_CLOSEST(SCHED_CAPACITY_SCALE, UCLAMP_BUCKETS)\<close>, both positive.\<close>

(* core.c 1289-1289: UCLAMP_BUCKET_DELTA *)
definition UCLAMP_BUCKET_DELTA :: "('x, 'l, 'm) env_scheme \<Rightarrow> nat" where
  "UCLAMP_BUCKET_DELTA env = (1024 + e_uclamp_buckets env div 2) div e_uclamp_buckets env"

(* core.c 1291-1292: for_each_clamp_id *)
definition for_each_clamp_id :: "uclamp_id list" where
  "for_each_clamp_id = [UCLAMP_MIN, UCLAMP_MAX]"

(* core.c 1294-1297: uclamp_bucket_id *)
definition uclamp_bucket_id :: "('x, 'l, 'm) env_scheme \<Rightarrow> u32 \<Rightarrow> nat" where
  "uclamp_bucket_id env v = min (unat v div UCLAMP_BUCKET_DELTA env) (e_uclamp_buckets env - 1)"

(* core.c 1299-1304: uclamp_none *)
fun uclamp_none :: "uclamp_id \<Rightarrow> u32" where
  "uclamp_none UCLAMP_MIN = 0"
| "uclamp_none UCLAMP_MAX = SCHED_CAPACITY_SCALE"

(* core.c 1306-1312: uclamp_se_set *)
definition uclamp_se_set ::
    "('x, 'l, 'm) env_scheme \<Rightarrow> u32 \<Rightarrow> bool \<Rightarrow> uclamp_se \<Rightarrow> uclamp_se" where
  "uclamp_se_set env value user_defined se =
     se\<lparr>us_value := ucast value, us_bucket_id := uclamp_bucket_id env value,
        us_user_defined := user_defined\<rparr>"

section \<open>The clamp of a runqueue\<close>

(* sched.h 2881-2885: uclamp_rq_get#1 *)
definition uclamp_rq_get :: "rq \<Rightarrow> uclamp_id \<Rightarrow> u32" where
  "uclamp_rq_get r i = ur_value (rq_uclamp r i)"

(* sched.h 2887-2891: uclamp_rq_set#1 *)
definition uclamp_rq_set :: "uclamp_id \<Rightarrow> u32 \<Rightarrow> rq \<Rightarrow> rq" where
  "uclamp_rq_set i v r =
     r\<lparr>rq_uclamp := (rq_uclamp r)(i := (rq_uclamp r i)\<lparr>ur_value := v\<rparr>)\<rparr>"

(* sched.h 2893-2896: uclamp_rq_is_idle#1 *)
definition uclamp_rq_is_idle :: "rq \<Rightarrow> bool" where
  "uclamp_rq_is_idle r \<longleftrightarrow> has_flag (rq_uclamp_flags r) UCLAMP_FLAG_IDLE"

(* core.c 1314-1329: uclamp_idle_value *)
fun uclamp_idle_value :: "uclamp_id \<Rightarrow> u32 \<Rightarrow> rq \<Rightarrow> u32 \<times> rq" where
  "uclamp_idle_value UCLAMP_MAX v r =
     (v, r\<lparr>rq_uclamp_flags := rq_uclamp_flags r OR UCLAMP_FLAG_IDLE\<rparr>)"
| "uclamp_idle_value UCLAMP_MIN v r = (uclamp_none UCLAMP_MIN, r)"

(* core.c 1331-1339: uclamp_idle_reset *)
definition uclamp_idle_reset :: "uclamp_id \<Rightarrow> u32 \<Rightarrow> rq \<Rightarrow> rq" where
  "uclamp_idle_reset i v r =
     (if has_flag (rq_uclamp_flags r) UCLAMP_FLAG_IDLE then uclamp_rq_set i v r else r)"

text \<open>The loop of \<open>uclamp_rq_max_value\<close> over the buckets below \<open>n\<close>, from the top.\<close>

(* core.c !1347-1357: uclamp_rq_max_value (loop) *)
fun uclamp_top_bucket :: "nat \<Rightarrow> (nat \<Rightarrow> uclamp_bucket) \<Rightarrow> nat option" where
  "uclamp_top_bucket 0 bs = None"
| "uclamp_top_bucket (Suc n) bs = (if ub_tasks (bs n) = 0 then uclamp_top_bucket n bs else Some n)"

(* core.c 1341-1360: uclamp_rq_max_value *)
definition uclamp_rq_max_value ::
    "('x, 'l, 'm) env_scheme \<Rightarrow> uclamp_id \<Rightarrow> u32 \<Rightarrow> rq \<Rightarrow> u32 \<times> rq" where
  "uclamp_rq_max_value env i v r =
     (case uclamp_top_bucket (e_uclamp_buckets env) (ur_bucket (rq_uclamp r i)) of
        Some b \<Rightarrow> (ucast (ub_value (ur_bucket (rq_uclamp r i) b)), r)
      | None \<Rightarrow> uclamp_idle_value i v r)"

section \<open>The effective clamp of a task\<close>

definition rt_task :: "task \<Rightarrow> bool" where "rt_task t \<longleftrightarrow> rt_prio (t_prio t)"
definition dl_task :: "task \<Rightarrow> bool" where "dl_task t \<longleftrightarrow> dl_prio (t_prio t)"

(* core.c 1362-1377: __uclamp_update_util_min_rt_default *)
definition uclamp_update_util_min_rt_default_locked ::
    "('x, 'l, 'm) env_scheme \<Rightarrow> tid \<Rightarrow> ('x, 'l) kernel \<Rightarrow> ('x, 'l) kernel" where
  "uclamp_update_util_min_rt_default_locked env p k =
     (if us_user_defined (t_uclamp_req (tsk k p) UCLAMP_MIN) then k
      else upd_task p (\<lambda>t. t\<lparr>t_uclamp_req := (t_uclamp_req t)
             (UCLAMP_MIN := uclamp_se_set env (k_util_min_rt k) False
                (t_uclamp_req t UCLAMP_MIN))\<rparr>) k)"

(* core.c 1379-1391: uclamp_update_util_min_rt_default *)
definition uclamp_update_util_min_rt_default ::
    "('x, 'l, 'm) env_scheme \<Rightarrow> tid \<Rightarrow> ('x, 'l) kernel \<Rightarrow> ('x, 'l) kernel" where
  "uclamp_update_util_min_rt_default env p k =
     (if rt_task (tsk k p) then uclamp_update_util_min_rt_default_locked env p k else k)"

(* core.c 1393-1418: uclamp_sync_util_min_rt_default *)
definition uclamp_sync_util_min_rt_default ::
    "('x, 'l, 'm) env_scheme \<Rightarrow> ('x, 'l) kernel \<Rightarrow> ('x, 'l) kernel" where
  "uclamp_sync_util_min_rt_default env k =
     fold (uclamp_update_util_min_rt_default env) (e_threads env k) k"

definition clamp_val :: "'a::linorder \<Rightarrow> 'a \<Rightarrow> 'a \<Rightarrow> 'a" where
  "clamp_val v lo hi = min (max v lo) hi"

(* core.c 1420-1445: uclamp_tg_restrict *)
definition uclamp_tg_restrict ::
    "('x, 'l, 'm) env_scheme \<Rightarrow> ('x, 'l) kernel \<Rightarrow> tid \<Rightarrow> uclamp_id \<Rightarrow> uclamp_se" where
  "uclamp_tg_restrict env k p i =
     (let uc_req = t_uclamp_req (tsk k p) i; g = t_tg (tsk k p) in
      if \<not> e_uclamp_group env then uc_req
      else if tg_autogroup (k_tgs k g) then uc_req
      else if g = root_task_group then uc_req
      else let tg_min = us_value (tg_uclamp (k_tgs k g) UCLAMP_MIN);
               tg_max = us_value (tg_uclamp (k_tgs k g) UCLAMP_MAX);
               value = clamp_val (us_value uc_req) tg_min tg_max
           in uclamp_se_set env (ucast value) False uc_req)"

(* core.c 1455-1466: uclamp_eff_get *)
definition uclamp_eff_get ::
    "('x, 'l, 'm) env_scheme \<Rightarrow> ('x, 'l) kernel \<Rightarrow> tid \<Rightarrow> uclamp_id \<Rightarrow> uclamp_se" where
  "uclamp_eff_get env k p i =
     (let uc_req = uclamp_tg_restrict env k p i; uc_max = k_uclamp_default k i in
      if us_value uc_req > us_value uc_max then uc_max else uc_req)"

(* core.c 1468-1479: uclamp_eff_value *)
definition uclamp_eff_value ::
    "('x, 'l, 'm) env_scheme \<Rightarrow> ('x, 'l) kernel \<Rightarrow> tid \<Rightarrow> uclamp_id \<Rightarrow> u32" where
  "uclamp_eff_value env k p i =
     (if \<not> e_uclamp env then uclamp_none i
      else if us_active (t_uclamp (tsk k p) i) then ucast (us_value (t_uclamp (tsk k p) i))
      else ucast (us_value (uclamp_eff_get env k p i)))"

(* sched.h 2915-2949: uclamp_rq_util_with#1 *)
definition uclamp_rq_util_with ::
    "('x, 'l, 'm) env_scheme \<Rightarrow> ('x, 'l) kernel \<Rightarrow> cpu \<Rightarrow> u32 \<Rightarrow> tid option \<Rightarrow> u32" where
  "uclamp_rq_util_with env k c util p =
     (if \<not> e_uclamp env \<or> \<not> k_uclamp_used k then util
      else let r = cpu_rq k c;
               (mn, mx) = (case p of Some q \<Rightarrow>
                   (uclamp_eff_value env k q UCLAMP_MIN, uclamp_eff_value env k q UCLAMP_MAX)
                 | None \<Rightarrow> (0, 0));
               (mn, mx) = (if p \<noteq> None \<and> uclamp_rq_is_idle r then (mn, mx)
                 else (max mn (uclamp_rq_get r UCLAMP_MIN), max mx (uclamp_rq_get r UCLAMP_MAX)))
           in if mn \<ge> mx then mn else clamp_val util mn mx)"

section \<open>Counting a task in and out\<close>

definition upd_se :: "tid \<Rightarrow> uclamp_id \<Rightarrow> (uclamp_se \<Rightarrow> uclamp_se) \<Rightarrow> ('x, 'l) kernel \<Rightarrow> ('x, 'l) kernel"
where
  "upd_se p i f = upd_task p (\<lambda>t. t\<lparr>t_uclamp := (t_uclamp t)(i := f (t_uclamp t i))\<rparr>)"

definition upd_req :: "tid \<Rightarrow> uclamp_id \<Rightarrow> (uclamp_se \<Rightarrow> uclamp_se) \<Rightarrow> ('x, 'l) kernel \<Rightarrow> ('x, 'l) kernel"
where
  "upd_req p i f =
     upd_task p (\<lambda>t. t\<lparr>t_uclamp_req := (t_uclamp_req t)(i := f (t_uclamp_req t i))\<rparr>)"

definition upd_bucket :: "uclamp_id \<Rightarrow> nat \<Rightarrow> (uclamp_bucket \<Rightarrow> uclamp_bucket) \<Rightarrow> rq \<Rightarrow> rq" where
  "upd_bucket i b f r = r\<lparr>rq_uclamp := (rq_uclamp r)(i := (rq_uclamp r i)
     \<lparr>ur_bucket := (ur_bucket (rq_uclamp r i))(b := f (ur_bucket (rq_uclamp r i) b))\<rparr>)\<rparr>"

text \<open>The runqueue's half of \<open>uclamp_rq_inc_id\<close>, for an entity with value \<open>v\<close> and bucket
  \<open>b\<close>: the counter, the idle reset, the bucket's maximum and the runqueue's maximum.\<close>

(* core.c !1505-1523: uclamp_rq_inc_id (runqueue) *)
definition uclamp_bucket_inc :: "uclamp_id \<Rightarrow> nat \<Rightarrow> 11 word \<Rightarrow> rq \<Rightarrow> rq" where
  "uclamp_bucket_inc i b v r =
     (let r = upd_bucket i b (\<lambda>u. u\<lparr>ub_tasks := ub_tasks u + 1\<rparr>) r;
          r = uclamp_idle_reset i (ucast v) r;
          u = ur_bucket (rq_uclamp r i) b;
          r = (if ub_tasks u = 1 \<or> v > ub_value u
               then upd_bucket i b (\<lambda>u. u\<lparr>ub_value := v\<rparr>) r else r)
      in if ucast v > uclamp_rq_get r i then uclamp_rq_set i (ucast v) r else r)"

(* core.c 1491-1518: uclamp_rq_inc_id *)
definition uclamp_rq_inc_id ::
    "('x, 'l, 'm) env_scheme \<Rightarrow> cpu \<Rightarrow> tid \<Rightarrow> uclamp_id \<Rightarrow> ('x, 'l) kernel \<Rightarrow> ('x, 'l) kernel"
where
  "uclamp_rq_inc_id env c p i k =
     (let se = uclamp_eff_get env k p i;
          k = upd_se p i (\<lambda>_. se\<lparr>us_active := True\<rparr>) k
      in upd_rq c (uclamp_bucket_inc i (us_bucket_id se) (us_value se)) k)"

text \<open>The runqueue's half of \<open>uclamp_rq_dec_id\<close>.\<close>

(* core.c !1571-1603: uclamp_rq_dec_id (runqueue) *)
definition uclamp_bucket_dec ::
    "('x, 'l, 'm) env_scheme \<Rightarrow> uclamp_id \<Rightarrow> nat \<Rightarrow> 11 word \<Rightarrow> rq \<Rightarrow> rq" where
  "uclamp_bucket_dec env i b v r =
     (let r = upd_bucket i b
            (\<lambda>u. if ub_tasks u \<noteq> 0 then u\<lparr>ub_tasks := ub_tasks u - 1\<rparr> else u) r;
          u = ur_bucket (rq_uclamp r i) b
      in if ub_tasks u \<noteq> 0 then r
         else if ucast (ub_value u) \<ge> uclamp_rq_get r i
         then let (bkt_clamp, r) = uclamp_rq_max_value env i (ucast v) r
              in uclamp_rq_set i bkt_clamp r
         else r)"

(* core.c 1529-1593: uclamp_rq_dec_id *)
definition uclamp_rq_dec_id ::
    "('x, 'l, 'm) env_scheme \<Rightarrow> cpu \<Rightarrow> tid \<Rightarrow> uclamp_id \<Rightarrow> ('x, 'l) kernel \<Rightarrow> ('x, 'l) kernel"
where
  "uclamp_rq_dec_id env c p i k =
     (let se = t_uclamp (tsk k p) i; b = us_bucket_id se;
          u = ur_bucket (rq_uclamp (cpu_rq k c) i) b
      in if \<not> us_active se then k
         else let k = warn_on ''uclamp_rq_dec_id: no tasks''
                        (e_sched_debug env \<and> ub_tasks u = 0) k;
                  k = upd_se p i (\<lambda>s. s\<lparr>us_active := False\<rparr>) k;
                  k = warn_on ''uclamp_rq_dec_id: bucket above rq''
                        (e_sched_debug env \<and> ub_tasks u \<le> 1 \<and>
                         ucast (ub_value u) > uclamp_rq_get (cpu_rq k c) i) k
              in upd_rq c (uclamp_bucket_dec env i b (us_value se)) k)"

definition clear_idle :: "rq \<Rightarrow> rq" where
  "clear_idle r = (if has_flag (rq_uclamp_flags r) UCLAMP_FLAG_IDLE
     then r\<lparr>rq_uclamp_flags := clear_flag (rq_uclamp_flags r) UCLAMP_FLAG_IDLE\<rparr> else r)"

(* core.c 1595-1617: uclamp_rq_inc#1 *)
definition uclamp_rq_inc ::
    "('x, 'l, 'm) env_scheme \<Rightarrow> cpu \<Rightarrow> tid \<Rightarrow> ('x, 'l) kernel \<Rightarrow> ('x, 'l) kernel" where
  "uclamp_rq_inc env c p k =
     (if \<not> e_uclamp env \<or> \<not> k_uclamp_used k then k
      else if \<not> vt_uclamp_enabled (class_vt env (t_class (tsk k p))) then k
      else upd_rq c clear_idle (fold (uclamp_rq_inc_id env c p) for_each_clamp_id k))"

(* core.c 1619-1637: uclamp_rq_dec#1 *)
definition uclamp_rq_dec ::
    "('x, 'l, 'm) env_scheme \<Rightarrow> cpu \<Rightarrow> tid \<Rightarrow> ('x, 'l) kernel \<Rightarrow> ('x, 'l) kernel" where
  "uclamp_rq_dec env c p k =
     (if \<not> e_uclamp env \<or> \<not> k_uclamp_used k then k
      else if \<not> vt_uclamp_enabled (class_vt env (t_class (tsk k p))) then k
      else fold (uclamp_rq_dec_id env c p) for_each_clamp_id k)"

(* core.c 1639-1654: uclamp_rq_reinc_id *)
definition uclamp_rq_reinc_id ::
    "('x, 'l, 'm) env_scheme \<Rightarrow> cpu \<Rightarrow> tid \<Rightarrow> uclamp_id \<Rightarrow> ('x, 'l) kernel \<Rightarrow> ('x, 'l) kernel"
where
  "uclamp_rq_reinc_id env c p i k =
     (if \<not> us_active (t_uclamp (tsk k p) i) then k
      else let k = uclamp_rq_inc_id env c p i (uclamp_rq_dec_id env c p i k)
           in if i = UCLAMP_MAX then upd_rq c clear_idle k else k)"

(* core.c 1656-1683: uclamp_update_active *)
definition uclamp_update_active ::
    "('x, 'l, 'm) env_scheme \<Rightarrow> tid \<Rightarrow> ('x, 'l) kernel \<Rightarrow> ('x, 'l) kernel" where
  "uclamp_update_active env p k =
     fold (uclamp_rq_reinc_id env (task_cpu k p) p) for_each_clamp_id k"

section \<open>Task groups\<close>

(* core.c 1686-1696: uclamp_update_active_tasks *)
definition uclamp_update_active_tasks ::
    "('x, 'l, 'm) env_scheme \<Rightarrow> tgid \<Rightarrow> ('x, 'l) kernel \<Rightarrow> ('x, 'l) kernel" where
  "uclamp_update_active_tasks env g k = fold (uclamp_update_active env) (e_css_tasks env g k) k"

text \<open>One group: the requested clamps capped by the parent's effective ones, the minimum capped
  by the maximum.\<close>

(* core.c !10123-10137: cpu_util_update_eff (eff) *)
definition cpu_util_eff :: "('x, 'l) kernel \<Rightarrow> tgid \<Rightarrow> uclamp_id \<Rightarrow> 11 word" where
  "cpu_util_eff k g i =
     (let eff = (\<lambda>i. let e = us_value (tg_uclamp_req (k_tgs k g) i) in
            case tg_parent (k_tgs k g) of None \<Rightarrow> e
            | Some q \<Rightarrow> (let v = us_value (tg_uclamp (k_tgs k q) i) in if e > v then v else e))
      in case i of UCLAMP_MIN \<Rightarrow> min (eff UCLAMP_MIN) (eff UCLAMP_MAX) | UCLAMP_MAX \<Rightarrow> eff UCLAMP_MAX)"

(* core.c !10139-10152: cpu_util_update_eff (clamps) *)
definition cpu_util_update_group ::
    "('x, 'l, 'm) env_scheme \<Rightarrow> tgid \<Rightarrow> ('x, 'l) kernel \<Rightarrow> bool \<times> ('x, 'l) kernel" where
  "cpu_util_update_group env g k =
     (let eff = cpu_util_eff k g;
          clamps = (\<exists>i \<in> set for_each_clamp_id. eff i \<noteq> us_value (tg_uclamp (k_tgs k g) i))
      in (clamps, upd_tg g (\<lambda>t. t\<lparr>tg_uclamp := (\<lambda>i.
            if eff i = us_value (tg_uclamp t i) then tg_uclamp t i
            else (tg_uclamp t i)\<lparr>us_value := eff i,
                   us_bucket_id := uclamp_bucket_id env (ucast (eff i))\<rparr>)\<rparr>) k))"

text \<open>The walk in pre-order; below a group whose effective clamps stay, nothing is visited.\<close>

(* core.c !10120-10155: cpu_util_update_eff (walk) *)
fun cpu_util_update_tree ::
    "('x, 'l, 'm) env_scheme \<Rightarrow> css_tree \<Rightarrow> ('x, 'l) kernel \<Rightarrow> ('x, 'l) kernel"
  and cpu_util_update_forest ::
    "('x, 'l, 'm) env_scheme \<Rightarrow> css_tree list \<Rightarrow> ('x, 'l) kernel \<Rightarrow> ('x, 'l) kernel" where
  "cpu_util_update_tree env (Css g ts) k =
     (let (clamps, k) = cpu_util_update_group env g k in
      if \<not> clamps then k
      else cpu_util_update_forest env ts (uclamp_update_active_tasks env g k))"
| "cpu_util_update_forest env [] k = k"
| "cpu_util_update_forest env (t # ts) k =
     cpu_util_update_forest env ts (cpu_util_update_tree env t k)"

(* core.c 10110-10156: cpu_util_update_eff *)
definition cpu_util_update_eff ::
    "('x, 'l, 'm) env_scheme \<Rightarrow> tgid \<Rightarrow> ('x, 'l) kernel \<Rightarrow> ('x, 'l) kernel" where
  "cpu_util_update_eff env g k = cpu_util_update_tree env (e_css_tree env g k) k"

(* core.c 1699-1711: uclamp_update_root_tg#1 *)
definition uclamp_update_root_tg ::
    "('x, 'l, 'm) env_scheme \<Rightarrow> ('x, 'l) kernel \<Rightarrow> ('x, 'l) kernel" where
  "uclamp_update_root_tg env k =
     (if \<not> e_uclamp_group env then k
      else let k = upd_tg root_task_group (\<lambda>t. t\<lparr>tg_uclamp_req := (tg_uclamp_req t)(
                 UCLAMP_MIN := uclamp_se_set env (k_util_min k) False (tg_uclamp_req t UCLAMP_MIN),
                 UCLAMP_MAX := uclamp_se_set env (k_util_max k) False (tg_uclamp_req t UCLAMP_MAX))\<rparr>) k
           in cpu_util_update_eff env root_task_group k)"

section \<open>The system-wide limits\<close>

text \<open>\<open>proc_dointvec\<close> parses the buffer into one of the three limits or reports an error; the
  three are passed through it with its result.\<close>

(* core.c 1716-1779: sysctl_sched_uclamp_handler *)
definition sysctl_sched_uclamp_handler ::
    "('x, 'l, 'm) env_scheme \<Rightarrow> bool \<Rightarrow> string \<Rightarrow> ('x, 'l) kernel \<Rightarrow> int \<times> ('x, 'l) kernel" where
  "sysctl_sched_uclamp_handler env write buffer k =
     (let old_min = k_util_min k; old_max = k_util_max k; old_min_rt = k_util_min_rt k;
          undo = (\<lambda>k. k\<lparr>k_util_min := old_min, k_util_max := old_max,
                        k_util_min_rt := old_min_rt\<rparr>);
          (result, mn, mx, rt) = e_proc_dointvec env write (old_min, old_max, old_min_rt) buffer;
          k = k\<lparr>k_util_min := mn, k_util_max := mx, k_util_min_rt := rt\<rparr>
      in if result \<noteq> 0 then (result, undo k)
         else if \<not> write then (result, k)
         else if mn > mx \<or> mx > SCHED_CAPACITY_SCALE \<or> rt > SCHED_CAPACITY_SCALE
         then (- EINVAL, undo k)
         else
           let k = (if old_min \<noteq> mn then k\<lparr>k_uclamp_default := (k_uclamp_default k)
                      (UCLAMP_MIN := uclamp_se_set env mn False (k_uclamp_default k UCLAMP_MIN))\<rparr>
                    else k);
               k = (if old_max \<noteq> mx then k\<lparr>k_uclamp_default := (k_uclamp_default k)
                      (UCLAMP_MAX := uclamp_se_set env mx False (k_uclamp_default k UCLAMP_MAX))\<rparr>
                    else k);
               k = (if old_min \<noteq> mn \<or> old_max \<noteq> mx
                    then uclamp_update_root_tg env (k\<lparr>k_uclamp_used := True\<rparr>) else k);
               k = (if old_min_rt \<noteq> rt
                    then uclamp_sync_util_min_rt_default env (k\<lparr>k_uclamp_used := True\<rparr>) else k)
           in (result, k))"

section \<open>Requests of a task\<close>

text \<open>\<open>util_min\<close> and \<open>util_max\<close> are \<open>int\<close>: the test \<open>util_min + 1 > SCHED_CAPACITY_SCALE + 1\<close>
  compares signed 32-bit numbers.\<close>

definition clamp_out_of_range :: "u32 \<Rightarrow> bool" where
  "clamp_out_of_range v \<longleftrightarrow> sint (v + 1) > sint (SCHED_CAPACITY_SCALE + 1)"

(* core.c 1781-1814: uclamp_validate#1 *)
definition uclamp_validate ::
    "('x, 'l, 'm) env_scheme \<Rightarrow> tid \<Rightarrow> sched_attr \<Rightarrow> ('x, 'l) kernel \<Rightarrow> int \<times> ('x, 'l) kernel"
where
  "uclamp_validate env p attr k =
     (if \<not> e_uclamp env then (- EOPNOTSUPP, k)
      else
       let has_min = has_flag (sa_flags attr) SCHED_FLAG_UTIL_CLAMP_MIN;
           has_max = has_flag (sa_flags attr) SCHED_FLAG_UTIL_CLAMP_MAX;
           util_min = (if has_min then sa_util_min attr
                       else ucast (us_value (t_uclamp_req (tsk k p) UCLAMP_MIN)));
           util_max = (if has_max then sa_util_max attr
                       else ucast (us_value (t_uclamp_req (tsk k p) UCLAMP_MAX)))
       in if has_min \<and> clamp_out_of_range util_min then (- EINVAL, k)
          else if has_max \<and> clamp_out_of_range util_max then (- EINVAL, k)
          else if util_min \<noteq> -1 \<and> util_max \<noteq> -1 \<and> sint util_min > sint util_max
          then (- EINVAL, k)
          else (0, k\<lparr>k_uclamp_used := True\<rparr>))"

(* core.c 1816-1839: uclamp_reset *)
definition uclamp_reset :: "sched_attr \<Rightarrow> uclamp_id \<Rightarrow> uclamp_se \<Rightarrow> bool" where
  "uclamp_reset attr i se =
     (if \<not> has_flag (sa_flags attr) SCHED_FLAG_UTIL_CLAMP \<and> \<not> us_user_defined se then True
      else if i = UCLAMP_MIN \<and> has_flag (sa_flags attr) SCHED_FLAG_UTIL_CLAMP_MIN \<and>
              sa_util_min attr = -1 then True
      else if i = UCLAMP_MAX \<and> has_flag (sa_flags attr) SCHED_FLAG_UTIL_CLAMP_MAX \<and>
              sa_util_max attr = -1 then True
      else False)"

definition setscheduler_uclamp_reset ::
    "('x, 'l, 'm) env_scheme \<Rightarrow> tid \<Rightarrow> sched_attr \<Rightarrow> uclamp_id \<Rightarrow> ('x, 'l) kernel \<Rightarrow> ('x, 'l) kernel"
where
  "setscheduler_uclamp_reset env p attr i k =
     (if \<not> uclamp_reset attr i (t_uclamp_req (tsk k p) i) then k
      else let value = (if rt_task (tsk k p) \<and> i = UCLAMP_MIN then k_util_min_rt k
                        else uclamp_none i)
           in upd_req p i (uclamp_se_set env value False) k)"

(* core.c 1841-1880: __setscheduler_uclamp#1 *)
definition setscheduler_uclamp ::
    "('x, 'l, 'm) env_scheme \<Rightarrow> tid \<Rightarrow> sched_attr \<Rightarrow> ('x, 'l) kernel \<Rightarrow> ('x, 'l) kernel" where
  "setscheduler_uclamp env p attr k =
     (if \<not> e_uclamp env then k
      else let k = fold (setscheduler_uclamp_reset env p attr) for_each_clamp_id k in
        if \<not> has_flag (sa_flags attr) SCHED_FLAG_UTIL_CLAMP then k
        else let k = (if has_flag (sa_flags attr) SCHED_FLAG_UTIL_CLAMP_MIN \<and>
                         sa_util_min attr \<noteq> -1
                      then upd_req p UCLAMP_MIN (uclamp_se_set env (sa_util_min attr) True) k
                      else k)
             in if has_flag (sa_flags attr) SCHED_FLAG_UTIL_CLAMP_MAX \<and> sa_util_max attr \<noteq> -1
                then upd_req p UCLAMP_MAX (uclamp_se_set env (sa_util_max attr) True) k
                else k)"

(* core.c 1882-1900: uclamp_fork#1 *)
definition uclamp_fork ::
    "('x, 'l, 'm) env_scheme \<Rightarrow> tid \<Rightarrow> ('x, 'l) kernel \<Rightarrow> ('x, 'l) kernel" where
  "uclamp_fork env p k =
     (if \<not> e_uclamp env then k
      else let k = fold (\<lambda>i. upd_se p i (\<lambda>s. s\<lparr>us_active := False\<rparr>)) for_each_clamp_id k in
        if \<not> t_reset_on_fork (tsk k p) then k
        else fold (\<lambda>i. upd_req p i (uclamp_se_set env (uclamp_none i) False)) for_each_clamp_id k)"

(* core.c 1902-1905: uclamp_post_fork#1 *)
definition uclamp_post_fork ::
    "('x, 'l, 'm) env_scheme \<Rightarrow> tid \<Rightarrow> ('x, 'l) kernel \<Rightarrow> ('x, 'l) kernel" where
  "uclamp_post_fork env p k = (if e_uclamp env then uclamp_update_util_min_rt_default env p k else k)"

(* core.c 1907-1919: init_uclamp_rq *)
definition init_uclamp_rq :: "rq \<Rightarrow> rq" where
  "init_uclamp_rq r = r\<lparr>
     rq_uclamp := (\<lambda>i. \<lparr>ur_value = uclamp_none i, ur_bucket = (\<lambda>_. \<lparr>ub_value = 0, ub_tasks = 0\<rparr>)\<rparr>),
     rq_uclamp_flags := UCLAMP_FLAG_IDLE\<rparr>"

text \<open>The boot task is task \<open>i\<close>; \<open>cpus\<close> are the possible CPUs.\<close>

(* core.c 1921-1944: init_uclamp#1 *)
definition init_uclamp ::
    "('x, 'l, 'm) env_scheme \<Rightarrow> cpu list \<Rightarrow> tid \<Rightarrow> ('x, 'l) kernel \<Rightarrow> ('x, 'l) kernel" where
  "init_uclamp env cpus init k =
     (if \<not> e_uclamp env then k
      else
       let uc_max = uclamp_se_set env (uclamp_none UCLAMP_MAX) False
             \<lparr>us_value = 0, us_bucket_id = 0, us_active = False, us_user_defined = False\<rparr>;
           k = fold (\<lambda>c. upd_rq c init_uclamp_rq) cpus k;
           k = fold (\<lambda>i. upd_req init i (uclamp_se_set env (uclamp_none i) False))
                 for_each_clamp_id k;
           k = k\<lparr>k_uclamp_default := (\<lambda>_. uc_max)\<rparr>
       in if e_uclamp_group env
          then upd_tg root_task_group (\<lambda>t. t\<lparr>tg_uclamp_req := (\<lambda>_. uc_max), tg_uclamp := (\<lambda>_. uc_max)\<rparr>) k
          else k)"

section \<open>The cgroup files\<close>

(* core.c 10167-10167: UCLAMP_PERCENT_SHIFT *)
definition UCLAMP_PERCENT_SCALE :: u64 where "UCLAMP_PERCENT_SCALE = 10000"

(* core.c 10166-10172: struct uclamp_request *)
record uclamp_request =
  uq_percent :: u64
  uq_util :: u64
  uq_ret :: int

(* core.c 10174-10199: capacity_from_percent *)
definition capacity_from_percent :: "('x, 'l, 'm) env_scheme \<Rightarrow> string \<Rightarrow> uclamp_request" where
  "capacity_from_percent env buf =
     (let req = \<lparr>uq_percent = UCLAMP_PERCENT_SCALE, uq_util = ucast SCHED_CAPACITY_SCALE, uq_ret = 0\<rparr>;
          buf = e_strim env buf
      in if buf = ''max'' then req
         else let (ret, percent) = e_cgroup_parse_float env buf 2;
                  req = req\<lparr>uq_ret := ret, uq_percent := percent\<rparr>
              in if ret \<noteq> 0 then req
                 else if percent > UCLAMP_PERCENT_SCALE then req\<lparr>uq_ret := - ERANGE\<rparr>
                 else req\<lparr>uq_util :=
                        (push_bit 10 percent + UCLAMP_PERCENT_SCALE div 2) div UCLAMP_PERCENT_SCALE\<rparr>)"

(* core.c 10201-10234: cpu_uclamp_write *)
definition cpu_uclamp_write ::
    "('x, 'l, 'm) env_scheme \<Rightarrow> tgid \<Rightarrow> string \<Rightarrow> int \<Rightarrow> uclamp_id \<Rightarrow> ('x, 'l) kernel \<Rightarrow>
     int \<times> ('x, 'l) kernel" where
  "cpu_uclamp_write env g buf nbytes i k =
     (let req = capacity_from_percent env buf in
      if uq_ret req \<noteq> 0 then (uq_ret req, k)
      else
       let k = k\<lparr>k_uclamp_used := True\<rparr>;
           k = (if ucast (us_value (tg_uclamp_req (k_tgs k g) i)) \<noteq> uq_util req
                then upd_tg g (\<lambda>t. t\<lparr>tg_uclamp_req := (tg_uclamp_req t)
                       (i := uclamp_se_set env (ucast (uq_util req)) False (tg_uclamp_req t i))\<rparr>) k
                else k);
           k = upd_tg g (\<lambda>t. t\<lparr>tg_uclamp_pct := (tg_uclamp_pct t)(i := ucast (uq_percent req))\<rparr>) k
       in (nbytes, cpu_util_update_eff env g k))"

(* core.c 10236-10241: cpu_uclamp_min_write *)
definition cpu_uclamp_min_write ::
    "('x, 'l, 'm) env_scheme \<Rightarrow> tgid \<Rightarrow> string \<Rightarrow> int \<Rightarrow> ('x, 'l) kernel \<Rightarrow> int \<times> ('x, 'l) kernel"
where
  "cpu_uclamp_min_write env g buf nbytes k = cpu_uclamp_write env g buf nbytes UCLAMP_MIN k"

(* core.c 10243-10248: cpu_uclamp_max_write *)
definition cpu_uclamp_max_write ::
    "('x, 'l, 'm) env_scheme \<Rightarrow> tgid \<Rightarrow> string \<Rightarrow> int \<Rightarrow> ('x, 'l) kernel \<Rightarrow> int \<times> ('x, 'l) kernel"
where
  "cpu_uclamp_max_write env g buf nbytes k = cpu_uclamp_write env g buf nbytes UCLAMP_MAX k"

text \<open>What \<open>seq_puts\<close> and \<open>seq_printf("%llu.%0*u\n", percent, 2, rem)\<close> receive.\<close>

datatype uclamp_line = Line_max | Line_percent (whole: u64) (hundredths: u64)

(* core.c 10250-10271: cpu_uclamp_print *)
definition cpu_uclamp_print :: "('x, 'l) kernel \<Rightarrow> tgid \<Rightarrow> uclamp_id \<Rightarrow> uclamp_line" where
  "cpu_uclamp_print k g i =
     (if ucast (us_value (tg_uclamp_req (k_tgs k g) i)) = SCHED_CAPACITY_SCALE then Line_max
      else let percent = ucast (tg_uclamp_pct (k_tgs k g) i) :: u64
           in Line_percent (percent div 100) (percent mod 100))"

(* core.c 10273-10277: cpu_uclamp_min_show *)
definition cpu_uclamp_min_show :: "('x, 'l) kernel \<Rightarrow> tgid \<Rightarrow> uclamp_line" where
  "cpu_uclamp_min_show k g = cpu_uclamp_print k g UCLAMP_MIN"

(* core.c 10279-10283: cpu_uclamp_max_show *)
definition cpu_uclamp_max_show :: "('x, 'l) kernel \<Rightarrow> tgid \<Rightarrow> uclamp_line" where
  "cpu_uclamp_max_show k g = cpu_uclamp_print k g UCLAMP_MAX"

end
