(* ===== verification/Uclamp_Rq.thy ===== *)
theory Uclamp_Rq
  imports Uclamp "HOL-Library.Multiset"
begin

text \<open>
  The clamp accounting of a runqueue. For one clamp the abstract state is the multiset of the
  effective values of the runnable tasks; \<open>clamp_core\<close> ties it to the buckets: each counter is
  the number of values of its bucket, each bucket's value bounds them, and the runqueue's value is
  the largest bucket value. Counting a task in or out keeps it.
\<close>

section \<open>Buckets\<close>

definition bid :: "('x, 'l, 'm) env_scheme \<Rightarrow> 11 word \<Rightarrow> nat" where
  "bid env v = uclamp_bucket_id env (ucast v)"

lemma bid_less: "0 < e_uclamp_buckets env \<Longrightarrow> bid env v < e_uclamp_buckets env"
  by (simp add: bid_def uclamp_bucket_id_def)

lemma unat_ucast_11 [simp]: "unat (ucast (v :: 11 word) :: u32) = unat v"
  using unsigned_less[of v, where ?'a = nat] by (intro unat_ucast_up) simp

lemma ucast_11_le [simp]: "(ucast (v :: 11 word) :: u32) \<le> ucast w \<longleftrightarrow> v \<le> w"
  by (simp add: word_le_nat_alt)

lemma ucast_11_less [simp]: "(ucast (v :: 11 word) :: u32) < ucast w \<longleftrightarrow> v < w"
  by (simp add: word_less_nat_alt)

lemma bid_mono: "v \<le> w \<Longrightarrow> bid env v \<le> bid env w"
  unfolding bid_def uclamp_bucket_id_def
  by (intro min.mono div_le_mono) (simp_all add: word_le_nat_alt)

abbreviation bkt :: "uclamp_id \<Rightarrow> rq \<Rightarrow> nat \<Rightarrow> uclamp_bucket" where
  "bkt i r b \<equiv> ur_bucket (rq_uclamp r i) b"

definition clamp_core ::
    "('x, 'l, 'm) env_scheme \<Rightarrow> uclamp_id \<Rightarrow> 11 word multiset \<Rightarrow> rq \<Rightarrow> bool" where
  "clamp_core env i M r \<longleftrightarrow>
     (\<forall>b < e_uclamp_buckets env. unat (ub_tasks (bkt i r b)) = size {#v \<in># M. bid env v = b#}) \<and>
     (\<forall>v \<in># M. v \<le> ub_value (bkt i r (bid env v))) \<and>
     (\<forall>b < e_uclamp_buckets env. ub_tasks (bkt i r b) \<noteq> 0 \<longrightarrow>
        bid env (ub_value (bkt i r b)) = b \<and> ucast (ub_value (bkt i r b)) \<le> uclamp_rq_get r i) \<and>
     (M \<noteq> {#} \<longrightarrow> (\<exists>b < e_uclamp_buckets env. ub_tasks (bkt i r b) \<noteq> 0 \<and>
        ucast (ub_value (bkt i r b)) = uclamp_rq_get r i))"

text \<open>The idle flag stands for an empty runqueue.\<close>

definition clamp_idle :: "uclamp_id \<Rightarrow> 11 word multiset \<Rightarrow> rq \<Rightarrow> bool" where
  "clamp_idle i M r \<longleftrightarrow>
     (uclamp_rq_is_idle r \<longrightarrow> M = {#}) \<and> (M = {#} \<longrightarrow> uclamp_rq_is_idle r \<or> uclamp_rq_get r i = 0)"

lemmas clamp_rq_simps = upd_bucket_def uclamp_rq_set_def uclamp_rq_get_def uclamp_idle_reset_def
  uclamp_rq_is_idle_def

lemma unat_add_1_21: "unat (t :: 21 word) + 1 < 2 ^ 21 \<Longrightarrow> unat (t + 1) = unat t + 1"
  by (simp add: unat_word_ariths)

lemma filter_mset_size_le: "size {#v \<in># M. P v#} \<le> size M"
  by (simp add: size_mset_mono)

lemma clamp_member_tasks:
  assumes "clamp_core env i M r" and "v \<in># M" and "0 < e_uclamp_buckets env"
  shows "ub_tasks (bkt i r (bid env v)) \<noteq> 0"
proof -
  have "v \<in># {#w \<in># M. bid env w = bid env v#}" using assms(2) by simp
  then have "size {#w \<in># M. bid env w = bid env v#} \<noteq> 0" by (metis empty_not_add_mset multi_member_split size_eq_0_iff_empty)
  with assms(1) bid_less[OF assms(3)] show ?thesis
    by (metis clamp_core_def unat_0)
qed

text \<open>The clamp of the runqueue bounds every value counted in.\<close>

lemma clamp_core_bound:
  assumes "clamp_core env i M r" and "v \<in># M" and "0 < e_uclamp_buckets env"
  shows "ucast v \<le> uclamp_rq_get r i"
proof -
  let ?u = "ub_value (bkt i r (bid env v))"
  have "ub_tasks (bkt i r (bid env v)) \<noteq> 0" using assms by (rule clamp_member_tasks)
  then have "(ucast ?u :: u32) \<le> uclamp_rq_get r i"
    using assms(1) bid_less[OF assms(3)] by (simp add: clamp_core_def)
  moreover have "(ucast v :: u32) \<le> ucast ?u" using assms(1,2) by (simp add: clamp_core_def)
  ultimately show ?thesis by (rule order_trans[rotated])
qed

section \<open>Counting in\<close>

lemma bucket_inc_other_id:
  "i \<noteq> j \<Longrightarrow> rq_uclamp (uclamp_bucket_inc i b v r) j = rq_uclamp r j"
  by (simp add: uclamp_bucket_inc_def Let_def clamp_rq_simps)

lemma bucket_inc_flags [simp]: "rq_uclamp_flags (uclamp_bucket_inc i b v r) = rq_uclamp_flags r"
  by (simp add: uclamp_bucket_inc_def Let_def clamp_rq_simps)

lemma bucket_inc_tasks:
  "ub_tasks (bkt i (uclamp_bucket_inc i b v r) d) =
     (if d = b then ub_tasks (bkt i r b) + 1 else ub_tasks (bkt i r d))"
  by (simp add: uclamp_bucket_inc_def Let_def clamp_rq_simps)

lemma bucket_inc_value:
  "ub_value (bkt i (uclamp_bucket_inc i b v r) d) =
     (if d = b \<and> (ub_tasks (bkt i r b) + 1 = 1 \<or> v > ub_value (bkt i r b)) then v
      else ub_value (bkt i r d))"
  by (simp add: uclamp_bucket_inc_def Let_def clamp_rq_simps)

lemma bucket_inc_get:
  "uclamp_rq_get (uclamp_bucket_inc i b v r) i =
     (if uclamp_rq_is_idle r then ucast v else max (uclamp_rq_get r i) (ucast v))"
  by (auto simp: uclamp_bucket_inc_def Let_def clamp_rq_simps max_def)

lemma bucket_inc_core:
  assumes n: "0 < e_uclamp_buckets env" and c: "clamp_core env i M r" and "clamp_idle i M r"
    and "size M + 1 < 2 ^ 21"
  shows "clamp_core env i (add_mset v M) (uclamp_bucket_inc i (bid env v) v r)"
proof -
  let ?b = "bid env v" and ?r = "uclamp_bucket_inc i (bid env v) v r"
  have b: "?b < e_uclamp_buckets env" using n by (rule bid_less)
  have cnt: "unat (ub_tasks (bkt i r d)) = size {#w \<in># M. bid env w = d#}"
    if "d < e_uclamp_buckets env" for d using c that by (simp add: clamp_core_def)
  have inc: "unat (ub_tasks (bkt i r ?b) + 1) = unat (ub_tasks (bkt i r ?b)) + 1"
    using cnt[OF b] filter_mset_size_le[of "\<lambda>w. bid env w = ?b" M] assms(4)
    by (intro unat_add_1_21) linarith
  have fresh: "ub_tasks (bkt i r ?b) + 1 = 1 \<longleftrightarrow> ub_tasks (bkt i r ?b) = 0" by simp
  have get: "ucast v \<le> uclamp_rq_get ?r i" by (simp add: bucket_inc_get)
  have old: "ucast (ub_value (bkt i r d)) \<le> uclamp_rq_get ?r i"
    if "d < e_uclamp_buckets env" "ub_tasks (bkt i r d) \<noteq> 0" for d
  proof -
    from that have "size {#w \<in># M. bid env w = d#} \<noteq> 0" using cnt[of d] by (metis unat_eq_0)
    then have "M \<noteq> {#}" by auto
    with assms(3) have "\<not> uclamp_rq_is_idle r" by (simp add: clamp_idle_def)
    moreover have "ucast (ub_value (bkt i r d)) \<le> uclamp_rq_get r i"
      using c that by (simp add: clamp_core_def)
    ultimately show ?thesis by (simp add: bucket_inc_get le_max_iff_disj)
  qed
  show ?thesis
    unfolding clamp_core_def
  proof (intro conjI allI impI ballI)
    fix d assume "d < e_uclamp_buckets env"
    then show "unat (ub_tasks (bkt i ?r d)) = size {#w \<in># add_mset v M. bid env w = d#}"
      using cnt[of d] inc by (auto simp: bucket_inc_tasks)
  next
    fix w assume "w \<in># add_mset v M"
    then consider "w = v" | "w \<in># M" by auto
    then show "w \<le> ub_value (bkt i ?r (bid env w))"
    proof cases
      case 1
      then show ?thesis by (auto simp: bucket_inc_value)
    next
      case 2
      then have "w \<le> ub_value (bkt i r (bid env w))" using c by (simp add: clamp_core_def)
      moreover have "ub_tasks (bkt i r (bid env w)) \<noteq> 0" using c 2 n by (rule clamp_member_tasks)
      ultimately show ?thesis by (auto simp: bucket_inc_value)
    qed
  next
    fix d assume d: "d < e_uclamp_buckets env" and t: "ub_tasks (bkt i ?r d) \<noteq> 0"
    show "bid env (ub_value (bkt i ?r d)) = d"
      using c d t by (auto simp: bucket_inc_value bucket_inc_tasks clamp_core_def split: if_splits)
    show "ucast (ub_value (bkt i ?r d)) \<le> uclamp_rq_get ?r i"
      using old[OF d] get t by (auto simp: bucket_inc_value bucket_inc_tasks split: if_splits)
  next
    have tasks_b: "ub_tasks (bkt i ?r ?b) \<noteq> 0"
      using inc by (auto simp: bucket_inc_tasks)
    show "\<exists>d < e_uclamp_buckets env. ub_tasks (bkt i ?r d) \<noteq> 0 \<and>
        ucast (ub_value (bkt i ?r d)) = uclamp_rq_get ?r i"
    proof (cases "M = {#} \<or> uclamp_rq_get r i \<le> ucast v")
      case True
      then have g: "uclamp_rq_get ?r i = ucast v"
        using assms(3) by (auto simp: bucket_inc_get clamp_idle_def max_def)
      have "ub_value (bkt i ?r ?b) = v"
      proof (cases "ub_tasks (bkt i r ?b) = 0 \<or> v > ub_value (bkt i r ?b)")
        case True
        then show ?thesis by (auto simp: bucket_inc_value)
      next
        case False
        then have "v \<le> ub_value (bkt i r ?b)" "ub_tasks (bkt i r ?b) \<noteq> 0" by auto
        with old[OF b] g have "ub_value (bkt i r ?b) = v" by (simp add: antisym)
        with False show ?thesis by (simp add: bucket_inc_value)
      qed
      with tasks_b b g show ?thesis by auto
    next
      case False
      then obtain d where d: "d < e_uclamp_buckets env" "ub_tasks (bkt i r d) \<noteq> 0"
          "ucast (ub_value (bkt i r d)) = uclamp_rq_get r i"
        using c by (auto simp: clamp_core_def)
      have ni: "\<not> uclamp_rq_is_idle r" using False assms(3) by (auto simp: clamp_idle_def)
      then have g: "uclamp_rq_get ?r i = uclamp_rq_get r i"
        using False by (simp add: bucket_inc_get max_def)
      have "ub_value (bkt i ?r d) = ub_value (bkt i r d)"
      proof (cases "d = ?b \<and> v > ub_value (bkt i r d)")
        case True
        then have "uclamp_rq_get r i \<le> ucast v" using d(3) ucast_11_less[of "ub_value (bkt i r d)" v]
          by (auto simp: less_imp_le simp flip: d(3))
        with False show ?thesis by simp
      next
        case False
        with d(2) show ?thesis by (auto simp: bucket_inc_value)
      qed
      moreover have "ub_tasks (bkt i ?r d) \<noteq> 0"
        using d(2) tasks_b by (cases "d = ?b") (auto simp: bucket_inc_tasks)
      ultimately show ?thesis using d g by auto
    qed
  qed
qed

section \<open>Counting out\<close>

lemma top_bucket_None: "uclamp_top_bucket n bs = None \<longleftrightarrow> (\<forall>b < n. ub_tasks (bs b) = 0)"
  by (induction n) (auto simp: less_Suc_eq)

lemma top_bucket_ex:
  "d < n \<Longrightarrow> ub_tasks (bs d) \<noteq> 0 \<Longrightarrow> \<exists>b. uclamp_top_bucket n bs = Some b"
  using top_bucket_None[of n bs] by (cases "uclamp_top_bucket n bs") auto

lemma top_bucket_Some:
  "uclamp_top_bucket n bs = Some b \<Longrightarrow>
     b < n \<and> ub_tasks (bs b) \<noteq> 0 \<and> (\<forall>d. b < d \<and> d < n \<longrightarrow> ub_tasks (bs d) = 0)"
  by (induction n) (auto simp: less_Suc_eq split: if_splits)

lemma idle_value_frame [simp]:
  "rq_uclamp (snd (uclamp_idle_value i v r)) = rq_uclamp r"
  by (cases i) simp_all

lemma max_value_frame [simp]:
  "rq_uclamp (snd (uclamp_rq_max_value env i v r)) = rq_uclamp r"
  by (simp add: uclamp_rq_max_value_def split: option.splits)

lemma bucket_dec_other_id:
  "i \<noteq> j \<Longrightarrow> rq_uclamp (uclamp_bucket_dec env i b v r) j = rq_uclamp r j"
  by (simp add: uclamp_bucket_dec_def Let_def case_prod_beta upd_bucket_def uclamp_rq_set_def)

lemma bucket_dec_bkt:
  "bkt i (uclamp_bucket_dec env i b v r) d =
     (if d = b \<and> ub_tasks (bkt i r b) \<noteq> 0
      then (bkt i r b)\<lparr>ub_tasks := ub_tasks (bkt i r b) - 1\<rparr> else bkt i r d)"
  by (simp add: uclamp_bucket_dec_def Let_def case_prod_beta upd_bucket_def uclamp_rq_set_def)

text \<open>The runqueue with its counter decremented, which the rest of the function reads.\<close>

lemma bucket_dec_cases:
  fixes env i b v r
  defines "r1 \<equiv> upd_bucket i b (\<lambda>u. if ub_tasks u \<noteq> 0 then u\<lparr>ub_tasks := ub_tasks u - 1\<rparr> else u) r"
  shows "uclamp_bucket_dec env i b v r =
    (if ub_tasks (bkt i r1 b) \<noteq> 0 \<or> ucast (ub_value (bkt i r b)) < uclamp_rq_get r i then r1
     else case uclamp_top_bucket (e_uclamp_buckets env) (ur_bucket (rq_uclamp r1 i)) of
       Some d \<Rightarrow> uclamp_rq_set i (ucast (ub_value (bkt i r d))) r1
     | None \<Rightarrow> uclamp_rq_set i (fst (uclamp_idle_value i (ucast v) r1))
                 (snd (uclamp_idle_value i (ucast v) r1)))"
  by (auto simp: r1_def uclamp_bucket_dec_def Let_def uclamp_rq_max_value_def upd_bucket_def
      uclamp_rq_get_def not_less case_prod_beta split: option.splits)

lemma filter_mset_remove:
  "v \<in># M \<Longrightarrow> size {#w \<in># M - {#v#}. P w#} = size {#w \<in># M. P w#} - (if P v then 1 else 0)"
  by (auto dest!: multi_member_split simp del: filter_diff_mset)

lemma bucket_dec_counts:
  assumes c: "clamp_core env i M r" and v: "v \<in># M" and d: "d < e_uclamp_buckets env"
  shows "unat (ub_tasks (bkt i (uclamp_bucket_dec env i (bid env v) w r) d)) =
     size {#u \<in># M - {#v#}. bid env u = d#}"
proof -
  have n: "0 < e_uclamp_buckets env" using d by simp
  have cnt: "unat (ub_tasks (bkt i r d)) = size {#u \<in># M. bid env u = d#}"
    using c d by (simp add: clamp_core_def)
  show ?thesis
  proof (cases "d = bid env v")
    case True
    then have "ub_tasks (bkt i r d) \<noteq> 0" using clamp_member_tasks[OF c v n] by simp
    then have "unat (ub_tasks (bkt i r d) - 1) = unat (ub_tasks (bkt i r d)) - 1"
      using unat_minus_one by blast
    with True cnt v \<open>ub_tasks (bkt i r d) \<noteq> 0\<close> show ?thesis
      by (simp add: bucket_dec_bkt filter_mset_remove del: filter_diff_mset)
  next
    case False
    with cnt v show ?thesis
      by (auto simp: bucket_dec_bkt filter_mset_remove simp del: filter_diff_mset)
  qed
qed

lemma bucket_dec_value [simp]:
  "ub_value (bkt i (uclamp_bucket_dec env i b v r) d) = ub_value (bkt i r d)"
  by (simp add: bucket_dec_bkt)

lemma empty_iff_no_tasks:
  assumes "0 < e_uclamp_buckets env"
    and "\<forall>b < e_uclamp_buckets env. unat (ub_tasks (f b)) = size {#v \<in># M. bid env v = b#}"
  shows "M = {#} \<longleftrightarrow> (\<forall>b < e_uclamp_buckets env. ub_tasks (f b :: uclamp_bucket) = 0)"
proof
  assume "\<forall>b < e_uclamp_buckets env. ub_tasks (f b) = 0"
  then have "\<forall>b < e_uclamp_buckets env. {#v \<in># M. bid env v = b#} = {#}"
    using assms(2) by (metis size_eq_0_iff_empty unat_0)
  then have "\<not> v \<in># M" for v
    using bid_less[OF assms(1), of v] by (auto simp: filter_mset_eq_conv)
  then show "M = {#}" by (metis multiset_nonemptyE)
qed (use assms(2) in \<open>simp add: unat_eq_0\<close>)

lemma idle_flag_set: "has_flag (f OR UCLAMP_FLAG_IDLE) UCLAMP_FLAG_IDLE"
  by (simp add: has_flag_set UCLAMP_FLAG_IDLE_def)

lemma idle_flag_clear [simp]: "\<not> uclamp_rq_is_idle (clear_idle r)"
  by (simp add: clear_idle_def uclamp_rq_is_idle_def)

text \<open>After the last task of a bucket left, the runqueue's clamp is the top bucket's value or,
  when none is left, the idle value.\<close>

lemma bucket_dec_get:
  fixes env i v r
  defines "r' \<equiv> uclamp_bucket_dec env i (bid env v) v r"
  assumes n: "0 < e_uclamp_buckets env" and c: "clamp_core env i M r" and v: "v \<in># M"
  shows "M - {#v#} \<noteq> {#} \<Longrightarrow> (\<exists>b < e_uclamp_buckets env. ub_tasks (bkt i r' b) \<noteq> 0 \<and>
        ucast (ub_value (bkt i r' b)) = uclamp_rq_get r' i)" (is "_ \<Longrightarrow> ?att")
    and "d < e_uclamp_buckets env \<Longrightarrow> ub_tasks (bkt i r' d) \<noteq> 0 \<Longrightarrow>
        ucast (ub_value (bkt i r' d)) \<le> uclamp_rq_get r' i"
    and "M - {#v#} = {#} \<Longrightarrow> uclamp_rq_is_idle r' \<or> uclamp_rq_get r' i = 0"
    and "M - {#v#} \<noteq> {#} \<Longrightarrow> uclamp_rq_is_idle r' = uclamp_rq_is_idle r"
proof -
  let ?n = "e_uclamp_buckets env" and ?b = "bid env v"
  define r1 where "r1 = upd_bucket i ?b
    (\<lambda>u. if ub_tasks u \<noteq> 0 then u\<lparr>ub_tasks := ub_tasks u - 1\<rparr> else u) r"
  have b: "?b < ?n" using n by (rule bid_less)
  have same: "bkt i r' d = bkt i r1 d" for d
    by (simp add: r'_def r1_def bucket_dec_bkt) (simp add: upd_bucket_def)
  have val1: "ub_value (bkt i r1 d) = ub_value (bkt i r d)" for d by (simp add: r1_def upd_bucket_def)
  have get1: "uclamp_rq_get r1 i = uclamp_rq_get r i"
    by (simp add: r1_def upd_bucket_def uclamp_rq_get_def)
  have idle1: "uclamp_rq_is_idle r1 = uclamp_rq_is_idle r"
    by (simp add: r1_def upd_bucket_def uclamp_rq_is_idle_def)
  have old: "ub_tasks (bkt i r d) \<noteq> 0" if "ub_tasks (bkt i r1 d) \<noteq> 0" for d
    using that by (auto simp: r1_def upd_bucket_def split: if_splits)
  have empty: "M - {#v#} = {#} \<longleftrightarrow> (\<forall>d < ?n. ub_tasks (bkt i r1 d) = 0)"
    using bucket_dec_counts[OF c v, where w = v] same
    by (intro empty_iff_no_tasks[OF n]) (simp add: r'_def)
  have wf: "bid env (ub_value (bkt i r d)) = d" "ucast (ub_value (bkt i r d)) \<le> uclamp_rq_get r i"
    if "d < ?n" "ub_tasks (bkt i r d) \<noteq> 0" for d using c that by (simp_all add: clamp_core_def)
  have r': "r' = (if ub_tasks (bkt i r1 ?b) \<noteq> 0 \<or> ucast (ub_value (bkt i r ?b)) < uclamp_rq_get r i then r1
     else case uclamp_top_bucket ?n (ur_bucket (rq_uclamp r1 i)) of
       Some d \<Rightarrow> uclamp_rq_set i (ucast (ub_value (bkt i r d))) r1
     | None \<Rightarrow> uclamp_rq_set i (fst (uclamp_idle_value i (ucast v) r1))
                 (snd (uclamp_idle_value i (ucast v) r1)))"
    unfolding r'_def r1_def by (rule bucket_dec_cases)
  obtain a where a: "a < ?n" "ub_tasks (bkt i r a) \<noteq> 0" "ucast (ub_value (bkt i r a)) = uclamp_rq_get r i"
    using c v by (auto simp: clamp_core_def)
  have keep: "ub_tasks (bkt i r1 d) \<noteq> 0" if "ub_tasks (bkt i r d) \<noteq> 0" "d \<noteq> ?b" for d
    using that by (simp add: r1_def upd_bucket_def)
  show ?att if ne: "M - {#v#} \<noteq> {#}"
  proof (cases "ub_tasks (bkt i r1 ?b) \<noteq> 0 \<or> ucast (ub_value (bkt i r ?b)) < uclamp_rq_get r i")
    case True
    then have eq: "r' = r1" using r' by simp
    have "ub_tasks (bkt i r1 a) \<noteq> 0" using True keep[OF a(2)] a(3) by (cases "a = ?b") auto
    with a eq val1 get1 show ?thesis by auto
  next
    case False
    obtain e where e: "e < ?n" "ub_tasks (bkt i r1 e) \<noteq> 0"
      using ne empty by blast
    obtain d where d: "uclamp_top_bucket ?n (ur_bucket (rq_uclamp r1 i)) = Some d"
      using top_bucket_ex[of e ?n "ur_bucket (rq_uclamp r1 i)", OF e] by (rule exE)
    with False r' have eq: "r' = uclamp_rq_set i (ucast (ub_value (bkt i r d))) r1" by simp
    have "d < ?n" "ub_tasks (bkt i r1 d) \<noteq> 0" using top_bucket_Some[OF d] by auto
    then have "ub_tasks (bkt i r' d) \<noteq> 0" "ucast (ub_value (bkt i r' d)) = uclamp_rq_get r' i"
      using eq same val1 by (simp_all add: uclamp_rq_get_def uclamp_rq_set_def)
    with \<open>d < ?n\<close> show ?thesis by blast
  qed
  show "ucast (ub_value (bkt i r' d)) \<le> uclamp_rq_get r' i"
    if dn: "d < ?n" and dt: "ub_tasks (bkt i r' d) \<noteq> 0"
  proof (cases "ub_tasks (bkt i r1 ?b) \<noteq> 0 \<or> ucast (ub_value (bkt i r ?b)) < uclamp_rq_get r i")
    case True
    then have eq: "r' = r1" using r' by simp
    with dn dt old wf val1 get1 show ?thesis by simp
  next
    case False
    have t: "ub_tasks (bkt i r1 d) \<noteq> 0" using dt same by simp
    obtain e where e: "uclamp_top_bucket ?n (ur_bucket (rq_uclamp r1 i)) = Some e"
      using top_bucket_ex[of d ?n "ur_bucket (rq_uclamp r1 i)", OF dn t] by (rule exE)
    with False r' have eq: "r' = uclamp_rq_set i (ucast (ub_value (bkt i r e))) r1" by simp
    have te: "e < ?n" "ub_tasks (bkt i r1 e) \<noteq> 0" "d \<le> e"
      using top_bucket_Some[OF e] dn t by (auto simp: not_less[symmetric])
    have "bid env (ub_value (bkt i r d)) \<le> bid env (ub_value (bkt i r e))"
      using wf(1)[OF dn old[OF t]] wf(1)[OF te(1) old[OF te(2)]] te(3) by simp
    then have "ub_value (bkt i r d) \<le> ub_value (bkt i r e)"
      using bid_mono[of "ub_value (bkt i r e)" "ub_value (bkt i r d)" env]
        wf(1)[OF dn old[OF t]] wf(1)[OF te(1) old[OF te(2)]]
      by (metis linear order_antisym te(3))
    with eq same val1 show ?thesis by (simp add: uclamp_rq_get_def uclamp_rq_set_def)
  qed
  show "uclamp_rq_is_idle r' \<or> uclamp_rq_get r' i = 0" if "M - {#v#} = {#}"
  proof -
    have none: "uclamp_top_bucket ?n (ur_bucket (rq_uclamp r1 i)) = None"
      using that empty top_bucket_None by blast
    have "a = ?b" using keep[OF a(2)] that empty a(1) by blast
    with a(3) that empty b have "\<not> (ub_tasks (bkt i r1 ?b) \<noteq> 0 \<or>
        ucast (ub_value (bkt i r ?b)) < uclamp_rq_get r i)" by auto
    with r' none have "r' = uclamp_rq_set i (fst (uclamp_idle_value i (ucast v) r1))
        (snd (uclamp_idle_value i (ucast v) r1))" by simp
    then show ?thesis
      by (cases i) (simp_all add: clamp_rq_simps idle_flag_set)
  qed
  show "uclamp_rq_is_idle r' = uclamp_rq_is_idle r" if "M - {#v#} \<noteq> {#}"
  proof -
    have "uclamp_top_bucket ?n (ur_bucket (rq_uclamp r1 i)) \<noteq> None"
      using that empty top_bucket_None by blast
    with r' idle1 show ?thesis
      by (auto simp: uclamp_rq_is_idle_def uclamp_rq_set_def)
  qed
qed

lemma bucket_dec_core:
  assumes "0 < e_uclamp_buckets env" and "clamp_core env i M r" and "v \<in># M"
  shows "clamp_core env i (M - {#v#}) (uclamp_bucket_dec env i (bid env v) v r)"
proof -
  let ?r = "uclamp_bucket_dec env i (bid env v) v r"
  have "bid env (ub_value (bkt i ?r b)) = b"
    if "b < e_uclamp_buckets env" "ub_tasks (bkt i ?r b) \<noteq> 0" for b
    using assms(2) that by (auto simp: clamp_core_def bucket_dec_bkt split: if_splits)
  moreover have "w \<le> ub_value (bkt i ?r (bid env w))" if "w \<in># M - {#v#}" for w
    using assms(2) in_diffD[OF that] by (simp add: clamp_core_def)
  ultimately show ?thesis
    using bucket_dec_counts[OF assms(2,3)] bucket_dec_get[OF assms]
    unfolding clamp_core_def by blast
qed

section \<open>The runnable tasks of a runqueue\<close>

lemma clamp_core_cong: "rq_uclamp r i = rq_uclamp r' i \<Longrightarrow> clamp_core env i M r = clamp_core env i M r'"
  by (simp add: clamp_core_def uclamp_rq_get_def)

lemma clear_idle_uclamp [simp]: "rq_uclamp (clear_idle r) = rq_uclamp r"
  by (simp add: clear_idle_def)

lemma bucket_dec_min_flags:
  "rq_uclamp_flags (uclamp_bucket_dec env UCLAMP_MIN b v r) = rq_uclamp_flags r"
  by (simp add: uclamp_bucket_dec_def Let_def case_prod_beta uclamp_rq_max_value_def
      upd_bucket_def uclamp_rq_set_def split: option.splits)

definition vals :: "('x, 'l) kernel \<Rightarrow> uclamp_id \<Rightarrow> tid set \<Rightarrow> 11 word multiset" where
  "vals k i A = image_mset (\<lambda>p. us_value (t_uclamp (tsk k p) i)) (mset_set A)"

text \<open>\<open>A\<close> is the set of tasks counted in on runqueue \<open>c\<close>: each is marked active with the
  bucket of its value, and the buckets of both clamps count exactly these tasks.\<close>

definition uclamp_ok ::
    "('x, 'l, 'm) env_scheme \<Rightarrow> ('x, 'l) kernel \<Rightarrow> cpu \<Rightarrow> tid set \<Rightarrow> bool" where
  "uclamp_ok env k c A \<longleftrightarrow> finite A \<and>
     (\<forall>i. clamp_core env i (vals k i A) (cpu_rq k c) \<and> clamp_idle i (vals k i A) (cpu_rq k c)) \<and>
     (\<forall>p \<in> A. \<forall>i. us_active (t_uclamp (tsk k p) i) \<and>
        us_bucket_id (t_uclamp (tsk k p) i) = bid env (us_value (t_uclamp (tsk k p) i)))"

definition se_wf :: "('x, 'l, 'm) env_scheme \<Rightarrow> uclamp_se \<Rightarrow> bool" where
  "se_wf env se \<longleftrightarrow> us_bucket_id se = bid env (us_value se)"

lemma se_set_wf: "unat v < 2 ^ 11 \<Longrightarrow> se_wf env (uclamp_se_set env v u se)"
proof -
  assume "unat v < 2 ^ 11"
  then have "(ucast (ucast v :: 11 word) :: u32) = v"
    by (simp add: word_unat_eq_iff unsigned_ucast_eq unsigned_take_bit_eq take_bit_nat_eq_self)
  then show ?thesis by (simp add: se_wf_def uclamp_se_set_def bid_def)
qed

lemma eff_get_wf:
  assumes "se_wf env (t_uclamp_req (tsk k p) i)" and "se_wf env (k_uclamp_default k i)"
  shows "se_wf env (uclamp_eff_get env k p i)"
proof -
  have w: "unat (ucast (v :: 11 word) :: u32) < 2 ^ 11" for v
    using unsigned_less[of v, where ?'a = nat] by simp
  show ?thesis
    using assms se_set_wf[OF w]
    by (auto simp: uclamp_eff_get_def uclamp_tg_restrict_def Let_def)
qed

lemma vals_insert: "finite A \<Longrightarrow> p \<notin> A \<Longrightarrow>
   vals k i (insert p A) = add_mset (us_value (t_uclamp (tsk k p) i)) (vals k i A)"
  by (simp add: vals_def)

lemma vals_remove: "finite A \<Longrightarrow> p \<in> A \<Longrightarrow>
   vals k i (A - {p}) = vals k i A - {#us_value (t_uclamp (tsk k p) i)#}"
  by (simp add: vals_def mset_set_Diff image_mset_Diff)

lemma vals_cong: "(\<And>p. p \<in> A \<Longrightarrow> us_value (t_uclamp (tsk k p) i) = us_value (t_uclamp (tsk k' p) i)) \<Longrightarrow>
   vals k i A = vals k' i A"
  unfolding vals_def by (cases "finite A") (auto intro!: image_mset_cong)

lemma eff_get_upd [simp]:
  "uclamp_eff_get env (upd_se q j f k) p i = uclamp_eff_get env k p i"
  "uclamp_eff_get env (upd_rq c g k) p i = uclamp_eff_get env k p i"
  by (auto simp: uclamp_eff_get_def uclamp_tg_restrict_def upd_se_def Let_def)

lemma upd_se_simps [simp]:
  "k_tasks (upd_se p i f k) =
     (k_tasks k)(p := (tsk k p)\<lparr>t_uclamp := (t_uclamp (tsk k p))(i := f (t_uclamp (tsk k p) i))\<rparr>)"
  "k_rqs (upd_se p i f k) = k_rqs k"
  "k_uclamp_used (upd_se p i f k) = k_uclamp_used k"
  by (simp_all add: upd_se_def)

text \<open>\<open>uclamp_rq_inc\<close> and \<open>uclamp_rq_dec\<close> where they act, in closed form.\<close>

definition uclamp_acts :: "('x, 'l, 'm) env_scheme \<Rightarrow> ('x, 'l) kernel \<Rightarrow> tid \<Rightarrow> bool" where
  "uclamp_acts env k p \<longleftrightarrow> e_uclamp env \<and> k_uclamp_used k \<and>
     vt_uclamp_enabled (class_vt env (t_class (tsk k p)))"

lemma rq_inc_task:
  "uclamp_acts env k p \<Longrightarrow> t_uclamp (tsk (uclamp_rq_inc env c p k) q) i =
     (if q = p then (uclamp_eff_get env k p i)\<lparr>us_active := True\<rparr> else t_uclamp (tsk k q) i)"
  by (cases i) (auto simp: uclamp_acts_def uclamp_rq_inc_def for_each_clamp_id_def
      uclamp_rq_inc_id_def Let_def)

lemma rq_inc_rq:
  "uclamp_acts env k p \<Longrightarrow> cpu_rq (uclamp_rq_inc env c p k) c =
     (let mn = uclamp_eff_get env k p UCLAMP_MIN; mx = uclamp_eff_get env k p UCLAMP_MAX in
      clear_idle (uclamp_bucket_inc UCLAMP_MAX (us_bucket_id mx) (us_value mx)
        (uclamp_bucket_inc UCLAMP_MIN (us_bucket_id mn) (us_value mn) (cpu_rq k c))))"
  by (simp add: uclamp_acts_def uclamp_rq_inc_def for_each_clamp_id_def uclamp_rq_inc_id_def
      Let_def)

lemma rq_inc_ok:
  assumes n: "0 < e_uclamp_buckets env" and acts: "uclamp_acts env k p"
    and ok: "uclamp_ok env k c A" and p: "p \<notin> A" and card: "card A + 1 < 2 ^ 21"
    and wf: "\<And>i. se_wf env (uclamp_eff_get env k p i)"
  shows "uclamp_ok env (uclamp_rq_inc env c p k) c (insert p A)"
proof -
  let ?k = "uclamp_rq_inc env c p k" and ?r = "cpu_rq k c"
  let ?v = "\<lambda>i. us_value (uclamp_eff_get env k p i)"
  let ?r1 = "uclamp_bucket_inc UCLAMP_MIN (bid env (?v UCLAMP_MIN)) (?v UCLAMP_MIN) ?r"
  let ?r2 = "uclamp_bucket_inc UCLAMP_MAX (bid env (?v UCLAMP_MAX)) (?v UCLAMP_MAX) ?r1"
  have fin: "finite A" and core: "\<And>i. clamp_core env i (vals k i A) ?r"
    and idle: "\<And>i. clamp_idle i (vals k i A) ?r"
    using ok by (simp_all add: uclamp_ok_def)
  have sz: "size (vals k i A) + 1 < 2 ^ 21" for i using card by (simp add: vals_def)
  have rq: "cpu_rq ?k c = clear_idle ?r2"
    using wf by (simp add: rq_inc_rq[OF acts] Let_def se_wf_def)
  have vals: "vals ?k i (insert p A) = add_mset (?v i) (vals k i A)" for i
  proof -
    have "vals ?k i A = vals k i A" using p by (intro vals_cong) (auto simp: rq_inc_task[OF acts])
    then show ?thesis using fin p by (simp add: vals_insert rq_inc_task[OF acts])
  qed
  have "clamp_core env UCLAMP_MIN (add_mset (?v UCLAMP_MIN) (vals k UCLAMP_MIN A)) ?r1"
    using n core idle sz by (rule bucket_inc_core)
  then have mn: "clamp_core env UCLAMP_MIN (add_mset (?v UCLAMP_MIN) (vals k UCLAMP_MIN A)) (clear_idle ?r2)"
    by (simp add: clamp_core_cong[of "clear_idle ?r2" UCLAMP_MIN ?r1] bucket_inc_other_id)
  have "clamp_core env UCLAMP_MAX (vals k UCLAMP_MAX A) ?r1"
    using core by (simp add: clamp_core_cong[of ?r1 UCLAMP_MAX ?r] bucket_inc_other_id)
  moreover have "clamp_idle UCLAMP_MAX (vals k UCLAMP_MAX A) ?r1"
    using idle[of UCLAMP_MAX]
    by (simp add: clamp_idle_def uclamp_rq_is_idle_def uclamp_rq_get_def bucket_inc_other_id)
  ultimately have "clamp_core env UCLAMP_MAX (add_mset (?v UCLAMP_MAX) (vals k UCLAMP_MAX A)) ?r2"
    using n sz by (intro bucket_inc_core)
  then have mx: "clamp_core env UCLAMP_MAX (add_mset (?v UCLAMP_MAX) (vals k UCLAMP_MAX A)) (clear_idle ?r2)"
    by (simp add: clamp_core_cong[of "clear_idle ?r2" UCLAMP_MAX ?r2])
  have "clamp_core env i (vals ?k i (insert p A)) (cpu_rq ?k c)" for i
    unfolding vals rq using mn mx by (cases i) simp_all
  moreover have "clamp_idle i (vals ?k i (insert p A)) (cpu_rq ?k c)" for i
    unfolding vals rq by (simp add: clamp_idle_def)
  ultimately show ?thesis
    using ok fin wf unfolding uclamp_ok_def
    by (auto simp: rq_inc_task[OF acts] se_wf_def)
qed

lemma rq_dec_task:
  "uclamp_acts env k p \<Longrightarrow> t_uclamp (tsk (uclamp_rq_dec env c p k) q) i =
     (if q = p then (t_uclamp (tsk k q) i)\<lparr>us_active := False\<rparr> else t_uclamp (tsk k q) i)"
  by (cases i) (auto simp: uclamp_acts_def uclamp_rq_dec_def for_each_clamp_id_def
      uclamp_rq_dec_id_def Let_def)

lemma rq_dec_rq:
  "uclamp_acts env k p \<Longrightarrow> (\<And>i. us_active (t_uclamp (tsk k p) i)) \<Longrightarrow>
   cpu_rq (uclamp_rq_dec env c p k) c =
     (let mn = t_uclamp (tsk k p) UCLAMP_MIN; mx = t_uclamp (tsk k p) UCLAMP_MAX in
      uclamp_bucket_dec env UCLAMP_MAX (us_bucket_id mx) (us_value mx)
        (uclamp_bucket_dec env UCLAMP_MIN (us_bucket_id mn) (us_value mn) (cpu_rq k c)))"
  by (simp add: uclamp_acts_def uclamp_rq_dec_def for_each_clamp_id_def uclamp_rq_dec_id_def
      Let_def)

lemma rq_dec_ok:
  assumes n: "0 < e_uclamp_buckets env" and acts: "uclamp_acts env k p"
    and ok: "uclamp_ok env k c A" and p: "p \<in> A"
  shows "uclamp_ok env (uclamp_rq_dec env c p k) c (A - {p})"
proof -
  let ?k = "uclamp_rq_dec env c p k" and ?r = "cpu_rq k c"
  let ?v = "\<lambda>i. us_value (t_uclamp (tsk k p) i)"
  let ?r1 = "uclamp_bucket_dec env UCLAMP_MIN (bid env (?v UCLAMP_MIN)) (?v UCLAMP_MIN) ?r"
  let ?r2 = "uclamp_bucket_dec env UCLAMP_MAX (bid env (?v UCLAMP_MAX)) (?v UCLAMP_MAX) ?r1"
  have fin: "finite A" and core: "\<And>i. clamp_core env i (vals k i A) ?r"
    and idle: "\<And>i. clamp_idle i (vals k i A) ?r"
    and act: "\<And>i. us_active (t_uclamp (tsk k p) i)"
    and b: "\<And>i. us_bucket_id (t_uclamp (tsk k p) i) = bid env (?v i)"
    using ok p by (simp_all add: uclamp_ok_def)
  have mem: "?v i \<in># vals k i A" for i using fin p by (simp add: vals_def)
  then have busy: "\<not> uclamp_rq_is_idle ?r" using idle by (auto simp: clamp_idle_def)
  have rq: "cpu_rq ?k c = ?r2" using act b by (simp add: rq_dec_rq[OF acts] Let_def)
  have vals: "vals ?k i (A - {p}) = vals k i A - {#?v i#}" for i
  proof -
    have "vals ?k i (A - {p}) = vals k i (A - {p})"
      by (intro vals_cong) (auto simp: rq_dec_task[OF acts])
    then show ?thesis using fin p by (simp add: vals_remove)
  qed
  have c1: "clamp_core env UCLAMP_MIN (vals k UCLAMP_MIN A - {#?v UCLAMP_MIN#}) ?r1"
    using n core mem by (rule bucket_dec_core)
  then have mn: "clamp_core env UCLAMP_MIN (vals k UCLAMP_MIN A - {#?v UCLAMP_MIN#}) ?r2"
    by (simp add: clamp_core_cong[of ?r2 UCLAMP_MIN ?r1] bucket_dec_other_id)
  have c1': "clamp_core env UCLAMP_MAX (vals k UCLAMP_MAX A) ?r1"
    using core by (simp add: clamp_core_cong[of ?r1 UCLAMP_MAX ?r] bucket_dec_other_id)
  have mx: "clamp_core env UCLAMP_MAX (vals k UCLAMP_MAX A - {#?v UCLAMP_MAX#}) ?r2"
    using n c1' mem by (rule bucket_dec_core)
  have busy1: "\<not> uclamp_rq_is_idle ?r1"
    using busy by (simp add: uclamp_rq_is_idle_def bucket_dec_min_flags)
  have empty: "vals k i A - {#?v i#} = {#} \<longleftrightarrow> A - {p} = {}" for i
  proof -
    have "vals ?k i (A - {p}) = {#} \<longleftrightarrow> A - {p} = {}"
      using fin by (simp add: vals_def mset_set_empty_iff)
    then show ?thesis unfolding vals .
  qed
  have "clamp_idle UCLAMP_MAX (vals k UCLAMP_MAX A - {#?v UCLAMP_MAX#}) ?r2"
    using bucket_dec_get(3,4)[OF n c1' mem] busy1 unfolding clamp_idle_def by blast
  moreover have "uclamp_rq_get ?r2 UCLAMP_MIN = uclamp_rq_get ?r1 UCLAMP_MIN"
    by (simp add: uclamp_rq_get_def bucket_dec_other_id)
  then have "clamp_idle UCLAMP_MIN (vals k UCLAMP_MIN A - {#?v UCLAMP_MIN#}) ?r2"
    using bucket_dec_get(3)[OF n core mem, of UCLAMP_MIN] bucket_dec_get(4)[OF n c1' mem] busy1
      empty[of UCLAMP_MIN] empty[of UCLAMP_MAX]
    unfolding clamp_idle_def by metis
  ultimately have "clamp_idle i (vals ?k i (A - {p})) (cpu_rq ?k c)" for i
    unfolding vals rq by (cases i) simp_all
  moreover have "clamp_core env i (vals ?k i (A - {p})) (cpu_rq ?k c)" for i
    unfolding vals rq using mn mx by (cases i) simp_all
  ultimately show ?thesis
    using ok fin unfolding uclamp_ok_def by (auto simp: rq_dec_task[OF acts])
qed

section \<open>What the updates leave alone\<close>

lemma upd_se_frame [simp]:
  "k_tgs (upd_se p i f k) = k_tgs k" "k_util_min (upd_se p i f k) = k_util_min k"
  "k_util_max (upd_se p i f k) = k_util_max k" "k_util_min_rt (upd_se p i f k) = k_util_min_rt k"
  by (simp_all add: upd_se_def)

lemma reinc_id_frame [simp]:
  "k_tgs (uclamp_rq_reinc_id env c p i k) = k_tgs k"
  "k_util_min (uclamp_rq_reinc_id env c p i k) = k_util_min k"
  "k_util_max (uclamp_rq_reinc_id env c p i k) = k_util_max k"
  "k_util_min_rt (uclamp_rq_reinc_id env c p i k) = k_util_min_rt k"
  by (simp_all add: uclamp_rq_reinc_id_def uclamp_rq_inc_id_def uclamp_rq_dec_id_def Let_def)

lemma update_active_frame [simp]:
  "k_tgs (uclamp_update_active env p k) = k_tgs k"
  "k_util_min (uclamp_update_active env p k) = k_util_min k"
  "k_util_max (uclamp_update_active env p k) = k_util_max k"
  "k_util_min_rt (uclamp_update_active env p k) = k_util_min_rt k"
  by (simp_all add: uclamp_update_active_def fold_keeps)

lemma update_active_tasks_frame [simp]:
  "k_tgs (uclamp_update_active_tasks env g k) = k_tgs k"
  "k_util_min (uclamp_update_active_tasks env g k) = k_util_min k"
  "k_util_max (uclamp_update_active_tasks env g k) = k_util_max k"
  "k_util_min_rt (uclamp_update_active_tasks env g k) = k_util_min_rt k"
  by (simp_all add: uclamp_update_active_tasks_def fold_keeps)

lemma update_tree_util:
  "k_util_min (cpu_util_update_tree env t k) = k_util_min k \<and>
   k_util_max (cpu_util_update_tree env t k) = k_util_max k \<and>
   k_util_min_rt (cpu_util_update_tree env t k) = k_util_min_rt k"
  "k_util_min (cpu_util_update_forest env ts k) = k_util_min k \<and>
   k_util_max (cpu_util_update_forest env ts k) = k_util_max k \<and>
   k_util_min_rt (cpu_util_update_forest env ts k) = k_util_min_rt k"
  by (induction env t k and env ts k rule: cpu_util_update_tree_cpu_util_update_forest.induct)
    (simp_all add: cpu_util_update_group_def Let_def)

lemma update_tree_requests:
  "tg_uclamp_req (k_tgs (cpu_util_update_tree env t k) g) = tg_uclamp_req (k_tgs k g) \<and>
   tg_uclamp_pct (k_tgs (cpu_util_update_tree env t k) g) = tg_uclamp_pct (k_tgs k g)"
  "tg_uclamp_req (k_tgs (cpu_util_update_forest env ts k) g) = tg_uclamp_req (k_tgs k g) \<and>
   tg_uclamp_pct (k_tgs (cpu_util_update_forest env ts k) g) = tg_uclamp_pct (k_tgs k g)"
  by (induction env t k and env ts k rule: cpu_util_update_tree_cpu_util_update_forest.induct)
    (simp_all add: cpu_util_update_group_def Let_def)

lemma update_root_tg_util [simp]:
  "k_util_min (uclamp_update_root_tg env k) = k_util_min k"
  "k_util_max (uclamp_update_root_tg env k) = k_util_max k"
  "k_util_min_rt (uclamp_update_root_tg env k) = k_util_min_rt k"
  by (simp_all add: uclamp_update_root_tg_def cpu_util_update_eff_def update_tree_util Let_def)

lemma sync_util [simp]:
  "k_util_min (uclamp_sync_util_min_rt_default env k) = k_util_min k"
  "k_util_max (uclamp_sync_util_min_rt_default env k) = k_util_max k"
  "k_util_min_rt (uclamp_sync_util_min_rt_default env k) = k_util_min_rt k"
  by (simp_all add: uclamp_sync_util_min_rt_default_def fold_keeps
      uclamp_update_util_min_rt_default_def uclamp_update_util_min_rt_default_locked_def)

section \<open>The hierarchy of groups\<close>

text \<open>A group is consistent when its effective clamps are what its requests and its parent's
  effective clamps give.\<close>

definition tg_consistent :: "('x, 'l) kernel \<Rightarrow> tgid \<Rightarrow> bool" where
  "tg_consistent k g \<longleftrightarrow> (\<forall>i. us_value (tg_uclamp (k_tgs k g) i) = cpu_util_eff k g i)"

fun css_groups :: "css_tree \<Rightarrow> tgid list" where
  "css_groups (Css g ts) = g # concat (map css_groups ts)"

fun css_wf :: "(tgid \<Rightarrow> task_group) \<Rightarrow> css_tree \<Rightarrow> bool" where
  "css_wf tgs (Css g ts) \<longleftrightarrow>
     (\<forall>t \<in> set ts. tg_parent (tgs (css_group t)) = Some g \<and> css_wf tgs t)"

lemma css_group_mem [simp]: "css_group t \<in> set (css_groups t)"
  by (cases t) simp

lemma css_wf_parent:
  "css_wf tgs t \<Longrightarrow> g \<in> set (css_groups t) \<Longrightarrow> g \<noteq> css_group t \<Longrightarrow>
     \<exists>q \<in> set (css_groups t). tg_parent (tgs g) = Some q"
proof (induction t)
  case (Css h ts)
  then obtain t where t: "t \<in> set ts" "g \<in> set (css_groups t)" by auto
  show ?case
  proof (cases "g = css_group t")
    case True
    with Css.prems(1) t show ?thesis by auto
  next
    case False
    with Css t show ?thesis by auto
  qed
qed

lemma css_wf_cong:
  "(\<And>g. g \<in> set (css_groups t) \<Longrightarrow> tg_parent (tgs g) = tg_parent (tgs' g)) \<Longrightarrow>
     css_wf tgs t = css_wf tgs' t"
proof (induction t)
  case (Css h ts)
  have "tg_parent (tgs (css_group t)) = tg_parent (tgs' (css_group t)) \<and> css_wf tgs t = css_wf tgs' t"
    if "t \<in> set ts" for t
  proof
    have "g \<in> set (css_groups (Css h ts))" if "g \<in> set (css_groups t)" for g
      using that \<open>t \<in> set ts\<close> by auto
    then show "css_wf tgs t = css_wf tgs' t" "tg_parent (tgs (css_group t)) = tg_parent (tgs' (css_group t))"
      using Css.prems Css.IH[OF that] css_group_mem by blast+
  qed
  then show ?case by simp
qed

lemma eff_cong:
  assumes "tg_uclamp_req (k_tgs k g) = tg_uclamp_req (k_tgs k' g)"
    and "tg_parent (k_tgs k g) = tg_parent (k_tgs k' g)"
    and "\<And>q. tg_parent (k_tgs k g) = Some q \<Longrightarrow> tg_uclamp (k_tgs k q) = tg_uclamp (k_tgs k' q)"
  shows "cpu_util_eff k g = cpu_util_eff k' g"
  using assms by (auto simp: cpu_util_eff_def Let_def fun_eq_iff split: option.splits uclamp_id.splits)

lemma consistent_cong:
  assumes "k_tgs k g = k_tgs k' g"
    and "\<And>q. tg_parent (k_tgs k g) = Some q \<Longrightarrow> k_tgs k q = k_tgs k' q"
  shows "tg_consistent k g = tg_consistent k' g"
  using eff_cong[of k g k'] assms by (simp add: tg_consistent_def)

definition same_links :: "('x, 'l) kernel \<Rightarrow> ('x, 'l) kernel \<Rightarrow> bool" where
  "same_links k k' \<longleftrightarrow> (\<forall>g. tg_parent (k_tgs k' g) = tg_parent (k_tgs k g) \<and>
     tg_uclamp_req (k_tgs k' g) = tg_uclamp_req (k_tgs k g))"

lemma update_group_effect:
  assumes "cpu_util_update_group env g k = (clamps, k')"
    and "tg_parent (k_tgs k g) \<noteq> Some g"
  shows "tg_consistent k' g" "same_links k k'" "h \<noteq> g \<Longrightarrow> k_tgs k' h = k_tgs k h"
    "\<not> clamps \<Longrightarrow> k_tgs k' = k_tgs k"
proof -
  have k': "k' = snd (cpu_util_update_group env g k)" using assms(1) by simp
  have eff: "cpu_util_eff k' g = cpu_util_eff k g"
    using assms(2) by (intro eff_cong) (auto simp: k' cpu_util_update_group_def Let_def)
  show "tg_consistent k' g"
    unfolding tg_consistent_def eff by (simp add: k' cpu_util_update_group_def Let_def)
  show "same_links k k'" by (simp add: same_links_def k' cpu_util_update_group_def Let_def)
  show "h \<noteq> g \<Longrightarrow> k_tgs k' h = k_tgs k h" by (simp add: k' cpu_util_update_group_def Let_def)
  show "k_tgs k' = k_tgs k" if "\<not> clamps"
  proof -
    have "cpu_util_eff k g i = us_value (tg_uclamp (k_tgs k g) i)" for i
      using that assms(1) by (cases i) (auto simp: cpu_util_update_group_def Let_def for_each_clamp_id_def)
    then show ?thesis by (simp add: k' cpu_util_update_group_def Let_def)
  qed
qed

lemma update_tree_consistent:
  "css_wf (k_tgs k) t \<Longrightarrow> distinct (css_groups t) \<Longrightarrow>
   (\<And>q. tg_parent (k_tgs k (css_group t)) = Some q \<Longrightarrow> q \<notin> set (css_groups t)) \<Longrightarrow>
   (\<And>g. g \<in> set (css_groups t) \<Longrightarrow> g \<noteq> css_group t \<Longrightarrow> tg_consistent k g) \<Longrightarrow>
   same_links k (cpu_util_update_tree env t k) \<and>
   (\<forall>g. g \<notin> set (css_groups t) \<longrightarrow> k_tgs (cpu_util_update_tree env t k) g = k_tgs k g) \<and>
   (\<forall>g \<in> set (css_groups t). tg_consistent (cpu_util_update_tree env t k) g)"
  "(\<And>t. t \<in> set ts \<Longrightarrow> css_wf (k_tgs k) t \<and> tg_parent (k_tgs k (css_group t)) = Some p) \<Longrightarrow>
   distinct (p # concat (map css_groups ts)) \<Longrightarrow>
   (\<And>t g. t \<in> set ts \<Longrightarrow> g \<in> set (css_groups t) \<Longrightarrow> g \<noteq> css_group t \<Longrightarrow> tg_consistent k g) \<Longrightarrow>
   same_links k (cpu_util_update_forest env ts k) \<and>
   (\<forall>g. g \<notin> set (concat (map css_groups ts)) \<longrightarrow>
      k_tgs (cpu_util_update_forest env ts k) g = k_tgs k g) \<and>
   (\<forall>g \<in> set (concat (map css_groups ts)). tg_consistent (cpu_util_update_forest env ts k) g)"
proof (induction env t k and env ts k arbitrary: and p
    rule: cpu_util_update_tree_cpu_util_update_forest.induct)
  case (1 env g ts k)
  obtain clamps k1 where u: "cpu_util_update_group env g k = (clamps, k1)" by fastforce
  have ng: "tg_parent (k_tgs k g) \<noteq> Some g" using 1(4)[of g] by auto
  note e = update_group_effect[OF u ng]
  show ?case
  proof (cases clamps)
    case False
    then have eq: "k_tgs k1 = k_tgs k" using e(4) by simp
    have "tg_consistent k1 h" if "h \<in> set (css_groups (Css g ts))" for h
    proof (cases "h = g")
      case False
      then have "tg_consistent k h" using 1(5) that by simp
      then show ?thesis using consistent_cong[of k1 h k] eq by simp
    qed (simp add: e(1))
    with False u eq e(2) show ?thesis by simp
  next
    case True
    let ?k2 = "uclamp_update_active_tasks env g k1"
    have tg2: "k_tgs ?k2 = k_tgs k1" by simp
    have par: "tg_parent (k_tgs ?k2 h) = tg_parent (k_tgs k h)" for h
      using e(2) tg2 by (simp add: same_links_def)
    have wf: "css_wf (k_tgs ?k2) t \<and> tg_parent (k_tgs ?k2 (css_group t)) = Some g"
      if "t \<in> set ts" for t
      using 1(2) that css_wf_cong[of t "k_tgs ?k2" "k_tgs k"] par by simp
    have dis: "distinct (g # concat (map css_groups ts))" using 1(3) by simp
    have con: "tg_consistent ?k2 h"
      if t: "t \<in> set ts" and h: "h \<in> set (css_groups t)" and ne: "h \<noteq> css_group t" for t h
    proof -
      obtain q where q: "q \<in> set (css_groups t)" "tg_parent (k_tgs k h) = Some q"
        using css_wf_parent[of "k_tgs k" t h] 1(2) t h ne by auto
      have "h \<noteq> g" "q \<noteq> g" using dis t h q(1) by auto
      moreover have "tg_consistent k h" using 1(5)[of h] t h \<open>h \<noteq> g\<close> by auto
      ultimately show ?thesis
        using consistent_cong[of ?k2 h k] e(3) q(2) tg2 by simp
    qed
    have nn: "\<not> \<not> clamps" using True by simp
    have "same_links ?k2 (cpu_util_update_forest env ts ?k2) \<and>
      (\<forall>h. h \<notin> set (concat (map css_groups ts)) \<longrightarrow>
         k_tgs (cpu_util_update_forest env ts ?k2) h = k_tgs ?k2 h) \<and>
      (\<forall>h \<in> set (concat (map css_groups ts)).
         tg_consistent (cpu_util_update_forest env ts ?k2) h)"
      by (rule 1(1)[OF refl u[symmetric] nn, of g]) (fact wf, fact dis, fact con)
    then have ih: "same_links ?k2 (cpu_util_update_forest env ts ?k2)"
      "\<And>h. h \<notin> set (concat (map css_groups ts)) \<Longrightarrow>
         k_tgs (cpu_util_update_forest env ts ?k2) h = k_tgs ?k2 h"
      "\<And>h. h \<in> set (concat (map css_groups ts)) \<Longrightarrow>
         tg_consistent (cpu_util_update_forest env ts ?k2) h" by auto
    have "tg_consistent (cpu_util_update_forest env ts ?k2) g"
    proof -
      have "q \<notin> set (concat (map css_groups ts))" if "tg_parent (k_tgs k g) = Some q" for q
        using 1(4) that by auto
      then have "tg_consistent (cpu_util_update_forest env ts ?k2) g = tg_consistent ?k2 g"
        using dis par ih(1) by (intro consistent_cong ih(2)) (auto simp: same_links_def)
      moreover have "tg_consistent ?k2 g = tg_consistent k1 g" by (intro consistent_cong) simp_all
      ultimately show ?thesis using e(1) by simp
    qed
    moreover have "same_links k (cpu_util_update_forest env ts ?k2)"
      using e(2) ih(1) tg2 by (simp add: same_links_def)
    moreover have "k_tgs (cpu_util_update_forest env ts ?k2) h = k_tgs k h"
      if "h \<notin> set (css_groups (Css g ts))" for h
      using that ih(2)[of h] e(3)[of h] tg2 by auto
    ultimately show ?thesis using True u ih(3) by auto
  qed
next
  case (2 env k)
  then show ?case by (simp add: same_links_def)
next
  case (3 env t ts k)
  let ?k1 = "cpu_util_update_tree env t k" and ?k2 = "cpu_util_update_forest env (t # ts) k"
  let ?T = "set (css_groups t)" and ?F = "set (concat (map css_groups ts))"
  have dis: "distinct (css_groups t)" "distinct (p # concat (map css_groups ts))" "?T \<inter> ?F = {}"
    "p \<notin> ?T" using 3(4) by auto
  have wft: "css_wf (k_tgs k) t" "tg_parent (k_tgs k (css_group t)) = Some p" using 3(3) by auto
  have t1: "same_links k ?k1" "\<And>g. g \<notin> ?T \<Longrightarrow> k_tgs ?k1 g = k_tgs k g"
    "\<And>g. g \<in> ?T \<Longrightarrow> tg_consistent ?k1 g"
    using 3(1)[OF wft(1) dis(1)] wft(2) dis(4) 3(5)[of t] by auto
  have par: "tg_parent (k_tgs ?k1 h) = tg_parent (k_tgs k h)" for h
    using t1(1) by (simp add: same_links_def)
  have wf: "css_wf (k_tgs ?k1) s \<and> tg_parent (k_tgs ?k1 (css_group s)) = Some p"
    if "s \<in> set ts" for s
    using 3(3)[of s] that css_wf_cong[of s "k_tgs ?k1" "k_tgs k"] par by simp
  have con: "tg_consistent ?k1 h"
    if s: "s \<in> set ts" and h: "h \<in> set (css_groups s)" and ne: "h \<noteq> css_group s" for s h
  proof -
    obtain q where q: "q \<in> set (css_groups s)" "tg_parent (k_tgs k h) = Some q"
      using css_wf_parent[of "k_tgs k" s h] 3(3)[of s] s h ne by auto
    have "h \<notin> ?T" "q \<notin> ?T" using dis(3) s h q(1) by auto
    moreover have "tg_consistent k h" using 3(5)[of s h] s h ne by simp
    ultimately show ?thesis using consistent_cong[of ?k1 h k] t1(2) q(2) par by simp
  qed
  have "same_links ?k1 ?k2 \<and> (\<forall>g. g \<notin> ?F \<longrightarrow> k_tgs ?k2 g = k_tgs ?k1 g) \<and>
      (\<forall>g \<in> ?F. tg_consistent ?k2 g)"
    unfolding cpu_util_update_forest.simps(2)
    by (rule 3(2)[of p]) (fact wf, fact dis(2), fact con)
  then have f: "same_links ?k1 ?k2" "\<And>g. g \<notin> ?F \<Longrightarrow> k_tgs ?k2 g = k_tgs ?k1 g"
    "\<And>g. g \<in> ?F \<Longrightarrow> tg_consistent ?k2 g" by auto
  have "tg_consistent ?k2 g" if "g \<in> ?T" for g
  proof -
    have "q \<notin> ?F" if "tg_parent (k_tgs ?k2 g) = Some q" for q
    proof (cases "g = css_group t")
      case True
      with that wft(2) f(1) par dis(2) show ?thesis by (simp add: same_links_def)
    next
      case False
      with that css_wf_parent[OF wft(1) \<open>g \<in> ?T\<close>] f(1) par dis(3) show ?thesis
        by (auto simp: same_links_def)
    qed
    moreover have "g \<notin> ?F" using that dis(3) by blast
    ultimately have "tg_consistent ?k2 g = tg_consistent ?k1 g"
      using f(2) by (intro consistent_cong) auto
    with t1(3)[OF that] show ?thesis by simp
  qed
  moreover have "same_links k ?k2" using t1(1) f(1) by (simp add: same_links_def)
  moreover have "k_tgs ?k2 g = k_tgs k g" if "g \<notin> ?T" "g \<notin> ?F" for g
    using t1(2) f(2) that by simp
  ultimately show ?case using f(3) by auto
qed

end
