(* ===== verification/Uclamp_Props.thy ===== *)
theory Uclamp_Props
  imports Machine Uclamp_Rq
begin

text \<open>
  The properties of utilization clamping: the accounting of a runqueue, the effective clamps of a
  group hierarchy, the requests a task may make and the system-wide limits.
\<close>

section \<open>Accounting\<close>

text \<open>C24: Counting a runnable task in keeps the clamp accounting of its runqueue: every bucket
  counts exactly the tasks whose effective value falls into it, and the runqueue's clamp bounds
  the effective value of every counted task, the new one included.\<close>

theorem uclamp_inc_accounting:
  assumes "0 < e_uclamp_buckets env" and "uclamp_acts env k p" and "uclamp_ok env k c A"
    and "p \<notin> A" and "card A + 1 < 2 ^ 21" and "\<And>i. se_wf env (t_uclamp_req (tsk k p) i)"
    and "\<And>i. se_wf env (k_uclamp_default k i)"
  shows "uclamp_ok env (uclamp_rq_inc env c p k) c (insert p A) \<and>
    (\<forall>q \<in> insert p A. \<forall>i. ucast (us_value (t_uclamp (tsk (uclamp_rq_inc env c p k) q) i))
       \<le> uclamp_rq_get (cpu_rq (uclamp_rq_inc env c p k) c) i)"
proof -
  let ?k = "uclamp_rq_inc env c p k"
  have ok: "uclamp_ok env ?k c (insert p A)"
    using assms by (intro rq_inc_ok) (auto intro: eff_get_wf)
  have "ucast (us_value (t_uclamp (tsk ?k q) i)) \<le> uclamp_rq_get (cpu_rq ?k c) i"
    if "q \<in> insert p A" for q i
  proof (rule clamp_core_bound[OF _ _ assms(1)])
    show "clamp_core env i (vals ?k i (insert p A)) (cpu_rq ?k c)"
      using ok by (simp add: uclamp_ok_def)
    show "us_value (t_uclamp (tsk ?k q) i) \<in># vals ?k i (insert p A)"
      using that ok by (auto simp: vals_def uclamp_ok_def)
  qed
  with ok show ?thesis by blast
qed

text \<open>A fair task with a minimum of 300 on the machine after \<open>init_uclamp\<close>.\<close>

definition uk0 :: "(unit, list_heap) kernel" where
  "uk0 = (upd_req 1 UCLAMP_MIN (uclamp_se_set env0 300 True)
            (upd_req 1 UCLAMP_MAX (uclamp_se_set env0 1024 False)
              (upd_task 1 (\<lambda>t. t\<lparr>t_class := Fair_class\<rparr>) (init_uclamp env0 [0] 0 kernel0))))
         \<lparr>k_uclamp_used := True\<rparr>"

lemma uk0_rq: "cpu_rq uk0 0 = init_uclamp_rq rq0"
  by (simp add: uk0_def upd_req_def init_uclamp_def env0_def kernel0_def for_each_clamp_id_def)

lemma uk0_ok: "uclamp_ok env0 uk0 0 {}"
  unfolding uclamp_ok_def uk0_rq
  by (simp add: vals_def clamp_core_def clamp_idle_def init_uclamp_rq_def
      uclamp_rq_is_idle_def has_flag_def UCLAMP_FLAG_IDLE_def)

lemma uk0_req: "se_wf env0 (t_uclamp_req (tsk uk0 1) i)"
  by (cases i) (simp_all add: uk0_def upd_req_def init_uclamp_def kernel0_def
      for_each_clamp_id_def se_set_wf env0_def)

lemma uk0_default: "se_wf env0 (k_uclamp_default uk0 i)"
  by (simp add: uk0_def upd_req_def init_uclamp_def kernel0_def for_each_clamp_id_def
      se_set_wf env0_def SCHED_CAPACITY_SCALE_def upd_task_def upd_rq_def)

lemma uk0_acts: "uclamp_acts env0 uk0 1"
  by (simp add: uclamp_acts_def uk0_def upd_req_def init_uclamp_def for_each_clamp_id_def
      env0_def class_vt_def empty_vtable_def upd_task_def upd_rq_def)

theorem uclamp_inc_accounting_witness:
  "uclamp_ok env0 (uclamp_rq_inc env0 0 1 uk0) 0 {1}"
proof -
  have "0 < e_uclamp_buckets env0" by (simp add: env0_def)
  from uclamp_inc_accounting[OF this uk0_acts uk0_ok _ _ uk0_req uk0_default] show ?thesis by simp
qed

text \<open>The clamp of a runqueue with tasks is the value of the bucket of one of them.\<close>

lemma clamp_core_attained:
  assumes "clamp_core env i M r" and "M \<noteq> {#}"
  shows "\<exists>v w. w \<in># M \<and> uclamp_rq_get r i = ucast v \<and> bid env v = bid env w"
proof -
  obtain b where b: "b < e_uclamp_buckets env" "ub_tasks (bkt i r b) \<noteq> 0"
    "ucast (ub_value (bkt i r b)) = uclamp_rq_get r i"
    using assms by (auto simp: clamp_core_def)
  with assms(1) have v: "bid env (ub_value (bkt i r b)) = b"
    and n: "unat (ub_tasks (bkt i r b)) = size {#v \<in># M. bid env v = b#}" by (auto simp: clamp_core_def)
  from b(2) have "0 < size {#v \<in># M. bid env v = b#}" unfolding n[symmetric] by (simp add: unat_gt_0)
  then have "{#v \<in># M. bid env v = b#} \<noteq> {#}" by (simp only: nonempty_has_size)
  then obtain w where "w \<in># {#v \<in># M. bid env v = b#}" by blast
  then have "w \<in># M" "bid env w = b" by simp_all
  with v b(3)[symmetric] show ?thesis by blast
qed

text \<open>C25: Counting a task out keeps the accounting for the remaining tasks: every bucket counts exactly
  those whose value falls into it. While tasks remain, each clamp of the runqueue is at least the value
  of every one of them, and it is a value of the bucket of one of them, so that a task is overboosted by less
  than the width of a bucket. The departed task is no longer active. When it was the last one, the minimum
  clamp is 0 or the runqueue is marked idle.\<close>

theorem uclamp_dec_accounting:
  assumes "0 < e_uclamp_buckets env" and "uclamp_acts env k p" and "uclamp_ok env k c A"
    and "p \<in> A" and "k' = uclamp_rq_dec env c p k"
  shows "uclamp_ok env k' c (A - {p}) \<and> \<not> us_active (t_uclamp (tsk k' p) i) \<and>
    (\<forall>q \<in> A - {p}. ucast (us_value (t_uclamp (tsk k' q) i)) \<le> uclamp_rq_get (cpu_rq k' c) i) \<and>
    (A \<noteq> {p} \<longrightarrow> (\<exists>q \<in> A - {p}. \<exists>v. uclamp_rq_get (cpu_rq k' c) i = ucast v \<and>
       bid env v = bid env (us_value (t_uclamp (tsk k' q) i)))) \<and>
    (A = {p} \<longrightarrow> uclamp_rq_get (cpu_rq k' c) UCLAMP_MIN = 0 \<or> uclamp_rq_is_idle (cpu_rq k' c))"
proof -
  have ok: "uclamp_ok env k' c (A - {p})"
    using assms by (simp add: rq_dec_ok)
  then have fin: "finite (A - {p})" and core: "clamp_core env i (vals k' i (A - {p})) (cpu_rq k' c)"
    and "clamp_idle UCLAMP_MIN (vals k' UCLAMP_MIN (A - {p})) (cpu_rq k' c)"
    by (simp_all add: uclamp_ok_def)
  then have last: "A = {p} \<longrightarrow> uclamp_rq_get (cpu_rq k' c) UCLAMP_MIN = 0 \<or> uclamp_rq_is_idle (cpu_rq k' c)"
    by (auto simp: clamp_idle_def vals_def)
  have bound: "ucast (us_value (t_uclamp (tsk k' q) i)) \<le> uclamp_rq_get (cpu_rq k' c) i" if "q \<in> A - {p}" for q
    by (rule clamp_core_bound[OF core _ assms(1)]) (use that fin in \<open>auto simp: vals_def\<close>)
  have top: "\<exists>q \<in> A - {p}. \<exists>v. uclamp_rq_get (cpu_rq k' c) i = ucast v \<and>
      bid env v = bid env (us_value (t_uclamp (tsk k' q) i))" if "A \<noteq> {p}"
  proof -
    have "vals k' i (A - {p}) \<noteq> {#}" using that assms(4) fin by (auto simp: vals_def mset_set_empty_iff)
    from clamp_core_attained[OF core this] fin show ?thesis by (auto simp: vals_def)
  qed
  show ?thesis using ok last bound top assms(2) by (simp add: rq_dec_task assms(5))
qed

lemma uk1_acts: "uclamp_acts env0 (uclamp_rq_inc env0 0 1 uk0) 1"
  using uk0_acts
  by (simp add: uclamp_acts_def uclamp_rq_inc_def for_each_clamp_id_def uclamp_rq_inc_id_def Let_def)

theorem uclamp_dec_accounting_witness:
  "uclamp_ok env0 (uclamp_rq_dec env0 0 1 (uclamp_rq_inc env0 0 1 uk0)) 0 {}"
proof -
  have n: "0 < e_uclamp_buckets env0" by (simp add: env0_def)
  have "uclamp_ok env0 (uclamp_rq_inc env0 0 1 uk0) 0 {1}"
    using rq_inc_ok[OF n uk0_acts uk0_ok] eff_get_wf[OF uk0_req uk0_default] by simp
  from uclamp_dec_accounting[OF n uk1_acts this _ refl] show ?thesis by simp
qed

section \<open>The group hierarchy\<close>

text \<open>C26: When the request of one group changed, \<open>cpu_util_update_eff\<close> brings every group
  of its subtree back to the effective clamps its requests and its parent give, although it skips
  the descendants of a group whose clamps stay; no other group changes.\<close>

theorem cpu_util_update_complete:
  assumes "css_wf (k_tgs k) (e_css_tree env g k)" and "css_group (e_css_tree env g k) = g"
    and "distinct (css_groups (e_css_tree env g k))"
    and "\<And>q. tg_parent (k_tgs k g) = Some q \<Longrightarrow> q \<notin> set (css_groups (e_css_tree env g k))"
    and "\<And>h. h \<in> set (css_groups (e_css_tree env g k)) \<Longrightarrow> h \<noteq> g \<Longrightarrow> tg_consistent k h"
  shows "(\<forall>h \<in> set (css_groups (e_css_tree env g k)). tg_consistent (cpu_util_update_eff env g k) h) \<and>
    (\<forall>h. h \<notin> set (css_groups (e_css_tree env g k)) \<longrightarrow>
       k_tgs (cpu_util_update_eff env g k) h = k_tgs k h)"
proof -
  let ?t = "e_css_tree env g k"
  have "same_links k (cpu_util_update_tree env ?t k) \<and>
     (\<forall>h. h \<notin> set (css_groups ?t) \<longrightarrow> k_tgs (cpu_util_update_tree env ?t k) h = k_tgs k h) \<and>
     (\<forall>h \<in> set (css_groups ?t). tg_consistent (cpu_util_update_tree env ?t k) h)"
    using assms by (intro update_tree_consistent(1)) simp_all
  then show ?thesis unfolding cpu_util_update_eff_def by blast
qed

text \<open>Group 1 with children 2 and 3 and grandchild 4 below the root.\<close>

definition env_tree0 :: "(unit, list_heap) env" where
  "env_tree0 = env0\<lparr>e_css_tree := (\<lambda>g k. Css 1 [Css 2 [Css 4 []], Css 3 []])\<rparr>"

definition tree_kernel0 :: "(unit, list_heap) kernel" where
  "tree_kernel0 = upd_tg 1 (\<lambda>t. t\<lparr>tg_uclamp_req := (\<lambda>_. se0\<lparr>us_value := 512\<rparr>)\<rparr>)
     (kernel0\<lparr>k_tgs := (\<lambda>g. tg0\<lparr>tg_parent := (if g = 4 then Some 2 else if g = 1 then None else Some 1)\<rparr>)\<rparr>)"

theorem cpu_util_update_complete_witness:
  "tg_consistent (cpu_util_update_eff env_tree0 1 tree_kernel0) 4"
proof -
  have "\<And>i. us_value (tg_uclamp (k_tgs tree_kernel0 h) i) = cpu_util_eff tree_kernel0 h i"
    if "h \<noteq> 1" for h
    using that by (simp add: tree_kernel0_def cpu_util_eff_def tg0_def se0_def split: uclamp_id.splits option.splits)
  then have "tg_consistent tree_kernel0 h" if "h \<noteq> 1" for h
    using that by (simp add: tg_consistent_def)
  then show ?thesis
    using cpu_util_update_complete[of tree_kernel0 env_tree0 1]
    by (simp add: env_tree0_def) (simp add: tree_kernel0_def)
qed

section \<open>The system-wide limits\<close>

text \<open>A write to the clamp limits that is refused, for whatever reason, leaves the whole
  state as it was; an accepted one leaves limits with \<open>min \<le> max \<le> 1024\<close> and a real-time default of
  at most 1024.\<close>

theorem sysctl_uclamp_limits:
  "case sysctl_sched_uclamp_handler env write buf k of (result, k') \<Rightarrow>
     (result \<noteq> 0 \<longrightarrow> k' = k) \<and>
     (write \<longrightarrow> result = 0 \<longrightarrow>
        k_util_min k' \<le> k_util_max k' \<and> k_util_max k' \<le> 1024 \<and> k_util_min_rt k' \<le> 1024)"
proof -
  obtain result mn mx rt where d:
    "e_proc_dointvec env write (k_util_min k, k_util_max k, k_util_min_rt k) buf = (result, mn, mx, rt)"
    by (metis surj_pair)
  show ?thesis
    by (auto simp: sysctl_sched_uclamp_handler_def d Let_def EINVAL_def SCHED_CAPACITY_SCALE_def
        not_less)
qed

text \<open>A write of 1000 to the first limit, the maximum being 512: refused.\<close>

theorem sysctl_uclamp_limits_witness:
  "snd (sysctl_sched_uclamp_handler
     (env0\<lparr>e_proc_dointvec := (\<lambda>w old buf. (0, 1000, 512, 1024))\<rparr>) True ''1000'' kernel0) = kernel0"
proof -
  have "fst (sysctl_sched_uclamp_handler
     (env0\<lparr>e_proc_dointvec := (\<lambda>w old buf. (0, 1000, 512, 1024))\<rparr>) True ''1000'' kernel0) \<noteq> 0"
    by (simp add: sysctl_sched_uclamp_handler_def EINVAL_def)
  with sysctl_uclamp_limits[of kernel0 True "env0\<lparr>e_proc_dointvec := (\<lambda>w old buf. (0, 1000, 512, 1024))\<rparr>"
      "''1000''"] show ?thesis by (simp add: case_prod_beta)
qed

section \<open>Requests\<close>

text \<open>\<open>uclamp_validate\<close> accepts a minimum that is negative as a signed number, and not
  only the value -1 that means a reset: the range test is a signed comparison of the value plus
  one. \<open>__setscheduler_uclamp\<close> then stores the value truncated to 11 bits with the bucket of the
  untruncated one; the stored minimum can exceed the capacity scale.\<close>

theorem uclamp_validate_accepts_negative:
  assumes "e_uclamp env" and "sa_flags attr = SCHED_FLAG_UTIL_CLAMP_MIN"
    and "sint (sa_util_min attr) < -1"
  shows "uclamp_validate env p attr k = (0, k\<lparr>k_uclamp_used := True\<rparr>) \<and>
    us_value (t_uclamp_req (tsk (setscheduler_uclamp env p attr k) p) UCLAMP_MIN)
      = ucast (sa_util_min attr) \<and>
    us_bucket_id (t_uclamp_req (tsk (setscheduler_uclamp env p attr k) p) UCLAMP_MIN)
      = uclamp_bucket_id env (sa_util_min attr)"
proof -
  have min: "has_flag (sa_flags attr) SCHED_FLAG_UTIL_CLAMP_MIN"
    and max: "\<not> has_flag (sa_flags attr) SCHED_FLAG_UTIL_CLAMP_MAX"
    and any: "has_flag (sa_flags attr) SCHED_FLAG_UTIL_CLAMP"
    by (simp_all add: assms(2) has_flag_def sched_flag_defs)
  have ne: "sa_util_min attr \<noteq> -1" using assms(3) by auto
  have s: "sint (sa_util_min attr + 1) = sint (sa_util_min attr) + 1"
    using assms(3) sint_ge[of "sa_util_min attr"]
    by (simp add: sint_word_ariths signed_take_bit_int_eq_self)
  then have "\<not> clamp_out_of_range (sa_util_min attr)"
    using assms(3) by (simp add: clamp_out_of_range_def SCHED_CAPACITY_SCALE_def)
  moreover have "\<not> sint (sa_util_min attr) > sint (ucast (v :: 11 word) :: u32)" for v
  proof -
    have "sint (ucast v :: u32) = int (unat v)"
      using unsigned_less[of v, where ?'a = nat] sint_small[of "ucast v"] by simp
    with assms(3) show ?thesis using of_nat_0_le_iff[of "unat v", where ?'a = int] by linarith
  qed
  ultimately have "uclamp_validate env p attr k = (0, k\<lparr>k_uclamp_used := True\<rparr>)"
    using assms(1) min max by (simp add: uclamp_validate_def)
  then show ?thesis
    using assms(1) min max any ne
    by (simp add: setscheduler_uclamp_def for_each_clamp_id_def upd_req_def uclamp_se_set_def)
qed

definition attr_neg0 :: sched_attr where
  "attr_neg0 = zero_attr\<lparr>sa_flags := SCHED_FLAG_UTIL_CLAMP_MIN, sa_util_min := -2\<rparr>"

text \<open>A minimum of 2046, twice the scale.\<close>

theorem uclamp_validate_accepts_negative_witness:
  "fst (uclamp_validate env0 1 attr_neg0 kernel0) = 0 \<and>
   us_value (t_uclamp_req (tsk (setscheduler_uclamp env0 1 attr_neg0 kernel0) 1) UCLAMP_MIN) = 2046"
proof -
  have "sint (sa_util_min attr_neg0) < -1" by (simp add: attr_neg0_def)
  with uclamp_validate_accepts_negative[of env0 attr_neg0 1 kernel0] show ?thesis
    by (simp add: env0_def attr_neg0_def)
qed

text \<open>For requests within the scale (or -1) validation accepts exactly the pairs whose
  minimum is at most the maximum, where a clamp the flags leave out keeps the task's request, and
  -1 is not compared.\<close>

theorem uclamp_validate_in_range:
  fixes env :: "('x, 'l, 'm) env_scheme" and k :: "('x, 'l) kernel" and p :: tid
  assumes "e_uclamp env" and "sa_util_min attr \<le> 1024 \<or> sa_util_min attr = -1"
    and "sa_util_max attr \<le> 1024 \<or> sa_util_max attr = -1"
  defines "mn \<equiv> if has_flag (sa_flags attr) SCHED_FLAG_UTIL_CLAMP_MIN then sa_util_min attr
                else ucast (us_value (t_uclamp_req (tsk k p) UCLAMP_MIN))"
    and "mx \<equiv> if has_flag (sa_flags attr) SCHED_FLAG_UTIL_CLAMP_MAX then sa_util_max attr
                else ucast (us_value (t_uclamp_req (tsk k p) UCLAMP_MAX))"
  shows "fst (uclamp_validate env p attr k) = (if mn = -1 \<or> mx = -1 \<or> mn \<le> mx then 0 else - EINVAL)"
proof -
  have small: "sint v = int (unat v)" if "v \<le> 2047" for v :: u32
    using that by (intro sint_small) (simp add: word_le_nat_alt)
  have out: "\<not> clamp_out_of_range v" if "v \<le> 1024 \<or> v = -1" for v
  proof (cases "v = -1")
    case False
    with that have "unat v \<le> 1024" by (simp add: word_le_nat_alt)
    then have "unat (v + 1) = unat v + 1" by (simp add: unat_word_ariths)
    with \<open>unat v \<le> 1024\<close> have "unat (v + 1) \<le> 1025" by simp
    moreover from this have "sint (v + 1) = int (unat (v + 1))"
      by (intro small) (simp add: word_le_nat_alt)
    ultimately have "sint (v + 1) \<le> 1025" by linarith
    then show ?thesis by (simp add: clamp_out_of_range_def SCHED_CAPACITY_SCALE_def)
  qed (simp add: clamp_out_of_range_def SCHED_CAPACITY_SCALE_def)
  have val: "(ucast (v :: 11 word) :: u32) \<le> 2047" for v
    using unsigned_less[of v, where ?'a = nat] by (simp add: word_le_nat_alt)
  have "mn \<le> 2047 \<or> mn = -1" "mx \<le> 2047 \<or> mx = -1"
    using assms(2,3) val unfolding mn_def mx_def by (auto intro: order_trans)
  then have "mn \<noteq> -1 \<Longrightarrow> mx \<noteq> -1 \<Longrightarrow> sint mn > sint mx \<longleftrightarrow> \<not> mn \<le> mx"
    using small[of mn] small[of mx] by (auto simp: word_le_def)
  with assms(1) out[OF assms(2)] out[OF assms(3)] show ?thesis
    unfolding mn_def mx_def uclamp_validate_def Let_def by auto
qed

theorem uclamp_validate_in_range_witness:
  "fst (uclamp_validate env0 1 (zero_attr\<lparr>sa_flags := SCHED_FLAG_UTIL_CLAMP, sa_util_min := 300,
     sa_util_max := 200\<rparr>) kernel0) = - EINVAL"
  using uclamp_validate_in_range[where env = env0 and k = kernel0 and p = 1 and
     attr = "zero_attr\<lparr>sa_flags := SCHED_FLAG_UTIL_CLAMP, sa_util_min := 300, sa_util_max := 200\<rparr>"]
  by (simp add: env0_def has_flag_def sched_flag_defs zero_attr_def)

section \<open>The cgroup files\<close>

text \<open>Round trip of the group interface: a percentage of at most 99.95 that is written
  to a clamp file is what reading the file prints, with its two decimals; from 99.96 on it rounds
  to the full scale and reads as max; above 100 it is refused with ERANGE and changes nothing.\<close>

theorem cpu_uclamp_write_print:
  assumes "e_strim env buf \<noteq> ''max''"
    and "e_cgroup_parse_float env (e_strim env buf) 2 = (0, percent)"
  shows "case cpu_uclamp_write env g buf n i k of (ret, k') \<Rightarrow>
    if percent > 10000 then ret = - ERANGE \<and> k' = k
    else ret = n \<and> cpu_uclamp_print k' g i =
           (if percent \<le> 9995 then Line_percent (percent div 100) (percent mod 100) else Line_max)"
proof (cases "percent > 10000")
  case True
  with assms show ?thesis
    by (simp add: cpu_uclamp_write_def capacity_from_percent_def UCLAMP_PERCENT_SCALE_def ERANGE_def)
next
  case False
  let ?util = "(push_bit 10 percent + 5000) div 10000"
  let ?p = "unat percent"
  have p: "?p \<le> 10000" using False by (simp add: word_le_nat_alt not_less)
  have u: "unat ?util = (1024 * ?p + 5000) div 10000"
    using p by (simp add: push_bit_eq_mult unat_word_ariths unat_div)
  then have ule: "unat ?util \<le> 1024" using p by simp
  have full: "unat ?util = 1024 \<longleftrightarrow> \<not> ?p \<le> 9995" using u p by auto
  have c1: "unat (ucast (ucast (ucast ?util :: u32) :: 11 word) :: u32) = unat ?util"
    using ule by (simp add: unsigned_ucast_eq unsigned_take_bit_eq take_bit_nat_eq_self)
  have c2: "(ucast (ucast (ucast ?util :: u32) :: 11 word) :: u64) = ?util"
    using ule by (simp add: word_unat_eq_iff unsigned_ucast_eq unsigned_take_bit_eq take_bit_nat_eq_self)
  have c3: "(ucast (ucast percent :: u32) :: u64) = percent"
    using p by (simp add: word_unat_eq_iff unsigned_ucast_eq unsigned_take_bit_eq take_bit_nat_eq_self)
  have cap: "capacity_from_percent env buf = \<lparr>uq_percent = percent, uq_util = ?util, uq_ret = 0\<rparr>"
    using assms False by (simp add: capacity_from_percent_def UCLAMP_PERCENT_SCALE_def)
  let ?k = "snd (cpu_uclamp_write env g buf n i k)"
  have c4: "unat (ucast (v :: 11 word) :: u64) = unat v" for v
    using unsigned_less[of v, where ?'a = nat] by (simp add: unsigned_ucast_eq take_bit_nat_eq_self)
  have req: "(ucast (us_value (tg_uclamp_req (k_tgs ?k g) i)) :: u32) = SCHED_CAPACITY_SCALE \<longleftrightarrow>
      unat ?util = 1024"
    using c1 c2 c4 by (auto simp: cpu_uclamp_write_def cap Let_def cpu_util_update_eff_def
        update_tree_requests uclamp_se_set_def word_unat_eq_iff SCHED_CAPACITY_SCALE_def)
  have pct: "(ucast (tg_uclamp_pct (k_tgs ?k g) i) :: u64) = percent"
    using c3 by (simp add: cpu_uclamp_write_def cap Let_def cpu_util_update_eff_def update_tree_requests)
  have ret: "fst (cpu_uclamp_write env g buf n i k) = n"
    by (simp add: cpu_uclamp_write_def cap Let_def)
  have "percent \<le> 9995 \<longleftrightarrow> ?p \<le> 9995" by (simp add: word_le_nat_alt)
  with False full req pct ret show ?thesis
    by (simp add: case_prod_beta cpu_uclamp_print_def Let_def)
qed

definition env_pct0 :: "(unit, list_heap) env" where
  "env_pct0 = env0\<lparr>e_cgroup_parse_float := (\<lambda>s d. (0, 3333))\<rparr>"

theorem cpu_uclamp_write_print_witness:
  "cpu_uclamp_print (snd (cpu_uclamp_write env_pct0 0 ''33.33'' 6 UCLAMP_MAX kernel0)) 0 UCLAMP_MAX =
     Line_percent 33 33"
  using cpu_uclamp_write_print[where env = env_pct0 and buf = "''33.33''" and percent = 3333 and
      g = 0 and n = 6 and i = UCLAMP_MAX and k = kernel0]
  by (simp add: env_pct0_def env0_def case_prod_beta)

end
