(* ===== verification/Core_Queue.thy ===== *)
theory Core_Queue
  imports Uclamp
begin

text \<open>
  The class-independent queue operations of \<open>core.c\<close> (lines 1966 to 2108): a task enters or
  leaves the queue of its class with the clock, statistics and clamp updates around it; priority
  and weight of a task; class changes, preemption checks and the balance callbacks.
\<close>

section \<open>Policies\<close>

(* sched.h 162-165: idle_policy *)
definition idle_policy :: "int \<Rightarrow> bool" where "idle_policy p \<longleftrightarrow> p = SCHED_IDLE"

(* sched.h 166-169: fair_policy *)
definition fair_policy :: "int \<Rightarrow> bool" where
  "fair_policy p \<longleftrightarrow> p = SCHED_NORMAL \<or> p = SCHED_BATCH"

(* sched.h 171-174: rt_policy *)
definition rt_policy :: "int \<Rightarrow> bool" where "rt_policy p \<longleftrightarrow> p = SCHED_FIFO \<or> p = SCHED_RR"

(* sched.h 176-179: dl_policy *)
definition dl_policy :: "int \<Rightarrow> bool" where "dl_policy p \<longleftrightarrow> p = SCHED_DEADLINE"

(* sched.h 181-184: ltr_policy *)
definition ltr_policy :: "int \<Rightarrow> bool" where "ltr_policy p \<longleftrightarrow> p = SCHED_LOTTERY"

(* sched.h 186-190: valid_policy *)
definition valid_policy :: "int \<Rightarrow> bool" where
  "valid_policy p \<longleftrightarrow>
     idle_policy p \<or> fair_policy p \<or> rt_policy p \<or> dl_policy p \<or> ltr_policy p"

(* sched.h 192-195: task_has_idle_policy *)
definition task_has_idle_policy :: "task \<Rightarrow> bool" where
  "task_has_idle_policy t = idle_policy (t_policy t)"

(* sched.h 197-200: task_has_rt_policy *)
definition task_has_rt_policy :: "task \<Rightarrow> bool" where
  "task_has_rt_policy t = rt_policy (t_policy t)"

(* sched.h 202-205: task_has_dl_policy *)
definition task_has_dl_policy :: "task \<Rightarrow> bool" where
  "task_has_dl_policy t = dl_policy (t_policy t)"

lemmas policy_pred_defs = idle_policy_def fair_policy_def rt_policy_def dl_policy_def
  ltr_policy_def valid_policy_def policy_defs

lemma valid_policy_values: "valid_policy p \<longleftrightarrow> p \<in> {0, 1, 2, 3, 5, 6, 7}"
  by (auto simp: policy_pred_defs)

section \<open>Calls through the class table\<close>

definition cl :: "('x, 'l, 'm) env_scheme \<Rightarrow> ('x, 'l) kernel \<Rightarrow> tid \<Rightarrow> ('x, 'l) vtable" where
  "cl env k p = class_vt env (t_class (tsk k p))"

(* core.c 1966-1981: enqueue_task *)
definition enqueue_task ::
    "('x, 'l, 'm) env_scheme \<Rightarrow> cpu \<Rightarrow> tid \<Rightarrow> u32 \<Rightarrow> ('x, 'l) kernel \<Rightarrow> ('x, 'l) kernel option"
where
  "enqueue_task env c p flags k = do {
     let k = (if \<not> has_flag flags ENQUEUE_NOCLOCK then update_rq_clock env c k else k);
     let k = (if \<not> has_flag flags ENQUEUE_RESTORE
              then ext_do (e_psi_enqueue env p (has_flag flags ENQUEUE_WAKEUP \<and>
                             \<not> has_flag flags (ENQUEUE_MIGRATED (e_smp env))))
                     (ext_do (e_sched_info_enqueue env c p) k)
              else k);
     let k = uclamp_rq_inc env c p k;
     f \<leftarrow> vt_enqueue_task (cl env k p);
     f c p flags k
   }"

(* core.c 1983-1998: dequeue_task *)
definition dequeue_task ::
    "('x, 'l, 'm) env_scheme \<Rightarrow> cpu \<Rightarrow> tid \<Rightarrow> u32 \<Rightarrow> ('x, 'l) kernel \<Rightarrow> ('x, 'l) kernel option"
where
  "dequeue_task env c p flags k = do {
     let k = (if \<not> has_flag flags DEQUEUE_NOCLOCK then update_rq_clock env c k else k);
     let k = (if \<not> has_flag flags DEQUEUE_SAVE
              then ext_do (e_psi_dequeue env p (has_flag flags DEQUEUE_SLEEP))
                     (ext_do (e_sched_info_dequeue env c p) k)
              else k);
     let k = uclamp_rq_dec env c p k;
     f \<leftarrow> vt_dequeue_task (cl env k p);
     f c p flags k
   }"

(* core.c 2000-2008: activate_task *)
definition activate_task ::
    "('x, 'l, 'm) env_scheme \<Rightarrow> cpu \<Rightarrow> tid \<Rightarrow> u32 \<Rightarrow> ('x, 'l) kernel \<Rightarrow> ('x, 'l) kernel option"
where
  "activate_task env c p flags k = do {
     let flags = (if task_on_rq_migrating k p then flags OR ENQUEUE_MIGRATED (e_smp env) else flags);
     k \<leftarrow> enqueue_task env c p flags k;
     Some (upd_task p (\<lambda>t. t\<lparr>t_on_rq := TASK_ON_RQ_QUEUED\<rparr>) k)
   }"

(* core.c 2010-2015: deactivate_task *)
definition deactivate_task ::
    "('x, 'l, 'm) env_scheme \<Rightarrow> cpu \<Rightarrow> tid \<Rightarrow> u32 \<Rightarrow> ('x, 'l) kernel \<Rightarrow> ('x, 'l) kernel option"
where
  "deactivate_task env c p flags k =
     dequeue_task env c p flags
       (upd_task p (\<lambda>t. t\<lparr>t_on_rq :=
          (if has_flag flags DEQUEUE_SLEEP then 0 else TASK_ON_RQ_MIGRATING)\<rparr>) k)"

(* sched.h 2201-2205: put_prev_task *)
definition put_prev_task ::
    "('x, 'l, 'm) env_scheme \<Rightarrow> cpu \<Rightarrow> tid \<Rightarrow> ('x, 'l) kernel \<Rightarrow> ('x, 'l) kernel option" where
  "put_prev_task env c prev k = do {
     let k = warn_on ''put_prev_task'' (rq_curr (cpu_rq k c) \<noteq> prev) k;
     f \<leftarrow> vt_put_prev_task (cl env k prev);
     f c prev k
   }"

(* sched.h 2207-2210: set_next_task *)
definition set_next_task ::
    "('x, 'l, 'm) env_scheme \<Rightarrow> cpu \<Rightarrow> tid \<Rightarrow> ('x, 'l) kernel \<Rightarrow> ('x, 'l) kernel option" where
  "set_next_task env c p k = do {
     f \<leftarrow> vt_set_next_task (cl env k p);
     f c p False k
   }"

(* core.c 2081-2092: check_class_changed *)
definition check_class_changed ::
    "('x, 'l, 'm) env_scheme \<Rightarrow> cpu \<Rightarrow> tid \<Rightarrow> sched_class \<Rightarrow> int \<Rightarrow> ('x, 'l) kernel \<Rightarrow>
     ('x, 'l) kernel option" where
  "check_class_changed env c p prev_class oldprio k =
     (if prev_class \<noteq> t_class (tsk k p) then do {
        k \<leftarrow> (case vt_switched_from (class_vt env prev_class) of
               Some f \<Rightarrow> f c p k | None \<Rightarrow> Some k);
        g \<leftarrow> vt_switched_to (cl env k p);
        g c p k
      } else if oldprio \<noteq> t_prio (tsk k p) \<or> dl_task (tsk k p) then do {
        h \<leftarrow> vt_prio_changed (cl env k p);
        h c p oldprio k
      } else Some k)"

(* core.c 2094-2107: check_preempt_curr *)
definition check_preempt_curr ::
    "('x, 'l, 'm) env_scheme \<Rightarrow> cpu \<Rightarrow> tid \<Rightarrow> u32 \<Rightarrow> ('x, 'l) kernel \<Rightarrow> ('x, 'l) kernel option"
where
  "check_preempt_curr env c p flags k = do {
     let curr = rq_curr (cpu_rq k c);
     k \<leftarrow> (if t_class (tsk k p) = t_class (tsk k curr) then do {
              f \<leftarrow> vt_check_preempt_curr (cl env k curr);
              f c p flags k
            } else if t_class (tsk k p) > t_class (tsk k curr) then Some (resched_curr env c k)
            else Some k);
     let curr = rq_curr (cpu_rq k c);
     Some (if task_on_rq_queued k curr \<and> t_need_resched (tsk k curr)
           then rq_clock_skip_update c k else k)
   }"

section \<open>Balance callbacks\<close>

text \<open>A callback is a number; 0 is \<open>balance_push_callback\<close>, whose \<open>next\<close> is NULL. The callbacks
  belong to the classes outside the repository.\<close>

definition balance_push_callback :: nat where "balance_push_callback = 0"

(* core.c 4665-4680: do_balance_callbacks *)
fun do_balance_callbacks ::
    "('x, 'l, 'm) env_scheme \<Rightarrow> cpu \<Rightarrow> nat list \<Rightarrow> ('x, 'l) kernel \<Rightarrow> ('x, 'l) kernel option" where
  "do_balance_callbacks env c [] k = Some k"
| "do_balance_callbacks env c (f # fs) k =
     Option.bind (e_balance_callback env f c k) (do_balance_callbacks env c fs)"

(* core.c 4700-4723: __splice_balance_callbacks *)
definition splice_balance_callbacks_split ::
    "cpu \<Rightarrow> bool \<Rightarrow> ('x, 'l) kernel \<Rightarrow> nat list \<times> ('x, 'l) kernel" where
  "splice_balance_callbacks_split c split k =
     (let head = rq_balance_callback (cpu_rq k c) in
      if head = [] then ([], k)
      else if split \<and> hd head = balance_push_callback then ([], k)
      else (head, upd_rq c (\<lambda>r. r\<lparr>rq_balance_callback := []\<rparr>) k))"

(* core.c 4725-4728: splice_balance_callbacks#1 *)
definition splice_balance_callbacks ::
    "('x, 'l, 'm) env_scheme \<Rightarrow> cpu \<Rightarrow> ('x, 'l) kernel \<Rightarrow> nat list \<times> ('x, 'l) kernel" where
  "splice_balance_callbacks env c k =
     (if e_smp env then splice_balance_callbacks_split c True k else ([], k))"

(* core.c 4730-4733: __balance_callbacks#1 *)
definition balance_callbacks_now ::
    "('x, 'l, 'm) env_scheme \<Rightarrow> cpu \<Rightarrow> ('x, 'l) kernel \<Rightarrow> ('x, 'l) kernel option" where
  "balance_callbacks_now env c k =
     (if e_smp env
      then let (head, k) = splice_balance_callbacks_split c False k in do_balance_callbacks env c head k
      else Some k)"

(* core.c 4735-4744: balance_callbacks#1 *)
definition balance_callbacks ::
    "('x, 'l, 'm) env_scheme \<Rightarrow> cpu \<Rightarrow> nat list \<Rightarrow> ('x, 'l) kernel \<Rightarrow> ('x, 'l) kernel option" where
  "balance_callbacks env c head k =
     (if e_smp env \<and> head \<noteq> [] then do_balance_callbacks env c head k else Some k)"

section \<open>Priorities\<close>

(* core.c 2017-2029: __normal_prio *)
definition normal_prio_of :: "int \<Rightarrow> u32 \<Rightarrow> int \<Rightarrow> int" where
  "normal_prio_of policy rtp nice =
     (if dl_policy policy then MAX_DL_PRIO - 1
      else if rt_policy policy then MAX_RT_PRIO - 1 - sint rtp
      else NICE_TO_PRIO nice)"

(* core.c 2038-2041: normal_prio *)
definition normal_prio :: "task \<Rightarrow> int" where
  "normal_prio t = normal_prio_of (t_policy t) (t_rt_priority t) (PRIO_TO_NICE (t_static_prio t))"

(* core.c 2050-2061: effective_prio *)
definition effective_prio :: "tid \<Rightarrow> ('x, 'l) kernel \<Rightarrow> int \<times> ('x, 'l) kernel" where
  "effective_prio p k =
     (let k = upd_task p (\<lambda>t. t\<lparr>t_normal_prio := normal_prio t\<rparr>) k
      in (if \<not> rt_prio (t_prio (tsk k p)) then t_normal_prio (tsk k p) else t_prio (tsk k p), k))"

(* linux/sched.h 1848-1851: task_nice *)
definition task_nice :: "task \<Rightarrow> int" where "task_nice t = PRIO_TO_NICE (t_static_prio t)"

section \<open>Load weights\<close>

(* core.c !10956-10965: sched_prio_to_weight *)
definition sched_prio_to_weight :: "u32 list" where
  "sched_prio_to_weight =
    [88761, 71755, 56483, 46273, 36291,
     29154, 23254, 18705, 14949, 11916,
      9548,  7620,  6100,  4904,  3906,
      3121,  2501,  1991,  1586,  1277,
      1024,   820,   655,   526,   423,
       335,   272,   215,   172,   137,
       110,    87,    70,    56,    45,
        36,    29,    23,    18,    15]"

(* core.c !10974-10983: sched_prio_to_wmult *)
definition sched_prio_to_wmult :: "u32 list" where
  "sched_prio_to_wmult =
    [   48388,    59856,    76040,    92818,   118348,
       147320,   184698,   229616,   287308,   360437,
       449829,   563644,   704093,   875809,  1099582,
      1376151,  1717300,  2157191,  2708050,  3363326,
      4194304,  5237765,  6557202,  8165337, 10153587,
     12820798, 15790321, 19976592, 24970740, 31350126,
     39045157, 49367440, 61356676, 76695844, 95443717,
    119304647, 148102320, 186737708, 238609294, 286331153]"

(* sched.h 2091-2091: WEIGHT_IDLEPRIO *)
definition WEIGHT_IDLEPRIO :: u32 where "WEIGHT_IDLEPRIO = 3"

(* sched.h 2092-2092: WMULT_IDLEPRIO *)
definition WMULT_IDLEPRIO :: u32 where "WMULT_IDLEPRIO = 1431655765"

text \<open>An index outside the table is \<open>None\<close>.\<close>

(* core.c 1206-1227: set_load_weight *)
definition set_load_weight ::
    "('x, 'l, 'm) env_scheme \<Rightarrow> tid \<Rightarrow> bool \<Rightarrow> ('x, 'l) kernel \<Rightarrow> ('x, 'l) kernel option" where
  "set_load_weight env p update_load k = do {
     let pr = t_static_prio (tsk k p) - MAX_RT_PRIO;
     lw \<leftarrow> (if task_has_idle_policy (tsk k p)
             then Some \<lparr>lw_weight = WEIGHT_IDLEPRIO, lw_inv_weight = WMULT_IDLEPRIO\<rparr>
             else if 0 \<le> pr \<and> pr < 40
             then Some \<lparr>lw_weight = sched_prio_to_weight ! nat pr,
                        lw_inv_weight = sched_prio_to_wmult ! nat pr\<rparr>
             else None);
     Some (if update_load \<and> t_class (tsk k p) = Fair_class
       then let (x, lw) = e_reweight_task env p lw k
            in upd_task p (\<lambda>t. t\<lparr>t_load := lw\<rparr>) (k\<lparr>k_ext := x\<rparr>)
       else upd_task p (\<lambda>t. t\<lparr>t_load := lw\<rparr>) k)
   }"

text \<open>Inside the table the weight is set, and of the outside state at most the part of the
  fair class changes.\<close>

lemma set_load_weight_in_range:
  assumes "100 \<le> t_static_prio (tsk k p)" and "t_static_prio (tsk k p) < 140"
  shows "\<exists>x lw. set_load_weight env p b k = Some (upd_task p (\<lambda>t. t\<lparr>t_load := lw\<rparr>) (k\<lparr>k_ext := x\<rparr>))"
proof -
  let ?pr = "t_static_prio (tsk k p) - MAX_RT_PRIO"
  obtain lw where lw: "(if task_has_idle_policy (tsk k p)
             then Some \<lparr>lw_weight = WEIGHT_IDLEPRIO, lw_inv_weight = WMULT_IDLEPRIO\<rparr>
             else if 0 \<le> ?pr \<and> ?pr < 40
             then Some \<lparr>lw_weight = sched_prio_to_weight ! nat ?pr,
                        lw_inv_weight = sched_prio_to_wmult ! nat ?pr\<rparr>
             else None) = Some lw"
    using assms by (cases "task_has_idle_policy (tsk k p)") (auto simp: MAX_RT_PRIO_def)
  obtain x lw' where r: "e_reweight_task env p lw k = (x, lw')" by fastforce
  have "upd_task p (\<lambda>t. t\<lparr>t_load := lw\<rparr>) k = upd_task p (\<lambda>t. t\<lparr>t_load := lw\<rparr>) (k\<lparr>k_ext := k_ext k\<rparr>)"
    by simp
  then show ?thesis
    unfolding set_load_weight_def Let_def lw bind.bind_lunit r prod.case option.inject
    by (cases "b \<and> t_class (tsk k p) = Fair_class")
      (simp_all only: if_True if_False simp_thms, blast+)
qed

end
