(* ===== verification/Affinity.thy ===== *)
theory Affinity
  imports Core_Queue
begin

text \<open>
  CPU affinity and migration on SMP (\<open>core.c\<close>, lines 2109 to 2290, 2440 to 2560, 3026 to 3070 and
  3353 to 3450): the masks of a task, whether a CPU may run it, the move of a queued task to another
  runqueue, and the choice of a runqueue with its fallbacks.

  A mask is a set of CPU numbers. \<open>p->cpus_ptr\<close> is \<open>None\<close> where it points to the task's own
  \<open>cpus_mask\<close> and \<open>Some m\<close> where it points to another mask.
\<close>

section \<open>Masks\<close>

(* sched.h 2269-2269: SCA_CHECK *)
definition SCA_CHECK :: u32 where "SCA_CHECK = 0x01"

(* sched.h 2270-2270: SCA_MIGRATE_DISABLE *)
definition SCA_MIGRATE_DISABLE :: u32 where "SCA_MIGRATE_DISABLE = 0x02"

(* sched.h 2271-2271: SCA_MIGRATE_ENABLE *)
definition SCA_MIGRATE_ENABLE :: u32 where "SCA_MIGRATE_ENABLE = 0x04"

(* sched.h 2272-2272: SCA_USER *)
definition SCA_USER :: u32 where "SCA_USER = 0x08"

definition cpus_ptr :: "task \<Rightarrow> cpu set" where
  "cpus_ptr t = (case t_cpus_ptr t of None \<Rightarrow> t_cpus_mask t | Some m \<Rightarrow> m)"

text \<open>\<open>for_each_cpu\<close>: the CPUs of a mask in ascending order, below \<open>nr_cpu_ids\<close>.\<close>

definition cpus_of :: "('x, 'l, 'm) env_scheme \<Rightarrow> cpu set \<Rightarrow> cpu list" where
  "cpus_of env m = filter (\<lambda>c. c \<in> m) [0 ..< e_nr_cpu_ids env]"

definition cpumask_any :: "('x, 'l, 'm) env_scheme \<Rightarrow> cpu set \<Rightarrow> cpu" where
  "cpumask_any env m = (case cpus_of env m of [] \<Rightarrow> e_nr_cpu_ids env | c # _ \<Rightarrow> c)"

text \<open>Where migration is enabled again, the mask given is the task's own \<open>cpus_mask\<close>, to which the
  pointer goes back.\<close>

(* core.c 2445-2454: set_cpus_allowed_common *)
definition set_cpus_allowed_common ::
    "('x, 'l, 'm) env_scheme \<Rightarrow> tid \<Rightarrow> cpu set \<Rightarrow> u32 \<Rightarrow> ('x, 'l) kernel \<Rightarrow> ('x, 'l) kernel" where
  "set_cpus_allowed_common env p new_mask flags k =
     (if has_flag flags (SCA_MIGRATE_ENABLE OR SCA_MIGRATE_DISABLE)
      then upd_task p (\<lambda>t. t\<lparr>t_cpus_ptr :=
        if has_flag flags SCA_MIGRATE_ENABLE then None else Some new_mask\<rparr>) k
      else upd_task p (\<lambda>t. t\<lparr>t_cpus_mask := new_mask,
                             t_nr_cpus_allowed := length (cpus_of env new_mask)\<rparr>) k)"

(* core.c 2456-2499: __do_set_cpus_allowed *)
definition do_set_cpus_allowed_flags ::
    "('x, 'l, 'm) env_scheme \<Rightarrow> tid \<Rightarrow> cpu set \<Rightarrow> u32 \<Rightarrow> ('x, 'l) kernel \<Rightarrow> ('x, 'l) kernel option"
where
  "do_set_cpus_allowed_flags env p new_mask flags k = do {
     let c = task_cpu k p;
     let k = warn_on ''__do_set_cpus_allowed''
       (e_sched_debug env \<and> has_flag flags SCA_MIGRATE_DISABLE \<and> \<not> t_on_cpu (tsk k p)) k;
     let queued = task_on_rq_queued k p;
     let running = task_current k c p;
     k \<leftarrow> (if queued then dequeue_task env c p (DEQUEUE_SAVE OR DEQUEUE_NOCLOCK) k else Some k);
     k \<leftarrow> (if running then put_prev_task env c p k else Some k);
     f \<leftarrow> vt_set_cpus_allowed (cl env k p);
     k \<leftarrow> f p new_mask flags k;
     k \<leftarrow> (if queued then enqueue_task env c p (ENQUEUE_RESTORE OR ENQUEUE_NOCLOCK) k else Some k);
     (if running then set_next_task env c p k else Some k)
   }"

(* core.c 2501-2504: do_set_cpus_allowed *)
definition do_set_cpus_allowed ::
    "('x, 'l, 'm) env_scheme \<Rightarrow> tid \<Rightarrow> cpu set \<Rightarrow> ('x, 'l) kernel \<Rightarrow> ('x, 'l) kernel option" where
  "do_set_cpus_allowed env p new_mask k = do_set_cpus_allowed_flags env p new_mask 0 k"

(* core.c 2506-2547: dup_user_cpus_ptr *)
definition dup_user_cpus_ptr ::
    "('x, 'l, 'm) env_scheme \<Rightarrow> tid \<Rightarrow> tid \<Rightarrow> ('x, 'l) kernel \<Rightarrow> int \<times> ('x, 'l) kernel" where
  "dup_user_cpus_ptr env dst src k =
     (let k = upd_task dst (\<lambda>t. t\<lparr>t_user_cpus_ptr := None\<rparr>) k in
      if t_user_cpus_ptr (tsk k src) = None then (0, k)
      else if \<not> e_kmalloc_ok env k then (- ENOMEM, k)
      else (0, upd_task dst (\<lambda>t. t\<lparr>t_user_cpus_ptr := t_user_cpus_ptr (tsk k src)\<rparr>) k))"

(* core.c 2549-2556: clear_user_cpus_ptr *)
definition clear_user_cpus_ptr :: "tid \<Rightarrow> ('x, 'l) kernel \<Rightarrow> cpu set option \<times> ('x, 'l) kernel" where
  "clear_user_cpus_ptr p k =
     (t_user_cpus_ptr (tsk k p), upd_task p (\<lambda>t. t\<lparr>t_user_cpus_ptr := None\<rparr>) k)"

(* core.c 2558-2561: release_user_cpus_ptr *)
definition release_user_cpus_ptr :: "tid \<Rightarrow> ('x, 'l) kernel \<Rightarrow> ('x, 'l) kernel" where
  "release_user_cpus_ptr p k = snd (clear_user_cpus_ptr p k)"

section \<open>Migration disabled sections\<close>

(* sched.h 1157-1164: is_migration_disabled *)
definition is_migration_disabled :: "('x, 'l, 'm) env_scheme \<Rightarrow> task \<Rightarrow> bool" where
  "is_migration_disabled env t \<longleftrightarrow> e_smp env \<and> t_migration_disabled t \<noteq> 0"

(* core.c 2118-2130: migrate_disable_switch#1 *)
definition migrate_disable_switch ::
    "('x, 'l, 'm) env_scheme \<Rightarrow> cpu \<Rightarrow> tid \<Rightarrow> ('x, 'l) kernel \<Rightarrow> ('x, 'l) kernel option" where
  "migrate_disable_switch env c p k =
     (if \<not> e_smp env then Some k
      else if t_migration_disabled (tsk k p) = 0 then Some k
      else if t_cpus_ptr (tsk k p) \<noteq> None then Some k
      else do_set_cpus_allowed_flags env p {c} SCA_MIGRATE_DISABLE k)"

(* core.c 2132-2145: migrate_disable *)
definition migrate_disable :: "('x, 'l) kernel \<Rightarrow> ('x, 'l) kernel" where
  "migrate_disable k =
     (let p = current_task k in
      if t_migration_disabled (tsk k p) \<noteq> 0
      then upd_task p (\<lambda>t. t\<lparr>t_migration_disabled := t_migration_disabled t + 1\<rparr>) k
      else upd_task p (\<lambda>t. t\<lparr>t_migration_disabled := 1\<rparr>)
             (upd_rq (k_this_cpu k) (\<lambda>r. r\<lparr>rq_nr_pinned := rq_nr_pinned r + 1\<rparr>) k))"

(* core.c 2176-2179: rq_has_pinned_tasks#1 *)
definition rq_has_pinned_tasks :: "('x, 'l, 'm) env_scheme \<Rightarrow> rq \<Rightarrow> bool" where
  "rq_has_pinned_tasks env r \<longleftrightarrow> e_smp env \<and> rq_nr_pinned r \<noteq> 0"

(* core.c 2185-2209: is_cpu_allowed *)
definition is_cpu_allowed :: "('x, 'l, 'm) env_scheme \<Rightarrow> ('x, 'l) kernel \<Rightarrow> tid \<Rightarrow> cpu \<Rightarrow> bool" where
  "is_cpu_allowed env k p c =
     (if c \<notin> cpus_ptr (tsk k p) then False
      else if is_migration_disabled env (tsk k p) then e_cpu_online env c k
      else if \<not> has_flag (t_flags (tsk k p)) PF_KTHREAD
      then e_cpu_active env c k \<and> e_task_cpu_possible env c p k
      else if e_kthread_is_per_cpu env p k then e_cpu_online env c k
      else if e_cpu_dying env c k then False
      else e_cpu_online env c k)"

section \<open>Moving a task\<close>

(* sched.h 1944-1961: __set_task_cpu *)
definition set_task_cpu_raw ::
    "('x, 'l, 'm) env_scheme \<Rightarrow> tid \<Rightarrow> cpu \<Rightarrow> ('x, 'l) kernel \<Rightarrow> ('x, 'l) kernel" where
  "set_task_cpu_raw env p c k =
     (if e_smp env then upd_task p (\<lambda>t. t\<lparr>t_cpu := c, t_wake_cpu := c\<rparr>) k else k)"

(* core.c 3026-3079: set_task_cpu *)
definition set_task_cpu ::
    "('x, 'l, 'm) env_scheme \<Rightarrow> tid \<Rightarrow> cpu \<Rightarrow> ('x, 'l) kernel \<Rightarrow> ('x, 'l) kernel option" where
  "set_task_cpu env p new_cpu k = do {
     let t = tsk k p;
     let k = (if e_sched_debug env
       then warn_on ''set_task_cpu: migration disabled'' (is_migration_disabled env t)
             (warn_on ''set_task_cpu: offline'' (\<not> e_cpu_online env new_cpu k)
               (warn_on ''set_task_cpu: fair''
                 (t_state t = TASK_RUNNING \<and> t_class t = Fair_class \<and> t_on_rq t \<noteq> 0 \<and>
                  \<not> task_on_rq_migrating k p)
                 (warn_on ''set_task_cpu: blocked''
                   (t_state t \<noteq> TASK_RUNNING \<and> t_state t \<noteq> TASK_WAKING \<and> t_on_rq t = 0) k)))
       else k);
     k \<leftarrow> (if task_cpu k p \<noteq> new_cpu
            then map_option (ext_do (e_migrate_task env p))
                   (case vt_migrate_task_rq (cl env k p) of
                      Some f \<Rightarrow> f p new_cpu k | None \<Rightarrow> Some k)
            else Some k);
     Some (set_task_cpu_raw env p new_cpu k)
   }"

(* core.c 2230-2247: move_queued_task *)
definition move_queued_task ::
    "('x, 'l, 'm) env_scheme \<Rightarrow> cpu \<Rightarrow> tid \<Rightarrow> cpu \<Rightarrow> ('x, 'l) kernel \<Rightarrow> ('x, 'l) kernel option" where
  "move_queued_task env c p new_cpu k = do {
     k \<leftarrow> deactivate_task env c p DEQUEUE_NOCLOCK k;
     k \<leftarrow> set_task_cpu env p new_cpu k;
     if task_cpu k p \<noteq> new_cpu then None
     else do {
       k \<leftarrow> activate_task env new_cpu p 0 k;
       check_preempt_curr env new_cpu p 0 k
     }
   }"

text \<open>The runqueue the task is on after the call.\<close>

(* core.c 2276-2287: __migrate_task *)
definition migrate_task ::
    "('x, 'l, 'm) env_scheme \<Rightarrow> cpu \<Rightarrow> tid \<Rightarrow> cpu \<Rightarrow> ('x, 'l) kernel \<Rightarrow> (cpu \<times> ('x, 'l) kernel) option"
where
  "migrate_task env c p dest_cpu k =
     (if \<not> is_cpu_allowed env k p dest_cpu then Some (c, k)
      else map_option (Pair dest_cpu) (move_queued_task env c p dest_cpu (update_rq_clock env c k)))"

section \<open>Choosing a runqueue\<close>

datatype fallback_state = Fb_cpuset | Fb_possible | Fb_fail

fun fallback_left :: "fallback_state \<Rightarrow> nat" where
  "fallback_left Fb_cpuset = 2"
| "fallback_left Fb_possible = 1"
| "fallback_left Fb_fail = 0"

text \<open>The endless loop of \<open>select_fallback_rq\<close>: every pass without an allowed CPU moves on to a
  later state, and the last one is a \<open>BUG()\<close>.\<close>

(* core.c !3375-3408: select_fallback_rq (loop) *)
function fallback_loop ::
    "('x, 'l, 'm) env_scheme \<Rightarrow> tid \<Rightarrow> fallback_state \<Rightarrow> ('x, 'l) kernel \<Rightarrow> (cpu \<times> ('x, 'l) kernel) option"
where
  "fallback_loop env p st k =
     (case List.find (is_cpu_allowed env k p) (cpus_of env (cpus_ptr (tsk k p))) of
        Some c \<Rightarrow> Some (c, k)
      | None \<Rightarrow>
          (case st of
             Fb_cpuset \<Rightarrow> do {
               (b, k) \<leftarrow> e_cpuset_fallback env p k;
               if b then fallback_loop env p Fb_possible k
               else do {
                 k \<leftarrow> do_set_cpus_allowed env p (e_task_cpu_possible_mask env p k) k;
                 fallback_loop env p Fb_fail k
               }
             }
           | Fb_possible \<Rightarrow> do {
               k \<leftarrow> do_set_cpus_allowed env p (e_task_cpu_possible_mask env p k) k;
               fallback_loop env p Fb_fail k
             }
           | Fb_fail \<Rightarrow> None))"
  by pat_completeness auto

termination fallback_loop
  by (relation "measure (\<lambda>(env, p, st, k). fallback_left st)") auto

declare fallback_loop.simps [simp del]

(* core.c 3353-3422: select_fallback_rq *)
definition select_fallback_rq ::
    "('x, 'l, 'm) env_scheme \<Rightarrow> cpu \<Rightarrow> tid \<Rightarrow> ('x, 'l) kernel \<Rightarrow> (cpu \<times> ('x, 'l) kernel) option" where
  "select_fallback_rq env c p k =
     (case (case e_cpu_to_node env c of
              None \<Rightarrow> None
            | Some nid \<Rightarrow> List.find (is_cpu_allowed env k p) (cpus_of env (e_cpumask_of_node env nid))) of
        Some d \<Rightarrow> Some (d, k)
      | None \<Rightarrow> fallback_loop env p Fb_cpuset k)"

(* core.c 3427-3451: select_task_rq#1 *)
definition select_task_rq ::
    "('x, 'l, 'm) env_scheme \<Rightarrow> tid \<Rightarrow> cpu \<Rightarrow> u32 \<Rightarrow> ('x, 'l) kernel \<Rightarrow> (cpu \<times> ('x, 'l) kernel) option"
where
  "select_task_rq env p c wake_flags k = do {
     (c, k) \<leftarrow> (if t_nr_cpus_allowed (tsk k p) > 1 \<and> \<not> is_migration_disabled env (tsk k p)
                then do {
                  f \<leftarrow> vt_select_task_rq (cl env k p);
                  f p c wake_flags k
                } else Some (cpumask_any env (cpus_ptr (tsk k p)), k));
     if \<not> is_cpu_allowed env k p c then select_fallback_rq env (task_cpu k p) p k else Some (c, k)
   }"

end
