(* ===== verification/Schedule.thy ===== *)
theory Schedule
  imports Affinity
begin

text \<open>
  The main scheduler (\<open>core.c\<close>, lines 5198 to 5330, 5586 to 5663, 6205 to 6500 and the context
  switch at 4631 to 5030): the tick, the choice of the next task over all classes, and \<open>__schedule\<close>.

  A runqueue is followed from the side of its CPU: after the switch the code runs on behalf of the
  next task, so the loop of \<open>schedule()\<close> goes on with the test of that task's flag.
\<close>

section \<open>The tick\<close>

definition need_resched :: "('x, 'l) kernel \<Rightarrow> bool" where
  "need_resched k \<longleftrightarrow> t_need_resched (tsk k (current_task k))"

definition NSEC_PER_MSEC :: u64 where "NSEC_PER_MSEC = 1000000"

(* core.c 5238-5267: cpu_resched_latency#1 *)
definition cpu_resched_latency ::
    "('x, 'l, 'm) env_scheme \<Rightarrow> cpu \<Rightarrow> ('x, 'l) kernel \<Rightarrow> u64 \<times> ('x, 'l) kernel" where
  "cpu_resched_latency env c k =
     (if \<not> e_sched_debug env then (0, k)
      else
       let latency_warn_ms = k_latency_warn_ms k; (now, k) = rq_clock_read c k in
       if k_latency_warn_once k \<and> k_warned_once k then (0, k)
       else if \<not> need_resched k \<or> latency_warn_ms = 0 then (0, k)
       else if e_system_booting env k then (0, k)
       else if rq_last_seen_need_resched_ns (cpu_rq k c) = 0
       then (0, upd_rq c (\<lambda>r. r\<lparr>rq_last_seen_need_resched_ns := now, rq_ticks_without_resched := 0\<rparr>) k)
       else
        let k = upd_rq c (\<lambda>r. r\<lparr>rq_ticks_without_resched := rq_ticks_without_resched r + 1\<rparr>) k;
            resched_latency = now - rq_last_seen_need_resched_ns (cpu_rq k c)
        in if resched_latency \<le> word_of_int latency_warn_ms * NSEC_PER_MSEC then (0, k)
           else (resched_latency, k\<lparr>k_warned_once := True\<rparr>))"

(* core.c 5290-5323: scheduler_tick *)
definition scheduler_tick ::
    "('x, 'l, 'm) env_scheme \<Rightarrow> ('x, 'l) kernel \<Rightarrow> ('x, 'l) kernel option" where
  "scheduler_tick env k = do {
     let c = k_this_cpu k;
     let curr = rq_curr (cpu_rq k c);
     let k = update_rq_clock env c k;
     let k = ext_do (e_tick_thermal env c) k;
     f \<leftarrow> vt_task_tick (cl env k curr);
     k \<leftarrow> f c curr 0 k;
     let (resched_latency, k) = (if e_latency_warn env then cpu_resched_latency env c k else (0, k));
     let k = ext_do (e_calc_global_load_tick env c) k;
     let k = (if e_latency_warn env \<and> resched_latency \<noteq> 0
              then ext_do (e_resched_latency_warn env c resched_latency) k else k);
     let k = ext_do (e_perf_event_task_tick env c) k;
     Some (if e_smp env
       then ext_do (e_trigger_load_balance env c)
              (upd_rq c (\<lambda>r. r\<lparr>rq_idle_balance := (rq_curr r = rq_idle r \<and> rq_nr_running r = 0 \<and>
                                                 \<not> rq_ttwu_pending r)\<rparr>) k)
       else k)
   }"

text \<open>The runtime of a task, brought up to date through the class if it runs (the variant for
  32-bit kernels and for UP).\<close>

(* core.c 5198-5235: task_sched_runtime *)
definition task_sched_runtime ::
    "('x, 'l, 'm) env_scheme \<Rightarrow> tid \<Rightarrow> ('x, 'l) kernel \<Rightarrow> (u64 \<times> ('x, 'l) kernel) option" where
  "task_sched_runtime env p k = do {
     let c = task_cpu k p;
     k \<leftarrow> (if task_current k c p \<and> task_on_rq_queued k p then do {
              let k = update_rq_clock env c k;
              f \<leftarrow> vt_update_curr (cl env k p);
              f c k
            } else Some k);
     Some (t_sum_exec_runtime (tsk k p), k)
   }"

section \<open>Picking the next task\<close>

fun balance_classes ::
    "('x, 'l, 'm) env_scheme \<Rightarrow> cpu \<Rightarrow> tid \<Rightarrow> sched_class list \<Rightarrow> ('x, 'l) kernel \<Rightarrow> ('x, 'l) kernel option"
where
  "balance_classes env c prev [] k = Some k"
| "balance_classes env c prev (sc # scs) k = do {
     f \<leftarrow> vt_balance (class_vt env sc);
     (r, k) \<leftarrow> f c prev k;
     if r \<noteq> 0 then Some k else balance_classes env c prev scs k
   }"

(* core.c 5616-5636: put_prev_task_balance *)
definition put_prev_task_balance ::
    "('x, 'l, 'm) env_scheme \<Rightarrow> cpu \<Rightarrow> tid \<Rightarrow> ('x, 'l) kernel \<Rightarrow> ('x, 'l) kernel option" where
  "put_prev_task_balance env c prev k = do {
     k \<leftarrow> (if e_smp env
            then balance_classes env c prev
                   (for_class_range (t_class (tsk k prev)) Idle_class) k
            else Some k);
     put_prev_task env c prev k
   }"

text \<open>The loop over the classes; an empty rest of the loop is the \<open>BUG()\<close> behind it.\<close>

fun pick_classes ::
    "('x, 'l, 'm) env_scheme \<Rightarrow> cpu \<Rightarrow> sched_class list \<Rightarrow> ('x, 'l) kernel \<Rightarrow> (tid \<times> ('x, 'l) kernel) option"
where
  "pick_classes env c [] k = None"
| "pick_classes env c (sc # scs) k = do {
     f \<leftarrow> vt_pick_next_task (class_vt env sc);
     (p, k) \<leftarrow> f c k;
     case p of Some q \<Rightarrow> Some (q, k) | None \<Rightarrow> pick_classes env c scs k
   }"

definition pick_next_task_slow ::
    "('x, 'l, 'm) env_scheme \<Rightarrow> cpu \<Rightarrow> tid \<Rightarrow> ('x, 'l) kernel \<Rightarrow> (tid \<times> ('x, 'l) kernel) option" where
  "pick_next_task_slow env c prev k = do {
     k \<leftarrow> put_prev_task_balance env c prev k;
     pick_classes env c for_each_class k
   }"

(* core.c 5641-5680: __pick_next_task *)
definition pick_next_task ::
    "('x, 'l, 'm) env_scheme \<Rightarrow> cpu \<Rightarrow> tid \<Rightarrow> ('x, 'l) kernel \<Rightarrow> (tid \<times> ('x, 'l) kernel) option" where
  "pick_next_task env c prev k =
     (if t_class (tsk k prev) \<le> Fair_class \<and>
         rq_nr_running (cpu_rq k c) = rq_cfs_h_nr_running (cpu_rq k c)
      then do {
        (r, k) \<leftarrow> e_pick_next_task_fair env c prev k;
        case r of
          RETRY_TASK \<Rightarrow> pick_next_task_slow env c prev k
        | Picked None \<Rightarrow> do {
            k \<leftarrow> put_prev_task env c prev k;
            e_pick_next_task_idle env c k
          }
        | Picked (Some p) \<Rightarrow> Some (p, k)
      }
      else pick_next_task_slow env c prev k)"

section \<open>The context switch\<close>

(* core.c 4631-4643: prepare_task *)
definition prepare_task :: "('x, 'l, 'm) env_scheme \<Rightarrow> tid \<Rightarrow> ('x, 'l) kernel \<Rightarrow> ('x, 'l) kernel" where
  "prepare_task env next k = (if e_smp env then upd_task next (\<lambda>t. t\<lparr>t_on_cpu := True\<rparr>) k else k)"

(* core.c 4645-4661: finish_task *)
definition finish_task :: "('x, 'l, 'm) env_scheme \<Rightarrow> tid \<Rightarrow> ('x, 'l) kernel \<Rightarrow> ('x, 'l) kernel" where
  "finish_task env prev k = (if e_smp env then upd_task prev (\<lambda>t. t\<lparr>t_on_cpu := False\<rparr>) k else k)"

(* core.c 4780-4790: finish_lock_switch *)
definition finish_lock_switch ::
    "('x, 'l, 'm) env_scheme \<Rightarrow> cpu \<Rightarrow> ('x, 'l) kernel \<Rightarrow> ('x, 'l) kernel option" where
  "finish_lock_switch env c k = balance_callbacks_now env c k"

text \<open>The notifications of other subsystems at both ends of the switch are one outside
  function each.\<close>

(* core.c 4833-4845: prepare_task_switch *)
definition prepare_task_switch ::
    "('x, 'l, 'm) env_scheme \<Rightarrow> cpu \<Rightarrow> tid \<Rightarrow> tid \<Rightarrow> ('x, 'l) kernel \<Rightarrow> ('x, 'l) kernel" where
  "prepare_task_switch env c prev next k =
     prepare_task env next (ext_do (e_prepare_switch env c prev next) k)"

(* core.c 4867-4954: finish_task_switch *)
definition finish_task_switch ::
    "('x, 'l, 'm) env_scheme \<Rightarrow> cpu \<Rightarrow> tid \<Rightarrow> ('x, 'l) kernel \<Rightarrow> ('x, 'l) kernel option" where
  "finish_task_switch env c prev k = do {
     let mm = rq_prev_mm (cpu_rq k c);
     let k = upd_rq c (\<lambda>r. r\<lparr>rq_prev_mm := None\<rparr>) k;
     let prev_state = t_state (tsk k prev);
     let k = finish_task env prev k;
     k \<leftarrow> finish_lock_switch env c k;
     let k = ext_do (e_finish_switch env c prev) k;
     let k = (case mm of Some m \<Rightarrow> ext_do (e_mmdrop env m) k | None \<Rightarrow> k);
     if prev_state = TASK_DEAD
     then map_option (ext_do (e_task_dead env prev))
            (case vt_task_dead (cl env k prev) of Some f \<Rightarrow> f prev k | None \<Rightarrow> Some k)
     else Some k
   }"

(* sched.h 3137-3151: membarrier_switch_mm#1 *)
definition membarrier_switch_mm ::
    "('x, 'l, 'm) env_scheme \<Rightarrow> cpu \<Rightarrow> nat option \<Rightarrow> nat \<Rightarrow> ('x, 'l) kernel \<Rightarrow> ('x, 'l) kernel" where
  "membarrier_switch_mm env c prev_mm next_mm k =
     (if prev_mm = Some next_mm then k
      else let st = e_mm_membarrier_state env next_mm k
           in if rq_membarrier_state (cpu_rq k c) = st then k
              else upd_rq c (\<lambda>r. r\<lparr>rq_membarrier_state := st\<rparr>) k)"

text \<open>The address space part: a kernel thread borrows the previous one, whose reference is
  dropped once a user task runs again.\<close>

(* core.c !4991-5020: context_switch (mm) *)
definition switch_address_space ::
    "('x, 'l, 'm) env_scheme \<Rightarrow> cpu \<Rightarrow> tid \<Rightarrow> tid \<Rightarrow> ('x, 'l) kernel \<Rightarrow> ('x, 'l) kernel" where
  "switch_address_space env c prev next k =
     (case t_mm (tsk k next) of
        None \<Rightarrow>
          let active = t_active_mm (tsk k prev);
              k = upd_task next (\<lambda>t. t\<lparr>t_active_mm := active\<rparr>)
                    (ext_do (e_switch_mm env active None next) k)
          in if t_mm (tsk k prev) \<noteq> None then ext_do (e_mmgrab env active) k
             else upd_task prev (\<lambda>t. t\<lparr>t_active_mm := None\<rparr>) k
      | Some m \<Rightarrow>
          let active = t_active_mm (tsk k prev);
              k = membarrier_switch_mm env c active m k;
              k = ext_do (e_switch_mm env active (Some m) next) k
          in if t_mm (tsk k prev) = None
             then upd_task prev (\<lambda>t. t\<lparr>t_active_mm := None\<rparr>) (upd_rq c (\<lambda>r. r\<lparr>rq_prev_mm := active\<rparr>) k)
             else k)"

(* core.c 4984-5040: context_switch *)
definition context_switch ::
    "('x, 'l, 'm) env_scheme \<Rightarrow> cpu \<Rightarrow> tid \<Rightarrow> tid \<Rightarrow> ('x, 'l) kernel \<Rightarrow> ('x, 'l) kernel option" where
  "context_switch env c prev next k =
     (let k = prepare_task_switch env c prev next k;
          k = switch_address_space env c prev next k;
          k = upd_rq c (\<lambda>r. r\<lparr>rq_clock_update_flags :=
                 clear_flag (rq_clock_update_flags r) (RQCF_ACT_SKIP OR RQCF_REQ_SKIP)\<rparr>) k
      in finish_task_switch env c prev k)"

section \<open>The scheduler\<close>

(* core.c 6211-6211: SM_NONE *)
definition SM_NONE :: u32 where "SM_NONE = 0x0"

(* core.c 6212-6212: SM_PREEMPT *)
definition SM_PREEMPT :: u32 where "SM_PREEMPT = 0x1"

(* core.c 6213-6213: SM_RTLOCK_WAIT *)
definition SM_RTLOCK_WAIT :: u32 where "SM_RTLOCK_WAIT = 0x2"

text \<open>\<open>SM_MASK_PREEMPT\<close> of a kernel without \<open>PREEMPT_RT\<close>: all bits.\<close>

(* core.c 6216-6216: SM_MASK_PREEMPT#1 *)
definition SM_MASK_PREEMPT :: u32 where "SM_MASK_PREEMPT = NOT 0"

text \<open>A task that blocks leaves the runqueue, unless a signal is pending.\<close>

(* core.c !6310-6352: __schedule (block) *)
definition schedule_block ::
    "('x, 'l, 'm) env_scheme \<Rightarrow> cpu \<Rightarrow> tid \<Rightarrow> u32 \<Rightarrow> ('x, 'l) kernel \<Rightarrow> ('x, 'l) kernel option" where
  "schedule_block env c prev prev_state k =
     (if e_signal_pending_state env prev_state prev k
      then Some (upd_task prev (\<lambda>t. t\<lparr>t_state := TASK_RUNNING\<rparr>) k)
      else do {
        let contributes = has_flag prev_state TASK_UNINTERRUPTIBLE \<and>
              \<not> has_flag prev_state TASK_NOLOAD \<and> \<not> has_flag (t_flags (tsk k prev)) PF_FROZEN;
        let k = upd_task prev (\<lambda>t. t\<lparr>t_contributes_to_load := contributes\<rparr>) k;
        let k = (if contributes
          then upd_rq c (\<lambda>r. r\<lparr>rq_nr_uninterruptible := rq_nr_uninterruptible r + 1\<rparr>) k else k);
        k \<leftarrow> deactivate_task env c prev (DEQUEUE_SLEEP OR DEQUEUE_NOCLOCK) k;
        Some (if t_in_iowait (tsk k prev)
          then ext_do (e_delayacct_blkio_start env prev)
                 (upd_rq c (\<lambda>r. r\<lparr>rq_nr_iowait := rq_nr_iowait r + 1\<rparr>) k)
          else k)
      })"

(* core.c 6260-6390: __schedule *)
definition schedule_once ::
    "('x, 'l, 'm) env_scheme \<Rightarrow> u32 \<Rightarrow> ('x, 'l) kernel \<Rightarrow> ('x, 'l) kernel option" where
  "schedule_once env sched_mode k = do {
     let c = k_this_cpu k;
     let prev = rq_curr (cpu_rq k c);
     let k = ext_do (e_schedule_enter env c (sched_mode \<noteq> 0)) k;
     let k = upd_rq c (\<lambda>r. r\<lparr>rq_clock_update_flags := push_bit 1 (rq_clock_update_flags r)\<rparr>) k;
     let k = update_rq_clock env c k;
     let prev_state = t_state (tsk k prev);
     let voluntary = (\<not> has_flag sched_mode SM_MASK_PREEMPT \<and> prev_state \<noteq> 0);
     k \<leftarrow> (if voluntary then schedule_block env c prev prev_state k else Some k);
     (next, k) \<leftarrow> pick_next_task env c prev k;
     let k = (upd_task prev (\<lambda>t. t\<lparr>t_need_resched := False\<rparr>) k)\<lparr>k_preempt_need_resched := False\<rparr>;
     let k = (if e_sched_debug env
              then upd_rq c (\<lambda>r. r\<lparr>rq_last_seen_need_resched_ns := 0\<rparr>) k else k);
     if prev \<noteq> next then do {
       let k = upd_rq c (\<lambda>r. r\<lparr>rq_nr_switches := rq_nr_switches r + 1, rq_curr := next\<rparr>) k;
       let k = upd_task prev (\<lambda>t. if voluntary then t\<lparr>t_nvcsw := t_nvcsw t + 1\<rparr>
                                  else t\<lparr>t_nivcsw := t_nivcsw t + 1\<rparr>) k;
       k \<leftarrow> migrate_disable_switch env c prev k;
       let k = ext_do (e_psi_sched_switch env prev next (\<not> task_on_rq_queued k prev)) k;
       context_switch env c prev next k
     } else
       balance_callbacks_now env c
         (upd_rq c (\<lambda>r. r\<lparr>rq_clock_update_flags :=
            clear_flag (rq_clock_update_flags r) (RQCF_ACT_SKIP OR RQCF_REQ_SKIP)\<rparr>) k)
   }"

text \<open>The loop of \<open>schedule()\<close> may go on for ever: at most \<open>n\<close> rounds, \<open>None\<close> beyond.\<close>

fun schedule_rounds ::
    "nat \<Rightarrow> ('x, 'l, 'm) env_scheme \<Rightarrow> u32 \<Rightarrow> ('x, 'l) kernel \<Rightarrow> ('x, 'l) kernel option" where
  "schedule_rounds 0 env mode k = None"
| "schedule_rounds (Suc n) env mode k = do {
     k \<leftarrow> schedule_once env mode k;
     if need_resched k then schedule_rounds n env mode k else Some k
   }"

(* core.c 6458-6469: schedule *)
definition schedule :: "nat \<Rightarrow> ('x, 'l, 'm) env_scheme \<Rightarrow> ('x, 'l) kernel \<Rightarrow> ('x, 'l) kernel option"
where
  "schedule n env k = do {
     k \<leftarrow> (if t_state (tsk k (current_task k)) = TASK_RUNNING then Some k
            else e_submit_work env (current_task k) k);
     k \<leftarrow> schedule_rounds n env SM_NONE k;
     e_update_worker env (current_task k) k
   }"

(* core.c 6482-6495: schedule_idle *)
definition schedule_idle ::
    "nat \<Rightarrow> ('x, 'l, 'm) env_scheme \<Rightarrow> ('x, 'l) kernel \<Rightarrow> ('x, 'l) kernel option" where
  "schedule_idle n env k =
     schedule_rounds n env SM_NONE
       (warn_on ''schedule_idle'' (t_state (tsk k (current_task k)) \<noteq> 0) k)"

(* core.c 6540-6567: preempt_schedule_common *)
definition preempt_schedule_common ::
    "nat \<Rightarrow> ('x, 'l, 'm) env_scheme \<Rightarrow> ('x, 'l) kernel \<Rightarrow> ('x, 'l) kernel option" where
  "preempt_schedule_common n env k = schedule_rounds n env SM_PREEMPT k"

text \<open>\<open>do_task_dead\<close>: the \<open>BUG()\<close> is reached when the dead task is picked again.\<close>

(* core.c 6392-6406: do_task_dead *)
definition do_task_dead :: "('x, 'l, 'm) env_scheme \<Rightarrow> ('x, 'l) kernel \<Rightarrow> ('x, 'l) kernel option" where
  "do_task_dead env k = do {
     let p = current_task k;
     let k = upd_task p (\<lambda>t. t\<lparr>t_state := TASK_DEAD, t_flags := t_flags t OR PF_NOFREEZE\<rparr>) k;
     k \<leftarrow> schedule_once env SM_NONE k;
     if current_task k = p then None else Some k
   }"

section \<open>Yielding\<close>

(* core.c 8227-8242: do_sched_yield *)
definition do_sched_yield ::
    "nat \<Rightarrow> ('x, 'l, 'm) env_scheme \<Rightarrow> ('x, 'l) kernel \<Rightarrow> ('x, 'l) kernel option" where
  "do_sched_yield n env k = do {
     f \<leftarrow> vt_yield_task (cl env k (current_task k));
     k \<leftarrow> f (k_this_cpu k) k;
     schedule n env k
   }"

(* core.c 8252-8256: SYSCALL_DEFINE0(sched_yield *)
definition sys_sched_yield ::
    "nat \<Rightarrow> ('x, 'l, 'm) env_scheme \<Rightarrow> ('x, 'l) kernel \<Rightarrow> (int \<times> ('x, 'l) kernel) option" where
  "sys_sched_yield n env k = map_option (Pair 0) (do_sched_yield n env k)"

(* core.c 8376-8380: yield *)
definition yield_cpu :: "nat \<Rightarrow> ('x, 'l, 'm) env_scheme \<Rightarrow> ('x, 'l) kernel \<Rightarrow> ('x, 'l) kernel option"
where
  "yield_cpu n env k =
     do_sched_yield n env (upd_task (current_task k) (\<lambda>t. t\<lparr>t_state := TASK_RUNNING\<rparr>) k)"

text \<open>\<open>yield_to\<close> with the target's runqueue read once: under the locks the test for a move in
  between fails.\<close>

(* core.c 8398-8454: yield_to *)
definition yield_to ::
    "nat \<Rightarrow> ('x, 'l, 'm) env_scheme \<Rightarrow> tid \<Rightarrow> bool \<Rightarrow> ('x, 'l) kernel \<Rightarrow> (int \<times> ('x, 'l) kernel) option"
where
  "yield_to n env p preempt k =
     (let curr = current_task k; c = k_this_cpu k; p_rq = task_cpu k p in
      if rq_nr_running (cpu_rq k c) = 1 \<and> rq_nr_running (cpu_rq k p_rq) = 1 then Some (- ESRCH, k)
      else case vt_yield_to_task (cl env k curr) of
        None \<Rightarrow> Some (0, k)
      | Some f \<Rightarrow>
          if t_class (tsk k curr) \<noteq> t_class (tsk k p) then Some (0, k)
          else if task_running (e_smp env) k p_rq p \<or> t_state (tsk k p) \<noteq> TASK_RUNNING
          then Some (0, k)
          else do {
            (yielded, k) \<leftarrow> f c p k;
            if yielded then do {
              let k = (if preempt \<and> c \<noteq> p_rq then resched_curr env p_rq k else k);
              k \<leftarrow> schedule n env k;
              Some (1, k)
            } else Some (0, k)
          })"

(* core.c 8457-8465: io_schedule_prepare *)
definition io_schedule_prepare ::
    "('x, 'l, 'm) env_scheme \<Rightarrow> ('x, 'l) kernel \<Rightarrow> (bool \<times> ('x, 'l) kernel) option" where
  "io_schedule_prepare env k =
     (let me = current_task k; old = t_in_iowait (tsk k me)
      in map_option (Pair old) (e_submit_work env me (upd_task me (\<lambda>t. t\<lparr>t_in_iowait := True\<rparr>) k)))"

(* core.c 8467-8470: io_schedule_finish *)
definition io_schedule_finish :: "bool \<Rightarrow> ('x, 'l) kernel \<Rightarrow> ('x, 'l) kernel" where
  "io_schedule_finish token k = upd_task (current_task k) (\<lambda>t. t\<lparr>t_in_iowait := token\<rparr>) k"

end
