(* ===== verification/Core_Lottery.thy ===== *)
theory Core_Lottery
  imports Core_Queue Lottery_Queue
begin

text \<open>
  The class-independent queue operations on lottery tasks: what \<open>enqueue_task\<close>,
  \<open>dequeue_task\<close>, \<open>activate_task\<close> and \<open>deactivate_task\<close> of \<open>core.c\<close> do to the
  lottery queue, and what they leave alone. The properties of the scheduler, of migration and of the
  priority changes rest on these lemmas.
\<close>

section \<open>What a queue operation leaves alone\<close>

text \<open>The part of a runqueue the class-independent code decides on.\<close>

definition rq_core :: "rq \<Rightarrow> tid \<times> tid \<times> tid option \<times> u32 \<times> u32 \<times> u64 \<times> nat list \<times> u32 \<times> int"
where
  "rq_core r = (rq_curr r, rq_idle r, rq_stop r, rq_nr_running r, rq_cfs_h_nr_running r,
     rq_nr_switches r, rq_balance_callback r, rq_nr_uninterruptible r, rq_nr_iowait r)"

lemma rq_core_fields:
  assumes "rq_core r = rq_core s"
  shows "rq_curr r = rq_curr s" "rq_idle r = rq_idle s" "rq_stop r = rq_stop s"
    "rq_nr_running r = rq_nr_running s" "rq_cfs_h_nr_running r = rq_cfs_h_nr_running s"
    "rq_nr_switches r = rq_nr_switches s" "rq_balance_callback r = rq_balance_callback s"
    "rq_nr_uninterruptible r = rq_nr_uninterruptible s" "rq_nr_iowait r = rq_nr_iowait s"
  using assms by (simp_all add: rq_core_def)

text \<open>An operation on the lottery queue of \<open>c\<close>: every task, every other lottery queue, the
  random words and what the core decides on stay as they are.\<close>

definition ltr_frame :: "cpu \<Rightarrow> ('x, 'l) kernel \<Rightarrow> ('x, 'l) kernel \<Rightarrow> bool" where
  "ltr_frame c k k' \<longleftrightarrow>
     k_tasks k' = k_tasks k \<and> k_this_cpu k' = k_this_cpu k \<and> k_tgs k' = k_tgs k \<and>
     k_entropy k' = k_entropy k \<and> (\<forall>d. rq_core (cpu_rq k' d) = rq_core (cpu_rq k d)) \<and>
     (\<forall>d. d \<noteq> c \<longrightarrow> rq_ltr (cpu_rq k' d) = rq_ltr (cpu_rq k d))"

lemma ltr_frame_refl [simp]: "ltr_frame c k k"
  by (simp add: ltr_frame_def)

lemma ltr_frame_trans: "ltr_frame c k k1 \<Longrightarrow> ltr_frame c k1 k2 \<Longrightarrow> ltr_frame c k k2"
  by (simp add: ltr_frame_def)

lemma ltr_frameD:
  assumes "ltr_frame c k k'"
  shows "k_tasks k' = k_tasks k" "k_this_cpu k' = k_this_cpu k" "k_entropy k' = k_entropy k"
    "rq_curr (cpu_rq k' d) = rq_curr (cpu_rq k d)" "rq_idle (cpu_rq k' d) = rq_idle (cpu_rq k d)"
    "rq_nr_running (cpu_rq k' d) = rq_nr_running (cpu_rq k d)"
    "rq_cfs_h_nr_running (cpu_rq k' d) = rq_cfs_h_nr_running (cpu_rq k d)"
    "rq_nr_switches (cpu_rq k' d) = rq_nr_switches (cpu_rq k d)"
    "rq_balance_callback (cpu_rq k' d) = rq_balance_callback (cpu_rq k d)"
    "rq_nr_uninterruptible (cpu_rq k' d) = rq_nr_uninterruptible (cpu_rq k d)"
    "rq_nr_iowait (cpu_rq k' d) = rq_nr_iowait (cpu_rq k d)"
  using assms rq_core_fields[of "cpu_rq k' d" "cpu_rq k d"] by (simp_all add: ltr_frame_def)

lemma rq_core_no_clock: "rq_core (rq_no_clock r) = rq_core r"
  by (simp add: rq_core_def rq_no_clock_def)

lemma update_rq_clock_core [simp]:
  "rq_core (k_rqs (update_rq_clock env c k) d) = rq_core (k_rqs k d)"
  by (metis rq_core_no_clock update_rq_clock_rq)

lemma update_rq_clock_callback [simp]:
  "rq_balance_callback (cpu_rq (update_rq_clock env c k) d) = rq_balance_callback (cpu_rq k d)"
  using rq_core_fields(7)[OF update_rq_clock_core] .

lemma update_rq_clock_entropy [simp]: "k_entropy (update_rq_clock env c k) = k_entropy k"
  by (simp add: update_rq_clock_def update_rq_clock_task_def Let_def ext_do_def warn_on_def)

lemma update_rq_clock_ltr_frame [simp]: "ltr_frame c k (update_rq_clock env d k)"
  by (simp add: ltr_frame_def)

lemma ext_do_entropy [simp]: "k_entropy (ext_do f k) = k_entropy k"
  by (simp add: ext_do_def)

lemma ext_do_ltr_frame [simp]: "ltr_frame c k (ext_do f k)"
  by (simp add: ltr_frame_def)

lemma ltr_upd_core: "rq_core (r\<lparr>rq_ltr := q\<rparr>) = rq_core r"
  by (simp add: rq_core_def)

lemma lottery_frame_enq:
  assumes "enqueue_task_lottery env c p fl k = Some k'"
  shows "ltr_frame c k k'"
proof -
  have "rq_core (k_rqs k' d) = rq_core (k_rqs k d)" for d
    using enqueue_task_lottery_frame(6)[OF assms, of d]
      arg_cong[OF enqueue_task_lottery_frame(7)[OF assms, of "rq_ltr (k_rqs k' c)"], of rq_core]
    by (cases "d = c") (simp_all add: ltr_upd_core)
  then show ?thesis using enqueue_task_lottery_frame[OF assms] by (simp add: ltr_frame_def)
qed

lemma lottery_frame_deq:
  assumes "dequeue_task_lottery env c p fl k = Some k'"
  shows "ltr_frame c k k'"
proof -
  have "rq_core (k_rqs k' d) = rq_core (k_rqs k d)" for d
    using dequeue_task_lottery_frame(6)[OF assms, of d]
      arg_cong[OF dequeue_task_lottery_frame(7)[OF assms, of "rq_ltr (k_rqs k' c)"], of rq_core]
    by (cases "d = c") (simp_all add: ltr_upd_core)
  then show ?thesis using dequeue_task_lottery_frame[OF assms] by (simp add: ltr_frame_def)
qed

lemma lottery_run_ltr_frame:
  "run_ops (\<lambda>p k. enqueue_task_lottery env c p fl k) (\<lambda>p k. dequeue_task_lottery env c p fl k) ops k
     = Some k' \<Longrightarrow> ltr_frame c k k'"
proof (induction ops arbitrary: k)
  case Nil
  then show ?case by simp
next
  case (Cons x ops)
  then show ?case
    by (cases x) (auto simp: bind_Some_iff
        intro: ltr_frame_trans[OF lottery_frame_enq] ltr_frame_trans[OF lottery_frame_deq])
qed

text \<open>The lottery queue depends on the links, the lottery part of its runqueue and the tickets.\<close>

lemma ltr_queue_cong:
  assumes "k_links k' = k_links k" and "rq_ltr (cpu_rq k' c) = rq_ltr (cpu_rq k c)"
    and "\<And>p. p \<in> set ps \<Longrightarrow> t_ltr (tsk k' p) = t_ltr (tsk k p)"
  shows "ltr_queue dll c k' ps \<longleftrightarrow> ltr_queue dll c k ps"
proof -
  have "map (tickets k') ps = map (tickets k) ps" using assms(3) by simp
  then show ?thesis unfolding ltr_queue_def assms(1,2) by (simp only:)
qed

lemma ltr_queue_clock [simp]: "ltr_queue dll c (update_rq_clock env d k) ps \<longleftrightarrow> ltr_queue dll c k ps"
  by (intro ltr_queue_cong) simp_all

lemma ltr_queue_ext [simp]: "ltr_queue dll c (ext_do f k) ps \<longleftrightarrow> ltr_queue dll c k ps"
  by (intro ltr_queue_cong) simp_all

lemma ltr_queue_warn [simp]: "ltr_queue dll c (warn_on s b k) ps \<longleftrightarrow> ltr_queue dll c k ps"
  by (intro ltr_queue_cong) simp_all

lemma ltr_queue_upd_task:
  "(\<And>t. t_ltr (f t) = t_ltr t) \<Longrightarrow> ltr_queue dll c (upd_task p f k) ps \<longleftrightarrow> ltr_queue dll c k ps"
  by (intro ltr_queue_cong) simp_all

lemma ltr_queue_upd_rq:
  "(\<And>r. rq_ltr (f r) = rq_ltr r) \<Longrightarrow> ltr_queue dll c (upd_rq d f k) ps \<longleftrightarrow> ltr_queue dll c k ps"
  by (intro ltr_queue_cong) simp_all

section \<open>Enqueue and dequeue of a lottery task\<close>

text \<open>The lottery class has no utilization clamps: the accounting passes over its tasks.\<close>

lemma uclamp_lottery [simp]:
  "t_class (tsk k p) = Lottery_class \<Longrightarrow> uclamp_rq_inc env c p k = k"
  "t_class (tsk k p) = Lottery_class \<Longrightarrow> uclamp_rq_dec env c p k = k"
  by (simp_all add: uclamp_rq_inc_def uclamp_rq_dec_def)

lemma cl_lottery [simp]:
  "t_class (tsk k p) = Lottery_class \<Longrightarrow> cl env k p = lottery_sched_class env"
  by (simp add: cl_def)

text \<open>The state in which the class hook is called.\<close>

lemma enqueue_task_lottery_core:
  assumes "t_class (tsk k p) = Lottery_class"
  obtains k1 where "enqueue_task env c p fl k = enqueue_task_lottery env c p fl k1"
    and "ltr_frame c k k1" and "\<And>d ps. ltr_queue dll d k1 ps \<longleftrightarrow> ltr_queue dll d k ps"
proof
  let ?k = "if \<not> has_flag fl ENQUEUE_NOCLOCK then update_rq_clock env c k else k"
  let ?k1 = "if \<not> has_flag fl ENQUEUE_RESTORE
     then ext_do (e_psi_enqueue env p (has_flag fl ENQUEUE_WAKEUP \<and>
                             \<not> has_flag fl (ENQUEUE_MIGRATED (e_smp env))))
                     (ext_do (e_sched_info_enqueue env c p) ?k)
     else ?k"
  have t: "t_class (tsk ?k1 p) = Lottery_class" using assms by simp
  show "enqueue_task env c p fl k = enqueue_task_lottery env c p fl ?k1"
    using uclamp_lottery(1)[OF t, of env c] cl_lottery[OF t, of env]
    by (simp only: enqueue_task_def Let_def lottery_hooks bind.bind_lunit)
  show "ltr_frame c k ?k1" by (simp add: ltr_frame_def)
  show "ltr_queue dll d ?k1 ps \<longleftrightarrow> ltr_queue dll d k ps" for d ps by simp
qed

lemma dequeue_task_lottery_core:
  assumes "t_class (tsk k p) = Lottery_class"
  obtains k1 where "dequeue_task env c p fl k = dequeue_task_lottery env c p fl k1"
    and "ltr_frame c k k1" and "\<And>d ps. ltr_queue dll d k1 ps \<longleftrightarrow> ltr_queue dll d k ps"
proof
  let ?k = "if \<not> has_flag fl DEQUEUE_NOCLOCK then update_rq_clock env c k else k"
  let ?k1 = "if \<not> has_flag fl DEQUEUE_SAVE
     then ext_do (e_psi_dequeue env p (has_flag fl DEQUEUE_SLEEP))
                     (ext_do (e_sched_info_dequeue env c p) ?k)
     else ?k"
  have t: "t_class (tsk ?k1 p) = Lottery_class" using assms by simp
  show "dequeue_task env c p fl k = dequeue_task_lottery env c p fl ?k1"
    using uclamp_lottery(2)[OF t, of env c] cl_lottery[OF t, of env]
    by (simp only: dequeue_task_def Let_def lottery_hooks bind.bind_lunit)
  show "ltr_frame c k ?k1" by (simp add: ltr_frame_def)
  show "ltr_queue dll d ?k1 ps \<longleftrightarrow> ltr_queue dll d k ps" for d ps by simp
qed

lemma ltr_frame_upd_task: "ltr_frame c k k1 \<Longrightarrow> ltr_frame c (upd_task p f k) (upd_task p f k1)"
  by (simp add: ltr_frame_def)

lemma ltr_frame_upd_rq:
  "ltr_frame c k k1 \<Longrightarrow> (\<And>r. rq_core (f r) = rq_core r) \<Longrightarrow> (\<And>r. rq_ltr (f r) = rq_ltr r) \<Longrightarrow>
     ltr_frame c k (upd_rq d f k1)"
  by (simp add: ltr_frame_def)

context lottery_rq
begin

text \<open>A lottery task is appended to, and removed from, the queue of its runqueue, and nothing
  else the scheduler looks at changes.\<close>

lemma core_enqueue:
  assumes "ltr_queue dll c k ps" and "p \<notin> set ps" and "t_class (tsk k p) = Lottery_class"
  obtains k' where "enqueue_task env c p fl k = Some k'" and "ltr_queue dll c k' (ps @ [p])"
    and "ltr_frame c k k'"
proof -
  obtain k1 where k1: "enqueue_task env c p fl k = enqueue_task_lottery env c p fl k1"
    "ltr_frame c k k1" "ltr_queue dll c k1 ps"
    using assms(1,3) by (metis enqueue_task_lottery_core)
  then obtain k' where "enqueue_task_lottery env c p fl k1 = Some k'"
    "ltr_queue dll c k' (ps @ [p])" using assms(2) by (metis cq.enq_step)
  with k1 that show thesis using lottery_frame_enq ltr_frame_trans by metis
qed

lemma core_dequeue:
  assumes "ltr_queue dll c k ps" and "p \<in> set ps" and "t_class (tsk k p) = Lottery_class"
  obtains k' where "dequeue_task env c p fl k = Some k'" and "ltr_queue dll c k' (remove1 p ps)"
    and "ltr_frame c k k'"
proof -
  obtain k1 where k1: "dequeue_task env c p fl k = dequeue_task_lottery env c p fl k1"
    "ltr_frame c k k1" "ltr_queue dll c k1 ps"
    using assms(1,3) by (metis dequeue_task_lottery_core)
  then obtain k' where "dequeue_task_lottery env c p fl k1 = Some k'"
    "ltr_queue dll c k' (remove1 p ps)" using assms(2) by (metis cq.deq_step)
  with k1 that show thesis using lottery_frame_deq ltr_frame_trans by metis
qed

lemma core_enqueue_isolated:
  assumes "ltr_queue dll c k ps" and "p \<notin> set ps" and "t_class (tsk k p) = Lottery_class"
    and "d \<noteq> c" and "ltr_queue dll d k qs" and "set qs \<inter> set (p # ps) = {}"
    and "enqueue_task env c p fl k = Some k'"
  shows "ltr_queue dll d k' qs"
proof -
  obtain k1 where "enqueue_task env c p fl k = enqueue_task_lottery env c p fl k1"
    "ltr_queue dll c k1 ps" "ltr_queue dll d k1 qs"
    using assms(1,3,5) by (metis enqueue_task_lottery_core)
  with assms show ?thesis using enqueue_isolated[of k1 ps p d qs k'] by simp
qed

lemma core_dequeue_isolated:
  assumes "ltr_queue dll c k ps" and "p \<in> set ps" and "t_class (tsk k p) = Lottery_class"
    and "d \<noteq> c" and "ltr_queue dll d k qs" and "set qs \<inter> set ps = {}"
    and "dequeue_task env c p fl k = Some k'"
  shows "ltr_queue dll d k' qs"
proof -
  obtain k1 where "dequeue_task env c p fl k = dequeue_task_lottery env c p fl k1"
    "ltr_queue dll c k1 ps" "ltr_queue dll d k1 qs"
    using assms(1,3,5) by (metis dequeue_task_lottery_core)
  with assms show ?thesis using dequeue_isolated[of k1 ps p d qs k'] by simp
qed

end

section \<open>Activation and deactivation\<close>

lemma lottery_activate:
  assumes "linux_list (e_list env) dll" and "ltr_queue dll c k ps" and "p \<notin> set ps"
    and "t_class (tsk k p) = Lottery_class"
  obtains k' where "activate_task env c p fl k = Some k'" and "ltr_queue dll c k' (ps @ [p])"
    and "ltr_frame c (upd_task p (\<lambda>t. t\<lparr>t_on_rq := TASK_ON_RQ_QUEUED\<rparr>) k) k'"
proof -
  let ?fl = "if task_on_rq_migrating k p then fl OR ENQUEUE_MIGRATED (e_smp env) else fl"
  obtain k1 where k1: "enqueue_task env c p ?fl k = Some k1" "ltr_queue dll c k1 (ps @ [p])"
    "ltr_frame c k k1"
    using lottery_rq.core_enqueue[OF lottery_rq.intro[OF assms(1)] assms(2-4)] by blast
  have "ltr_queue dll c (upd_task p (\<lambda>t. t\<lparr>t_on_rq := TASK_ON_RQ_QUEUED\<rparr>) k1) (ps @ [p])"
    using k1(2) by (subst ltr_queue_upd_task) simp_all
  with k1 that show thesis by (simp add: activate_task_def ltr_frame_upd_task)
qed

lemma lottery_deactivate:
  assumes "linux_list (e_list env) dll" and "ltr_queue dll c k ps" and "p \<in> set ps"
    and "t_class (tsk k p) = Lottery_class"
  obtains k' where "deactivate_task env c p fl k = Some k'" and "ltr_queue dll c k' (remove1 p ps)"
    and "ltr_frame c (upd_task p (\<lambda>t. t\<lparr>t_on_rq :=
           (if has_flag fl DEQUEUE_SLEEP then 0 else TASK_ON_RQ_MIGRATING)\<rparr>) k) k'"
proof -
  let ?k = "upd_task p (\<lambda>t. t\<lparr>t_on_rq :=
           (if has_flag fl DEQUEUE_SLEEP then 0 else TASK_ON_RQ_MIGRATING)\<rparr>) k"
  have "ltr_queue dll c ?k ps" using assms(2) by (subst ltr_queue_upd_task) simp_all
  moreover have "t_class (tsk ?k p) = Lottery_class" using assms(4) by simp
  ultimately obtain k1 where "dequeue_task env c p fl ?k = Some k1"
    "ltr_queue dll c k1 (remove1 p ps)" "ltr_frame c ?k k1"
    using lottery_rq.core_dequeue[OF lottery_rq.intro[OF assms(1)] _ assms(3)] by blast
  with that show thesis by (simp add: deactivate_task_def)
qed

text \<open>Both leave the queue of another runqueue with other tasks alone.\<close>

lemma lottery_activate_isolated:
  assumes "linux_list (e_list env) dll" and "ltr_queue dll c k ps" and "p \<notin> set ps"
    and "t_class (tsk k p) = Lottery_class" and "d \<noteq> c" and "ltr_queue dll d k qs"
    and "set qs \<inter> set (p # ps) = {}" and "activate_task env c p fl k = Some k'"
  shows "ltr_queue dll d k' qs"
proof -
  let ?fl = "if task_on_rq_migrating k p then fl OR ENQUEUE_MIGRATED (e_smp env) else fl"
  obtain k1 where k1: "enqueue_task env c p ?fl k = Some k1"
    "k' = upd_task p (\<lambda>t. t\<lparr>t_on_rq := TASK_ON_RQ_QUEUED\<rparr>) k1"
    using assms(8) by (auto simp: activate_task_def Let_def bind_Some_iff)
  have "ltr_queue dll d k1 qs"
    using lottery_rq.core_enqueue_isolated[OF lottery_rq.intro[OF assms(1)] assms(2-7) k1(1)] .
  then show ?thesis unfolding k1(2) by (subst ltr_queue_upd_task) simp_all
qed

lemma lottery_deactivate_isolated:
  assumes "linux_list (e_list env) dll" and "ltr_queue dll c k ps" and "p \<in> set ps"
    and "t_class (tsk k p) = Lottery_class" and "d \<noteq> c" and "ltr_queue dll d k qs"
    and "set qs \<inter> set ps = {}" and "deactivate_task env c p fl k = Some k'"
  shows "ltr_queue dll d k' qs"
proof -
  let ?k = "upd_task p (\<lambda>t. t\<lparr>t_on_rq :=
           (if has_flag fl DEQUEUE_SLEEP then 0 else TASK_ON_RQ_MIGRATING)\<rparr>) k"
  have d: "dequeue_task env c p fl ?k = Some k'" using assms(8) by (simp add: deactivate_task_def)
  have q: "ltr_queue dll c ?k ps" "ltr_queue dll d ?k qs" "t_class (tsk ?k p) = Lottery_class"
    using assms(2,4,6) by (simp_all add: ltr_queue_upd_task)
  show ?thesis
    using lottery_rq.core_dequeue_isolated[OF lottery_rq.intro[OF assms(1)] q(1) assms(3) q(3)
        assms(5) q(2) assms(7) d] .
qed

section \<open>The preemption check\<close>

text \<open>A lottery task asks the running task of another class to reschedule; nothing else changes
  but the clock flags.\<close>

lemma check_preempt_effect:
  assumes "t_class (tsk k p) = Lottery_class"
  obtains k' where "check_preempt_curr env c p fl k = Some k'"
    and "k_links k' = k_links k" and "\<And>d. rq_ltr (cpu_rq k' d) = rq_ltr (cpu_rq k d)"
    and "\<And>q. tsk k' q = (tsk k q)\<lparr>t_need_resched := t_need_resched (tsk k q) \<or>
           (q = rq_curr (cpu_rq k c) \<and> t_class (tsk k q) \<noteq> Lottery_class)\<rparr>"
    and "k_this_cpu k' = k_this_cpu k" and "\<And>d. rq_core (cpu_rq k' d) = rq_core (cpu_rq k d)"
proof -
  let ?cur = "rq_curr (cpu_rq k c)"
  obtain k1 where k1: "check_preempt_curr env c p fl k =
      Some (if task_on_rq_queued k1 (rq_curr (cpu_rq k1 c)) \<and>
          t_need_resched (tsk k1 (rq_curr (cpu_rq k1 c))) then rq_clock_skip_update c k1 else k1)"
    "k1 = (if t_class (tsk k ?cur) = Lottery_class then k else resched_curr env c k)"
  proof (cases "t_class (tsk k ?cur) = Lottery_class")
    case True
    with assms that[of k] show thesis
      by (simp add: check_preempt_curr_def Let_def check_preempt_curr_lottery_def)
  next
    case False
    have le: "s \<le> Lottery_class" for s by (cases s) (simp_all add: less_eq_sched_class_def)
    with False have "t_class (tsk k ?cur) < Lottery_class"
      by (simp add: order_less_le)
    with False assms that[of "resched_curr env c k"] show thesis
      by (simp add: check_preempt_curr_def Let_def)
  qed
  have "k_links k1 = k_links k" "k_rqs k1 = k_rqs k" "k_this_cpu k1 = k_this_cpu k"
    "tsk k1 q = (tsk k q)\<lparr>t_need_resched := t_need_resched (tsk k q) \<or>
       (q = ?cur \<and> t_class (tsk k q) \<noteq> Lottery_class)\<rparr>" for q
    using k1(2) by (cases "q = ?cur"; simp split: if_splits)+
  then show thesis
    by (intro that[OF k1(1)]) (simp_all add: rq_clock_skip_update_def rq_core_def)
qed

lemma check_preempt_lottery:
  assumes "t_class (tsk k p) = Lottery_class"
  obtains k' where "check_preempt_curr env c p fl k = Some k'"
    and "k_links k' = k_links k" and "\<And>d. rq_ltr (cpu_rq k' d) = rq_ltr (cpu_rq k d)"
    and "\<And>q. \<exists>b. tsk k' q = (tsk k q)\<lparr>t_need_resched := b\<rparr>"
    and "k_this_cpu k' = k_this_cpu k" and "\<And>d. rq_curr (cpu_rq k' d) = rq_curr (cpu_rq k d)"
proof -
  obtain k' where "check_preempt_curr env c p fl k = Some k'"
    "k_links k' = k_links k" "\<And>d. rq_ltr (cpu_rq k' d) = rq_ltr (cpu_rq k d)"
    "\<And>q. tsk k' q = (tsk k q)\<lparr>t_need_resched := t_need_resched (tsk k q) \<or>
           (q = rq_curr (cpu_rq k c) \<and> t_class (tsk k q) \<noteq> Lottery_class)\<rparr>"
    "k_this_cpu k' = k_this_cpu k" "\<And>d. rq_core (cpu_rq k' d) = rq_core (cpu_rq k d)"
    by (rule check_preempt_effect[OF assms, of env c fl]) (rule that)
  with rq_core_fields(1) show thesis by (intro that) blast+
qed

end
