(* ===== verification/Schedule_Lottery.thy ===== *)
theory Schedule_Lottery
  imports Schedule Core_Lottery Machine
begin

text \<open>
  The main scheduler on lottery tasks: the lemmas behind the properties of \<open>Schedule_Props\<close>.
  A context switch touches neither the lottery queue nor the flags the scheduler decides on, and on
  a UP kernel the pick that follows a lottery task is the drawing.
\<close>

section \<open>What a context switch leaves alone\<close>

definition switch_frame :: "('x, 'l) kernel \<Rightarrow> ('x, 'l) kernel \<Rightarrow> bool" where
  "switch_frame k k' \<longleftrightarrow>
     k_links k' = k_links k \<and> k_this_cpu k' = k_this_cpu k \<and>
     (\<forall>d. rq_ltr (cpu_rq k' d) = rq_ltr (cpu_rq k d) \<and> rq_curr (cpu_rq k' d) = rq_curr (cpu_rq k d) \<and>
          rq_nr_switches (cpu_rq k' d) = rq_nr_switches (cpu_rq k d)) \<and>
     (\<forall>q. t_ltr (tsk k' q) = t_ltr (tsk k q) \<and> t_need_resched (tsk k' q) = t_need_resched (tsk k q) \<and>
          t_on_rq (tsk k' q) = t_on_rq (tsk k q) \<and> t_class (tsk k' q) = t_class (tsk k q) \<and>
          t_policy (tsk k' q) = t_policy (tsk k q) \<and> t_state (tsk k' q) = t_state (tsk k q))"

lemma switch_frame_refl [simp]: "switch_frame k k"
  by (simp add: switch_frame_def)

lemma switch_frame_trans [trans]: "switch_frame k k1 \<Longrightarrow> switch_frame k1 k2 \<Longrightarrow> switch_frame k k2"
  by (simp add: switch_frame_def)

lemma switch_frame_ext [simp]: "switch_frame k (ext_do f k1) \<longleftrightarrow> switch_frame k k1"
  by (simp add: switch_frame_def)

lemma switch_frame_task [simp]:
  "switch_frame k (upd_task p (\<lambda>t. t\<lparr>t_active_mm := a\<rparr>) k1) \<longleftrightarrow> switch_frame k k1"
  by (auto simp: switch_frame_def)

lemma switch_frame_rq [simp]:
  "switch_frame k (upd_rq c (\<lambda>r. r\<lparr>rq_prev_mm := a\<rparr>) k1) \<longleftrightarrow> switch_frame k k1"
  "switch_frame k (upd_rq c (\<lambda>r. r\<lparr>rq_membarrier_state := b\<rparr>) k1) \<longleftrightarrow> switch_frame k k1"
  "switch_frame k (upd_rq c (\<lambda>r. r\<lparr>rq_clock_update_flags := h r\<rparr>) k1) \<longleftrightarrow> switch_frame k k1"
  by (auto simp: switch_frame_def)

lemma switch_address_space_frame: "switch_frame k (switch_address_space env c prev next k)"
  by (simp add: switch_address_space_def membarrier_switch_mm_def Let_def split: option.split)

lemma prepare_task_switch_frame: "\<not> e_smp env \<Longrightarrow> switch_frame k (prepare_task_switch env c prev next k)"
  by (simp add: prepare_task_switch_def prepare_task_def)

text \<open>On UP the switch from a lottery task returns: it has no callbacks to run, and the class has
  no hook for a dead task.\<close>

lemma finish_task_switch_up:
  assumes "\<not> e_smp env" and "t_class (tsk k prev) = Lottery_class"
  shows "\<exists>k'. finish_task_switch env c prev k = Some k' \<and> switch_frame k k'"
  using assms
  by (simp add: finish_task_switch_def finish_task_def finish_lock_switch_def
      balance_callbacks_now_def Let_def split: option.split)

lemma context_switch_up:
  assumes "\<not> e_smp env" and "t_class (tsk k prev) = Lottery_class"
  shows "\<exists>k'. context_switch env c prev next k = Some k' \<and> switch_frame k k'"
proof -
  let ?k1 = "prepare_task_switch env c prev next k"
  let ?k2 = "switch_address_space env c prev next ?k1"
  let ?k3 = "upd_rq c (\<lambda>r. r\<lparr>rq_clock_update_flags :=
                 clear_flag (rq_clock_update_flags r) (RQCF_ACT_SKIP OR RQCF_REQ_SKIP)\<rparr>) ?k2"
  have "switch_frame k ?k2"
    using prepare_task_switch_frame[OF assms(1)] switch_address_space_frame switch_frame_trans by blast
  then have f: "switch_frame k ?k3" by simp
  with assms have "t_class (tsk ?k3 prev) = Lottery_class" by (simp add: switch_frame_def)
  from finish_task_switch_up[OF assms(1) this]
  obtain k' where k': "finish_task_switch env c prev ?k3 = Some k'" "switch_frame ?k3 k'" by blast
  have "context_switch env c prev next k = finish_task_switch env c prev ?k3"
    by (simp only: context_switch_def Let_def)
  then show ?thesis using k' switch_frame_trans[OF f k'(2)] by (intro exI[of _ k']) simp
qed

lemma switch_frame_queue:
  "switch_frame k k' \<Longrightarrow> ltr_queue dll c k' ps \<longleftrightarrow> ltr_queue dll c k ps"
  by (intro ltr_queue_cong) (simp_all add: switch_frame_def)

section \<open>The pick after a lottery task\<close>

lemma drum_cong:
  "(\<And>p. p \<in> set ps \<Longrightarrow> t_ltr (ts' p) = t_ltr (ts p)) \<Longrightarrow> drum ts' ps = drum ts ps"
  by (simp add: drum_def cong: map_cong)

lemma not_le_fair: "\<not> Lottery_class \<le> Fair_class"
  by (simp add: less_eq_sched_class_def)

lemma lottery_le_iff: "Lottery_class \<le> s \<longleftrightarrow> s = Lottery_class"
  by (cases s) (simp_all add: less_eq_sched_class_def)

text \<open>A lottery task is passed to the slow path, and the lottery class is asked first.\<close>

lemma pick_after_lottery_up:
  assumes "\<not> e_smp env" and "t_class (tsk k prev) = Lottery_class" and "rq_curr (cpu_rq k c) = prev"
    and "pick_next_task_lottery env c k = Some (Some p, k')"
  shows "pick_next_task env c prev k = Some (p, k')"
  using assms(1,2,4)
  by (simp add: pick_next_task_def not_le_fair pick_next_task_slow_def put_prev_task_balance_def
      put_prev_task_def assms(3) put_prev_task_lottery_def for_each_class_eq)

text \<open>On SMP the class range of the balance loop starts with the lottery class itself, whose
  \<open>balance\<close> hook is NULL.\<close>

lemma class_range_lottery:
  "for_class_range Lottery_class Idle_class =
     [Lottery_class, Stop_class, Dl_class, Rt_class, Fair_class]"
  by (simp add: for_class_range_def sched_class_section_def)

lemma pick_after_lottery_smp:
  assumes "e_smp env" and "t_class (tsk k prev) = Lottery_class"
  shows "pick_next_task env c prev k = None"
  using assms
  by (simp add: pick_next_task_def not_le_fair pick_next_task_slow_def put_prev_task_balance_def
      class_range_lottery)

section \<open>One pass of the scheduler\<close>

text \<open>What the part of \<open>__schedule\<close> before the pick leaves alone.\<close>

definition before_pick :: "('x, 'l) kernel \<Rightarrow> ('x, 'l) kernel \<Rightarrow> bool" where
  "before_pick k k' \<longleftrightarrow>
     k_this_cpu k' = k_this_cpu k \<and> k_entropy k' = k_entropy k \<and>
     (\<forall>d. rq_curr (cpu_rq k' d) = rq_curr (cpu_rq k d) \<and>
          rq_nr_switches (cpu_rq k' d) = rq_nr_switches (cpu_rq k d)) \<and>
     (\<forall>q. t_ltr (tsk k' q) = t_ltr (tsk k q) \<and> t_need_resched (tsk k' q) = t_need_resched (tsk k q) \<and>
          t_class (tsk k' q) = t_class (tsk k q) \<and> t_policy (tsk k' q) = t_policy (tsk k q))"

lemma before_pick_refl [simp]: "before_pick k k"
  by (simp add: before_pick_def)

lemma before_pick_trans: "before_pick k k1 \<Longrightarrow> before_pick k1 k2 \<Longrightarrow> before_pick k k2"
  by (simp add: before_pick_def)

lemma before_pick_ltr_frame: "ltr_frame c k k' \<Longrightarrow> before_pick k k'"
  by (simp add: before_pick_def ltr_frameD)

lemma before_pick_ext [simp]: "before_pick k (ext_do f k1) \<longleftrightarrow> before_pick k k1"
  by (simp add: before_pick_def)

lemma before_pick_task [simp]:
  "before_pick k (upd_task p (\<lambda>t. t\<lparr>t_on_rq := a\<rparr>) k1) \<longleftrightarrow> before_pick k k1"
  "before_pick k (upd_task p (\<lambda>t. t\<lparr>t_contributes_to_load := b\<rparr>) k1) \<longleftrightarrow> before_pick k k1"
  by (auto simp: before_pick_def)

lemma before_pick_rq [simp]:
  "before_pick k (upd_rq c (\<lambda>r. r\<lparr>rq_nr_uninterruptible := f r\<rparr>) k1) \<longleftrightarrow> before_pick k k1"
  "before_pick k (upd_rq c (\<lambda>r. r\<lparr>rq_nr_iowait := g r\<rparr>) k1) \<longleftrightarrow> before_pick k k1"
  "before_pick k (upd_rq c (\<lambda>r. r\<lparr>rq_clock_update_flags := h r\<rparr>) k1) \<longleftrightarrow> before_pick k k1"
  by (auto simp: before_pick_def)

text \<open>A lottery task that blocks leaves its queue; it is counted as uninterruptible and as waiting
  for I/O as its state says.\<close>

definition sleep_counts :: "cpu \<Rightarrow> tid \<Rightarrow> ('x, 'l) kernel \<Rightarrow> ('x, 'l) kernel \<Rightarrow> bool" where
  "sleep_counts c p k k' \<longleftrightarrow>
     rq_nr_uninterruptible (cpu_rq k' c) =
       rq_nr_uninterruptible (cpu_rq k c) + of_bool (t_contributes_to_load (tsk k' p)) \<and>
     rq_nr_iowait (cpu_rq k' c) = rq_nr_iowait (cpu_rq k c) + of_bool (t_in_iowait (tsk k' p)) \<and>
     t_state (tsk k' p) = t_state (tsk k p) \<and> t_cpu (tsk k' p) = t_cpu (tsk k p)"

lemma schedule_block_counts:
  assumes "linux_list (e_list env) dll" and "ltr_queue dll c k ps" and "prev \<in> set ps"
    and "t_class (tsk k prev) = Lottery_class" and "\<not> e_signal_pending_state env st prev k"
  shows "\<exists>k'. schedule_block env c prev st k = Some k' \<and> ltr_queue dll c k' (remove1 prev ps) \<and>
    before_pick k k' \<and> t_on_rq (tsk k' prev) = 0 \<and>
    (\<forall>q. q \<noteq> prev \<longrightarrow> t_on_rq (tsk k' q) = t_on_rq (tsk k q)) \<and> sleep_counts c prev k k'"
proof -
  obtain con where con: "con \<longleftrightarrow> has_flag st TASK_UNINTERRUPTIBLE \<and> \<not> has_flag st TASK_NOLOAD \<and>
      \<not> has_flag (t_flags (tsk k prev)) PF_FROZEN" by blast
  let ?k1 = "upd_task prev (\<lambda>t. t\<lparr>t_contributes_to_load := con\<rparr>) k"
  obtain k2 where k2: "k2 = (if con
      then upd_rq c (\<lambda>r. r\<lparr>rq_nr_uninterruptible := rq_nr_uninterruptible r + 1\<rparr>) ?k1 else ?k1)"
    by blast
  have q: "ltr_queue dll c k2 ps" using assms(2)
    by (auto simp: k2 ltr_queue_upd_task ltr_queue_upd_rq)
  have cls: "t_class (tsk k2 prev) = Lottery_class" using assms(4) by (simp add: k2)
  have sl: "has_flag (DEQUEUE_SLEEP OR DEQUEUE_NOCLOCK) DEQUEUE_SLEEP"
    by (simp add: has_flag_def queue_flag_defs)
  obtain k3 where k3: "deactivate_task env c prev (DEQUEUE_SLEEP OR DEQUEUE_NOCLOCK) k2 = Some k3"
    "ltr_queue dll c k3 (remove1 prev ps)" "ltr_frame c (upd_task prev (\<lambda>t. t\<lparr>t_on_rq := 0\<rparr>) k2) k3"
    by (rule lottery_deactivate[OF assms(1) q assms(3) cls,
          of "DEQUEUE_SLEEP OR DEQUEUE_NOCLOCK", unfolded if_P[OF sl]])
  have "before_pick k (upd_task prev (\<lambda>t. t\<lparr>t_on_rq := 0\<rparr>) k2)" by (simp add: k2)
  then have b: "before_pick k k3" using before_pick_ltr_frame[OF k3(3)] before_pick_trans by blast
  have on: "t_on_rq (tsk k3 prev) = 0" "\<forall>q. q \<noteq> prev \<longrightarrow> t_on_rq (tsk k3 q) = t_on_rq (tsk k q)"
    using ltr_frameD(1)[OF k3(3)] by (simp_all add: k2)
  obtain k4 where k4: "k4 = (if t_in_iowait (tsk k3 prev)
          then ext_do (e_delayacct_blkio_start env prev)
                 (upd_rq c (\<lambda>r. r\<lparr>rq_nr_iowait := rq_nr_iowait r + 1\<rparr>) k3) else k3)" by blast
  have "schedule_block env c prev st k = Some k4"
    using assms(5) k3(1) unfolding k2
    by (simp only: schedule_block_def Let_def con[symmetric] k4 if_False bind.bind_lunit)
  moreover have "ltr_queue dll c k4 (remove1 prev ps)" "before_pick k k4" "t_on_rq (tsk k4 prev) = 0"
    "\<forall>q. q \<noteq> prev \<longrightarrow> t_on_rq (tsk k4 q) = t_on_rq (tsk k q)"
    using k3(2) b on by (simp_all add: k4 ltr_queue_upd_rq)
  moreover have "sleep_counts c prev k k4"
    using ltr_frameD(1)[OF k3(3)] ltr_frameD(10,11)[OF k3(3), of c]
    by (simp add: k4 k2 sleep_counts_def)
  ultimately show ?thesis by blast
qed

lemma schedule_block_lottery:
  assumes "linux_list (e_list env) dll" and "ltr_queue dll c k ps" and "prev \<in> set ps"
    and "t_class (tsk k prev) = Lottery_class" and "\<not> e_signal_pending_state env st prev k"
  shows "\<exists>k'. schedule_block env c prev st k = Some k' \<and> ltr_queue dll c k' (remove1 prev ps) \<and>
    before_pick k k' \<and> t_on_rq (tsk k' prev) = 0 \<and>
    (\<forall>q. q \<noteq> prev \<longrightarrow> t_on_rq (tsk k' q) = t_on_rq (tsk k q))"
  using schedule_block_counts[OF assms] by blast

text \<open>The parts of \<open>__schedule\<close>: the entry up to the clock update, and what follows the
  pick.\<close>

definition schedule_entry ::
    "('x, 'l, 'm) env_scheme \<Rightarrow> u32 \<Rightarrow> cpu \<Rightarrow> ('x, 'l) kernel \<Rightarrow> ('x, 'l) kernel" where
  "schedule_entry env mode c k =
     update_rq_clock env c
       (upd_rq c (\<lambda>r. r\<lparr>rq_clock_update_flags := push_bit 1 (rq_clock_update_flags r)\<rparr>)
         (ext_do (e_schedule_enter env c (mode \<noteq> 0)) k))"

definition schedule_clear ::
    "('x, 'l, 'm) env_scheme \<Rightarrow> cpu \<Rightarrow> tid \<Rightarrow> ('x, 'l) kernel \<Rightarrow> ('x, 'l) kernel" where
  "schedule_clear env c prev k =
     (let k = (upd_task prev (\<lambda>t. t\<lparr>t_need_resched := False\<rparr>) k)\<lparr>k_preempt_need_resched := False\<rparr>
      in if e_sched_debug env then upd_rq c (\<lambda>r. r\<lparr>rq_last_seen_need_resched_ns := 0\<rparr>) k else k)"

definition schedule_switch ::
    "('x, 'l, 'm) env_scheme \<Rightarrow> bool \<Rightarrow> cpu \<Rightarrow> tid \<Rightarrow> tid \<Rightarrow> ('x, 'l) kernel \<Rightarrow> ('x, 'l) kernel option"
where
  "schedule_switch env voluntary c prev next k =
     (if prev \<noteq> next then do {
       let k = upd_rq c (\<lambda>r. r\<lparr>rq_nr_switches := rq_nr_switches r + 1, rq_curr := next\<rparr>) k;
       let k = upd_task prev (\<lambda>t. if voluntary then t\<lparr>t_nvcsw := t_nvcsw t + 1\<rparr>
                                  else t\<lparr>t_nivcsw := t_nivcsw t + 1\<rparr>) k;
       k \<leftarrow> migrate_disable_switch env c prev k;
       let k = ext_do (e_psi_sched_switch env prev next (\<not> task_on_rq_queued k prev)) k;
       context_switch env c prev next k
     } else
       balance_callbacks_now env c
         (upd_rq c (\<lambda>r. r\<lparr>rq_clock_update_flags :=
            clear_flag (rq_clock_update_flags r) (RQCF_ACT_SKIP OR RQCF_REQ_SKIP)\<rparr>) k))"

lemma schedule_once_parts:
  "schedule_once env mode k =
     (let c = k_this_cpu k; prev = rq_curr (cpu_rq k c); k1 = schedule_entry env mode c k;
          st = t_state (tsk k1 prev); vol = (\<not> has_flag mode SM_MASK_PREEMPT \<and> st \<noteq> 0)
      in do {
        k2 \<leftarrow> (if vol then schedule_block env c prev st k1 else Some k1);
        (next, k3) \<leftarrow> pick_next_task env c prev k2;
        schedule_switch env vol c prev next (schedule_clear env c prev k3)
      })"
  by (simp only: schedule_once_def schedule_entry_def schedule_clear_def schedule_switch_def Let_def)

lemma schedule_entry_state:
  "before_pick k (schedule_entry env mode c k)"
  "k_tasks (schedule_entry env mode c k) = k_tasks k"
  "ltr_queue dll c (schedule_entry env mode c k) ps \<longleftrightarrow> ltr_queue dll c k ps"
proof -
  let ?k = "upd_rq c (\<lambda>r. r\<lparr>rq_clock_update_flags := push_bit 1 (rq_clock_update_flags r)\<rparr>)
         (ext_do (e_schedule_enter env c (mode \<noteq> 0)) k)"
  have "before_pick k ?k" by simp
  moreover have "before_pick ?k (update_rq_clock env c ?k)"
    by (rule before_pick_ltr_frame) (rule update_rq_clock_ltr_frame)
  ultimately show "before_pick k (schedule_entry env mode c k)"
    unfolding schedule_entry_def by (rule before_pick_trans)
  show "ltr_queue dll c (schedule_entry env mode c k) ps \<longleftrightarrow> ltr_queue dll c k ps"
    by (simp add: schedule_entry_def ltr_queue_upd_rq)
qed (simp add: schedule_entry_def)

lemma schedule_clear_state [simp]:
  "k_tasks (schedule_clear env c prev k) q =
     (if q = prev then (tsk k q)\<lparr>t_need_resched := False\<rparr> else tsk k q)"
  "k_this_cpu (schedule_clear env c prev k) = k_this_cpu k"
  "k_links (schedule_clear env c prev k) = k_links k"
  "rq_ltr (k_rqs (schedule_clear env c prev k) d) = rq_ltr (k_rqs k d)"
  "rq_curr (k_rqs (schedule_clear env c prev k) d) = rq_curr (k_rqs k d)"
  "rq_nr_switches (k_rqs (schedule_clear env c prev k) d) = rq_nr_switches (k_rqs k d)"
  by (simp_all add: schedule_clear_def Let_def upd_task_def upd_rq_def)

text \<open>The switch on UP: the next task is current, and the number of switches counts it.\<close>

lemma schedule_switch_up:
  assumes "\<not> e_smp env" and "t_class (tsk k prev) = Lottery_class" and "rq_curr (cpu_rq k c) = prev"
  shows "\<exists>k'. schedule_switch env vol c prev next k = Some k' \<and> rq_curr (cpu_rq k' c) = next \<and>
    k_this_cpu k' = k_this_cpu k \<and>
    rq_nr_switches (cpu_rq k' c) = rq_nr_switches (cpu_rq k c) + (if next = prev then 0 else 1) \<and>
    (\<forall>ps. ltr_queue dll c k' ps \<longleftrightarrow> ltr_queue dll c k ps) \<and>
    (\<forall>q. t_need_resched (tsk k' q) = t_need_resched (tsk k q) \<and> t_on_rq (tsk k' q) = t_on_rq (tsk k q) \<and>
         t_class (tsk k' q) = t_class (tsk k q) \<and> t_policy (tsk k' q) = t_policy (tsk k q))"
proof (cases "prev = next")
  case True
  with assms show ?thesis
    by (simp add: schedule_switch_def balance_callbacks_now_def ltr_queue_upd_rq)
next
  case False
  let ?k1 = "upd_task prev (\<lambda>t. if vol then t\<lparr>t_nvcsw := t_nvcsw t + 1\<rparr>
                                  else t\<lparr>t_nivcsw := t_nivcsw t + 1\<rparr>)
    (upd_rq c (\<lambda>r. r\<lparr>rq_nr_switches := rq_nr_switches r + 1, rq_curr := next\<rparr>) k)"
  let ?k2 = "ext_do (e_psi_sched_switch env prev next (\<not> task_on_rq_queued ?k1 prev)) ?k1"
  have "t_class (tsk ?k2 prev) = Lottery_class" using assms(2) by simp
  from context_switch_up[OF assms(1) this] obtain k' where
    k': "context_switch env c prev next ?k2 = Some k'" "switch_frame ?k2 k'" by blast
  have "schedule_switch env vol c prev next k = Some k'"
    using False assms(1) k'(1) by (simp add: schedule_switch_def migrate_disable_switch_def Let_def)
  moreover have "ltr_queue dll c k' ps \<longleftrightarrow> ltr_queue dll c k ps" for ps
    unfolding switch_frame_queue[OF k'(2)] by (subst ltr_queue_cong[of ?k2 k]) simp_all
  ultimately show ?thesis using False k'(2) by (simp add: switch_frame_def)
qed

text \<open>Whether the current task blocks in this pass.\<close>

definition blocks :: "u32 \<Rightarrow> ('x, 'l) kernel \<Rightarrow> bool" where
  "blocks mode k \<longleftrightarrow> \<not> has_flag mode SM_MASK_PREEMPT \<and> t_state (tsk k (current_task k)) \<noteq> 0"

lemma schedule_once_up:
  assumes ll: "linux_list (e_list env) dll" and up: "\<not> e_smp env"
    and c: "c = k_this_cpu k" and prev: "prev = current_task k"
    and cls: "t_class (tsk k prev) = Lottery_class"
    and q: "ltr_queue dll c k ps"
    and sig: "blocks mode k \<Longrightarrow> prev \<in> set ps \<and> (\<forall>s k. \<not> e_signal_pending_state env s prev k)"
    and qs: "qs = (if blocks mode k then remove1 prev ps else ps)"
    and lot: "all_lottery (k_tasks k) qs" and small: "length (drum (k_tasks k) qs) < 2 ^ 32"
    and ne: "drum (k_tasks k) qs \<noteq> []"
    and p: "p = drum (k_tasks k) qs ! (unat (k_entropy k 0) mod length (drum (k_tasks k) qs))"
  shows "\<exists>k'. schedule_once env mode k = Some k' \<and> current_task k' = p \<and> k_this_cpu k' = c \<and>
    ltr_queue dll c k' qs \<and>
    (\<forall>q. t_need_resched (tsk k' q) = (q \<noteq> prev \<and> t_need_resched (tsk k q))) \<and>
    rq_nr_switches (cpu_rq k' c) = rq_nr_switches (cpu_rq k c) + (if p = prev then 0 else 1) \<and>
    (blocks mode k \<longrightarrow> t_on_rq (tsk k' prev) = 0)"
proof -
  let ?k1 = "schedule_entry env mode c k" and ?st = "t_state (tsk k prev)"
  have curr: "rq_curr (cpu_rq k c) = prev" using c prev by (simp add: current_task_def)
  have b: "(\<not> has_flag mode SM_MASK_PREEMPT \<and> ?st \<noteq> 0) = blocks mode k"
    by (simp add: blocks_def prev)
  note e = schedule_entry_state[where k = k and env = env and mode = mode and c = c]
  obtain k2 where k2: "(if blocks mode k then schedule_block env c prev ?st ?k1 else Some ?k1) = Some k2"
    "ltr_queue dll c k2 qs" "before_pick ?k1 k2" "blocks mode k \<Longrightarrow> t_on_rq (tsk k2 prev) = 0"
  proof (cases "blocks mode k")
    case True
    have "ltr_queue dll c ?k1 ps" "t_class (tsk ?k1 prev) = Lottery_class" using q cls e by simp_all
    from schedule_block_lottery[OF ll this(1) _ this(2)] sig[OF True] that True qs
    show thesis by (metis (full_types))
  next
    case False
    with q qs e that show thesis by (metis before_pick_refl)
  qed
  have bp: "before_pick k k2" using e(1) k2(3) by (rule before_pick_trans)
  have ts: "t_ltr (tsk k2 r) = t_ltr (tsk k r)" "t_policy (tsk k2 r) = t_policy (tsk k r)"
    "t_need_resched (tsk k2 r) = t_need_resched (tsk k r)"
    "t_class (tsk k2 r) = t_class (tsk k r)" for r
    using bp by (simp_all add: before_pick_def)
  have rqs: "rq_curr (cpu_rq k2 d) = rq_curr (cpu_rq k d)" "k_entropy k2 = k_entropy k"
    "rq_nr_switches (cpu_rq k2 d) = rq_nr_switches (cpu_rq k d)" "k_this_cpu k2 = k_this_cpu k" for d
    using bp by (simp_all add: before_pick_def)
  have d: "drum (k_tasks k2) qs = drum (k_tasks k) qs" by (intro drum_cong) (simp add: ts)
  have "all_lottery (k_tasks k2) qs" using lot by (simp add: all_lottery_def list_all_iff ts)
  from pick_draws[OF ll k2(2) this, unfolded d rqs, OF small ne p]
  have "pick_next_task_lottery env c k2 = Some (Some p, log_event (t_pid (tsk k2 p)) ''s''
      (k2\<lparr>k_entropy := (\<lambda>n. k_entropy k (Suc n))\<rparr>))" .
  then obtain k3 where pick: "pick_next_task_lottery env c k2 = Some (Some p, k3)"
    and k3: "k_tasks k3 = k_tasks k2" "k_links k3 = k_links k2" "k_rqs k3 = k_rqs k2"
      "k_this_cpu k3 = k_this_cpu k2" by simp
  have pick2: "pick_next_task env c prev k2 = Some (p, k3)"
    using pick_after_lottery_up[OF up _ _ pick] cls curr by (simp add: ts rqs)
  let ?k4 = "schedule_clear env c prev k3"
  have "t_class (tsk ?k4 prev) = Lottery_class" "rq_curr (cpu_rq ?k4 c) = prev"
    using cls curr by (simp_all add: ts rqs k3)
  from schedule_switch_up[OF up this, of "blocks mode k" p] obtain k' where
    k': "schedule_switch env (blocks mode k) c prev p ?k4 = Some k'" "rq_curr (cpu_rq k' c) = p"
    "k_this_cpu k' = k_this_cpu ?k4"
    "rq_nr_switches (cpu_rq k' c) = rq_nr_switches (cpu_rq ?k4 c) + (if p = prev then 0 else 1)"
    "\<And>ps. ltr_queue dll c k' ps \<longleftrightarrow> ltr_queue dll c ?k4 ps"
    "\<And>q. t_need_resched (tsk k' q) = t_need_resched (tsk ?k4 q)"
    "\<And>q. t_on_rq (tsk k' q) = t_on_rq (tsk ?k4 q)" by blast
  have "schedule_once env mode k = Some k'"
    by (simp only: schedule_once_parts Let_def c[symmetric] curr e(2) b k2(1) pick2 k'(1)
        bind.bind_lunit prod.case)
  moreover have "ltr_queue dll c ?k4 qs"
    using k2(2) by (subst ltr_queue_cong[of _ k2]) (simp_all add: k3)
  ultimately show ?thesis using k' k2(4) by (auto simp: k3 ts rqs c current_task_def)
qed

section \<open>The tick\<close>

lemma cpu_resched_latency_frame:
  "k_tasks (snd (cpu_resched_latency env c k)) = k_tasks k"
  "k_links (snd (cpu_resched_latency env c k)) = k_links k"
  "rq_ltr (cpu_rq (snd (cpu_resched_latency env c k)) d) = rq_ltr (cpu_rq k d)"
  "rq_curr (cpu_rq (snd (cpu_resched_latency env c k)) d) = rq_curr (cpu_rq k d)"
  "k_this_cpu (snd (cpu_resched_latency env c k)) = k_this_cpu k"
  by (simp_all add: cpu_resched_latency_def Let_def rq_clock_read_def assert_clock_updated_def)

lemma need_resched_self: "\<exists>b. t = t\<lparr>t_need_resched := b\<rparr>"
  by (rule exI[of _ "t_need_resched t"]) simp

lemma tick_effect:
  "\<exists>k'. task_tick_lottery env c p queued k = Some k' \<and>
     (t_need_resched (tsk k' (rq_curr (cpu_rq k c))) \<longleftrightarrow>
        t_need_resched (tsk k (rq_curr (cpu_rq k c))) \<or>
        (1 < lr_nr_running (rq_ltr (cpu_rq k c)) \<and> k_entropy k 0 mod 10 = 0)) \<and>
     (\<forall>q. q \<noteq> rq_curr (cpu_rq k c) \<longrightarrow> tsk k' q = tsk k q) \<and>
     (\<forall>q. \<exists>b. tsk k' q = (tsk k q)\<lparr>t_need_resched := b\<rparr>) \<and> k_links k' = k_links k \<and>
     k_rqs k' = k_rqs k \<and> k_this_cpu k' = k_this_cpu k"
  using need_resched_self
  by (auto simp: task_tick_lottery_def get_random_u32_def Let_def not_le)

lemma scheduler_tick_effect:
  assumes "c = k_this_cpu k" and "cur = current_task k" and "t_class (tsk k cur) = Lottery_class"
  shows "\<exists>k'. scheduler_tick env k = Some k' \<and>
    (t_need_resched (tsk k' cur) \<longleftrightarrow> t_need_resched (tsk k cur) \<or>
       (1 < lr_nr_running (rq_ltr (cpu_rq k c)) \<and> k_entropy k 0 mod 10 = 0)) \<and>
    (\<forall>q. q \<noteq> cur \<longrightarrow> tsk k' q = tsk k q) \<and>
    (\<forall>dll ps. ltr_queue dll c k' ps \<longleftrightarrow> ltr_queue dll c k ps) \<and>
    (\<exists>b. tsk k' cur = (tsk k cur)\<lparr>t_need_resched := b\<rparr>) \<and> k_this_cpu k' = c \<and>
    rq_curr (cpu_rq k' c) = rq_curr (cpu_rq k c)"
proof -
  have cur: "cur = rq_curr (cpu_rq k c)" using assms(1,2) by (simp add: current_task_def)
  let ?k1 = "ext_do (e_tick_thermal env c) (update_rq_clock env c k)"
  let ?go = "1 < lr_nr_running (rq_ltr (cpu_rq k c)) \<and> k_entropy k 0 mod 10 = 0"
  have f: "rq_curr (cpu_rq ?k1 c) = cur" "rq_ltr (cpu_rq ?k1 d) = rq_ltr (cpu_rq k d)"
    "k_entropy ?k1 = k_entropy k" "k_tasks ?k1 = k_tasks k" "k_links ?k1 = k_links k"
    "k_this_cpu ?k1 = k_this_cpu k" for d
    using cur by simp_all
  have fc: "rq_curr (cpu_rq ?k1 d) = rq_curr (cpu_rq k d)" for d by simp
  obtain k2 where k2: "task_tick_lottery env c cur 0 ?k1 = Some k2"
    "t_need_resched (tsk k2 cur) \<longleftrightarrow> t_need_resched (tsk k cur) \<or> ?go"
    "\<forall>q. q \<noteq> cur \<longrightarrow> tsk k2 q = tsk k q" "\<forall>q. \<exists>b. tsk k2 q = (tsk k q)\<lparr>t_need_resched := b\<rparr>"
    "k_links k2 = k_links k" "k_rqs k2 = k_rqs ?k1" "k_this_cpu k2 = k_this_cpu k"
    using tick_effect[of env c cur 0 ?k1, unfolded f] by (elim exE conjE) (rule that)
  obtain lat k3 where k3: "(if e_latency_warn env then cpu_resched_latency env c k2 else (0, k2)) =
      (lat, k3)" by fastforce
  then have fr: "k_tasks k3 = k_tasks k2" "k_links k3 = k_links k2"
    "rq_ltr (cpu_rq k3 d) = rq_ltr (cpu_rq k2 d)" "rq_curr (cpu_rq k3 d) = rq_curr (cpu_rq k2 d)"
    "k_this_cpu k3 = k_this_cpu k2" for d
    using cpu_resched_latency_frame[of env c k2] by (metis snd_conv)+
  obtain k' where k': "scheduler_tick env k = Some k'" "k_tasks k' = k_tasks k2"
    "k_links k' = k_links k2" "\<forall>d. rq_ltr (cpu_rq k' d) = rq_ltr (cpu_rq k2 d)"
    "rq_curr (cpu_rq k' c) = rq_curr (cpu_rq k2 c)" "k_this_cpu k' = k_this_cpu k2"
    using k2(1) assms(3) cur k3 fr by (simp add: scheduler_tick_def Let_def assms(1)[symmetric])
  have "t_ltr (tsk k2 q) = t_ltr (tsk k q)" for q
    using spec[OF k2(4), of q] by auto
  then have "ltr_queue dll c k' ps \<longleftrightarrow> ltr_queue dll c k ps" for dll ps
    using k' k2(5,6) f(2) by (intro ltr_queue_cong) simp_all
  with k' k2(2,3,4,6,7) fc assms(1) show ?thesis by simp
qed

end
