(* ===== verification/Schedule_Props.thy ===== *)
theory Schedule_Props
  imports Schedule_Lottery
begin

text \<open>
  The properties of the scheduler core on lottery tasks: activation, preemption, the tick, the
  pass of \<open>__schedule\<close> and the loop of \<open>schedule()\<close>; and where the class does not fit the
  core: the NULL hooks it calls on SMP, and the fast path that passes a queued lottery task over.
\<close>

section \<open>Activation and preemption\<close>

text \<open>Activating a lottery task that is not queued appends it to the lottery queue of the
  runqueue and marks it queued; deactivating it for sleep removes it again. Neither touches another
  task, and neither changes \<open>nr_running\<close> of any runqueue.\<close>

theorem lottery_activate_deactivate:
  assumes "linux_list (e_list env) dll" and "ltr_queue dll c k ps" and "p \<notin> set ps"
    and "t_class (tsk k p) = Lottery_class"
  shows "\<exists>k1 k2. activate_task env c p fl k = Some k1 \<and> ltr_queue dll c k1 (ps @ [p]) \<and>
      t_on_rq (tsk k1 p) = TASK_ON_RQ_QUEUED \<and>
    deactivate_task env c p DEQUEUE_SLEEP k1 = Some k2 \<and> ltr_queue dll c k2 ps \<and>
      t_on_rq (tsk k2 p) = 0 \<and>
    (\<forall>q. q \<noteq> p \<longrightarrow> tsk k1 q = tsk k q \<and> tsk k2 q = tsk k q) \<and>
    (\<forall>d. rq_nr_running (cpu_rq k1 d) = rq_nr_running (cpu_rq k d) \<and>
         rq_nr_running (cpu_rq k2 d) = rq_nr_running (cpu_rq k d))"
proof -
  obtain k1 where k1: "activate_task env c p fl k = Some k1" "ltr_queue dll c k1 (ps @ [p])"
    "ltr_frame c (upd_task p (\<lambda>t. t\<lparr>t_on_rq := TASK_ON_RQ_QUEUED\<rparr>) k) k1"
    using assms by (rule lottery_activate)
  have "t_class (tsk k1 p) = Lottery_class" "p \<in> set (ps @ [p])"
    using assms(4) ltr_frameD(1)[OF k1(3)] by simp_all
  then obtain k2 where k2: "deactivate_task env c p DEQUEUE_SLEEP k1 = Some k2"
    "ltr_queue dll c k2 (remove1 p (ps @ [p]))"
    "ltr_frame c (upd_task p (\<lambda>t. t\<lparr>t_on_rq := (if has_flag DEQUEUE_SLEEP DEQUEUE_SLEEP then 0
        else TASK_ON_RQ_MIGRATING)\<rparr>) k1) k2"
    using lottery_deactivate[OF assms(1) k1(2)] by blast
  have "has_flag DEQUEUE_SLEEP DEQUEUE_SLEEP" by (simp add: has_flag_def DEQUEUE_SLEEP_def)
  with k1 k2 assms(3) ltr_frameD(1,6)[OF k1(3)] ltr_frameD(1,6)[OF k2(3)]
  show ?thesis by (intro exI[of _ k1] exI[of _ k2]) (simp add: remove1_append)
qed

theorem lottery_activate_deactivate_witness:
  "\<exists>k1 k2. activate_task env0 0 4 0 trio0 = Some k1 \<and> ltr_queue heap_dll 0 k1 [1, 2, 3, 4] \<and>
     deactivate_task env0 0 4 DEQUEUE_SLEEP k1 = Some k2 \<and> ltr_queue heap_dll 0 k2 [1, 2, 3]"
proof -
  have "(4 :: tid) \<notin> set [1, 2, 3]" "t_class (tsk trio0 4) = Lottery_class"
    by (simp_all add: kernel0_def task0_def)
  from lottery_activate_deactivate[OF linux_list_env0 trio0_run(2) this, of 0]
  show ?thesis by auto
qed

text \<open>A waking lottery task preempts a current task of any other class, whatever its
  priority, and never a lottery task; no task of another class preempts a lottery task.\<close>

theorem lottery_preempts_others:
  assumes "cur = rq_curr (cpu_rq k c)"
    and "t_class (tsk k p) = Lottery_class \<or> t_class (tsk k cur) = Lottery_class"
  shows "\<exists>k'. check_preempt_curr env c p fl k = Some k' \<and>
    (t_need_resched (tsk k' cur) \<longleftrightarrow> t_need_resched (tsk k cur) \<or>
       (t_class (tsk k p) = Lottery_class \<and> t_class (tsk k cur) \<noteq> Lottery_class)) \<and>
    (\<forall>q. q \<noteq> cur \<longrightarrow> tsk k' q = tsk k q)"
proof -
  have le: "s \<le> Lottery_class" for s by (cases s) (simp_all add: less_eq_sched_class_def)
  consider "t_class (tsk k p) = Lottery_class" "t_class (tsk k cur) = Lottery_class"
    | "t_class (tsk k p) = Lottery_class" "t_class (tsk k cur) < Lottery_class"
    | "t_class (tsk k p) < Lottery_class" "t_class (tsk k cur) = Lottery_class"
    using assms(2) le by (metis order_le_less)
  then show ?thesis
    by cases (auto simp: check_preempt_curr_def cl_def Let_def check_preempt_curr_lottery_def
        rq_clock_skip_update_def assms(1)[symmetric])
qed

theorem lottery_preempts_others_witness:
  "\<exists>k'. check_preempt_curr env0 0 1 0 kernel0 = Some k' \<and> t_need_resched (tsk k' 0)"
proof -
  have "t_class (tsk kernel0 1) = Lottery_class" "t_class (tsk kernel0 0) = Idle_class"
    "rq_curr (cpu_rq kernel0 0) = 0"
    by (simp_all add: kernel0_def task0_def rq0_def)
  then show ?thesis using lottery_preempts_others[of 0 kernel0 0 1 env0 0] by auto
qed

section \<open>The pass of the scheduler\<close>

text \<open>C5: On a UP kernel a pass of \<open>__schedule\<close> from a lottery task returns; a task that blocks
  has left the queue, and the task that runs next is the owner of the ticket drawn from the
  tasks still queued. The previous task's reschedule flag is cleared, no other flag changes, and
  the switch is counted exactly when the task changes.\<close>

theorem schedule_draws:
  assumes "linux_list (e_list env) dll" and "\<not> e_smp env"
    and "c = k_this_cpu k" and "prev = current_task k" and "t_class (tsk k prev) = Lottery_class"
    and "ltr_queue dll c k ps"
    and "blocks mode k \<Longrightarrow> prev \<in> set ps \<and> (\<forall>s k. \<not> e_signal_pending_state env s prev k)"
    and "qs = (if blocks mode k then remove1 prev ps else ps)"
    and "all_lottery (k_tasks k) qs" and "length (drum (k_tasks k) qs) < 2 ^ 32"
    and "drum (k_tasks k) qs \<noteq> []"
    and "p = drum (k_tasks k) qs ! (unat (k_entropy k 0) mod length (drum (k_tasks k) qs))"
  shows "\<exists>k'. schedule_once env mode k = Some k' \<and> current_task k' = p \<and> ltr_queue dll c k' qs \<and>
    (\<forall>q. t_need_resched (tsk k' q) = (q \<noteq> prev \<and> t_need_resched (tsk k q))) \<and>
    rq_nr_switches (cpu_rq k' c) = rq_nr_switches (cpu_rq k c) + (if p = prev then 0 else 1) \<and>
    (blocks mode k \<longrightarrow> t_on_rq (tsk k' prev) = 0)"
  using schedule_once_up[OF assms] by blast

text \<open>Task 1 runs and goes to sleep; the word 8 draws ticket 8 of the ten left.\<close>

definition sleeper0 :: "(unit, list_heap) kernel" where
  "sleeper0 = upd_rq 0 (\<lambda>r. r\<lparr>rq_curr := 1\<rparr>)
     (upd_task 1 (\<lambda>t. t\<lparr>t_state := TASK_INTERRUPTIBLE, t_need_resched := True\<rparr>) trio0)"

lemma sleeper0_facts:
  "k_this_cpu sleeper0 = 0" "current_task sleeper0 = 1"
  "t_class (tsk sleeper0 1) = Lottery_class" "ltr_queue heap_dll 0 sleeper0 [1, 2, 3]"
  "blocks SM_NONE sleeper0" "all_lottery (k_tasks sleeper0) [2, 3]"
  "drum (k_tasks sleeper0) [2, 3] = [2,2,2,2,2, 3,3,3,3,3]" "unat (k_entropy sleeper0 0) = 8"
proof -
  show cpu: "k_this_cpu sleeper0 = 0" and cur: "current_task sleeper0 = 1"
    by (simp_all add: sleeper0_def current_task_def)
  show "ltr_queue heap_dll 0 sleeper0 [1, 2, 3]" using trio0_run(2)
    by (simp add: sleeper0_def ltr_queue_upd_rq ltr_queue_upd_task)
  show "blocks SM_NONE sleeper0"
    unfolding blocks_def cur
    by (simp add: SM_NONE_def has_flag_def sleeper0_def task_state_defs)
  have "unat (tickets sleeper0 p) = 5" for p
    by (simp add: sleeper0_def kernel0_def task0_def)
  then show "drum (k_tasks sleeper0) [2, 3] = [2,2,2,2,2, 3,3,3,3,3]"
    by (simp add: numeral_eq_Suc)
qed (simp_all add: sleeper0_def all_lottery_def kernel0_def task0_def)

theorem schedule_draws_witness:
  "\<exists>k'. schedule_once env0 SM_NONE sleeper0 = Some k' \<and> current_task k' = 3 \<and>
     ltr_queue heap_dll 0 k' [2, 3] \<and> t_on_rq (tsk k' 1) = 0"
proof -
  have up: "\<not> e_smp env0" and sig: "\<forall>s k. \<not> e_signal_pending_state env0 s p k" for p
    by (simp_all add: env0_def)
  have "[2, 3] = (if blocks SM_NONE sleeper0 then remove1 1 [1, 2, 3] else [1, 2, 3 :: tid])"
    by (simp add: sleeper0_facts)
  from schedule_draws[OF linux_list_env0 up sleeper0_facts(1,2)[symmetric] sleeper0_facts(3,4) _ this,
      of 3] sig
  show ?thesis by (auto simp: sleeper0_facts simp del: drum_Cons)
qed

text \<open>C6: \<open>schedule()\<close> called by a running lottery task on a UP kernel returns after one pass
  of its loop, whatever fuel it is given, when no other queued task carries the reschedule flag. The task
  that runs then is the owner of the drawn ticket, the queue is as before, and the call ends with the
  worker update of that task.\<close>

theorem schedule_one_pass:
  assumes "linux_list (e_list env) dll" and "\<not> e_smp env"
    and "c = k_this_cpu k" and "prev = current_task k" and "t_class (tsk k prev) = Lottery_class"
    and "t_state (tsk k prev) = TASK_RUNNING" and "ltr_queue dll c k ps"
    and "all_lottery (k_tasks k) ps" and "length (drum (k_tasks k) ps) < 2 ^ 32"
    and "drum (k_tasks k) ps \<noteq> []"
    and "\<forall>q \<in> set ps. q \<noteq> prev \<longrightarrow> \<not> t_need_resched (tsk k q)"
  shows "\<exists>k'. current_task k' = drum (k_tasks k) ps ! (unat (k_entropy k 0) mod length (drum (k_tasks k) ps)) \<and>
    ltr_queue dll c k' ps \<and> \<not> t_need_resched (tsk k' (current_task k')) \<and>
    schedule (Suc n) env k = e_update_worker env (current_task k') k'"
proof -
  let ?d = "drum (k_tasks k) ps"
  let ?p = "?d ! (unat (k_entropy k 0) mod length ?d)"
  have nb: "\<not> blocks SM_NONE k"
    using assms(4,6) by (simp add: blocks_def TASK_RUNNING_def)
  have "?p \<in> set ?d" using assms(10) by (intro nth_mem) simp
  then have mem: "?p \<in> set ps" by (simp add: set_drum)
  obtain k' where k': "schedule_once env SM_NONE k = Some k'" "current_task k' = ?p"
    "ltr_queue dll c k' ps" "\<forall>q. t_need_resched (tsk k' q) = (q \<noteq> prev \<and> t_need_resched (tsk k q))"
    using schedule_once_up[OF assms(1-5,7), of SM_NONE ps ?p] nb assms(8-10) by auto
  then have "\<not> need_resched k'" using mem assms(11) by (auto simp: need_resched_def)
  then have "schedule (Suc n) env k = e_update_worker env (current_task k') k'"
    using assms(4,6) k'(1) by (simp add: schedule_def)
  with k' mem assms(11) show ?thesis by (intro exI[of _ k']) auto
qed

definition runner0 :: "(unit, list_heap) kernel" where
  "runner0 = upd_rq 0 (\<lambda>r. r\<lparr>rq_curr := 1\<rparr>) (upd_task 1 (\<lambda>t. t\<lparr>t_need_resched := True\<rparr>) trio0)"

lemma runner0_facts:
  "k_this_cpu runner0 = 0" "current_task runner0 = 1"
  "t_class (tsk runner0 1) = Lottery_class" "t_state (tsk runner0 1) = TASK_RUNNING"
  "ltr_queue heap_dll 0 runner0 [1, 2, 3]" "all_lottery (k_tasks runner0) [1, 2, 3]"
  "drum (k_tasks runner0) [1, 2, 3] = [1,1,1,1,1, 2,2,2,2,2, 3,3,3,3,3]"
  "\<forall>q \<in> set [1, 2, 3]. q \<noteq> 1 \<longrightarrow> \<not> t_need_resched (tsk runner0 q)"
proof -
  have "unat (tickets runner0 p) = 5" for p
    by (simp add: runner0_def kernel0_def task0_def)
  then show "drum (k_tasks runner0) [1, 2, 3] = [1,1,1,1,1, 2,2,2,2,2, 3,3,3,3,3]"
    by (simp add: numeral_eq_Suc)
  show "ltr_queue heap_dll 0 runner0 [1, 2, 3]" using trio0_run(2)
    by (simp add: runner0_def ltr_queue_upd_rq ltr_queue_upd_task)
qed (auto simp: runner0_def current_task_def all_lottery_def kernel0_def task0_def)

theorem schedule_one_pass_witness:
  "\<exists>k'. schedule (Suc 0) env0 runner0 = Some k' \<and> ltr_queue heap_dll 0 k' [1, 2, 3]"
proof -
  have up: "\<not> e_smp env0" and w: "e_update_worker env0 p k = Some k" for p k
    by (simp_all add: env0_def)
  from schedule_one_pass[where n = 0, OF linux_list_env0 up runner0_facts(1,2)[symmetric]
      runner0_facts(3-6) _ _ runner0_facts(8)]
  show ?thesis by (auto simp: runner0_facts w simp del: drum_Cons One_nat_def)
qed

section \<open>The tick\<close>

text \<open>C32: The scheduler tick on a CPU that runs a lottery task never fails. It asks for a
  reschedule exactly when more than one lottery task is queued and the random word is a multiple of
  ten, whatever tickets the tasks hold, and it changes neither the lottery queue nor any other task.\<close>

theorem scheduler_tick_lottery:
  assumes "c = k_this_cpu k" and "cur = current_task k" and "t_class (tsk k cur) = Lottery_class"
  shows "\<exists>k'. scheduler_tick env k = Some k' \<and>
    (t_need_resched (tsk k' cur) \<longleftrightarrow> t_need_resched (tsk k cur) \<or>
       (1 < lr_nr_running (rq_ltr (cpu_rq k c)) \<and> k_entropy k 0 mod 10 = 0)) \<and>
    (\<forall>q. q \<noteq> cur \<longrightarrow> tsk k' q = tsk k q) \<and>
    (\<forall>dll ps. ltr_queue dll c k' ps \<longleftrightarrow> ltr_queue dll c k ps)"
  using scheduler_tick_effect[OF assms, of env] by (elim exE conjE, intro exI conjI)

theorem scheduler_tick_lottery_witness:
  "\<exists>k'. scheduler_tick env0 runner0 = Some k' \<and> tsk k' 2 = tsk runner0 2 \<and>
     ltr_queue heap_dll 0 k' [1, 2, 3]"
  using scheduler_tick_lottery[OF runner0_facts(1,2)[symmetric] runner0_facts(3), of env0]
    runner0_facts(5) by auto

section \<open>Where the class does not fit the core\<close>

lemma schedule_block_class:
  assumes "schedule_block env c prev st k = Some k'" and "t_class (tsk k prev) = Lottery_class"
  shows "t_class (tsk k' prev) = Lottery_class"
proof (cases "e_signal_pending_state env st prev k")
  case True
  with assms show ?thesis by (auto simp: schedule_block_def)
next
  case False
  then obtain k1 k2 where d: "dequeue_task env c prev (DEQUEUE_SLEEP OR DEQUEUE_NOCLOCK) k1 = Some k2"
    and k1: "t_class (tsk k1 prev) = Lottery_class" and k2: "t_class (tsk k' prev) = t_class (tsk k2 prev)"
    using assms by (auto simp: schedule_block_def Let_def bind_Some_iff deactivate_task_def)
  obtain k3 where "dequeue_task env c prev (DEQUEUE_SLEEP OR DEQUEUE_NOCLOCK) k1 =
      dequeue_task_lottery env c prev (DEQUEUE_SLEEP OR DEQUEUE_NOCLOCK) k3" "ltr_frame c k1 k3"
    using k1 by (metis dequeue_task_lottery_core)
  with d k1 k2 show ?thesis by (metis lottery_frame_deq ltr_frameD(1))
qed

text \<open>C37: On an SMP kernel a pass of \<open>__schedule\<close> from a lottery task is always an oops, whether
  it blocks or is preempted: the balance loop calls the class's \<open>balance\<close> hook, which is
  NULL.\<close>

theorem schedule_smp_oops:
  assumes "e_smp env" and "t_class (tsk k (current_task k)) = Lottery_class"
  shows "schedule_once env mode k = None"
proof -
  let ?c = "k_this_cpu k" and ?prev = "current_task k"
  let ?k1 = "schedule_entry env mode ?c k"
  have prev: "rq_curr (cpu_rq k ?c) = ?prev" by (simp add: current_task_def)
  have cls: "t_class (tsk ?k1 ?prev) = Lottery_class" using assms(2)
    by (simp add: schedule_entry_state)
  have none: "pick_next_task env ?c ?prev k2 = None"
    if "(if vol then schedule_block env ?c ?prev st ?k1 else Some ?k1) = Some k2" for vol st k2
  proof (cases vol)
    case True
    with that cls have "t_class (tsk k2 ?prev) = Lottery_class"
      by (simp add: schedule_block_class)
    then show ?thesis by (rule pick_after_lottery_smp[OF assms(1)])
  qed (use that cls pick_after_lottery_smp[OF assms(1)] in simp)
  show ?thesis unfolding schedule_once_parts Let_def prev
    by (rule bind_None_all) (drule none, simp)
qed

theorem schedule_smp_oops_witness: "schedule_once (env0\<lparr>e_smp := True\<rparr>) SM_PREEMPT runner0 = None"
  by (rule schedule_smp_oops) (simp_all add: runner0_facts del: One_nat_def)

text \<open>C36: A lottery task activated on a CPU whose current task is the idle task, with no fair
  task queued, does not run: \<open>nr_running\<close> still equals the number of fair tasks, so the fast
  path takes the idle task again although the lottery queue holds the task.\<close>

theorem lottery_task_starves:
  assumes "linux_list (e_list env) dll" and "ltr_queue dll c k ps" and "p \<notin> set ps"
    and "t_class (tsk k p) = Lottery_class"
    and "idle = rq_idle (cpu_rq k c)" and "rq_curr (cpu_rq k c) = idle"
    and "t_class (tsk k idle) = Idle_class"
    and "rq_nr_running (cpu_rq k c) = rq_cfs_h_nr_running (cpu_rq k c)"
    and "\<And>k. e_pick_next_task_fair env c idle k = Some (Picked None, k)"
    and "\<And>k. e_pick_next_task_idle env c k = Some (rq_idle (cpu_rq k c), k)"
    and "vt_put_prev_task (e_class env Idle_class) = Some (\<lambda>c p k. Some k)"
  shows "\<exists>k1. activate_task env c p fl k = Some k1 \<and> ltr_queue dll c k1 (ps @ [p]) \<and>
    pick_next_task env c idle k1 = Some (idle, k1)"
proof -
  obtain k1 where k1: "activate_task env c p fl k = Some k1" "ltr_queue dll c k1 (ps @ [p])"
    "ltr_frame c (upd_task p (\<lambda>t. t\<lparr>t_on_rq := TASK_ON_RQ_QUEUED\<rparr>) k) k1"
    using assms(1-4) by (rule lottery_activate)
  note fr = ltr_frameD[OF k1(3)]
  have "p \<noteq> idle" using assms(4,7) by auto
  then have "t_class (tsk k1 idle) = Idle_class" using fr(1) assms(7) by simp
  moreover have "Idle_class \<le> Fair_class" by (simp add: less_eq_sched_class_def)
  ultimately have "pick_next_task env c idle k1 = Some (idle, k1)"
    using assms(5,6,8-11) fr
    by (simp add: pick_next_task_def put_prev_task_def cl_def class_vt_def)
  with k1 show ?thesis by blast
qed

theorem lottery_task_starves_witness:
  "\<exists>k1. activate_task env0 0 1 ENQUEUE_WAKEUP boot0 = Some k1 \<and> ltr_queue heap_dll 0 k1 [1] \<and>
     pick_next_task env0 0 0 k1 = Some (0, k1)"
proof -
  have "\<exists>k1. activate_task env0 0 1 ENQUEUE_WAKEUP boot0 = Some k1 \<and>
     ltr_queue heap_dll 0 k1 ([] @ [1]) \<and> pick_next_task env0 0 0 k1 = Some (0, k1)"
    by (rule lottery_task_starves[OF linux_list_env0 boot0_queue])
      (simp_all add: boot0_def init_ltr_rq_def kernel0_def task0_def rq0_def upd_ltr_def env0_def
        idle_vtable_def empty_vtable_def)
  then show ?thesis by simp
qed

text \<open>Reading the runtime of a lottery task that is running and marked queued is an oops on
  every kernel: \<open>task_sched_runtime\<close> calls \<open>update_curr\<close>, which is NULL for the class. For
  a lottery task that is not running it is the accumulated runtime, and nothing changes.\<close>

theorem lottery_runtime_oops:
  assumes "t_class (tsk k p) = Lottery_class"
  shows "task_sched_runtime env p k =
    (if rq_curr (cpu_rq k (task_cpu k p)) = p \<and> t_on_rq (tsk k p) = TASK_ON_RQ_QUEUED then None
     else Some (t_sum_exec_runtime (tsk k p), k))"
  using assms by (simp add: task_sched_runtime_def Let_def task_current_def task_on_rq_queued_def)

theorem lottery_runtime_oops_witness:
  "task_sched_runtime env0 1 (upd_task 1 (\<lambda>t. t\<lparr>t_on_rq := TASK_ON_RQ_QUEUED\<rparr>) runner0) = None"
proof -
  have "t_class (tsk (upd_task 1 (\<lambda>t. t\<lparr>t_on_rq := TASK_ON_RQ_QUEUED\<rparr>) runner0) 1) = Lottery_class"
    by (simp add: runner0_facts del: One_nat_def)
  from lottery_runtime_oops[OF this, of env0] runner0_facts(2)
  show ?thesis by (simp add: task_cpu_def runner0_def kernel0_def task0_def current_task_def)
qed

end
