(* ===== verification/Prio.thy ===== *)
theory Prio
  imports Core_Queue
begin

text \<open>
  Priority changes of \<open>core.c\<close> (lines 6804 to 7240): the class a policy and a priority select,
  priority inheritance (\<open>rt_mutex_setprio\<close>), nice values, the idle tests and the effective
  utilization of a CPU.
\<close>

section \<open>Choosing the class\<close>

(* core.c 6804-6819: __setscheduler_prio *)
definition setscheduler_prio :: "tid \<Rightarrow> int \<Rightarrow> ('x, 'l) kernel \<Rightarrow> ('x, 'l) kernel" where
  "setscheduler_prio p pr k =
     (if t_policy (tsk k p) = SCHED_LOTTERY
      then upd_task p (\<lambda>t. t\<lparr>t_class := Lottery_class, t_prio := pr\<rparr>) k
      else upd_task p (\<lambda>t. t\<lparr>t_class := (if dl_prio pr then Dl_class
                              else if rt_prio pr then Rt_class else Fair_class),
                             t_prio := pr\<rparr>) k)"

section \<open>Priority inheritance\<close>

(* sched.h 234-234: SCHED_FLAG_SUGOV *)
definition SCHED_FLAG_SUGOV :: u64 where "SCHED_FLAG_SUGOV = 0x10000000"

(* sched.h 238-245: dl_entity_is_special *)
definition dl_entity_is_special :: "('x, 'l, 'm) env_scheme \<Rightarrow> task \<Rightarrow> bool" where
  "dl_entity_is_special env t \<longleftrightarrow> e_sugov env \<and> has_flag (t_dl_flags t) SCHED_FLAG_SUGOV"

text \<open>\<open>dl_time_before(a, b)\<close> is \<open>(s64)(a - b) < 0\<close>.\<close>

(* sched.h 250-255: dl_entity_preempt *)
definition dl_entity_preempt :: "('x, 'l, 'm) env_scheme \<Rightarrow> task \<Rightarrow> task \<Rightarrow> bool" where
  "dl_entity_preempt env a b \<longleftrightarrow>
     dl_entity_is_special env a \<or> sint (t_dl_deadline a - t_dl_deadline b) < 0"

(* core.c 6823-6829: __rt_effective_prio *)
definition rt_effective_prio_of :: "('x, 'l) kernel \<Rightarrow> tid option \<Rightarrow> int \<Rightarrow> int" where
  "rt_effective_prio_of k pi_task pr =
     (case pi_task of Some q \<Rightarrow> min pr (t_prio (tsk k q)) | None \<Rightarrow> pr)"

text \<open>\<open>rt_mutex_get_top_task(p)\<close> is \<open>p->pi_top_task\<close>.\<close>

(* core.c 6831-6836: rt_effective_prio#1 *)
definition rt_effective_prio :: "('x, 'l, 'm) env_scheme \<Rightarrow> ('x, 'l) kernel \<Rightarrow> tid \<Rightarrow> int \<Rightarrow> int" where
  "rt_effective_prio env k p pr =
     (if e_rt_mutexes env then rt_effective_prio_of k (t_pi_top_task (tsk k p)) pr else pr)"

text \<open>The deadline part of a boost: the entity whose parameters are used and the flag for the
  enqueue. A deadline priority that is not the task's own comes from a donor, so a NULL donor is
  dereferenced only outside that contract.\<close>

(* core.c !6927-6946: rt_mutex_setprio (boost) *)
definition pi_boost_entity ::
    "('x, 'l, 'm) env_scheme \<Rightarrow> tid \<Rightarrow> tid option \<Rightarrow> int \<Rightarrow> int \<Rightarrow> u32 \<Rightarrow> ('x, 'l) kernel \<Rightarrow>
     (u32 \<times> ('x, 'l) kernel) option" where
  "pi_boost_entity env p pi_task prio oldprio queue_flag k =
     (if dl_prio prio then
        (if \<not> dl_prio (t_normal_prio (tsk k p)) \<or>
            (case pi_task of None \<Rightarrow> False
             | Some q \<Rightarrow> dl_prio (t_prio (tsk k q)) \<and> dl_entity_preempt env (tsk k q) (tsk k p))
         then do {
           q \<leftarrow> pi_task;
           Some (queue_flag OR ENQUEUE_REPLENISH,
                 upd_task p (\<lambda>t. t\<lparr>t_dl_pi_se := t_dl_pi_se (tsk k q)\<rparr>) k)
         } else Some (queue_flag, upd_task p (\<lambda>t. t\<lparr>t_dl_pi_se := p\<rparr>) k))
      else if rt_prio prio then
        Some (if oldprio < prio then queue_flag OR ENQUEUE_HEAD else queue_flag,
              if dl_prio oldprio then upd_task p (\<lambda>t. t\<lparr>t_dl_pi_se := p\<rparr>) k else k)
      else
        let k = (if dl_prio oldprio then upd_task p (\<lambda>t. t\<lparr>t_dl_pi_se := p\<rparr>) k else k);
            k = (if rt_prio oldprio then upd_task p (\<lambda>t. t\<lparr>t_rt_timeout := 0\<rparr>) k else k)
        in Some (queue_flag, k))"

text \<open>From the test of the running and queued state to the class change.\<close>

(* core.c !6905-6955: rt_mutex_setprio (change) *)
definition pi_change_prio ::
    "('x, 'l, 'm) env_scheme \<Rightarrow> cpu \<Rightarrow> tid \<Rightarrow> tid option \<Rightarrow> int \<Rightarrow> ('x, 'l) kernel \<Rightarrow>
     ('x, 'l) kernel option" where
  "pi_change_prio env c p pi_task prio k = do {
     let oldprio = t_prio (tsk k p);
     let queue_flag = DEQUEUE_SAVE OR DEQUEUE_MOVE OR DEQUEUE_NOCLOCK;
     let queue_flag = (if oldprio = prio then clear_flag queue_flag DEQUEUE_MOVE else queue_flag);
     let prev_class = t_class (tsk k p);
     let queued = task_on_rq_queued k p;
     let running = task_current k c p;
     k \<leftarrow> (if queued then dequeue_task env c p queue_flag k else Some k);
     k \<leftarrow> (if running then put_prev_task env c p k else Some k);
     (queue_flag, k) \<leftarrow> pi_boost_entity env p pi_task prio oldprio queue_flag k;
     let k = setscheduler_prio p prio k;
     k \<leftarrow> (if queued then enqueue_task env c p queue_flag k else Some k);
     k \<leftarrow> (if running then set_next_task env c p k else Some k);
     check_class_changed env c p prev_class oldprio k
   }"

(* core.c 6849-6965: rt_mutex_setprio *)
definition rt_mutex_setprio ::
    "('x, 'l, 'm) env_scheme \<Rightarrow> tid \<Rightarrow> tid option \<Rightarrow> ('x, 'l) kernel \<Rightarrow> ('x, 'l) kernel option"
where
  "rt_mutex_setprio env p pi_task k =
     (let prio = rt_effective_prio_of k pi_task (t_normal_prio (tsk k p)) in
      if t_pi_top_task (tsk k p) = pi_task \<and> prio = t_prio (tsk k p) \<and> \<not> dl_prio prio then Some k
      else do {
        let c = task_cpu k p;
        let k = update_rq_clock env c k;
        let k = upd_task p (\<lambda>t. t\<lparr>t_pi_top_task := pi_task\<rparr>) k;
        k \<leftarrow> (if prio = t_prio (tsk k p) \<and> \<not> dl_prio prio then Some k
              else if p = rq_idle (cpu_rq k c)
              then Some (warn_on ''rt_mutex_setprio: idle'' (p \<noteq> rq_curr (cpu_rq k c)) k)
              else pi_change_prio env c p pi_task prio k);
        balance_callbacks_now env c k
      })"

section \<open>Nice values\<close>

(* core.c 6973-7024: set_user_nice *)
definition set_user_nice ::
    "('x, 'l, 'm) env_scheme \<Rightarrow> tid \<Rightarrow> int \<Rightarrow> ('x, 'l) kernel \<Rightarrow> ('x, 'l) kernel option" where
  "set_user_nice env p nice k =
     (if task_nice (tsk k p) = nice \<or> nice < MIN_NICE \<or> nice > MAX_NICE then Some k
      else do {
        let c = task_cpu k p;
        let k = update_rq_clock env c k;
        if task_has_dl_policy (tsk k p) \<or> task_has_rt_policy (tsk k p)
        then Some (upd_task p (\<lambda>t. t\<lparr>t_static_prio := NICE_TO_PRIO nice\<rparr>) k)
        else do {
          let queued = task_on_rq_queued k p;
          let running = task_current k c p;
          k \<leftarrow> (if queued then dequeue_task env c p (DEQUEUE_SAVE OR DEQUEUE_NOCLOCK) k else Some k);
          k \<leftarrow> (if running then put_prev_task env c p k else Some k);
          let k = upd_task p (\<lambda>t. t\<lparr>t_static_prio := NICE_TO_PRIO nice\<rparr>) k;
          k \<leftarrow> set_load_weight env p True k;
          let old_prio = t_prio (tsk k p);
          let (pr, k) = effective_prio p k;
          let k = upd_task p (\<lambda>t. t\<lparr>t_prio := pr\<rparr>) k;
          k \<leftarrow> (if queued then enqueue_task env c p (ENQUEUE_RESTORE OR ENQUEUE_NOCLOCK) k else Some k);
          k \<leftarrow> (if running then set_next_task env c p k else Some k);
          f \<leftarrow> vt_prio_changed (cl env k p);
          f c p old_prio k
        }
      })"

definition CAP_SYS_NICE :: int where "CAP_SYS_NICE = 23"

text \<open>\<open>nice_to_rlimit(nice)\<close>: 19 to -20 becomes 1 to 40; compared with an \<open>unsigned long\<close>.\<close>

definition nice_to_rlimit :: "int \<Rightarrow> int" where "nice_to_rlimit nice = MAX_NICE - nice + 1"

(* core.c 7032-7039: can_nice *)
definition can_nice :: "('x, 'l, 'm) env_scheme \<Rightarrow> ('x, 'l) kernel \<Rightarrow> tid \<Rightarrow> int \<Rightarrow> bool" where
  "can_nice env k p nice \<longleftrightarrow>
     (word_of_int (nice_to_rlimit nice) :: u32) \<le> e_rlimit_nice env p k \<or> e_capable env CAP_SYS_NICE k"

(* core.c 7050-7072: SYSCALL_DEFINE1(nice *)
definition sys_nice ::
    "('x, 'l, 'm) env_scheme \<Rightarrow> int \<Rightarrow> ('x, 'l) kernel \<Rightarrow> (int \<times> ('x, 'l) kernel) option" where
  "sys_nice env increment k = do {
     let increment = clamp_val increment (- NICE_WIDTH) NICE_WIDTH;
     let me = current_task k;
     let nice = task_nice (tsk k me) + increment;
     let nice = clamp_val nice MIN_NICE MAX_NICE;
     if increment < 0 \<and> \<not> can_nice env k me nice then Some (- EPERM, k)
     else do {
       let retval = e_security_task_setnice env me nice k;
       if retval \<noteq> 0 then Some (retval, k)
       else do {
         k \<leftarrow> set_user_nice env me nice k;
         Some (0, k)
       }
     }
   }"

(* core.c 7088-7091: task_prio *)
definition task_prio :: "task \<Rightarrow> int" where "task_prio t = t_prio t - MAX_RT_PRIO"

section \<open>Idle CPUs\<close>

(* core.c 7099-7115: idle_cpu *)
definition idle_cpu :: "('x, 'l, 'm) env_scheme \<Rightarrow> ('x, 'l) kernel \<Rightarrow> cpu \<Rightarrow> bool" where
  "idle_cpu env k c =
     (let r = cpu_rq k c in
      if rq_curr r \<noteq> rq_idle r then False
      else if rq_nr_running r \<noteq> 0 then False
      else if e_smp env \<and> rq_ttwu_pending r then False
      else True)"

(* core.c 7123-7132: available_idle_cpu *)
definition available_idle_cpu :: "('x, 'l, 'm) env_scheme \<Rightarrow> ('x, 'l) kernel \<Rightarrow> cpu \<Rightarrow> bool" where
  "available_idle_cpu env k c =
     (if \<not> idle_cpu env k c then False else if e_vcpu_is_preempted env c k then False else True)"

(* core.c 7140-7143: idle_task *)
definition idle_task :: "('x, 'l) kernel \<Rightarrow> cpu \<Rightarrow> tid" where
  "idle_task k c = rq_idle (cpu_rq k c)"

section \<open>The utilization of a CPU\<close>

(* sched.h !3047-3050: enum cpu_util_type *)
datatype cpu_util_type = FREQUENCY_UTIL | ENERGY_UTIL

(* sched.h 685-688: rt_rq_is_runnable *)
definition rt_rq_is_runnable :: "rq \<Rightarrow> bool" where
  "rt_rq_is_runnable r \<longleftrightarrow> rq_rt_queued r \<noteq> 0 \<and> rq_rt_nr_running r \<noteq> 0"

(* sched.h 3056-3059: cpu_bw_dl *)
definition cpu_bw_dl :: "rq \<Rightarrow> u32" where
  "cpu_bw_dl r = ucast (drop_bit 20 (rq_dl_running_bw r * ucast SCHED_CAPACITY_SCALE))"

(* sched.h 3061-3064: cpu_util_dl *)
definition cpu_util_dl :: "rq \<Rightarrow> u32" where "cpu_util_dl r = rq_avg_dl r"

(* sched.h 3066-3076: cpu_util_cfs *)
definition cpu_util_cfs :: "('x, 'l, 'm) env_scheme \<Rightarrow> rq \<Rightarrow> u32" where
  "cpu_util_cfs env r =
     (if e_util_est env then max (rq_cfs_util_avg r) (rq_cfs_util_est r) else rq_cfs_util_avg r)"

(* sched.h 3078-3081: cpu_util_rt *)
definition cpu_util_rt :: "rq \<Rightarrow> u32" where "cpu_util_rt r = rq_avg_rt r"

(* sched.h 3085-3088: cpu_util_irq#1 *)
definition cpu_util_irq :: "('x, 'l, 'm) env_scheme \<Rightarrow> rq \<Rightarrow> u32" where
  "cpu_util_irq env r = (if e_sched_avg_irq env then rq_avg_irq r else 0)"

(* sched.h 3090-3098: scale_irq_capacity#1 *)
definition scale_irq_capacity :: "('x, 'l, 'm) env_scheme \<Rightarrow> u32 \<Rightarrow> u32 \<Rightarrow> u32 \<Rightarrow> u32" where
  "scale_irq_capacity env util irq mx =
     (if e_sched_avg_irq env then util * (mx - irq) div mx else util)"

(* core.c 7166-7250: effective_cpu_util *)
definition effective_cpu_util ::
    "('x, 'l, 'm) env_scheme \<Rightarrow> ('x, 'l) kernel \<Rightarrow> cpu \<Rightarrow> u32 \<Rightarrow> u32 \<Rightarrow> cpu_util_type \<Rightarrow> tid option \<Rightarrow> u32"
where
  "effective_cpu_util env k c util_cfs mx type p =
     (let r = cpu_rq k c in
      if \<not> (e_uclamp env \<and> k_uclamp_used k) \<and> type = FREQUENCY_UTIL \<and> rt_rq_is_runnable r then mx
      else
       let irq = cpu_util_irq env r in
       if irq \<ge> mx then mx
       else
        let util = util_cfs + cpu_util_rt r;
            util = (if type = FREQUENCY_UTIL then uclamp_rq_util_with env k c util p else util);
            dl_util = cpu_util_dl r
        in if util + dl_util \<ge> mx then mx
           else
            let util = (if type = ENERGY_UTIL then util + dl_util else util);
                util = scale_irq_capacity env util irq mx + irq;
                util = (if type = FREQUENCY_UTIL then util + cpu_bw_dl r else util)
            in min mx util)"

(* core.c 7252-7256: sched_cpu_util *)
definition sched_cpu_util :: "('x, 'l, 'm) env_scheme \<Rightarrow> ('x, 'l) kernel \<Rightarrow> cpu \<Rightarrow> u32 \<Rightarrow> u32" where
  "sched_cpu_util env k c mx =
     effective_cpu_util env k c (cpu_util_cfs env (cpu_rq k c)) mx ENERGY_UTIL None"

end
