(* ===== verification/Setscheduler.thy ===== *)
theory Setscheduler
  imports Prio
begin

text \<open>
  Changing policy and priority (\<open>core.c\<close>, lines 7265 to 8010): \<open>__sched_setscheduler\<close> and the
  functions and system calls on top of it.

  The function checks its arguments unlocked, takes the runqueue lock and starts over when the
  policy it worked with changed in between. The change other CPUs make before each lock is an
  argument, a list of state transformers with one for each time the lock is taken; when the list is
  used up nothing changes any more.

  A user pointer is an option of what reading it delivers: \<open>None\<close> is NULL, \<open>Some None\<close> faults.
\<close>

section \<open>Parameters of a task\<close>

(* core.c 7274-7274: SETPARAM_POLICY *)
definition SETPARAM_POLICY :: int where "SETPARAM_POLICY = -1"

(* core.c 7265-7268: find_process_by_pid *)
definition find_process_by_pid ::
    "('x, 'l, 'm) env_scheme \<Rightarrow> int \<Rightarrow> ('x, 'l) kernel \<Rightarrow> tid option" where
  "find_process_by_pid env pid k =
     (if pid \<noteq> 0 then e_find_task env pid k else Some (current_task k))"

(* core.c 7276-7299: __setscheduler_params *)
definition setscheduler_params ::
    "('x, 'l, 'm) env_scheme \<Rightarrow> tid \<Rightarrow> sched_attr \<Rightarrow> ('x, 'l) kernel \<Rightarrow> ('x, 'l) kernel option"
where
  "setscheduler_params env p attr k =
     (let policy = sint (sa_policy attr);
          policy = (if policy = SETPARAM_POLICY then t_policy (tsk k p) else policy);
          k = upd_task p (\<lambda>t. t\<lparr>t_policy := policy\<rparr>) k;
          k = (if dl_policy policy
               then let (x, fl) = e_setparam_dl env p attr k
                    in upd_task p (\<lambda>t. t\<lparr>t_dl_flags := fl\<rparr>) (k\<lparr>k_ext := x\<rparr>)
               else if fair_policy policy
               then upd_task p (\<lambda>t. t\<lparr>t_static_prio := NICE_TO_PRIO (sint (sa_nice attr))\<rparr>) k
               else k);
          k = upd_task p (\<lambda>t. t\<lparr>t_rt_priority := sa_priority attr\<rparr>) k;
          k = upd_task p (\<lambda>t. t\<lparr>t_normal_prio := normal_prio t\<rparr>) k
      in set_load_weight env p True k)"

(* core.c 7304-7315: check_same_owner *)
definition check_same_owner :: "('x, 'l) kernel \<Rightarrow> tid \<Rightarrow> bool" where
  "check_same_owner k p \<longleftrightarrow>
     (let me = tsk k (current_task k) in
      t_euid me = t_euid (tsk k p) \<or> t_euid me = t_uid (tsk k p))"

section \<open>The checks before the lock\<close>

text \<open>The policy and the reset-on-fork flag to work with, and the policy to re-check under the
  lock (-1: nothing to re-check).\<close>

(* core.c !7333-7343: __sched_setscheduler (recheck) *)
definition setscheduler_policy ::
    "tid \<Rightarrow> sched_attr \<Rightarrow> int \<Rightarrow> ('x, 'l) kernel \<Rightarrow> int + (bool \<times> int \<times> int)" where
  "setscheduler_policy p attr policy k =
     (if policy < 0 then Inr (t_reset_on_fork (tsk k p), t_policy (tsk k p), t_policy (tsk k p))
      else if \<not> valid_policy policy then Inl (- EINVAL)
      else Inr (has_flag (sa_flags attr) SCHED_FLAG_RESET_ON_FORK, policy, -1))"

(* core.c !7345-7358: __sched_setscheduler (attributes) *)
definition setscheduler_attr_ok :: "('x, 'l, 'm) env_scheme \<Rightarrow> sched_attr \<Rightarrow> int \<Rightarrow> bool" where
  "setscheduler_attr_ok env attr policy \<longleftrightarrow>
     \<not> has_flag (sa_flags attr) (NOT (SCHED_FLAG_ALL OR SCHED_FLAG_SUGOV)) \<and>
     \<not> sa_priority attr > 99 \<and>
     \<not> ((dl_policy policy \<and> \<not> e_checkparam_dl env attr) \<or>
        (rt_policy policy \<noteq> (sa_priority attr \<noteq> 0)) \<or>
        \<not> ltr_policy policy)"

text \<open>What an unprivileged caller may not do.\<close>

(* core.c !7359-7408: __sched_setscheduler (permission) *)
definition setscheduler_denied ::
    "('x, 'l, 'm) env_scheme \<Rightarrow> tid \<Rightarrow> sched_attr \<Rightarrow> int \<Rightarrow> bool \<Rightarrow> ('x, 'l) kernel \<Rightarrow> bool" where
  "setscheduler_denied env p attr policy reset_on_fork k \<longleftrightarrow>
     (fair_policy policy \<and> sint (sa_nice attr) < task_nice (tsk k p) \<and>
        \<not> can_nice env k p (sint (sa_nice attr))) \<or>
     (rt_policy policy \<and>
        (let rlim_rtprio = e_rlimit_rtprio env p k in
         (policy \<noteq> t_policy (tsk k p) \<and> rlim_rtprio = 0) \<or>
         (sa_priority attr > t_rt_priority (tsk k p) \<and> sa_priority attr > rlim_rtprio))) \<or>
     dl_policy policy \<or>
     (task_has_idle_policy (tsk k p) \<and> \<not> idle_policy policy \<and>
        \<not> can_nice env k p (task_nice (tsk k p))) \<or>
     \<not> check_same_owner k p \<or>
     (t_reset_on_fork (tsk k p) \<and> \<not> reset_on_fork)"

(* core.c !7319-7422: __sched_setscheduler (checks) *)
definition setscheduler_check ::
    "('x, 'l, 'm) env_scheme \<Rightarrow> tid \<Rightarrow> sched_attr \<Rightarrow> bool \<Rightarrow> int \<Rightarrow> ('x, 'l) kernel \<Rightarrow>
     (int + bool \<times> int \<times> int) \<times> ('x, 'l) kernel" where
  "setscheduler_check env p attr user policy k =
     (case setscheduler_policy p attr policy k of
        Inl e \<Rightarrow> (Inl e, k)
      | Inr (reset_on_fork, policy, oldpolicy) \<Rightarrow>
          if \<not> setscheduler_attr_ok env attr policy then (Inl (- EINVAL), k)
          else if user \<and> \<not> e_capable env CAP_SYS_NICE k \<and>
                  setscheduler_denied env p attr policy reset_on_fork k
          then (Inl (- EPERM), k)
          else if user \<and> has_flag (sa_flags attr) SCHED_FLAG_SUGOV then (Inl (- EINVAL), k)
          else let retval = (if user then e_security_task_setscheduler env p k else 0) in
            if retval \<noteq> 0 then (Inl retval, k)
            else if has_flag (sa_flags attr) SCHED_FLAG_UTIL_CLAMP
            then let (retval, k) = uclamp_validate env p attr k in
                 if retval \<noteq> 0 then (Inl retval, k)
                 else (Inr (reset_on_fork, policy, oldpolicy), k)
            else (Inr (reset_on_fork, policy, oldpolicy), k))"

section \<open>Under the lock\<close>

text \<open>Nothing to change: same policy, same parameters, no clamps.\<close>

(* core.c !7450-7467: __sched_setscheduler (unchanged) *)
definition setscheduler_unchanged ::
    "('x, 'l, 'm) env_scheme \<Rightarrow> tid \<Rightarrow> sched_attr \<Rightarrow> int \<Rightarrow> ('x, 'l) kernel \<Rightarrow> bool" where
  "setscheduler_unchanged env p attr policy k \<longleftrightarrow>
     policy = t_policy (tsk k p) \<and>
     \<not> (fair_policy policy \<and> sint (sa_nice attr) \<noteq> task_nice (tsk k p)) \<and>
     \<not> (rt_policy policy \<and> sa_priority attr \<noteq> t_rt_priority (tsk k p)) \<and>
     \<not> (dl_policy policy \<and> e_dl_param_changed env p attr k) \<and>
     \<not> has_flag (sa_flags attr) SCHED_FLAG_UTIL_CLAMP"

(* sched.h 639-642: rt_bandwidth_enabled *)
definition rt_bandwidth_enabled :: "('x, 'l) kernel \<Rightarrow> bool" where
  "rt_bandwidth_enabled k \<longleftrightarrow> k_sysctl_rt_runtime k \<ge> 0"

(* sched.h 282-285: dl_bandwidth_enabled *)
definition dl_bandwidth_enabled :: "('x, 'l) kernel \<Rightarrow> bool" where
  "dl_bandwidth_enabled k \<longleftrightarrow> k_sysctl_rt_runtime k \<ge> 0"

(* core.c !7470-7500: __sched_setscheduler (groups) *)
definition setscheduler_group_denied ::
    "('x, 'l, 'm) env_scheme \<Rightarrow> cpu \<Rightarrow> tid \<Rightarrow> sched_attr \<Rightarrow> int \<Rightarrow> ('x, 'l) kernel \<Rightarrow> bool" where
  "setscheduler_group_denied env c p attr policy k \<longleftrightarrow>
     (let g = k_tgs k (t_tg (tsk k p)) in
      (e_rt_group_sched env \<and> rt_bandwidth_enabled k \<and> rt_policy policy \<and>
         tg_rt_runtime g = 0 \<and> \<not> tg_autogroup g) \<or>
      (e_smp env \<and> dl_bandwidth_enabled k \<and> dl_policy policy \<and>
         \<not> has_flag (sa_flags attr) SCHED_FLAG_SUGOV \<and>
         (\<not> e_rd_span env c k \<subseteq>
              (case t_cpus_ptr (tsk k p) of None \<Rightarrow> t_cpus_mask (tsk k p) | Some m \<Rightarrow> m) \<or>
          e_rd_dl_bw env c k = 0)))"

text \<open>The change itself: dequeue, new parameters, priority and clamps, enqueue, class change,
  and the callbacks around the adjustment of the inheritance chain.\<close>

(* core.c !7521-7583: __sched_setscheduler (change) *)
definition setscheduler_change ::
    "('x, 'l, 'm) env_scheme \<Rightarrow> cpu \<Rightarrow> tid \<Rightarrow> sched_attr \<Rightarrow> bool \<Rightarrow> int \<Rightarrow> bool \<Rightarrow> ('x, 'l) kernel \<Rightarrow>
     ('x, 'l) kernel option" where
  "setscheduler_change env c p attr pi policy reset_on_fork k = do {
     let k = upd_task p (\<lambda>t. t\<lparr>t_reset_on_fork := reset_on_fork\<rparr>) k;
     let oldprio = t_prio (tsk k p);
     let newprio = normal_prio_of policy (sa_priority attr) (sint (sa_nice attr));
     let newprio = (if pi then rt_effective_prio env k p newprio else newprio);
     let queue_flags = DEQUEUE_SAVE OR DEQUEUE_MOVE OR DEQUEUE_NOCLOCK;
     let queue_flags = (if pi \<and> newprio = oldprio then clear_flag queue_flags DEQUEUE_MOVE
                        else queue_flags);
     let queued = task_on_rq_queued k p;
     let running = task_current k c p;
     k \<leftarrow> (if queued then dequeue_task env c p queue_flags k else Some k);
     k \<leftarrow> (if running then put_prev_task env c p k else Some k);
     let prev_class = t_class (tsk k p);
     k \<leftarrow> (if \<not> has_flag (sa_flags attr) SCHED_FLAG_KEEP_PARAMS
           then do {
             k \<leftarrow> setscheduler_params env p attr k;
             Some (setscheduler_prio p newprio k)
           } else Some k);
     let k = setscheduler_uclamp env p attr k;
     k \<leftarrow> (if queued
           then enqueue_task env c p (if oldprio < t_prio (tsk k p)
                                      then queue_flags OR ENQUEUE_HEAD else queue_flags) k
           else Some k);
     k \<leftarrow> (if running then set_next_task env c p k else Some k);
     k \<leftarrow> check_class_changed env c p prev_class oldprio k;
     let (head, k) = splice_balance_callbacks env c k;
     k \<leftarrow> (if pi then e_rt_mutex_adjust_pi env p k else Some k);
     balance_callbacks env c head k
   }"

text \<open>The result of one pass under the lock: the function returns, or starts over.\<close>

datatype 'k setscheduler_step = Return_with int 'k | Recheck 'k

(* core.c !7440-7590: __sched_setscheduler (locked) *)
definition setscheduler_locked ::
    "('x, 'l, 'm) env_scheme \<Rightarrow> tid \<Rightarrow> sched_attr \<Rightarrow> bool \<Rightarrow> bool \<Rightarrow> bool \<Rightarrow> int \<Rightarrow> int \<Rightarrow>
     ('x, 'l) kernel \<Rightarrow> ('x, 'l) kernel setscheduler_step option" where
  "setscheduler_locked env p attr user pi reset_on_fork policy oldpolicy k =
     (let c = task_cpu k p; k = update_rq_clock env c k in
      if rq_stop (cpu_rq k c) = Some p then Some (Return_with (- EINVAL) k)
      else if setscheduler_unchanged env p attr policy k
      then Some (Return_with 0 (upd_task p (\<lambda>t. t\<lparr>t_reset_on_fork := reset_on_fork\<rparr>) k))
      else if user \<and> setscheduler_group_denied env c p attr policy k
      then Some (Return_with (- EPERM) k)
      else if oldpolicy \<noteq> -1 \<and> oldpolicy \<noteq> t_policy (tsk k p) then Some (Recheck k)
      else
       let (busy, k) = (if dl_policy policy \<or> dl_task (tsk k p)
              then let (b, x) = e_sched_dl_overflow env p policy attr k in (b, k\<lparr>k_ext := x\<rparr>)
              else (False, k))
       in if busy then Some (Return_with (- EBUSY) k)
          else map_option (Return_with 0)
                 (setscheduler_change env c p attr pi policy reset_on_fork k))"

text \<open>The loop. With no change left to come the policy read before the lock is the policy under
  the lock, so that no pass follows.\<close>

fun setscheduler_loop ::
    "('x, 'l, 'm) env_scheme \<Rightarrow> tid \<Rightarrow> sched_attr \<Rightarrow> bool \<Rightarrow> bool \<Rightarrow> int \<Rightarrow>
     (('x, 'l) kernel \<Rightarrow> ('x, 'l) kernel) list \<Rightarrow> ('x, 'l) kernel \<Rightarrow> (int \<times> ('x, 'l) kernel) option"
where
  "setscheduler_loop env p attr user pi policy others k =
     (case setscheduler_check env p attr user policy k of
        (Inl e, k) \<Rightarrow> Some (e, k)
      | (Inr (reset_on_fork, policy, oldpolicy), k) \<Rightarrow>
          (case others of
             [] \<Rightarrow> do {
               r \<leftarrow> setscheduler_locked env p attr user pi reset_on_fork policy oldpolicy k;
               case r of Return_with e k \<Rightarrow> Some (e, k) | Recheck k \<Rightarrow> None
             }
           | f # fs \<Rightarrow> do {
               r \<leftarrow> setscheduler_locked env p attr user pi reset_on_fork policy oldpolicy (f k);
               case r of
                 Return_with e k \<Rightarrow> Some (e, k)
               | Recheck k \<Rightarrow> setscheduler_loop env p attr user pi (-1) fs k
             }))"

(* core.c 7317-7590: __sched_setscheduler *)
definition sched_setscheduler_locking ::
    "('x, 'l, 'm) env_scheme \<Rightarrow> (('x, 'l) kernel \<Rightarrow> ('x, 'l) kernel) list \<Rightarrow> tid \<Rightarrow> sched_attr \<Rightarrow>
     bool \<Rightarrow> bool \<Rightarrow> ('x, 'l) kernel \<Rightarrow> (int \<times> ('x, 'l) kernel) option" where
  "sched_setscheduler_locking env others p attr user pi k =
     (if pi \<and> e_in_interrupt env k then None
      else setscheduler_loop env p attr user pi (sint (sa_policy attr)) others k)"

end
