(* ===== verification/Setsched_Calls.thy ===== *)
theory Setsched_Calls
  imports Setscheduler
begin

text \<open>
  The functions and system calls on top of \<open>__sched_setscheduler\<close> (\<open>core.c\<close>, lines 7592 to 8010 and
  8507 to 8550): in-kernel policy changes, the set and get system calls with their user pointers,
  and the priority range of a policy.
\<close>

type_synonym ('x, 'l) others = "(('x, 'l) kernel \<Rightarrow> ('x, 'l) kernel) list"

section \<open>In-kernel entry points\<close>

(* core.c 7592-7609: _sched_setscheduler *)
definition sched_setscheduler_param ::
    "('x, 'l, 'm) env_scheme \<Rightarrow> ('x, 'l) others \<Rightarrow> tid \<Rightarrow> int \<Rightarrow> int \<Rightarrow> bool \<Rightarrow> ('x, 'l) kernel \<Rightarrow>
     (int \<times> ('x, 'l) kernel) option" where
  "sched_setscheduler_param env others p policy priority check k =
     (let attr = zero_attr\<lparr>sa_policy := word_of_int policy, sa_priority := word_of_int priority,
                sa_nice := word_of_int (PRIO_TO_NICE (t_static_prio (tsk k p)))\<rparr>;
          attr = (if policy \<noteq> SETPARAM_POLICY \<and> policy AND 0x40000000 \<noteq> 0
                  then attr\<lparr>sa_flags := sa_flags attr OR SCHED_FLAG_RESET_ON_FORK,
                            sa_policy := word_of_int (policy AND NOT 0x40000000)\<rparr>
                  else attr)
      in sched_setscheduler_locking env others p attr check True k)"

(* core.c 7622-7626: sched_setscheduler *)
definition sched_setscheduler ::
    "('x, 'l, 'm) env_scheme \<Rightarrow> ('x, 'l) others \<Rightarrow> tid \<Rightarrow> int \<Rightarrow> int \<Rightarrow> ('x, 'l) kernel \<Rightarrow>
     (int \<times> ('x, 'l) kernel) option" where
  "sched_setscheduler env others p policy priority k =
     sched_setscheduler_param env others p policy priority True k"

(* core.c 7628-7631: sched_setattr *)
definition sched_setattr ::
    "('x, 'l, 'm) env_scheme \<Rightarrow> ('x, 'l) others \<Rightarrow> tid \<Rightarrow> sched_attr \<Rightarrow> ('x, 'l) kernel \<Rightarrow>
     (int \<times> ('x, 'l) kernel) option" where
  "sched_setattr env others p attr k = sched_setscheduler_locking env others p attr True True k"

(* core.c 7633-7636: sched_setattr_nocheck *)
definition sched_setattr_nocheck ::
    "('x, 'l, 'm) env_scheme \<Rightarrow> ('x, 'l) others \<Rightarrow> tid \<Rightarrow> sched_attr \<Rightarrow> ('x, 'l) kernel \<Rightarrow>
     (int \<times> ('x, 'l) kernel) option" where
  "sched_setattr_nocheck env others p attr k =
     sched_setscheduler_locking env others p attr False True k"

(* core.c 7652-7656: sched_setscheduler_nocheck *)
definition sched_setscheduler_nocheck ::
    "('x, 'l, 'm) env_scheme \<Rightarrow> ('x, 'l) others \<Rightarrow> tid \<Rightarrow> int \<Rightarrow> int \<Rightarrow> ('x, 'l) kernel \<Rightarrow>
     (int \<times> ('x, 'l) kernel) option" where
  "sched_setscheduler_nocheck env others p policy priority k =
     sched_setscheduler_param env others p policy priority False k"

(* core.c 7676-7680: sched_set_fifo *)
definition sched_set_fifo ::
    "('x, 'l, 'm) env_scheme \<Rightarrow> ('x, 'l) others \<Rightarrow> tid \<Rightarrow> ('x, 'l) kernel \<Rightarrow> ('x, 'l) kernel option"
where
  "sched_set_fifo env others p k = do {
     (ret, k) \<leftarrow> sched_setscheduler_nocheck env others p SCHED_FIFO (MAX_RT_PRIO div 2) k;
     Some (warn_on ''sched_set_fifo'' (ret \<noteq> 0) k)
   }"

(* core.c 7686-7690: sched_set_fifo_low *)
definition sched_set_fifo_low ::
    "('x, 'l, 'm) env_scheme \<Rightarrow> ('x, 'l) others \<Rightarrow> tid \<Rightarrow> ('x, 'l) kernel \<Rightarrow> ('x, 'l) kernel option"
where
  "sched_set_fifo_low env others p k = do {
     (ret, k) \<leftarrow> sched_setscheduler_nocheck env others p SCHED_FIFO 1 k;
     Some (warn_on ''sched_set_fifo_low'' (ret \<noteq> 0) k)
   }"

(* core.c 7693-7700: sched_set_normal *)
definition sched_set_normal ::
    "('x, 'l, 'm) env_scheme \<Rightarrow> ('x, 'l) others \<Rightarrow> tid \<Rightarrow> int \<Rightarrow> ('x, 'l) kernel \<Rightarrow>
     ('x, 'l) kernel option" where
  "sched_set_normal env others p nice k = do {
     (ret, k) \<leftarrow> sched_setattr_nocheck env others p
       (zero_attr\<lparr>sa_policy := word_of_int SCHED_LOTTERY, sa_nice := word_of_int nice\<rparr>) k;
     Some (warn_on ''sched_set_normal'' (ret \<noteq> 0) k)
   }"

section \<open>System calls that set\<close>

(* core.c 7703-7728: do_sched_setscheduler *)
definition do_sched_setscheduler ::
    "('x, 'l, 'm) env_scheme \<Rightarrow> ('x, 'l) others \<Rightarrow> int \<Rightarrow> int \<Rightarrow> int option option \<Rightarrow>
     ('x, 'l) kernel \<Rightarrow> (int \<times> ('x, 'l) kernel) option" where
  "do_sched_setscheduler env others pid policy param k =
     (case param of
        None \<Rightarrow> Some (- EINVAL, k)
      | Some user \<Rightarrow>
          if pid < 0 then Some (- EINVAL, k)
          else case user of
            None \<Rightarrow> Some (- EFAULT, k)
          | Some lparam \<Rightarrow>
              (case find_process_by_pid env pid k of
                 None \<Rightarrow> Some (- ESRCH, k)
               | Some p \<Rightarrow> sched_setscheduler env others p policy lparam k))"

text \<open>What user memory delivers for a \<open>struct sched_attr\<close>: the size field (\<open>None\<close>: the read
  faults) and the result of \<open>copy_struct_from_user\<close> for a size.\<close>

record user_attr =
  ua_size :: "u32 option"
  ua_copy :: "u32 \<Rightarrow> int \<times> sched_attr"

definition SCHED_ATTR_SIZE_VER0 :: u32 where "SCHED_ATTR_SIZE_VER0 = 48"
definition SCHED_ATTR_SIZE_VER1 :: u32 where "SCHED_ATTR_SIZE_VER1 = 56"
definition PAGE_SIZE :: u32 where "PAGE_SIZE = 4096"

lemmas attr_size_defs = SCHED_ATTR_SIZE_VER0_def SCHED_ATTR_SIZE_VER1_def PAGE_SIZE_def

(* core.c 7733-7773: sched_copy_attr *)
definition sched_copy_attr :: "user_attr \<Rightarrow> int + sched_attr" where
  "sched_copy_attr uattr =
     (case ua_size uattr of
        None \<Rightarrow> Inl (- EFAULT)
      | Some sz \<Rightarrow>
          let sz = (if sz = 0 then SCHED_ATTR_SIZE_VER0 else sz) in
          if sz < SCHED_ATTR_SIZE_VER0 \<or> sz > PAGE_SIZE then Inl (- E2BIG)
          else let (ret, attr) = ua_copy uattr sz in
            if ret \<noteq> 0 then Inl ret
            else if has_flag (sa_flags attr) SCHED_FLAG_UTIL_CLAMP \<and> sz < SCHED_ATTR_SIZE_VER1
            then Inl (- EINVAL)
            else Inr (attr\<lparr>sa_nice :=
                   word_of_int (clamp_val (sint (sa_nice attr)) MIN_NICE MAX_NICE)\<rparr>))"

(* core.c 7775-7783: get_params *)
definition get_params ::
    "('x, 'l, 'm) env_scheme \<Rightarrow> ('x, 'l) kernel \<Rightarrow> tid \<Rightarrow> sched_attr \<Rightarrow> sched_attr" where
  "get_params env k p attr =
     (if task_has_dl_policy (tsk k p) then e_getparam_dl env p attr k
      else if task_has_rt_policy (tsk k p) then attr\<lparr>sa_priority := t_rt_priority (tsk k p)\<rparr>
      else attr\<lparr>sa_nice := word_of_int (task_nice (tsk k p))\<rparr>)"

(* core.c 7793-7799: SYSCALL_DEFINE3(sched_setscheduler *)
definition sys_sched_setscheduler ::
    "('x, 'l, 'm) env_scheme \<Rightarrow> ('x, 'l) others \<Rightarrow> int \<Rightarrow> int \<Rightarrow> int option option \<Rightarrow>
     ('x, 'l) kernel \<Rightarrow> (int \<times> ('x, 'l) kernel) option" where
  "sys_sched_setscheduler env others pid policy param k =
     (if policy < 0 then Some (- EINVAL, k)
      else do_sched_setscheduler env others pid policy param k)"

(* core.c 7808-7811: SYSCALL_DEFINE2(sched_setparam *)
definition sys_sched_setparam ::
    "('x, 'l, 'm) env_scheme \<Rightarrow> ('x, 'l) others \<Rightarrow> int \<Rightarrow> int option option \<Rightarrow> ('x, 'l) kernel \<Rightarrow>
     (int \<times> ('x, 'l) kernel) option" where
  "sys_sched_setparam env others pid param k =
     do_sched_setscheduler env others pid SETPARAM_POLICY param k"

(* core.c 7819-7853: SYSCALL_DEFINE3(sched_setattr *)
definition sys_sched_setattr ::
    "('x, 'l, 'm) env_scheme \<Rightarrow> ('x, 'l) others \<Rightarrow> int \<Rightarrow> user_attr option \<Rightarrow> u32 \<Rightarrow>
     ('x, 'l) kernel \<Rightarrow> (int \<times> ('x, 'l) kernel) option" where
  "sys_sched_setattr env others pid uattr flags k =
     (case uattr of
        None \<Rightarrow> Some (- EINVAL, k)
      | Some u \<Rightarrow>
          if pid < 0 \<or> flags \<noteq> 0 then Some (- EINVAL, k)
          else case sched_copy_attr u of
            Inl e \<Rightarrow> Some (e, k)
          | Inr attr \<Rightarrow>
              if sint (sa_policy attr) < 0 then Some (- EINVAL, k)
              else
                let attr = (if has_flag (sa_flags attr) SCHED_FLAG_KEEP_POLICY
                            then attr\<lparr>sa_policy := word_of_int SETPARAM_POLICY\<rparr> else attr)
                in case find_process_by_pid env pid k of
                     None \<Rightarrow> Some (- ESRCH, k)
                   | Some p \<Rightarrow>
                       let attr = (if has_flag (sa_flags attr) SCHED_FLAG_KEEP_PARAMS
                                   then get_params env k p attr else attr)
                       in sched_setattr env others p attr k)"

section \<open>System calls that get\<close>

(* core.c 7862-7881: SYSCALL_DEFINE1(sched_getscheduler *)
definition sys_sched_getscheduler ::
    "('x, 'l, 'm) env_scheme \<Rightarrow> int \<Rightarrow> ('x, 'l) kernel \<Rightarrow> int" where
  "sys_sched_getscheduler env pid k =
     (if pid < 0 then - EINVAL
      else case find_process_by_pid env pid k of
        None \<Rightarrow> - ESRCH
      | Some p \<Rightarrow>
          let retval = e_security_task_getscheduler env p k in
          if retval \<noteq> 0 then retval
          else t_policy (tsk k p) OR (if t_reset_on_fork (tsk k p) then 0x40000000 else 0))"

text \<open>A user pointer to write to: NULL, or whether the write succeeds. The second component is
  what was written.\<close>

(* core.c 7891-7924: SYSCALL_DEFINE2(sched_getparam *)
definition sys_sched_getparam ::
    "('x, 'l, 'm) env_scheme \<Rightarrow> int \<Rightarrow> bool option \<Rightarrow> ('x, 'l) kernel \<Rightarrow> int \<times> u32 option" where
  "sys_sched_getparam env pid param k =
     (case param of
        None \<Rightarrow> (- EINVAL, None)
      | Some writable \<Rightarrow>
          if pid < 0 then (- EINVAL, None)
          else case find_process_by_pid env pid k of
            None \<Rightarrow> (- ESRCH, None)
          | Some p \<Rightarrow>
              let retval = e_security_task_getscheduler env p k in
              if retval \<noteq> 0 then (retval, None)
              else let lp = (if task_has_rt_policy (tsk k p) then t_rt_priority (tsk k p) else 0)
                   in if writable then (0, Some lp) else (- EFAULT, None))"

(* core.c 7934-7963: sched_attr_copy_to_user *)
definition sched_attr_copy_to_user ::
    "bool \<Rightarrow> (u32 \<Rightarrow> bool) \<Rightarrow> sched_attr \<Rightarrow> u32 \<Rightarrow> int \<times> sched_attr option" where
  "sched_attr_copy_to_user access_ok writable kattr usize =
     (if \<not> access_ok then (- EFAULT, None)
      else let kattr = kattr\<lparr>sa_size := min usize SCHED_ATTR_SIZE_VER1\<rparr>
           in if \<not> writable (sa_size kattr) then (- EFAULT, None) else (0, Some kattr))"

text \<open>The user buffer: NULL, or its \<open>access_ok\<close> result and, for a length, whether that many
  bytes can be written. The attribute returned is what the first \<open>sa_size\<close> bytes are taken from.\<close>

(* core.c 7972-8016: SYSCALL_DEFINE4(sched_getattr *)
definition sys_sched_getattr ::
    "('x, 'l, 'm) env_scheme \<Rightarrow> int \<Rightarrow> (bool \<times> (u32 \<Rightarrow> bool)) option \<Rightarrow> u32 \<Rightarrow> u32 \<Rightarrow>
     ('x, 'l) kernel \<Rightarrow> int \<times> sched_attr option" where
  "sys_sched_getattr env pid uattr usize flags k =
     (case uattr of
        None \<Rightarrow> (- EINVAL, None)
      | Some (access_ok, writable) \<Rightarrow>
          if pid < 0 \<or> usize > PAGE_SIZE \<or> usize < SCHED_ATTR_SIZE_VER0 \<or> flags \<noteq> 0
          then (- EINVAL, None)
          else case find_process_by_pid env pid k of
            None \<Rightarrow> (- ESRCH, None)
          | Some p \<Rightarrow>
              let retval = e_security_task_getscheduler env p k in
              if retval \<noteq> 0 then (retval, None)
              else
               let kattr = zero_attr\<lparr>sa_policy := word_of_int (t_policy (tsk k p))\<rparr>;
                   kattr = (if t_reset_on_fork (tsk k p)
                     then kattr\<lparr>sa_flags := sa_flags kattr OR SCHED_FLAG_RESET_ON_FORK\<rparr> else kattr);
                   kattr = get_params env k p kattr;
                   kattr = kattr\<lparr>sa_flags := sa_flags kattr AND SCHED_FLAG_ALL\<rparr>;
                   kattr = (if e_uclamp env
                     then kattr\<lparr>sa_util_min := ucast (us_value (t_uclamp_req (tsk k p) UCLAMP_MIN)),
                                sa_util_max := ucast (us_value (t_uclamp_req (tsk k p) UCLAMP_MAX))\<rparr>
                     else kattr)
               in sched_attr_copy_to_user access_ok writable kattr usize)"

section \<open>Properties of a policy\<close>

(* core.c 8507-8525: SYSCALL_DEFINE1(sched_get_priority_max *)
definition sys_sched_get_priority_max :: "int \<Rightarrow> int" where
  "sys_sched_get_priority_max policy =
     (if policy = SCHED_FIFO \<or> policy = SCHED_RR then MAX_RT_PRIO - 1
      else if policy = SCHED_LOTTERY \<or> policy = SCHED_DEADLINE \<or> policy = SCHED_NORMAL \<or>
              policy = SCHED_BATCH \<or> policy = SCHED_IDLE then 0
      else - EINVAL)"

(* core.c 8535-8552: SYSCALL_DEFINE1(sched_get_priority_min *)
definition sys_sched_get_priority_min :: "int \<Rightarrow> int" where
  "sys_sched_get_priority_min policy =
     (if policy = SCHED_FIFO \<or> policy = SCHED_RR then 1
      else if policy = SCHED_LOTTERY \<or> policy = SCHED_DEADLINE \<or> policy = SCHED_NORMAL \<or>
              policy = SCHED_BATCH \<or> policy = SCHED_IDLE then 0
      else - EINVAL)"

text \<open>The time slice in jiffies; the conversion to a time is outside the repository.\<close>

(* core.c 8554-8588: sched_rr_get_interval *)
definition sched_rr_get_interval ::
    "('x, 'l, 'm) env_scheme \<Rightarrow> int \<Rightarrow> ('x, 'l) kernel \<Rightarrow> int + u32" where
  "sched_rr_get_interval env pid k =
     (if pid < 0 then Inl (- EINVAL)
      else case find_process_by_pid env pid k of
        None \<Rightarrow> Inl (- ESRCH)
      | Some p \<Rightarrow>
          let retval = e_security_task_getscheduler env p k in
          if retval \<noteq> 0 then Inl retval
          else case vt_get_rr_interval (cl env k p) of
            None \<Rightarrow> Inr 0
          | Some f \<Rightarrow> Inr (f (task_cpu k p) p k))"

text \<open>\<open>writable\<close>: whether \<open>put_timespec64\<close> succeeds.\<close>

(* core.c 8601-8611: SYSCALL_DEFINE2(sched_rr_get_interval, *)
definition sys_sched_rr_get_interval ::
    "('x, 'l, 'm) env_scheme \<Rightarrow> int \<Rightarrow> bool \<Rightarrow> ('x, 'l) kernel \<Rightarrow> int \<times> u32 option" where
  "sys_sched_rr_get_interval env pid writable k =
     (case sched_rr_get_interval env pid k of
        Inl e \<Rightarrow> (e, None)
      | Inr t \<Rightarrow> if writable then (0, Some t) else (- EFAULT, None))"

end
