(* ===== verification/Setsched_Props.thy ===== *)
theory Setsched_Props
  imports Setsched_Calls Core_Lottery Machine
begin

text \<open>
  The properties of \<open>__sched_setscheduler\<close> and the functions on top of it: which policies it
  takes, when it starts over, what a change to the lottery policy does to a task, and that the get
  system call reads back what the set system call wrote.
\<close>

section \<open>The policies that are accepted\<close>

lemma attr_not_ok: "policy \<noteq> SCHED_LOTTERY \<Longrightarrow> \<not> setscheduler_attr_ok env attr policy"
  by (simp add: setscheduler_attr_ok_def ltr_policy_def)

lemma setscheduler_rejected:
  assumes "0 \<le> policy" and "policy \<noteq> SCHED_LOTTERY"
  shows "setscheduler_loop env p attr user pi policy others k = Some (- EINVAL, k)"
  using assms attr_not_ok[OF assms(2), of env attr]
  by (simp add: setscheduler_loop.simps setscheduler_check_def setscheduler_policy_def)

text \<open>C40: Every policy but the lottery policy is refused with \<open>EINVAL\<close>, whoever asks and
  whatever else the attributes hold, and nothing changes: no task can be made a real-time, deadline,
  batch, idle or normal task again.\<close>

theorem only_lottery_policy_accepted:
  assumes "\<not> (pi \<and> e_in_interrupt env k)"
    and "0 \<le> sint (sa_policy attr)" and "sint (sa_policy attr) \<noteq> SCHED_LOTTERY"
  shows "sched_setscheduler_locking env others p attr user pi k = Some (- EINVAL, k)"
  using assms(1) setscheduler_rejected[OF assms(2,3)]
  by (simp add: sched_setscheduler_locking_def del: setscheduler_loop.simps)

theorem only_lottery_policy_accepted_witness:
  "sched_setscheduler_locking env0 [] 1 (zero_attr\<lparr>sa_policy := 1, sa_priority := 50\<rparr>) False True
     kernel0 = Some (- EINVAL, kernel0)"
  by (rule only_lottery_policy_accepted)
    (simp_all add: env0_def SCHED_LOTTERY_def zero_attr_def)

text \<open>The in-kernel requests for a FIFO task always end with their warning, and change
  nothing else.\<close>

theorem sched_set_fifo_never_works:
  assumes "\<not> e_in_interrupt env k"
  shows "sched_set_fifo env others p k = Some (add_log (Warned ''sched_set_fifo'') k) \<and>
    sched_set_fifo_low env others p k = Some (add_log (Warned ''sched_set_fifo_low'') k)"
proof -
  have "sched_setscheduler_nocheck env others p SCHED_FIFO n k = Some (- EINVAL, k)" for n
  proof -
    have "SCHED_FIFO \<noteq> SETPARAM_POLICY" "SCHED_FIFO AND 0x40000000 = 0"
      "sint (word_of_int SCHED_FIFO :: u32) = 1" "(1 :: int) \<noteq> SCHED_LOTTERY"
      by (simp_all add: SCHED_FIFO_def SETPARAM_POLICY_def SCHED_LOTTERY_def)
    then show ?thesis
      using assms setscheduler_rejected[of 1]
      by (simp add: sched_setscheduler_nocheck_def sched_setscheduler_param_def Let_def
          sched_setscheduler_locking_def zero_attr_def del: setscheduler_loop.simps)
  qed
  then show ?thesis
    by (simp add: sched_set_fifo_def sched_set_fifo_low_def warn_on_def EINVAL_def)
qed

theorem sched_set_fifo_never_works_witness:
  "sched_set_fifo env0 [] 1 kernel0 = Some (add_log (Warned ''sched_set_fifo'') kernel0)"
  using sched_set_fifo_never_works[of env0 kernel0 "[]" 1] by (simp add: env0_def)

section \<open>Starting over\<close>

lemma uclamp_validate_tasks [simp]: "k_tasks (snd (uclamp_validate env p attr k)) = k_tasks k"
  by (simp add: uclamp_validate_def Let_def)

lemma setscheduler_check_state:
  assumes "setscheduler_check env p attr user policy k = (r, k1)"
  shows "k_tasks k1 = k_tasks k"
    and "r = Inr (reset, pol, old) \<Longrightarrow> old \<noteq> -1 \<Longrightarrow> policy < 0 \<and> old = t_policy (tsk k p)"
proof -
  have v: "k_tasks k2 = k_tasks k" if "uclamp_validate env p attr k = (e, k2)" for e k2
    using that uclamp_validate_tasks[of env p attr k] by simp
  show "k_tasks k1 = k_tasks k"
    using assms v by (auto simp: setscheduler_check_def Let_def split: sum.splits prod.splits if_splits)
  show "r = Inr (reset, pol, old) \<Longrightarrow> old \<noteq> -1 \<Longrightarrow> policy < 0 \<and> old = t_policy (tsk k p)"
    using assms
    by (auto simp: setscheduler_check_def setscheduler_policy_def Let_def
        split: sum.splits prod.splits if_splits)
qed

text \<open>\<open>__sched_setscheduler\<close> starts over only when the caller did not name a policy and
  another CPU changed the task's policy between the checks and the lock; without such a change the
  first pass is the last.\<close>

theorem setscheduler_recheck_cause:
  assumes "setscheduler_check env p attr user policy k = (Inr (reset, pol, old), k1)"
    and "setscheduler_locked env p attr user pi reset pol old k2 = Some (Recheck k3)"
  shows "policy < 0 \<and> t_policy (tsk k2 p) \<noteq> t_policy (tsk k1 p)"
proof -
  note c = setscheduler_check_state[OF assms(1)]
  have "old \<noteq> -1 \<and> old \<noteq> t_policy (tsk k2 p)"
    using assms(2)
    by (auto simp: setscheduler_locked_def Let_def split: if_splits prod.splits option.splits)
  with c show ?thesis by auto
qed

definition keep_policy_attr :: sched_attr where
  "keep_policy_attr = zero_attr\<lparr>sa_policy := -1\<rparr>"

theorem setscheduler_recheck_cause_witness:
  "\<exists>k1 k3. setscheduler_check env0 1 keep_policy_attr False (-1) kernel0 =
      (Inr (False, SCHED_LOTTERY, SCHED_LOTTERY), k1) \<and>
    setscheduler_locked env0 1 keep_policy_attr False True False SCHED_LOTTERY SCHED_LOTTERY
      (upd_task 1 (\<lambda>t. t\<lparr>t_policy := 0\<rparr>) k1) = Some (Recheck k3) \<and>
    t_policy (tsk (upd_task 1 (\<lambda>t. t\<lparr>t_policy := 0\<rparr>) k1) 1) \<noteq> t_policy (tsk k1 1)"
proof -
  have c: "setscheduler_check env0 1 keep_policy_attr False (-1) kernel0 =
      (Inr (False, SCHED_LOTTERY, SCHED_LOTTERY), kernel0)"
    by (simp add: setscheduler_check_def setscheduler_policy_def setscheduler_attr_ok_def
        keep_policy_attr_def zero_attr_def has_flag_def kernel0_def task0_def policy_pred_defs)
  let ?k2 = "upd_task 1 (\<lambda>t. t\<lparr>t_policy := 0\<rparr>) kernel0"
  have "rq_stop (cpu_rq (update_rq_clock env0 0 ?k2) 0) = None" "task_cpu ?k2 1 = 0"
    by (simp_all add: kernel0_def rq0_def task_cpu_def task0_def)
  then have l: "setscheduler_locked env0 1 keep_policy_attr False True False SCHED_LOTTERY
      SCHED_LOTTERY ?k2 = Some (Recheck (update_rq_clock env0 0 ?k2))"
    by (simp add: setscheduler_locked_def Let_def setscheduler_unchanged_def policy_defs)
  show ?thesis using c l setscheduler_recheck_cause[OF c l] by blast
qed

section \<open>Becoming a lottery task\<close>

text \<open>The clamp reset of \<open>__setscheduler_uclamp\<close> changes only the clamp requests.\<close>

definition same_but_clamps :: "task \<Rightarrow> task \<Rightarrow> bool" where
  "same_but_clamps t u \<longleftrightarrow> u\<lparr>t_uclamp_req := t_uclamp_req t\<rparr> = t"

lemma same_but_clamps_refl [simp]: "same_but_clamps t t"
  by (simp add: same_but_clamps_def)

lemma same_but_clampsD:
  assumes "same_but_clamps t u"
  shows "t_policy u = t_policy t" "t_class u = t_class t" "t_prio u = t_prio t"
    "t_static_prio u = t_static_prio t" "t_normal_prio u = t_normal_prio t"
    "t_rt_priority u = t_rt_priority t" "t_ltr u = t_ltr t" "t_on_rq u = t_on_rq t"
    "t_reset_on_fork u = t_reset_on_fork t"
proof -
  note eq = assms[unfolded same_but_clamps_def]
  show "t_policy u = t_policy t" "t_class u = t_class t" "t_prio u = t_prio t"
    "t_static_prio u = t_static_prio t" "t_normal_prio u = t_normal_prio t"
    "t_rt_priority u = t_rt_priority t" "t_ltr u = t_ltr t" "t_on_rq u = t_on_rq t"
    "t_reset_on_fork u = t_reset_on_fork t"
    using arg_cong[OF eq, of t_policy] arg_cong[OF eq, of t_class] arg_cong[OF eq, of t_prio]
      arg_cong[OF eq, of t_static_prio] arg_cong[OF eq, of t_normal_prio]
      arg_cong[OF eq, of t_rt_priority] arg_cong[OF eq, of t_ltr] arg_cong[OF eq, of t_on_rq]
      arg_cong[OF eq, of t_reset_on_fork] by simp_all
qed

definition clamps_only :: "('x, 'l) kernel \<Rightarrow> ('x, 'l) kernel \<Rightarrow> bool" where
  "clamps_only k k' \<longleftrightarrow> (\<forall>q. same_but_clamps (tsk k q) (tsk k' q)) \<and> k_rqs k' = k_rqs k \<and>
     k_links k' = k_links k \<and> k_this_cpu k' = k_this_cpu k"

lemma clamps_only_refl [simp]: "clamps_only k k"
  by (simp add: clamps_only_def)

lemma clamps_only_req: "clamps_only k k' \<Longrightarrow> clamps_only k (upd_req p i f k')"
  by (simp add: clamps_only_def upd_req_def same_but_clamps_def)

lemma clamps_only_resets:
  "clamps_only k k' \<Longrightarrow> clamps_only k (fold (setscheduler_uclamp_reset env p attr) is k')"
  by (induction "is" arbitrary: k')
    (simp_all add: setscheduler_uclamp_reset_def Let_def clamps_only_req)

lemma setscheduler_uclamp_frame: "clamps_only k (setscheduler_uclamp env p attr k)"
  by (simp add: setscheduler_uclamp_def Let_def clamps_only_resets clamps_only_req)

text \<open>The attributes \<open>sched_set_normal\<close> passes.\<close>

definition normal_attr :: "int \<Rightarrow> sched_attr" where
  "normal_attr nice = zero_attr\<lparr>sa_policy := word_of_int SCHED_LOTTERY, sa_nice := word_of_int nice\<rparr>"

lemma sint_nice: "MIN_NICE \<le> nice \<Longrightarrow> nice \<le> MAX_NICE \<Longrightarrow> sint (word_of_int nice :: u32) = nice"
  by (simp add: sint_sbintrunc' prio_consts signed_take_bit_int_eq_self)

lemma normal_attr_fields:
  "sa_flags (normal_attr n) = 0" "sa_priority (normal_attr n) = 0"
  "sa_nice (normal_attr n) = word_of_int n" "sint (sa_policy (normal_attr n)) = SCHED_LOTTERY"
  by (simp_all add: normal_attr_def zero_attr_def SCHED_LOTTERY_def)

lemma has_flag_zero [simp]: "\<not> has_flag 0 m"
  by (simp add: has_flag_def)

lemma lottery_policy_kinds [simp]:
  "\<not> dl_policy SCHED_LOTTERY" "\<not> rt_policy SCHED_LOTTERY" "\<not> fair_policy SCHED_LOTTERY"
  "\<not> idle_policy SCHED_LOTTERY" "ltr_policy SCHED_LOTTERY" "valid_policy SCHED_LOTTERY"
  "SCHED_LOTTERY \<noteq> SETPARAM_POLICY" "\<not> SCHED_LOTTERY < 0"
  by (simp_all add: policy_pred_defs SETPARAM_POLICY_def)

lemma normal_attr_checked:
  "setscheduler_check env p (normal_attr n) False SCHED_LOTTERY k =
     (Inr (False, SCHED_LOTTERY, -1), k)"
  by (simp add: setscheduler_check_def setscheduler_policy_def setscheduler_attr_ok_def
      normal_attr_fields)

lemma sched_set_normal_locked:
  assumes "\<not> e_in_interrupt env k"
  shows "sched_set_normal env others p nice k =
    (case setscheduler_locked env p (normal_attr nice) False True False SCHED_LOTTERY (-1)
            (case others of [] \<Rightarrow> k | f # fs \<Rightarrow> f k) of
       Some (Return_with e k) \<Rightarrow> Some (warn_on ''sched_set_normal'' (e \<noteq> 0) k)
     | Some (Recheck k') \<Rightarrow> (case others of [] \<Rightarrow> None
         | f # fs \<Rightarrow> Option.bind (setscheduler_loop env p (normal_attr nice) False True (-1) fs k')
                       (\<lambda>(e, k). Some (warn_on ''sched_set_normal'' (e \<noteq> 0) k)))
     | None \<Rightarrow> None)"
  using assms
  by (simp add: sched_set_normal_def sched_setattr_nocheck_def sched_setscheduler_locking_def
      normal_attr_def[symmetric] normal_attr_fields(4) normal_attr_checked setscheduler_loop.simps[of env p _ _ _ SCHED_LOTTERY]
      del: setscheduler_loop.simps split: list.splits option.splits setscheduler_step.splits)

text \<open>A hook of an outside class that changes only that class's own state.\<close>

definition own_state_only ::
    "(cpu \<Rightarrow> tid \<Rightarrow> ('x, 'l) kernel \<Rightarrow> ('x, 'l) kernel option) option \<Rightarrow> bool" where
  "own_state_only h \<longleftrightarrow> (case h of None \<Rightarrow> True
     | Some f \<Rightarrow> \<forall>c p k. \<exists>x. f c p k = Some (k\<lparr>k_ext := x\<rparr>))"

lemma setscheduler_params_lottery:
  assumes "100 \<le> t_static_prio (tsk k p)" and "t_static_prio (tsk k p) < 140"
  obtains k' where "setscheduler_params env p (normal_attr nice) k = Some k'"
    and "\<And>q. q \<noteq> p \<Longrightarrow> tsk k' q = tsk k q" and "t_policy (tsk k' p) = SCHED_LOTTERY"
    and "t_static_prio (tsk k' p) = t_static_prio (tsk k p)" and "t_class (tsk k' p) = t_class (tsk k p)"
    and "t_normal_prio (tsk k' p) = t_static_prio (tsk k p)" and "t_rt_priority (tsk k' p) = 0"
    and "t_ltr (tsk k' p) = t_ltr (tsk k p)" and "t_reset_on_fork (tsk k' p) = t_reset_on_fork (tsk k p)"
    and "k_rqs k' = k_rqs k" and "k_links k' = k_links k"
proof -
  let ?k1 = "upd_task p (\<lambda>t. t\<lparr>t_normal_prio := normal_prio t\<rparr>)
    (upd_task p (\<lambda>t. t\<lparr>t_rt_priority := 0\<rparr>) (upd_task p (\<lambda>t. t\<lparr>t_policy := SCHED_LOTTERY\<rparr>) k))"
  have prm: "setscheduler_params env p (normal_attr nice) k = set_load_weight env p True ?k1"
    by (simp add: setscheduler_params_def Let_def normal_attr_fields)
  have np: "normal_prio ((tsk k p)\<lparr>t_policy := SCHED_LOTTERY, t_rt_priority := 0\<rparr>) =
      t_static_prio (tsk k p)"
    by (simp add: normal_prio_def normal_prio_of_def)
  obtain x lw where "set_load_weight env p True ?k1 =
      Some (upd_task p (\<lambda>t. t\<lparr>t_load := lw\<rparr>) (?k1\<lparr>k_ext := x\<rparr>))"
    using set_load_weight_in_range[of ?k1 p env True] assms by auto
  then show thesis unfolding prm[symmetric] by (rule that) (simp_all add: np)
qed

text \<open>The task after the change, and the state around it.\<close>

definition became_lottery :: "tid \<Rightarrow> int \<Rightarrow> ('x, 'l) kernel \<Rightarrow> ('x, 'l) kernel \<Rightarrow> bool" where
  "became_lottery p nice k k' \<longleftrightarrow>
     t_policy (tsk k' p) = SCHED_LOTTERY \<and> t_class (tsk k' p) = Lottery_class \<and>
     t_prio (tsk k' p) = NICE_TO_PRIO nice \<and>
     t_static_prio (tsk k' p) = t_static_prio (tsk k p) \<and>
     t_normal_prio (tsk k' p) = t_static_prio (tsk k p) \<and> t_rt_priority (tsk k' p) = 0 \<and>
     \<not> t_reset_on_fork (tsk k' p) \<and> t_ltr (tsk k' p) = t_ltr (tsk k p)"

lemma check_class_changed_to_lottery:
  assumes "t_class (tsk k p) = Lottery_class" and "prev_class \<noteq> Lottery_class"
    and "own_state_only (vt_switched_from (e_class env prev_class))"
  shows "\<exists>x. check_class_changed env c p prev_class oldprio k = Some (k\<lparr>k_ext := x\<rparr>)"
proof -
  have c: "check_class_changed env c p prev_class oldprio k =
      Option.bind (case vt_switched_from (e_class env prev_class) of
         Some f \<Rightarrow> f c p k | None \<Rightarrow> Some k) (\<lambda>k. case vt_switched_to (cl env k p) of
           None \<Rightarrow> None | Some g \<Rightarrow> g c p k)"
    using assms(1,2) by (simp add: check_class_changed_def class_vt_def bind_eq_case)
  show ?thesis
  proof (cases "vt_switched_from (e_class env prev_class)")
    case None
    with assms(1) show ?thesis
      unfolding c by (intro exI[of _ "k_ext k"]) (simp add: switched_to_lottery_def)
  next
    case (Some f)
    with assms(3) have "\<exists>x. f c p k = Some (k\<lparr>k_ext := x\<rparr>)" by (simp add: own_state_only_def)
    then obtain x where "f c p k = Some (k\<lparr>k_ext := x\<rparr>)" by blast
    with Some assms(1) show ?thesis
      unfolding c by (intro exI[of _ x]) (simp add: switched_to_lottery_def)
  qed
qed

lemma change_to_lottery:
  assumes "c = task_cpu k p" and "t_class (tsk k p) \<noteq> Lottery_class"
    and "\<not> task_on_rq_queued k p" and "\<not> task_current k c p"
    and "100 \<le> t_static_prio (tsk k p)" and "t_static_prio (tsk k p) < 140"
    and "MIN_NICE \<le> nice" and "nice \<le> MAX_NICE" and "t_pi_top_task (tsk k p) = None"
    and "own_state_only (vt_switched_from (e_class env (t_class (tsk k p))))"
    and "\<And>k. e_rt_mutex_adjust_pi env p k = Some k" and "rq_balance_callback (cpu_rq k c) = []"
  obtains k' where "setscheduler_change env c p (normal_attr nice) True SCHED_LOTTERY False k = Some k'"
    and "became_lottery p nice k k'"
proof -
  let ?k1 = "upd_task p (\<lambda>t. t\<lparr>t_reset_on_fork := False\<rparr>) k"
  obtain k2 where k2: "setscheduler_params env p (normal_attr nice) ?k1 = Some k2"
    "t_policy (tsk k2 p) = SCHED_LOTTERY" "t_static_prio (tsk k2 p) = t_static_prio (tsk k p)"
    "t_normal_prio (tsk k2 p) = t_static_prio (tsk k p)" "t_rt_priority (tsk k2 p) = 0"
    "t_ltr (tsk k2 p) = t_ltr (tsk k p)" "\<not> t_reset_on_fork (tsk k2 p)" "k_rqs k2 = k_rqs k"
    by (rule setscheduler_params_lottery[of ?k1 p env nice]) (use assms(5,6) in simp_all)
  let ?k3 = "setscheduler_prio p (NICE_TO_PRIO nice) k2"
  let ?k4 = "setscheduler_uclamp env p (normal_attr nice) ?k3"
  have k3: "t_class (tsk ?k3 p) = Lottery_class" "t_prio (tsk ?k3 p) = NICE_TO_PRIO nice"
    "k_rqs ?k3 = k_rqs k" "became_lottery p nice k ?k3"
    using k2 by (simp_all add: setscheduler_prio_def became_lottery_def)
  have "same_but_clamps (tsk ?k3 p) (tsk ?k4 p)" and r4: "k_rqs ?k4 = k_rqs k"
    using setscheduler_uclamp_frame[of ?k3 env p "normal_attr nice"] k3(3)
    by (simp_all add: clamps_only_def)
  note k4 = same_but_clampsD[OF this(1)]
  have "t_class (tsk ?k4 p) = Lottery_class" using k4 k3 by simp
  from check_class_changed_to_lottery[OF this assms(2,10)] obtain x where
    x: "check_class_changed env c p (t_class (tsk k p)) (t_prio (tsk k p)) ?k4 = Some (?k4\<lparr>k_ext := x\<rparr>)"
    by blast
  have prio: "rt_effective_prio env k p (normal_prio_of SCHED_LOTTERY 0 (sint (word_of_int nice :: u32)))
      = NICE_TO_PRIO nice"
    using assms(9) by (simp add: rt_effective_prio_def rt_effective_prio_of_def normal_prio_of_def
        sint_nice[OF assms(7,8)])
  have e: "rt_effective_prio env ?k1 p m = rt_effective_prio env k p m" for m
    by (simp add: rt_effective_prio_def rt_effective_prio_of_def split: option.splits)
  have st: "\<not> task_on_rq_queued ?k1 p" "\<not> task_current ?k1 c p"
    "t_class (tsk ?k1 p) = t_class (tsk k p)" "t_prio (tsk ?k1 p) = t_prio (tsk k p)"
    using assms(3,4) by (simp_all add: task_on_rq_queued_def task_current_def)
  have "setscheduler_change env c p (normal_attr nice) True SCHED_LOTTERY False k =
      Some (?k4\<lparr>k_ext := x\<rparr>)"
    using k2(1) x assms(11,12) r4
    by (simp only: setscheduler_change_def Let_def st normal_attr_fields prio e if_False if_True
        bind.bind_lunit has_flag_zero simp_thms)
      (simp add: splice_balance_callbacks_def splice_balance_callbacks_split_def balance_callbacks_def)
  moreover have "became_lottery p nice k (?k4\<lparr>k_ext := x\<rparr>)"
    using k3(4) k4 by (simp add: became_lottery_def)
  ultimately show thesis by (rule that)
qed

text \<open>\<open>sched_set_normal\<close> makes a task that is neither queued nor running a lottery
  task: it gets the lottery policy and class and the priority of the nice value asked for, while its
  static priority, its nice value and its tickets stay, and its normal priority is the static one.\<close>

theorem sched_set_normal_makes_lottery:
  assumes "\<not> e_in_interrupt env k" and "c = task_cpu k p"
    and "t_class (tsk k p) \<noteq> Lottery_class" and "t_policy (tsk k p) \<noteq> SCHED_LOTTERY"
    and "\<not> task_on_rq_queued k p" and "\<not> task_current k c p" and "rq_stop (cpu_rq k c) \<noteq> Some p"
    and "100 \<le> t_static_prio (tsk k p)" and "t_static_prio (tsk k p) < 140"
    and "MIN_NICE \<le> nice" and "nice \<le> MAX_NICE" and "0 \<le> t_prio (tsk k p)"
    and "t_pi_top_task (tsk k p) = None" and "rq_balance_callback (cpu_rq k c) = []"
    and "own_state_only (vt_switched_from (e_class env (t_class (tsk k p))))"
    and "\<And>k. e_rt_mutex_adjust_pi env p k = Some k"
  shows "\<exists>k'. sched_set_normal env [] p nice k = Some k' \<and> became_lottery p nice k k'"
proof -
  let ?k1 = "update_rq_clock env c k"
  obtain k' where k': "setscheduler_change env c p (normal_attr nice) True SCHED_LOTTERY False ?k1
      = Some k'" "became_lottery p nice ?k1 k'"
    by (rule change_to_lottery[of c ?k1 p nice env])
      (use assms in \<open>simp_all add: task_cpu_def task_on_rq_queued_def task_current_def\<close>)
  have "setscheduler_locked env p (normal_attr nice) False True False SCHED_LOTTERY (-1) k =
      Some (Return_with 0 k')"
    using assms(2,4,7,12) k'(1)
    by (simp add: setscheduler_locked_def Let_def assms(2)[symmetric] setscheduler_unchanged_def
        dl_task_def dl_prio_def MAX_DL_PRIO_def)
  then have "sched_set_normal env [] p nice k = Some k'"
    by (simp add: sched_set_normal_locked[OF assms(1)])
  with k'(2) show ?thesis by (simp add: became_lottery_def)
qed

definition fair0 :: "(unit, list_heap) kernel" where
  "fair0 = upd_task 1 (\<lambda>t. t\<lparr>t_policy := 0, t_class := Fair_class, t_static_prio := 125\<rparr>) kernel0"

theorem sched_set_normal_makes_lottery_witness:
  "\<exists>k'. sched_set_normal env0 [] 1 (-5) fair0 = Some k' \<and> t_class (tsk k' 1) = Lottery_class \<and>
     t_prio (tsk k' 1) = 115 \<and> t_static_prio (tsk k' 1) = 125"
proof -
  have "\<exists>k'. sched_set_normal env0 [] 1 (-5) fair0 = Some k' \<and> became_lottery 1 (-5) fair0 k'"
    by (rule sched_set_normal_makes_lottery[where c = 0])
      (simp_all add: fair0_def kernel0_def task0_def rq0_def env0_def task_cpu_def task_current_def
        task_on_rq_queued_def TASK_ON_RQ_QUEUED_def policy_defs prio_consts own_state_only_def
        empty_vtable_def null_vtable_def)
  then show ?thesis
    by (auto simp: became_lottery_def fair0_def NICE_TO_PRIO_def DEFAULT_PRIO_def)
qed

text \<open>For a task that already has the lottery policy \<open>sched_set_normal\<close> ignores the nice
  value: it resets the reset-on-fork flag and changes no other field of any task.\<close>

theorem sched_set_normal_ignores_nice:
  assumes "\<not> e_in_interrupt env k" and "t_policy (tsk k p) = SCHED_LOTTERY"
    and "rq_stop (cpu_rq k (task_cpu k p)) \<noteq> Some p"
  shows "sched_set_normal env [] p nice k =
    Some (upd_task p (\<lambda>t. t\<lparr>t_reset_on_fork := False\<rparr>) (update_rq_clock env (task_cpu k p) k))"
  using assms(2,3)
  by (simp add: sched_set_normal_locked[OF assms(1)] setscheduler_locked_def Let_def
      setscheduler_unchanged_def normal_attr_fields)

theorem sched_set_normal_ignores_nice_witness:
  "sched_set_normal env0 [] 1 19 kernel0 =
     Some (upd_task 1 (\<lambda>t. t\<lparr>t_reset_on_fork := False\<rparr>) (update_rq_clock env0 0 kernel0))"
proof -
  have "task_cpu kernel0 1 = 0" by (simp add: task_cpu_def kernel0_def task0_def)
  then show ?thesis
    using sched_set_normal_ignores_nice[of env0 kernel0 1 19]
    by (simp add: env0_def kernel0_def task0_def rq0_def)
qed

section \<open>Set and get\<close>

definition policy_arg :: "bool \<Rightarrow> int" where
  "policy_arg reset = SCHED_LOTTERY OR (if reset then 0x40000000 else 0)"

lemma policy_arg_eq: "policy_arg reset = (if reset then 1073741831 else 7)"
  by (simp add: policy_arg_def SCHED_LOTTERY_def)

text \<open>What \<open>_sched_setscheduler\<close> makes of the policy argument.\<close>

lemma sched_setscheduler_param_lottery:
  assumes "\<not> e_in_interrupt env k"
  shows "\<exists>attr. sched_setscheduler_param env others p (policy_arg reset) 0 check k =
      setscheduler_loop env p attr check True SCHED_LOTTERY others k \<and>
    sa_flags attr = (if reset then SCHED_FLAG_RESET_ON_FORK else 0) \<and> sa_priority attr = 0"
  using assms
  by (cases reset)
    (auto simp: sched_setscheduler_param_def Let_def policy_arg_eq SETPARAM_POLICY_def SCHED_LOTTERY_def
      sched_setscheduler_locking_def zero_attr_def simp del: setscheduler_loop.simps)

lemma reset_flag_ok:
  "\<not> has_flag (if reset then SCHED_FLAG_RESET_ON_FORK else 0) (NOT (SCHED_FLAG_ALL OR SCHED_FLAG_SUGOV))"
  "\<not> has_flag (if reset then SCHED_FLAG_RESET_ON_FORK else 0) SCHED_FLAG_SUGOV"
  "\<not> has_flag (if reset then SCHED_FLAG_RESET_ON_FORK else 0) SCHED_FLAG_UTIL_CLAMP"
  "has_flag (if reset then SCHED_FLAG_RESET_ON_FORK else 0) SCHED_FLAG_RESET_ON_FORK = reset"
  by (simp_all add: has_flag_def sched_flag_defs SCHED_FLAG_SUGOV_def)

text \<open>C27: What a capable caller sets with \<open>sched_setscheduler()\<close> for a lottery task,
  \<open>sched_getscheduler()\<close> reads back: the lottery policy with or without the reset-on-fork bit.\<close>

theorem setscheduler_getscheduler:
  assumes "\<And>k. e_find_task env pid k = Some p" and "0 < pid"
    and "t_policy (tsk k p) = SCHED_LOTTERY" and "rq_stop (cpu_rq k (task_cpu k p)) \<noteq> Some p"
    and "e_capable env CAP_SYS_NICE k" and "e_security_task_setscheduler env p k = 0"
    and "\<And>k. e_security_task_getscheduler env p k = 0" and "\<not> e_in_interrupt env k"
  shows "\<exists>k'. sys_sched_setscheduler env [] pid (policy_arg reset) (Some (Some 0)) k = Some (0, k') \<and>
    sys_sched_getscheduler env pid k' = policy_arg reset"
proof -
  obtain attr where attr: "sched_setscheduler_param env [] p (policy_arg reset) 0 True k =
      setscheduler_loop env p attr True True SCHED_LOTTERY [] k"
    "sa_flags attr = (if reset then SCHED_FLAG_RESET_ON_FORK else 0)" "sa_priority attr = 0"
    using sched_setscheduler_param_lottery[OF assms(8)] by blast
  note flags = reset_flag_ok[of reset, folded attr(2)]
  have "setscheduler_attr_ok env attr SCHED_LOTTERY"
    unfolding setscheduler_attr_ok_def using flags(1) attr(3) by (simp only: lottery_policy_kinds) simp
  then have "setscheduler_check env p attr True SCHED_LOTTERY k = (Inr (reset, SCHED_LOTTERY, -1), k)"
    using assms(5,6) flags
    by (simp add: setscheduler_check_def setscheduler_policy_def)
  moreover have "setscheduler_unchanged env p attr SCHED_LOTTERY k1" if "k_tasks k1 = k_tasks k" for k1
    using that assms(3) flags by (simp add: setscheduler_unchanged_def)
  ultimately have "setscheduler_loop env p attr True True SCHED_LOTTERY [] k =
      Some (0, upd_task p (\<lambda>t. t\<lparr>t_reset_on_fork := reset\<rparr>) (update_rq_clock env (task_cpu k p) k))"
    using assms(4) by (simp add: setscheduler_locked_def Let_def)
  moreover have "0 \<le> policy_arg reset" by (simp add: policy_arg_eq)
  ultimately show ?thesis
    using assms(1,2,3,7) attr(1)
    by (simp add: sys_sched_setscheduler_def do_sched_setscheduler_def sched_setscheduler_def
        find_process_by_pid_def sys_sched_getscheduler_def policy_arg_def del: setscheduler_loop.simps)
qed

theorem setscheduler_getscheduler_witness:
  "\<exists>k'. sys_sched_setscheduler (env0\<lparr>e_capable := \<lambda>n k. True\<rparr>) [] 1 0x40000007 (Some (Some 0)) kernel0 =
      Some (0, k') \<and>
    sys_sched_getscheduler (env0\<lparr>e_capable := \<lambda>n k. True\<rparr>) 1 k' = 0x40000007"
proof -
  have "\<exists>k'. sys_sched_setscheduler (env0\<lparr>e_capable := \<lambda>n k. True\<rparr>) [] 1 (policy_arg True)
        (Some (Some 0)) kernel0 = Some (0, k') \<and>
      sys_sched_getscheduler (env0\<lparr>e_capable := \<lambda>n k. True\<rparr>) 1 k' = policy_arg True"
    by (rule setscheduler_getscheduler[where p = 1])
      (simp_all add: env0_def kernel0_def task0_def rq0_def)
  then show ?thesis by (simp add: policy_arg_eq)
qed

text \<open>The copy of user attributes accepts exactly sizes from the first version of the
  structure (or 0, which stands for it) to a page, and what it accepts has a nice value in range and
  no clamps unless the structure is large enough to hold them.\<close>

theorem sched_copy_attr_accepts:
  assumes "sched_copy_attr u = Inr attr"
  shows "\<exists>sz. ua_size u = Some sz \<and> (sz = 0 \<or> SCHED_ATTR_SIZE_VER0 \<le> sz) \<and> sz \<le> PAGE_SIZE \<and>
    - 20 \<le> sint (sa_nice attr) \<and> sint (sa_nice attr) \<le> 19 \<and>
    (has_flag (sa_flags attr) SCHED_FLAG_UTIL_CLAMP \<longrightarrow> SCHED_ATTR_SIZE_VER1 \<le> sz)"
proof -
  obtain sz where sz: "ua_size u = Some sz"
    using assms by (auto simp: sched_copy_attr_def split: option.splits)
  let ?sz = "if sz = 0 then SCHED_ATTR_SIZE_VER0 else sz"
  obtain a where a: "SCHED_ATTR_SIZE_VER0 \<le> ?sz" "?sz \<le> PAGE_SIZE"
    "has_flag (sa_flags a) SCHED_FLAG_UTIL_CLAMP \<Longrightarrow> SCHED_ATTR_SIZE_VER1 \<le> ?sz"
    "attr = a\<lparr>sa_nice := word_of_int (clamp_val (sint (sa_nice a)) MIN_NICE MAX_NICE)\<rparr>"
    using assms sz
    by (auto simp: sched_copy_attr_def Let_def not_less split: prod.splits if_splits)
  let ?n = "clamp_val (sint (sa_nice a)) MIN_NICE MAX_NICE"
  have n: "MIN_NICE \<le> ?n" "?n \<le> MAX_NICE" by (simp_all add: clamp_val_def prio_consts)
  then have "sint (sa_nice attr) = ?n" using a(4) by (simp add: sint_nice)
  with n have nice: "- 20 \<le> sint (sa_nice attr)" "sint (sa_nice attr) \<le> 19"
    by (simp_all add: prio_consts)
  have "has_flag (sa_flags attr) SCHED_FLAG_UTIL_CLAMP \<longrightarrow> SCHED_ATTR_SIZE_VER1 \<le> sz"
    using a(3,4) by (auto simp: attr_size_defs split: if_splits)
  with sz nice a(1,2) show ?thesis by (auto simp: attr_size_defs split: if_splits)
qed

theorem sched_copy_attr_accepts_witness:
  "sched_copy_attr \<lparr>ua_size = Some 48, ua_copy = (\<lambda>n. (0, zero_attr\<lparr>sa_nice := 100\<rparr>))\<rparr> =
     Inr (zero_attr\<lparr>sa_nice := 19\<rparr>) \<and> sint (sa_nice (zero_attr\<lparr>sa_nice := 19\<rparr>)) \<le> 19"
proof -
  have c: "sched_copy_attr \<lparr>ua_size = Some 48, ua_copy = (\<lambda>n. (0, zero_attr\<lparr>sa_nice := 100\<rparr>))\<rparr> =
     Inr (zero_attr\<lparr>sa_nice := 19\<rparr>)"
    by (simp add: sched_copy_attr_def attr_size_defs zero_attr_def has_flag_def clamp_val_def
        prio_consts)
  with sched_copy_attr_accepts[OF c] show ?thesis by blast
qed

end
