(* ===== verification/Prio_Props.thy ===== *)
theory Prio_Props
  imports Setsched_Calls Affinity Core_Lottery Machine
begin

text \<open>
  Priority changes and migration of lottery tasks. A priority inheritance boost and a nice value
  change the task's priority and move it to the tail of its queue, but never its class or its
  tickets; a migration moves it between the queues of two runqueues. With them the load weight
  tables and the search for a fallback CPU.
\<close>

section \<open>Taking a queued lottery task off and putting it back\<close>

lemma put_prev_task_lottery_core:
  "t_class (tsk k p) = Lottery_class \<Longrightarrow> rq_curr (cpu_rq k c) = p \<Longrightarrow> put_prev_task env c p k = Some k"
  by (simp add: put_prev_task_def put_prev_task_lottery_def)

lemma set_next_task_lottery_core:
  "t_class (tsk k p) = Lottery_class \<Longrightarrow> set_next_task env c p k = Some k"
  by (simp add: set_next_task_def set_next_task_lottery_def)

text \<open>A change \<open>f\<close> of a queued task between a dequeue and an enqueue, around the hooks for a
  running one: the task is moved to the tail.\<close>

lemma lottery_requeue:
  assumes "linux_list (e_list env) dll" and "ltr_queue dll c k ps" and "p \<in> set ps"
    and "t_class (tsk k p) = Lottery_class"
    and "\<And>t. t_class t = Lottery_class \<Longrightarrow> t_class (f t) = Lottery_class"
    and "\<And>t. t_ltr (f t) = t_ltr t"
  obtains k1 k3 where "dequeue_task env c p fl k = Some k1"
    and "(if task_current k c p then put_prev_task env c p k1 else Some k1) = Some k1"
    and "k_tasks k1 = k_tasks k" and "\<And>d. rq_core (cpu_rq k1 d) = rq_core (cpu_rq k d)"
    and "enqueue_task env c p fl2 ((upd_task p f k1)\<lparr>k_ext := x\<rparr>) = Some k3"
    and "(if task_current k c p then set_next_task env c p k3 else Some k3) = Some k3"
    and "k_tasks k3 = (k_tasks k)(p := f (tsk k p))" and "\<And>d. rq_core (cpu_rq k3 d) = rq_core (cpu_rq k d)"
    and "ltr_queue dll c k3 (remove1 p ps @ [p])"
proof -
  note l = lottery_rq.intro[OF assms(1)]
  obtain k1 where k1: "dequeue_task env c p fl k = Some k1" "ltr_queue dll c k1 (remove1 p ps)"
    "ltr_frame c k k1"
    using lottery_rq.core_dequeue[OF l assms(2-4)] by blast
  let ?k2 = "(upd_task p f k1)\<lparr>k_ext := x\<rparr>"
  have q2: "ltr_queue dll c ?k2 (remove1 p ps)"
    using k1(2) assms(6) by (subst ltr_queue_cong[of _ k1]) simp_all
  have p: "p \<notin> set (remove1 p ps)" using lottery_rq.queue_distinct[OF l assms(2)] by simp
  have c2: "t_class (tsk ?k2 p) = Lottery_class" using assms(4,5) ltr_frameD(1)[OF k1(3)] by simp
  obtain k3 where k3: "enqueue_task env c p fl2 ?k2 = Some k3"
    "ltr_queue dll c k3 (remove1 p ps @ [p])" "ltr_frame c ?k2 k3"
    using lottery_rq.core_enqueue[OF l q2 p c2] by blast
  have t3: "k_tasks k3 = (k_tasks k)(p := f (tsk k p))"
    using ltr_frameD(1)[OF k3(3)] ltr_frameD(1)[OF k1(3)] by simp
  have r: "rq_core (cpu_rq k1 d) = rq_core (cpu_rq k d)"
    "rq_core (cpu_rq k3 d) = rq_core (cpu_rq k d)" for d
    using k1(3) k3(3) by (simp_all add: ltr_frame_def)
  show thesis
  proof (rule that[OF k1(1) _ ltr_frameD(1)[OF k1(3)] r(1) k3(1) _ t3 r(2) k3(2)])
    show "(if task_current k c p then put_prev_task env c p k1 else Some k1) = Some k1"
      using assms(4) ltr_frameD[OF k1(3)]
      by (simp add: task_current_def put_prev_task_lottery_core)
    show "(if task_current k c p then set_next_task env c p k3 else Some k3) = Some k3"
      using c2 ltr_frameD(1)[OF k3(3)] by (simp add: set_next_task_lottery_core)
  qed
qed

section \<open>Priority inheritance\<close>

lemma pi_boost_entity_no_dl:
  assumes "\<not> dl_prio pr" and "\<not> dl_prio oldprio"
  shows "\<exists>fl2 n. pi_boost_entity env p q pr oldprio fl k =
    Some (fl2, upd_task p (\<lambda>t. t\<lparr>t_rt_timeout := n\<rparr>) k)"
proof -
  have id: "k = upd_task p (\<lambda>t. t\<lparr>t_rt_timeout := t_rt_timeout (tsk k p)\<rparr>) k"
    by (simp add: upd_task_def)
  show ?thesis
  proof (cases "\<not> rt_prio pr \<and> rt_prio oldprio")
    case True
    with assms show ?thesis by (auto simp: pi_boost_entity_def)
  next
    case False
    with assms obtain fl2 where "pi_boost_entity env p q pr oldprio fl k = Some (fl2, k)"
      by (cases "rt_prio pr") (auto simp: pi_boost_entity_def Let_def)
    then show ?thesis by (metis id)
  qed
qed

lemma prio_changed_lottery_core:
  assumes "t_class (tsk k p) = Lottery_class"
  shows "check_class_changed env c p Lottery_class oldprio k = Some k"
  using assms by (simp add: check_class_changed_def prio_changed_lottery_def)

text \<open>A priority inheritance boost or deboost of a queued lottery task, to a priority that is
  not a deadline one, gives it the smaller of its normal priority and the donor's, leaves its
  class, its policy and its tickets, and moves it to the tail of its queue; so the boost does not
  change its share of the CPU.\<close>

theorem boost_keeps_lottery_class:
  assumes "linux_list (e_list env) dll" and "c = task_cpu k p" and "ltr_queue dll c k ps"
    and "p \<in> set ps" and "t_class (tsk k p) = Lottery_class" and "t_policy (tsk k p) = SCHED_LOTTERY"
    and "task_on_rq_queued k p" and "p \<noteq> rq_idle (cpu_rq k c)"
    and "pr = (case donor of None \<Rightarrow> t_normal_prio (tsk k p)
               | Some q \<Rightarrow> min (t_normal_prio (tsk k p)) (t_prio (tsk k q)))"
    and "pr \<noteq> t_prio (tsk k p)" and "0 \<le> pr" and "0 \<le> t_prio (tsk k p)"
    and "rq_balance_callback (cpu_rq k c) = []"
  shows "\<exists>k'. rt_mutex_setprio env p donor k = Some k' \<and> t_prio (tsk k' p) = pr \<and>
    t_class (tsk k' p) = Lottery_class \<and> t_policy (tsk k' p) = SCHED_LOTTERY \<and>
    t_ltr (tsk k' p) = t_ltr (tsk k p) \<and> t_pi_top_task (tsk k' p) = donor \<and>
    ltr_queue dll c k' (remove1 p ps @ [p])"
proof -
  let ?k1 = "upd_task p (\<lambda>t. t\<lparr>t_pi_top_task := donor\<rparr>) (update_rq_clock env c k)"
  have q1: "ltr_queue dll c ?k1 ps" using assms(3) by (simp add: ltr_queue_upd_task)
  have c1: "t_class (tsk ?k1 p) = Lottery_class" using assms(5) by simp
  have nodl: "\<not> dl_prio pr" "\<not> dl_prio (t_prio (tsk ?k1 p))"
    using assms(11,12) by (simp_all add: dl_prio_def MAX_DL_PRIO_def)
  let ?fl = "DEQUEUE_SAVE OR DEQUEUE_MOVE OR DEQUEUE_NOCLOCK"
  obtain k2 where d: "dequeue_task env c p ?fl ?k1 = Some k2" and tk2: "k_tasks k2 = k_tasks ?k1"
    using lottery_requeue[OF assms(1) q1 assms(4) c1, of "\<lambda>t. t" ?fl 0 undefined] by metis
  obtain fl2 n where b: "pi_boost_entity env p donor pr (t_prio (tsk ?k1 p)) ?fl k2 =
      Some (fl2, upd_task p (\<lambda>t. t\<lparr>t_rt_timeout := n\<rparr>) k2)"
    using pi_boost_entity_no_dl[OF nodl] by blast
  let ?f = "\<lambda>t. t\<lparr>t_rt_timeout := n, t_class := Lottery_class, t_prio := pr\<rparr>"
  obtain k4 where k4:
    "(if task_current ?k1 c p then put_prev_task env c p k2 else Some k2) = Some k2"
    "enqueue_task env c p fl2 ((upd_task p ?f k2)\<lparr>k_ext := k_ext (upd_task p ?f k2)\<rparr>) = Some k4"
    "(if task_current ?k1 c p then set_next_task env c p k4 else Some k4) = Some k4"
    "k_tasks k4 = (k_tasks ?k1)(p := ?f (tsk ?k1 p))" "rq_core (cpu_rq k4 c) = rq_core (cpu_rq ?k1 c)"
    "ltr_queue dll c k4 (remove1 p ps @ [p])"
    by (rule lottery_requeue[OF assms(1) q1 assms(4) c1, of ?f ?fl fl2 "k_ext (upd_task p ?f k2)"])
      (use d in auto)
  have sp: "setscheduler_prio p pr (upd_task p (\<lambda>t. t\<lparr>t_rt_timeout := n\<rparr>) k2) =
      (upd_task p ?f k2)\<lparr>k_ext := k_ext (upd_task p ?f k2)\<rparr>"
    using assms(6) tk2 by (simp add: setscheduler_prio_def upd_task_def)
  have c4: "t_class (tsk k4 p) = Lottery_class" using k4(4) by simp
  have change: "pi_change_prio env c p donor pr ?k1 = Some k4"
    using assms(7,10) d k4(1,2,3) b sp prio_changed_lottery_core[OF c4] c1
    by (simp add: pi_change_prio_def Let_def task_on_rq_queued_def)
  have "balance_callbacks_now env c k4 = Some k4"
    using assms(13) rq_core_fields(7)[OF k4(5)]
    by (simp add: balance_callbacks_now_def splice_balance_callbacks_split_def Let_def)
  moreover have "rt_effective_prio_of k donor (t_normal_prio (tsk k p)) = pr"
    by (simp add: rt_effective_prio_of_def assms(9) split: option.splits)
  ultimately have "rt_mutex_setprio env p donor k = Some k4"
    using assms(8,10) change
    by (simp add: rt_mutex_setprio_def Let_def assms(2)[symmetric])
  with k4(4,6) assms(6) show ?thesis by simp
qed

lemma trio0_core: "rq_core (cpu_rq trio0 d) = rq_core rq0"
proof -
  have "rq_core (cpu_rq trio0 d) = rq_core (cpu_rq boot0 d)"
    using lottery_run_ltr_frame[OF trio0_run(1)] by (simp add: ltr_frame_def)
  then show ?thesis by (simp add: boot0_def init_ltr_rq_def upd_ltr_def kernel0_def rq_core_def)
qed

text \<open>The queue of tasks 1, 2 and 3 with task 2 marked queued; task 4 has real-time priority 50.\<close>

definition donor0 :: "(unit, list_heap) kernel" where
  "donor0 = upd_task 4 (\<lambda>t. t\<lparr>t_prio := 50\<rparr>) (upd_task 2 (\<lambda>t. t\<lparr>t_on_rq := TASK_ON_RQ_QUEUED\<rparr>) trio0)"

lemma donor0_facts:
  "ltr_queue heap_dll 0 donor0 [1, 2, 3]" "task_cpu donor0 2 = 0"
  "t_class (tsk donor0 2) = Lottery_class" "t_policy (tsk donor0 2) = SCHED_LOTTERY"
  "task_on_rq_queued donor0 2" "t_prio (tsk donor0 2) = 120" "t_normal_prio (tsk donor0 2) = 120"
  "t_static_prio (tsk donor0 2) = 120"
  "t_prio (tsk donor0 4) = 50" "rq_idle (cpu_rq donor0 0) = 0" "rq_balance_callback (cpu_rq donor0 0) = []"
proof -
  show "ltr_queue heap_dll 0 donor0 [1, 2, 3]" using trio0_run(2)
    by (simp add: donor0_def ltr_queue_upd_task)
  show "rq_idle (cpu_rq donor0 0) = 0" "rq_balance_callback (cpu_rq donor0 0) = []"
    using rq_core_fields[OF trio0_core, of 0] by (simp_all add: donor0_def rq0_def)
qed (simp_all add: donor0_def task_cpu_def kernel0_def task0_def task_on_rq_queued_def)

theorem boost_keeps_lottery_class_witness:
  "\<exists>k'. rt_mutex_setprio env0 2 (Some 4) donor0 = Some k' \<and> t_prio (tsk k' 2) = 50 \<and>
     t_class (tsk k' 2) = Lottery_class \<and> ltr_queue heap_dll 0 k' [1, 3, 2]"
proof -
  have "\<exists>k'. rt_mutex_setprio env0 2 (Some 4) donor0 = Some k' \<and> t_prio (tsk k' 2) = 50 \<and>
     t_class (tsk k' 2) = Lottery_class \<and> t_policy (tsk k' 2) = SCHED_LOTTERY \<and>
     t_ltr (tsk k' 2) = t_ltr (tsk donor0 2) \<and> t_pi_top_task (tsk k' 2) = Some 4 \<and>
     ltr_queue heap_dll 0 k' (remove1 2 [1, 2, 3] @ [2])"
    by (rule boost_keeps_lottery_class[OF linux_list_env0 _ donor0_facts(1), of 2])
      (simp_all add: donor0_facts)
  then show ?thesis by auto
qed

section \<open>Nice values\<close>

text \<open>Changing the nice value of a queued lottery task changes its static, normal and
  effective priority to the one of the nice value and moves it to the tail of its queue; its class,
  its policy and its tickets stay, so the nice value has no effect on its share. A value that is
  out of range or is the task's own changes nothing.\<close>

theorem nice_keeps_lottery_share:
  assumes "linux_list (e_list env) dll" and "c = task_cpu k p" and "ltr_queue dll c k ps"
    and "p \<in> set ps" and "t_class (tsk k p) = Lottery_class" and "t_policy (tsk k p) = SCHED_LOTTERY"
    and "task_on_rq_queued k p" and "100 \<le> t_prio (tsk k p)"
  shows "\<exists>k'. set_user_nice env p nice k = Some k' \<and>
    (if nice < MIN_NICE \<or> nice > MAX_NICE \<or> nice = task_nice (tsk k p) then k' = k
     else t_static_prio (tsk k' p) = NICE_TO_PRIO nice \<and> t_normal_prio (tsk k' p) = NICE_TO_PRIO nice \<and>
       t_prio (tsk k' p) = NICE_TO_PRIO nice \<and> t_class (tsk k' p) = Lottery_class \<and>
       t_policy (tsk k' p) = SCHED_LOTTERY \<and> t_ltr (tsk k' p) = t_ltr (tsk k p) \<and>
       ltr_queue dll c k' (remove1 p ps @ [p]))"
proof (cases "nice < MIN_NICE \<or> nice > MAX_NICE \<or> nice = task_nice (tsk k p)")
  case True
  then show ?thesis by (auto simp: set_user_nice_def)
next
  case False
  let ?k1 = "update_rq_clock env c k" and ?fl = "DEQUEUE_SAVE OR DEQUEUE_NOCLOCK"
  let ?fl2 = "ENQUEUE_RESTORE OR ENQUEUE_NOCLOCK"
  have q1: "ltr_queue dll c ?k1 ps" and c1: "t_class (tsk ?k1 p) = Lottery_class"
    using assms(3,5) by simp_all
  obtain k2 where d: "dequeue_task env c p ?fl ?k1 = Some k2" and tk2: "k_tasks k2 = k_tasks ?k1"
    using lottery_requeue[OF assms(1) q1 assms(4) c1, of "\<lambda>t. t" ?fl 0 undefined] by metis
  let ?k3 = "upd_task p (\<lambda>t. t\<lparr>t_static_prio := NICE_TO_PRIO nice\<rparr>) k2"
  have "100 \<le> t_static_prio (tsk ?k3 p)" "t_static_prio (tsk ?k3 p) < 140"
    using False by (simp_all add: NICE_TO_PRIO_def prio_consts)
  then obtain x lw where w: "set_load_weight env p True ?k3 =
      Some (upd_task p (\<lambda>t. t\<lparr>t_load := lw\<rparr>) (?k3\<lparr>k_ext := x\<rparr>))"
    using set_load_weight_in_range by blast
  let ?np = "NICE_TO_PRIO nice"
  let ?f = "\<lambda>t. t\<lparr>t_static_prio := ?np, t_load := lw, t_normal_prio := ?np, t_prio := ?np\<rparr>"
  obtain k4 where k4:
    "(if task_current ?k1 c p then put_prev_task env c p k2 else Some k2) = Some k2"
    "enqueue_task env c p ?fl2 ((upd_task p ?f k2)\<lparr>k_ext := x\<rparr>) = Some k4"
    "(if task_current ?k1 c p then set_next_task env c p k4 else Some k4) = Some k4"
    "k_tasks k4 = (k_tasks ?k1)(p := ?f (tsk ?k1 p))" "ltr_queue dll c k4 (remove1 p ps @ [p])"
    by (rule lottery_requeue[OF assms(1) q1 assms(4) c1, of ?f ?fl ?fl2 x]) (use d in auto)
  let ?k5 = "upd_task p (\<lambda>t. t\<lparr>t_load := lw\<rparr>) (?k3\<lparr>k_ext := x\<rparr>)"
  have "normal_prio (tsk ?k5 p) = ?np"
    using assms(6) tk2 by (simp add: normal_prio_def normal_prio_of_def policy_pred_defs)
  moreover have "t_prio (tsk ?k5 p) = t_prio (tsk k p)" using tk2 by simp
  ultimately have ep: "effective_prio p ?k5 =
      (?np, upd_task p (\<lambda>t. t\<lparr>t_normal_prio := ?np\<rparr>) ?k5)"
    using assms(8) by (simp add: effective_prio_def rt_prio_def MAX_RT_PRIO_def upd_task_def)
  have st: "upd_task p (\<lambda>t. t\<lparr>t_prio := ?np\<rparr>) (upd_task p (\<lambda>t. t\<lparr>t_normal_prio := ?np\<rparr>) ?k5) =
      (upd_task p ?f k2)\<lparr>k_ext := x\<rparr>"
    by (simp add: upd_task_def)
  have "t_class (tsk k4 p) = Lottery_class" using k4(4) c1 by simp
  then have hook: "vt_prio_changed (cl env k4 p) = Some prio_changed_lottery" by simp
  have g: "(task_nice (tsk k p) = nice \<or> nice < MIN_NICE \<or> nice > MAX_NICE) = False"
    "(task_has_dl_policy (tsk ?k1 p) \<or> task_has_rt_policy (tsk ?k1 p)) = False"
    "task_on_rq_queued ?k1 p = True"
    using False assms(6,7)
    by (auto simp: task_has_dl_policy_def task_has_rt_policy_def policy_pred_defs task_on_rq_queued_def)
  have "set_user_nice env p nice k = Some k4"
    by (simp only: set_user_nice_def Let_def assms(2)[symmetric] g if_True if_False d k4(1-3) w ep
        st hook bind.bind_lunit prod.case prio_changed_lottery_def)
  with False k4(4,5) assms(5,6) show ?thesis by simp
qed

theorem nice_keeps_lottery_share_witness:
  "\<exists>k'. set_user_nice env0 2 (-10) donor0 = Some k' \<and> t_prio (tsk k' 2) = 110 \<and>
     ltr_queue heap_dll 0 k' [1, 3, 2]"
proof -
  have "(2 :: tid) \<in> set [1, 2, 3]" "100 \<le> t_prio (tsk donor0 2)" by (simp_all add: donor0_facts)
  from nice_keeps_lottery_share[OF linux_list_env0 donor0_facts(2)[symmetric] donor0_facts(1) this(1)
      donor0_facts(3-5) this(2), of "-10"]
  show ?thesis
    by (auto simp: task_nice_def donor0_facts prio_consts PRIO_TO_NICE_def NICE_TO_PRIO_def)
qed

section \<open>Load weights\<close>

text \<open>The two weight tables have an entry for each of the 40 nice values; each entry of the
  second is an inverse 2^32 / weight of the first, rounded up or down, and each step of one nice
  level divides the weight by between 1.2 and 1.28.\<close>

theorem weight_tables_consistent:
  "length sched_prio_to_weight = 40 \<and> length sched_prio_to_wmult = 40 \<and>
   list_all2 (\<lambda>w m. \<bar>uint w * uint m - 2 ^ 32\<bar> < uint w) sched_prio_to_weight sched_prio_to_wmult \<and>
   successively (\<lambda>w v. 6 * uint v \<le> 5 * uint w \<and> 25 * uint w \<le> 32 * uint v) sched_prio_to_weight"
  by (simp add: sched_prio_to_weight_def sched_prio_to_wmult_def)

section \<open>Moving a queued task to another CPU\<close>

lemma set_task_cpu_lottery:
  assumes "e_smp env" and "t_class (tsk k p) = Lottery_class"
  obtains k' where "set_task_cpu env p new_cpu k = Some k'"
    and "k_tasks k' = (k_tasks k)(p := (tsk k p)\<lparr>t_cpu := new_cpu, t_wake_cpu := new_cpu\<rparr>)"
    and "k_links k' = k_links k" and "k_rqs k' = k_rqs k"
  by (rule that[of "the (set_task_cpu env p new_cpu k)"])
    (use assms in \<open>simp_all add: set_task_cpu_def Let_def set_task_cpu_raw_def\<close>)

text \<open>C9: On SMP a migration moves a queued lottery task from the lottery queue of its CPU to the
  tail of the one of the new CPU, and both queues keep their counters; the task is marked queued on
  the new CPU.\<close>

theorem migration_moves_between_queues:
  assumes "linux_list (e_list env) dll" and "e_smp env" and "c \<noteq> d"
    and "ltr_queue dll c k ps" and "ltr_queue dll d k qs" and "set ps \<inter> set qs = {}"
    and "p \<in> set ps" and "t_class (tsk k p) = Lottery_class"
  shows "\<exists>k'. move_queued_task env c p d k = Some k' \<and> ltr_queue dll c k' (remove1 p ps) \<and>
    ltr_queue dll d k' (qs @ [p]) \<and> task_cpu k' p = d \<and> task_on_rq_queued k' p"
proof -
  have dist: "distinct ps"
    using lottery_rq.queue_distinct[OF lottery_rq.intro[OF assms(1)] assms(4)] .
  have qp: "set qs \<inter> set ps = {}" "p \<notin> set qs" using assms(6,7) by auto
  obtain k1 where k1: "deactivate_task env c p DEQUEUE_NOCLOCK k = Some k1"
    "ltr_queue dll c k1 (remove1 p ps)"
    "ltr_frame c (upd_task p (\<lambda>t. t\<lparr>t_on_rq :=
       (if has_flag DEQUEUE_NOCLOCK DEQUEUE_SLEEP then 0 else TASK_ON_RQ_MIGRATING)\<rparr>) k) k1"
    using lottery_deactivate[OF assms(1,4,7,8)] by blast
  have d1: "ltr_queue dll d k1 qs"
    using lottery_deactivate_isolated[OF assms(1,4,7,8) assms(3)[symmetric] assms(5) qp(1) k1(1)] .
  have "t_class (tsk k1 p) = Lottery_class" using ltr_frameD(1)[OF k1(3)] assms(8) by simp
  then obtain k2 where k2: "set_task_cpu env p d k1 = Some k2"
    "k_tasks k2 = (k_tasks k1)(p := (tsk k1 p)\<lparr>t_cpu := d, t_wake_cpu := d\<rparr>)"
    "k_links k2 = k_links k1" "k_rqs k2 = k_rqs k1"
    using set_task_cpu_lottery[OF assms(2)] by blast
  have q2: "ltr_queue dll e k2 rs \<longleftrightarrow> ltr_queue dll e k1 rs" for e rs
    using k2 by (intro ltr_queue_cong) auto
  have c2: "t_class (tsk k2 p) = Lottery_class" "task_cpu k2 p = d"
    using k2(2) \<open>t_class (tsk k1 p) = Lottery_class\<close> by (simp_all add: task_cpu_def)
  obtain k3 where k3: "activate_task env d p 0 k2 = Some k3" "ltr_queue dll d k3 (qs @ [p])"
    "ltr_frame d (upd_task p (\<lambda>t. t\<lparr>t_on_rq := TASK_ON_RQ_QUEUED\<rparr>) k2) k3"
    using lottery_activate[OF assms(1) _ qp(2) c2(1)] d1 q2 by blast
  have "set (remove1 p ps) \<inter> set (p # qs) = {}" using qp dist by auto
  then have c3: "ltr_queue dll c k3 (remove1 p ps)"
    using lottery_activate_isolated[OF assms(1) _ qp(2) c2(1) assms(3) _ _ k3(1)] d1 k1(2) q2 by blast
  have t3: "t_class (tsk k3 p) = Lottery_class" "task_cpu k3 p = d" "task_on_rq_queued k3 p"
    using ltr_frameD(1)[OF k3(3)] c2 by (simp_all add: task_cpu_def task_on_rq_queued_def)
  obtain k' where k': "check_preempt_curr env d p 0 k3 = Some k'" "k_links k' = k_links k3"
    "\<And>e. rq_ltr (cpu_rq k' e) = rq_ltr (cpu_rq k3 e)"
    "\<And>q. \<exists>b. tsk k' q = (tsk k3 q)\<lparr>t_need_resched := b\<rparr>"
    using check_preempt_lottery[OF t3(1)] by metis
  have f: "t_ltr (tsk k' q) = t_ltr (tsk k3 q)" "t_cpu (tsk k' q) = t_cpu (tsk k3 q)"
    "t_on_rq (tsk k' q) = t_on_rq (tsk k3 q)" for q
    using k'(4)[of q] by auto
  have q': "ltr_queue dll e k' rs \<longleftrightarrow> ltr_queue dll e k3 rs" for e rs
    using k'(2,3) f(1) by (intro ltr_queue_cong) simp_all
  have "move_queued_task env c p d k = Some k'"
    using k1(1) k2(1) k3(1) k'(1) c2(2) by (simp add: move_queued_task_def)
  with q' c3 k3(2) t3 f show ?thesis by (simp add: task_cpu_def task_on_rq_queued_def)
qed

definition smp0 :: "(unit, list_heap) env" where
  "smp0 = env0\<lparr>e_smp := True\<rparr>"

lemma linux_list_smp0: "linux_list (e_list smp0) heap_dll"
  by (simp add: smp0_def heap_list.linux_list_axioms)

definition pair0 :: "(unit, list_heap) kernel" where
  "pair0 = init_ltr_rq env0 1 trio0"

lemma pair0_queues: "ltr_queue heap_dll 0 pair0 [1, 2, 3]" "ltr_queue heap_dll 1 pair0 []"
proof -
  show "ltr_queue heap_dll 1 pair0 []" unfolding pair0_def by (rule machine.init_empty)
  show "ltr_queue heap_dll 0 pair0 [1, 2, 3]"
    using trio0_run(2)
      heap_list.init_frame[of "k_links trio0" "RqQueue 0" "map TaskLtr [1, 2, 3]" "RqQueue 1"]
    by (simp add: pair0_def ltr_queue_def init_ltr_rq_def)
qed

theorem migration_moves_between_queues_witness:
  "\<exists>k'. move_queued_task smp0 0 2 1 pair0 = Some k' \<and> ltr_queue heap_dll 0 k' [1, 3] \<and>
     ltr_queue heap_dll 1 k' [2] \<and> task_cpu k' 2 = 1"
proof -
  have "e_smp smp0" "(0 :: cpu) \<noteq> 1" "set [1, 2, 3 :: tid] \<inter> set [] = {}" "(2 :: tid) \<in> set [1, 2, 3]"
    "t_class (tsk pair0 2) = Lottery_class"
    by (simp_all add: smp0_def pair0_def init_ltr_rq_def kernel0_def task0_def)
  from migration_moves_between_queues[OF linux_list_smp0 this(1,2) pair0_queues this(3-5)]
  show ?thesis by auto
qed

section \<open>Choosing a CPU\<close>

text \<open>On SMP the choice of a runqueue for a lottery task that may run on more than one CPU
  is an oops: the class has no \<open>select_task_rq\<close> hook.\<close>

theorem select_task_rq_lottery_oops:
  assumes "t_class (tsk k p) = Lottery_class" and "1 < t_nr_cpus_allowed (tsk k p)"
    and "\<not> is_migration_disabled env (tsk k p)"
  shows "select_task_rq env p c fl k = None"
  using assms by (simp add: select_task_rq_def)

theorem select_task_rq_lottery_oops_witness:
  "select_task_rq smp0 1 0 WF_TTWU (upd_task 1 (\<lambda>t. t\<lparr>t_nr_cpus_allowed := 2\<rparr>) kernel0) = None"
  by (rule select_task_rq_lottery_oops)
    (simp_all add: kernel0_def task0_def is_migration_disabled_def)

lemma find_allowed:
  "List.find (is_cpu_allowed env k p) cs = Some d \<Longrightarrow> is_cpu_allowed env k p d"
  by (auto simp: find_Some_iff)

lemma fallback_loop_allowed:
  "fallback_loop env p st k = Some (d, k') \<Longrightarrow> is_cpu_allowed env k' p d"
proof (induction env p st k rule: fallback_loop.induct)
  case (1 env p st k)
  show ?case
  proof (cases "List.find (is_cpu_allowed env k p) (cpus_of env (cpus_ptr (tsk k p)))")
    case None
    note IH = "1.IH"(1)[OF None] "1.IH"(2)[OF None] "1.IH"(3)[OF None]
    show ?thesis
    proof (cases st)
      case Fb_cpuset
      with "1.prems" None show ?thesis
        by (simp add: fallback_loop.simps[of env p Fb_cpuset k] bind_Some_iff split: if_splits prod.splits)
          (use IH Fb_cpuset in blast)+
    next
      case Fb_possible
      with "1.prems" None show ?thesis
        by (simp add: fallback_loop.simps[of env p Fb_possible k] bind_Some_iff)
          (use IH Fb_possible in blast)
    next
      case Fb_fail
      with "1.prems" None show ?thesis by (simp add: fallback_loop.simps[of env p Fb_fail k])
    qed
  next
    case (Some c)
    with "1.prems" have "d = c" "k' = k" by (simp_all add: fallback_loop.simps[of env p st k])
    with Some show ?thesis by (simp add: find_allowed)
  qed
qed

text \<open>Whatever runqueue \<open>select_task_rq\<close> returns, by the class, by the mask or by the
  fallback with its widened masks, the task may run there in the state that is left.\<close>

theorem select_task_rq_allowed:
  assumes "select_task_rq env p c fl k = Some (d, k')"
  shows "is_cpu_allowed env k' p d"
proof -
  obtain c1 k1 where c1: "(if \<not> is_cpu_allowed env k1 p c1
      then select_fallback_rq env (task_cpu k1 p) p k1 else Some (c1, k1)) = Some (d, k')"
    using assms by (auto simp: select_task_rq_def bind_Some_iff)
  show ?thesis
  proof (cases "is_cpu_allowed env k1 p c1")
    case True
    with c1 show ?thesis by simp
  next
    case False
    with c1 show ?thesis
      by (auto simp: select_fallback_rq_def fallback_loop_allowed find_allowed split: option.splits)
  qed
qed

theorem select_task_rq_allowed_witness:
  "\<exists>d k'. select_task_rq smp0 1 0 WF_TTWU kernel0 = Some (d, k') \<and> is_cpu_allowed smp0 k' 1 d"
proof -
  have "e_nr_cpu_ids smp0 = 2" by (simp add: smp0_def env0_def)
  then have "cpumask_any smp0 {0} = 0" by (simp add: cpumask_any_def cpus_of_def numeral_2_eq_2)
  then have s: "select_task_rq smp0 1 0 WF_TTWU kernel0 = Some (0, kernel0)"
    by (simp add: select_task_rq_def is_cpu_allowed_def is_migration_disabled_def cpus_ptr_def
        kernel0_def task0_def has_flag_def) (simp add: smp0_def env0_def)
  from select_task_rq_allowed[OF s] s show ?thesis by blast
qed

end
