(* ===== verification/Wakeup.thy ===== *)
theory Wakeup
  imports Affinity
begin

text \<open>
  Waking a task (\<open>core.c\<close>, lines 871 to 963 and 3510 to 4222): the wake queue, the match of the
  task's state, the short way for a task that is still queued, the choice of a runqueue, the queue
  of remote wakeups on SMP, and the activation.

  The inter-processor calls, the scheduling domains and the statistics of other subsystems are
  outside: the table \<open>wake_ops\<close>, which the environment carries, has the functions this part calls. Waiting for
  another CPU to leave \<open>schedule()\<close> (\<open>smp_cond_load_acquire(&p->on_cpu, !VAL)\<close>) is the outside
  function \<open>e_wait_on_cpu\<close>: the state after the steps of the other CPUs that end the wait, and
  \<open>None\<close> for a wait that does not end.
\<close>

record ('x, 'l) wake_ops =
  e_schedstat :: bool
  e_preempt_rt :: bool
  e_debug_preempt :: bool
  e_feat_ttwu_queue :: bool
  e_jiffies :: "('x, 'l) kernel \<Rightarrow> u32"
  e_domains :: "cpu \<Rightarrow> ('x, 'l) kernel \<Rightarrow> cpu set list"
  e_sd_wake_remote :: "cpu \<Rightarrow> nat \<Rightarrow> ('x, 'l) kernel \<Rightarrow> 'x"
  e_sd_llc_id :: "cpu \<Rightarrow> ('x, 'l) kernel \<Rightarrow> nat"
  e_delayacct_blkio_end :: "tid \<Rightarrow> ('x, 'l) kernel \<Rightarrow> 'x"
  e_psi_ttwu_dequeue :: "tid \<Rightarrow> ('x, 'l) kernel \<Rightarrow> 'x"
  e_smp_call_single_queue :: "cpu \<Rightarrow> tid \<Rightarrow> ('x, 'l) kernel \<Rightarrow> 'x"
  e_send_call_function_ipi :: "cpu \<Rightarrow> ('x, 'l) kernel \<Rightarrow> 'x"
  e_sync_clock :: "cpu \<Rightarrow> ('x, 'l) kernel \<Rightarrow> 'x"
  e_wait_on_cpu :: "tid \<Rightarrow> ('x, 'l) kernel \<Rightarrow> ('x, 'l) kernel option"
  e_get_task :: "tid \<Rightarrow> ('x, 'l) kernel \<Rightarrow> 'x"
  e_put_task :: "tid \<Rightarrow> ('x, 'l) kernel \<Rightarrow> 'x"

type_synonym ('x, 'l, 'm) wake_env_scheme = "('x, 'l, ('x, 'l, 'm) wake_ops_scheme) env_scheme"
type_synonym ('x, 'l) wake_env = "('x, 'l, unit) wake_env_scheme"

abbreviation wake_of :: "('x, 'l, 'm) wake_env_scheme \<Rightarrow> ('x, 'l, 'm) wake_ops_scheme" where
  "wake_of env \<equiv> env.more env"

section \<open>Statistics\<close>

text \<open>Division of C: the quotient is rounded towards zero.\<close>

definition c_div :: "int \<Rightarrow> int \<Rightarrow> int" where
  "c_div a b = sgn a * sgn b * (\<bar>a\<bar> div \<bar>b\<bar>)"

(* sched.h 209-213: update_avg *)
definition update_avg :: "u64 \<Rightarrow> u64 \<Rightarrow> u64" where
  "update_avg avg sample = avg + word_of_int (c_div (sint (sample - avg)) 8)"

definition upd_wake_stats :: "tid \<Rightarrow> (wake_stats \<Rightarrow> wake_stats) \<Rightarrow> ('x, 'l) kernel \<Rightarrow> ('x, 'l) kernel"
where
  "upd_wake_stats p f = upd_task p (\<lambda>t. t\<lparr>t_wake_stats := f (t_wake_stats t)\<rparr>)"

text \<open>The first domain of the CPU, from the smallest, that spans another one.\<close>

fun first_span :: "cpu \<Rightarrow> cpu set list \<Rightarrow> nat \<Rightarrow> nat option" where
  "first_span c [] i = None"
| "first_span c (m # ms) i = (if c \<in> m then Some i else first_span c ms (Suc i))"

(* core.c 3516-3553: ttwu_stat *)
definition ttwu_stat ::
    "('x, 'l, 'm) wake_env_scheme \<Rightarrow> tid \<Rightarrow> cpu \<Rightarrow> u32 \<Rightarrow> ('x, 'l) kernel \<Rightarrow> ('x, 'l) kernel" where
  "ttwu_stat env p c wake_flags k =
     (if \<not> e_schedstat (wake_of env) then k
      else
       let this = k_this_cpu k;
           k = (if e_smp env
             then let k = (if c = this
                   then upd_wake_stats p (\<lambda>s. s\<lparr>ws_nr_wakeups_local := ws_nr_wakeups_local s + 1\<rparr>)
                          (upd_rq this (\<lambda>r. r\<lparr>rq_ttwu_local := rq_ttwu_local r + 1\<rparr>) k)
                   else let k = upd_wake_stats p
                              (\<lambda>s. s\<lparr>ws_nr_wakeups_remote := ws_nr_wakeups_remote s + 1\<rparr>) k
                        in (case first_span c (e_domains (wake_of env) this k) 0 of
                              Some i \<Rightarrow> ext_do (e_sd_wake_remote (wake_of env) this i) k | None \<Rightarrow> k))
                  in (if has_flag wake_flags WF_MIGRATED
                      then upd_wake_stats p
                        (\<lambda>s. s\<lparr>ws_nr_wakeups_migrate := ws_nr_wakeups_migrate s + 1\<rparr>) k
                      else k)
             else k);
           k = upd_rq this (\<lambda>r. r\<lparr>rq_ttwu_count := rq_ttwu_count r + 1\<rparr>) k;
           k = upd_wake_stats p (\<lambda>s. s\<lparr>ws_nr_wakeups := ws_nr_wakeups s + 1\<rparr>) k
       in if has_flag wake_flags WF_SYNC
          then upd_wake_stats p (\<lambda>s. s\<lparr>ws_nr_wakeups_sync := ws_nr_wakeups_sync s + 1\<rparr>) k else k)"

section \<open>Activation\<close>

text \<open>The end of an idle period: the average idle time is bounded by twice the cost of a
  balancing pass.\<close>

(* core.c !3574-3588: ttwu_do_wakeup (idle_stamp) *)
definition end_idle :: "u64 \<Rightarrow> u32 \<Rightarrow> rq \<Rightarrow> rq" where
  "end_idle now jiffies r =
     (if rq_idle_stamp r \<noteq> 0
      then let delta = now - rq_idle_stamp r;
               max = 2 * rq_max_idle_balance_cost r;
               avg = update_avg (rq_avg_idle r) delta;
               avg = (if avg > max then max else avg)
           in r\<lparr>rq_avg_idle := avg, rq_wake_stamp := jiffies, rq_wake_avg_idle := avg div 2,
                rq_idle_stamp := 0\<rparr>
      else r)"

(* core.c 3558-3591: ttwu_do_wakeup *)
definition ttwu_do_wakeup ::
    "('x, 'l, 'm) wake_env_scheme \<Rightarrow> cpu \<Rightarrow> tid \<Rightarrow> u32 \<Rightarrow> ('x, 'l) kernel \<Rightarrow> ('x, 'l) kernel option"
where
  "ttwu_do_wakeup env c p wake_flags k = do {
     k \<leftarrow> check_preempt_curr env c p wake_flags k;
     let k = upd_task p (\<lambda>t. t\<lparr>t_state := TASK_RUNNING\<rparr>) k;
     if \<not> e_smp env then Some k
     else do {
       k \<leftarrow> (case vt_task_woken (cl env k p) of Some f \<Rightarrow> f c p k | None \<Rightarrow> Some k);
       if rq_idle_stamp (cpu_rq k c) = 0 then Some k
       else let (now, k) = rq_clock_read c k in Some (upd_rq c (end_idle now (e_jiffies (wake_of env) k)) k)
     }
   }"

(* core.c 3593-3616: ttwu_do_activate *)
definition ttwu_do_activate ::
    "('x, 'l, 'm) wake_env_scheme \<Rightarrow> cpu \<Rightarrow> tid \<Rightarrow> u32 \<Rightarrow> ('x, 'l) kernel \<Rightarrow> ('x, 'l) kernel option"
where
  "ttwu_do_activate env c p wake_flags k = do {
     let en_flags = ENQUEUE_WAKEUP OR ENQUEUE_NOCLOCK;
     let k = (if t_contributes_to_load (tsk k p)
              then upd_rq c (\<lambda>r. r\<lparr>rq_nr_uninterruptible := rq_nr_uninterruptible r - 1\<rparr>) k else k);
     let migrated = (e_smp env \<and> has_flag wake_flags WF_MIGRATED);
     let en_flags = (if migrated then en_flags OR ENQUEUE_MIGRATED (e_smp env) else en_flags);
     let k = (if \<not> migrated \<and> t_in_iowait (tsk k p)
              then upd_rq (task_cpu k p) (\<lambda>r. r\<lparr>rq_nr_iowait := rq_nr_iowait r - 1\<rparr>)
                     (ext_do (e_delayacct_blkio_end (wake_of env) p) k)
              else k);
     k \<leftarrow> activate_task env c p en_flags k;
     ttwu_do_wakeup env c p wake_flags k
   }"

(* core.c 3643-3659: ttwu_runnable *)
definition ttwu_runnable ::
    "('x, 'l, 'm) wake_env_scheme \<Rightarrow> tid \<Rightarrow> u32 \<Rightarrow> ('x, 'l) kernel \<Rightarrow> (bool \<times> ('x, 'l) kernel) option"
where
  "ttwu_runnable env p wake_flags k =
     (let c = task_cpu k p in
      if task_on_rq_queued k p
      then map_option (Pair True) (ttwu_do_wakeup env c p wake_flags (update_rq_clock env c k))
      else Some (False, k))"

section \<open>Remote wakeups\<close>

text \<open>The tasks of the list the inter-processor call hands over, in its order.\<close>

(* core.c !3681-3689: sched_ttwu_pending (llist_for_each_entry_safe) *)
fun ttwu_pending_loop ::
    "('x, 'l, 'm) wake_env_scheme \<Rightarrow> cpu \<Rightarrow> tid list \<Rightarrow> ('x, 'l) kernel \<Rightarrow> ('x, 'l) kernel option" where
  "ttwu_pending_loop env c [] k = Some k"
| "ttwu_pending_loop env c (p # ps) k = do {
     let k' = warn_on ''sched_ttwu_pending: on_cpu'' (t_on_cpu (tsk k p)) k;
     k \<leftarrow> (if t_on_cpu (tsk k p) then e_wait_on_cpu (wake_of env) p k' else Some k');
     k \<leftarrow> (if task_cpu k p \<noteq> c
           then set_task_cpu env p c (warn_on ''sched_ttwu_pending: cpu'' True k) else Some k);
     k \<leftarrow> ttwu_do_activate env c p (if t_remote_wakeup (tsk k p) then WF_MIGRATED else 0) k;
     ttwu_pending_loop env c ps k
   }"

(* core.c 3662-3693: sched_ttwu_pending *)
definition sched_ttwu_pending ::
    "('x, 'l, 'm) wake_env_scheme \<Rightarrow> tid list \<Rightarrow> ('x, 'l) kernel \<Rightarrow> ('x, 'l) kernel option" where
  "sched_ttwu_pending env llist k =
     (let c = k_this_cpu k in
      if llist = [] then Some k
      else ttwu_pending_loop env c llist
             (update_rq_clock env c (upd_rq c (\<lambda>r. r\<lparr>rq_ttwu_pending := False\<rparr>) k)))"

(* core.c 3695-3703: send_call_function_single_ipi *)
definition send_call_function_single_ipi ::
    "('x, 'l, 'm) wake_env_scheme \<Rightarrow> cpu \<Rightarrow> ('x, 'l) kernel \<Rightarrow> ('x, 'l) kernel" where
  "send_call_function_single_ipi env c k =
     (let (polling, k) = set_nr_if_polling (rq_idle (cpu_rq k c)) k
      in if \<not> polling then ext_do (e_send_call_function_ipi (wake_of env) c) k else k)"

(* core.c 3711-3719: __ttwu_queue_wakelist *)
definition queue_wakelist ::
    "('x, 'l, 'm) wake_env_scheme \<Rightarrow> tid \<Rightarrow> cpu \<Rightarrow> u32 \<Rightarrow> ('x, 'l) kernel \<Rightarrow> ('x, 'l) kernel" where
  "queue_wakelist env p c wake_flags k =
     (let k = upd_task p (\<lambda>t. t\<lparr>t_remote_wakeup := has_flag wake_flags WF_MIGRATED\<rparr>) k;
          k = upd_rq c (\<lambda>r. r\<lparr>rq_ttwu_pending := True\<rparr>) k
      in ext_do (e_smp_call_single_queue (wake_of env) c p) k)"

(* linux/sched.h 1872-1875: is_idle_task *)
definition is_idle_task :: "task \<Rightarrow> bool" where
  "is_idle_task t = has_flag (t_flags t) PF_IDLE"

(* core.c 3721-3743: wake_up_if_idle *)
definition wake_up_if_idle ::
    "('x, 'l, 'm) env_scheme \<Rightarrow> cpu \<Rightarrow> ('x, 'l) kernel \<Rightarrow> ('x, 'l) kernel" where
  "wake_up_if_idle env c k =
     (if \<not> is_idle_task (tsk k (rq_curr (cpu_rq k c))) then k
      else let (polling, k) = set_nr_if_polling (rq_idle (cpu_rq k c)) k
           in if polling then k
              else if is_idle_task (tsk k (rq_curr (cpu_rq k c)))
              then ext_do (e_smp_send_reschedule env c) k else k)"

(* core.c 3745-3751: cpus_share_cache *)
definition cpus_share_cache ::
    "('x, 'l, 'm) wake_env_scheme \<Rightarrow> ('x, 'l) kernel \<Rightarrow> cpu \<Rightarrow> cpu \<Rightarrow> bool" where
  "cpus_share_cache env k this that =
     (if this = that then True else e_sd_llc_id (wake_of env) this k = e_sd_llc_id (wake_of env) that k)"

(* core.c 3753-3791: ttwu_queue_cond *)
definition ttwu_queue_cond ::
    "('x, 'l, 'm) wake_env_scheme \<Rightarrow> ('x, 'l) kernel \<Rightarrow> tid \<Rightarrow> cpu \<Rightarrow> bool" where
  "ttwu_queue_cond env k p c =
     (if \<not> e_cpu_active env c k then False
      else if c \<notin> cpus_ptr (tsk k p) then False
      else if \<not> cpus_share_cache env k (k_this_cpu k) c then True
      else if c = k_this_cpu k then False
      else if rq_nr_running (cpu_rq k c) = 0 then True
      else False)"

(* core.c 3793-3802: ttwu_queue_wakelist#1 *)
definition ttwu_queue_wakelist ::
    "('x, 'l, 'm) wake_env_scheme \<Rightarrow> tid \<Rightarrow> cpu \<Rightarrow> u32 \<Rightarrow> ('x, 'l) kernel \<Rightarrow> bool \<times> ('x, 'l) kernel"
where
  "ttwu_queue_wakelist env p c wake_flags k =
     (if e_smp env \<and> e_feat_ttwu_queue (wake_of env) \<and> ttwu_queue_cond env k p c
      then (True, queue_wakelist env p c wake_flags (ext_do (e_sync_clock (wake_of env) c) k))
      else (False, k))"

(* core.c 3813-3825: ttwu_queue *)
definition ttwu_queue ::
    "('x, 'l, 'm) wake_env_scheme \<Rightarrow> tid \<Rightarrow> cpu \<Rightarrow> u32 \<Rightarrow> ('x, 'l) kernel \<Rightarrow> ('x, 'l) kernel option"
where
  "ttwu_queue env p c wake_flags k =
     (let (queued, k) = ttwu_queue_wakelist env p c wake_flags k
      in if queued then Some k
         else ttwu_do_activate env c p wake_flags (update_rq_clock env c k))"

section \<open>try_to_wake_up\<close>

text \<open>The result is the match, whether the wakeup counts as a success, and the state.\<close>

(* core.c 3841-3874: ttwu_state_match *)
definition ttwu_state_match ::
    "('x, 'l, 'm) wake_env_scheme \<Rightarrow> tid \<Rightarrow> u32 \<Rightarrow> ('x, 'l) kernel \<Rightarrow> bool \<times> bool \<times> ('x, 'l) kernel"
where
  "ttwu_state_match env p state k =
     (let k = warn_on ''ttwu_state_match''
            (e_debug_preempt (wake_of env) \<and> has_flag state TASK_RTLOCK_WAIT \<and> state \<noteq> TASK_RTLOCK_WAIT) k
      in if has_flag (t_state (tsk k p)) state then (True, True, k)
         else if e_preempt_rt (wake_of env) \<and> has_flag (t_saved_state (tsk k p)) state
         then (False, True, upd_task p (\<lambda>t. t\<lparr>t_saved_state := TASK_RUNNING\<rparr>) k)
         else (False, False, k))"

text \<open>The part between the match and the queueing on SMP. The wake flags come back, as
  \<open>ttwu_stat\<close> reads them.\<close>

(* core.c !4067-4151: try_to_wake_up (CONFIG_SMP) *)
definition ttwu_smp ::
    "('x, 'l, 'm) wake_env_scheme \<Rightarrow> tid \<Rightarrow> u32 \<Rightarrow> ('x, 'l) kernel \<Rightarrow> (u32 \<times> ('x, 'l) kernel) option"
where
  "ttwu_smp env p wake_flags k =
     (let k = upd_task p (\<lambda>t. t\<lparr>t_state := TASK_WAKING\<rparr>) k;
          (queued, k) = (if t_on_cpu (tsk k p)
            then ttwu_queue_wakelist env p (task_cpu k p) wake_flags k else (False, k))
      in if queued then Some (wake_flags, k)
         else do {
           k \<leftarrow> (if t_on_cpu (tsk k p) then e_wait_on_cpu (wake_of env) p k else Some k);
           (c, k) \<leftarrow> select_task_rq env p (t_wake_cpu (tsk k p)) (wake_flags OR WF_TTWU) k;
           (wake_flags, k) \<leftarrow> (if task_cpu k p \<noteq> c
             then do {
               let k = (if t_in_iowait (tsk k p)
                 then upd_rq (task_cpu k p) (\<lambda>r. r\<lparr>rq_nr_iowait := rq_nr_iowait r - 1\<rparr>)
                        (ext_do (e_delayacct_blkio_end (wake_of env) p) k)
                 else k);
               let k = ext_do (e_psi_ttwu_dequeue (wake_of env) p) k;
               k \<leftarrow> set_task_cpu env p c k;
               Some (wake_flags OR WF_MIGRATED, k)
             } else Some (wake_flags, k));
           k \<leftarrow> ttwu_queue env p c wake_flags k;
           Some (wake_flags, k)
         })"

(* core.c 3996-4155: try_to_wake_up *)
definition try_to_wake_up ::
    "('x, 'l, 'm) wake_env_scheme \<Rightarrow> tid \<Rightarrow> u32 \<Rightarrow> u32 \<Rightarrow> ('x, 'l) kernel \<Rightarrow>
     (bool \<times> ('x, 'l) kernel) option" where
  "try_to_wake_up env p state wake_flags k = do {
     let (match, success, k) = ttwu_state_match env p state k;
     (wake_flags, k) \<leftarrow>
       (if \<not> match then Some (wake_flags, k)
        else if p = current_task k
        then Some (wake_flags, upd_task p (\<lambda>t. t\<lparr>t_state := TASK_RUNNING\<rparr>) k)
        else do {
          (runnable, k) \<leftarrow> (if t_on_rq (tsk k p) \<noteq> 0 then ttwu_runnable env p wake_flags k
                           else Some (False, k));
          if runnable then Some (wake_flags, k)
          else if e_smp env then ttwu_smp env p wake_flags k
          else map_option (Pair wake_flags) (ttwu_queue env p (task_cpu k p) wake_flags k)
        });
     Some (success, if success then ttwu_stat env p (task_cpu k p) wake_flags k else k)
   }"

text \<open>The function that is invoked is a parameter.\<close>

(* core.c 4175-4200: try_invoke_on_locked_down_task *)
definition try_invoke_on_locked_down_task ::
    "tid \<Rightarrow> (tid \<Rightarrow> ('x, 'l) kernel \<Rightarrow> (bool \<times> ('x, 'l) kernel) option) \<Rightarrow> ('x, 'l) kernel \<Rightarrow>
     (bool \<times> ('x, 'l) kernel) option" where
  "try_invoke_on_locked_down_task p func k =
     (if t_on_rq (tsk k p) \<noteq> 0 then func p k
      else if t_state (tsk k p) = TASK_RUNNING \<or> t_state (tsk k p) = TASK_WAKING
      then Some (False, k)
      else func p k)"

(* core.c 4213-4216: wake_up_process *)
definition wake_up_process ::
    "('x, 'l, 'm) wake_env_scheme \<Rightarrow> tid \<Rightarrow> ('x, 'l) kernel \<Rightarrow> (bool \<times> ('x, 'l) kernel) option" where
  "wake_up_process env p k = try_to_wake_up env p TASK_NORMAL 0 k"

(* core.c 4219-4222: wake_up_state *)
definition wake_up_state ::
    "('x, 'l, 'm) wake_env_scheme \<Rightarrow> tid \<Rightarrow> u32 \<Rightarrow> ('x, 'l) kernel \<Rightarrow> (bool \<times> ('x, 'l) kernel) option"
where
  "wake_up_state env p state k = try_to_wake_up env p state 0 k"

section \<open>The wake queue\<close>

text \<open>A wake queue is the list of its tasks; a task whose node is in a queue has its \<open>next\<close>
  pointer set (\<open>t_wake_q\<close>).\<close>

(* core.c 871-893: __wake_q_add *)
definition wake_q_add_node ::
    "tid list \<Rightarrow> tid \<Rightarrow> ('x, 'l) kernel \<Rightarrow> bool \<times> tid list \<times> ('x, 'l) kernel" where
  "wake_q_add_node head p k =
     (if t_wake_q (tsk k p) then (False, head, k)
      else (True, head @ [p], upd_task p (\<lambda>t. t\<lparr>t_wake_q := True\<rparr>) k))"

(* core.c 907-911: wake_q_add *)
definition wake_q_add ::
    "('x, 'l, 'm) wake_env_scheme \<Rightarrow> tid list \<Rightarrow> tid \<Rightarrow> ('x, 'l) kernel \<Rightarrow> tid list \<times> ('x, 'l) kernel"
where
  "wake_q_add env head p k =
     (let (added, head, k) = wake_q_add_node head p k
      in (head, if added then ext_do (e_get_task (wake_of env) p) k else k))"

(* core.c 930-934: wake_q_add_safe *)
definition wake_q_add_safe ::
    "('x, 'l, 'm) wake_env_scheme \<Rightarrow> tid list \<Rightarrow> tid \<Rightarrow> ('x, 'l) kernel \<Rightarrow> tid list \<times> ('x, 'l) kernel"
where
  "wake_q_add_safe env head p k =
     (let (added, head, k) = wake_q_add_node head p k
      in (head, if \<not> added then ext_do (e_put_task (wake_of env) p) k else k))"

(* core.c 936-956: wake_up_q *)
fun wake_up_q ::
    "('x, 'l, 'm) wake_env_scheme \<Rightarrow> tid list \<Rightarrow> ('x, 'l) kernel \<Rightarrow> ('x, 'l) kernel option" where
  "wake_up_q env [] k = Some k"
| "wake_up_q env (p # ps) k = do {
     (_, k) \<leftarrow> wake_up_process env p (upd_task p (\<lambda>t. t\<lparr>t_wake_q := False\<rparr>) k);
     wake_up_q env ps (ext_do (e_put_task (wake_of env) p) k)
   }"

end
