(* ===== verification/Fork.thy ===== *)
theory Fork
  imports Wakeup
begin

text \<open>
  Making a task: the scheduler's part of a fork (\<open>core.c\<close>, lines 4230 to 4560) and the path
  of \<open>kernel/fork.c\<close> around it, from the system calls and the checks of the clone flags to the
  tickets a new task is given and its first wakeup.

  What a fork copies for other subsystems (memory, files, signals, credentials, namespaces, the
  process tree) is not part of the model: the functions that copy it are outside functions with an
  error code, called where the code calls them. On the 32-bit machine of the repository an
  \<open>unsigned long\<close> and a pointer have 32 bits.
\<close>

text \<open>The events a tracer can ask for at a fork.\<close>

datatype fork_event = No_event | Event_fork | Event_vfork | Event_clone

text \<open>The arguments of \<open>kernel_clone()\<close> (\<open>struct kernel_clone_args\<close> of a header outside).\<close>

record kclone_args =
  kc_flags :: u64
  kc_pidfd :: u32
  kc_child_tid :: u32
  kc_parent_tid :: u32
  kc_exit_signal :: u32
  kc_stack :: u32
  kc_stack_size :: u32
  kc_tls :: u32
  kc_set_tid :: "int list option"
  kc_set_tid_size :: u32
  kc_cgroup :: u32
  kc_io_thread :: bool

definition kclone0 :: kclone_args where
  "kclone0 = \<lparr>kc_flags = 0, kc_pidfd = 0, kc_child_tid = 0, kc_parent_tid = 0, kc_exit_signal = 0,
     kc_stack = 0, kc_stack_size = 0, kc_tls = 0, kc_set_tid = None, kc_set_tid_size = 0,
     kc_cgroup = 0, kc_io_thread = False\<rparr>"

text \<open>\<open>SIGCHLD\<close>, \<open>CLONE_LEGACY_FLAGS\<close>, the page size and \<open>MAX_PID_NS_LEVEL\<close> are
  constants of headers outside, at their documented values.\<close>

definition SIGCHLD :: u32 where "SIGCHLD = 17"
definition CLONE_LEGACY_FLAGS :: u64 where "CLONE_LEGACY_FLAGS = 0xffffffff"
definition PAGE_SIZE :: nat where "PAGE_SIZE = 4096"
definition MAX_PID_NS_LEVEL :: u64 where "MAX_PID_NS_LEVEL = 32"

record ('x, 'l) fork_ops =
  e_cgroup_sched :: bool
  e_stack_growsup :: bool
  e_sched_rr_timeslice :: "('x, 'l) kernel \<Rightarrow> u32"
  e_fork_init :: "u64 \<Rightarrow> tid \<Rightarrow> ('x, 'l) kernel \<Rightarrow> 'x"
  e_dl_clear_params :: "tid \<Rightarrow> ('x, 'l) kernel \<Rightarrow> 'x \<times> u64 \<times> u64 \<times> tid"
  e_init_entity :: "tid \<Rightarrow> ('x, 'l) kernel \<Rightarrow> 'x"
  e_post_init_entity :: "tid \<Rightarrow> ('x, 'l) kernel \<Rightarrow> 'x"
  e_cset_tg :: "kclone_args \<Rightarrow> ('x, 'l) kernel \<Rightarrow> tgid"
  e_autogroup_tg :: "tid \<Rightarrow> tgid \<Rightarrow> ('x, 'l) kernel \<Rightarrow> tgid"
  e_rseq_migrate :: "tid \<Rightarrow> ('x, 'l) kernel \<Rightarrow> 'x"
  e_unkillable :: "('x, 'l) kernel \<Rightarrow> bool"
  e_pid_ns_differs :: "('x, 'l) kernel \<Rightarrow> bool"
  e_time_ns_differs :: "('x, 'l) kernel \<Rightarrow> bool"
  e_collect_signals :: "u64 \<Rightarrow> ('x, 'l) kernel \<Rightarrow> 'x"
  e_sigpending :: "('x, 'l) kernel \<Rightarrow> bool"
  e_alloc_task :: "('x, 'l) kernel \<Rightarrow> tid option"
  e_dup_other :: "tid \<Rightarrow> ('x, 'l) kernel \<Rightarrow> 'x"
  e_copy_creds :: "u64 \<Rightarrow> tid \<Rightarrow> ('x, 'l) kernel \<Rightarrow> int \<times> 'x"
  e_nproc_exceeded :: "tid \<Rightarrow> ('x, 'l) kernel \<Rightarrow> bool"
  e_max_threads :: "('x, 'l) kernel \<Rightarrow> bool"
  e_copy_init :: "tid \<Rightarrow> ('x, 'l) kernel \<Rightarrow> int \<times> 'x"
  e_copy_resources ::
    "kclone_args \<Rightarrow> tid \<Rightarrow> ('x, 'l) kernel \<Rightarrow> int \<times> 'x \<times> int \<times> nat option"
  e_pidns_adding :: "tid \<Rightarrow> ('x, 'l) kernel \<Rightarrow> bool"
  e_fatal_signal :: "('x, 'l) kernel \<Rightarrow> bool"
  e_copy_attach :: "kclone_args \<Rightarrow> bool \<Rightarrow> tid \<Rightarrow> ('x, 'l) kernel \<Rightarrow> 'x"
  e_copy_undo :: "tid \<Rightarrow> ('x, 'l) kernel \<Rightarrow> 'x"
  e_ptrace_event_enabled :: "fork_event \<Rightarrow> ('x, 'l) kernel \<Rightarrow> bool"
  e_ptrace_event :: "fork_event \<Rightarrow> tid \<Rightarrow> ('x, 'l) kernel \<Rightarrow> 'x"
  e_pid_vnr :: "tid \<Rightarrow> ('x, 'l) kernel \<Rightarrow> int"
  e_put_user :: "u32 \<Rightarrow> int \<Rightarrow> ('x, 'l) kernel \<Rightarrow> 'x"
  e_wait_vfork :: "tid \<Rightarrow> ('x, 'l) kernel \<Rightarrow> (bool \<times> ('x, 'l) kernel) option"
  e_vfork_event :: "tid \<Rightarrow> ('x, 'l) kernel \<Rightarrow> 'x"
  e_copy_clone_struct :: "nat \<Rightarrow> ('x, 'l) kernel \<Rightarrow> int \<times> clone_args"
  e_valid_signal :: "u64 \<Rightarrow> bool"
  e_copy_tids :: "u32 \<Rightarrow> nat \<Rightarrow> ('x, 'l) kernel \<Rightarrow> int list option"
  e_access_ok :: "u32 \<Rightarrow> u32 \<Rightarrow> bool"
  e_thread_group_empty :: "('x, 'l) kernel \<Rightarrow> bool"
  e_sighand_count :: "('x, 'l) kernel \<Rightarrow> nat"
  e_single_threaded :: "('x, 'l) kernel \<Rightarrow> bool"

type_synonym ('x, 'l, 'm) fork_env_scheme = "('x, 'l, ('x, 'l, 'm) fork_ops_scheme) wake_env_scheme"
type_synonym ('x, 'l) fork_env = "('x, 'l, unit) fork_env_scheme"

abbreviation fork_of :: "('x, 'l, 'm) fork_env_scheme \<Rightarrow> ('x, 'l, 'm) fork_ops_scheme" where
  "fork_of env \<equiv> wake_ops.more (wake_of env)"

section \<open>The scheduler's part\<close>

definition wake_stats0 :: wake_stats where
  "wake_stats0 = \<lparr>ws_nr_wakeups = 0, ws_nr_wakeups_sync = 0, ws_nr_wakeups_migrate = 0,
     ws_nr_wakeups_local = 0, ws_nr_wakeups_remote = 0\<rparr>"

text \<open>The nodes and timers of the other classes, the NUMA and the notifier fields belong to
  \<open>e_fork_init\<close>; the deadline parameters to \<open>e_dl_clear_params\<close>.\<close>

(* core.c 4230-4274: __sched_fork *)
definition sched_fork_init ::
    "('x, 'l, 'm) fork_env_scheme \<Rightarrow> u64 \<Rightarrow> tid \<Rightarrow> ('x, 'l) kernel \<Rightarrow> ('x, 'l) kernel" where
  "sched_fork_init env clone_flags p k =
     (let k = upd_task p (\<lambda>t. t\<lparr>t_on_rq := 0,
            t_se := \<lparr>se_on_rq = 0, se_exec_start = 0, se_prev_sum_exec_runtime = 0,
                     se_nr_migrations = 0, se_vruntime = 0\<rparr>,
            t_sum_exec_runtime := 0, t_wake_stats := wake_stats0\<rparr>) k;
          (x, deadline, flags, pi_se) = e_dl_clear_params (fork_of env) p k;
          k = upd_task p (\<lambda>t. t\<lparr>t_dl_deadline := deadline, t_dl_flags := flags, t_dl_pi_se := pi_se,
            t_rt_timeout := 0, t_rt_time_slice := e_sched_rr_timeslice (fork_of env) k, t_rt_on_rq := 0,
            t_rt_on_list := 0\<rparr>) (k\<lparr>k_ext := x\<rparr>)
      in ext_do (e_fork_init (fork_of env) clone_flags p) k)"

text \<open>The reset a parent asked for: only a deadline or real-time policy is reset.\<close>

(* core.c !4398-4413: sched_fork (sched_reset_on_fork) *)
definition sched_reset_fork ::
    "('x, 'l, 'm) env_scheme \<Rightarrow> tid \<Rightarrow> ('x, 'l) kernel \<Rightarrow> ('x, 'l) kernel option" where
  "sched_reset_fork env p k =
     (if \<not> t_reset_on_fork (tsk k p) then Some k
      else do {
        let k = (if task_has_dl_policy (tsk k p) \<or> task_has_rt_policy (tsk k p)
          then upd_task p (\<lambda>t. t\<lparr>t_policy := SCHED_NORMAL, t_static_prio := NICE_TO_PRIO 0,
                                 t_rt_priority := 0\<rparr>) k
          else if PRIO_TO_NICE (t_static_prio (tsk k p)) < 0
          then upd_task p (\<lambda>t. t\<lparr>t_static_prio := NICE_TO_PRIO 0\<rparr>) k
          else k);
        let k = upd_task p (\<lambda>t. t\<lparr>t_normal_prio := t_static_prio t, t_prio := t_static_prio t\<rparr>) k;
        k \<leftarrow> set_load_weight env p False k;
        Some (upd_task p (\<lambda>t. t\<lparr>t_reset_on_fork := False\<rparr>) k)
      })"

(* core.c !4417-4427: sched_fork (class) *)
definition fork_class :: "task \<Rightarrow> sched_class option" where
  "fork_class t =
     (if t_policy t = SCHED_LOTTERY then Some Lottery_class
      else if dl_prio (t_prio t) then None
      else if rt_prio (t_prio t) then Some Rt_class
      else Some Fair_class)"

(* core.c 4378-4444: sched_fork *)
definition sched_fork ::
    "('x, 'l, 'm) fork_env_scheme \<Rightarrow> u64 \<Rightarrow> tid \<Rightarrow> ('x, 'l) kernel \<Rightarrow> (int \<times> ('x, 'l) kernel) option"
where
  "sched_fork env clone_flags p k = do {
     let k = sched_fork_init env clone_flags p k;
     let k = upd_task p (\<lambda>t. t\<lparr>t_state := TASK_NEW,
                               t_prio := t_normal_prio (tsk k (current_task k))\<rparr>) k;
     let k = uclamp_fork env p k;
     k \<leftarrow> sched_reset_fork env p k;
     case fork_class (tsk k p) of
       None \<Rightarrow> Some (- EAGAIN, k)
     | Some sc \<Rightarrow>
         let k = ext_do (e_init_entity (fork_of env) p) (upd_task p (\<lambda>t. t\<lparr>t_class := sc\<rparr>) k)
         in Some (0, if e_smp env then upd_task p (\<lambda>t. t\<lparr>t_on_cpu := False\<rparr>) k else k)
   }"

(* core.c 4446-4473: sched_cgroup_fork *)
definition sched_cgroup_fork ::
    "('x, 'l, 'm) fork_env_scheme \<Rightarrow> tid \<Rightarrow> kclone_args \<Rightarrow> ('x, 'l) kernel \<Rightarrow> ('x, 'l) kernel option"
where
  "sched_cgroup_fork env p args k = do {
     let k = (if e_cgroup_sched (fork_of env)
       then upd_task p (\<lambda>t. t\<lparr>t_tg := e_autogroup_tg (fork_of env) p (e_cset_tg (fork_of env) args k) k\<rparr>) k else k);
     let k = ext_do (e_rseq_migrate (fork_of env) p) k;
     let k = set_task_cpu_raw env p (k_this_cpu k) k;
     case vt_task_fork (cl env k p) of Some f \<Rightarrow> f p k | None \<Rightarrow> Some k
   }"

(* core.c 4475-4478: sched_post_fork *)
definition sched_post_fork ::
    "('x, 'l, 'm) env_scheme \<Rightarrow> tid \<Rightarrow> ('x, 'l) kernel \<Rightarrow> ('x, 'l) kernel" where
  "sched_post_fork env p k = uclamp_post_fork env p k"

(* core.c 4503-4542: wake_up_new_task *)
definition wake_up_new_task ::
    "('x, 'l, 'm) fork_env_scheme \<Rightarrow> tid \<Rightarrow> ('x, 'l) kernel \<Rightarrow> ('x, 'l) kernel option" where
  "wake_up_new_task env p k = do {
     let k = upd_task p (\<lambda>t. t\<lparr>t_state := TASK_RUNNING\<rparr>) k;
     k \<leftarrow> (if e_smp env
       then do {
         let k = ext_do (e_rseq_migrate (fork_of env) p) (upd_task p (\<lambda>t. t\<lparr>t_recent_used_cpu := t_cpu t\<rparr>) k);
         (c, k) \<leftarrow> select_task_rq env p (task_cpu k p) WF_FORK k;
         Some (set_task_cpu_raw env p c k)
       } else Some k);
     let c = task_cpu k p;
     let k = update_rq_clock env c k;
     let k = ext_do (e_post_init_entity (fork_of env) p) k;
     k \<leftarrow> activate_task env c p ENQUEUE_NOCLOCK k;
     k \<leftarrow> check_preempt_curr env c p WF_FORK k;
     if e_smp env
     then (case vt_task_woken (cl env k p) of Some f \<Rightarrow> f c p k | None \<Rightarrow> Some k)
     else Some k
   }"

section \<open>copy_process\<close>

text \<open>The tests of the clone flags, before anything is allocated.\<close>

definition all_flags :: "u64 \<Rightarrow> u64 \<Rightarrow> bool" where
  "all_flags w m \<longleftrightarrow> w AND m = m"

(* fork.c !1957-2015: copy_process (flags) *)
definition copy_process_checks ::
    "('x, 'l, 'm) fork_env_scheme \<Rightarrow> ('x, 'l) kernel \<Rightarrow> u64 \<Rightarrow> int" where
  "copy_process_checks env k clone_flags =
     (if all_flags clone_flags (CLONE_NEWNS OR CLONE_FS) then - EINVAL
      else if all_flags clone_flags (CLONE_NEWUSER OR CLONE_FS) then - EINVAL
      else if has_flag clone_flags CLONE_THREAD \<and> \<not> has_flag clone_flags CLONE_SIGHAND
      then - EINVAL
      else if has_flag clone_flags CLONE_SIGHAND \<and> \<not> has_flag clone_flags CLONE_VM then - EINVAL
      else if has_flag clone_flags CLONE_PARENT \<and> e_unkillable (fork_of env) k then - EINVAL
      else if has_flag clone_flags CLONE_THREAD \<and>
        (has_flag clone_flags (CLONE_NEWUSER OR CLONE_NEWPID) \<or> e_pid_ns_differs (fork_of env) k)
      then - EINVAL
      else if has_flag clone_flags (CLONE_THREAD OR CLONE_VM) \<and> e_time_ns_differs (fork_of env) k
      then - EINVAL
      else if has_flag clone_flags CLONE_PIDFD \<and>
        has_flag clone_flags (CLONE_DETACHED OR CLONE_THREAD) then - EINVAL
      else 0)"

text \<open>The copy of the task structure; its allocation, the stack and the fields of other
  subsystems are outside.\<close>

(* fork.c 886-992: dup_task_struct *)
definition dup_task_struct ::
    "('x, 'l, 'm) fork_env_scheme \<Rightarrow> tid \<Rightarrow> ('x, 'l) kernel \<Rightarrow> (tid \<times> ('x, 'l) kernel) option" where
  "dup_task_struct env orig k = do {
     p \<leftarrow> e_alloc_task (fork_of env) k;
     let k = upd_task p (\<lambda>_. (tsk k orig)\<lparr>t_need_resched := False, t_wake_q := False\<rparr>) k;
     let k = snd (dup_user_cpus_ptr env p orig k);
     Some (p, ext_do (e_dup_other (fork_of env) p) k)
   }"

text \<open>The flags of the new task.\<close>

(* fork.c !2090-2095: copy_process (p->flags) *)
definition copy_process_flags :: "task \<Rightarrow> task" where
  "copy_process_flags t =
     t\<lparr>t_flags := clear_flag (t_flags t) (PF_SUPERPRIV OR PF_WQ_WORKER OR PF_IDLE OR PF_NO_SETAFFINITY)
                  OR PF_FORKNOEXEC,
       t_vfork := False\<rparr>"

text \<open>From the checks to the new task, with the copies of other subsystems as outside functions;
  an error is \<open>Inl\<close> of its (negative) number.\<close>

(* fork.c !2031-2092: copy_process (before sched_fork) *)
definition copy_process_start ::
    "('x, 'l, 'm) fork_env_scheme \<Rightarrow> kclone_args \<Rightarrow> ('x, 'l) kernel \<Rightarrow> (int + tid) \<times> ('x, 'l) kernel"
where
  "copy_process_start env args k =
     (let k = ext_do (e_collect_signals (fork_of env) (kc_flags args)) k in
      if e_sigpending (fork_of env) k then (Inl (- ERESTARTNOINTR), k)
      else case dup_task_struct env (current_task k) k of
        None \<Rightarrow> (Inl (- ENOMEM), k)
      | Some (p, k) \<Rightarrow>
          let k = (if kc_io_thread args
            then upd_task p (\<lambda>t. t\<lparr>t_flags := t_flags t OR PF_IO_WORKER\<rparr>) k else k);
              (retval, x) = e_copy_creds (fork_of env) (kc_flags args) p k;
              k = k\<lparr>k_ext := x\<rparr>
          in if retval < 0 then (Inl retval, k)
             else if e_nproc_exceeded (fork_of env) p k then (Inl (- EAGAIN), k)
             else
              let k = upd_task (current_task k) (\<lambda>t. t\<lparr>t_flags := clear_flag (t_flags t) PF_NPROC_EXCEEDED\<rparr>) k
              in if e_max_threads (fork_of env) k then (Inl (- EAGAIN), k)
                 else (Inr p, upd_task p copy_process_flags k))"

(* fork.c !2174-2182: copy_process (sched_fork) *)
definition copy_process ::
    "('x, 'l, 'm) fork_env_scheme \<Rightarrow> fork_event \<Rightarrow> kclone_args \<Rightarrow> ('x, 'l) kernel \<Rightarrow>
     ((int + tid) \<times> ('x, 'l) kernel) option" where
  "copy_process env trace args k =
     (if copy_process_checks env k (kc_flags args) \<noteq> 0
      then Some (Inl (copy_process_checks env k (kc_flags args)), k)
      else case copy_process_start env args k of
        (Inl e, k) \<Rightarrow> Some (Inl e, ext_do (e_collect_signals (fork_of env) 0) k)
      | (Inr p, k) \<Rightarrow> do {
          let (retval, x) = e_copy_init (fork_of env) p k;
          let k = k\<lparr>k_ext := x\<rparr>;
          if retval \<noteq> 0 then Some (Inl retval, ext_do (e_copy_undo (fork_of env) p) k)
          else do {
            (retval, k) \<leftarrow> sched_fork env (kc_flags args) p k;
            if retval \<noteq> 0 then Some (Inl retval, ext_do (e_copy_undo (fork_of env) p) k)
            else do {
              let (retval, x, pid, mm) = e_copy_resources (fork_of env) args p k;
              let k = k\<lparr>k_ext := x\<rparr>;
              if retval \<noteq> 0 then Some (Inl retval, ext_do (e_copy_undo (fork_of env) p) k)
              else do {
                let k = upd_task p (\<lambda>t. t\<lparr>t_pid := pid, t_mm := mm, t_active_mm := mm\<rparr>) k;
                k \<leftarrow> sched_cgroup_fork env p args k;
                if \<not> e_pidns_adding (fork_of env) p k then Some (Inl (- ENOMEM), ext_do (e_copy_undo (fork_of env) p) k)
                else if e_fatal_signal (fork_of env) k then Some (Inl (- EINTR), ext_do (e_copy_undo (fork_of env) p) k)
                else Some (Inr p, sched_post_fork env p
                       (ext_do (e_copy_attach (fork_of env) args (trace \<noteq> No_event) p) k))
              }
            }
          }
        })"

section \<open>kernel_clone and its system calls\<close>

(* fork.c !2592-2602: kernel_clone (trace) *)
definition clone_trace ::
    "('x, 'l, 'm) fork_env_scheme \<Rightarrow> kclone_args \<Rightarrow> ('x, 'l) kernel \<Rightarrow> fork_event" where
  "clone_trace env args k =
     (if has_flag (kc_flags args) CLONE_UNTRACED then No_event
      else let trace = (if has_flag (kc_flags args) CLONE_VFORK then Event_vfork
                        else if kc_exit_signal args \<noteq> SIGCHLD then Event_clone
                        else Event_fork)
           in if \<not> e_ptrace_event_enabled (fork_of env) trace k then No_event else trace)"

text \<open>The write to \<open>p->ltr.tickets\<close> comes before the test of the pointer: with an error in
  \<open>p\<close> it is an oops.\<close>

(* fork.c 2562-2646: kernel_clone *)
definition kernel_clone ::
    "('x, 'l, 'm) fork_env_scheme \<Rightarrow> kclone_args \<Rightarrow> ('x, 'l) kernel \<Rightarrow> (int \<times> ('x, 'l) kernel) option"
where
  "kernel_clone env args k =
     (let clone_flags = kc_flags args in
      if has_flag clone_flags CLONE_PIDFD \<and> has_flag clone_flags CLONE_PARENT_SETTID \<and>
         kc_pidfd args = kc_parent_tid args then Some (- EINVAL, k)
      else do {
        let trace = clone_trace env args k;
        (r, k) \<leftarrow> copy_process env trace args k;
        case r of
          Inl e \<Rightarrow> None
        | Inr p \<Rightarrow> do {
            let k = upd_task p (\<lambda>t. t\<lparr>t_ltr := (t_ltr t)\<lparr>le_tickets := 5\<rparr>\<rparr>) k;
            let nr = e_pid_vnr (fork_of env) p k;
            let k = (if has_flag clone_flags CLONE_PARENT_SETTID
                     then ext_do (e_put_user (fork_of env) (kc_parent_tid args) nr) k else k);
            let k = (if has_flag clone_flags CLONE_VFORK
                     then ext_do (e_get_task (wake_of env) p) (upd_task p (\<lambda>t. t\<lparr>t_vfork := True\<rparr>) k) else k);
            k \<leftarrow> wake_up_new_task env p k;
            let k = (if trace \<noteq> No_event then ext_do (e_ptrace_event (fork_of env) trace p) k else k);
            if has_flag clone_flags CLONE_VFORK
            then do {
              (killed, k) \<leftarrow> e_wait_vfork (fork_of env) p k;
              Some (nr, if \<not> killed then ext_do (e_vfork_event (fork_of env) p) k else k)
            } else Some (nr, k)
          }
      })"

(* fork.c 2651-2662: kernel_thread *)
definition kernel_thread ::
    "('x, 'l, 'm) fork_env_scheme \<Rightarrow> u32 \<Rightarrow> u32 \<Rightarrow> u32 \<Rightarrow> ('x, 'l) kernel \<Rightarrow>
     (int \<times> ('x, 'l) kernel) option" where
  "kernel_thread env fn arg flags k =
     kernel_clone env (kclone0\<lparr>
       kc_flags := clear_flag (ucast flags OR CLONE_VM OR CLONE_UNTRACED) CSIGNAL,
       kc_exit_signal := flags AND ucast CSIGNAL, kc_stack := fn, kc_stack_size := arg\<rparr>) k"

(* fork.c 2538-2552: create_io_thread *)
definition create_io_thread ::
    "('x, 'l, 'm) fork_env_scheme \<Rightarrow> u32 \<Rightarrow> u32 \<Rightarrow> ('x, 'l) kernel \<Rightarrow>
     ((int + tid) \<times> ('x, 'l) kernel) option" where
  "create_io_thread env fn arg k =
     (let flags = CLONE_FS OR CLONE_FILES OR CLONE_SIGHAND OR CLONE_THREAD OR CLONE_IO
      in copy_process env No_event (kclone0\<lparr>
           kc_flags := clear_flag (flags OR CLONE_VM OR CLONE_UNTRACED) CSIGNAL,
           kc_exit_signal := ucast (flags AND CSIGNAL), kc_stack := fn, kc_stack_size := arg,
           kc_io_thread := True\<rparr>) k)"

(* fork.c 2665-2677: SYSCALL_DEFINE0(fork *)
definition sys_fork ::
    "('x, 'l, 'm) fork_env_scheme \<Rightarrow> ('x, 'l) kernel \<Rightarrow> (int \<times> ('x, 'l) kernel) option" where
  "sys_fork env k = kernel_clone env (kclone0\<lparr>kc_exit_signal := SIGCHLD\<rparr>) k"

(* fork.c 2681-2689: SYSCALL_DEFINE0(vfork *)
definition sys_vfork ::
    "('x, 'l, 'm) fork_env_scheme \<Rightarrow> ('x, 'l) kernel \<Rightarrow> (int \<times> ('x, 'l) kernel) option" where
  "sys_vfork env k =
     kernel_clone env (kclone0\<lparr>kc_flags := CLONE_VFORK OR CLONE_VM, kc_exit_signal := SIGCHLD\<rparr>) k"

(* fork.c !2694-2725: clone *)
definition sys_clone ::
    "('x, 'l, 'm) fork_env_scheme \<Rightarrow> u32 \<Rightarrow> u32 \<Rightarrow> u32 \<Rightarrow> u32 \<Rightarrow> u32 \<Rightarrow> ('x, 'l) kernel \<Rightarrow>
     (int \<times> ('x, 'l) kernel) option" where
  "sys_clone env clone_flags newsp parent_tidptr tls child_tidptr k =
     kernel_clone env (kclone0\<lparr>
       kc_flags := clear_flag (ucast clone_flags) CSIGNAL, kc_pidfd := parent_tidptr,
       kc_child_tid := child_tidptr, kc_parent_tid := parent_tidptr,
       kc_exit_signal := clone_flags AND ucast CSIGNAL, kc_stack := newsp, kc_tls := tls\<rparr>) k"

(* fork.c 2732-2799: copy_clone_args_from_user *)
definition copy_clone_args_from_user ::
    "('x, 'l, 'm) fork_env_scheme \<Rightarrow> nat \<Rightarrow> ('x, 'l) kernel \<Rightarrow> int + kclone_args" where
  "copy_clone_args_from_user env usize k =
     (if usize > PAGE_SIZE then Inl (- E2BIG)
      else if usize < CLONE_ARGS_SIZE_VER0 then Inl (- EINVAL)
      else
       let (err, args) = e_copy_clone_struct (fork_of env) usize k in
       if err \<noteq> 0 then Inl err
       else if ca_set_tid_size args > MAX_PID_NS_LEVEL then Inl (- EINVAL)
       else if ca_set_tid args = 0 \<and> ca_set_tid_size args > 0 then Inl (- EINVAL)
       else if ca_set_tid args \<noteq> 0 \<and> ca_set_tid_size args = 0 then Inl (- EINVAL)
       else if has_flag (ca_exit_signal args) (NOT CSIGNAL) \<or> \<not> e_valid_signal (fork_of env) (ca_exit_signal args)
       then Inl (- EINVAL)
       else if has_flag (ca_flags args) CLONE_INTO_CGROUP \<and>
         (ca_cgroup args > 0x7fffffff \<or> usize < CLONE_ARGS_SIZE_VER2) then Inl (- EINVAL)
       else
        let kargs = kclone0\<lparr>kc_flags := ca_flags args, kc_pidfd := ucast (ca_pidfd args),
              kc_child_tid := ucast (ca_child_tid args), kc_parent_tid := ucast (ca_parent_tid args),
              kc_exit_signal := ucast (ca_exit_signal args), kc_stack := ucast (ca_stack args),
              kc_stack_size := ucast (ca_stack_size args), kc_tls := ucast (ca_tls args),
              kc_set_tid_size := ucast (ca_set_tid_size args), kc_cgroup := ucast (ca_cgroup args)\<rparr>
        in if ca_set_tid args \<noteq> 0
           then (case e_copy_tids (fork_of env) (ucast (ca_set_tid args)) (unat (ca_set_tid_size args)) k of
                   None \<Rightarrow> Inl (- EFAULT)
                 | Some tids \<Rightarrow> Inr (kargs\<lparr>kc_set_tid := Some tids\<rparr>))
           else Inr (kargs\<lparr>kc_set_tid := Some []\<rparr>))"

(* fork.c 2809-2827: clone3_stack_valid *)
definition clone3_stack_valid ::
    "('x, 'l, 'm) fork_env_scheme \<Rightarrow> kclone_args \<Rightarrow> kclone_args option" where
  "clone3_stack_valid env kargs =
     (if kc_stack kargs = 0
      then (if kc_stack_size kargs > 0 then None else Some kargs)
      else if kc_stack_size kargs = 0 then None
      else if \<not> e_access_ok (fork_of env) (kc_stack kargs) (kc_stack_size kargs) then None
      else Some (if \<not> e_stack_growsup (fork_of env)
                 then kargs\<lparr>kc_stack := kc_stack kargs + kc_stack_size kargs\<rparr> else kargs))"

(* fork.c 2829-2855: clone3_args_valid *)
definition clone3_args_valid ::
    "('x, 'l, 'm) fork_env_scheme \<Rightarrow> kclone_args \<Rightarrow> kclone_args option" where
  "clone3_args_valid env kargs =
     (if has_flag (kc_flags kargs)
           (NOT (CLONE_LEGACY_FLAGS OR CLONE_CLEAR_SIGHAND OR CLONE_INTO_CGROUP)) then None
      else if has_flag (kc_flags kargs) (CLONE_DETACHED OR (CSIGNAL AND NOT CLONE_NEWTIME)) then None
      else if all_flags (kc_flags kargs) (CLONE_SIGHAND OR CLONE_CLEAR_SIGHAND) then None
      else if has_flag (kc_flags kargs) (CLONE_THREAD OR CLONE_PARENT) \<and> kc_exit_signal kargs \<noteq> 0
      then None
      else clone3_stack_valid env kargs)"

(* fork.c 2868-2885: SYSCALL_DEFINE2(clone3 *)
definition sys_clone3 ::
    "('x, 'l, 'm) fork_env_scheme \<Rightarrow> nat \<Rightarrow> ('x, 'l) kernel \<Rightarrow> (int \<times> ('x, 'l) kernel) option" where
  "sys_clone3 env usize k =
     (case copy_clone_args_from_user env usize k of
        Inl err \<Rightarrow> Some (err, k)
      | Inr kargs \<Rightarrow>
          (case clone3_args_valid env kargs of
             None \<Rightarrow> Some (- EINVAL, k)
           | Some kargs \<Rightarrow> kernel_clone env kargs k))"

(* fork.c 2978-3006: check_unshare_flags *)
definition check_unshare_flags ::
    "('x, 'l, 'm) fork_env_scheme \<Rightarrow> ('x, 'l) kernel \<Rightarrow> u64 \<Rightarrow> int" where
  "check_unshare_flags env k unshare_flags =
     (if has_flag unshare_flags (NOT (CLONE_THREAD OR CLONE_FS OR CLONE_NEWNS OR CLONE_SIGHAND OR
           CLONE_VM OR CLONE_FILES OR CLONE_SYSVSEM OR CLONE_NEWUTS OR CLONE_NEWIPC OR
           CLONE_NEWNET OR CLONE_NEWUSER OR CLONE_NEWPID OR CLONE_NEWCGROUP OR CLONE_NEWTIME))
      then - EINVAL
      else if has_flag unshare_flags (CLONE_THREAD OR CLONE_SIGHAND OR CLONE_VM) \<and>
        \<not> e_thread_group_empty (fork_of env) k then - EINVAL
      else if has_flag unshare_flags (CLONE_SIGHAND OR CLONE_VM) \<and> e_sighand_count (fork_of env) k > 1
      then - EINVAL
      else if has_flag unshare_flags CLONE_VM \<and> \<not> e_single_threaded (fork_of env) k then - EINVAL
      else 0)"

end
