(* ===== verification/Wakeup_Lottery.thy ===== *)
theory Wakeup_Lottery
  imports Wakeup Core_Lottery
begin

text \<open>
  Waking a lottery task: the lemmas behind the properties of \<open>Wakeup_Props\<close> and the wakeup step of
  \<open>Lottery_System\<close>. A wakeup appends the task to the lottery queue of the CPU, marks it queued and
  running, and asks a running task of another class to reschedule.
\<close>

section \<open>The effect of a wakeup\<close>

text \<open>The flag of a task after a lottery task became runnable on \<open>c\<close>.\<close>

definition wake_flag :: "cpu \<Rightarrow> ('x, 'l) kernel \<Rightarrow> tid \<Rightarrow> bool" where
  "wake_flag c k q \<longleftrightarrow> t_need_resched (tsk k q) \<or>
     (q = rq_curr (cpu_rq k c) \<and> t_class (tsk k q) \<noteq> Lottery_class)"

definition woken :: "cpu \<Rightarrow> tid \<Rightarrow> ('x, 'l) kernel \<Rightarrow> ('x, 'l) kernel \<Rightarrow> bool" where
  "woken c p k k' \<longleftrightarrow>
     k_this_cpu k' = k_this_cpu k \<and>
     (\<forall>d. rq_curr (cpu_rq k' d) = rq_curr (cpu_rq k d)) \<and>
     (\<forall>q. t_class (tsk k' q) = t_class (tsk k q) \<and> t_ltr (tsk k' q) = t_ltr (tsk k q) \<and>
          t_policy (tsk k' q) = t_policy (tsk k q) \<and> t_cpu (tsk k' q) = t_cpu (tsk k q) \<and>
          t_on_cpu (tsk k' q) = t_on_cpu (tsk k q) \<and>
          t_need_resched (tsk k' q) = wake_flag c k q) \<and>
     (\<forall>q. q \<noteq> p \<longrightarrow> t_on_rq (tsk k' q) = t_on_rq (tsk k q) \<and> t_state (tsk k' q) = t_state (tsk k q)) \<and>
     t_on_rq (tsk k' p) = TASK_ON_RQ_QUEUED \<and> t_state (tsk k' p) = TASK_RUNNING"

lemma end_idle_frame [simp]:
  "rq_core (end_idle now j r) = rq_core r" "rq_ltr (end_idle now j r) = rq_ltr r"
  by (cases "rq_idle_stamp r = 0"; simp add: end_idle_def rq_core_def Let_def)+

lemma rq_clock_read_frame [simp]:
  "k_tasks (snd (rq_clock_read c k)) = k_tasks k" "k_rqs (snd (rq_clock_read c k)) = k_rqs k"
  "k_links (snd (rq_clock_read c k)) = k_links k"
  "k_this_cpu (snd (rq_clock_read c k)) = k_this_cpu k"
  by (simp_all add: rq_clock_read_def assert_clock_updated_def Let_def)

text \<open>The end of the wakeup: the class has no \<open>task_woken\<close> hook.\<close>

lemma ttwu_do_wakeup_lottery:
  assumes "t_class (tsk k p) = Lottery_class"
  obtains k' where "ttwu_do_wakeup env c p fl k = Some k'"
    and "k_links k' = k_links k" and "\<And>d. rq_ltr (cpu_rq k' d) = rq_ltr (cpu_rq k d)"
    and "\<And>q. tsk k' q = (tsk k q)\<lparr>t_need_resched := wake_flag c k q,
           t_state := (if q = p then TASK_RUNNING else t_state (tsk k q))\<rparr>"
    and "k_this_cpu k' = k_this_cpu k" and "\<And>d. rq_core (cpu_rq k' d) = rq_core (cpu_rq k d)"
proof -
  obtain k1 where k1: "check_preempt_curr env c p fl k = Some k1"
    "k_links k1 = k_links k" "\<And>d. rq_ltr (cpu_rq k1 d) = rq_ltr (cpu_rq k d)"
    "\<And>q. tsk k1 q = (tsk k q)\<lparr>t_need_resched := t_need_resched (tsk k q) \<or>
           (q = rq_curr (cpu_rq k c) \<and> t_class (tsk k q) \<noteq> Lottery_class)\<rparr>"
    "k_this_cpu k1 = k_this_cpu k" "\<And>d. rq_core (cpu_rq k1 d) = rq_core (cpu_rq k d)"
    by (rule check_preempt_effect[OF assms, of env c fl]) (rule that)
  let ?k2 = "upd_task p (\<lambda>t. t\<lparr>t_state := TASK_RUNNING\<rparr>) k1"
  let ?k3 = "snd (rq_clock_read c ?k2)" and ?now = "fst (rq_clock_read c ?k2)"
  let ?k' = "if \<not> e_smp env \<or> rq_idle_stamp (cpu_rq ?k2 c) = 0 then ?k2
     else upd_rq c (end_idle ?now (e_jiffies (wake_of env) ?k3)) ?k3"
  have cls: "cl env ?k2 p = lottery_sched_class env" using assms k1(4)[of p] by simp
  have "ttwu_do_wakeup env c p fl k = Some ?k'"
    unfolding ttwu_do_wakeup_def k1(1) bind.bind_lunit Let_def cls lottery_null_hooks option.case
    by (simp add: case_prod_beta)
  moreover have "k_links ?k' = k_links k" "rq_ltr (cpu_rq ?k' d) = rq_ltr (cpu_rq k d)" for d
    using k1(2,3) by simp_all
  moreover have "tsk ?k' q = (tsk k q)\<lparr>t_need_resched := wake_flag c k q,
           t_state := (if q = p then TASK_RUNNING else t_state (tsk k q))\<rparr>" for q
    using k1(4) by (simp add: wake_flag_def)
  moreover have "k_this_cpu ?k' = k_this_cpu k" "rq_core (cpu_rq ?k' d) = rq_core (cpu_rq k d)" for d
    using k1(5,6) by simp_all
  ultimately show thesis by (rule that)
qed

text \<open>The part of the runqueue a wakeup changes before the activation.\<close>

lemma ttwu_do_activate_lottery:
  assumes "linux_list (e_list env) dll" and "ltr_queue dll c k ps" and "p \<notin> set ps"
    and "t_class (tsk k p) = Lottery_class"
  obtains k' where "ttwu_do_activate env c p fl k = Some k'" and "ltr_queue dll c k' (ps @ [p])"
    and "woken c p k k'"
    and "rq_nr_uninterruptible (cpu_rq k' c) =
           rq_nr_uninterruptible (cpu_rq k c) - of_bool (t_contributes_to_load (tsk k p))"
    and "rq_nr_iowait (cpu_rq k' (task_cpu k p)) = rq_nr_iowait (cpu_rq k (task_cpu k p)) -
           of_bool (t_in_iowait (tsk k p) \<and> \<not> (e_smp env \<and> has_flag fl WF_MIGRATED))"
proof -
  let ?mig = "e_smp env \<and> has_flag fl WF_MIGRATED"
  let ?ef = "if ?mig then (ENQUEUE_WAKEUP OR ENQUEUE_NOCLOCK) OR ENQUEUE_MIGRATED (e_smp env)
    else ENQUEUE_WAKEUP OR ENQUEUE_NOCLOCK"
  let ?k1 = "if t_contributes_to_load (tsk k p)
              then upd_rq c (\<lambda>r. r\<lparr>rq_nr_uninterruptible := rq_nr_uninterruptible r - 1\<rparr>) k else k"
  let ?k2 = "if \<not> ?mig \<and> t_in_iowait (tsk k p)
              then upd_rq (task_cpu ?k1 p) (\<lambda>r. r\<lparr>rq_nr_iowait := rq_nr_iowait r - 1\<rparr>)
                     (ext_do (e_delayacct_blkio_end (wake_of env) p) ?k1)
              else ?k1"
  have q2: "ltr_queue dll c ?k2 ps" using assms(2) by (simp add: ltr_queue_upd_rq)
  have t2: "k_tasks ?k2 = k_tasks k" "k_this_cpu ?k2 = k_this_cpu k" by simp_all
  have r2: "rq_curr (cpu_rq ?k2 d) = rq_curr (cpu_rq k d)" for d by simp
  have cnt: "rq_nr_uninterruptible (cpu_rq ?k2 c) =
      rq_nr_uninterruptible (cpu_rq k c) - of_bool (t_contributes_to_load (tsk k p))"
    "rq_nr_iowait (cpu_rq ?k2 (task_cpu k p)) = rq_nr_iowait (cpu_rq k (task_cpu k p)) -
           of_bool (t_in_iowait (tsk k p) \<and> \<not> ?mig)"
    by (auto simp: task_cpu_def)
  have cls: "t_class (tsk ?k2 p) = Lottery_class" using assms(4) t2 by simp
  obtain k3 where k3: "activate_task env c p ?ef ?k2 = Some k3" "ltr_queue dll c k3 (ps @ [p])"
    "ltr_frame c (upd_task p (\<lambda>t. t\<lparr>t_on_rq := TASK_ON_RQ_QUEUED\<rparr>) ?k2) k3"
    using lottery_activate[OF assms(1) q2 assms(3) cls, of ?ef] by blast
  note f3 = ltr_frameD[OF k3(3)]
  have "t_class (tsk k3 p) = Lottery_class" using f3(1) cls by simp
  then obtain k' where k': "ttwu_do_wakeup env c p fl k3 = Some k'"
    "k_links k' = k_links k3" "\<And>d. rq_ltr (cpu_rq k' d) = rq_ltr (cpu_rq k3 d)"
    "\<And>q. tsk k' q = (tsk k3 q)\<lparr>t_need_resched := wake_flag c k3 q,
           t_state := (if q = p then TASK_RUNNING else t_state (tsk k3 q))\<rparr>"
    "k_this_cpu k' = k_this_cpu k3" "\<And>d. rq_core (cpu_rq k' d) = rq_core (cpu_rq k3 d)"
    by (rule ttwu_do_wakeup_lottery[of k3 p env c fl]) (rule that)
  have "ttwu_do_activate env c p fl k = Some k'"
  proof -
    have io: "(\<not> ?mig \<and> t_in_iowait (tsk ?k1 p)) = (\<not> ?mig \<and> t_in_iowait (tsk k p))" by simp
    show ?thesis
      unfolding ttwu_do_activate_def Let_def io k3(1) bind.bind_lunit by (rule k'(1))
  qed
  moreover have "ltr_queue dll c k' (ps @ [p])"
    using k3(2) k'(2-4) by (subst ltr_queue_cong) simp_all
  moreover have "woken c p k k'"
    using f3(1,2,4) k'(4,5) rq_core_fields(1)[OF k'(6)] t2 r2
    by (simp add: woken_def wake_flag_def)
  moreover have "rq_nr_uninterruptible (cpu_rq k' d) = rq_nr_uninterruptible (cpu_rq ?k2 d)"
    "rq_nr_iowait (cpu_rq k' d) = rq_nr_iowait (cpu_rq ?k2 d)" for d
    using f3(10,11) rq_core_fields(8,9)[OF k'(6)] by simp_all
  note this[of c, unfolded cnt] this[of "task_cpu k p", unfolded cnt]
  ultimately show thesis by (intro that)
qed

section \<open>try_to_wake_up on UP\<close>

text \<open>The match and the statistics touch no scheduling state.\<close>

definition stats_only :: "('x, 'l) kernel \<Rightarrow> ('x, 'l) kernel \<Rightarrow> bool" where
  "stats_only k k' \<longleftrightarrow> k_links k' = k_links k \<and> k_this_cpu k' = k_this_cpu k \<and>
     (\<forall>d. rq_core (cpu_rq k' d) = rq_core (cpu_rq k d) \<and> rq_ltr (cpu_rq k' d) = rq_ltr (cpu_rq k d)) \<and>
     (\<forall>q. \<exists>w v. tsk k' q = (tsk k q)\<lparr>t_wake_stats := w, t_saved_state := v\<rparr>)"

lemma stats_only_refl: "stats_only k k"
proof -
  have "\<exists>w v. tsk k q = (tsk k q)\<lparr>t_wake_stats := w, t_saved_state := v\<rparr>" for q
    by (rule exI[of _ "t_wake_stats (tsk k q)"], rule exI[of _ "t_saved_state (tsk k q)"]) simp
  then show ?thesis by (simp add: stats_only_def)
qed

lemma stats_only_upd:
  "stats_only k k1 \<Longrightarrow> stats_only k (upd_wake_stats p f k1)"
  "stats_only k k1 \<Longrightarrow> stats_only k (upd_task p (\<lambda>t. t\<lparr>t_saved_state := v\<rparr>) k1)"
  "stats_only k k1 \<Longrightarrow> stats_only k (ext_do g k1)"
  "stats_only k k1 \<Longrightarrow> stats_only k (warn_on s b k1)"
  "stats_only k k1 \<Longrightarrow> stats_only k (upd_rq c (\<lambda>r. r\<lparr>rq_ttwu_local := h r\<rparr>) k1)"
  "stats_only k k1 \<Longrightarrow> stats_only k (upd_rq c (\<lambda>r. r\<lparr>rq_ttwu_count := h r\<rparr>) k1)"
proof -
  have *: "\<exists>w v. (tsk k1 q)\<lparr>t_wake_stats := a\<rparr> = (tsk k q)\<lparr>t_wake_stats := w, t_saved_state := v\<rparr>"
    "\<exists>w v. (tsk k1 q)\<lparr>t_saved_state := u\<rparr> = (tsk k q)\<lparr>t_wake_stats := w, t_saved_state := v\<rparr>"
    if k1: "stats_only k k1" for q a u
  proof -
    obtain w v where "tsk k1 q = (tsk k q)\<lparr>t_wake_stats := w, t_saved_state := v\<rparr>"
      using k1 unfolding stats_only_def by (elim conjE allE[of _ q] exE) (rule that)
    then have e: "(tsk k1 q)\<lparr>t_wake_stats := a\<rparr> = (tsk k q)\<lparr>t_wake_stats := a, t_saved_state := v\<rparr>"
      "(tsk k1 q)\<lparr>t_saved_state := u\<rparr> = (tsk k q)\<lparr>t_wake_stats := w, t_saved_state := u\<rparr>"
      by simp_all
    show "\<exists>w v. (tsk k1 q)\<lparr>t_wake_stats := a\<rparr> = (tsk k q)\<lparr>t_wake_stats := w, t_saved_state := v\<rparr>"
      by (rule exI, rule exI, rule e(1))
    show "\<exists>w v. (tsk k1 q)\<lparr>t_saved_state := u\<rparr> = (tsk k q)\<lparr>t_wake_stats := w, t_saved_state := v\<rparr>"
      by (rule exI, rule exI, rule e(2))
  qed
  show "stats_only k k1 \<Longrightarrow> stats_only k (upd_wake_stats p f k1)"
    using *(1) by (simp add: stats_only_def upd_wake_stats_def)
  show "stats_only k k1 \<Longrightarrow> stats_only k (upd_task p (\<lambda>t. t\<lparr>t_saved_state := v\<rparr>) k1)"
    using *(2) by (simp add: stats_only_def)
qed (simp_all add: stats_only_def rq_core_def)

lemma stats_only_fields:
  assumes "stats_only k k'"
  shows "t_class (tsk k' q) = t_class (tsk k q)" "t_on_rq (tsk k' q) = t_on_rq (tsk k q)"
    "t_ltr (tsk k' q) = t_ltr (tsk k q)" "t_cpu (tsk k' q) = t_cpu (tsk k q)"
    "t_state (tsk k' q) = t_state (tsk k q)" "t_policy (tsk k' q) = t_policy (tsk k q)"
    "t_need_resched (tsk k' q) = t_need_resched (tsk k q)"
    "t_on_cpu (tsk k' q) = t_on_cpu (tsk k q)"
    "t_contributes_to_load (tsk k' q) = t_contributes_to_load (tsk k q)"
    "t_in_iowait (tsk k' q) = t_in_iowait (tsk k q)" "current_task k' = current_task k"
    "k_this_cpu k' = k_this_cpu k" "rq_curr (cpu_rq k' d) = rq_curr (cpu_rq k d)"
    "rq_nr_uninterruptible (cpu_rq k' d) = rq_nr_uninterruptible (cpu_rq k d)"
    "rq_nr_iowait (cpu_rq k' d) = rq_nr_iowait (cpu_rq k d)"
proof -
  obtain w v where q: "tsk k' q = (tsk k q)\<lparr>t_wake_stats := w, t_saved_state := v\<rparr>"
    using assms unfolding stats_only_def by (elim conjE allE[of _ q] exE) (rule that)
  have c: "rq_core (cpu_rq k' d) = rq_core (cpu_rq k d)" for d
    using assms by (simp add: stats_only_def)
  note f = rq_core_fields[OF c]
  show "t_class (tsk k' q) = t_class (tsk k q)" "t_on_rq (tsk k' q) = t_on_rq (tsk k q)"
    "t_ltr (tsk k' q) = t_ltr (tsk k q)" "t_cpu (tsk k' q) = t_cpu (tsk k q)"
    "t_state (tsk k' q) = t_state (tsk k q)" "t_policy (tsk k' q) = t_policy (tsk k q)"
    "t_need_resched (tsk k' q) = t_need_resched (tsk k q)"
    "t_on_cpu (tsk k' q) = t_on_cpu (tsk k q)"
    "t_contributes_to_load (tsk k' q) = t_contributes_to_load (tsk k q)"
    "t_in_iowait (tsk k' q) = t_in_iowait (tsk k q)"
    unfolding q by simp_all
  show "k_this_cpu k' = k_this_cpu k" using assms by (simp add: stats_only_def)
  with f(1) show "current_task k' = current_task k" "rq_curr (cpu_rq k' d) = rq_curr (cpu_rq k d)"
    by (simp_all add: current_task_def)
  show "rq_nr_uninterruptible (cpu_rq k' d) = rq_nr_uninterruptible (cpu_rq k d)"
    "rq_nr_iowait (cpu_rq k' d) = rq_nr_iowait (cpu_rq k d)" by (rule f(8), rule f(9))
qed

lemma stats_only_queue: "stats_only k k' \<Longrightarrow> ltr_queue dll c k' ps \<longleftrightarrow> ltr_queue dll c k ps"
  using stats_only_fields(3) by (intro ltr_queue_cong) (auto simp: stats_only_def)

lemma ttwu_stat_only: "stats_only k (ttwu_stat env p c fl k)"
  by (simp add: ttwu_stat_def Let_def stats_only_refl stats_only_upd split: option.split)

lemma ttwu_state_match_only:
  "ttwu_state_match env p state k = (m, s, k') \<Longrightarrow> stats_only k k'"
  "ttwu_state_match env p state k = (m, s, k') \<Longrightarrow> m \<longleftrightarrow> has_flag (t_state (tsk k p)) state"
  "ttwu_state_match env p state k = (m, s, k') \<Longrightarrow> m \<Longrightarrow> s"
  by (auto simp: ttwu_state_match_def Let_def stats_only_refl stats_only_upd split: if_splits)

lemma woken_stats: "stats_only k0 k1 \<Longrightarrow> woken c p k1 k2 \<Longrightarrow> stats_only k2 k3 \<Longrightarrow> woken c p k0 k3"
  using stats_only_fields[of k0 k1] stats_only_fields[of k2 k3]
  by (simp add: woken_def wake_flag_def)

lemma woken_clock: "woken c p (update_rq_clock env d k) k' \<longleftrightarrow> woken c p k k'"
proof -
  have "rq_curr (cpu_rq (update_rq_clock env d k) e) = rq_curr (cpu_rq k e)" for e
    using ltr_frameD(4)[OF update_rq_clock_ltr_frame[of c k env d]] .
  then show ?thesis by (simp add: woken_def wake_flag_def)
qed

text \<open>A task that is not queued is activated on its CPU.\<close>

lemma wake_up_enqueues:
  assumes "linux_list (e_list env) dll" and "\<not> e_smp env" and "c = task_cpu k p"
    and "ltr_queue dll c k ps" and "p \<notin> set ps" and "t_class (tsk k p) = Lottery_class"
    and "p \<noteq> current_task k" and "\<not> task_on_rq_queued k p" and "has_flag (t_state (tsk k p)) state"
  obtains k' where "try_to_wake_up env p state fl k = Some (True, k')"
    and "ltr_queue dll c k' (ps @ [p])" and "woken c p k k'"
    and "rq_nr_uninterruptible (cpu_rq k' c) =
           rq_nr_uninterruptible (cpu_rq k c) - of_bool (t_contributes_to_load (tsk k p))"
    and "rq_nr_iowait (cpu_rq k' c) = rq_nr_iowait (cpu_rq k c) - of_bool (t_in_iowait (tsk k p))"
proof -
  obtain m s k1 where m: "ttwu_state_match env p state k = (m, s, k1)" by (metis prod_cases3)
  note only = ttwu_state_match_only[OF m]
  have ms: "m" "s" using only(2,3) assms(9) by simp_all
  note f1 = stats_only_fields[OF only(1)]
  let ?k2 = "update_rq_clock env c k1"
  have c1: "task_cpu k1 p = c" "current_task k1 = current_task k" "task_cpu ?k2 p = c"
    using f1 assms(3) by (simp_all add: task_cpu_def)
  have q2: "ltr_queue dll c ?k2 ps" using assms(4) stats_only_queue[OF only(1)] by simp
  have cls: "t_class (tsk ?k2 p) = Lottery_class" using f1(1) assms(6) by simp
  obtain k3 where k3: "ttwu_do_activate env c p fl ?k2 = Some k3" "ltr_queue dll c k3 (ps @ [p])"
    "woken c p ?k2 k3"
    "rq_nr_uninterruptible (cpu_rq k3 c) =
       rq_nr_uninterruptible (cpu_rq ?k2 c) - of_bool (t_contributes_to_load (tsk ?k2 p))"
    "rq_nr_iowait (cpu_rq k3 (task_cpu ?k2 p)) = rq_nr_iowait (cpu_rq ?k2 (task_cpu ?k2 p)) -
       of_bool (t_in_iowait (tsk ?k2 p) \<and> \<not> (e_smp env \<and> has_flag fl WF_MIGRATED))"
    by (rule ttwu_do_activate_lottery[OF assms(1) q2 assms(5) cls, of fl]) (rule that)
  have r: "(if t_on_rq (tsk k1 p) \<noteq> 0 then ttwu_runnable env p fl k1 else Some (False, k1)) =
      Some (False, k1)"
    using assms(8) f1(2)[of p] by (simp add: ttwu_runnable_def task_on_rq_queued_def)
  have tq: "ttwu_queue env p (task_cpu k1 p) fl k1 = Some k3"
    using assms(2) k3(1) by (simp add: ttwu_queue_def ttwu_queue_wakelist_def c1(1))
  let ?k4 = "ttwu_stat env p (task_cpu k3 p) fl k3"
  have n: "p \<noteq> current_task k1" using assms(7) c1(2) by simp
  have "try_to_wake_up env p state fl k = Some (True, ?k4)"
    unfolding try_to_wake_up_def m Let_def prod.case r bind.bind_lunit
    using ms n assms(2) tq by simp
  moreover have "ltr_queue dll c ?k4 (ps @ [p])" using k3(2) stats_only_queue[OF ttwu_stat_only] by blast
  moreover have "woken c p k ?k4"
    using woken_stats[OF only(1) _ ttwu_stat_only] k3(3) woken_clock by blast
  moreover have "rq_nr_uninterruptible (cpu_rq ?k4 c) =
           rq_nr_uninterruptible (cpu_rq k c) - of_bool (t_contributes_to_load (tsk k p))"
    "rq_nr_iowait (cpu_rq ?k4 c) = rq_nr_iowait (cpu_rq k c) - of_bool (t_in_iowait (tsk k p))"
    using k3(4,5) assms(2) c1(3) f1(9,10)[of p] f1(14,15)[of c]
      stats_only_fields(14,15)[OF ttwu_stat_only[of k3 env p "task_cpu k3 p" fl], of c]
      rq_core_fields(8,9)[OF update_rq_clock_core[of env c k1 c]]
    by simp_all
  ultimately show thesis by (rule that)
qed

text \<open>A task that is still queued stays where it is.\<close>

lemma wake_up_runnable:
  assumes "c = task_cpu k p" and "t_class (tsk k p) = Lottery_class"
    and "p \<noteq> current_task k" and "task_on_rq_queued k p" and "has_flag (t_state (tsk k p)) state"
  obtains k' where "try_to_wake_up env p state fl k = Some (True, k')"
    and "\<And>dll d ps. ltr_queue dll d k' ps \<longleftrightarrow> ltr_queue dll d k ps" and "woken c p k k'"
proof -
  obtain m s k1 where m: "ttwu_state_match env p state k = (m, s, k1)" by (metis prod_cases3)
  note only = ttwu_state_match_only[OF m]
  have ms: "m" "s" using only(2,3) assms(5) by simp_all
  note f1 = stats_only_fields[OF only(1)]
  let ?k2 = "update_rq_clock env c k1"
  have c1: "task_cpu k1 p = c" using f1 assms(1) by (simp add: task_cpu_def)
  have cls: "t_class (tsk ?k2 p) = Lottery_class" using f1(1) assms(2) by simp
  have on: "task_on_rq_queued k1 p" using f1(2)[of p] assms(4) by (simp add: task_on_rq_queued_def)
  obtain k3 where k3: "ttwu_do_wakeup env c p fl ?k2 = Some k3"
    "k_links k3 = k_links ?k2" "\<And>d. rq_ltr (cpu_rq k3 d) = rq_ltr (cpu_rq ?k2 d)"
    "\<And>q. tsk k3 q = (tsk ?k2 q)\<lparr>t_need_resched := wake_flag c ?k2 q,
           t_state := (if q = p then TASK_RUNNING else t_state (tsk ?k2 q))\<rparr>"
    "k_this_cpu k3 = k_this_cpu ?k2" "\<And>d. rq_core (cpu_rq k3 d) = rq_core (cpu_rq ?k2 d)"
    by (rule ttwu_do_wakeup_lottery[OF cls, of env c fl]) (rule that)
  have r: "(if t_on_rq (tsk k1 p) \<noteq> 0 then ttwu_runnable env p fl k1 else Some (False, k1)) =
      Some (True, k3)"
    using on k3(1)
    by (simp add: ttwu_runnable_def c1 Let_def task_on_rq_queued_def TASK_ON_RQ_QUEUED_def)
  let ?k4 = "ttwu_stat env p (task_cpu k3 p) fl k3"
  have n: "p \<noteq> current_task k1" using assms(3) f1(11) by simp
  have "try_to_wake_up env p state fl k = Some (True, ?k4)"
    unfolding try_to_wake_up_def m Let_def prod.case r bind.bind_lunit using ms n by simp
  moreover have "ltr_queue dll d ?k4 ps \<longleftrightarrow> ltr_queue dll d k ps" for dll d ps
  proof -
    have "ltr_queue dll d k3 ps \<longleftrightarrow> ltr_queue dll d ?k2 ps"
      using k3(2,3,4) by (intro ltr_queue_cong) simp_all
    then show ?thesis
      by (simp add: stats_only_queue[OF ttwu_stat_only] stats_only_queue[OF only(1)])
  qed
  moreover have "woken c p k ?k4"
  proof -
    have "woken c p ?k2 k3"
      using k3(4,5) rq_core_fields(1)[OF k3(6)] on by (simp add: woken_def task_on_rq_queued_def)
    then show ?thesis using woken_stats[OF only(1) _ ttwu_stat_only] woken_clock by blast
  qed
  ultimately show thesis by (rule that)
qed

text \<open>A wakeup of the running task, or one whose state does not match, changes at most the state
  of the task and the statistics.\<close>

lemma wake_up_no_match:
  assumes "\<not> has_flag (t_state (tsk k p)) state \<or> p = current_task k"
  obtains s k1 k' where "try_to_wake_up env p state fl k = Some (s, k')" and "stats_only k k1"
    and "stats_only (if has_flag (t_state (tsk k p)) state
           then upd_task p (\<lambda>t. t\<lparr>t_state := TASK_RUNNING\<rparr>) k1 else k1) k'"
proof -
  obtain m s k1 where m: "ttwu_state_match env p state k = (m, s, k1)" by (metis prod_cases3)
  note only = ttwu_state_match_only[OF m]
  let ?k2 = "if m then upd_task p (\<lambda>t. t\<lparr>t_state := TASK_RUNNING\<rparr>) k1 else k1"
  let ?k3 = "if s then ttwu_stat env p (task_cpu ?k2 p) fl ?k2 else ?k2"
  have n: "m \<Longrightarrow> p = current_task k1" using assms only(2) stats_only_fields(11)[OF only(1)] by simp
  have "try_to_wake_up env p state fl k = Some (s, ?k3)"
    unfolding try_to_wake_up_def m Let_def prod.case using n by (cases m) simp_all
  moreover have "stats_only ?k2 ?k3" by (simp add: ttwu_stat_only stats_only_refl)
  ultimately show thesis using only(1) unfolding only(2) by (intro that)
qed

end
