(* ===== verification/Fork_Lottery.thy ===== *)
theory Fork_Lottery
  imports Fork Wakeup_Lottery
begin

text \<open>
  The fork of a lottery task: the lemmas behind the properties of \<open>Fork_Props\<close> and the step of a
  new task in \<open>Lottery_System\<close>. Until its first wakeup the new task is on no queue; the wakeup
  appends it to the lottery queue of its CPU.
\<close>

section \<open>The first wakeup\<close>

lemma wake_up_new_lottery:
  assumes "linux_list (e_list env) dll" and "\<not> e_smp env" and "c = task_cpu k p"
    and "ltr_queue dll c k ps" and "p \<notin> set ps" and "t_class (tsk k p) = Lottery_class"
  obtains k' where "wake_up_new_task env p k = Some k'" and "ltr_queue dll c k' (ps @ [p])"
    and "woken c p k k'"
    and "\<And>q. t_prio (tsk k' q) = t_prio (tsk k q) \<and> t_static_prio (tsk k' q) = t_static_prio (tsk k q)"
proof -
  let ?k1 = "upd_task p (\<lambda>t. t\<lparr>t_state := TASK_RUNNING\<rparr>) k"
  let ?k2 = "ext_do (e_post_init_entity (fork_of env) p) (update_rq_clock env c ?k1)"
  have c1: "task_cpu ?k1 p = c" using assms(3) by (simp add: task_cpu_def)
  have q2: "ltr_queue dll c ?k2 ps" using assms(4) by (simp add: ltr_queue_upd_task)
  have cls: "t_class (tsk ?k2 p) = Lottery_class" using assms(6) by simp
  obtain k3 where k3: "activate_task env c p ENQUEUE_NOCLOCK ?k2 = Some k3"
    "ltr_queue dll c k3 (ps @ [p])"
    "ltr_frame c (upd_task p (\<lambda>t. t\<lparr>t_on_rq := TASK_ON_RQ_QUEUED\<rparr>) ?k2) k3"
    using lottery_activate[OF assms(1) q2 assms(5) cls] by blast
  note f3 = ltr_frameD[OF k3(3)]
  have "t_class (tsk k3 p) = Lottery_class" using f3(1) cls by simp
  then obtain k' where k': "check_preempt_curr env c p WF_FORK k3 = Some k'"
    "k_links k' = k_links k3" "\<And>d. rq_ltr (cpu_rq k' d) = rq_ltr (cpu_rq k3 d)"
    "\<And>q. tsk k' q = (tsk k3 q)\<lparr>t_need_resched := t_need_resched (tsk k3 q) \<or>
           (q = rq_curr (cpu_rq k3 c) \<and> t_class (tsk k3 q) \<noteq> Lottery_class)\<rparr>"
    "k_this_cpu k' = k_this_cpu k3" "\<And>d. rq_core (cpu_rq k' d) = rq_core (cpu_rq k3 d)"
    by (rule check_preempt_effect[of k3 p env c WF_FORK]) (rule that)
  have up: "e_smp env = False" using assms(2) by simp
  have "wake_up_new_task env p k = Some k'"
    unfolding wake_up_new_task_def Let_def up if_False bind.bind_lunit c1 k3(1) by (simp add: k'(1))
  moreover have "ltr_queue dll c k' (ps @ [p])"
    using k3(2) k'(2-4) by (subst ltr_queue_cong) simp_all
  moreover have "woken c p k k'"
  proof -
    have "rq_curr (cpu_rq ?k2 d) = rq_curr (cpu_rq k d)" for d
      using ltr_frameD(4)[OF update_rq_clock_ltr_frame[of c ?k1 env c]] by simp
    then show ?thesis
      using f3(1,2,4) k'(4,5) rq_core_fields(1)[OF k'(6)] by (simp add: woken_def wake_flag_def)
  qed
  moreover have "t_prio (tsk k' q) = t_prio (tsk k q) \<and> t_static_prio (tsk k' q) = t_static_prio (tsk k q)" for q
    using f3(1) k'(4) by simp
  ultimately show thesis by (rule that)
qed

section \<open>The copy\<close>

text \<open>Work on a new task \<open>p\<close> that leaves every other task, the runqueues and the lists alone,
  and of \<open>p\<close> what decides its place in the lottery.\<close>

definition fate ::
    "task \<Rightarrow> sched_class \<times> sched_ltr_entity \<times> nat \<times> cpu \<times> u32 \<times> bool \<times> int \<times> int" where
  "fate t = (t_class t, t_ltr t, t_on_rq t, t_cpu t, t_state t, t_need_resched t, t_policy t,
     t_normal_prio t)"

definition fork_frame :: "tid \<Rightarrow> ('x, 'l) kernel \<Rightarrow> ('x, 'l) kernel \<Rightarrow> bool" where
  "fork_frame p k k' \<longleftrightarrow> k_links k' = k_links k \<and> k_rqs k' = k_rqs k \<and>
     k_this_cpu k' = k_this_cpu k \<and> (\<forall>q. q \<noteq> p \<longrightarrow> fate (tsk k' q) = fate (tsk k q)) \<and>
     t_ltr (tsk k' p) = t_ltr (tsk k p) \<and> t_cpu (tsk k' p) = t_cpu (tsk k p)"

lemma fork_frame_refl [simp]: "fork_frame p k k"
  by (simp add: fork_frame_def)

lemma fork_frame_trans: "fork_frame p k k1 \<Longrightarrow> fork_frame p k1 k2 \<Longrightarrow> fork_frame p k k2"
  by (simp add: fork_frame_def)

lemma fork_frame_upd:
  "(\<And>t. t_ltr (f t) = t_ltr t) \<Longrightarrow> (\<And>t. t_cpu (f t) = t_cpu t) \<Longrightarrow>
     fork_frame p k (upd_task p f k1) \<longleftrightarrow> fork_frame p k k1"
  "fork_frame p k (ext_do g k1) \<longleftrightarrow> fork_frame p k k1"
  "fork_frame p k (k1\<lparr>k_ext := x\<rparr>) \<longleftrightarrow> fork_frame p k k1"
  by (auto simp: fork_frame_def)

lemma uclamp_fork_frame:
  "fork_frame p k (uclamp_fork env p k)"
  "t_policy (tsk (uclamp_fork env p k) p) = t_policy (tsk k p)"
  "t_static_prio (tsk (uclamp_fork env p k) p) = t_static_prio (tsk k p)"
  "t_reset_on_fork (tsk (uclamp_fork env p k) p) = t_reset_on_fork (tsk k p)"
  "t_state (tsk (uclamp_fork env p k) p) = t_state (tsk k p)"
  "t_on_rq (tsk (uclamp_fork env p k) p) = t_on_rq (tsk k p)"
  "t_prio (tsk (uclamp_fork env p k) p) = t_prio (tsk k p)"
  "t_pid (tsk (uclamp_fork env p k) p) = t_pid (tsk k p)"
  by (simp_all add: uclamp_fork_def Let_def for_each_clamp_id_def upd_se_def upd_req_def
      fork_frame_upd)

text \<open>What a fork keeps of the task it makes, up to the scheduler's set-up.\<close>

definition same_fate :: "task \<Rightarrow> task \<Rightarrow> bool" where
  "same_fate t u \<longleftrightarrow> t_policy u = t_policy t \<and> t_static_prio u = t_static_prio t \<and>
     t_reset_on_fork u = t_reset_on_fork t \<and> t_ltr u = t_ltr t \<and> t_cpu u = t_cpu t"

lemma sched_fork_init_frame:
  "fork_frame p k (sched_fork_init env fl p k)"
  "same_fate (tsk k p) (tsk (sched_fork_init env fl p k) p)"
  "t_on_rq (tsk (sched_fork_init env fl p k) p) = 0"
  by (auto simp: sched_fork_init_def Let_def fork_frame_upd same_fate_def split: prod.split)

text \<open>A lottery task is no deadline or real-time task: the reset keeps its policy.\<close>

lemma sched_reset_fork_lottery:
  assumes "t_policy (tsk k p) = SCHED_LOTTERY" and "100 \<le> t_static_prio (tsk k p)"
    and "t_static_prio (tsk k p) < 140"
  obtains k' where "sched_reset_fork env p k = Some k'" and "fork_frame p k k'"
    and "t_policy (tsk k' p) = SCHED_LOTTERY" and "\<not> t_reset_on_fork (tsk k' p)"
    and "t_state (tsk k' p) = t_state (tsk k p)" and "t_on_rq (tsk k' p) = t_on_rq (tsk k p)"
    and "t_prio (tsk k' p) = (if t_reset_on_fork (tsk k p)
           then max (NICE_TO_PRIO 0) (t_static_prio (tsk k p)) else t_prio (tsk k p))"
    and "t_static_prio (tsk k' p) = (if t_reset_on_fork (tsk k p)
           then max (NICE_TO_PRIO 0) (t_static_prio (tsk k p)) else t_static_prio (tsk k p))"
proof (cases "t_reset_on_fork (tsk k p)")
  case False
  with assms(1) that[of k] show thesis by (simp add: sched_reset_fork_def)
next
  case True
  let ?s = "max (NICE_TO_PRIO 0) (t_static_prio (tsk k p))"
  have np: "\<not> (task_has_dl_policy (tsk k p) \<or> task_has_rt_policy (tsk k p))"
    using assms(1) by (simp add: task_has_dl_policy_def task_has_rt_policy_def policy_pred_defs)
  let ?k1 = "if task_has_dl_policy (tsk k p) \<or> task_has_rt_policy (tsk k p)
          then upd_task p (\<lambda>t. t\<lparr>t_policy := SCHED_NORMAL, t_static_prio := NICE_TO_PRIO 0,
                                 t_rt_priority := 0\<rparr>) k
          else if PRIO_TO_NICE (t_static_prio (tsk k p)) < 0
          then upd_task p (\<lambda>t. t\<lparr>t_static_prio := NICE_TO_PRIO 0\<rparr>) k
          else k"
  let ?k2 = "upd_task p (\<lambda>t. t\<lparr>t_normal_prio := t_static_prio t, t_prio := t_static_prio t\<rparr>) ?k1"
  have k1: "fork_frame p k ?k1" "t_policy (tsk ?k1 p) = SCHED_LOTTERY"
    "t_static_prio (tsk ?k1 p) = ?s" "t_state (tsk ?k1 p) = t_state (tsk k p)"
    "t_on_rq (tsk ?k1 p) = t_on_rq (tsk k p)"
    using assms(1) np
    by (simp_all add: fork_frame_upd PRIO_TO_NICE_def NICE_TO_PRIO_def max_def)
  have "100 \<le> t_static_prio (tsk ?k2 p)" "t_static_prio (tsk ?k2 p) < 140"
    using k1(3) assms(2,3) by (simp_all add: NICE_TO_PRIO_def DEFAULT_PRIO_def)
  then obtain x lw where w: "set_load_weight env p False ?k2 =
      Some (upd_task p (\<lambda>t. t\<lparr>t_load := lw\<rparr>) (?k2\<lparr>k_ext := x\<rparr>))"
    using set_load_weight_in_range by blast
  let ?k4 = "upd_task p (\<lambda>t. t\<lparr>t_reset_on_fork := False\<rparr>)
    (upd_task p (\<lambda>t. t\<lparr>t_load := lw\<rparr>) (?k2\<lparr>k_ext := x\<rparr>))"
  have "sched_reset_fork env p k = Some ?k4"
    unfolding sched_reset_fork_def Let_def w bind.bind_lunit by (simp only: True simp_thms if_False)
  moreover have "fork_frame p k ?k4" using k1(1) by (simp add: fork_frame_upd)
  moreover have "t_policy (tsk ?k4 p) = SCHED_LOTTERY" "\<not> t_reset_on_fork (tsk ?k4 p)"
    "t_state (tsk ?k4 p) = t_state (tsk k p)" "t_on_rq (tsk ?k4 p) = t_on_rq (tsk k p)"
    "t_prio (tsk ?k4 p) = (if t_reset_on_fork (tsk k p) then ?s else t_prio (tsk k p))"
    "t_static_prio (tsk ?k4 p) = (if t_reset_on_fork (tsk k p) then ?s else t_static_prio (tsk k p))"
    using k1(2-5) True by simp_all
  ultimately show thesis by (rule that)
qed

lemma sched_fork_lottery:
  assumes "t_policy (tsk k p) = SCHED_LOTTERY" and "100 \<le> t_static_prio (tsk k p)"
    and "t_static_prio (tsk k p) < 140" and "p \<noteq> current_task k"
  obtains k' where "sched_fork env fl p k = Some (0, k')" and "fork_frame p k k'"
    and "t_policy (tsk k' p) = SCHED_LOTTERY" and "t_class (tsk k' p) = Lottery_class"
    and "\<not> t_reset_on_fork (tsk k' p)" and "t_state (tsk k' p) = TASK_NEW"
    and "t_on_rq (tsk k' p) = 0"
    and "t_prio (tsk k' p) = (if t_reset_on_fork (tsk k p)
           then max (NICE_TO_PRIO 0) (t_static_prio (tsk k p))
           else t_normal_prio (tsk k (current_task k)))"
    and "t_static_prio (tsk k' p) = (if t_reset_on_fork (tsk k p)
           then max (NICE_TO_PRIO 0) (t_static_prio (tsk k p)) else t_static_prio (tsk k p))"
proof -
  let ?k1 = "sched_fork_init env fl p k"
  note i = sched_fork_init_frame[where p = p and k = k and env = env and fl = fl]
  have cur: "current_task ?k1 = current_task k"
    "t_normal_prio (tsk ?k1 (current_task k)) = t_normal_prio (tsk k (current_task k))"
    using i(1) assms(4) by (simp_all add: fork_frame_def current_task_def fate_def)
  let ?k2 = "upd_task p (\<lambda>t. t\<lparr>t_state := TASK_NEW,
                               t_prio := t_normal_prio (tsk ?k1 (current_task ?k1))\<rparr>) ?k1"
  let ?k3 = "uclamp_fork env p ?k2"
  have f3: "fork_frame p k ?k3" "t_policy (tsk ?k3 p) = SCHED_LOTTERY"
    "t_static_prio (tsk ?k3 p) = t_static_prio (tsk k p)"
    "t_reset_on_fork (tsk ?k3 p) = t_reset_on_fork (tsk k p)" "t_state (tsk ?k3 p) = TASK_NEW"
    "t_on_rq (tsk ?k3 p) = 0" "t_prio (tsk ?k3 p) = t_normal_prio (tsk k (current_task k))"
    using i assms(1) cur fork_frame_trans[OF _ uclamp_fork_frame(1)[of p ?k2 env], of k]
    by (simp_all add: uclamp_fork_frame fork_frame_upd same_fate_def)
  have pre: "100 \<le> t_static_prio (tsk ?k3 p)" "t_static_prio (tsk ?k3 p) < 140"
    using assms(2,3) by (simp_all only: f3(3))
  obtain k4 where k4: "sched_reset_fork env p ?k3 = Some k4" "fork_frame p ?k3 k4"
    "t_policy (tsk k4 p) = SCHED_LOTTERY" "\<not> t_reset_on_fork (tsk k4 p)"
    "t_state (tsk k4 p) = t_state (tsk ?k3 p)" "t_on_rq (tsk k4 p) = t_on_rq (tsk ?k3 p)"
    "t_prio (tsk k4 p) = (if t_reset_on_fork (tsk ?k3 p)
           then max (NICE_TO_PRIO 0) (t_static_prio (tsk ?k3 p)) else t_prio (tsk ?k3 p))"
    "t_static_prio (tsk k4 p) = (if t_reset_on_fork (tsk ?k3 p)
           then max (NICE_TO_PRIO 0) (t_static_prio (tsk ?k3 p)) else t_static_prio (tsk ?k3 p))"
    by (rule sched_reset_fork_lottery[OF f3(2) pre, of env]) (rule that)
  have fc: "fork_class (tsk k4 p) = Some Lottery_class" using k4(3) by (simp add: fork_class_def)
  let ?k5 = "ext_do (e_init_entity (fork_of env) p) (upd_task p (\<lambda>t. t\<lparr>t_class := Lottery_class\<rparr>) k4)"
  let ?k6 = "if e_smp env then upd_task p (\<lambda>t. t\<lparr>t_on_cpu := False\<rparr>) ?k5 else ?k5"
  have "sched_fork env fl p k = Some (0, ?k6)"
    unfolding sched_fork_def Let_def k4(1) bind.bind_lunit fc option.case by (rule refl)
  moreover have "fork_frame p k ?k6"
    using fork_frame_trans[OF f3(1) k4(2)] by (simp add: fork_frame_upd)
  moreover have "t_policy (tsk ?k6 p) = SCHED_LOTTERY" "t_class (tsk ?k6 p) = Lottery_class"
    "\<not> t_reset_on_fork (tsk ?k6 p)" "t_state (tsk ?k6 p) = TASK_NEW" "t_on_rq (tsk ?k6 p) = 0"
    "t_prio (tsk ?k6 p) = (if t_reset_on_fork (tsk k p)
           then max (NICE_TO_PRIO 0) (t_static_prio (tsk k p))
           else t_normal_prio (tsk k (current_task k)))"
    "t_static_prio (tsk ?k6 p) = (if t_reset_on_fork (tsk k p)
           then max (NICE_TO_PRIO 0) (t_static_prio (tsk k p)) else t_static_prio (tsk k p))"
    using k4(3-8) f3 by simp_all
  ultimately show thesis by (rule that)
qed

text \<open>The copies of the other subsystems succeed and give the task the number \<open>p\<close>.\<close>

definition copies_succeed :: "('x, 'l, 'm) fork_env_scheme \<Rightarrow> kclone_args \<Rightarrow> tid \<Rightarrow> bool" where
  "copies_succeed env args p \<longleftrightarrow>
     (\<forall>k. \<not> e_sigpending (fork_of env) k) \<and> (\<forall>k. e_alloc_task (fork_of env) k = Some p) \<and>
     (\<forall>k. 0 \<le> fst (e_copy_creds (fork_of env) (kc_flags args) p k)) \<and>
     (\<forall>k. \<not> e_nproc_exceeded (fork_of env) p k) \<and> (\<forall>k. \<not> e_max_threads (fork_of env) k) \<and>
     (\<forall>k. fst (e_copy_init (fork_of env) p k) = 0) \<and> (\<forall>k. fst (e_copy_resources (fork_of env) args p k) = 0) \<and>
     (\<forall>k. e_pidns_adding (fork_of env) p k) \<and> (\<forall>k. \<not> e_fatal_signal (fork_of env) k)"

text \<open>Copying the task: \<open>p\<close> starts as its parent.\<close>

definition copied :: "tid \<Rightarrow> tid \<Rightarrow> ('x, 'l) kernel \<Rightarrow> ('x, 'l) kernel \<Rightarrow> bool" where
  "copied cur p k k' \<longleftrightarrow> k_links k' = k_links k \<and> k_rqs k' = k_rqs k \<and>
     k_this_cpu k' = k_this_cpu k \<and> (\<forall>q. q \<noteq> p \<longrightarrow> fate (tsk k' q) = fate (tsk k q)) \<and>
     same_fate (tsk k cur) (tsk k' p)"

lemma dup_task_struct_copied:
  assumes "e_alloc_task (fork_of env) k = Some p" and "p \<noteq> cur"
  obtains k' where "dup_task_struct env cur k = Some (p, k')" and "copied cur p k k'"
proof -
  let ?k1 = "upd_task p (\<lambda>_. (tsk k cur)\<lparr>t_need_resched := False, t_wake_q := False\<rparr>) k"
  let ?k2 = "ext_do (e_dup_other (fork_of env) p) (snd (dup_user_cpus_ptr env p cur ?k1))"
  have "dup_task_struct env cur k = Some (p, ?k2)"
    by (simp add: dup_task_struct_def assms(1) Let_def)
  moreover have "copied cur p k ?k2"
    by (simp add: copied_def dup_user_cpus_ptr_def Let_def same_fate_def)
  ultimately show thesis by (rule that)
qed

lemma copied_upd:
  "copied cur p k (ext_do f k1) \<longleftrightarrow> copied cur p k k1"
  "copied cur p k (k1\<lparr>k_ext := x\<rparr>) \<longleftrightarrow> copied cur p k k1"
  "p \<noteq> cur \<Longrightarrow> copied cur p (ext_do f k) k1 \<longleftrightarrow> copied cur p k k1"
  "copied cur p k k1 \<Longrightarrow> copied cur p k (upd_task q (\<lambda>t. t\<lparr>t_flags := g t\<rparr>) k1)"
  "copied cur p k k1 \<Longrightarrow> copied cur p k (upd_task p copy_process_flags k1)"
  by (auto simp: copied_def same_fate_def fate_def copy_process_flags_def)

lemma copy_process_start_copied:
  assumes "copies_succeed env args p" and "p \<noteq> cur" and "cur = current_task k"
  obtains k' where "copy_process_start env args k = (Inr p, k')" and "copied cur p k k'"
proof -
  let ?k0 = "ext_do (e_collect_signals (fork_of env) (kc_flags args)) k"
  have ok: "\<not> e_sigpending (fork_of env) k" "e_alloc_task (fork_of env) k = Some p"
    "\<not> fst (e_copy_creds (fork_of env) (kc_flags args) p k) < 0" "\<not> e_nproc_exceeded (fork_of env) p k"
    "\<not> e_max_threads (fork_of env) k" for k
    using assms(1) by (simp_all add: copies_succeed_def linorder_not_less)
  have c0: "current_task ?k0 = cur" using assms(3) by (simp add: current_task_def)
  obtain k1 where k1: "dup_task_struct env cur ?k0 = Some (p, k1)" "copied cur p ?k0 k1"
    by (rule dup_task_struct_copied[OF ok(2) assms(2)])
  let ?k2 = "if kc_io_thread args
            then upd_task p (\<lambda>t. t\<lparr>t_flags := t_flags t OR PF_IO_WORKER\<rparr>) k1 else k1"
  let ?k3 = "?k2\<lparr>k_ext := snd (e_copy_creds (fork_of env) (kc_flags args) p ?k2)\<rparr>"
  let ?k4 = "upd_task (current_task ?k3)
    (\<lambda>t. t\<lparr>t_flags := clear_flag (t_flags t) PF_NPROC_EXCEEDED\<rparr>) ?k3"
  have "copy_process_start env args k = (Inr p, upd_task p copy_process_flags ?k4)"
    unfolding copy_process_start_def Let_def c0 k1(1) option.case prod.case
    using ok by (simp add: case_prod_beta del: k_tasks_upd)
  moreover have "copied cur p k (upd_task p copy_process_flags ?k4)"
    using k1(2) assms(2) by (intro copied_upd(5) copied_upd(4)) (simp add: copied_upd)
  ultimately show thesis by (rule that)
qed

text \<open>The whole of \<open>copy_process\<close> for a lottery parent on UP.\<close>

lemma copy_process_lottery:
  assumes "copies_succeed env args p" and "p \<noteq> cur" and "cur = current_task k" and "\<not> e_smp env"
    and "copy_process_checks env k (kc_flags args) = 0"
    and "t_policy (tsk k cur) = SCHED_LOTTERY" and "100 \<le> t_static_prio (tsk k cur)"
    and "t_static_prio (tsk k cur) < 140"
  obtains k' where "copy_process env trace args k = Some (Inr p, k')"
    and "k_links k' = k_links k" and "k_rqs k' = k_rqs k" and "k_this_cpu k' = k_this_cpu k"
    and "\<And>q. q \<noteq> p \<Longrightarrow> fate (tsk k' q) = fate (tsk k q)"
    and "t_policy (tsk k' p) = SCHED_LOTTERY" and "t_class (tsk k' p) = Lottery_class"
    and "\<not> t_reset_on_fork (tsk k' p)" and "t_on_rq (tsk k' p) = 0"
    and "t_cpu (tsk k' p) = t_cpu (tsk k cur)"
    and "t_prio (tsk k' p) = (if t_reset_on_fork (tsk k cur)
           then max (NICE_TO_PRIO 0) (t_static_prio (tsk k cur)) else t_normal_prio (tsk k cur))"
    and "t_static_prio (tsk k' p) = (if t_reset_on_fork (tsk k cur)
           then max (NICE_TO_PRIO 0) (t_static_prio (tsk k cur)) else t_static_prio (tsk k cur))"
proof -
  obtain k1 where k1: "copy_process_start env args k = (Inr p, k1)" "copied cur p k k1"
    by (rule copy_process_start_copied[OF assms(1-3)])
  let ?k2 = "k1\<lparr>k_ext := snd (e_copy_init (fork_of env) p k1)\<rparr>"
  have c2: "copied cur p k ?k2" using k1(2) by (simp add: copied_upd)
  have p2: "t_policy (tsk ?k2 p) = SCHED_LOTTERY" "100 \<le> t_static_prio (tsk ?k2 p)"
    "t_static_prio (tsk ?k2 p) < 140" "p \<noteq> current_task ?k2" "current_task ?k2 = cur"
    "t_normal_prio (tsk ?k2 cur) = t_normal_prio (tsk k cur)"
    using k1(2) assms(2,3,6-8)
    by (simp_all add: copied_def same_fate_def current_task_def fate_def)
  obtain k3 where k3: "sched_fork env (kc_flags args) p ?k2 = Some (0, k3)" "fork_frame p ?k2 k3"
    "t_policy (tsk k3 p) = SCHED_LOTTERY" "t_class (tsk k3 p) = Lottery_class"
    "\<not> t_reset_on_fork (tsk k3 p)" "t_state (tsk k3 p) = TASK_NEW" "t_on_rq (tsk k3 p) = 0"
    "t_prio (tsk k3 p) = (if t_reset_on_fork (tsk ?k2 p)
           then max (NICE_TO_PRIO 0) (t_static_prio (tsk ?k2 p))
           else t_normal_prio (tsk ?k2 (current_task ?k2)))"
    "t_static_prio (tsk k3 p) = (if t_reset_on_fork (tsk ?k2 p)
           then max (NICE_TO_PRIO 0) (t_static_prio (tsk ?k2 p)) else t_static_prio (tsk ?k2 p))"
    by (rule sched_fork_lottery[OF p2(1-4), of env "kc_flags args"]) (rule that)
  obtain r x pid mm where res: "e_copy_resources (fork_of env) args p k3 = (r, x, pid, mm)"
    by (metis prod_cases4)
  have r0: "r = 0" using assms(1) res unfolding copies_succeed_def by (metis fst_conv)
  let ?k4 = "upd_task p (\<lambda>t. t\<lparr>t_pid := pid, t_mm := mm, t_active_mm := mm\<rparr>) (k3\<lparr>k_ext := x\<rparr>)"
  let ?k5 = "if e_cgroup_sched (fork_of env)
       then upd_task p (\<lambda>t. t\<lparr>t_tg := e_autogroup_tg (fork_of env) p (e_cset_tg (fork_of env) args ?k4) ?k4\<rparr>) ?k4 else ?k4"
  let ?k6 = "ext_do (e_rseq_migrate (fork_of env) p) ?k5"
  have cg: "sched_cgroup_fork env p args ?k4 = Some ?k6"
    using assms(4) k3(4) by (simp add: sched_cgroup_fork_def Let_def set_task_cpu_raw_def)
  let ?k7 = "sched_post_fork env p (ext_do (e_copy_attach (fork_of env) args (trace \<noteq> No_event) p) ?k6)"
  have i0: "fst (e_copy_init (fork_of env) p k1) = 0" "e_pidns_adding (fork_of env) p ?k6" "\<not> e_fatal_signal (fork_of env) ?k6"
    using assms(1) by (simp_all add: copies_succeed_def)
  have "copy_process env trace args k = Some (Inr p, ?k7)"
    unfolding copy_process_def k1(1) Let_def
    using assms(5) i0 k3(1) res r0 cg by (simp add: case_prod_beta)
  then have res: "copy_process env trace args k = Some (Inr p, ?k7)" .
  have post: "fork_frame p ?k6 ?k7" "t_policy (tsk ?k7 p) = t_policy (tsk ?k6 p)"
    "t_class (tsk ?k7 p) = t_class (tsk ?k6 p)" "t_prio (tsk ?k7 p) = t_prio (tsk ?k6 p)"
    "t_reset_on_fork (tsk ?k7 p) = t_reset_on_fork (tsk ?k6 p)" "t_on_rq (tsk ?k7 p) = t_on_rq (tsk ?k6 p)"
    "t_static_prio (tsk ?k7 p) = t_static_prio (tsk ?k6 p)"
    by (simp_all add: sched_post_fork_def uclamp_post_fork_def uclamp_update_util_min_rt_default_def
        uclamp_update_util_min_rt_default_locked_def fork_frame_upd)
  have f6: "fork_frame p k3 ?k6" by (simp add: fork_frame_upd)
  note fr = fork_frame_trans[OF fork_frame_trans[OF k3(2) f6] post(1)]
  have c7: "k_links ?k7 = k_links k" "k_rqs ?k7 = k_rqs k" "k_this_cpu ?k7 = k_this_cpu k"
    "\<And>q. q \<noteq> p \<Longrightarrow> fate (tsk ?k7 q) = fate (tsk k q)"
    using fr c2 by (simp_all add: fork_frame_def copied_def)
  have v: "t_policy (tsk ?k7 p) = SCHED_LOTTERY" "t_class (tsk ?k7 p) = Lottery_class"
    "\<not> t_reset_on_fork (tsk ?k7 p)" "t_on_rq (tsk ?k7 p) = 0"
    "t_cpu (tsk ?k7 p) = t_cpu (tsk k cur)"
    "t_prio (tsk ?k7 p) = (if t_reset_on_fork (tsk k cur)
           then max (NICE_TO_PRIO 0) (t_static_prio (tsk k cur)) else t_normal_prio (tsk k cur))"
    "t_static_prio (tsk ?k7 p) = (if t_reset_on_fork (tsk k cur)
           then max (NICE_TO_PRIO 0) (t_static_prio (tsk k cur)) else t_static_prio (tsk k cur))"
  proof -
    have "t_cpu (tsk ?k7 p) = t_cpu (tsk ?k2 p)" using fr by (simp only: fork_frame_def)
    then show "t_cpu (tsk ?k7 p) = t_cpu (tsk k cur)" using c2 by (simp add: copied_def same_fate_def)
    show "t_prio (tsk ?k7 p) = (if t_reset_on_fork (tsk k cur)
           then max (NICE_TO_PRIO 0) (t_static_prio (tsk k cur)) else t_normal_prio (tsk k cur))"
      using post(4) k3(8) c2 p2(5,6) by (simp add: copied_def same_fate_def)
    show "t_static_prio (tsk ?k7 p) = (if t_reset_on_fork (tsk k cur)
           then max (NICE_TO_PRIO 0) (t_static_prio (tsk k cur)) else t_static_prio (tsk k cur))"
      using post(7) k3(9) c2 by (simp add: copied_def same_fate_def)
  qed (use post k3(3-7) in simp_all)
  show thesis using res c7 v by (rule that)
qed

end
