(* ===== verification/Task_Group.thy ===== *)
theory Task_Group
  imports Fork
begin

text \<open>
  Task groups (\<open>core.c\<close>, lines 1159 to 1205 and 9786 to 10107): the walk of the group tree, the
  life of a group from its allocation to its release, the change of a task's group, and the
  callbacks of the cpu controller. The walk follows the source's jumps and may run out of the fuel
  it is given; \<open>Task_Group_Props\<close> shows how much is enough.

  The parts of a group that belong to \<open>fair.c\<close>, \<open>rt.c\<close> and \<open>autogroup.c\<close>, the allocator
  and \<open>call_rcu\<close> are outside: the functions this theory and \<open>Cfs_Bandwidth\<close> call are a table.
\<close>

text \<open>The two functions a group hands to \<open>call_rcu\<close>.\<close>

datatype rcu_function = Unregister_group_rcu | Free_group_rcu

record ('x, 'l) group_ops =
  e_fair_group :: bool
  e_cgroup_v2 :: bool
  e_alloc_tg :: "('x, 'l) kernel \<Rightarrow> tgid option"
  e_alloc_fair_group :: "tgid \<Rightarrow> tgid \<Rightarrow> ('x, 'l) kernel \<Rightarrow> bool \<times> ('x, 'l) kernel"
  e_alloc_rt_group :: "tgid \<Rightarrow> tgid \<Rightarrow> ('x, 'l) kernel \<Rightarrow> bool \<times> ('x, 'l) kernel"
  e_free_group :: "tgid \<Rightarrow> ('x, 'l) kernel \<Rightarrow> 'x"
  e_online_fair_group :: "tgid \<Rightarrow> ('x, 'l) kernel \<Rightarrow> 'x"
  e_unregister_group :: "tgid \<Rightarrow> ('x, 'l) kernel \<Rightarrow> 'x"
  e_call_rcu :: "rcu_function \<Rightarrow> tgid \<Rightarrow> ('x, 'l) kernel \<Rightarrow> 'x"
  e_task_css :: "tid \<Rightarrow> ('x, 'l) kernel \<Rightarrow> tgid"
  e_set_task_rq :: "tid \<Rightarrow> cpu \<Rightarrow> ('x, 'l) kernel \<Rightarrow> 'x"
  e_rt_can_attach :: "tgid \<Rightarrow> tid \<Rightarrow> ('x, 'l) kernel \<Rightarrow> bool"
  e_set_shares :: "tgid \<Rightarrow> u32 \<Rightarrow> ('x, 'l) kernel \<Rightarrow> int \<times> ('x, 'l) kernel"
  e_set_idle :: "tgid \<Rightarrow> int \<Rightarrow> ('x, 'l) kernel \<Rightarrow> int \<times> ('x, 'l) kernel"
  e_cfs_usage_inc :: "('x, 'l) kernel \<Rightarrow> 'x"
  e_cfs_usage_dec :: "('x, 'l) kernel \<Rightarrow> 'x"
  e_refill_cfs :: "cfs_bandwidth \<Rightarrow> u64"
  e_start_cfs :: "tgid \<Rightarrow> ('x, 'l) kernel \<Rightarrow> 'x"
  e_unthrottle :: "tgid \<Rightarrow> cpu \<Rightarrow> ('x, 'l) kernel \<Rightarrow> ('x, 'l) kernel"
  e_cpu_possible :: "cpu \<Rightarrow> bool"
  e_wait_sum :: "tgid \<Rightarrow> cpu \<Rightarrow> ('x, 'l) kernel \<Rightarrow> u64"

type_synonym ('x, 'l, 'm) group_env_scheme = "('x, 'l, ('x, 'l, 'm) group_ops_scheme) fork_env_scheme"
type_synonym ('x, 'l) group_env = "('x, 'l, unit) group_env_scheme"

abbreviation group_of :: "('x, 'l, 'm) group_env_scheme \<Rightarrow> ('x, 'l, 'm) group_ops_scheme" where
  "group_of env \<equiv> fork_ops.more (fork_of env)"

section \<open>Walking the group tree\<close>

type_synonym ('x, 'l) tg_visitor = "tgid \<Rightarrow> ('x, 'l) kernel \<Rightarrow> int \<times> ('x, 'l) kernel"

text \<open>The list cursor behind \<open>child\<close>: \<open>None\<close> is the end of the list.\<close>

fun sibling_after :: "tgid \<Rightarrow> tgid list \<Rightarrow> tgid option" where
  "sibling_after c [] = None"
| "sibling_after c (d # ds) =
     (if c = d then (case ds of [] \<Rightarrow> None | e # _ \<Rightarrow> Some e) else sibling_after c ds)"

text \<open>The two places the walk can be at: \<open>down:\<close> with a group, and the end of the list of a
  group's children.\<close>

datatype walk_pos = Enter tgid | Leave tgid

(* core.c 1169-1198: walk_tg_tree_from *)
fun walk_tg_tree_from ::
    "nat \<Rightarrow> ('x, 'l) tg_visitor \<Rightarrow> ('x, 'l) tg_visitor \<Rightarrow> tgid \<Rightarrow> walk_pos \<Rightarrow> ('x, 'l) kernel \<Rightarrow>
     (int \<times> ('x, 'l) kernel) option" where
  "walk_tg_tree_from 0 down up from pos k = None"
| "walk_tg_tree_from (Suc n) down up from (Enter g) k =
     (let (ret, k) = down g k in
      if ret \<noteq> 0 then Some (ret, k)
      else case tg_children (k_tgs k g) of
        [] \<Rightarrow> walk_tg_tree_from n down up from (Leave g) k
      | child # _ \<Rightarrow> walk_tg_tree_from n down up from (Enter child) k)"
| "walk_tg_tree_from (Suc n) down up from (Leave g) k =
     (let (ret, k) = up g k in
      if ret \<noteq> 0 \<or> g = from then Some (ret, k)
      else case tg_parent (k_tgs k g) of
        None \<Rightarrow> Some (ret, k)
      | Some q \<Rightarrow> (case sibling_after g (tg_children (k_tgs k q)) of
          None \<Rightarrow> walk_tg_tree_from n down up from (Leave q) k
        | Some child \<Rightarrow> walk_tg_tree_from n down up from (Enter child) k))"

(* sched.h 474-477: walk_tg_tree *)
definition walk_tg_tree ::
    "nat \<Rightarrow> ('x, 'l) tg_visitor \<Rightarrow> ('x, 'l) tg_visitor \<Rightarrow> ('x, 'l) kernel \<Rightarrow>
     (int \<times> ('x, 'l) kernel) option" where
  "walk_tg_tree n down up k = walk_tg_tree_from n down up root_task_group (Enter root_task_group) k"

(* core.c 1200-1203: tg_nop *)
definition tg_nop :: "('x, 'l) tg_visitor" where "tg_nop g k = (0, k)"

section \<open>The life of a group\<close>

text \<open>What \<open>__GFP_ZERO\<close> makes of a group.\<close>

definition tg_zero :: task_group where
  "tg_zero = (let se = \<lparr>us_value = 0, us_bucket_id = 0, us_active = False, us_user_defined = False\<rparr> in
     \<lparr>tg_parent = None, tg_autogroup = False, tg_uclamp_pct = (\<lambda>_. 0), tg_uclamp_req = (\<lambda>_. se),
      tg_uclamp = (\<lambda>_. se), tg_rt_runtime = 0, tg_children = [], tg_shares = 0, tg_idle = 0,
      tg_cfs_bandwidth = \<lparr>cb_period = 0, cb_quota = 0, cb_runtime = 0, cb_burst = 0,
        cb_hierarchical_quota = 0, cb_nr_periods = 0, cb_nr_throttled = 0, cb_throttled_time = 0\<rparr>,
      tg_cfs_rq = (\<lambda>_. \<lparr>cr_runtime_enabled = False, cr_runtime_remaining = 0, cr_throttled = False\<rparr>)\<rparr>)"

(* core.c 9811-9823: alloc_uclamp_sched_group *)
definition alloc_uclamp_sched_group ::
    "('x, 'l, 'm) env_scheme \<Rightarrow> tgid \<Rightarrow> tgid \<Rightarrow> ('x, 'l) kernel \<Rightarrow> ('x, 'l) kernel" where
  "alloc_uclamp_sched_group env g parent k =
     (if e_uclamp_group env
      then fold (\<lambda>i k. upd_tg g (\<lambda>t. t\<lparr>
              tg_uclamp_req := (tg_uclamp_req t)
                (i := uclamp_se_set env (uclamp_none i) False (tg_uclamp_req t i)),
              tg_uclamp := (tg_uclamp t)(i := tg_uclamp (k_tgs k parent) i)\<rparr>) k)
             for_each_clamp_id k
      else k)"

(* core.c 9825-9831: sched_free_group *)
definition sched_free_group ::
    "('x, 'l, 'm) group_env_scheme \<Rightarrow> tgid \<Rightarrow> ('x, 'l) kernel \<Rightarrow> ('x, 'l) kernel" where
  "sched_free_group env g k = ext_do (e_free_group (group_of env) g) k"

(* core.c 9838-9847: sched_unregister_group *)
definition sched_unregister_group ::
    "('x, 'l, 'm) group_env_scheme \<Rightarrow> tgid \<Rightarrow> ('x, 'l) kernel \<Rightarrow> ('x, 'l) kernel" where
  "sched_unregister_group env g k =
     ext_do (e_call_rcu (group_of env) Free_group_rcu g) (ext_do (e_unregister_group (group_of env) g) k)"

(* core.c 9850-9871: sched_create_group *)
definition sched_create_group ::
    "('x, 'l, 'm) group_env_scheme \<Rightarrow> tgid \<Rightarrow> ('x, 'l) kernel \<Rightarrow> (int + tgid) \<times> ('x, 'l) kernel"
where
  "sched_create_group env parent k =
     (case e_alloc_tg (group_of env) k of
        None \<Rightarrow> (Inl (- ENOMEM), k)
      | Some g \<Rightarrow>
          let k = upd_tg g (\<lambda>_. tg_zero) k;
              (ok, k) = e_alloc_fair_group (group_of env) g parent k
          in if \<not> ok then (Inl (- ENOMEM), sched_free_group env g k)
             else let (ok, k) = e_alloc_rt_group (group_of env) g parent k
                  in if \<not> ok then (Inl (- ENOMEM), sched_free_group env g k)
                     else (Inr g, alloc_uclamp_sched_group env g parent k))"

text \<open>The caller has the parent; without one the source warns and dereferences NULL.\<close>

(* core.c 9873-9889: sched_online_group *)
definition sched_online_group ::
    "('x, 'l, 'm) group_env_scheme \<Rightarrow> tgid \<Rightarrow> tgid \<Rightarrow> ('x, 'l) kernel \<Rightarrow> ('x, 'l) kernel" where
  "sched_online_group env g parent k =
     (let k = k\<lparr>k_task_groups := g # k_task_groups k\<rparr>;
          k = upd_tg g (\<lambda>t. t\<lparr>tg_parent := Some parent, tg_children := []\<rparr>) k;
          k = upd_tg parent (\<lambda>t. t\<lparr>tg_children := g # tg_children t\<rparr>) k
      in ext_do (e_online_fair_group (group_of env) g) k)"

(* core.c 9898-9902: sched_destroy_group *)
definition sched_destroy_group ::
    "('x, 'l, 'm) group_env_scheme \<Rightarrow> tgid \<Rightarrow> ('x, 'l) kernel \<Rightarrow> ('x, 'l) kernel" where
  "sched_destroy_group env g k = ext_do (e_call_rcu (group_of env) Unregister_group_rcu g) k"

text \<open>Unlinking a group that is not linked is an oops.\<close>

(* core.c 9904-9925: sched_release_group *)
definition sched_release_group :: "tgid \<Rightarrow> ('x, 'l) kernel \<Rightarrow> ('x, 'l) kernel option" where
  "sched_release_group g k =
     (if g \<notin> set (k_task_groups k) then None
      else let k = k\<lparr>k_task_groups := remove1 g (k_task_groups k)\<rparr>
           in case tg_parent (k_tgs k g) of
                None \<Rightarrow> None
              | Some q \<Rightarrow>
                  if g \<notin> set (tg_children (k_tgs k q)) then None
                  else Some (upd_tg q (\<lambda>t. t\<lparr>tg_children := remove1 g (tg_children t)\<rparr>) k))"

section \<open>The group of a task\<close>

(* sched.h 2193-2193: TASK_SET_GROUP *)
definition TASK_SET_GROUP :: int where "TASK_SET_GROUP = 0"

(* sched.h 2194-2194: TASK_MOVE_GROUP *)
definition TASK_MOVE_GROUP :: int where "TASK_MOVE_GROUP = 1"

(* core.c 9927-9947: sched_change_group *)
definition sched_change_group ::
    "('x, 'l, 'm) group_env_scheme \<Rightarrow> tid \<Rightarrow> int \<Rightarrow> ('x, 'l) kernel \<Rightarrow> ('x, 'l) kernel option" where
  "sched_change_group env p type k =
     (let k = upd_task p (\<lambda>t. t\<lparr>t_tg := e_autogroup_tg (fork_of env) p (e_task_css (group_of env) p k) k\<rparr>) k
      in case (if e_fair_group (group_of env) then vt_task_change_group (cl env k p) else None) of
           Some f \<Rightarrow> f p type k
         | None \<Rightarrow> Some (ext_do (e_set_task_rq (group_of env) p (task_cpu k p)) k))"

(* core.c 9956-9989: sched_move_task *)
definition sched_move_task ::
    "('x, 'l, 'm) group_env_scheme \<Rightarrow> tid \<Rightarrow> ('x, 'l) kernel \<Rightarrow> ('x, 'l) kernel option" where
  "sched_move_task env p k = do {
     let queue_flags = DEQUEUE_SAVE OR DEQUEUE_MOVE OR DEQUEUE_NOCLOCK;
     let c = task_cpu k p;
     let k = update_rq_clock env c k;
     let running = task_current k c p;
     let queued = task_on_rq_queued k p;
     k \<leftarrow> (if queued then dequeue_task env c p queue_flags k else Some k);
     k \<leftarrow> (if running then put_prev_task env c p k else Some k);
     k \<leftarrow> sched_change_group env p TASK_MOVE_GROUP k;
     k \<leftarrow> (if queued then enqueue_task env c p queue_flags k else Some k);
     if running
     then do {
       k \<leftarrow> set_next_task env c p k;
       Some (resched_curr env c k)
     } else Some k
   }"

section \<open>The callbacks of the cpu controller\<close>

(* core.c 9996-10012: cpu_cgroup_css_alloc *)
definition cpu_cgroup_css_alloc ::
    "('x, 'l, 'm) group_env_scheme \<Rightarrow> tgid option \<Rightarrow> ('x, 'l) kernel \<Rightarrow>
     (int + tgid) \<times> ('x, 'l) kernel" where
  "cpu_cgroup_css_alloc env parent k =
     (case parent of
        None \<Rightarrow> (Inr root_task_group, k)
      | Some q \<Rightarrow> (case sched_create_group env q k of
          (Inl _, k) \<Rightarrow> (Inl (- ENOMEM), k)
        | (Inr g, k) \<Rightarrow> (Inr g, k)))"

(* core.c 10015-10033: cpu_cgroup_css_online *)
definition cpu_cgroup_css_online ::
    "('x, 'l, 'm) group_env_scheme \<Rightarrow> tgid \<Rightarrow> tgid option \<Rightarrow> ('x, 'l) kernel \<Rightarrow>
     int \<times> ('x, 'l) kernel" where
  "cpu_cgroup_css_online env g parent k =
     (let k = (case parent of Some q \<Rightarrow> sched_online_group env g q k | None \<Rightarrow> k);
          k = (if e_uclamp_group env then cpu_util_update_eff env g k else k)
      in (0, k))"

(* core.c 10035-10040: cpu_cgroup_css_released *)
definition cpu_cgroup_css_released :: "tgid \<Rightarrow> ('x, 'l) kernel \<Rightarrow> ('x, 'l) kernel option" where
  "cpu_cgroup_css_released g k = sched_release_group g k"

(* core.c 10042-10050: cpu_cgroup_css_free *)
definition cpu_cgroup_css_free ::
    "('x, 'l, 'm) group_env_scheme \<Rightarrow> tgid \<Rightarrow> ('x, 'l) kernel \<Rightarrow> ('x, 'l) kernel" where
  "cpu_cgroup_css_free env g k = sched_unregister_group env g k"

(* core.c 10056-10067: cpu_cgroup_fork *)
definition cpu_cgroup_fork ::
    "('x, 'l, 'm) group_env_scheme \<Rightarrow> tid \<Rightarrow> ('x, 'l) kernel \<Rightarrow> ('x, 'l) kernel option" where
  "cpu_cgroup_fork env p k =
     sched_change_group env p TASK_SET_GROUP (update_rq_clock env (task_cpu k p) k)"

text \<open>A task set is a list of tasks with the group each is to go to.\<close>

(* core.c 10069-10098: cpu_cgroup_can_attach *)
fun cpu_cgroup_can_attach ::
    "('x, 'l, 'm) group_env_scheme \<Rightarrow> (tid \<times> tgid) list \<Rightarrow> ('x, 'l) kernel \<Rightarrow> int" where
  "cpu_cgroup_can_attach env [] k = 0"
| "cpu_cgroup_can_attach env ((p, g) # ts) k =
     (if e_rt_group_sched env \<and> \<not> e_rt_can_attach (group_of env) g p k then - EINVAL
      else if t_state (tsk k p) = TASK_NEW then - EINVAL
      else cpu_cgroup_can_attach env ts k)"

(* core.c 10100-10107: cpu_cgroup_attach *)
fun cpu_cgroup_attach ::
    "('x, 'l, 'm) group_env_scheme \<Rightarrow> (tid \<times> tgid) list \<Rightarrow> ('x, 'l) kernel \<Rightarrow>
     ('x, 'l) kernel option" where
  "cpu_cgroup_attach env [] k = Some k"
| "cpu_cgroup_attach env ((p, g) # ts) k =
     Option.bind (sched_move_task env p k) (cpu_cgroup_attach env ts)"

end
