(* ===== verification/Full_Machine.thy ===== *)
theory Full_Machine
  imports Machine Task_Group
begin

text \<open>
  The concrete machine of \<open>Machine\<close> with the outside functions of wakeup and fork: no
  statistics, no remote wakeups, a fork whose copies succeed and whose new task is number 7, and task
  groups whose allocation succeeds with group 7.
\<close>

definition wake_ops0 :: "(unit, list_heap) wake_ops" where
  "wake_ops0 = wake_ops.fields False False False True (\<lambda>k. 5) (\<lambda>c k. []) (\<lambda>c i k. ())
     (\<lambda>c k. 0) (\<lambda>p k. ()) (\<lambda>p k. ()) (\<lambda>c p k. ()) (\<lambda>c k. ()) (\<lambda>c k. ()) (\<lambda>p k. Some k)
     (\<lambda>p k. ()) (\<lambda>p k. ())"

definition wake0 :: "(unit, list_heap) wake_env" where
  "wake0 = env.extend env0 wake_ops0"

definition clone_args0 :: clone_args where
  "clone_args0 = \<lparr>ca_flags = 0, ca_pidfd = 0, ca_child_tid = 0, ca_parent_tid = 0,
     ca_exit_signal = 0, ca_stack = 0, ca_stack_size = 0, ca_tls = 0, ca_set_tid = 0,
     ca_set_tid_size = 0, ca_cgroup = 0\<rparr>"

definition fork_ops0 :: "(unit, list_heap) fork_ops" where
  "fork_ops0 = fork_ops.fields False False (\<lambda>k. 25) (\<lambda>f p k. ())
     (\<lambda>p k. ((), 0, 0, p)) (\<lambda>p k. ()) (\<lambda>p k. ()) (\<lambda>a k. 0) (\<lambda>p g k. g) (\<lambda>p k. ()) (\<lambda>k. False)
     (\<lambda>k. False) (\<lambda>k. False) (\<lambda>f k. ()) (\<lambda>k. False) (\<lambda>k. Some 7) (\<lambda>p k. ()) (\<lambda>f p k. (0, ()))
     (\<lambda>p k. False) (\<lambda>k. False) (\<lambda>p k. (0, ())) (\<lambda>a p k. (0, (), 7, Some 1)) (\<lambda>p k. True)
     (\<lambda>k. False) (\<lambda>a b p k. ()) (\<lambda>p k. ()) (\<lambda>e k. False) (\<lambda>e p k. ()) (\<lambda>p k. int p)
     (\<lambda>a n k. ()) (\<lambda>p k. Some (False, k)) (\<lambda>p k. ()) (\<lambda>n k. (- 14, clone_args0)) (\<lambda>s. True)
     (\<lambda>a n k. None) (\<lambda>a b. True) (\<lambda>k. True) (\<lambda>k. 1) (\<lambda>k. True)"

definition fork0 :: "(unit, list_heap) fork_env" where
  "fork0 = env.extend env0 (wake_ops.extend wake_ops0 fork_ops0)"

lemmas fork_machine_defs = wake0_def wake_ops0_def fork0_def fork_ops0_def env0_def env.defs wake_ops.defs
  fork_ops.defs

lemma fork0_env:
  "e_list fork0 = heap_ops" "e_smp fork0 = False" "e_class fork0 = e_class env0"
  "e_schedstat (wake_of fork0) = False" "e_preempt_rt (wake_of fork0) = False"
  by (simp_all add: fork_machine_defs)

lemma linux_list_fork0: "linux_list (e_list fork0) heap_dll"
  by (simp add: fork0_env heap_list.linux_list_axioms)

text \<open>The same machine with two CPUs.\<close>

definition fork_smp0 :: "(unit, list_heap) fork_env" where
  "fork_smp0 = fork0\<lparr>e_smp := True\<rparr>"

lemma fork_smp0_env:
  "e_list fork_smp0 = heap_ops" "e_smp fork_smp0 = True" "e_class fork_smp0 = e_class env0"
  by (simp_all add: fork_smp0_def fork0_env)

lemma linux_list_fork_smp0: "linux_list (e_list fork_smp0) heap_dll"
  by (simp add: fork_smp0_env heap_list.linux_list_axioms)

text \<open>Setting the shares clamps them to 2 .. 2^18, as \<open>sched_group_set_shares\<close> is documented to
  do; the runtime is refilled up to quota and burst.\<close>

definition group_ops0 :: "(unit, list_heap) group_ops" where
  "group_ops0 = group_ops.fields True False (\<lambda>k. Some 7) (\<lambda>g q k. (True, k))
     (\<lambda>g q k. (True, k)) (\<lambda>g k. ()) (\<lambda>g k. ()) (\<lambda>g k. ()) (\<lambda>f g k. ()) (\<lambda>p k. 4) (\<lambda>p c k. ())
     (\<lambda>g p k. True) (\<lambda>g w k. (0, upd_tg g (\<lambda>t. t\<lparr>tg_shares := max 2 (min 262144 w)\<rparr>) k))
     (\<lambda>g i k. (0, upd_tg g (\<lambda>t. t\<lparr>tg_idle := i\<rparr>) k)) (\<lambda>k. ()) (\<lambda>k. ())
     (\<lambda>b. min (cb_runtime b + cb_quota b) (cb_quota b + cb_burst b)) (\<lambda>g k. ()) (\<lambda>g c k. k)
     (\<lambda>c. True) (\<lambda>g c k. 0)"

definition group0 :: "(unit, list_heap) group_env" where
  "group0 = env.extend env0 (wake_ops.extend wake_ops0 (fork_ops.extend fork_ops0 group_ops0))"

lemma group0_env:
  "e_list group0 = heap_ops" "e_smp group0 = False" "e_class group0 = e_class env0"
  "e_autogroup_tg (fork_of group0) = (\<lambda>p g k. g)" "e_task_css (group_of group0) = (\<lambda>p k. 4)" "e_fair_group (group_of group0)"
  "\<not> e_cgroup_v2 (group_of group0)"
  "e_set_shares (group_of group0) = (\<lambda>g w k. (0, upd_tg g (\<lambda>t. t\<lparr>tg_shares := max 2 (min 262144 w)\<rparr>) k))"
  "e_unthrottle (group_of group0) = (\<lambda>g c k. k)"
  by (simp_all add: group0_def group_ops0_def fork_machine_defs group_ops.defs)

lemma linux_list_group0: "linux_list (e_list group0) heap_dll"
  by (simp add: group0_env heap_list.linux_list_axioms)

end
