(* ===== verification/Lottery_System.thy ===== *)
theory Lottery_System
  imports Schedule_Lottery Fork_Lottery Full_Machine
begin

text \<open>
  The lottery tasks of a UP kernel as a transition system: tasks are made and woken up, are
  checked for preemption, ticks arrive, the scheduler runs, and the other classes do their own
  work, in any order. The invariant ties the lottery queue to the tasks' own state: the queue holds exactly the
  lottery tasks marked queued, the counters agree with it, and a running lottery task is one of them.
\<close>

section \<open>The invariant\<close>

definition queued_lottery :: "('x, 'l) kernel \<Rightarrow> tid \<Rightarrow> bool" where
  "queued_lottery k p \<longleftrightarrow> t_class (tsk k p) = Lottery_class \<and> t_on_rq (tsk k p) = TASK_ON_RQ_QUEUED"

definition queue_agrees ::
    "('l \<Rightarrow> lnode \<Rightarrow> lnode list \<Rightarrow> bool) \<Rightarrow> tid list \<Rightarrow> ('x, 'l) kernel \<Rightarrow> bool" where
  "queue_agrees dll ps k \<longleftrightarrow> ltr_queue dll (k_this_cpu k) k ps \<and> set ps = {p. queued_lottery k p}"

definition lottery_inv :: "('l \<Rightarrow> lnode \<Rightarrow> lnode list \<Rightarrow> bool) \<Rightarrow> ('x, 'l) kernel \<Rightarrow> bool" where
  "lottery_inv dll k \<longleftrightarrow> (\<exists>ps. queue_agrees dll ps k) \<and>
     (t_class (tsk k (current_task k)) = Lottery_class \<longrightarrow> queued_lottery k (current_task k))"

text \<open>What code outside the class may do to the lottery tasks: nothing to the queue, to the
  tickets of its tasks and to which tasks are queued.\<close>

definition keeps_lottery :: "('x, 'l) kernel \<Rightarrow> ('x, 'l) kernel \<Rightarrow> bool" where
  "keeps_lottery k k' \<longleftrightarrow>
     k_this_cpu k' = k_this_cpu k \<and> k_links k' = k_links k \<and>
     (\<forall>d. rq_ltr (cpu_rq k' d) = rq_ltr (cpu_rq k d)) \<and>
     (\<forall>p. queued_lottery k' p = queued_lottery k p) \<and>
     (\<forall>p. queued_lottery k p \<longrightarrow> t_ltr (tsk k' p) = t_ltr (tsk k p))"

lemma queue_agrees_keeps:
  assumes "keeps_lottery k k'" and "queue_agrees dll ps k"
  shows "queue_agrees dll ps k'"
proof -
  have "ltr_queue dll (k_this_cpu k) k' ps \<longleftrightarrow> ltr_queue dll (k_this_cpu k) k ps"
    using assms by (intro ltr_queue_cong) (auto simp: keeps_lottery_def queue_agrees_def)
  with assms show ?thesis by (simp add: keeps_lottery_def queue_agrees_def)
qed

lemma keeps_trans: "keeps_lottery k k1 \<Longrightarrow> keeps_lottery k1 k2 \<Longrightarrow> keeps_lottery k k2"
  by (simp add: keeps_lottery_def)

text \<open>Code that also leaves the choice of the running task and every task's class alone.\<close>

definition leaves_lottery :: "('x, 'l) kernel \<Rightarrow> ('x, 'l) kernel \<Rightarrow> bool" where
  "leaves_lottery k k' \<longleftrightarrow> keeps_lottery k k' \<and>
     (\<forall>d. rq_curr (cpu_rq k' d) = rq_curr (cpu_rq k d)) \<and> (\<forall>q. t_class (tsk k' q) = t_class (tsk k q))"

lemmas leaves_defs = leaves_lottery_def keeps_lottery_def queued_lottery_def

lemma leaves_refl [simp]: "leaves_lottery k k"
  by (simp add: leaves_defs)

lemma leaves_trans: "leaves_lottery k k1 \<Longrightarrow> leaves_lottery k1 k2 \<Longrightarrow> leaves_lottery k k2"
  by (simp add: leaves_lottery_def keeps_lottery_def)

lemma leavesD:
  assumes "leaves_lottery k k'"
  shows "keeps_lottery k k'" "rq_curr (cpu_rq k' d) = rq_curr (cpu_rq k d)"
    "t_class (tsk k' q) = t_class (tsk k q)" "k_this_cpu k' = k_this_cpu k"
    "current_task k' = current_task k" "queue_agrees dll ps k \<Longrightarrow> queue_agrees dll ps k'"
  using assms queue_agrees_keeps[of k k' dll ps] by (auto simp: leaves_defs current_task_def)

lemma leaves_ext [simp]: "leaves_lottery k (ext_do f k1) \<longleftrightarrow> leaves_lottery k k1"
  by (simp add: leaves_defs)

lemma leaves_warn [simp]: "leaves_lottery k (warn_on s b k1) \<longleftrightarrow> leaves_lottery k k1"
  by (simp add: leaves_defs)

lemma leaves_clock [simp]: "leaves_lottery k (update_rq_clock env c k1) \<longleftrightarrow> leaves_lottery k k1"
  by (simp add: leaves_defs)

lemma leaves_cong:
  assumes "k_this_cpu k2 = k_this_cpu k1" and "k_links k2 = k_links k1"
    and "\<And>d. rq_ltr (cpu_rq k2 d) = rq_ltr (cpu_rq k1 d)"
    and "\<And>d. rq_curr (cpu_rq k2 d) = rq_curr (cpu_rq k1 d)"
    and "\<And>q. t_class (tsk k2 q) = t_class (tsk k1 q)" and "\<And>q. t_on_rq (tsk k2 q) = t_on_rq (tsk k1 q)"
    and "\<And>q. t_ltr (tsk k2 q) = t_ltr (tsk k1 q)"
  shows "leaves_lottery k k2 \<longleftrightarrow> leaves_lottery k k1"
  using assms by (simp add: leaves_defs)

lemma leaves_rq:
  "(\<And>r. rq_ltr (g r) = rq_ltr r \<and> rq_curr (g r) = rq_curr r) \<Longrightarrow>
     leaves_lottery k (upd_rq c g k1) \<longleftrightarrow> leaves_lottery k k1"
  by (rule leaves_cong) simp_all

lemma leaves_task:
  "(\<And>t. t_class (f t) = t_class t \<and> t_on_rq (f t) = t_on_rq t \<and> t_ltr (f t) = t_ltr t) \<Longrightarrow>
     leaves_lottery k (upd_task p f k1) \<longleftrightarrow> leaves_lottery k k1"
  by (rule leaves_cong) simp_all

lemma leaves_uclamp: "leaves_lottery k (uclamp_rq_dec env c p k1) \<longleftrightarrow> leaves_lottery k k1"
proof -
  have m: "rq_ltr (snd (uclamp_idle_value i w r)) = rq_ltr r" "rq_curr (snd (uclamp_idle_value i w r)) = rq_curr r"
    for i w r by (cases i; simp)+
  have b: "rq_ltr (uclamp_bucket_dec env i b v r) = rq_ltr r \<and> rq_curr (uclamp_bucket_dec env i b v r) = rq_curr r"
    for i b v r
    by (simp add: uclamp_bucket_dec_def Let_def case_prod_beta upd_bucket_def uclamp_rq_set_def
        uclamp_rq_max_value_def m split: option.split)
  have u: "leaves_lottery k (uclamp_rq_dec_id env c p i k1) \<longleftrightarrow> leaves_lottery k k1" for i k1
    by (simp add: uclamp_rq_dec_id_def Let_def upd_se_def leaves_rq[OF b] leaves_task)
  have "leaves_lottery k (fold (uclamp_rq_dec_id env c p) is k1) \<longleftrightarrow> leaves_lottery k k1" for "is"
    by (induction "is" arbitrary: k1) (simp_all add: u)
  then show ?thesis by (simp add: uclamp_rq_dec_def)
qed

lemma switch_frame_leaves: "switch_frame k k' \<Longrightarrow> leaves_lottery k k'"
  by (simp add: switch_frame_def leaves_defs)

lemma inv_leaves:
  assumes "lottery_inv dll k" and "leaves_lottery k k'"
  shows "lottery_inv dll k'"
proof -
  have "queued_lottery k' q = queued_lottery k q" for q
    using assms(2) by (simp add: leaves_lottery_def keeps_lottery_def)
  with assms leavesD(3,5,6)[OF assms(2)] show ?thesis by (auto simp: lottery_inv_def)
qed

section \<open>The other classes\<close>

text \<open>The contract between the core and the classes outside the repository: none of their hooks
  touches the lottery tasks or makes another task current, and a class picks tasks of its own.\<close>

definition hook_leaves :: "(('x, 'l) kernel \<Rightarrow> ('x, 'l) kernel option) \<Rightarrow> bool" where
  "hook_leaves f \<longleftrightarrow> (\<forall>k k'. f k = Some k' \<longrightarrow> leaves_lottery k k')"

lemma hook_leavesD: "hook_leaves f \<Longrightarrow> f k = Some k' \<Longrightarrow> leaves_lottery k k'"
  by (simp add: hook_leaves_def)

locale other_classes =
  fixes env :: "('x, 'l, 'm) env_scheme"
  assumes class_pick: "sc \<noteq> Lottery_class \<Longrightarrow> vt_pick_next_task (e_class env sc) = Some f \<Longrightarrow>
      f c k = Some (r, k') \<Longrightarrow>
      leaves_lottery k k' \<and> (\<forall>q. r = Some q \<longrightarrow> t_class (tsk k' q) = sc)"
    and class_dequeue: "sc \<noteq> Lottery_class \<Longrightarrow> vt_dequeue_task (e_class env sc) = Some f2 \<Longrightarrow>
      hook_leaves (f2 c p fl)"
    and class_put: "sc \<noteq> Lottery_class \<Longrightarrow> vt_put_prev_task (e_class env sc) = Some f3 \<Longrightarrow>
      hook_leaves (f3 c p)"
    and class_tick: "sc \<noteq> Lottery_class \<Longrightarrow> vt_task_tick (e_class env sc) = Some f4 \<Longrightarrow>
      hook_leaves (f4 c p queued)"
    and class_dead: "sc \<noteq> Lottery_class \<Longrightarrow> vt_task_dead (e_class env sc) = Some f5 \<Longrightarrow>
      hook_leaves (f5 p)"
    and fair_pick: "e_pick_next_task_fair env c p k = Some (fr, k') \<Longrightarrow>
      leaves_lottery k k' \<and> (\<forall>q. fr = Picked (Some q) \<longrightarrow> t_class (tsk k' q) = Fair_class)"
    and idle_pick: "e_pick_next_task_idle env c k = Some (p, k') \<Longrightarrow>
      leaves_lottery k k' \<and> t_class (tsk k' p) = Idle_class"
begin

lemma pick_classes_keeps:
  "pick_classes env c scs k = Some (q, k') \<Longrightarrow> Lottery_class \<notin> set scs \<Longrightarrow>
     leaves_lottery k k' \<and> t_class (tsk k' q) \<noteq> Lottery_class"
proof (induction scs arbitrary: k)
  case Nil
  then show ?case by simp
next
  case (Cons sc scs)
  then have sc: "sc \<noteq> Lottery_class" "Lottery_class \<notin> set scs" by auto
  obtain f r k1 where f: "vt_pick_next_task (e_class env sc) = Some f" "f c k = Some (r, k1)"
    and r: "(case r of Some q \<Rightarrow> Some (q, k1) | None \<Rightarrow> pick_classes env c scs k1) = Some (q, k')"
    using Cons.prems(1) sc(1) by (auto simp: bind_Some_iff class_vt_def)
  note keep = class_pick[OF sc(1) f]
  show ?case
  proof (cases r)
    case None
    with r Cons.IH[of k1] sc(2) keep show ?thesis by (auto intro: leaves_trans)
  next
    case (Some p)
    with r keep sc(1) show ?thesis by simp
  qed
qed

text \<open>The hooks the lottery class shares with the others keep the contract as well.\<close>

lemma put_prev_leaves:
  assumes "put_prev_task env c prev k = Some k'"
  shows "leaves_lottery k k'"
proof -
  let ?k = "warn_on ''put_prev_task'' (rq_curr (cpu_rq k c) \<noteq> prev) k"
  obtain f where f: "vt_put_prev_task (cl env ?k prev) = Some f" "f c prev ?k = Some k'"
    using assms by (auto simp: put_prev_task_def Let_def bind_Some_iff)
  have "leaves_lottery ?k k'"
  proof (cases "t_class (tsk k prev) = Lottery_class")
    case True
    with f show ?thesis by (auto simp: cl_def put_prev_task_lottery_def)
  next
    case False
    then have "vt_put_prev_task (e_class env (t_class (tsk k prev))) = Some f"
      using f(1) by (simp add: cl_def class_vt_def)
    from hook_leavesD[OF class_put[OF False this] f(2)] show ?thesis .
  qed
  moreover have "leaves_lottery k ?k" by simp
  ultimately show ?thesis using leaves_trans by blast
qed

lemma task_tick_leaves:
  assumes "vt_task_tick (cl env k p) = Some f" and "f c p queued k = Some k'"
  shows "leaves_lottery k k'"
proof (cases "t_class (tsk k p) = Lottery_class")
  case True
  then have f: "f = task_tick_lottery env" using assms(1) by (simp add: cl_def)
  obtain k1 where k1: "task_tick_lottery env c p queued k = Some k1"
    "\<forall>q. \<exists>b. tsk k1 q = (tsk k q)\<lparr>t_need_resched := b\<rparr>" "k_links k1 = k_links k"
    "k_rqs k1 = k_rqs k" "k_this_cpu k1 = k_this_cpu k"
    using tick_effect[of env c p queued k] by (elim exE conjE) (rule that)
  have "t_class (tsk k1 q) = t_class (tsk k q) \<and> t_on_rq (tsk k1 q) = t_on_rq (tsk k q) \<and>
      t_ltr (tsk k1 q) = t_ltr (tsk k q)" for q
    using spec[OF k1(2), of q] by auto
  then have "leaves_lottery k k1" using k1(3-5) by (simp add: leaves_defs)
  with k1(1) assms(2) f show ?thesis by simp
next
  case False
  then have "vt_task_tick (e_class env (t_class (tsk k p))) = Some f"
    using assms(1) by (simp add: cl_def class_vt_def)
  from hook_leavesD[OF class_tick[OF False this] assms(2)] show ?thesis .
qed

lemma task_dead_leaves:
  assumes "vt_task_dead (cl env k p) = Some f" and "f p k1 = Some k'"
  shows "leaves_lottery k1 k'"
proof -
  have ne: "t_class (tsk k p) \<noteq> Lottery_class" using assms(1) by (auto simp: cl_def)
  then have "vt_task_dead (e_class env (t_class (tsk k p))) = Some f"
    using assms(1) by (simp add: cl_def class_vt_def)
  from hook_leavesD[OF class_dead[OF ne this] assms(2)] show ?thesis .
qed

text \<open>A task of another class leaves its queue.\<close>

lemma deactivate_leaves:
  assumes "t_class (tsk k p) \<noteq> Lottery_class" and "deactivate_task env c p flags k = Some k'"
  shows "leaves_lottery k k'"
proof -
  let ?k1 = "upd_task p (\<lambda>t. t\<lparr>t_on_rq :=
          (if has_flag flags DEQUEUE_SLEEP then 0 else TASK_ON_RQ_MIGRATING)\<rparr>) k"
  have l1: "leaves_lottery k ?k1" using assms(1) by (simp add: leaves_defs)
  obtain k2 f where f: "vt_dequeue_task (cl env (uclamp_rq_dec env c p k2) p) = Some f"
    "f c p flags (uclamp_rq_dec env c p k2) = Some k'"
    and k2: "leaves_lottery k k2"
  proof -
    let ?ka = "if \<not> has_flag flags DEQUEUE_NOCLOCK then update_rq_clock env c ?k1 else ?k1"
    let ?kb = "if \<not> has_flag flags DEQUEUE_SAVE
              then ext_do (e_psi_dequeue env p (has_flag flags DEQUEUE_SLEEP))
                     (ext_do (e_sched_info_dequeue env c p) ?ka) else ?ka"
    have "Option.bind (vt_dequeue_task (cl env (uclamp_rq_dec env c p ?kb) p))
        (\<lambda>f. f c p flags (uclamp_rq_dec env c p ?kb)) = Some k'"
      using assms(2) by (simp only: deactivate_task_def dequeue_task_def Let_def)
    then obtain f where "vt_dequeue_task (cl env (uclamp_rq_dec env c p ?kb) p) = Some f"
      "f c p flags (uclamp_rq_dec env c p ?kb) = Some k'" unfolding bind_Some_iff by blast
    moreover have "leaves_lottery k ?kb"
      using l1 by (cases "has_flag flags DEQUEUE_NOCLOCK"; cases "has_flag flags DEQUEUE_SAVE")
        (simp_all only: leaves_ext leaves_clock if_True if_False not_True_eq_False not_False_eq_True)
    ultimately show thesis by (rule that)
  qed
  have l3: "leaves_lottery k (uclamp_rq_dec env c p k2)" using k2 by (simp add: leaves_uclamp)
  have ne: "t_class (tsk (uclamp_rq_dec env c p k2) p) \<noteq> Lottery_class"
    using assms(1) leavesD(3)[OF l3] by simp
  then have "vt_dequeue_task (e_class env (t_class (tsk (uclamp_rq_dec env c p k2) p))) = Some f"
    using f(1) by (simp add: cl_def class_vt_def)
  from leaves_trans[OF l3 hook_leavesD[OF class_dequeue[OF ne this] f(2)]] show ?thesis .
qed

end

text \<open>The classes of the concrete machine keep the contract, once its idle pick checks, like its
  hook does, that the idle task is of the idle class.\<close>

definition system0 :: "(unit, list_heap) fork_env" where
  "system0 = fork0\<lparr>e_pick_next_task_idle := (\<lambda>c k.
     if t_class (tsk k (rq_idle (cpu_rq k c))) = Idle_class then Some (rq_idle (cpu_rq k c), k) else None)\<rparr>"

lemma system0_env:
  "e_list system0 = heap_ops" "\<not> e_smp system0" "e_class system0 = e_class env0"
  "e_pick_next_task_fair system0 = (\<lambda>c p k. Some (Picked None, k))"
  by (simp_all add: system0_def fork_machine_defs)

lemma linux_list_system0: "linux_list (e_list system0) heap_dll"
  by (simp add: system0_env heap_list.linux_list_axioms)

lemma machine_class_hooks:
  "vt_pick_next_task (e_class env0 sc) = Some (if sc = Idle_class
      then (\<lambda>c k. Some (if t_class (tsk k (rq_idle (cpu_rq k c))) = Idle_class
             then Some (rq_idle (cpu_rq k c)) else None, k)) else (\<lambda>c k. Some (None, k)))"
  "vt_dequeue_task (e_class env0 sc) = Some (\<lambda>c p f k. Some k)"
  "vt_put_prev_task (e_class env0 sc) = Some (\<lambda>c p k. Some k)"
  "vt_task_tick (e_class env0 sc) = Some (\<lambda>c p q k. Some k)"
  "vt_task_dead (e_class env0 sc) = None"
  by (simp_all add: env0_def idle_vtable_def empty_vtable_def null_vtable_def)

lemma hook_leaves_Some: "hook_leaves (\<lambda>k. Some k)"
  by (simp add: hook_leaves_def)

interpretation machine_classes: other_classes system0
proof (standard, unfold system0_env machine_class_hooks option.inject)
  show "leaves_lottery k k' \<and> (\<forall>q. r = Some q \<longrightarrow> t_class (tsk k' q) = sc)"
    if "(if sc = Idle_class
      then (\<lambda>c k. Some (if t_class (tsk k (rq_idle (cpu_rq k c))) = Idle_class
             then Some (rq_idle (cpu_rq k c)) else None, k)) else (\<lambda>c k. Some (None, k))) = f"
      and "f c k = Some (r, k')" for sc f c r and k k' :: "(unit, list_heap) kernel"
    using that by (auto split: if_splits)
  show "leaves_lottery k k' \<and> t_class (tsk k' p) = Idle_class"
    if "e_pick_next_task_idle system0 c k = Some (p, k')" for c p k k'
    using that by (auto simp: system0_def split: if_splits)
qed (auto simp: hook_leaves_Some)

section \<open>One pass of the scheduler keeps the invariant\<close>

lemma queued_on_rq:
  "t_class (tsk k' p) = t_class (tsk k p) \<Longrightarrow> t_on_rq (tsk k' p) = t_on_rq (tsk k p) \<Longrightarrow>
     queued_lottery k' p = queued_lottery k p"
  by (simp add: queued_lottery_def)

text \<open>Before the pick: a previous task of the lottery class may have left the queue.\<close>

lemma schedule_front:
  assumes "linux_list (e_list env) dll" and "queue_agrees dll ps k" and "prev = current_task k"
    and "queued_lottery k prev"
    and "(if vol then schedule_block env (k_this_cpu k) prev st (schedule_entry env mode (k_this_cpu k) k)
          else Some (schedule_entry env mode (k_this_cpu k) k)) = Some k2"
  shows "\<exists>qs. queue_agrees dll qs k2 \<and> rq_curr (cpu_rq k2 (k_this_cpu k)) = prev \<and>
    t_class (tsk k2 prev) = Lottery_class \<and> k_this_cpu k2 = k_this_cpu k"
proof -
  let ?c = "k_this_cpu k"
  let ?k1 = "schedule_entry env mode ?c k"
  note e = schedule_entry_state[where k = k and env = env and mode = mode and c = ?c]
  have b1: "k_this_cpu ?k1 = ?c" "rq_curr (cpu_rq ?k1 ?c) = prev"
    using e(1) assms(3) by (simp_all add: before_pick_def current_task_def)
  have q1: "queue_agrees dll ps ?k1"
    using assms(2) b1(1) e(2,3) by (simp add: queue_agrees_def queued_lottery_def)
  have cls: "t_class (tsk ?k1 prev) = Lottery_class" using assms(4) e(2) by (simp add: queued_lottery_def)
  have mem: "prev \<in> set ps" using assms(2,4) by (simp add: queue_agrees_def)
  consider "\<not> vol" | "vol" "e_signal_pending_state env st prev ?k1"
    | "vol" "\<not> e_signal_pending_state env st prev ?k1" by blast
  then show ?thesis
  proof cases
    case 1
    with assms(5) q1 b1 cls show ?thesis by auto
  next
    case 2
    then have k2: "k2 = upd_task prev (\<lambda>t. t\<lparr>t_state := TASK_RUNNING\<rparr>) ?k1"
      using assms(5) by (simp add: schedule_block_def)
    have "keeps_lottery ?k1 k2" by (simp add: keeps_lottery_def k2 queued_lottery_def)
    with q1 have "queue_agrees dll ps k2" by (simp add: queue_agrees_keeps)
    with b1 cls show ?thesis by (auto simp: k2)
  next
    case 3
    have lq: "ltr_queue dll ?c ?k1 ps" using q1 b1(1) by (simp add: queue_agrees_def)
    obtain k' where k': "schedule_block env ?c prev st ?k1 = Some k'"
      "ltr_queue dll ?c k' (remove1 prev ps)" "before_pick ?k1 k'" "t_on_rq (tsk k' prev) = 0"
      "\<forall>q. q \<noteq> prev \<longrightarrow> t_on_rq (tsk k' q) = t_on_rq (tsk ?k1 q)"
      using schedule_block_lottery[OF assms(1) lq mem cls 3(2)] by blast
    have kk: "k2 = k'" using 3(1) assms(5) k'(1) by simp
    have "distinct ps" using lottery_rq.queue_distinct[OF lottery_rq.intro[OF assms(1)] lq] .
    moreover have "queued_lottery k' q \<longleftrightarrow> q \<noteq> prev \<and> queued_lottery ?k1 q" for q
      using k'(3,4,5)
      by (cases "q = prev") (simp_all add: queued_lottery_def before_pick_def TASK_ON_RQ_QUEUED_def)
    ultimately have "set (remove1 prev ps) = {p. queued_lottery k' p}"
      using q1 by (auto simp: queue_agrees_def)
    with k'(2,3) b1 cls show ?thesis
      unfolding kk by (intro exI[of _ "remove1 prev ps"]) (simp add: queue_agrees_def before_pick_def)
  qed
qed

context other_classes
begin

text \<open>A task of another class that blocks leaves the lottery tasks alone.\<close>

lemma schedule_block_leaves:
  assumes "t_class (tsk k prev) \<noteq> Lottery_class" and "schedule_block env c prev st k = Some k'"
  shows "leaves_lottery k k'"
proof (cases "e_signal_pending_state env st prev k")
  case True
  then have "k' = upd_task prev (\<lambda>t. t\<lparr>t_state := TASK_RUNNING\<rparr>) k"
    using assms(2) by (simp add: schedule_block_def)
  then show ?thesis by (simp add: leaves_task)
next
  case False
  obtain con where con: "con \<longleftrightarrow> has_flag st TASK_UNINTERRUPTIBLE \<and> \<not> has_flag st TASK_NOLOAD \<and>
      \<not> has_flag (t_flags (tsk k prev)) PF_FROZEN" by blast
  let ?k1 = "upd_task prev (\<lambda>t. t\<lparr>t_contributes_to_load := con\<rparr>) k"
  obtain k2 where k2: "k2 = (if con
      then upd_rq c (\<lambda>r. r\<lparr>rq_nr_uninterruptible := rq_nr_uninterruptible r + 1\<rparr>) ?k1 else ?k1)"
    by blast
  obtain k3 where k3: "deactivate_task env c prev (DEQUEUE_SLEEP OR DEQUEUE_NOCLOCK) k2 = Some k3"
    and k': "k' = (if t_in_iowait (tsk k3 prev)
          then ext_do (e_delayacct_blkio_start env prev)
                 (upd_rq c (\<lambda>r. r\<lparr>rq_nr_iowait := rq_nr_iowait r + 1\<rparr>) k3) else k3)"
    using assms(2) False unfolding k2
    by (auto simp only: schedule_block_def Let_def con[symmetric] if_False bind_Some_iff option.inject)
  have l2: "leaves_lottery k k2" by (simp add: k2 leaves_rq leaves_task)
  have cls: "t_class (tsk k2 prev) \<noteq> Lottery_class" using assms(1) leavesD(3)[OF l2] by simp
  have "leaves_lottery k2 k3" by (rule deactivate_leaves[OF cls k3])
  then have "leaves_lottery k k3" by (rule leaves_trans[OF l2])
  then show ?thesis by (simp add: k' leaves_rq)
qed

text \<open>The next task is a queued lottery task or one of another class, whatever task ran before.\<close>

lemma pick_classes_all:
  assumes "linux_list (e_list env) dll" and "c = k_this_cpu k" and "queue_agrees dll qs k"
    and "pick_classes env c for_each_class k = Some (next, k')"
  shows "leaves_lottery k k' \<and> (t_class (tsk k' next) = Lottery_class \<longrightarrow> next \<in> set qs)"
proof -
  have lq: "ltr_queue dll c k qs" using assms(2,3) by (simp add: queue_agrees_def)
  obtain r k1 where r: "pick_next_task_lottery env c k = Some (r, k1)"
    and rest: "(case r of Some q \<Rightarrow> Some (q, k1) | None \<Rightarrow> pick_classes env c
        [Stop_class, Dl_class, Rt_class, Fair_class, Idle_class] k1) = Some (next, k')"
    using assms(4) by (auto simp: for_each_class_eq bind_Some_iff simp del: pick_classes.simps(2)
        simp: pick_classes.simps(2)[of env c Lottery_class])
  note u = lottery_rq.pick_unfold[OF lottery_rq.intro[OF assms(1)] lq]
  have k1: "leaves_lottery k k1"
    using r by (auto simp: u Let_def leaves_defs split: if_splits)
  have mem: "q \<in> set qs" if "r = Some q" for q
  proof -
    have ne: "qs \<noteq> []" and q: "q = the (lottery_scan (k_tasks k) (k_entropy k 0 mod
        lr_total_tickets (rq_ltr (cpu_rq k c))) 0 None qs)"
      using r that by (auto simp: u Let_def split: if_splits)
    obtain s where s: "lottery_scan (k_tasks k) (k_entropy k 0 mod
        lr_total_tickets (rq_ltr (cpu_rq k c))) 0 None qs = Some s"
      using lottery_scan_Some[OF ne] by blast
    with q show "q \<in> set qs" using lottery_scan_mem[OF s] by simp
  qed
  show ?thesis
  proof (cases r)
    case None
    with rest have "pick_classes env c [Stop_class, Dl_class, Rt_class, Fair_class, Idle_class] k1 =
        Some (next, k')" by simp
    from pick_classes_keeps[OF this] have "leaves_lottery k1 k'" "t_class (tsk k' next) \<noteq> Lottery_class"
      by auto
    with leaves_trans[OF k1] show ?thesis by simp
  next
    case (Some q)
    with rest k1 mem show ?thesis by simp
  qed
qed

lemma pick_slow:
  assumes "linux_list (e_list env) dll" and "\<not> e_smp env" and "c = k_this_cpu k"
    and "queue_agrees dll qs k" and "pick_next_task_slow env c prev k = Some (next, k')"
  shows "leaves_lottery k k' \<and> (t_class (tsk k' next) = Lottery_class \<longrightarrow> next \<in> set qs)"
proof -
  obtain k1 where k1: "put_prev_task env c prev k = Some k1"
    and pick: "pick_classes env c for_each_class k1 = Some (next, k')"
    using assms(2,5) by (auto simp: pick_next_task_slow_def put_prev_task_balance_def bind_Some_iff)
  note l1 = put_prev_leaves[OF k1]
  have "c = k_this_cpu k1" using assms(3) leavesD(4)[OF l1] by simp
  from pick_classes_all[OF assms(1) this leavesD(6)[OF l1 assms(4)] pick] leaves_trans[OF l1]
  show ?thesis by blast
qed

lemma pick_back:
  assumes "linux_list (e_list env) dll" and "\<not> e_smp env" and "c = k_this_cpu k"
    and "queue_agrees dll qs k" and "pick_next_task env c prev k = Some (next, k')"
  shows "leaves_lottery k k' \<and> (t_class (tsk k' next) = Lottery_class \<longrightarrow> next \<in> set qs)"
proof (cases "t_class (tsk k prev) \<le> Fair_class \<and>
    rq_nr_running (cpu_rq k c) = rq_cfs_h_nr_running (cpu_rq k c)")
  case False
  then have "pick_next_task_slow env c prev k = Some (next, k')"
    using assms(5) unfolding pick_next_task_def by (simp only: if_False)
  then show ?thesis by (rule pick_slow[OF assms(1-4)])
next
  case True
  obtain r k1 where f: "e_pick_next_task_fair env c prev k = Some (r, k1)"
    and rest: "(case r of RETRY_TASK \<Rightarrow> pick_next_task_slow env c prev k1
        | Picked None \<Rightarrow> do { k \<leftarrow> put_prev_task env c prev k1; e_pick_next_task_idle env c k }
        | Picked (Some p) \<Rightarrow> Some (p, k1)) = Some (next, k')"
    using assms(5) unfolding pick_next_task_def if_P[OF True] bind_Some_iff by auto
  have l1: "leaves_lottery k k1" using fair_pick[OF f] by simp
  consider "r = RETRY_TASK" | "r = Picked None" | p where "r = Picked (Some p)"
    by (metis fair_pick.exhaust option.exhaust)
  then show ?thesis
  proof cases
    case 1
    with rest have s: "pick_next_task_slow env c prev k1 = Some (next, k')" by simp
    have "c = k_this_cpu k1" using assms(3) leavesD(4)[OF l1] by simp
    from pick_slow[OF assms(1,2) this leavesD(6)[OF l1 assms(4)] s] leaves_trans[OF l1]
    show ?thesis by blast
  next
    case 2
    with rest obtain k2 where k2: "put_prev_task env c prev k1 = Some k2"
      "e_pick_next_task_idle env c k2 = Some (next, k')" by (auto simp: bind_Some_iff)
    note l2 = leaves_trans[OF l1 put_prev_leaves[OF k2(1)]]
    show ?thesis using leaves_trans[OF l2] idle_pick[OF k2(2)] by simp
  next
    case 3
    with rest have "p = next" "k1 = k'" by simp_all
    with 3 fair_pick[OF f] show ?thesis by simp
  qed
qed

text \<open>The switch away from any task: the next one is current.\<close>

lemma finish_switch_leaves:
  assumes "\<not> e_smp env" and "finish_task_switch env c prev k = Some k'"
  shows "leaves_lottery k k'"
proof -
  let ?k1 = "upd_rq c (\<lambda>r. r\<lparr>rq_prev_mm := None\<rparr>) k"
  let ?k2 = "ext_do (e_finish_switch env c prev) ?k1"
  obtain k3 where k3: "k3 = (case rq_prev_mm (cpu_rq k c) of
      Some m \<Rightarrow> ext_do (e_mmdrop env m) ?k2 | None \<Rightarrow> ?k2)" by blast
  have l3: "leaves_lottery k k3" by (simp add: k3 leaves_rq split: option.split)
  have fin: "(if t_state (tsk ?k1 prev) = TASK_DEAD
     then map_option (ext_do (e_task_dead env prev))
            (case vt_task_dead (cl env k3 prev) of Some f \<Rightarrow> f prev k3 | None \<Rightarrow> Some k3)
     else Some k3) = Some k'"
    using assms unfolding k3
    by (simp only: finish_task_switch_def finish_task_def finish_lock_switch_def
        balance_callbacks_now_def Let_def if_False bind.bind_lunit)
  show ?thesis
  proof (cases "t_state (tsk ?k1 prev) = TASK_DEAD")
    case False
    with fin l3 show ?thesis by simp
  next
    case True
    from fin have "map_option (ext_do (e_task_dead env prev))
        (case vt_task_dead (cl env k3 prev) of Some f \<Rightarrow> f prev k3 | None \<Rightarrow> Some k3) = Some k'"
      unfolding if_P[OF True] .
    then obtain k4 where k4: "(case vt_task_dead (cl env k3 prev) of Some f \<Rightarrow> f prev k3 | None \<Rightarrow> Some k3) =
        Some k4" and k': "ext_do (e_task_dead env prev) k4 = k'"
      unfolding map_option_eq_Some by blast
    have "leaves_lottery k3 k4"
      using k4 task_dead_leaves by (cases "vt_task_dead (cl env k3 prev)") auto
    from leaves_trans[OF l3 this] show ?thesis by (simp add: k'[symmetric])
  qed
qed

lemma context_switch_leaves:
  assumes "\<not> e_smp env" and "context_switch env c prev next k = Some k'"
  shows "leaves_lottery k k'"
proof -
  let ?k1 = "prepare_task_switch env c prev next k"
  let ?k2 = "switch_address_space env c prev next ?k1"
  let ?k3 = "upd_rq c (\<lambda>r. r\<lparr>rq_clock_update_flags :=
                 clear_flag (rq_clock_update_flags r) (RQCF_ACT_SKIP OR RQCF_REQ_SKIP)\<rparr>) ?k2"
  have "switch_frame k ?k2"
    using prepare_task_switch_frame[OF assms(1)] switch_address_space_frame switch_frame_trans by blast
  then have "leaves_lottery k ?k3" by (intro switch_frame_leaves) simp
  moreover have "finish_task_switch env c prev ?k3 = Some k'"
    using assms(2) by (simp only: context_switch_def Let_def)
  ultimately show ?thesis using finish_switch_leaves[OF assms(1)] leaves_trans by blast
qed

lemma schedule_switch_keeps:
  assumes "\<not> e_smp env" and "rq_curr (cpu_rq k c) = prev"
    and "schedule_switch env vol c prev next k = Some k'"
  shows "keeps_lottery k k' \<and> rq_curr (cpu_rq k' c) = next \<and> t_class (tsk k' q) = t_class (tsk k q)"
proof (cases "prev = next")
  case True
  with assms have "k' = upd_rq c (\<lambda>r. r\<lparr>rq_clock_update_flags :=
            clear_flag (rq_clock_update_flags r) (RQCF_ACT_SKIP OR RQCF_REQ_SKIP)\<rparr>) k"
    by (simp add: schedule_switch_def balance_callbacks_now_def)
  then have "leaves_lottery k k'" by (simp add: leaves_rq)
  with assms(2) True show ?thesis by (simp add: leavesD)
next
  case False
  let ?k1 = "upd_task prev (\<lambda>t. if vol then t\<lparr>t_nvcsw := t_nvcsw t + 1\<rparr>
                                  else t\<lparr>t_nivcsw := t_nivcsw t + 1\<rparr>)
    (upd_rq c (\<lambda>r. r\<lparr>rq_nr_switches := rq_nr_switches r + 1, rq_curr := next\<rparr>) k)"
  let ?k2 = "ext_do (e_psi_sched_switch env prev next (\<not> task_on_rq_queued ?k1 prev)) ?k1"
  have "context_switch env c prev next ?k2 = Some k'"
    using False assms(1,3) by (simp add: schedule_switch_def migrate_disable_switch_def Let_def)
  from context_switch_leaves[OF assms(1) this] have l: "leaves_lottery ?k2 k'" .
  have k2: "keeps_lottery k ?k2" "rq_curr (cpu_rq ?k2 c) = next" "t_class (tsk ?k2 q) = t_class (tsk k q)"
    by (simp_all add: keeps_lottery_def queued_lottery_def)
  have "rq_curr (cpu_rq k' c) = next" by (rule trans[OF leavesD(2)[OF l] k2(2)])
  moreover have "t_class (tsk k' q) = t_class (tsk k q)" by (rule trans[OF leavesD(3)[OF l] k2(3)])
  ultimately show ?thesis using keeps_trans[OF k2(1) leavesD(1)[OF l]] by blast
qed

lemma schedule_keeps_inv:
  assumes "linux_list (e_list env) dll" and "\<not> e_smp env" and "lottery_inv dll k"
    and "schedule_once env mode k = Some k'"
  shows "lottery_inv dll k'"
proof -
  let ?c = "k_this_cpu k" and ?prev = "current_task k"
  let ?k1 = "schedule_entry env mode ?c k"
  obtain ps where ps: "queue_agrees dll ps k"
    and pq: "t_class (tsk k ?prev) = Lottery_class \<Longrightarrow> queued_lottery k ?prev"
    using assms(3) by (auto simp: lottery_inv_def)
  obtain vol st k2 nx k3 where
    k2: "(if vol then schedule_block env ?c ?prev st ?k1 else Some ?k1) = Some k2"
    and pick: "pick_next_task env ?c ?prev k2 = Some (nx, k3)"
    and sw: "schedule_switch env vol ?c ?prev nx (schedule_clear env ?c ?prev k3) = Some k'"
    using assms(4)
    by (simp only: schedule_once_parts Let_def bind_Some_iff current_task_def[symmetric]) auto
  obtain qs where a2: "queue_agrees dll qs k2" "rq_curr (cpu_rq k2 ?c) = ?prev" "k_this_cpu k2 = ?c"
  proof (cases "t_class (tsk k ?prev) = Lottery_class")
    case True
    then show thesis using that schedule_front[OF assms(1) ps refl pq[OF True] k2] by blast
  next
    case False
    have l1: "leaves_lottery k ?k1" by (simp add: schedule_entry_def leaves_rq)
    have "t_class (tsk ?k1 ?prev) \<noteq> Lottery_class" using False leavesD(3)[OF l1] by simp
    then have "leaves_lottery ?k1 k2"
      using k2 schedule_block_leaves by (cases vol) auto
    then have "leaves_lottery k k2" by (rule leaves_trans[OF l1])
    from leavesD(2,4)[OF this] leavesD(6)[OF this ps] that show thesis by (simp add: current_task_def)
  qed
  from pick_back[OF assms(1,2) a2(3)[symmetric] a2(1) pick]
  have l3: "leaves_lottery k2 k3" and nx: "t_class (tsk k3 nx) = Lottery_class \<Longrightarrow> nx \<in> set qs" by auto
  let ?k4 = "schedule_clear env ?c ?prev k3"
  have "leaves_lottery k3 ?k4" by (simp add: leaves_defs)
  from leaves_trans[OF l3 this] have l4: "leaves_lottery k2 ?k4" .
  have "rq_curr (cpu_rq ?k4 ?c) = ?prev" using leavesD(2)[OF l4] a2(2) by simp
  note s = schedule_switch_keeps[OF assms(2) this sw]
  have a5: "queue_agrees dll qs k'" using queue_agrees_keeps[of ?k4 k'] s leavesD(6)[OF l4 a2(1)] by blast
  have "k_this_cpu k' = ?c" using s leavesD(4)[OF l4] a2(3) by (simp add: keeps_lottery_def)
  then have cur: "current_task k' = nx" using s by (simp add: current_task_def)
  have "queued_lottery k' nx" if "t_class (tsk k' nx) = Lottery_class"
  proof -
    have "t_class (tsk k3 nx) = Lottery_class" using that s by (simp split: if_splits)
    with nx a5 show ?thesis by (simp add: queue_agrees_def)
  qed
  with a5 cur show ?thesis by (auto simp: lottery_inv_def)
qed

text \<open>A tick leaves the lottery tasks alone, whatever task runs.\<close>

lemma scheduler_tick_leaves:
  assumes "\<not> e_smp env" and "scheduler_tick env k = Some k'"
  shows "leaves_lottery k k'"
proof -
  let ?c = "k_this_cpu k" and ?k1 = "ext_do (e_tick_thermal env (k_this_cpu k)) (update_rq_clock env (k_this_cpu k) k)"
  obtain f k2 where k2: "vt_task_tick (cl env ?k1 (rq_curr (cpu_rq k ?c))) = Some f"
    "f ?c (rq_curr (cpu_rq k ?c)) 0 ?k1 = Some k2"
    and k': "leaves_lottery k2 k'"
  proof -
    obtain f k2 where f: "vt_task_tick (cl env ?k1 (rq_curr (cpu_rq k ?c))) = Some f"
      "f ?c (rq_curr (cpu_rq k ?c)) 0 ?k1 = Some k2"
      and rest: "(case (if e_latency_warn env then cpu_resched_latency env ?c k2 else (0, k2)) of
         (l, k) \<Rightarrow> Some (ext_do (e_perf_event_task_tick env ?c)
           (if e_latency_warn env \<and> l \<noteq> 0
            then ext_do (e_resched_latency_warn env ?c l) (ext_do (e_calc_global_load_tick env ?c) k)
            else ext_do (e_calc_global_load_tick env ?c) k))) = Some k'"
      using assms(2) unfolding scheduler_tick_def Let_def if_not_P[OF assms(1)] bind_Some_iff by blast
    obtain lat k3 where k3: "(if e_latency_warn env then cpu_resched_latency env ?c k2 else (0, k2)) = (lat, k3)"
      by fastforce
    have "k3 = (if e_latency_warn env then snd (cpu_resched_latency env ?c k2) else k2)"
      using k3 by (cases "e_latency_warn env") auto
    then have "leaves_lottery k2 k3" by (simp add: leaves_defs cpu_resched_latency_frame)
    then have "leaves_lottery k2 k'" using rest unfolding k3 prod.case by auto
    with f show thesis by (rule that)
  qed
  have "leaves_lottery k ?k1" by simp
  from leaves_trans[OF leaves_trans[OF this task_tick_leaves[OF k2]] k'] show ?thesis .
qed

end

section \<open>The transition system\<close>

inductive ltr_step :: "('x, 'l, 'm) fork_env_scheme \<Rightarrow> ('x, 'l) kernel \<Rightarrow> ('x, 'l) kernel \<Rightarrow> bool"
  for env where
  Wake: "t_class (tsk k p) = Lottery_class \<Longrightarrow> task_cpu k p = k_this_cpu k \<Longrightarrow>
    try_to_wake_up env p state fl k = Some (b, k') \<Longrightarrow> ltr_step env k k'"
| New: "t_class (tsk k p) = Lottery_class \<Longrightarrow> task_cpu k p = k_this_cpu k \<Longrightarrow>
    \<not> task_on_rq_queued k p \<Longrightarrow> wake_up_new_task env p k = Some k' \<Longrightarrow> ltr_step env k k'"
| Check: "t_class (tsk k p) = Lottery_class \<Longrightarrow>
    check_preempt_curr env (k_this_cpu k) p fl k = Some k' \<Longrightarrow> ltr_step env k k'"
| Tick: "scheduler_tick env k = Some k' \<Longrightarrow> ltr_step env k k'"
| Switch: "schedule_once env mode k = Some k' \<Longrightarrow> ltr_step env k k'"
| Others: "leaves_lottery k k' \<Longrightarrow> ltr_step env k k'"

inductive ltr_reachable :: "('x, 'l, 'm) fork_env_scheme \<Rightarrow> ('x, 'l) kernel \<Rightarrow> ('x, 'l) kernel \<Rightarrow> bool"
  for env k0 where
  Start: "ltr_reachable env k0 k0"
| Step: "ltr_reachable env k0 k \<Longrightarrow> ltr_step env k k' \<Longrightarrow> ltr_reachable env k0 k'"

lemma inv_need_resched:
  fixes k k' :: "('x, 'l) kernel"
  assumes "lottery_inv dll k" and "k_links k' = k_links k" and "k_this_cpu k' = k_this_cpu k"
    and "\<And>d. rq_ltr (cpu_rq k' d) = rq_ltr (cpu_rq k d)" and "current_task k' = current_task k"
    and t: "\<And>q. \<exists>b. tsk k' q = (tsk k q)\<lparr>t_need_resched := b\<rparr>"
  shows "lottery_inv dll k'"
proof -
  have f: "t_class (tsk k' q) = t_class (tsk k q)" "t_on_rq (tsk k' q) = t_on_rq (tsk k q)"
    "t_ltr (tsk k' q) = t_ltr (tsk k q)" for q
    using t[of q] by auto
  then have "keeps_lottery k k'" using assms(2-4) by (simp add: keeps_lottery_def queued_lottery_def)
  with assms(1,5) f show ?thesis
    using queue_agrees_keeps by (fastforce simp: lottery_inv_def queued_lottery_def)
qed

text \<open>A wakeup adds its task to the queued ones.\<close>

lemma inv_woken:
  assumes "lottery_inv dll k" and "queue_agrees dll ps k" and "woken c p k k'"
    and "t_class (tsk k p) = Lottery_class" and "c = k_this_cpu k"
    and "ltr_queue dll c k' qs" and "set qs = insert p (set ps)"
  shows "lottery_inv dll k'"
proof -
  have ql: "queued_lottery k' q \<longleftrightarrow> q = p \<or> queued_lottery k q" for q
    using assms(3,4) by (cases "q = p") (simp_all add: queued_lottery_def woken_def)
  have cur: "current_task k' = current_task k" "k_this_cpu k' = k_this_cpu k"
    "t_class (tsk k' q) = t_class (tsk k q)" for q
    using assms(3) by (simp_all add: woken_def current_task_def)
  have "queue_agrees dll qs k'"
    using assms(2,5,6,7) ql cur(2) by (auto simp: queue_agrees_def)
  with assms(1) ql cur show ?thesis by (auto simp: lottery_inv_def)
qed

lemma inv_stats_state:
  assumes "lottery_inv dll k" and "stats_only k k1"
    and "stats_only (if b then upd_task p (\<lambda>t. t\<lparr>t_state := s\<rparr>) k1 else k1) k'"
  shows "lottery_inv dll k'"
proof -
  note f1 = stats_only_fields[OF assms(2)] and f2 = stats_only_fields[OF assms(3)]
  have f: "t_class (tsk k' q) = t_class (tsk k q)" "t_on_rq (tsk k' q) = t_on_rq (tsk k q)"
    "t_ltr (tsk k' q) = t_ltr (tsk k q)" for q
    using f1(1-3)[of q] f2(1-3)[of q] by (simp_all split: if_splits)
  have cur: "current_task k' = current_task k" "k_this_cpu k' = k_this_cpu k"
    using f1(11,12) f2(11,12) by (simp_all add: current_task_def split: if_splits)
  have "k_links k' = k_links k" "\<forall>d. rq_ltr (cpu_rq k' d) = rq_ltr (cpu_rq k d)"
    using assms(2,3) by (simp_all add: stats_only_def split: if_splits)
  then have kl: "keeps_lottery k k'" using f cur(2) by (simp add: keeps_lottery_def queued_lottery_def)
  have "queued_lottery k' q = queued_lottery k q" for q using f by (simp add: queued_lottery_def)
  with assms(1) cur(1) f(1) queue_agrees_keeps[OF kl] show ?thesis by (auto simp: lottery_inv_def)
qed

lemma wake_keeps_inv:
  assumes "linux_list (e_list env) dll" and "\<not> e_smp env" and "lottery_inv dll k"
    and "t_class (tsk k p) = Lottery_class" and "task_cpu k p = k_this_cpu k"
    and "try_to_wake_up env p state fl k = Some (b, k')"
  shows "lottery_inv dll k'"
proof -
  obtain ps where ps: "queue_agrees dll ps k" using assms(3) by (auto simp: lottery_inv_def)
  have q: "ltr_queue dll (k_this_cpu k) k ps" and mem: "p \<in> set ps \<longleftrightarrow> task_on_rq_queued k p"
    using ps assms(4) by (simp_all add: queue_agrees_def queued_lottery_def task_on_rq_queued_def)
  consider "\<not> has_flag (t_state (tsk k p)) state \<or> p = current_task k"
    | "has_flag (t_state (tsk k p)) state" "p \<noteq> current_task k" "task_on_rq_queued k p"
    | "has_flag (t_state (tsk k p)) state" "p \<noteq> current_task k" "\<not> task_on_rq_queued k p" by blast
  then show ?thesis
  proof cases
    case 1
    obtain s k1 k2 where k2: "try_to_wake_up env p state fl k = Some (s, k2)" "stats_only k k1"
      "stats_only (if has_flag (t_state (tsk k p)) state
           then upd_task p (\<lambda>t. t\<lparr>t_state := TASK_RUNNING\<rparr>) k1 else k1) k2"
      by (rule wake_up_no_match[OF 1, of env fl]) (rule that)
    have "k' = k2" using assms(6) k2(1) by simp
    with inv_stats_state[OF assms(3) k2(2,3)] show ?thesis by simp
  next
    case 2
    obtain k2 where k2: "try_to_wake_up env p state fl k = Some (True, k2)"
      "\<And>dll d ps. ltr_queue dll d k2 ps \<longleftrightarrow> ltr_queue dll d k ps" "woken (k_this_cpu k) p k k2"
      by (rule wake_up_runnable[OF assms(5)[symmetric] assms(4) 2(2,3,1), of env fl]) (rule that)
    have "k' = k2" using assms(6) k2(1) by simp
    with inv_woken[OF assms(3) ps k2(3) assms(4) refl, of ps] k2(2) q mem 2(3) show ?thesis by auto
  next
    case 3
    have "p \<notin> set ps" using mem 3(3) by simp
    from wake_up_enqueues[OF assms(1,2) assms(5)[symmetric] q this assms(4) 3(2,3,1), of fl]
    obtain k2 where k2: "try_to_wake_up env p state fl k = Some (True, k2)"
      "ltr_queue dll (k_this_cpu k) k2 (ps @ [p])" "woken (k_this_cpu k) p k k2" by blast
    have "k' = k2" using assms(6) k2(1) by simp
    with inv_woken[OF assms(3) ps k2(3) assms(4) refl k2(2)] show ?thesis by simp
  qed
qed

lemma new_keeps_inv:
  assumes "linux_list (e_list env) dll" and "\<not> e_smp env" and "lottery_inv dll k"
    and "t_class (tsk k p) = Lottery_class" and "task_cpu k p = k_this_cpu k"
    and "\<not> task_on_rq_queued k p" and "wake_up_new_task env p k = Some k'"
  shows "lottery_inv dll k'"
proof -
  obtain ps where ps: "queue_agrees dll ps k" using assms(3) by (auto simp: lottery_inv_def)
  have q: "ltr_queue dll (k_this_cpu k) k ps" "p \<notin> set ps"
    using ps assms(6) by (simp_all add: queue_agrees_def queued_lottery_def task_on_rq_queued_def)
  obtain k2 where k2: "wake_up_new_task env p k = Some k2"
    "ltr_queue dll (k_this_cpu k) k2 (ps @ [p])" "woken (k_this_cpu k) p k k2"
    by (rule wake_up_new_lottery[OF assms(1,2) assms(5)[symmetric] q assms(4)]) (rule that)
  have "k' = k2" using assms(7) k2(1) by simp
  with inv_woken[OF assms(3) ps k2(3) assms(4) refl k2(2)] show ?thesis by simp
qed

lemma step_keeps_inv:
  assumes "linux_list (e_list env) dll" and "other_classes env" and "\<not> e_smp env"
    and "ltr_step env k k'" and "lottery_inv dll k"
  shows "lottery_inv dll k'"
  using assms(4,5)
proof (cases rule: ltr_step.cases)
  case (Wake p state fl b)
  then show ?thesis by (rule wake_keeps_inv[OF assms(1,3,5)])
next
  case (New p)
  then show ?thesis by (rule new_keeps_inv[OF assms(1,3,5)])
next
  case (Check p fl)
  obtain k1 where k1: "check_preempt_curr env (k_this_cpu k) p fl k = Some k1"
    "k_links k1 = k_links k" "\<And>d. rq_ltr (cpu_rq k1 d) = rq_ltr (cpu_rq k d)"
    "\<And>q. \<exists>b. tsk k1 q = (tsk k q)\<lparr>t_need_resched := b\<rparr>"
    "k_this_cpu k1 = k_this_cpu k" "\<And>d. rq_curr (cpu_rq k1 d) = rq_curr (cpu_rq k d)"
    by (rule check_preempt_lottery[OF Check(1), of env "k_this_cpu k" fl]) (rule that)
  have kk: "k1 = k'" using k1(1) Check(2) by simp
  have "current_task k1 = current_task k" using k1(5,6) by (simp add: current_task_def)
  from inv_need_resched[OF assms(5) k1(2,5,3) this k1(4)] show ?thesis unfolding kk .
next
  case Tick
  show ?thesis by (rule inv_leaves[OF assms(5) other_classes.scheduler_tick_leaves[OF assms(2,3) Tick]])
next
  case (Switch mode)
  show ?thesis by (rule other_classes.schedule_keeps_inv[OF assms(2,1,3,5) Switch])
next
  case Others
  show ?thesis by (rule inv_leaves[OF assms(5) Others])
qed

text \<open>C1: In every state a UP kernel can reach by wakeups, new tasks and preemption checks of lottery
  tasks, by ticks and passes of the scheduler whatever class the running task is of (blocking,
  preempted, dead, idle), and by work that leaves the lottery tasks, the running task and the
  tasks' classes alone, the lottery queue holds exactly the lottery tasks that are marked queued,
  its counter and its total agree with them, and a running lottery task is in the queue. The hooks
  of the other classes are assumed to leave the lottery tasks alone and to pick tasks of their own
  class; a task that changes its class is no step.\<close>

theorem lottery_inv_reachable:
  assumes "linux_list (e_list env) dll" and "other_classes env" and "\<not> e_smp env"
    and "lottery_inv dll k0" and "ltr_reachable env k0 k"
  shows "\<exists>ps. set ps = {p. t_class (tsk k p) = Lottery_class \<and> t_on_rq (tsk k p) = TASK_ON_RQ_QUEUED} \<and>
    distinct ps \<and> ltr_queue dll (k_this_cpu k) k ps \<and>
    (t_class (tsk k (current_task k)) = Lottery_class \<longrightarrow> current_task k \<in> set ps)"
proof -
  have "lottery_inv dll k" using assms(5)
  proof induction
    case Start
    show ?case by (rule assms(4))
  next
    case (Step k k')
    show ?case by (rule step_keeps_inv[OF assms(1-3) Step.hyps(2) Step.IH])
  qed
  then obtain ps where ps: "queue_agrees dll ps k"
    "t_class (tsk k (current_task k)) = Lottery_class \<longrightarrow> queued_lottery k (current_task k)"
    by (auto simp: lottery_inv_def)
  moreover have "distinct ps"
    using lottery_rq.queue_distinct[OF lottery_rq.intro[OF assms(1)]] ps(1)
    by (auto simp: queue_agrees_def)
  ultimately show ?thesis by (auto simp: queue_agrees_def queued_lottery_def)
qed

lemma boot0_inv: "lottery_inv heap_dll boot0"
proof -
  have "{p. queued_lottery boot0 p} = {}"
    by (auto simp: queued_lottery_def boot0_def init_ltr_rq_def kernel0_def task0_def
        TASK_ON_RQ_QUEUED_def)
  moreover have "k_this_cpu boot0 = 0" "current_task boot0 = 0" "t_class (tsk boot0 0) = Idle_class"
    by (simp_all add: boot0_def init_ltr_rq_def kernel0_def rq0_def current_task_def upd_ltr_def)
  ultimately show ?thesis using boot0_queue by (auto simp: lottery_inv_def queue_agrees_def)
qed

text \<open>Task 7 sleeps, and is woken up on the empty queue.\<close>

definition asleep0 :: "(unit, list_heap) kernel" where
  "asleep0 = upd_task 7 (\<lambda>t. t\<lparr>t_state := TASK_INTERRUPTIBLE\<rparr>) boot0"

lemma asleep0_facts:
  "lottery_inv heap_dll asleep0" "ltr_queue heap_dll 0 asleep0 []" "k_this_cpu asleep0 = 0"
  "t_class (tsk asleep0 7) = Lottery_class" "task_cpu asleep0 7 = 0" "current_task asleep0 = 0"
  "\<not> task_on_rq_queued asleep0 7" "has_flag (t_state (tsk asleep0 7)) TASK_NORMAL"
  "t_class (tsk asleep0 0) = Idle_class" "\<not> t_contributes_to_load (tsk asleep0 7)"
proof -
  have "stats_only boot0 boot0" by (rule stats_only_refl)
  from inv_stats_state[OF boot0_inv this, of True 7 TASK_INTERRUPTIBLE]
  show "lottery_inv heap_dll asleep0" by (simp add: asleep0_def stats_only_refl)
  show "ltr_queue heap_dll 0 asleep0 []" using boot0_queue by (simp add: asleep0_def ltr_queue_upd_task)
qed (simp_all add: asleep0_def boot0_def init_ltr_rq_def kernel0_def task0_def rq0_def task_cpu_def
    current_task_def task_on_rq_queued_def TASK_ON_RQ_QUEUED_def has_flag_def task_state_defs upd_ltr_def)

theorem lottery_inv_reachable_witness:
  "\<exists>k ps. wake_up_process system0 7 asleep0 = Some (True, k) \<and> ltr_queue heap_dll 0 k ps \<and>
     set ps = {p. t_class (tsk k p) = Lottery_class \<and> t_on_rq (tsk k p) = TASK_ON_RQ_QUEUED}"
proof -
  have up: "\<not> e_smp system0" by (rule system0_env(2))
  have cur: "7 \<noteq> current_task asleep0" "7 \<notin> set []" by (simp_all add: asleep0_facts)
  from wake_up_enqueues[OF linux_list_system0 up asleep0_facts(5)[symmetric] asleep0_facts(2) cur(2)
      asleep0_facts(4) cur(1) asleep0_facts(7,8), of 0]
  obtain k where k: "try_to_wake_up system0 7 TASK_NORMAL 0 asleep0 = Some (True, k)"
    "woken 0 7 asleep0 k" by blast
  have "ltr_step system0 asleep0 k"
    using k(1) asleep0_facts(3-5) by (intro ltr_step.Wake[of asleep0 7]) simp_all
  then have "ltr_reachable system0 asleep0 k" by (rule ltr_reachable.Step[OF ltr_reachable.Start])
  from lottery_inv_reachable[OF linux_list_system0 machine_classes.other_classes_axioms up
      asleep0_facts(1) this]
  show ?thesis using k asleep0_facts(3) by (auto simp: wake_up_process_def woken_def)
qed

end
