(* ===== verification/Wakeup_Props.thy ===== *)
theory Wakeup_Props
  imports Wakeup_Lottery Schedule_Lottery Full_Machine
begin

text \<open>
  Properties of the wakeup of lottery tasks: what \<open>try_to_wake_up\<close> does on every branch of a UP
  kernel, the balance of the load counters over a sleep, the remote wakeups of an SMP kernel, and
  the oops of an SMP wakeup that has to choose a CPU.
\<close>

section \<open>The wakeup on UP\<close>

text \<open>C11: On a UP kernel \<open>try_to_wake_up\<close> of a lottery task returns whether its state matched
  the mask. A task that did not match keeps its state and its place; one that matched is running
  afterwards, and, unless it is the current task, is queued: where it was if it still was queued, at
  the tail otherwise. It makes a current task of another class reschedule and no one else.\<close>

theorem wakeup_lottery:
  assumes "linux_list (e_list env) dll" and "\<not> e_smp env" and "\<not> e_preempt_rt (wake_of env)"
    and "c = task_cpu k p" and "ltr_queue dll c k ps" and "p \<in> set ps \<longleftrightarrow> task_on_rq_queued k p"
    and "t_class (tsk k p) = Lottery_class" and "hit \<longleftrightarrow> has_flag (t_state (tsk k p)) state"
    and "enq \<longleftrightarrow> hit \<and> p \<noteq> current_task k"
  shows "\<exists>k'. try_to_wake_up env p state fl k = Some (hit, k') \<and>
    t_state (tsk k' p) = (if hit then TASK_RUNNING else t_state (tsk k p)) \<and>
    t_on_rq (tsk k' p) = (if enq then TASK_ON_RQ_QUEUED else t_on_rq (tsk k p)) \<and>
    ltr_queue dll c k' (if enq \<and> p \<notin> set ps then ps @ [p] else ps) \<and>
    (\<forall>q. t_need_resched (tsk k' q) \<longleftrightarrow> t_need_resched (tsk k q) \<or>
       (enq \<and> q = rq_curr (cpu_rq k c) \<and> t_class (tsk k q) \<noteq> Lottery_class))"
proof -
  consider "\<not> enq" | "enq" "task_on_rq_queued k p" | "enq" "\<not> task_on_rq_queued k p" by blast
  then show ?thesis
  proof cases
    case 1
    then have "\<not> has_flag (t_state (tsk k p)) state \<or> p = current_task k" using assms(8,9) by blast
    then obtain s k1 k2 where k2: "try_to_wake_up env p state fl k = Some (s, k2)" "stats_only k k1"
      "stats_only (if has_flag (t_state (tsk k p)) state
           then upd_task p (\<lambda>t. t\<lparr>t_state := TASK_RUNNING\<rparr>) k1 else k1) k2"
      by (rule wake_up_no_match[of k p state env fl]) (rule that)
    have s: "s = hit" using k2(1) assms(3,8)
      by (auto simp: try_to_wake_up_def ttwu_state_match_def Let_def bind_Some_iff split: if_splits)
    have q: "ltr_queue dll c k2 ps"
      using stats_only_queue[OF k2(3)] stats_only_queue[OF k2(2)] assms(5)
      by (simp add: ltr_queue_upd_task)
    show ?thesis
      using 1 k2(1) q s assms(8) stats_only_fields(2,5,7)[OF k2(2)]
        stats_only_fields(2,5,7)[OF k2(3)] by (intro exI[of _ k2]) (auto split: if_splits)
  next
    case 2
    then have h: "has_flag (t_state (tsk k p)) state" "p \<noteq> current_task k" using assms(8,9) by auto
    obtain k2 where k2: "try_to_wake_up env p state fl k = Some (True, k2)"
      "\<And>dll d ps. ltr_queue dll d k2 ps \<longleftrightarrow> ltr_queue dll d k ps" "woken c p k k2"
      by (rule wake_up_runnable[OF assms(4,7) h(2) 2(2) h(1), of env fl]) (rule that)
    with 2 assms(5,6,8,9) show ?thesis
      by (intro exI[of _ k2]) (simp add: woken_def wake_flag_def)
  next
    case 3
    then have h: "has_flag (t_state (tsk k p)) state" "p \<noteq> current_task k" "p \<notin> set ps"
      using assms(6,8,9) by auto
    from wake_up_enqueues[OF assms(1,2,4,5) h(3) assms(7) h(2) 3(2) h(1), of fl]
    obtain k2 where k2: "try_to_wake_up env p state fl k = Some (True, k2)"
      "ltr_queue dll c k2 (ps @ [p])" "woken c p k k2" by blast
    with 3 h assms(8,9) show ?thesis
      by (intro exI[of _ k2]) (simp add: woken_def wake_flag_def)
  qed
qed

definition napper0 :: "(unit, list_heap) kernel" where
  "napper0 = upd_task 7 (\<lambda>t. t\<lparr>t_state := TASK_INTERRUPTIBLE\<rparr>) trio0"

lemma napper0_facts:
  "ltr_queue heap_dll 0 napper0 [1, 2, 3]" "0 = task_cpu napper0 7" "current_task napper0 = rq_curr (cpu_rq trio0 0)"
  "t_class (tsk napper0 7) = Lottery_class" "\<not> task_on_rq_queued napper0 7"
  "has_flag (t_state (tsk napper0 7)) TASK_NORMAL"
proof -
  show "ltr_queue heap_dll 0 napper0 [1, 2, 3]"
    using trio0_run(2) by (simp add: napper0_def ltr_queue_upd_task)
qed (simp_all add: napper0_def kernel0_def task0_def task_cpu_def current_task_def
    task_on_rq_queued_def TASK_ON_RQ_QUEUED_def has_flag_def task_state_defs)

lemma trio0_curr: "rq_curr (cpu_rq trio0 0) = 0"
  using ltr_frameD(4)[OF lottery_run_ltr_frame[OF trio0_run(1)], of 0]
  by (simp add: boot0_def init_ltr_rq_def kernel0_def rq0_def upd_ltr_def)

theorem wakeup_lottery_witness:
  "\<exists>k'. try_to_wake_up fork0 7 TASK_NORMAL 0 napper0 = Some (True, k') \<and>
     ltr_queue heap_dll 0 k' [1, 2, 3, 7] \<and> t_need_resched (tsk k' 0)"
proof -
  have c0: "rq_curr (cpu_rq napper0 0) = 0" "t_class (tsk napper0 0) = Idle_class"
    "current_task napper0 = 0" using trio0_curr napper0_facts(3)
    by (simp_all add: napper0_def kernel0_def)
  have env: "\<not> e_smp fork0" "\<not> e_preempt_rt (wake_of fork0)" by (simp_all add: fork0_env)
  have "7 \<in> set [1, 2, 3 :: tid] \<longleftrightarrow> task_on_rq_queued napper0 7"
    "True \<longleftrightarrow> has_flag (t_state (tsk napper0 7)) TASK_NORMAL"
    "True \<longleftrightarrow> True \<and> 7 \<noteq> current_task napper0"
    using napper0_facts c0(3) by simp_all
  from wakeup_lottery[OF linux_list_fork0 env napper0_facts(2,1) this(1) napper0_facts(4) this(2,3), of 0]
  show ?thesis using c0 by auto
qed

section \<open>Sleep and wakeup\<close>

text \<open>C22: On a UP kernel a lottery task that blocks, with no signal pending that keeps it from
  sleeping, and is woken up later, while another task runs, leaves the counters of
  uninterruptible and of I/O-waiting tasks of its runqueue as they were before it slept, and comes
  back at the tail of the queue.\<close>

theorem sleep_wakeup_balance:
  assumes "linux_list (e_list env) dll" and "\<not> e_smp env" and "c = task_cpu k p"
    and "c = k_this_cpu k" and "ltr_queue dll c k ps" and "p \<in> set ps" and "n \<noteq> p"
    and "t_class (tsk k p) = Lottery_class" and "\<not> e_signal_pending_state env st p k"
    and "has_flag (t_state (tsk k p)) state"
  shows "\<exists>k1 k2. schedule_block env c p st k = Some k1 \<and>
    try_to_wake_up env p state fl (upd_rq c (\<lambda>r. r\<lparr>rq_curr := n\<rparr>) k1) = Some (True, k2) \<and>
    ltr_queue dll c k2 (remove1 p ps @ [p]) \<and>
    rq_nr_uninterruptible (cpu_rq k2 c) = rq_nr_uninterruptible (cpu_rq k c) \<and>
    rq_nr_iowait (cpu_rq k2 c) = rq_nr_iowait (cpu_rq k c)"
proof -
  obtain k1 where k1: "schedule_block env c p st k = Some k1" "ltr_queue dll c k1 (remove1 p ps)"
    "before_pick k k1" "t_on_rq (tsk k1 p) = 0" "sleep_counts c p k k1"
    using schedule_block_counts[OF assms(1,5,6,8,9)] by blast
  let ?k = "upd_rq c (\<lambda>r. r\<lparr>rq_curr := n\<rparr>) k1"
  have dist: "distinct ps" using lottery_rq.queue_distinct[OF lottery_rq.intro[OF assms(1)] assms(5)] .
  have pre: "c = task_cpu ?k p" "ltr_queue dll c ?k (remove1 p ps)" "p \<notin> set (remove1 p ps)"
    "t_class (tsk ?k p) = Lottery_class" "p \<noteq> current_task ?k" "\<not> task_on_rq_queued ?k p"
    "has_flag (t_state (tsk ?k p)) state"
    using k1(2-5) assms(3,4,7,8,10) dist
    by (simp_all add: task_cpu_def sleep_counts_def before_pick_def current_task_def
        task_on_rq_queued_def TASK_ON_RQ_QUEUED_def ltr_queue_upd_rq)
  from wake_up_enqueues[OF assms(1,2) pre, of fl]
  obtain k2 where k2: "try_to_wake_up env p state fl ?k = Some (True, k2)"
    "ltr_queue dll c k2 (remove1 p ps @ [p])"
    "rq_nr_uninterruptible (cpu_rq k2 c) =
       rq_nr_uninterruptible (cpu_rq ?k c) - of_bool (t_contributes_to_load (tsk ?k p))"
    "rq_nr_iowait (cpu_rq k2 c) = rq_nr_iowait (cpu_rq ?k c) - of_bool (t_in_iowait (tsk ?k p))"
    by metis
  with k1(1,5) show ?thesis by (intro exI[of _ k1] exI[of _ k2]) (simp add: sleep_counts_def)
qed

definition drowsy0 :: "(unit, list_heap) kernel" where
  "drowsy0 = upd_task 1 (\<lambda>t. t\<lparr>t_state := TASK_UNINTERRUPTIBLE, t_in_iowait := True\<rparr>) trio0"

theorem sleep_wakeup_balance_witness:
  "\<exists>k1 k2. schedule_block fork0 0 1 TASK_UNINTERRUPTIBLE drowsy0 = Some k1 \<and>
     try_to_wake_up fork0 1 TASK_NORMAL 0 (upd_rq 0 (\<lambda>r. r\<lparr>rq_curr := 2\<rparr>) k1) = Some (True, k2) \<and>
     ltr_queue heap_dll 0 k2 [2, 3, 1]"
proof -
  have d: "0 = task_cpu drowsy0 1" "0 = k_this_cpu drowsy0" "(2 :: tid) \<noteq> 1"
    "t_class (tsk drowsy0 1) = Lottery_class" "has_flag (t_state (tsk drowsy0 1)) TASK_NORMAL"
    by (simp_all add: drowsy0_def kernel0_def task0_def task_cpu_def has_flag_def task_state_defs)
  have q: "ltr_queue heap_dll 0 drowsy0 [1, 2, 3]"
    using trio0_run(2) by (simp add: drowsy0_def ltr_queue_upd_task)
  have up: "\<not> e_smp fork0" and sig: "\<not> e_signal_pending_state fork0 TASK_UNINTERRUPTIBLE 1 drowsy0"
    by (simp_all add: fork0_env) (simp add: fork_machine_defs)
  from sleep_wakeup_balance[OF linux_list_fork0 up d(1,2) q _ d(3,4) sig d(5), of 0]
  show ?thesis by auto
qed

section \<open>Remote wakeups\<close>

lemma ttwu_pending_loop_lottery:
  assumes "linux_list (e_list env) dll"
  shows "\<lbrakk>ltr_queue dll c k ps; distinct (ps @ ts);
     \<forall>p \<in> set ts. t_class (tsk k p) = Lottery_class \<and> t_cpu (tsk k p) = c \<and> \<not> t_on_cpu (tsk k p)\<rbrakk> \<Longrightarrow>
   \<exists>k'. ttwu_pending_loop env c ts k = Some k' \<and> ltr_queue dll c k' (ps @ ts) \<and>
     (\<forall>p \<in> set ts. t_state (tsk k' p) = TASK_RUNNING \<and> t_on_rq (tsk k' p) = TASK_ON_RQ_QUEUED) \<and>
     (\<forall>q. q \<notin> set ts \<longrightarrow> t_state (tsk k' q) = t_state (tsk k q) \<and> t_on_rq (tsk k' q) = t_on_rq (tsk k q))"
proof (induction ts arbitrary: k ps)
  case Nil
  then show ?case by simp
next
  case (Cons p ts)
  then have p: "p \<notin> set ps" "t_class (tsk k p) = Lottery_class" "task_cpu k p = c" "\<not> t_on_cpu (tsk k p)"
    by (simp_all add: task_cpu_def)
  let ?fl = "if t_remote_wakeup (tsk k p) then WF_MIGRATED else 0"
  from ttwu_do_activate_lottery[OF assms Cons.prems(1) p(1,2), of ?fl]
  obtain k1 where k1: "ttwu_do_activate env c p ?fl k = Some k1" "ltr_queue dll c k1 (ps @ [p])"
    "woken c p k k1" by blast
  have "\<forall>q \<in> set ts. t_class (tsk k1 q) = Lottery_class \<and> t_cpu (tsk k1 q) = c \<and> \<not> t_on_cpu (tsk k1 q)"
    using Cons.prems(3) k1(3) by (simp add: woken_def)
  moreover have "distinct ((ps @ [p]) @ ts)" using Cons.prems(2) by auto
  ultimately obtain k' where k': "ttwu_pending_loop env c ts k1 = Some k'"
    "ltr_queue dll c k' ((ps @ [p]) @ ts)"
    "\<forall>q \<in> set ts. t_state (tsk k' q) = TASK_RUNNING \<and> t_on_rq (tsk k' q) = TASK_ON_RQ_QUEUED"
    "\<forall>q. q \<notin> set ts \<longrightarrow> t_state (tsk k' q) = t_state (tsk k1 q) \<and> t_on_rq (tsk k' q) = t_on_rq (tsk k1 q)"
    using Cons.IH[OF k1(2)] by blast
  have "ttwu_pending_loop env c (p # ts) k = Some k'"
    using p(3,4) k1(1) k'(1) by simp
  moreover have "p \<notin> set ts" using Cons.prems(2) by simp
  ultimately show ?case using k' k1(3) by (intro exI[of _ k']) (simp add: woken_def)
qed

text \<open>C23: The wakeups that other CPUs left on the wake list of an SMP runqueue are all carried
  out, in the order of the list, when the CPU takes the call: every task of the list is appended to
  the lottery queue, running and marked queued, and no other task changes its state or place.\<close>

theorem pending_wakeups_delivered:
  assumes "linux_list (e_list env) dll" and "c = k_this_cpu k" and "ltr_queue dll c k ps"
    and "distinct (ps @ ts)"
    and "\<forall>p \<in> set ts. t_class (tsk k p) = Lottery_class \<and> t_cpu (tsk k p) = c \<and> \<not> t_on_cpu (tsk k p)"
  shows "\<exists>k'. sched_ttwu_pending env ts k = Some k' \<and> ltr_queue dll c k' (ps @ ts) \<and>
     (\<forall>p \<in> set ts. t_state (tsk k' p) = TASK_RUNNING \<and> t_on_rq (tsk k' p) = TASK_ON_RQ_QUEUED) \<and>
     (\<forall>q. q \<notin> set ts \<longrightarrow> t_state (tsk k' q) = t_state (tsk k q) \<and> t_on_rq (tsk k' q) = t_on_rq (tsk k q))"
proof (cases "ts = []")
  case True
  with assms(3) show ?thesis by (simp add: sched_ttwu_pending_def)
next
  case False
  let ?k = "update_rq_clock env c (upd_rq c (\<lambda>r. r\<lparr>rq_ttwu_pending := False\<rparr>) k)"
  have "ltr_queue dll c ?k ps" using assms(3) by (simp add: ltr_queue_upd_rq)
  from ttwu_pending_loop_lottery[OF assms(1) this assms(4)] assms(5) False show ?thesis
    by (simp add: sched_ttwu_pending_def assms(2) Let_def)
qed

theorem pending_wakeups_delivered_witness:
  "\<exists>k'. sched_ttwu_pending fork_smp0 [7, 5] trio0 = Some k' \<and> ltr_queue heap_dll 0 k' [1, 2, 3, 7, 5] \<and>
     t_on_rq (tsk k' 5) = TASK_ON_RQ_QUEUED"
proof -
  have "\<forall>p \<in> set [7, 5]. t_class (tsk trio0 p) = Lottery_class \<and> t_cpu (tsk trio0 p) = 0 \<and>
      \<not> t_on_cpu (tsk trio0 p)"
    by (simp add: kernel0_def task0_def)
  from pending_wakeups_delivered[OF linux_list_fork_smp0 _ trio0_run(2) _ this] show ?thesis by auto
qed

section \<open>The wakeup on SMP\<close>

text \<open>On an SMP kernel the wakeup of a sleeping lottery task that may run on more than one
  CPU is an oops: \<open>select_task_rq\<close> calls the class hook of that name, which is NULL.\<close>

theorem wakeup_smp_oops:
  assumes "e_smp env" and "t_class (tsk k p) = Lottery_class" and "p \<noteq> current_task k"
    and "has_flag (t_state (tsk k p)) state" and "t_on_rq (tsk k p) = 0" and "\<not> t_on_cpu (tsk k p)"
    and "1 < t_nr_cpus_allowed (tsk k p)" and "t_migration_disabled (tsk k p) = 0"
  shows "try_to_wake_up env p state fl k = None"
proof -
  let ?k1 = "warn_on ''ttwu_state_match''
    (e_debug_preempt (wake_of env) \<and> has_flag state TASK_RTLOCK_WAIT \<and> state \<noteq> TASK_RTLOCK_WAIT) k"
  obtain k1 where m: "ttwu_state_match env p state k = (True, True, k1)"
    "k_tasks k1 = k_tasks k" "current_task k1 = current_task k"
    using assms(4) by (intro that[of ?k1]) (simp_all add: ttwu_state_match_def current_task_def warn_on_def)
  have "ttwu_smp env p fl k1 = None"
    using assms m(2) by (simp add: ttwu_smp_def Let_def select_task_rq_def is_migration_disabled_def)
  then show ?thesis
    using assms(1,3,5) m(2,3) by (simp add: try_to_wake_up_def m(1))
qed

definition wide0 :: "(unit, list_heap) kernel" where
  "wide0 = upd_task 7 (\<lambda>t. t\<lparr>t_state := TASK_INTERRUPTIBLE, t_cpus_mask := {0, 1},
     t_nr_cpus_allowed := 2\<rparr>) kernel0"

theorem wakeup_smp_oops_witness: "wake_up_process fork_smp0 7 wide0 = None"
proof -
  have "t_class (tsk wide0 7) = Lottery_class" "7 \<noteq> current_task wide0"
    "has_flag (t_state (tsk wide0 7)) TASK_NORMAL" "t_on_rq (tsk wide0 7) = 0"
    "\<not> t_on_cpu (tsk wide0 7)" "1 < t_nr_cpus_allowed (tsk wide0 7)"
    "t_migration_disabled (tsk wide0 7) = 0"
    by (simp_all add: wide0_def kernel0_def task0_def rq0_def current_task_def has_flag_def task_state_defs)
  from wakeup_smp_oops[OF _ this, of fork_smp0 0] show ?thesis
    by (simp add: wake_up_process_def fork_smp0_env)
qed

end
