(* ===== verification/Fork_Props.thy ===== *)
theory Fork_Props
  imports Fork_Lottery Full_Machine
begin

text \<open>
  Properties of the fork: the child of a lottery task, the class a new task gets, and the oops of
  a fork that fails.
\<close>

section \<open>The child of a lottery task\<close>

text \<open>C10: On a UP kernel a fork by a lottery task, when the copies of the other subsystems succeed,
  makes a lottery task with five tickets and appends it, running, to the lottery queue. The
  reset-on-fork flag of the parent does not take the child out of the class: the child's static priority is the
  parent's, only a negative nice value is reset to 0. Without the
  flag the child starts with the parent's normal priority, not with a boosted one; with it, with the static priority
  just named. The tickets and classes of all other tasks stay.\<close>

theorem kernel_clone_lottery_child:
  assumes "linux_list (e_list env) dll" and "\<not> e_smp env" and "copies_succeed env args p"
    and "cur = current_task k" and "c = k_this_cpu k" and "p \<noteq> cur" and "ltr_queue dll c k ps"
    and "p \<notin> set ps" and "copy_process_checks env k (kc_flags args) = 0"
    and "\<not> has_flag (kc_flags args) CLONE_PIDFD" and "\<not> has_flag (kc_flags args) CLONE_VFORK"
    and "t_policy (tsk k cur) = SCHED_LOTTERY" and "t_cpu (tsk k cur) = c"
    and "100 \<le> t_static_prio (tsk k cur)" and "t_static_prio (tsk k cur) < 140"
  shows "\<exists>nr k'. kernel_clone env args k = Some (nr, k') \<and> ltr_queue dll c k' (ps @ [p]) \<and>
    t_class (tsk k' p) = Lottery_class \<and> t_policy (tsk k' p) = SCHED_LOTTERY \<and>
    tickets k' p = 5 \<and> t_state (tsk k' p) = TASK_RUNNING \<and> task_on_rq_queued k' p \<and>
    t_static_prio (tsk k' p) = (if t_reset_on_fork (tsk k cur) \<and> PRIO_TO_NICE (t_static_prio (tsk k cur)) < 0
       then NICE_TO_PRIO 0 else t_static_prio (tsk k cur)) \<and>
    t_prio (tsk k' p) = (if t_reset_on_fork (tsk k cur) then t_static_prio (tsk k' p)
       else t_normal_prio (tsk k cur)) \<and>
    (\<forall>q. q \<noteq> p \<longrightarrow> t_ltr (tsk k' q) = t_ltr (tsk k q) \<and> t_class (tsk k' q) = t_class (tsk k q))"
proof -
  let ?tr = "clone_trace env args k"
  obtain k1 where k1: "copy_process env ?tr args k = Some (Inr p, k1)"
    "k_links k1 = k_links k" "k_rqs k1 = k_rqs k" "k_this_cpu k1 = k_this_cpu k"
    "\<And>q. q \<noteq> p \<Longrightarrow> fate (tsk k1 q) = fate (tsk k q)"
    "t_policy (tsk k1 p) = SCHED_LOTTERY" "t_class (tsk k1 p) = Lottery_class"
    "\<not> t_reset_on_fork (tsk k1 p)" "t_on_rq (tsk k1 p) = 0" "t_cpu (tsk k1 p) = t_cpu (tsk k cur)"
    "t_prio (tsk k1 p) = (if t_reset_on_fork (tsk k cur)
           then max (NICE_TO_PRIO 0) (t_static_prio (tsk k cur)) else t_normal_prio (tsk k cur))"
    "t_static_prio (tsk k1 p) = (if t_reset_on_fork (tsk k cur)
           then max (NICE_TO_PRIO 0) (t_static_prio (tsk k cur)) else t_static_prio (tsk k cur))"
    by (rule copy_process_lottery[OF assms(3,6,4,2,9,12,14,15), of ?tr]) (rule that)
  let ?k2 = "upd_task p (\<lambda>t. t\<lparr>t_ltr := (t_ltr t)\<lparr>le_tickets := 5\<rparr>\<rparr>) k1"
  let ?nr = "e_pid_vnr (fork_of env) p ?k2"
  let ?k3 = "if has_flag (kc_flags args) CLONE_PARENT_SETTID
                     then ext_do (e_put_user (fork_of env) (kc_parent_tid args) ?nr) ?k2 else ?k2"
  have f: "q \<noteq> p \<Longrightarrow> t_ltr (tsk k1 q) = t_ltr (tsk k q) \<and> t_class (tsk k1 q) = t_class (tsk k q)" for q
    using k1(5)[of q] by (simp add: fate_def)
  have q3: "ltr_queue dll c ?k3 ps"
  proof -
    have "ltr_queue dll c ?k3 ps \<longleftrightarrow> ltr_queue dll c k ps"
      using k1(2,3) f assms(8) by (intro ltr_queue_cong) auto
    with assms(7) show ?thesis by simp
  qed
  have c3: "c = task_cpu ?k3 p" "t_class (tsk ?k3 p) = Lottery_class"
    using k1(7,10) assms(13) by (simp_all add: task_cpu_def)
  obtain k4 where k4: "wake_up_new_task env p ?k3 = Some k4" "ltr_queue dll c k4 (ps @ [p])"
    "woken c p ?k3 k4" "t_prio (tsk k4 p) = t_prio (tsk ?k3 p)" "t_static_prio (tsk k4 p) = t_static_prio (tsk ?k3 p)"
    by (rule wake_up_new_lottery[OF assms(1,2) c3(1) q3 assms(8) c3(2)]) (use that in blast)
  let ?k5 = "if ?tr \<noteq> No_event then ext_do (e_ptrace_event (fork_of env) ?tr p) k4 else k4"
  have "kernel_clone env args k = Some (?nr, ?k5)"
    unfolding kernel_clone_def Let_def k1(1) bind.bind_lunit prod.case sum.case
    using assms(10,11) k4(1) by (simp split del: if_split)
  moreover have "ltr_queue dll c ?k5 (ps @ [p])" using k4(2) by simp
  moreover have "t_class (tsk ?k5 p) = Lottery_class" "t_policy (tsk ?k5 p) = SCHED_LOTTERY"
    "tickets ?k5 p = 5" "t_state (tsk ?k5 p) = TASK_RUNNING" "task_on_rq_queued ?k5 p"
    "\<forall>q. q \<noteq> p \<longrightarrow> t_ltr (tsk ?k5 q) = t_ltr (tsk k q) \<and> t_class (tsk ?k5 q) = t_class (tsk k q)"
    using k4(3) k1(6,7) f by (simp_all add: woken_def task_on_rq_queued_def)
  moreover have "t_static_prio (tsk ?k5 p) = (if t_reset_on_fork (tsk k cur) \<and>
      PRIO_TO_NICE (t_static_prio (tsk k cur)) < 0 then NICE_TO_PRIO 0 else t_static_prio (tsk k cur))"
    "t_prio (tsk ?k5 p) = (if t_reset_on_fork (tsk k cur) then t_static_prio (tsk ?k5 p)
       else t_normal_prio (tsk k cur))"
    using k4(4,5) k1(11,12) by (simp_all add: PRIO_TO_NICE_def NICE_TO_PRIO_def max_def)
  ultimately show ?thesis by (intro exI conjI)
qed

text \<open>Task 1 runs and forks; the three tasks of the queue are joined by task 7.\<close>

definition parent0 :: "(unit, list_heap) kernel" where
  "parent0 = upd_task 1 (\<lambda>t. t\<lparr>t_reset_on_fork := True, t_static_prio := 110\<rparr>)
     (upd_rq 0 (\<lambda>r. r\<lparr>rq_curr := 1\<rparr>) trio0)"

lemma parent0_facts:
  "1 = current_task parent0" "0 = k_this_cpu parent0" "ltr_queue heap_dll 0 parent0 [1, 2, 3]"
  "t_policy (tsk parent0 1) = SCHED_LOTTERY" "t_cpu (tsk parent0 1) = 0"
  "100 \<le> t_static_prio (tsk parent0 1)" "t_static_prio (tsk parent0 1) < 140"
proof -
  show "ltr_queue heap_dll 0 parent0 [1, 2, 3]" using trio0_run(2)
    by (simp add: parent0_def ltr_queue_upd_rq ltr_queue_upd_task)
qed (simp_all add: parent0_def current_task_def kernel0_def task0_def)

lemma fork0_copies: "copies_succeed fork0 (kclone0\<lparr>kc_exit_signal := SIGCHLD\<rparr>) 7"
  by (simp add: copies_succeed_def fork_machine_defs)

theorem kernel_clone_lottery_child_witness:
  "\<exists>nr k'. sys_fork fork0 parent0 = Some (nr, k') \<and> ltr_queue heap_dll 0 k' [1, 2, 3, 7] \<and>
     t_class (tsk k' 7) = Lottery_class \<and> tickets k' 7 = 5 \<and> t_prio (tsk k' 7) = 120"
proof -
  have up: "\<not> e_smp fork0" and ne: "(7 :: tid) \<noteq> 1" "7 \<notin> set [1, 2, 3 :: tid]"
    by (simp_all add: fork0_env)
  have fl: "copy_process_checks fork0 parent0 (kc_flags (kclone0\<lparr>kc_exit_signal := SIGCHLD\<rparr>)) = 0"
    "\<not> has_flag (kc_flags (kclone0\<lparr>kc_exit_signal := SIGCHLD\<rparr>)) CLONE_PIDFD"
    "\<not> has_flag (kc_flags (kclone0\<lparr>kc_exit_signal := SIGCHLD\<rparr>)) CLONE_VFORK"
    by (simp_all add: copy_process_checks_def kclone0_def has_flag_def all_flags_def clone_flag_defs)
  from kernel_clone_lottery_child[OF linux_list_fork0 up fork0_copies parent0_facts(1,2) ne(1)
      parent0_facts(3) ne(2) fl parent0_facts(4-7)]
  show ?thesis by (auto simp: sys_fork_def parent0_def PRIO_TO_NICE_def NICE_TO_PRIO_def DEFAULT_PRIO_def)
qed

section \<open>The class of a new task\<close>

text \<open>\<open>sched_fork\<close> fails exactly for a child that would start as a deadline task, and then
  with \<open>-EAGAIN\<close>; otherwise the child's class follows its policy when that is the lottery's, and
  its priority when not. A reset of the policy on fork always leads to success.\<close>

theorem sched_fork_class:
  assumes "sched_fork env fl p k = Some (r, k')"
  shows "(r = 0 \<or> r = - EAGAIN) \<and>
    (r = - EAGAIN \<longleftrightarrow> t_policy (tsk k' p) \<noteq> SCHED_LOTTERY \<and> dl_prio (t_prio (tsk k' p))) \<and>
    (r = 0 \<longrightarrow> t_class (tsk k' p) =
       (if t_policy (tsk k' p) = SCHED_LOTTERY then Lottery_class
        else if rt_prio (t_prio (tsk k' p)) then Rt_class else Fair_class)) \<and>
    (r = 0 \<longrightarrow> t_state (tsk k' p) = TASK_NEW) \<and> \<not> t_reset_on_fork (tsk k' p)"
proof -
  let ?k1 = "sched_fork_init env fl p k"
  let ?k3 = "uclamp_fork env p (upd_task p (\<lambda>t. t\<lparr>t_state := TASK_NEW,
                               t_prio := t_normal_prio (tsk ?k1 (current_task ?k1))\<rparr>) ?k1)"
  obtain k4 where k4: "sched_reset_fork env p ?k3 = Some k4"
    and r: "(case fork_class (tsk k4 p) of None \<Rightarrow> Some (- EAGAIN, k4)
     | Some sc \<Rightarrow> let k = ext_do (e_init_entity (fork_of env) p) (upd_task p (\<lambda>t. t\<lparr>t_class := sc\<rparr>) k4)
         in Some (0, if e_smp env then upd_task p (\<lambda>t. t\<lparr>t_on_cpu := False\<rparr>) k else k)) = Some (r, k')"
    using assms unfolding sched_fork_def Let_def bind_Some_iff by blast
  have st: "t_state (tsk k4 p) = TASK_NEW" "\<not> t_reset_on_fork (tsk k4 p)"
    using k4 by (auto simp: sched_reset_fork_def set_load_weight_def Let_def bind_Some_iff
        uclamp_fork_frame split: if_splits prod.splits)
  show ?thesis
  proof (cases "fork_class (tsk k4 p)")
    case None
    then have "t_policy (tsk k4 p) \<noteq> SCHED_LOTTERY \<and> dl_prio (t_prio (tsk k4 p))"
      by (simp add: fork_class_def split: if_splits)
    with None r st show ?thesis by (auto simp: EAGAIN_def)
  next
    case (Some sc)
    then have "sc = (if t_policy (tsk k4 p) = SCHED_LOTTERY then Lottery_class
        else if rt_prio (t_prio (tsk k4 p)) then Rt_class else Fair_class)"
      "t_policy (tsk k4 p) = SCHED_LOTTERY \<or> \<not> dl_prio (t_prio (tsk k4 p))"
      by (auto simp: fork_class_def split: if_splits)
    moreover obtain k5 where k5: "k5 = upd_task p (\<lambda>t. t\<lparr>t_class := sc\<rparr>) k4"
      "r = 0" "k' = (if e_smp env then upd_task p (\<lambda>t. t\<lparr>t_on_cpu := False\<rparr>)
          (ext_do (e_init_entity (fork_of env) p) k5) else ext_do (e_init_entity (fork_of env) p) k5)"
      using r Some by (simp add: Let_def)
    then have "t_class (tsk k' p) = sc" "t_policy (tsk k' p) = t_policy (tsk k4 p)"
      "t_prio (tsk k' p) = t_prio (tsk k4 p)" "t_state (tsk k' p) = TASK_NEW"
      "\<not> t_reset_on_fork (tsk k' p)" using st by simp_all
    ultimately show ?thesis using k5(2) by (simp add: EAGAIN_def)
  qed
qed

theorem sched_fork_class_witness:
  "\<exists>k'. sched_fork fork0 0 7 kernel0 = Some (0, k') \<and> t_class (tsk k' 7) = Lottery_class"
proof -
  have p: "t_policy (tsk kernel0 7) = SCHED_LOTTERY" "100 \<le> t_static_prio (tsk kernel0 7)"
    "t_static_prio (tsk kernel0 7) < 140" "7 \<noteq> current_task kernel0"
    by (simp_all add: kernel0_def task0_def current_task_def rq0_def)
  obtain k' where k': "sched_fork fork0 0 7 kernel0 = Some (0, k')" "t_policy (tsk k' 7) = SCHED_LOTTERY"
    by (rule sched_fork_lottery[OF p, of fork0 0])
  with sched_fork_class[OF k'(1)] show ?thesis by auto
qed

section \<open>A fork that fails\<close>

text \<open>A \<open>clone\<close> that \<open>copy_process\<close> refuses is an oops, because \<open>kernel_clone\<close> writes the
  tickets through the error pointer before it tests it. An unprivileged caller can ask for it with
  any flags the first checks refuse, for instance \<open>CLONE_NEWNS | CLONE_FS\<close>.\<close>

theorem failed_clone_oops:
  assumes "\<not> (has_flag (kc_flags args) CLONE_PIDFD \<and> has_flag (kc_flags args) CLONE_PARENT_SETTID \<and>
      kc_pidfd args = kc_parent_tid args)"
    and "copy_process env (clone_trace env args k) args k = Some (Inl e, k1) \<or>
      copy_process_checks env k (kc_flags args) \<noteq> 0"
  shows "kernel_clone env args k = None"
proof -
  obtain e k1 where "copy_process env (clone_trace env args k) args k = Some (Inl e, k1)"
    using assms(2) by (auto simp: copy_process_def)
  then show ?thesis using assms(1) by (simp add: kernel_clone_def Let_def)
qed

theorem failed_clone_oops_witness:
  "sys_clone fork0 (ucast (CLONE_NEWNS OR CLONE_FS)) 0 0 0 0 kernel0 = None"
proof -
  let ?a = "kclone0\<lparr>kc_flags := CLONE_NEWNS OR CLONE_FS\<rparr>"
  have "\<not> (has_flag (kc_flags ?a) CLONE_PIDFD \<and> has_flag (kc_flags ?a) CLONE_PARENT_SETTID \<and>
      kc_pidfd ?a = kc_parent_tid ?a)" "copy_process_checks fork0 kernel0 (kc_flags ?a) \<noteq> 0"
    by (simp_all add: has_flag_def clone_flag_defs copy_process_checks_def all_flags_def EINVAL_def)
  then have "kernel_clone fork0 ?a kernel0 = None" by (intro failed_clone_oops disjI2)
  moreover have "kclone0\<lparr>kc_flags := clear_flag (ucast (ucast (CLONE_NEWNS OR CLONE_FS) :: u32)) CSIGNAL,
       kc_pidfd := 0, kc_child_tid := 0, kc_parent_tid := 0,
       kc_exit_signal := ucast (CLONE_NEWNS OR CLONE_FS) AND ucast CSIGNAL, kc_stack := 0, kc_tls := 0\<rparr> = ?a"
    by (simp add: kclone0_def clear_flag_def clone_flag_defs)
  ultimately show ?thesis by (simp only: sys_clone_def)
qed

end
