(* ===== verification/Task_Group_Props.thy ===== *)
theory Task_Group_Props
  imports Full_Machine Uclamp_Rq Prio_Props
begin

text \<open>
  Properties of the task groups: the walk with jumps visits the tree as the recursive traversal
  does, the links between groups stay consistent while groups come and go, and a lottery task that
  changes its group goes to the tail of its queue.
\<close>

section \<open>The walk of the group tree\<close>

text \<open>The traversal the walk stands for: \<open>down\<close> before the children, \<open>up\<close> after them, and the
  first error ends it.\<close>

fun visit_tree ::
    "('x, 'l) tg_visitor \<Rightarrow> ('x, 'l) tg_visitor \<Rightarrow> css_tree \<Rightarrow> ('x, 'l) kernel \<Rightarrow> int \<times> ('x, 'l) kernel"
  and visit_trees ::
    "('x, 'l) tg_visitor \<Rightarrow> ('x, 'l) tg_visitor \<Rightarrow> css_tree list \<Rightarrow> ('x, 'l) kernel \<Rightarrow>
     int \<times> ('x, 'l) kernel" where
  "visit_tree down up (Css g ts) k =
     (let (r, k) = down g k in
      if r \<noteq> 0 then (r, k)
      else let (r, k) = visit_trees down up ts k in if r \<noteq> 0 then (r, k) else up g k)"
| "visit_trees down up [] k = (0, k)"
| "visit_trees down up (t # ts) k =
     (let (r, k) = visit_tree down up t k in
      if r \<noteq> 0 then (r, k) else visit_trees down up ts k)"

text \<open>The links of the groups form the tree.\<close>

fun tg_tree :: "(tgid \<Rightarrow> task_group) \<Rightarrow> css_tree \<Rightarrow> bool" where
  "tg_tree m (Css g ts) \<longleftrightarrow> tg_children (m g) = map css_group ts \<and>
     (\<forall>t \<in> set ts. tg_parent (m (css_group t)) = Some g \<and> tg_tree m t)"

definition same_links :: "('x, 'l) kernel \<Rightarrow> ('x, 'l) kernel \<Rightarrow> bool" where
  "same_links k k' \<longleftrightarrow> (\<forall>g. tg_parent (k_tgs k' g) = tg_parent (k_tgs k g) \<and>
     tg_children (k_tgs k' g) = tg_children (k_tgs k g))"

definition keeps_links :: "('x, 'l) tg_visitor \<Rightarrow> bool" where
  "keeps_links v \<longleftrightarrow> (\<forall>g k. same_links k (snd (v g k)))"

lemma keeps_linksD: "keeps_links v \<Longrightarrow> v g k = (r, k') \<Longrightarrow> same_links k k'"
  by (metis keeps_links_def snd_conv)

lemma same_links_refl [simp]: "same_links k k"
  by (simp add: same_links_def)

lemma same_links_trans: "same_links k k1 \<Longrightarrow> same_links k1 k2 \<Longrightarrow> same_links k k2"
  by (simp add: same_links_def)

lemma tg_tree_links: "same_links k k' \<Longrightarrow> tg_tree (k_tgs k) t \<Longrightarrow> tg_tree (k_tgs k') t"
  by (induction t) (simp add: same_links_def)

lemma visit_keeps_links:
  "keeps_links down \<Longrightarrow> keeps_links up \<Longrightarrow> visit_tree down up t k = (r, k') \<Longrightarrow> same_links k k'"
  "keeps_links down \<Longrightarrow> keeps_links up \<Longrightarrow> visit_trees down up ts k = (r, k') \<Longrightarrow> same_links k k'"
proof (induction down up t k and down up ts k arbitrary: r k' and r k'
    rule: visit_tree_visit_trees.induct)
  case (1 down up g ts k)
  obtain r1 k1 where d: "down g k = (r1, k1)" by fastforce
  obtain r2 k2 where c: "visit_trees down up ts k1 = (r2, k2)" by fastforce
  have "r1 = 0 \<Longrightarrow> same_links k1 k2" using 1(1)[OF d[symmetric] refl _ 1(2,3) c] by simp
  moreover have "same_links k k1" using 1(2) d by (rule keeps_linksD)
  moreover have "up g k2 = (r, k') \<Longrightarrow> same_links k2 k'" using 1(3) by (rule keeps_linksD)
  ultimately show ?case using 1(4) d c by (auto split: if_splits intro: same_links_trans)
next
  case (3 down up t ts k)
  obtain r1 k1 where d: "visit_tree down up t k = (r1, k1)" by fastforce
  have "same_links k k1" using 3(1)[OF 3(3,4) d] .
  with 3 d show ?case by (auto split: if_splits intro: same_links_trans)
qed simp

lemma distinct_css_groups_roots:
  "distinct (concat (map css_groups ts)) \<Longrightarrow> distinct (map css_group ts)"
proof (induction ts)
  case (Cons t ts)
  have "css_group t \<notin> css_group ` set ts"
  proof
    assume "css_group t \<in> css_group ` set ts"
    then obtain u where "u \<in> set ts" "css_group t \<in> set (css_groups u)" by force
    moreover have "set (css_groups t) \<inter> set (concat (map css_groups ts)) = {}"
      using Cons.prems by simp
    ultimately show False using css_group_mem[of t] by (simp add: disjoint_iff)
  qed
  with Cons show ?case by simp
qed simp

text \<open>Where the walk goes on after a group that it has left.\<close>

definition walk_resume where
  "walk_resume n down up from g k =
     (if g = from then Some (0, k)
      else case tg_parent (k_tgs k g) of
        None \<Rightarrow> Some (0, k)
      | Some q \<Rightarrow> (case sibling_after g (tg_children (k_tgs k q)) of
          None \<Rightarrow> walk_tg_tree_from n down up from (Leave q) k
        | Some child \<Rightarrow> walk_tg_tree_from n down up from (Enter child) k))"

lemma sibling_after_pre:
  "c \<notin> set pre \<Longrightarrow> sibling_after c (pre @ c # cs) = (case cs of [] \<Rightarrow> None | d # _ \<Rightarrow> Some d)"
  by (induction pre) (auto split: list.splits)

abbreviation tree_size :: "css_tree \<Rightarrow> nat" where
  "tree_size t \<equiv> length (css_groups t)"

lemma walk_visits:
  "keeps_links down \<Longrightarrow> keeps_links up \<Longrightarrow>
      tg_tree (k_tgs k) t \<Longrightarrow> distinct (css_groups t) \<Longrightarrow> from \<notin> set (tl (css_groups t)) \<Longrightarrow>
      walk_tg_tree_from (2 * tree_size t + n) down up from (Enter (css_group t)) k =
        (let (r, k') = visit_tree down up t k in
         if r \<noteq> 0 then Some (r, k') else walk_resume n down up from (css_group t) k')"
  "keeps_links down \<Longrightarrow> keeps_links up \<Longrightarrow>
      ts \<noteq> [] \<Longrightarrow> tg_children (k_tgs k g) = pre @ map css_group ts \<Longrightarrow>
      \<forall>t \<in> set ts. tg_parent (k_tgs k (css_group t)) = Some g \<and> tg_tree (k_tgs k) t \<Longrightarrow>
      distinct (pre @ map css_group ts) \<Longrightarrow> distinct (concat (map css_groups ts)) \<Longrightarrow>
      from \<notin> set (concat (map css_groups ts)) \<Longrightarrow>
      walk_tg_tree_from (2 * length (concat (map css_groups ts)) + n) down up from
          (Enter (css_group (hd ts))) k =
        (let (r, k') = visit_trees down up ts k in
         if r \<noteq> 0 then Some (r, k') else walk_tg_tree_from n down up from (Leave g) k')"
proof (induction down up t k and down up ts k arbitrary: n and n pre g
    rule: visit_tree_visit_trees.induct)
  case (1 down up h ts k)
  obtain r1 k1 where d: "down h k = (r1, k1)" by fastforce
  obtain r2 k2 where c: "visit_trees down up ts k1 = (r2, k2)" by fastforce
  obtain r3 k3 where u: "up h k2 = (r3, k3)" by fastforce
  let ?m = "2 * length (concat (map css_groups ts))"
  have sz: "2 * tree_size (Css h ts) + n = Suc (?m + Suc n)" by simp
  have lk: "same_links k k1" using 1(2) d by (rule keeps_linksD)
  have ch: "tg_children (k_tgs k1 h) = map css_group ts"
    and sub: "\<forall>t \<in> set ts. tg_parent (k_tgs k1 (css_group t)) = Some h \<and> tg_tree (k_tgs k1) t"
    using 1(4) tg_tree_links[OF lk] lk[unfolded same_links_def] by auto
  show ?case
  proof (cases "r1 = 0")
    case False
    with d show ?thesis by (simp add: sz)
  next
    case True
    have "walk_tg_tree_from (?m + Suc n) down up from
        (case ts of [] \<Rightarrow> Leave h | t # _ \<Rightarrow> Enter (css_group t)) k1 =
      (if r2 \<noteq> 0 then Some (r2, k2) else walk_tg_tree_from (Suc n) down up from (Leave h) k2)"
    proof (cases ts)
      case Nil
      with c show ?thesis by simp
    next
      case (Cons t' ts')
      have dis: "distinct ([] @ map css_group ts)"
        using 1(5) by (simp add: distinct_css_groups_roots)
      have "walk_tg_tree_from (?m + Suc n) down up from (Enter (css_group (hd ts))) k1 =
        (let (r, k') = visit_trees down up ts k1 in
         if r \<noteq> 0 then Some (r, k') else walk_tg_tree_from (Suc n) down up from (Leave h) k')"
        by (rule 1(1)[OF d[symmetric] refl _ 1(2,3), where pre="[]"])
          (use True Cons ch sub dis 1(5,6) in auto)
      then show ?thesis unfolding c using Cons by simp
    qed
    then have "walk_tg_tree_from (Suc (?m + Suc n)) down up from (Enter h) k =
      (if r2 \<noteq> 0 then Some (r2, k2) else walk_tg_tree_from (Suc n) down up from (Leave h) k2)"
      using True d ch by (cases ts) simp_all
    with d c u True show ?thesis
      unfolding sz by (auto simp: walk_resume_def split: option.splits)
  qed
next
  case (3 down up t ts k)
  obtain r1 k1 where d: "visit_tree down up t k = (r1, k1)" by fastforce
  let ?m = "2 * length (concat (map css_groups ts)) + n"
  have lk: "same_links k k1" using 3(3,4) d by (rule visit_keeps_links)
  have ch: "tg_children (k_tgs k1 g) = pre @ css_group t # map css_group ts"
    and par: "tg_parent (k_tgs k1 (css_group t)) = Some g"
    and sub: "\<forall>t \<in> set ts. tg_parent (k_tgs k1 (css_group t)) = Some g \<and> tg_tree (k_tgs k1) t"
    using 3(6,7) tg_tree_links[OF lk] lk[unfolded same_links_def] by auto
  have root: "css_group t \<noteq> from" "from \<notin> set (tl (css_groups t))"
    using 3(10) css_group_mem[of t] by (cases t; auto)+
  have w: "walk_tg_tree_from (2 * tree_size t + ?m) down up from (Enter (css_group t)) k =
      (if r1 \<noteq> 0 then Some (r1, k1) else walk_resume ?m down up from (css_group t) k1)"
    using 3(1)[OF 3(3,4), of ?m] 3(7,9) root d by simp
  have sib: "sibling_after (css_group t) (tg_children (k_tgs k1 g)) =
      (case map css_group ts of [] \<Rightarrow> None | d # _ \<Rightarrow> Some d)"
    unfolding ch using 3(8) by (intro sibling_after_pre) simp
  have goal: "2 * length (concat (map css_groups (t # ts))) + n = 2 * tree_size t + ?m" by simp
  show ?case
  proof (cases "r1 = 0")
    case False
    with w d show ?thesis unfolding goal by simp
  next
    case True
    note IH = 3(2)[OF d[symmetric] refl _ 3(3,4)]
    show ?thesis
    proof (cases ts)
      case Nil
      with True w d sib par root show ?thesis unfolding goal by (simp add: walk_resume_def)
    next
      case (Cons t' ts')
      have "walk_tg_tree_from ?m down up from (Enter (css_group (hd ts))) k1 =
        (let (r, k') = visit_trees down up ts k1 in
         if r \<noteq> 0 then Some (r, k') else walk_tg_tree_from n down up from (Leave g) k')"
        by (rule IH[where pre="pre @ [css_group t]"]) (use True Cons ch sub 3(8-10) in auto)
      with Cons True w d sib par root show ?thesis unfolding goal by (simp add: walk_resume_def)
    qed
  qed
qed simp

lemma walk_tree_eq_visit:
  assumes "keeps_links down" and "keeps_links up" and "tg_tree (k_tgs k) t"
    and "distinct (css_groups t)" and "css_group t = root_task_group" and "2 * tree_size t \<le> n"
  shows "walk_tg_tree n down up k = Some (visit_tree down up t k)"
proof -
  obtain m where n: "n = 2 * tree_size t + m" using assms(6) le_Suc_ex by blast
  have "root_task_group \<notin> set (tl (css_groups t))"
    using assms(4,5) by (cases t) auto
  from walk_visits(1)[OF assms(1-4) this, of m] show ?thesis
    by (simp add: walk_tg_tree_def n assms(5) walk_resume_def split: prod.splits)
qed

text \<open>C28: On a tree of groups the walk with jumps ends, within two steps per group, and it visits the
  groups as the recursive traversal does: \<open>down\<close> before and \<open>up\<close> after the children, which
  are visited in the order of the list, and the first error ends it. The visitors may change the
  state but not the links between groups.\<close>

theorem walk_tg_tree_visits:
  assumes "keeps_links down" and "keeps_links up" and "tg_tree (k_tgs k) t"
    and "distinct (css_groups t)" and "css_group t = root_task_group" and "2 * tree_size t \<le> n"
  shows "walk_tg_tree n down up k = Some (visit_tree down up t k)"
  using assms by (rule walk_tree_eq_visit)

text \<open>Groups 1 and 2 below the root and group 3 below 2; the walk marks every group.\<close>

definition forest0 :: "(unit, list_heap) kernel" where
  "forest0 = kernel0\<lparr>k_tgs := (\<lambda>_. tg0)
     (0 := tg0\<lparr>tg_children := [1, 2]\<rparr>, 1 := tg0\<lparr>tg_parent := Some 0\<rparr>,
      2 := tg0\<lparr>tg_parent := Some 0, tg_children := [3]\<rparr>, 3 := tg0\<lparr>tg_parent := Some 2\<rparr>),
     k_task_groups := [3, 2, 1, 0]\<rparr>"

definition tree0 :: css_tree where "tree0 = Css 0 [Css 1 [], Css 2 [Css 3 []]]"

lemma forest0_tree: "tg_tree (k_tgs forest0) tree0" "distinct (css_groups tree0)"
  "css_group tree0 = root_task_group" "tree_size tree0 = 4"
  by (simp_all add: forest0_def tree0_def tg0_def root_task_group_def)

theorem walk_tg_tree_visits_witness:
  "\<exists>k'. walk_tg_tree 8 (\<lambda>g k. (0, upd_tg g (\<lambda>t. t\<lparr>tg_idle := 1\<rparr>) k)) tg_nop forest0 = Some (0, k') \<and>
     map (\<lambda>g. tg_idle (k_tgs k' g)) [0, 1, 2, 3, 4] = [1, 1, 1, 1, 0]"
proof -
  have "keeps_links (\<lambda>g k. (0, upd_tg g (\<lambda>t. t\<lparr>tg_idle := 1\<rparr>) k))" "keeps_links tg_nop"
    by (simp_all add: keeps_links_def same_links_def tg_nop_def)
  from walk_tg_tree_visits[OF this forest0_tree(1-3), of 8] show ?thesis
    by (simp add: forest0_tree(4)) (simp add: tree0_def tg_nop_def forest0_def tg0_def)
qed

section \<open>Groups come and go\<close>

text \<open>A group in a list of children has that parent and is on the list of all groups.\<close>

definition group_links_ok :: "('x, 'l) kernel \<Rightarrow> bool" where
  "group_links_ok k \<longleftrightarrow> distinct (k_task_groups k) \<and>
     (\<forall>q. distinct (tg_children (k_tgs k q)) \<and>
       (\<forall>g \<in> set (tg_children (k_tgs k q)).
          tg_parent (k_tgs k g) = Some q \<and> g \<in> set (k_task_groups k)))"

lemma release_links_ok:
  assumes "group_links_ok k" and "sched_release_group g k = Some k'"
  shows "group_links_ok k'"
proof -
  obtain q where "tg_parent (k_tgs k g) = Some q" "g \<in> set (k_task_groups k)"
    "k' = upd_tg q (\<lambda>t. t\<lparr>tg_children := remove1 g (tg_children t)\<rparr>)
       (k\<lparr>k_task_groups := remove1 g (k_task_groups k)\<rparr>)"
    using assms(2) by (auto simp: sched_release_group_def Let_def split: if_splits option.splits)
  with assms(1) show ?thesis
    by (auto simp: group_links_ok_def dest: in_set_remove1)
qed

lemma online_links_ok:
  assumes "group_links_ok k" and "g \<notin> set (k_task_groups k)" and "q \<noteq> g"
  shows "group_links_ok (sched_online_group env g q k)"
  using assms by (auto simp: group_links_ok_def sched_online_group_def Let_def)

text \<open>C30: Bringing a group online links it below its parent and keeps the links of all groups
  consistent, and so does the release of any group; a release right after the online restores the
  lists of all other groups.\<close>

theorem group_links_kept:
  assumes "group_links_ok k" and "g \<notin> set (k_task_groups k)" and "q \<noteq> g"
  shows "group_links_ok (sched_online_group env g q k) \<and>
    tg_children (k_tgs (sched_online_group env g q k) q) = g # tg_children (k_tgs k q) \<and>
    (\<forall>h k'. sched_release_group h k = Some k' \<longrightarrow> group_links_ok k') \<and>
    (\<exists>k'. sched_release_group g (sched_online_group env g q k) = Some k' \<and> group_links_ok k' \<and>
       k_task_groups k' = k_task_groups k \<and>
       (\<forall>h. h \<noteq> g \<longrightarrow> tg_children (k_tgs k' h) = tg_children (k_tgs k h)))"
proof -
  let ?k = "sched_online_group env g q k"
  have ok: "group_links_ok ?k" using assms by (rule online_links_ok)
  obtain k' where k': "sched_release_group g ?k = Some k'" "k_task_groups k' = k_task_groups k"
    "\<And>h. h \<noteq> g \<Longrightarrow> tg_children (k_tgs k' h) = tg_children (k_tgs k h)"
    using assms(3) by (simp add: sched_release_group_def sched_online_group_def Let_def)
  with ok release_links_ok[OF ok] release_links_ok[OF assms(1)] assms(3) show ?thesis
    by (auto simp: sched_online_group_def Let_def)
qed

theorem group_links_kept_witness:
  "group_links_ok (sched_online_group group0 7 2 forest0) \<and>
   tg_children (k_tgs (sched_online_group group0 7 2 forest0) 2) = [7, 3]"
proof -
  have "group_links_ok forest0" by (simp add: group_links_ok_def forest0_def tg0_def)
  moreover have "7 \<notin> set (k_task_groups forest0)" "(2 :: tgid) \<noteq> 7" by (simp_all add: forest0_def)
  moreover have "tg_children (k_tgs forest0 2) = [3]" by (simp add: forest0_def)
  ultimately show ?thesis using group_links_kept[of forest0 7 2 group0] by simp
qed

section \<open>A lottery task changes its group\<close>

text \<open>When a queued lottery task is moved to another task group, it gets the group, keeps its
  class and its tickets, and goes to the tail of its lottery queue; when it was running it is asked
  to reschedule. The group has no part in the lottery: the tickets of no task change.\<close>

theorem sched_move_task_lottery:
  assumes "linux_list (e_list env) dll" and "c = task_cpu k p" and "ltr_queue dll c k ps"
    and "p \<in> set ps" and "t_class (tsk k p) = Lottery_class" and "task_on_rq_queued k p"
    and "\<And>h. e_autogroup_tg (fork_of env) p (e_task_css (group_of env) p h) h = g"
  shows "\<exists>k'. sched_move_task env p k = Some k' \<and> ltr_queue dll c k' (remove1 p ps @ [p]) \<and>
    t_tg (tsk k' p) = g \<and> t_class (tsk k' p) = Lottery_class \<and>
    (\<forall>q. t_ltr (tsk k' q) = t_ltr (tsk k q)) \<and> (task_current k c p \<longrightarrow> t_need_resched (tsk k' p))"
proof -
  let ?k1 = "update_rq_clock env c k"
  let ?fl = "DEQUEUE_SAVE OR DEQUEUE_MOVE OR DEQUEUE_NOCLOCK"
  have q1: "ltr_queue dll c ?k1 ps" and c1: "t_class (tsk ?k1 p) = Lottery_class"
    using assms(3,5) by simp_all
  let ?f = "\<lambda>t. t\<lparr>t_tg := g\<rparr>"
  obtain k2 where d: "dequeue_task env c p ?fl ?k1 = Some k2" and tk2: "k_tasks k2 = k_tasks ?k1"
    using lottery_requeue[OF assms(1) q1 assms(4) c1, of "\<lambda>t. t" ?fl 0 undefined] by metis
  let ?x = "e_set_task_rq (group_of env) p (task_cpu (upd_task p ?f k2) p) (upd_task p ?f k2)"
  obtain k4 where k4:
    "(if task_current ?k1 c p then put_prev_task env c p k2 else Some k2) = Some k2"
    "enqueue_task env c p ?fl ((upd_task p ?f k2)\<lparr>k_ext := ?x\<rparr>) = Some k4"
    "(if task_current ?k1 c p then set_next_task env c p k4 else Some k4) = Some k4"
    "k_tasks k4 = (k_tasks ?k1)(p := ?f (tsk ?k1 p))" "rq_core (cpu_rq k4 c) = rq_core (cpu_rq ?k1 c)"
    "ltr_queue dll c k4 (remove1 p ps @ [p])"
    by (rule lottery_requeue[OF assms(1) q1 assms(4) c1, of ?f ?fl ?fl ?x]) (use d in auto)
  have ch: "sched_change_group env p TASK_MOVE_GROUP k2 = Some ((upd_task p ?f k2)\<lparr>k_ext := ?x\<rparr>)"
    using c1 tk2 by (simp add: sched_change_group_def Let_def assms(7) ext_do_def)
  let ?k5 = "if task_current ?k1 c p then resched_curr env c k4 else k4"
  have "task_on_rq_queued ?k1 p" using assms(6) by (simp add: task_on_rq_queued_def)
  then have "sched_move_task env p k = Some ?k5"
    unfolding sched_move_task_def Let_def assms(2)[symmetric]
    using d k4(1-3) ch by (simp split: if_splits)
  moreover have "ltr_queue dll c ?k5 (remove1 p ps @ [p])"
  proof -
    have "ltr_queue dll c (resched_curr env c k4) qs \<longleftrightarrow> ltr_queue dll c k4 qs" for qs
      by (intro ltr_queue_cong) simp_all
    then show ?thesis using k4(6) by simp
  qed
  moreover have "t_tg (tsk ?k5 p) = g" "t_class (tsk ?k5 p) = Lottery_class"
    "\<forall>q. t_ltr (tsk ?k5 q) = t_ltr (tsk k q)" using k4(4) assms(5) by simp_all
  moreover have "task_current k c p \<longrightarrow> t_need_resched (tsk ?k5 p)"
    using rq_core_fields(1)[OF k4(5)] by (simp add: task_current_def)
  ultimately show ?thesis by blast
qed

theorem sched_move_task_lottery_witness:
  "\<exists>k'. sched_move_task group0 2 donor0 = Some k' \<and> t_tg (tsk k' 2) = 4 \<and>
     ltr_queue heap_dll 0 k' [1, 3, 2]"
proof -
  have "(2 :: tid) \<in> set [1, 2, 3]" by simp
  from sched_move_task_lottery[OF linux_list_group0 donor0_facts(2)[symmetric] donor0_facts(1) this
      donor0_facts(3,5), of 4]
  show ?thesis by (auto simp: group0_env)
qed

end
