(* ===== verification/Cfs_Bandwidth.thy ===== *)
theory Cfs_Bandwidth
  imports Task_Group
begin

text \<open>
  The bandwidth and weight files of the cpu controller (\<open>core.c\<close>, lines 4480 to 4494 and 10286 to
  10945): the quota, period and burst of a group with the test of the group hierarchy, the shares
  and the weight, and the text of \<open>cpu.max\<close>.

  \<open>long\<close> and \<open>unsigned long\<close> have the 32 bits of the machine; a \<open>long\<close> is the integer it
  stands for. The timers behind a bandwidth and \<open>sched_group_set_shares\<close> belong to \<open>fair.c\<close>.
\<close>

section \<open>Constants\<close>

(* sched.h 160-160: RUNTIME_INF *)
definition RUNTIME_INF :: u64 where "RUNTIME_INF = NOT 0"

(* sched.h 2353-2353: BW_SHIFT *)
definition BW_SHIFT :: nat where "BW_SHIFT = 20"

(* sched.h 2354-2354: BW_UNIT *)
definition BW_UNIT :: u32 where "BW_UNIT = push_bit BW_SHIFT 1"

(* sched.h 2357-2357: MAX_BW *)
definition MAX_BW :: u64 where "MAX_BW = push_bit (64 - BW_SHIFT) 1 - 1"

definition NSEC_PER_USEC :: u64 where "NSEC_PER_USEC = 1000"
definition U64_MAX :: u64 where "U64_MAX = NOT 0"

(* core.c !10307-10307: max_cfs_quota_period *)
definition max_cfs_quota_period :: u64 where "max_cfs_quota_period = 1000000000"

(* core.c !10308-10308: min_cfs_quota_period *)
definition min_cfs_quota_period :: u64 where "min_cfs_quota_period = 1000000"

(* core.c !10310-10310: max_cfs_runtime *)
definition max_cfs_runtime :: u64 where "max_cfs_runtime = MAX_BW * NSEC_PER_USEC"

(* sched.h 460-460: MAX_SHARES *)
definition MAX_SHARES :: u32 where "MAX_SHARES = push_bit 18 1"

text \<open>The weights of \<open>linux/cgroup.h\<close>; \<open>core.c\<close> names them at line 10766.\<close>

definition CGROUP_WEIGHT_MIN :: u64 where "CGROUP_WEIGHT_MIN = 1"
definition CGROUP_WEIGHT_DFL :: u64 where "CGROUP_WEIGHT_DFL = 100"
definition CGROUP_WEIGHT_MAX :: u64 where "CGROUP_WEIGHT_MAX = 10000"

lemmas bw_const_defs = RUNTIME_INF_def BW_SHIFT_def BW_UNIT_def MAX_BW_def NSEC_PER_USEC_def
  U64_MAX_def max_cfs_quota_period_def min_cfs_quota_period_def max_cfs_runtime_def

text \<open>The conversion of a 64-bit number to \<open>long\<close>.\<close>

definition to_long :: "u64 \<Rightarrow> int" where "to_long x = sint (ucast x :: u32)"

abbreviation bw :: "('x, 'l) kernel \<Rightarrow> tgid \<Rightarrow> cfs_bandwidth" where
  "bw k g \<equiv> tg_cfs_bandwidth (k_tgs k g)"

definition upd_bw ::
    "tgid \<Rightarrow> (cfs_bandwidth \<Rightarrow> cfs_bandwidth) \<Rightarrow> ('x, 'l) kernel \<Rightarrow> ('x, 'l) kernel" where
  "upd_bw g f = upd_tg g (\<lambda>t. t\<lparr>tg_cfs_bandwidth := f (tg_cfs_bandwidth t)\<rparr>)"

(* core.c 4480-4494: to_ratio *)
definition to_ratio :: "u64 \<Rightarrow> u64 \<Rightarrow> u32" where
  "to_ratio period runtime =
     (if runtime = RUNTIME_INF then BW_UNIT
      else if period = 0 then 0
      else ucast (push_bit BW_SHIFT runtime div period))"

section \<open>Is the hierarchy schedulable?\<close>

(* core.c 10417-10428: tg_get_cfs_quota *)
definition tg_get_cfs_quota :: "('x, 'l) kernel \<Rightarrow> tgid \<Rightarrow> int" where
  "tg_get_cfs_quota k g =
     (if cb_quota (bw k g) = RUNTIME_INF then - 1
      else to_long (cb_quota (bw k g) div NSEC_PER_USEC))"

(* core.c 10444-10452: tg_get_cfs_period *)
definition tg_get_cfs_period :: "('x, 'l) kernel \<Rightarrow> tgid \<Rightarrow> int" where
  "tg_get_cfs_period k g = to_long (cb_period (bw k g) div NSEC_PER_USEC)"

(* core.c 10468-10476: tg_get_cfs_burst *)
definition tg_get_cfs_burst :: "('x, 'l) kernel \<Rightarrow> tgid \<Rightarrow> int" where
  "tg_get_cfs_burst k g = to_long (cb_burst (bw k g) div NSEC_PER_USEC)"

(* core.c !10514-10517: struct cfs_schedulable_data *)
record cfs_schedulable_data =
  sd_tg :: tgid
  sd_period :: u64
  sd_quota :: u64

(* core.c 10523-10541: normalize_cfs_quota *)
definition normalize_cfs_quota :: "tgid \<Rightarrow> cfs_schedulable_data \<Rightarrow> ('x, 'l) kernel \<Rightarrow> u64" where
  "normalize_cfs_quota g d k =
     (let (period, quota) =
            (if g = sd_tg d then (sd_period d, sd_quota d)
             else (word_of_int (tg_get_cfs_period k g), word_of_int (tg_get_cfs_quota k g)))
      in if quota = RUNTIME_INF \<or> quota = - 1 then RUNTIME_INF else ucast (to_ratio period quota))"

text \<open>\<open>quota\<close> and \<open>parent_quota\<close> are signed when they are compared.\<close>

(* core.c 10543-10574: tg_cfs_schedulable_down *)
definition tg_cfs_schedulable_down ::
    "('x, 'l, 'm) group_env_scheme \<Rightarrow> cfs_schedulable_data \<Rightarrow> ('x, 'l) tg_visitor" where
  "tg_cfs_schedulable_down env d g k =
     (let set_hq = (\<lambda>q. upd_bw g (\<lambda>b. b\<lparr>cb_hierarchical_quota := q\<rparr>) k) in
      case tg_parent (k_tgs k g) of
        None \<Rightarrow> (0, set_hq RUNTIME_INF)
      | Some par \<Rightarrow>
          let quota = normalize_cfs_quota g d k;
              parent_quota = cb_hierarchical_quota (bw k par)
          in if e_cgroup_v2 (group_of env)
             then (0, set_hq (if sint quota < sint parent_quota then quota else parent_quota))
             else if quota = RUNTIME_INF then (0, set_hq parent_quota)
             else if parent_quota \<noteq> RUNTIME_INF \<and> sint parent_quota < sint quota then (- EINVAL, k)
             else (0, set_hq quota))"

text \<open>The bandwidth to test, in microseconds when there is a quota.\<close>

(* core.c !10579-10588: __cfs_schedulable (data) *)
definition cfs_schedulable_for :: "tgid \<Rightarrow> u64 \<Rightarrow> u64 \<Rightarrow> cfs_schedulable_data" where
  "cfs_schedulable_for g period quota =
     (if quota \<noteq> RUNTIME_INF
      then \<lparr>sd_tg = g, sd_period = period div NSEC_PER_USEC, sd_quota = quota div NSEC_PER_USEC\<rparr>
      else \<lparr>sd_tg = g, sd_period = period, sd_quota = quota\<rparr>)"

(* core.c 10576-10595: __cfs_schedulable *)
definition cfs_schedulable ::
    "nat \<Rightarrow> ('x, 'l, 'm) group_env_scheme \<Rightarrow> tgid \<Rightarrow> u64 \<Rightarrow> u64 \<Rightarrow> ('x, 'l) kernel \<Rightarrow>
     (int \<times> ('x, 'l) kernel) option" where
  "cfs_schedulable n env g period quota k =
     walk_tg_tree n (tg_cfs_schedulable_down env (cfs_schedulable_for g period quota)) tg_nop k"

section \<open>Setting a bandwidth\<close>

text \<open>The tests before the lock is taken.\<close>

(* core.c !10319-10349: tg_set_cfs_bandwidth (checks) *)
definition cfs_bandwidth_valid :: "tgid \<Rightarrow> u64 \<Rightarrow> u64 \<Rightarrow> u64 \<Rightarrow> bool" where
  "cfs_bandwidth_valid g period quota burst =
     (if g = root_task_group then False
      else if quota < min_cfs_quota_period \<or> period < min_cfs_quota_period then False
      else if period > max_cfs_quota_period then False
      else if quota \<noteq> RUNTIME_INF \<and> quota > max_cfs_runtime then False
      else if quota \<noteq> RUNTIME_INF \<and> (burst > quota \<or> burst + quota > max_cfs_runtime) then False
      else True)"

definition online_cpus :: "('x, 'l, 'm) env_scheme \<Rightarrow> ('x, 'l) kernel \<Rightarrow> cpu list" where
  "online_cpus env k = filter (\<lambda>c. e_cpu_online env c k) [0 ..< e_nr_cpu_ids env]"

(* core.c !10380-10392: tg_set_cfs_bandwidth (for_each_online_cpu) *)
definition cfs_rq_set_runtime ::
    "('x, 'l, 'm) group_env_scheme \<Rightarrow> tgid \<Rightarrow> bool \<Rightarrow> cpu \<Rightarrow> ('x, 'l) kernel \<Rightarrow> ('x, 'l) kernel" where
  "cfs_rq_set_runtime env g enabled c k =
     (let k = upd_tg g (\<lambda>t. t\<lparr>tg_cfs_rq := (tg_cfs_rq t)(c := (tg_cfs_rq t c)
            \<lparr>cr_runtime_enabled := enabled, cr_runtime_remaining := 0\<rparr>)\<rparr>) k
      in if cr_throttled (tg_cfs_rq (k_tgs k g) c) then e_unthrottle (group_of env) g c k else k)"

(* core.c 10313-10399: tg_set_cfs_bandwidth *)
definition tg_set_cfs_bandwidth ::
    "nat \<Rightarrow> ('x, 'l, 'm) group_env_scheme \<Rightarrow> tgid \<Rightarrow> u64 \<Rightarrow> u64 \<Rightarrow> u64 \<Rightarrow> ('x, 'l) kernel \<Rightarrow>
     (int \<times> ('x, 'l) kernel) option" where
  "tg_set_cfs_bandwidth n env g period quota burst k =
     (if \<not> cfs_bandwidth_valid g period quota burst then Some (- EINVAL, k)
      else do {
        (ret, k) \<leftarrow> cfs_schedulable n env g period quota k;
        if ret \<noteq> 0 then Some (ret, k)
        else
          let runtime_enabled = (quota \<noteq> RUNTIME_INF);
              runtime_was_enabled = (cb_quota (bw k g) \<noteq> RUNTIME_INF);
              k = (if runtime_enabled \<and> \<not> runtime_was_enabled
                   then ext_do (e_cfs_usage_inc (group_of env)) k else k);
              k = upd_bw g (\<lambda>b. b\<lparr>cb_period := period, cb_quota := quota, cb_burst := burst\<rparr>) k;
              k = upd_bw g (\<lambda>b. b\<lparr>cb_runtime := e_refill_cfs (group_of env) b\<rparr>) k;
              k = (if runtime_enabled then ext_do (e_start_cfs (group_of env) g) k else k);
              k = fold (cfs_rq_set_runtime env g runtime_enabled) (online_cpus env k) k;
              k = (if runtime_was_enabled \<and> \<not> runtime_enabled
                   then ext_do (e_cfs_usage_dec (group_of env)) k else k)
          in Some (0, k)
      })"

(* core.c 10401-10415: tg_set_cfs_quota *)
definition tg_set_cfs_quota ::
    "nat \<Rightarrow> ('x, 'l, 'm) group_env_scheme \<Rightarrow> tgid \<Rightarrow> int \<Rightarrow> ('x, 'l) kernel \<Rightarrow>
     (int \<times> ('x, 'l) kernel) option" where
  "tg_set_cfs_quota n env g cfs_quota_us k =
     (let period = cb_period (bw k g); burst = cb_burst (bw k g) in
      if cfs_quota_us < 0 then tg_set_cfs_bandwidth n env g period RUNTIME_INF burst k
      else if (word_of_int cfs_quota_us :: u64) \<le> U64_MAX div NSEC_PER_USEC
      then tg_set_cfs_bandwidth n env g period (word_of_int cfs_quota_us * NSEC_PER_USEC) burst k
      else Some (- EINVAL, k))"

(* core.c 10430-10442: tg_set_cfs_period *)
definition tg_set_cfs_period ::
    "nat \<Rightarrow> ('x, 'l, 'm) group_env_scheme \<Rightarrow> tgid \<Rightarrow> int \<Rightarrow> ('x, 'l) kernel \<Rightarrow>
     (int \<times> ('x, 'l) kernel) option" where
  "tg_set_cfs_period n env g cfs_period_us k =
     (if (word_of_int cfs_period_us :: u64) > U64_MAX div NSEC_PER_USEC then Some (- EINVAL, k)
      else tg_set_cfs_bandwidth n env g (word_of_int cfs_period_us * NSEC_PER_USEC)
             (cb_quota (bw k g)) (cb_burst (bw k g)) k)"

(* core.c 10454-10466: tg_set_cfs_burst *)
definition tg_set_cfs_burst ::
    "nat \<Rightarrow> ('x, 'l, 'm) group_env_scheme \<Rightarrow> tgid \<Rightarrow> int \<Rightarrow> ('x, 'l) kernel \<Rightarrow>
     (int \<times> ('x, 'l) kernel) option" where
  "tg_set_cfs_burst n env g cfs_burst_us k =
     (if (word_of_int cfs_burst_us :: u64) > U64_MAX div NSEC_PER_USEC then Some (- EINVAL, k)
      else tg_set_cfs_bandwidth n env g (cb_period (bw k g)) (cb_quota (bw k g))
             (word_of_int cfs_burst_us * NSEC_PER_USEC) k)"

section \<open>The files of the first hierarchy\<close>

(* core.c 10478-10482: cpu_cfs_quota_read_s64 *)
definition cpu_cfs_quota_read_s64 :: "('x, 'l) kernel \<Rightarrow> tgid \<Rightarrow> int" where
  "cpu_cfs_quota_read_s64 k g = tg_get_cfs_quota k g"

text \<open>The 64-bit values of the files are converted to \<open>long\<close> by the call.\<close>

(* core.c 10484-10488: cpu_cfs_quota_write_s64 *)
definition cpu_cfs_quota_write_s64 ::
    "nat \<Rightarrow> ('x, 'l, 'm) group_env_scheme \<Rightarrow> tgid \<Rightarrow> int \<Rightarrow> ('x, 'l) kernel \<Rightarrow>
     (int \<times> ('x, 'l) kernel) option" where
  "cpu_cfs_quota_write_s64 n env g v k = tg_set_cfs_quota n env g (to_long (word_of_int v)) k"

(* core.c 10490-10494: cpu_cfs_period_read_u64 *)
definition cpu_cfs_period_read_u64 :: "('x, 'l) kernel \<Rightarrow> tgid \<Rightarrow> u64" where
  "cpu_cfs_period_read_u64 k g = word_of_int (tg_get_cfs_period k g)"

(* core.c 10496-10500: cpu_cfs_period_write_u64 *)
definition cpu_cfs_period_write_u64 ::
    "nat \<Rightarrow> ('x, 'l, 'm) group_env_scheme \<Rightarrow> tgid \<Rightarrow> u64 \<Rightarrow> ('x, 'l) kernel \<Rightarrow>
     (int \<times> ('x, 'l) kernel) option" where
  "cpu_cfs_period_write_u64 n env g v k = tg_set_cfs_period n env g (to_long v) k"

(* core.c 10502-10506: cpu_cfs_burst_read_u64 *)
definition cpu_cfs_burst_read_u64 :: "('x, 'l) kernel \<Rightarrow> tgid \<Rightarrow> u64" where
  "cpu_cfs_burst_read_u64 k g = word_of_int (tg_get_cfs_burst k g)"

(* core.c 10508-10512: cpu_cfs_burst_write_u64 *)
definition cpu_cfs_burst_write_u64 ::
    "nat \<Rightarrow> ('x, 'l, 'm) group_env_scheme \<Rightarrow> tgid \<Rightarrow> u64 \<Rightarrow> ('x, 'l) kernel \<Rightarrow>
     (int \<times> ('x, 'l) kernel) option" where
  "cpu_cfs_burst_write_u64 n env g v k = tg_set_cfs_burst n env g (to_long v) k"

text \<open>A line of statistics: what \<open>seq_printf\<close> receives, its label and its number.\<close>

type_synonym stat_line = "string \<times> int"

(* core.c 10597-10620: cpu_cfs_stat_show *)
definition cpu_cfs_stat_show ::
    "('x, 'l, 'm) group_env_scheme \<Rightarrow> ('x, 'l) kernel \<Rightarrow> tgid \<Rightarrow> stat_line list" where
  "cpu_cfs_stat_show env k g =
     (let cfs_b = bw k g;
          ws = fold (\<lambda>c ws. ws + e_wait_sum (group_of env) g c k)
                 (filter (e_cpu_possible (group_of env)) [0 ..< e_nr_cpu_ids env]) (0 :: u64)
      in [(''nr_periods'', cb_nr_periods cfs_b), (''nr_throttled'', cb_nr_throttled cfs_b),
          (''throttled_time'', uint (cb_throttled_time cfs_b))] @
         (if e_schedstat (wake_of env) \<and> g \<noteq> root_task_group then [(''wait_sum'', uint ws)] else []))"

(* core.c 10727-10747: cpu_extra_stat_show *)
definition cpu_extra_stat_show :: "('x, 'l) kernel \<Rightarrow> tgid \<Rightarrow> stat_line list" where
  "cpu_extra_stat_show k g =
     (let cfs_b = bw k g
      in [(''nr_periods'', cb_nr_periods cfs_b), (''nr_throttled'', cb_nr_throttled cfs_b),
          (''throttled_usec'', uint (cb_throttled_time cfs_b div NSEC_PER_USEC))])"

section \<open>Shares and weights\<close>

text \<open>On a 32-bit machine \<open>scale_load\<close> and \<open>scale_load_down\<close> are the identity.\<close>

(* sched.h !135-135: scale_load *)
definition scale_load :: "u32 \<Rightarrow> u32" where "scale_load w = w"

(* sched.h !136-136: scale_load_down *)
definition scale_load_down :: "u32 \<Rightarrow> u32" where "scale_load_down w = w"

(* core.c 10287-10293: cpu_shares_write_u64 *)
definition cpu_shares_write_u64 ::
    "('x, 'l, 'm) group_env_scheme \<Rightarrow> tgid \<Rightarrow> u64 \<Rightarrow> ('x, 'l) kernel \<Rightarrow> int \<times> ('x, 'l) kernel" where
  "cpu_shares_write_u64 env g shareval k =
     (let shareval = (if shareval > ucast (scale_load_down (NOT 0)) then ucast MAX_SHARES else shareval)
      in e_set_shares (group_of env) g (scale_load (ucast shareval)) k)"

(* core.c 10295-10301: cpu_shares_read_u64 *)
definition cpu_shares_read_u64 :: "('x, 'l) kernel \<Rightarrow> tgid \<Rightarrow> u64" where
  "cpu_shares_read_u64 k g = ucast (scale_load_down (tg_shares (k_tgs k g)))"

(* core.c 10651-10655: cpu_idle_read_s64 *)
definition cpu_idle_read_s64 :: "('x, 'l) kernel \<Rightarrow> tgid \<Rightarrow> int" where
  "cpu_idle_read_s64 k g = tg_idle (k_tgs k g)"

(* core.c 10657-10661: cpu_idle_write_s64 *)
definition cpu_idle_write_s64 ::
    "('x, 'l, 'm) group_env_scheme \<Rightarrow> tgid \<Rightarrow> int \<Rightarrow> ('x, 'l) kernel \<Rightarrow> int \<times> ('x, 'l) kernel" where
  "cpu_idle_write_s64 env g v k = e_set_idle (group_of env) g (to_long (word_of_int v)) k"

text \<open>\<open>DIV_ROUND_CLOSEST_ULL\<close>.\<close>

definition div_round_closest :: "u64 \<Rightarrow> u64 \<Rightarrow> u64" where
  "div_round_closest x d = (x + d div 2) div d"

(* core.c 10750-10757: cpu_weight_read_u64 *)
definition cpu_weight_read_u64 :: "('x, 'l) kernel \<Rightarrow> tgid \<Rightarrow> u64" where
  "cpu_weight_read_u64 k g =
     (let weight = ucast (scale_load_down (tg_shares (k_tgs k g)))
      in div_round_closest (weight * CGROUP_WEIGHT_DFL) 1024)"

(* core.c 10759-10775: cpu_weight_write_u64 *)
definition cpu_weight_write_u64 ::
    "('x, 'l, 'm) group_env_scheme \<Rightarrow> tgid \<Rightarrow> u64 \<Rightarrow> ('x, 'l) kernel \<Rightarrow> int \<times> ('x, 'l) kernel" where
  "cpu_weight_write_u64 env g weight k =
     (if weight < CGROUP_WEIGHT_MIN \<or> weight > CGROUP_WEIGHT_MAX then (- ERANGE, k)
      else let weight = div_round_closest (weight * 1024) CGROUP_WEIGHT_DFL
           in e_set_shares (group_of env) g (scale_load (ucast weight)) k)"

text \<open>The loop over the weight table: the first index whose successor is not closer.\<close>

(* core.c !10785-10790: cpu_weight_nice_read_s64 (loop) *)
fun closest_prio :: "u32 \<Rightarrow> u32 list \<Rightarrow> int \<Rightarrow> int \<Rightarrow> int" where
  "closest_prio weight [] pr last_delta = pr"
| "closest_prio weight (w # ws) pr last_delta =
     (let delta = sint (word_of_int \<bar>sint (w - weight)\<bar> :: u32) in
      if delta \<ge> last_delta then pr else closest_prio weight ws (pr + 1) delta)"

(* core.c 10777-10793: cpu_weight_nice_read_s64 *)
definition cpu_weight_nice_read_s64 :: "('x, 'l) kernel \<Rightarrow> tgid \<Rightarrow> int" where
  "cpu_weight_nice_read_s64 k g =
     (let weight = scale_load_down (tg_shares (k_tgs k g));
          pr = closest_prio weight sched_prio_to_weight 0 (2 ^ 31 - 1)
      in PRIO_TO_NICE (pr - 1 + MAX_RT_PRIO))"

(* core.c 10795-10809: cpu_weight_nice_write_s64 *)
definition cpu_weight_nice_write_s64 ::
    "('x, 'l, 'm) group_env_scheme \<Rightarrow> tgid \<Rightarrow> int \<Rightarrow> ('x, 'l) kernel \<Rightarrow> int \<times> ('x, 'l) kernel" where
  "cpu_weight_nice_write_s64 env g nice k =
     (if nice < MIN_NICE \<or> nice > MAX_NICE then (- ERANGE, k)
      else let idx = NICE_TO_PRIO nice - MAX_RT_PRIO;
               idx = (if idx < 40 then idx else 0);
               weight = sched_prio_to_weight ! nat idx
           in e_set_shares (group_of env) g (scale_load weight) k)"

section \<open>The text of \<open>cpu.max\<close>\<close>

text \<open>What the source uses of the C library: \<open>%ld\<close> of \<open>seq_printf\<close>, and \<open>%20s\<close> and
  \<open>%llu\<close> of \<open>sscanf\<close>, which skip white space first.\<close>

definition digit_char :: "nat \<Rightarrow> char" where "digit_char d = char_of (48 + d)"

fun decimal :: "nat \<Rightarrow> string" where
  "decimal n = (if n < 10 then [digit_char n] else decimal (n div 10) @ [digit_char (n mod 10)])"

definition decimal_int :: "int \<Rightarrow> string" where
  "decimal_int i = (if i < 0 then CHR ''-'' # decimal (nat (- i)) else decimal (nat i))"

definition newline :: string where "newline = [char_of (10 :: nat)]"

definition is_space :: "char \<Rightarrow> bool" where
  "is_space c \<longleftrightarrow> (of_char c :: nat) \<in> {9, 10, 11, 12, 13, 32, 160}"

definition is_digit :: "char \<Rightarrow> bool" where
  "is_digit c \<longleftrightarrow> 48 \<le> (of_char c :: nat) \<and> (of_char c :: nat) \<le> 57"

definition digits_value :: "string \<Rightarrow> u64" where
  "digits_value = foldl (\<lambda>v c. v * 10 + of_nat (of_char c - 48)) 0"

definition scan_token :: "nat \<Rightarrow> string \<Rightarrow> string \<times> string" where
  "scan_token w s =
     (let s = dropWhile is_space s; tok = takeWhile (\<lambda>c. \<not> is_space c) (take w s)
      in (tok, drop (length tok) s))"

definition scan_u64 :: "string \<Rightarrow> u64 option" where
  "scan_u64 s =
     (let ds = takeWhile is_digit (dropWhile is_space s)
      in if ds = [] then None else Some (digits_value ds))"

(* core.c 10812-10821: cpu_period_quota_print *)
definition cpu_period_quota_print :: "int \<Rightarrow> int \<Rightarrow> string" where
  "cpu_period_quota_print period quota =
     (if quota < 0 then ''max'' else decimal_int quota) @ '' '' @ decimal_int period @ newline"

text \<open>The period and the quota, in nanoseconds, or the error; the caller passes the period the
  group has, which a buffer of one word keeps.\<close>

(* core.c 10824-10842: cpu_period_quota_parse *)
definition cpu_period_quota_parse :: "string \<Rightarrow> u64 \<Rightarrow> int + u64 \<times> u64" where
  "cpu_period_quota_parse buf period =
     (let (tok, rest) = scan_token 20 buf in
      if tok = [] then Inl (- EINVAL)
      else
        let period = (case scan_u64 rest of Some v \<Rightarrow> v | None \<Rightarrow> period) * NSEC_PER_USEC
        in case scan_u64 tok of
             Some v \<Rightarrow> Inr (period, v * NSEC_PER_USEC)
           | None \<Rightarrow> if tok = ''max'' then Inr (period, RUNTIME_INF) else Inl (- EINVAL))"

(* core.c 10845-10851: cpu_max_show *)
definition cpu_max_show :: "('x, 'l) kernel \<Rightarrow> tgid \<Rightarrow> string" where
  "cpu_max_show k g = cpu_period_quota_print (tg_get_cfs_period k g) (tg_get_cfs_quota k g)"

(* core.c 10853-10866: cpu_max_write *)
definition cpu_max_write ::
    "nat \<Rightarrow> ('x, 'l, 'm) group_env_scheme \<Rightarrow> tgid \<Rightarrow> string \<Rightarrow> int \<Rightarrow> ('x, 'l) kernel \<Rightarrow>
     (int \<times> ('x, 'l) kernel) option" where
  "cpu_max_write n env g buf nbytes k =
     (let period = word_of_int (tg_get_cfs_period k g); burst = cb_burst (bw k g) in
      case cpu_period_quota_parse buf period of
        Inl ret \<Rightarrow> Some (ret, k)
      | Inr (period, quota) \<Rightarrow> do {
          (ret, k) \<leftarrow> tg_set_cfs_bandwidth n env g period quota burst k;
          Some (if ret \<noteq> 0 then ret else nbytes, k)
        })"

end
