(* ===== verification/Bandwidth_Props.thy ===== *)
theory Bandwidth_Props
  imports Cfs_Bandwidth Task_Group_Props
begin

text \<open>
  Properties of the bandwidth and weight files: what a successful walk establishes of the
  hierarchical quotas on the two hierarchies, which bandwidths are accepted, and that what is
  written to a file can be read back.
\<close>

declare decimal.simps [simp del]

section \<open>What a walk establishes\<close>

text \<open>A condition on a group and its parent that \<open>down\<close> establishes, given that it holds of the
  parent, when it changes no other group.\<close>

definition holds_at ::
    "(task_group \<Rightarrow> task_group option \<Rightarrow> bool) \<Rightarrow> ('x, 'l) kernel \<Rightarrow> tgid \<Rightarrow> bool" where
  "holds_at C k g \<longleftrightarrow> C (k_tgs k g) (map_option (k_tgs k) (tg_parent (k_tgs k g)))"

definition establishes ::
    "(task_group \<Rightarrow> task_group option \<Rightarrow> bool) \<Rightarrow> ('x, 'l) tg_visitor \<Rightarrow> bool" where
  "establishes C down \<longleftrightarrow> keeps_links down \<and>
     (\<forall>g k h. h \<noteq> g \<longrightarrow> k_tgs (snd (down g k)) h = k_tgs k h) \<and>
     (\<forall>g k k'. down g k = (0, k') \<longrightarrow>
        (\<forall>q. tg_parent (k_tgs k g) = Some q \<longrightarrow> q \<noteq> g \<and> holds_at C k q) \<longrightarrow> holds_at C k' g)"

lemma holds_at_cong:
  "k_tgs k' g = k_tgs k g \<Longrightarrow>
   (\<And>q. tg_parent (k_tgs k g) = Some q \<Longrightarrow> k_tgs k' q = k_tgs k q) \<Longrightarrow> holds_at C k' g = holds_at C k g"
  by (cases "tg_parent (k_tgs k g)") (simp_all add: holds_at_def)

lemma tg_tree_css_wf: "tg_tree m t \<Longrightarrow> css_wf m t"
  by (induction t) auto

lemma visit_establishes:
  "establishes C down \<Longrightarrow> up = tg_nop \<Longrightarrow> visit_tree down up t k = (0, k') \<Longrightarrow>
     tg_tree (k_tgs k) t \<Longrightarrow> distinct (css_groups t) \<Longrightarrow>
     (\<forall>q. tg_parent (k_tgs k (css_group t)) = Some q \<longrightarrow> q \<notin> set (css_groups t) \<and> holds_at C k q) \<Longrightarrow>
     (\<forall>h \<in> set (css_groups t). holds_at C k' h) \<and> (\<forall>h. h \<notin> set (css_groups t) \<longrightarrow> k_tgs k' h = k_tgs k h)"
  "establishes C down \<Longrightarrow> up = tg_nop \<Longrightarrow> visit_trees down up ts k = (0, k') \<Longrightarrow>
     \<forall>t \<in> set ts. tg_parent (k_tgs k (css_group t)) = Some g \<and> tg_tree (k_tgs k) t \<Longrightarrow>
     distinct (g # concat (map css_groups ts)) \<Longrightarrow> holds_at C k g \<Longrightarrow>
     (\<forall>q. tg_parent (k_tgs k g) = Some q \<longrightarrow> q \<notin> set (concat (map css_groups ts))) \<Longrightarrow>
     (\<forall>h \<in> set (concat (map css_groups ts)). holds_at C k' h) \<and>
     (\<forall>h. h \<notin> set (concat (map css_groups ts)) \<longrightarrow> k_tgs k' h = k_tgs k h)"
proof (induction down up t k and down up ts k arbitrary: k' and k' g
    rule: visit_tree_visit_trees.induct)
  case (1 down up g ts k)
  obtain r1 k1 where d: "down g k = (r1, k1)" by fastforce
  obtain r2 k2 where c: "visit_trees down up ts k1 = (r2, k2)" by fastforce
  have r: "r1 = 0" "r2 = 0" "k' = k2"
    using 1(3,4) d c by (auto simp: tg_nop_def split: if_splits)
  have lk: "same_links k k1" using 1(2) d by (auto simp: establishes_def intro: keeps_linksD)
  have same: "h \<noteq> g \<Longrightarrow> k_tgs k1 h = k_tgs k h" for h
    using 1(2) d unfolding establishes_def by (metis snd_conv)
  have root: "q \<noteq> g \<and> q \<notin> set (concat (map css_groups ts)) \<and> holds_at C k q"
    if "tg_parent (k_tgs k g) = Some q" for q using 1(7) that by simp
  have hg: "holds_at C k1 g" using 1(2) d r(1) root unfolding establishes_def by blast
  have sub: "\<forall>t \<in> set ts. tg_parent (k_tgs k1 (css_group t)) = Some g \<and> tg_tree (k_tgs k1) t"
    using 1(5) tg_tree_links[OF lk] lk[unfolded same_links_def] by auto
  have par: "\<forall>q. tg_parent (k_tgs k1 g) = Some q \<longrightarrow> q \<notin> set (concat (map css_groups ts))"
    using root lk by (simp add: same_links_def)
  have dis: "distinct (g # concat (map css_groups ts))" using 1(6) by simp
  note IH = 1(1)[OF d[symmetric] refl _ 1(2,3) c[unfolded r(2)] sub dis hg par]
  have "holds_at C k2 g"
    using IH r(1) hg dis par by (subst holds_at_cong[of _ _ k1]) auto
  with IH r same show ?case by auto
next
  case (2 down up k)
  then show ?case by simp
next
  case (3 down up t ts k)
  obtain r1 k1 where d: "visit_tree down up t k = (r1, k1)" by fastforce
  have r: "r1 = 0" "visit_trees down up ts k1 = (0, k')"
    using 3(5) d by (auto split: if_splits)
  have "keeps_links down" "keeps_links up"
    using 3(3,4) by (simp_all add: establishes_def tg_nop_def keeps_links_def)
  then have lk: "same_links k k1" using d by (rule visit_keeps_links)
  have "(\<forall>h \<in> set (css_groups t). holds_at C k1 h) \<and>
      (\<forall>h. h \<notin> set (css_groups t) \<longrightarrow> k_tgs k1 h = k_tgs k h)"
    by (rule 3(1)[OF 3(3,4) d[unfolded r(1)]]) (use 3(6-9) in auto)
  then have one: "h \<in> set (css_groups t) \<Longrightarrow> holds_at C k1 h"
    "h \<notin> set (css_groups t) \<Longrightarrow> k_tgs k1 h = k_tgs k h" for h by blast+
  have g: "k_tgs k1 g = k_tgs k g" using one(2) 3(7) by simp
  have "holds_at C k1 g" using 3(8,9) one(2) g by (subst holds_at_cong[of _ _ k]) auto
  then have "(\<forall>h \<in> set (concat (map css_groups ts)). holds_at C k' h) \<and>
      (\<forall>h. h \<notin> set (concat (map css_groups ts)) \<longrightarrow> k_tgs k' h = k_tgs k1 h)"
    by (intro 3(2)[OF d[symmetric] refl _ 3(3,4) r(2), of g])
      (use r(1) 3(6-9) g tg_tree_links[OF lk] lk[unfolded same_links_def] in auto)
  then have rest: "h \<in> set (concat (map css_groups ts)) \<Longrightarrow> holds_at C k' h"
    "h \<notin> set (concat (map css_groups ts)) \<Longrightarrow> k_tgs k' h = k_tgs k1 h" for h by blast+
  have "holds_at C k' h" if h: "h \<in> set (css_groups t)" for h
  proof -
    have "q \<notin> set (concat (map css_groups ts))" if "tg_parent (k_tgs k1 h) = Some q" for q
    proof (cases "h = css_group t")
      case True
      then show ?thesis using that 3(6,7) lk by (simp add: same_links_def)
    next
      case False
      then obtain q' where "q' \<in> set (css_groups t)" "tg_parent (k_tgs k h) = Some q'"
        using css_wf_parent[OF tg_tree_css_wf h] 3(6) by auto
      then show ?thesis using that 3(7) lk by (auto simp: same_links_def)
    qed
    moreover have "h \<notin> set (concat (map css_groups ts))" using h 3(7) by auto
    ultimately show ?thesis using one(1)[OF h] rest(2) by (subst holds_at_cong[of _ _ k1]) auto
  qed
  with rest one(2) show ?case by auto
qed

text \<open>The result of the walk is one of \<open>down\<close>'s.\<close>

lemma visit_result:
  "(\<And>g k. fst (down g k) = 0 \<or> fst (down g k) = e) \<Longrightarrow> up = tg_nop \<Longrightarrow>
     fst (visit_tree down up t k) = 0 \<or> fst (visit_tree down up t k) = e"
  "(\<And>g k. fst (down g k) = 0 \<or> fst (down g k) = e) \<Longrightarrow> up = tg_nop \<Longrightarrow>
     fst (visit_trees down up ts k) = 0 \<or> fst (visit_trees down up ts k) = e"
proof (induction down up t k and down up ts k rule: visit_tree_visit_trees.induct)
  case (1 down up g ts k)
  obtain r1 k1 where d: "down g k = (r1, k1)" by fastforce
  obtain r2 k2 where c: "visit_trees down up ts k1 = (r2, k2)" by fastforce
  have "r1 = 0 \<or> r1 = e" using 1(2)[of g k] d by simp
  moreover have "r1 = 0 \<Longrightarrow> r2 = 0 \<or> r2 = e" using 1(1)[OF d[symmetric] refl _ 1(2,3)] c by simp
  ultimately show ?case using d c 1(3) by (auto simp: tg_nop_def)
next
  case (3 down up t ts k)
  obtain r1 k1 where d: "visit_tree down up t k = (r1, k1)" by fastforce
  have "r1 = 0 \<or> r1 = e" using 3(1)[OF 3(3,4)] d by simp
  moreover have "r1 = 0 \<Longrightarrow> fst (visit_trees down up ts k1) = 0 \<or> fst (visit_trees down up ts k1) = e"
    using 3(2)[OF d[symmetric] refl _ 3(3,4)] by simp
  ultimately show ?case using d by auto
qed simp

section \<open>Hierarchical quotas\<close>

lemma schedulable_down_links: "keeps_links (tg_cfs_schedulable_down env d)"
  by (auto simp: keeps_links_def same_links_def tg_cfs_schedulable_down_def Let_def upd_bw_def
      split: option.splits)

lemma schedulable_down_other:
  "h \<noteq> g \<Longrightarrow> k_tgs (snd (tg_cfs_schedulable_down env d g k)) h = k_tgs k h"
  by (auto simp: tg_cfs_schedulable_down_def Let_def upd_bw_def split: option.splits)

lemma tg_nop_links: "keeps_links tg_nop"
  by (simp add: keeps_links_def tg_nop_def)

abbreviation hquota :: "task_group \<Rightarrow> u64" where
  "hquota t \<equiv> cb_hierarchical_quota (tg_cfs_bandwidth t)"

lemma sint_runtime_inf: "sint RUNTIME_INF = - 1"
  by (simp add: RUNTIME_INF_def)

lemma normalize_not_negative:
  "normalize_cfs_quota g d k = RUNTIME_INF \<or> 0 \<le> sint (normalize_cfs_quota g d k)"
proof -
  have "0 \<le> sint (ucast (w :: u32) :: u64)" for w
  proof -
    have "uint (ucast w :: u64) = uint w"
      by (simp add: unsigned_ucast_eq take_bit_int_eq_self_iff)
        (use uint_lt2p[of w] in simp)
    moreover have "sint (ucast w :: u64) = signed_take_bit 63 (uint (ucast w :: u64))"
      by (simp only: sint_uint) simp
    moreover have "signed_take_bit 63 (uint w) = uint w"
      by (rule signed_take_bit_int_eq_self)
        (rule order_trans[OF _ uint_ge_0], simp, use uint_lt2p[of w] in simp)
    ultimately show ?thesis by simp
  qed
  then show ?thesis by (simp add: normalize_cfs_quota_def Let_def split: prod.splits)
qed

text \<open>C38: On the second hierarchy the test of the bandwidths never fails and leaves no limit behind:
  every group of the tree gets the hierarchical quota \<open>RUNTIME_INF\<close>, whatever quota it has,
  because \<open>RUNTIME_INF\<close> is -1 as the signed number of which the minimum with the parent's is
  taken.\<close>

theorem cfs_schedulable_v2_unlimited:
  assumes "e_cgroup_v2 (group_of env)" and "tg_tree (k_tgs k) t" and "distinct (css_groups t)"
    and "css_group t = root_task_group" and "tg_parent (k_tgs k root_task_group) = None"
    and "2 * tree_size t \<le> n"
  shows "\<exists>k'. cfs_schedulable n env g period quota k = Some (0, k') \<and>
    (\<forall>h \<in> set (css_groups t). cb_hierarchical_quota (bw k' h) = RUNTIME_INF)"
proof -
  let ?d = "cfs_schedulable_for g period quota"
  let ?down = "tg_cfs_schedulable_down env ?d" and ?C = "\<lambda>t p. hquota t = RUNTIME_INF"
  have est: "establishes ?C ?down"
    unfolding establishes_def
  proof (intro conjI allI impI)
    fix h k k' assume d: "?down h k = (0, k')"
      and p: "\<forall>q. tg_parent (k_tgs k h) = Some q \<longrightarrow> q \<noteq> h \<and> holds_at ?C k q"
    show "holds_at ?C k' h"
    proof (cases "tg_parent (k_tgs k h)")
      case None
      with d show ?thesis by (auto simp: tg_cfs_schedulable_down_def upd_bw_def holds_at_def)
    next
      case (Some q)
      then have q: "hquota (k_tgs k q) = RUNTIME_INF" using p by (simp add: holds_at_def)
      have "\<not> sint (normalize_cfs_quota h ?d k) < - 1"
        using normalize_not_negative[of h ?d k] sint_runtime_inf by (elim disjE) simp_all
      with d Some assms(1) q show ?thesis
        by (auto simp: tg_cfs_schedulable_down_def Let_def upd_bw_def holds_at_def sint_runtime_inf)
    qed
  qed (simp_all add: schedulable_down_links schedulable_down_other)
  have "fst (?down h k) = 0" for h k
    using assms(1) by (simp add: tg_cfs_schedulable_down_def Let_def split: option.splits)
  then have "fst (visit_tree ?down tg_nop t k) = 0" using visit_result(1)[of ?down 0 tg_nop] by simp
  then obtain k' where v: "visit_tree ?down tg_nop t k = (0, k')" by (metis prod.collapse)
  have "walk_tg_tree n ?down tg_nop k = Some (0, k')"
    using walk_tree_eq_visit[OF schedulable_down_links[of env ?d] tg_nop_links assms(2-4,6)] v by simp
  then have "cfs_schedulable n env g period quota k = Some (0, k')"
    by (simp only: cfs_schedulable_def)
  moreover have "\<forall>h \<in> set (css_groups t). holds_at ?C k' h"
    using visit_establishes(1)[OF est refl v assms(2,3)] assms(4,5) by simp
  ultimately show ?thesis by (simp add: holds_at_def)
qed

text \<open>The groups of \<open>forest0\<close> on a machine with the second hierarchy.\<close>

definition group_v2 :: "(unit, list_heap) group_env" where
  "group_v2 = env.extend env0 (wake_ops.extend wake_ops0 (fork_ops.extend fork_ops0
     (group_ops0\<lparr>e_cgroup_v2 := True\<rparr>)))"

theorem cfs_schedulable_v2_unlimited_witness:
  "\<exists>k'. cfs_schedulable 8 group_v2 2 100000000 50000000 forest0 = Some (0, k') \<and>
     cb_hierarchical_quota (bw k' 2) = RUNTIME_INF"
proof -
  have "e_cgroup_v2 (group_of group_v2)" "tg_parent (k_tgs forest0 root_task_group) = None"
    by (simp_all add: group_v2_def fork_machine_defs forest0_def root_task_group_def tg0_def)
  moreover have "2 \<in> set (css_groups tree0)" by (simp add: tree0_def)
  ultimately show ?thesis
    using cfs_schedulable_v2_unlimited[OF _ forest0_tree(1-3), of group_v2 8 2 100000000 50000000]
      forest0_tree(4) by auto
qed

text \<open>C29: On the first hierarchy, when the test succeeds, no group of the tree has a larger
  hierarchical quota than its parent, unless the parent is unlimited; the only other outcome of
  the test is \<open>-EINVAL\<close>.\<close>

theorem cfs_schedulable_v1_nested:
  assumes "\<not> e_cgroup_v2 (group_of env)" and "tg_tree (k_tgs k) t" and "distinct (css_groups t)"
    and "css_group t = root_task_group" and "tg_parent (k_tgs k root_task_group) = None"
    and "2 * tree_size t \<le> n"
  shows "\<exists>r k'. cfs_schedulable n env g period quota k = Some (r, k') \<and> (r = 0 \<or> r = - EINVAL) \<and>
    (r = 0 \<longrightarrow> (\<forall>h \<in> set (css_groups t). \<forall>q. tg_parent (k_tgs k' h) = Some q \<longrightarrow>
       cb_hierarchical_quota (bw k' q) \<noteq> RUNTIME_INF \<longrightarrow>
       cb_hierarchical_quota (bw k' h) \<noteq> RUNTIME_INF \<and>
       sint (cb_hierarchical_quota (bw k' h)) \<le> sint (cb_hierarchical_quota (bw k' q))))"
proof -
  let ?d = "cfs_schedulable_for g period quota"
  let ?down = "tg_cfs_schedulable_down env ?d"
  let ?C = "\<lambda>t p. \<forall>q. p = Some q \<longrightarrow> hquota q \<noteq> RUNTIME_INF \<longrightarrow>
    hquota t \<noteq> RUNTIME_INF \<and> sint (hquota t) \<le> sint (hquota q)"
  have est: "establishes ?C ?down"
    unfolding establishes_def
  proof (intro conjI allI impI)
    fix h k k' assume d: "?down h k = (0, k')"
      and p: "\<forall>q. tg_parent (k_tgs k h) = Some q \<longrightarrow> q \<noteq> h \<and> holds_at ?C k q"
    show "holds_at ?C k' h"
      using d p assms(1)
      by (auto simp: tg_cfs_schedulable_down_def Let_def upd_bw_def holds_at_def EINVAL_def
          split: option.splits if_splits)
  qed (simp_all add: schedulable_down_links schedulable_down_other)
  obtain r k' where v: "visit_tree ?down tg_nop t k = (r, k')" by fastforce
  have r: "fst (?down h k) = 0 \<or> fst (?down h k) = - EINVAL" for h k
    by (simp add: tg_cfs_schedulable_down_def Let_def split: option.splits)
  have "r = 0 \<or> r = - EINVAL"
    using visit_result(1)[of ?down "- EINVAL" tg_nop t k] r v by simp
  moreover have "cfs_schedulable n env g period quota k = Some (r, k')"
    using walk_tree_eq_visit[OF schedulable_down_links[of env ?d] tg_nop_links assms(2-4,6)] v
    by (simp only: cfs_schedulable_def)
  moreover have "r = 0 \<Longrightarrow> \<forall>h \<in> set (css_groups t). holds_at ?C k' h"
    using visit_establishes(1)[OF est refl _ assms(2,3), of k'] v assms(4,5) by simp
  ultimately show ?thesis by (auto simp: holds_at_def)
qed

theorem cfs_schedulable_v1_nested_witness:
  "\<exists>r k'. cfs_schedulable 8 group0 2 100000000 50000000 forest0 = Some (r, k') \<and> (r = 0 \<or> r = - EINVAL)"
proof -
  have "tg_parent (k_tgs forest0 root_task_group) = None"
    by (simp add: forest0_def root_task_group_def tg0_def)
  then show ?thesis
    using cfs_schedulable_v1_nested[OF _ forest0_tree(1-3), of group0 8 2 100000000 50000000]
      forest0_tree(4) group0_env(7) by auto
qed

end
