(* ===== verification/Cpu_Files_Props.thy ===== *)
theory Cpu_Files_Props
  imports Bandwidth_Props
begin

text \<open>
  Properties of the files of the cpu controller: which bandwidths are accepted and what a refused
  one leaves, and that what is written to a file can be read back.
\<close>

section \<open>Accepted and refused bandwidths\<close>

definition bw_settings :: "('x, 'l) kernel \<Rightarrow> tgid \<Rightarrow> u64 \<times> u64 \<times> u64" where
  "bw_settings k g = (cb_period (bw k g), cb_quota (bw k g), cb_burst (bw k g))"

text \<open>\<open>unthrottle_cfs_rq\<close> puts a throttled queue back and keeps the settings.\<close>

definition unthrottle_keeps :: "('x, 'l, 'm) group_env_scheme \<Rightarrow> bool" where
  "unthrottle_keeps env \<longleftrightarrow> (\<forall>g c k. bw_settings (e_unthrottle (group_of env) g c k) = bw_settings k)"

lemma walk_keeps:
  "walk_tg_tree_from n down up rt pos k = Some (r, k') \<Longrightarrow>
   (\<And>g k. F (snd (down g k)) = F k) \<Longrightarrow> (\<And>g k. F (snd (up g k)) = F k) \<Longrightarrow> F k' = F k"
proof (induction n down up rt pos k rule: walk_tg_tree_from.induct)
  case (2 n down up rt g k)
  obtain r1 k1 where d: "down g k = (r1, k1)" by fastforce
  have f: "F k1 = F k" using 2(4)[of g k] d by simp
  from 2(3) d f show ?case
    using 2(1)[OF d[symmetric] refl _ _ _ 2(4,5)] 2(2)[OF d[symmetric] refl _ _ _ 2(4,5)]
    by (auto split: if_splits list.splits)
next
  case (3 n down up rt g k)
  obtain r1 k1 where d: "up g k = (r1, k1)" by fastforce
  have f: "F k1 = F k" using 3(5)[of g k] d by simp
  from 3(3) d f show ?case
    using 3(1)[OF d[symmetric] refl _ _ _ _ 3(4,5)] 3(2)[OF d[symmetric] refl _ _ _ _ 3(4,5)]
    by (auto split: if_splits list.splits option.splits)
qed simp

lemma walk_result:
  "walk_tg_tree_from n down up rt pos k = Some (r, k') \<Longrightarrow>
   (\<And>g k. fst (down g k) = 0 \<or> fst (down g k) = e) \<Longrightarrow> (\<And>g k. fst (up g k) = 0) \<Longrightarrow> r = 0 \<or> r = e"
proof (induction n down up rt pos k rule: walk_tg_tree_from.induct)
  case (2 n down up rt g k)
  obtain r1 k1 where d: "down g k = (r1, k1)" by fastforce
  have f: "r1 = 0 \<or> r1 = e" using 2(4)[of g k] d by simp
  from 2(3) d f show ?case
    using 2(1)[OF d[symmetric] refl _ _ _ 2(4,5)] 2(2)[OF d[symmetric] refl _ _ _ 2(4,5)]
    by (auto split: if_splits list.splits)
next
  case (3 n down up rt g k)
  obtain r1 k1 where d: "up g k = (r1, k1)" by fastforce
  have f: "r1 = 0" using 3(5)[of g k] d by simp
  from 3(3) d f show ?case
    using 3(1)[OF d[symmetric] refl _ _ _ _ 3(4,5)] 3(2)[OF d[symmetric] refl _ _ _ _ 3(4,5)]
    by (auto split: if_splits list.splits option.splits)
qed simp

lemma schedulable_settings:
  assumes "cfs_schedulable n env g period quota k = Some (r, k')"
  shows "bw_settings k' = bw_settings k" and "r = 0 \<or> r = - EINVAL"
proof -
  let ?d = "cfs_schedulable_for g period quota"
  note w = assms[unfolded cfs_schedulable_def walk_tg_tree_def]
  have "bw_settings (snd (tg_cfs_schedulable_down env ?d h k)) = bw_settings k" for h k
    by (auto simp: tg_cfs_schedulable_down_def Let_def upd_bw_def bw_settings_def fun_eq_iff
        split: option.splits)
  then show "bw_settings k' = bw_settings k"
    using walk_keeps[OF w, of bw_settings] by (simp add: tg_nop_def)
  have "fst (tg_cfs_schedulable_down env ?d h k) = 0 \<or>
      fst (tg_cfs_schedulable_down env ?d h k) = - EINVAL" for h k
    by (simp add: tg_cfs_schedulable_down_def Let_def split: option.splits)
  then show "r = 0 \<or> r = - EINVAL"
    using walk_result[OF w, of "- EINVAL"] by (simp add: tg_nop_def)
qed

lemma bw_settings_simps [simp]:
  "bw_settings (ext_do f k) = bw_settings k"
  "bw_settings (upd_bw g (\<lambda>b. b\<lparr>cb_runtime := h b\<rparr>) k) = bw_settings k"
  "bw_settings (upd_tg g (\<lambda>t. t\<lparr>tg_cfs_rq := c t\<rparr>) k) = bw_settings k"
  "bw_settings (upd_bw g (\<lambda>b. b\<lparr>cb_period := p, cb_quota := q, cb_burst := s\<rparr>) k) =
     (bw_settings k)(g := (p, q, s))"
  by (auto simp: bw_settings_def upd_bw_def fun_eq_iff)

lemma set_runtime_settings:
  assumes "unthrottle_keeps env"
  shows "bw_settings (fold (cfs_rq_set_runtime env g b) cs k) = bw_settings k"
  by (rule fold_keeps) (use assms in \<open>simp add: cfs_rq_set_runtime_def Let_def unthrottle_keeps_def\<close>)

lemma set_bandwidth_cases:
  assumes "unthrottle_keeps env" and "tg_set_cfs_bandwidth n env g period quota burst k = Some (r, k')"
  shows "(r = 0 \<and> cfs_bandwidth_valid g period quota burst \<and>
           bw_settings k' = (bw_settings k)(g := (period, quota, burst))) \<or>
         (r = - EINVAL \<and> bw_settings k' = bw_settings k)"
proof (cases "cfs_bandwidth_valid g period quota burst")
  case False
  with assms(2) show ?thesis by (simp add: tg_set_cfs_bandwidth_def)
next
  case True
  then obtain r1 k1 where s: "cfs_schedulable n env g period quota k = Some (r1, k1)"
    using assms(2) by (auto simp: tg_set_cfs_bandwidth_def bind_Some_iff)
  show ?thesis
  proof (cases "r1 = 0")
    case False
    then have "r = r1" "k' = k1"
      using assms(2) True s by (simp_all add: tg_set_cfs_bandwidth_def)
    with False schedulable_settings[OF s] show ?thesis by simp
  next
    case True': True
    have "r = 0 \<and> bw_settings k' = (bw_settings k1)(g := (period, quota, burst))"
      using assms(2) unfolding tg_set_cfs_bandwidth_def Let_def
      by (simp add: True True' s set_runtime_settings[OF assms(1)] split: if_splits)
        (auto simp: set_runtime_settings[OF assms(1)] True')
    with True schedulable_settings(1)[OF s] show ?thesis by simp
  qed
qed

text \<open>A bandwidth that is set lies in the documented limits (a period between 1 ms and 1 s, a quota
  of at least 1 ms, a burst below the quota when there is one) and changes the settings of its group
  only; a refused one returns \<open>-EINVAL\<close> and leaves the settings of every group as they were.\<close>

theorem cfs_bandwidth_set_or_refused:
  assumes "unthrottle_keeps env" and "tg_set_cfs_bandwidth n env g period quota burst k = Some (r, k')"
  shows "if r = 0
    then g \<noteq> root_task_group \<and> 1000000 \<le> period \<and> period \<le> 1000000000 \<and> 1000000 \<le> quota \<and>
      (quota \<noteq> RUNTIME_INF \<longrightarrow> burst \<le> quota \<and> quota \<le> max_cfs_runtime) \<and>
      bw_settings k' = (bw_settings k)(g := (period, quota, burst))
    else r = - EINVAL \<and> bw_settings k' = bw_settings k"
  using set_bandwidth_cases[OF assms]
  by (auto simp: cfs_bandwidth_valid_def min_cfs_quota_period_def max_cfs_quota_period_def EINVAL_def
      not_less split: if_splits)

lemma group0_unthrottle: "unthrottle_keeps group0"
  by (simp add: unthrottle_keeps_def group0_env)

theorem cfs_bandwidth_set_or_refused_witness:
  "bw_settings (snd (the (tg_set_cfs_bandwidth 8 group0 2 100000000 10 0 forest0))) = bw_settings forest0"
proof -
  obtain k' where r: "tg_set_cfs_bandwidth 8 group0 2 100000000 10 0 forest0 = Some (- EINVAL, k')"
    by (simp add: tg_set_cfs_bandwidth_def cfs_bandwidth_valid_def min_cfs_quota_period_def)
  with cfs_bandwidth_set_or_refused[OF group0_unthrottle r] show ?thesis by (simp add: EINVAL_def)
qed

section \<open>Numbers in microseconds\<close>

lemma to_long_word: "to_long (word_of_int v) = signed_take_bit 31 v"
  unfolding to_long_def by transfer (simp add: signed_take_bit_take_bit)

lemma to_long_int: "- (2 ^ 31) \<le> v \<Longrightarrow> v < 2 ^ 31 \<Longrightarrow> to_long (word_of_int v) = v"
  unfolding to_long_word by (rule signed_take_bit_int_eq_self) simp_all

lemma usec_div: "0 \<le> v \<Longrightarrow> v < 2 ^ 31 \<Longrightarrow> (word_of_int v * NSEC_PER_USEC) div NSEC_PER_USEC = (word_of_int v :: u64)"
proof -
  assume v: "0 \<le> v" "v < 2 ^ 31"
  have "uint ((word_of_int v * NSEC_PER_USEC) div NSEC_PER_USEC) = v"
    using v by (simp add: NSEC_PER_USEC_def uint_div uint_word_ariths uint_word_of_int take_bit_int_eq_self_iff)
  moreover have "uint (word_of_int v :: u64) = v" using v by (simp add: uint_word_of_int)
  ultimately show ?thesis by (metis word_uint_eq_iff)
qed

lemma usec_not_inf: "0 \<le> v \<Longrightarrow> v < 2 ^ 31 \<Longrightarrow> word_of_int v * NSEC_PER_USEC \<noteq> RUNTIME_INF"
proof -
  assume v: "0 \<le> v" "v < 2 ^ 31"
  have "uint (word_of_int v * NSEC_PER_USEC) = v * 1000"
    using v by (simp add: NSEC_PER_USEC_def uint_word_ariths uint_word_of_int)
  moreover have "uint RUNTIME_INF = 2 ^ 64 - 1" by (simp add: RUNTIME_INF_def unsigned_minus_1_eq_mask mask_eq_exp_minus_1)
  ultimately show ?thesis using v by fastforce
qed

text \<open>A quota that is written to \<open>cfs_quota_us\<close> and accepted is the one that is read back; every
  negative number is read back as -1. The period and the burst stay.\<close>

theorem cfs_quota_write_read:
  assumes "unthrottle_keeps env" and "- (2 ^ 31) \<le> v" and "v < 2 ^ 31"
    and "cpu_cfs_quota_write_s64 n env g v k = Some (0, k')"
  shows "cpu_cfs_quota_read_s64 k' g = (if v < 0 then - 1 else v) \<and>
    cpu_cfs_period_read_u64 k' g = cpu_cfs_period_read_u64 k g \<and>
    cpu_cfs_burst_read_u64 k' g = cpu_cfs_burst_read_u64 k g"
proof -
  let ?q = "if v < 0 then RUNTIME_INF else word_of_int v * NSEC_PER_USEC"
  have "tg_set_cfs_bandwidth n env g (cb_period (bw k g)) ?q (cb_burst (bw k g)) k = Some (0, k')"
    using assms(4)
    by (simp add: cpu_cfs_quota_write_s64_def tg_set_cfs_quota_def to_long_int[OF assms(2,3)] Let_def
        EINVAL_def split: if_splits)
  with set_bandwidth_cases[OF assms(1) this]
  have "bw_settings k' g = (cb_period (bw k g), ?q, cb_burst (bw k g))" by (simp add: EINVAL_def)
  moreover have "0 \<le> v \<Longrightarrow> word_of_int v * NSEC_PER_USEC \<noteq> RUNTIME_INF"
    using assms(3) usec_not_inf by blast
  ultimately show ?thesis
    using assms(2,3)
    by (auto simp: bw_settings_def cpu_cfs_quota_read_s64_def tg_get_cfs_quota_def usec_div to_long_int
        cpu_cfs_period_read_u64_def tg_get_cfs_period_def cpu_cfs_burst_read_u64_def tg_get_cfs_burst_def)
qed

lemma forest0_schedulable:
  "\<exists>k'. cfs_schedulable 8 group0 2 100000000 50000000 forest0 = Some (0, k')"
  unfolding cfs_schedulable_def
  by (subst walk_tree_eq_visit[OF schedulable_down_links tg_nop_links forest0_tree(1-3)])
    (simp_all add: forest0_tree(4), simp add: tree0_def tg_nop_def tg_cfs_schedulable_down_def
      Let_def forest0_def tg0_def bw0_def upd_bw_def normalize_cfs_quota_def group0_env
      cfs_schedulable_for_def bw_const_defs tg_get_cfs_quota_def tg_get_cfs_period_def to_long_def
      to_ratio_def)

theorem cfs_quota_write_read_witness:
  "\<exists>k'. cpu_cfs_quota_write_s64 8 group0 2 50000 forest0 = Some (0, k') \<and>
     cpu_cfs_quota_read_s64 k' 2 = 50000"
proof -
  obtain k1 where "cfs_schedulable 8 group0 2 100000000 50000000 forest0 = Some (0, k1)"
    using forest0_schedulable by blast
  then have "\<exists>k'. tg_set_cfs_bandwidth 8 group0 2 100000000 50000000 0 forest0 = Some (0, k')"
    by (simp add: tg_set_cfs_bandwidth_def cfs_bandwidth_valid_def bw_const_defs root_task_group_def
        Let_def)
  then obtain k' where "cpu_cfs_quota_write_s64 8 group0 2 50000 forest0 = Some (0, k')"
    using to_long_int[of 50000]
    by (auto simp: cpu_cfs_quota_write_s64_def tg_set_cfs_quota_def forest0_def tg0_def bw0_def Let_def
        NSEC_PER_USEC_def U64_MAX_def)
  with cfs_quota_write_read[OF group0_unthrottle _ _ this] show ?thesis by simp
qed

section \<open>Shares and weights\<close>

text \<open>\<open>sched_group_set_shares\<close> keeps the shares between \<open>MIN_SHARES\<close> and \<open>MAX_SHARES\<close>.\<close>

definition sets_shares :: "('x, 'l, 'm) group_env_scheme \<Rightarrow> tgid \<Rightarrow> bool" where
  "sets_shares env g \<longleftrightarrow> (\<forall>w k. fst (e_set_shares (group_of env) g w k) = 0 \<and>
     tg_shares (k_tgs (snd (e_set_shares (group_of env) g w k)) g) = max 2 (min MAX_SHARES w))"

lemma set_shares_exact:
  assumes "sets_shares env g" and "2 \<le> w" and "w \<le> 262144"
  shows "\<exists>k'. e_set_shares (group_of env) g w k = (0, k') \<and> tg_shares (k_tgs k' g) = w"
proof -
  have "max 2 (min MAX_SHARES w) = w" using assms(2,3) by (simp add: MAX_SHARES_def)
  with assms(1) show ?thesis unfolding sets_shares_def by (metis prod.collapse)
qed

lemma unat_div_round:
  "unat x + unat d div 2 < 2 ^ 64 \<Longrightarrow> unat (div_round_closest x d) = (unat x + unat d div 2) div unat d"
  by (simp add: div_round_closest_def unat_div unat_word_ariths)

lemma weight_exact:
  assumes "1 \<le> w" and "w \<le> 10000"
  shows "div_round_closest (ucast (ucast (div_round_closest (w * 1024) 100) :: u32) * 100) 1024 = w"
    and "2 \<le> (ucast (div_round_closest (w * 1024) 100) :: u32)"
    and "(ucast (div_round_closest (w * 1024) 100) :: u32) \<le> 262144"
proof -
  define n where "n = unat w"
  have n: "1 \<le> n" "n \<le> 10000" using assms by (simp_all add: n_def word_le_nat_alt)
  let ?x = "(n * 1024 + 50) div 100"
  have "unat (w * 1024) = n * 1024" using n by (simp add: unat_word_ariths n_def)
  then have x: "unat (div_round_closest (w * 1024) 100) = ?x"
    using n by (subst unat_div_round) simp_all
  have b: "10 \<le> ?x" "?x \<le> 102400" using n by linarith+
  have ux: "unat (ucast (div_round_closest (w * 1024) 100) :: u32) = ?x"
    using x b by (simp add: unsigned_ucast_eq take_bit_nat_eq_self_iff)
  have "unat (ucast (ucast (div_round_closest (w * 1024) 100) :: u32) * 100 :: u64) = ?x * 100"
    using ux b by (simp add: unat_word_ariths unat_ucast_up)
  then have "unat (div_round_closest (ucast (ucast (div_round_closest (w * 1024) 100) :: u32) * 100) 1024) =
      (?x * 100 + 512) div 1024"
    using b by (subst unat_div_round) simp_all
  also have "\<dots> = n" using n by linarith
  finally show "div_round_closest (ucast (ucast (div_round_closest (w * 1024) 100) :: u32) * 100) 1024 = w"
    by (simp add: n_def word_unat_eq_iff)
  show "2 \<le> (ucast (div_round_closest (w * 1024) 100) :: u32)"
    "(ucast (div_round_closest (w * 1024) 100) :: u32) \<le> 262144"
    using ux b by (simp_all add: word_le_nat_alt)
qed

text \<open>A weight from 1 to 10000 that is written to \<open>cpu.weight\<close> is read back unchanged, as the
  comment of the code claims: the two conversions to and from shares cancel over the whole range.\<close>

theorem cpu_weight_write_read:
  assumes "sets_shares env g" and "1 \<le> w" and "w \<le> 10000"
  shows "\<exists>k'. cpu_weight_write_u64 env g w k = (0, k') \<and> cpu_weight_read_u64 k' g = w"
proof -
  let ?s = "ucast (div_round_closest (w * 1024) 100) :: u32"
  obtain k' where k': "e_set_shares (group_of env) g ?s k = (0, k')" "tg_shares (k_tgs k' g) = ?s"
    using set_shares_exact[OF assms(1)] weight_exact(2,3)[OF assms(2,3)] by blast
  have "cpu_weight_write_u64 env g w k = (0, k')"
    using k'(1) leD[OF assms(2)] leD[OF assms(3)]
    by (simp only: cpu_weight_write_u64_def scale_load_def CGROUP_WEIGHT_MIN_def CGROUP_WEIGHT_MAX_def
        CGROUP_WEIGHT_DFL_def Let_def simp_thms if_False)
  moreover have "cpu_weight_read_u64 k' g = w"
    using k'(2) weight_exact(1)[OF assms(2,3)]
    by (simp only: cpu_weight_read_u64_def Let_def scale_load_down_def CGROUP_WEIGHT_DFL_def)
  ultimately show ?thesis by blast
qed

lemma group0_shares: "sets_shares group0 g"
  by (simp add: sets_shares_def group0_env MAX_SHARES_def)

theorem cpu_weight_write_read_witness:
  "\<exists>k'. cpu_weight_write_u64 group0 2 333 forest0 = (0, k') \<and> cpu_weight_read_u64 k' 2 = 333"
  by (rule cpu_weight_write_read[OF group0_shares]) simp_all

text \<open>The loop finds the entry that is the weight itself.\<close>

lemma closest_exact: "\<forall>i \<in> {..<40}. closest_prio (sched_prio_to_weight ! i) sched_prio_to_weight 0 (2 ^ 31 - 1) = int i + 1"
  by (simp add: sched_prio_to_weight_def lessThan_nat_numeral lessThan_Suc)

text \<open>A nice value from -20 to 19 that is written to \<open>cpu.weight.nice\<close> is read back unchanged;
  any other is refused with \<open>-ERANGE\<close>.\<close>

theorem cpu_weight_nice_write_read:
  assumes "sets_shares env g"
  shows "if MIN_NICE \<le> nice \<and> nice \<le> MAX_NICE
    then \<exists>k'. cpu_weight_nice_write_s64 env g nice k = (0, k') \<and> cpu_weight_nice_read_s64 k' g = nice
    else cpu_weight_nice_write_s64 env g nice k = (- ERANGE, k)"
proof (cases "MIN_NICE \<le> nice \<and> nice \<le> MAX_NICE")
  case False
  then show ?thesis by (auto simp: cpu_weight_nice_write_s64_def)
next
  case True
  let ?i = "nat (nice + 20)" and ?s = "sched_prio_to_weight ! nat (nice + 20)"
  have n: "- 20 \<le> nice" "nice \<le> 19" using True by (simp_all add: prio_consts)
  then have i: "?i < 40" "NICE_TO_PRIO nice - MAX_RT_PRIO = nice + 20" "nice + 20 < 40"
    by (simp_all add: prio_consts NICE_TO_PRIO_def)
  have "\<forall>w \<in> set sched_prio_to_weight. 2 \<le> w \<and> w \<le> 262144"
    by (simp add: sched_prio_to_weight_def)
  moreover have "?s \<in> set sched_prio_to_weight"
    using i(1) by (intro nth_mem) (simp add: sched_prio_to_weight_def)
  ultimately obtain k' where k': "e_set_shares (group_of env) g ?s k = (0, k')" "tg_shares (k_tgs k' g) = ?s"
    using set_shares_exact[OF assms] by blast
  have "closest_prio ?s sched_prio_to_weight 0 (2 ^ 31 - 1) = int ?i + 1"
    using closest_exact i(1) by blast
  moreover have "PRIO_TO_NICE (int ?i + MAX_RT_PRIO) = nice"
    using n(1) by (simp add: PRIO_TO_NICE_def prio_consts)
  ultimately have "cpu_weight_nice_read_s64 k' g = nice"
    by (simp add: cpu_weight_nice_read_s64_def Let_def scale_load_down_def k'(2))
  moreover have "cpu_weight_nice_write_s64 env g nice k = (0, k')"
    using True i k'(1) by (simp add: cpu_weight_nice_write_s64_def Let_def scale_load_def not_less)
  ultimately show ?thesis using True by auto
qed

theorem cpu_weight_nice_write_read_witness:
  "\<exists>k'. cpu_weight_nice_write_s64 group0 2 (- 7) forest0 = (0, k') \<and> cpu_weight_nice_read_s64 k' 2 = - 7"
  using cpu_weight_nice_write_read[OF group0_shares, where nice="- 7" and k=forest0] by (simp add: prio_consts)

section \<open>The text of \<open>cpu.max\<close>\<close>

lemma decimal_digits: "c \<in> set (decimal n) \<Longrightarrow> is_digit c"
proof (induction n rule: decimal.induct)
  case (1 n)
  have "is_digit (digit_char d)" if "d < 10" for d
    using that by (simp add: is_digit_def digit_char_def)
  with 1 show ?case by (subst (asm) decimal.simps) (auto split: if_splits)
qed

lemma decimal_not_Nil: "decimal n \<noteq> []" by (subst decimal.simps) simp

lemma digits_value_decimal: "digits_value (decimal n) = of_nat n"
proof (induction n rule: decimal.induct)
  case (1 n)
  have d: "d < 10 \<Longrightarrow> of_char (digit_char d) = 48 + d" for d by (simp add: digit_char_def)
  show ?case
  proof (cases "n < 10")
    case True
    then show ?thesis by (subst decimal.simps) (simp add: digits_value_def d)
  next
    case False
    then have "digits_value (decimal n) = of_nat (n div 10) * 10 + of_nat (n mod 10)"
      using 1 by (subst decimal.simps) (simp add: digits_value_def d)
    also have "\<dots> = of_nat (n div 10 * 10 + n mod 10)"
      by (simp only: of_nat_add of_nat_mult of_nat_numeral)
    finally show ?thesis by (simp only: div_mult_mod_eq)
  qed
qed

lemma decimal_length: "n < 10 ^ Suc d \<Longrightarrow> length (decimal n) \<le> Suc d"
proof (induction d arbitrary: n)
  case 0
  then show ?case by (subst decimal.simps) simp
next
  case (Suc d)
  then have "n div 10 < 10 ^ Suc d" by (simp add: less_mult_imp_div_less)
  from Suc.IH[OF this] show ?case by (subst decimal.simps) simp
qed

lemma digit_not_space: "is_digit c \<Longrightarrow> \<not> is_space c"
  by (auto simp: is_digit_def is_space_def)

lemma space_char: "is_space (CHR '' '')" "\<not> is_digit (CHR '' '')"
  by (simp_all add: is_space_def is_digit_def)

lemma scan_token_word:
  assumes "\<forall>c \<in> set tok. \<not> is_space c" and "tok \<noteq> []" and "length tok \<le> 20"
  shows "scan_token 20 (tok @ CHR '' '' # rest) = (tok, CHR '' '' # rest)"
proof -
  obtain c cs where t: "tok = c # cs" using assms(2) by (cases tok) auto
  have "dropWhile is_space (tok @ CHR '' '' # rest) = tok @ CHR '' '' # rest"
    using assms(1) t by simp
  moreover have "takeWhile (\<lambda>c. \<not> is_space c) (take 20 (tok @ CHR '' '' # rest)) = tok"
  proof -
    obtain us where "take 20 (tok @ CHR '' '' # rest) = tok @ us" "us = [] \<or> hd us = CHR '' ''"
      using assms(3) by (cases "20 - length tok") auto
    then show ?thesis using assms(1) space_char by (cases us) (auto simp: takeWhile_append)
  qed
  ultimately show ?thesis by (simp add: scan_token_def Let_def)
qed

lemma scan_decimal:
  assumes "rest = [] \<or> \<not> is_digit (hd rest)"
  shows "scan_u64 (decimal n @ rest) = Some (of_nat n)"
proof -
  have "dropWhile is_space (decimal n @ rest) = decimal n @ rest"
    using decimal_digits[of "hd (decimal n)" n] decimal_not_Nil[of n] digit_not_space
    by (cases "decimal n") auto
  moreover have "takeWhile is_digit (decimal n @ rest) = decimal n"
    using decimal_digits[of _ n] assms by (cases rest) (auto simp: takeWhile_append)
  ultimately show ?thesis
    by (simp add: scan_u64_def Let_def decimal_not_Nil digits_value_decimal)
qed

lemma parse_print:
  assumes "0 \<le> p" and "q < 2 ^ 31"
  shows "cpu_period_quota_parse (cpu_period_quota_print p q) old =
    Inr (word_of_int p * NSEC_PER_USEC, if q < 0 then RUNTIME_INF else word_of_int q * NSEC_PER_USEC)"
proof -
  let ?tok = "if q < 0 then ''max'' else decimal (nat q)"
  let ?rest = "decimal (nat p) @ newline"
  have pr: "cpu_period_quota_print p q = ?tok @ CHR '' '' # ?rest"
    using assms(1) by (simp add: cpu_period_quota_print_def decimal_int_def)
  have "length (decimal (nat q)) \<le> Suc 9"
    by (rule decimal_length) (use assms(2) in simp)
  then have tok: "\<forall>c \<in> set ?tok. \<not> is_space c" "?tok \<noteq> []" "length ?tok \<le> 20"
    using decimal_digits[of _ "nat q"] digit_not_space decimal_not_Nil[of "nat q"]
    by (auto simp: is_space_def)
  have "scan_u64 (CHR '' '' # ?rest) = scan_u64 ?rest"
    by (simp add: scan_u64_def space_char)
  also have "\<dots> = Some (of_nat (nat p))"
    by (rule scan_decimal) (simp add: newline_def is_digit_def)
  finally have per: "scan_u64 (CHR '' '' # ?rest) = Some (word_of_int p)" using assms(1) by simp
  have "scan_u64 ''max'' = None" by (simp add: scan_u64_def is_space_def is_digit_def)
  moreover have "scan_u64 (decimal (nat q)) = Some (of_nat (nat q))"
    using scan_decimal[of "[]" "nat q"] by simp
  ultimately show ?thesis
    unfolding cpu_period_quota_parse_def pr scan_token_word[OF tok] prod.case Let_def
    using tok(2) per by (cases "q < 0") simp_all
qed

text \<open>C31: Writing to \<open>cpu.max\<close> the text that was read from it asks for the bandwidth the group has,
  when its period and its quota are whole microseconds below 2^31: what is printed is parsed to the
  same numbers, with \<open>max\<close> for no quota.\<close>

theorem cpu_max_show_write:
  assumes "cb_period (bw k g) = word_of_int p * NSEC_PER_USEC" and "0 \<le> p" and "p < 2 ^ 31"
    and "cb_quota (bw k g) = (if q < 0 then RUNTIME_INF else word_of_int q * NSEC_PER_USEC)"
    and "q < 2 ^ 31"
  shows "cpu_max_write n env g (cpu_max_show k g) nbytes k =
    map_option (\<lambda>(r, k'). (if r \<noteq> 0 then r else nbytes, k'))
      (tg_set_cfs_bandwidth n env g (cb_period (bw k g)) (cb_quota (bw k g)) (cb_burst (bw k g)) k)"
proof -
  have p: "tg_get_cfs_period k g = p"
    using assms(1-3) by (simp add: tg_get_cfs_period_def usec_div to_long_int)
  have q: "tg_get_cfs_quota k g = (if q < 0 then - 1 else q)"
    using assms(4,5) usec_not_inf[of q] by (auto simp: tg_get_cfs_quota_def usec_div to_long_int)
  have "cpu_period_quota_parse (cpu_max_show k g) old =
      Inr (cb_period (bw k g), cb_quota (bw k g))" for old
    unfolding cpu_max_show_def p q using assms(1,2,4,5) by (subst parse_print) auto
  then show ?thesis
    by (simp add: cpu_max_write_def Let_def)
      (cases "tg_set_cfs_bandwidth n env g (cb_period (bw k g)) (cb_quota (bw k g)) (cb_burst (bw k g)) k";
        auto)
qed

theorem cpu_max_show_write_witness:
  "cpu_max_show forest0 2 = ''max 100000'' @ newline \<and>
   cpu_max_write 8 group0 2 (cpu_max_show forest0 2) 11 forest0 =
     map_option (\<lambda>(r, k'). (if r \<noteq> 0 then r else 11, k'))
       (tg_set_cfs_bandwidth 8 group0 2 100000000 RUNTIME_INF 0 forest0)"
proof -
  have b: "cb_period (bw forest0 2) = 100000000" "cb_quota (bw forest0 2) = RUNTIME_INF"
    "cb_burst (bw forest0 2) = 0"
    by (simp_all add: forest0_def tg0_def bw0_def RUNTIME_INF_def)
  then have "tg_get_cfs_period forest0 2 = 100000" "tg_get_cfs_quota forest0 2 = - 1"
    using to_long_int[of 100000] by (simp_all add: tg_get_cfs_period_def tg_get_cfs_quota_def NSEC_PER_USEC_def)
  then have "cpu_max_show forest0 2 = ''max 100000'' @ newline"
    by (simp add: cpu_max_show_def cpu_period_quota_print_def decimal_int_def decimal.simps digit_char_def
        char_of_def bit_0)
  moreover have "cb_period (bw forest0 2) = word_of_int 100000 * NSEC_PER_USEC"
    "cb_quota (bw forest0 2) = (if (- 1 :: int) < 0 then RUNTIME_INF else word_of_int (- 1) * NSEC_PER_USEC)"
    using b by (simp_all add: NSEC_PER_USEC_def)
  ultimately show ?thesis
    using cpu_max_show_write[of forest0 2 100000 "- 1" 8 group0 11] b by simp
qed

text \<open>A quota between 2^31 and 2^32 microseconds is negative as a \<open>long\<close>, and is shown as no quota
  at all.\<close>

theorem cpu_max_hides_big_quota:
  assumes "cb_quota (bw k g) = word_of_int q * NSEC_PER_USEC" and "2 ^ 31 \<le> q" and "q < 2 ^ 32"
  shows "\<exists>period. cpu_max_show k g = ''max '' @ period \<and> cb_quota (bw k g) \<noteq> RUNTIME_INF"
proof -
  have u: "uint (cb_quota (bw k g)) = q * 1000"
    using assms by (simp add: NSEC_PER_USEC_def uint_word_ariths uint_word_of_int)
  have "cb_quota (bw k g) \<noteq> RUNTIME_INF"
  proof
    assume "cb_quota (bw k g) = RUNTIME_INF"
    then have "q * 1000 = 2 ^ 64 - 1"
      using u by (simp add: RUNTIME_INF_def unsigned_minus_1_eq_mask mask_eq_exp_minus_1)
    with assms(3) show False by simp
  qed
  moreover have "cb_quota (bw k g) div NSEC_PER_USEC = word_of_int q"
    using u assms(2,3)
    by (simp add: word_uint_eq_iff uint_div NSEC_PER_USEC_def uint_word_of_int)
  moreover have "q div 2147483648 = 1" using assms(2,3) by (simp add: div_pos_geq)
  then have "signed_take_bit 31 q = q - 2 ^ 32"
    using assms(2,3)
    by (simp add: signed_take_bit_eq_take_bit_minus take_bit_int_eq_self bit_iff_odd)
  ultimately have "tg_get_cfs_quota k g < 0"
    using assms(3) by (simp add: tg_get_cfs_quota_def to_long_word)
  with \<open>cb_quota (bw k g) \<noteq> RUNTIME_INF\<close> show ?thesis
    by (simp add: cpu_max_show_def cpu_period_quota_print_def)
qed

theorem cpu_max_hides_big_quota_witness:
  "\<exists>period. cpu_max_show (upd_bw 2 (\<lambda>b. b\<lparr>cb_quota := word_of_int 3000000000 * NSEC_PER_USEC\<rparr>) forest0) 2 =
     ''max '' @ period"
  using cpu_max_hides_big_quota[of "upd_bw 2 (\<lambda>b. b\<lparr>cb_quota := word_of_int 3000000000 * NSEC_PER_USEC\<rparr>) forest0"
      2 3000000000] by (auto simp: upd_bw_def)

end
