(* ===== verification/Affine_Move.thy ===== *)
theory Affine_Move
  imports Fork Setscheduler
begin

text \<open>
  Changing the affinity of a task (\<open>core.c\<close>, lines 2148 to 2173, 2294 to 2439, 2639 to 3024, 3082 to
  3195, 5146 to 5166 and 8831 to 8846): the request that waits until the task is on an allowed CPU,
  the stopper functions that move it, and the swap of two tasks.

  A \<open>struct set_affinity_pending\<close> lives on the stack of the caller that installs it; it is a
  numbered record of the kernel state, a fresh number for each call. The stop machine, the
  completions a caller sleeps on and the masks of the cpusets are outside.

  \<open>e_wait_completion\<close> and \<open>e_wait_refs\<close> are the state after the steps of the other CPUs that end a
  wait, and \<open>None\<close> a wait that does not end. \<open>e_stop_one_cpu\<close> and \<open>e_stop_two_cpus\<close> are the
  result of the stop function and the state when the caller goes on.
\<close>

text \<open>The argument of \<open>migration_cpu_stop\<close> is a pointer: to a structure on the caller's stack, which
  does not change, or into a request, whose destination a later caller may change before the stopper
  runs.\<close>

(* core.c 2249-2253: struct migration_arg *)
datatype migration_arg = Own_arg tid cpu | Pending_arg tid nat

fun arg_task :: "migration_arg \<Rightarrow> tid" where
  "arg_task (Own_arg p c) = p"
| "arg_task (Pending_arg p i) = p"

fun arg_dest_cpu :: "('x, 'l) kernel \<Rightarrow> migration_arg \<Rightarrow> cpu" where
  "arg_dest_cpu k (Own_arg p c) = c"
| "arg_dest_cpu k (Pending_arg p i) = sp_dest_cpu (k_pendings k i)"

fun arg_pending :: "migration_arg \<Rightarrow> nat option" where
  "arg_pending (Own_arg p c) = None"
| "arg_pending (Pending_arg p i) = Some i"

(* core.c 3112-3115: struct migration_swap_arg *)
record migration_swap_arg =
  ms_src_task :: tid
  ms_dst_task :: tid
  ms_src_cpu :: cpu
  ms_dst_cpu :: cpu

datatype stop_work = Migration_stop migration_arg | Push_stop tid

record ('x, 'l) affine_ops =
  e_stop_nowait :: "cpu \<Rightarrow> stop_work \<Rightarrow> ('x, 'l) kernel \<Rightarrow> 'x"
  e_stop_one_cpu :: "cpu \<Rightarrow> stop_work \<Rightarrow> ('x, 'l) kernel \<Rightarrow> (int \<times> ('x, 'l) kernel) option"
  e_stop_two_cpus ::
    "cpu \<Rightarrow> cpu \<Rightarrow> migration_swap_arg \<Rightarrow> ('x, 'l) kernel \<Rightarrow> (int \<times> ('x, 'l) kernel) option"
  e_wait_completion :: "nat \<Rightarrow> ('x, 'l) kernel \<Rightarrow> ('x, 'l) kernel option"
  e_wait_refs :: "nat \<Rightarrow> ('x, 'l) kernel \<Rightarrow> ('x, 'l) kernel option"
  e_wake_refs :: "nat \<Rightarrow> ('x, 'l) kernel \<Rightarrow> 'x"
  e_flush_smp_calls :: "('x, 'l) kernel \<Rightarrow> ('x, 'l) kernel option"
  e_any_and_distribute :: "cpu set \<Rightarrow> cpu set \<Rightarrow> ('x, 'l) kernel \<Rightarrow> nat \<times> 'x"
  e_cpuset_cpus_allowed :: "tid \<Rightarrow> ('x, 'l) kernel \<Rightarrow> cpu set"
  e_alloc_mask_ok :: "('x, 'l) kernel \<Rightarrow> bool"
  e_ns_capable_nice :: "tid \<Rightarrow> ('x, 'l) kernel \<Rightarrow> bool"
  e_cpumask_size :: u32
  e_copy_mask_from_user :: "u32 \<Rightarrow> u32 \<Rightarrow> ('x, 'l) kernel \<Rightarrow> cpu set option"
  e_copy_mask_to_user :: "u32 \<Rightarrow> cpu set \<Rightarrow> u32 \<Rightarrow> ('x, 'l) kernel \<Rightarrow> 'x option"
  e_relax :: "('x, 'l) kernel \<Rightarrow> ('x, 'l) kernel option"
  e_schedule_hrtimeout :: "('x, 'l) kernel \<Rightarrow> ('x, 'l) kernel option"

type_synonym ('x, 'l, 'm) affine_env_scheme = "('x, 'l, ('x, 'l, 'm) affine_ops_scheme) fork_env_scheme"
type_synonym ('x, 'l) affine_env = "('x, 'l, unit) affine_env_scheme"

abbreviation affine_of :: "('x, 'l, 'm) affine_env_scheme \<Rightarrow> ('x, 'l, 'm) affine_ops_scheme" where
  "affine_of env \<equiv> fork_ops.more (fork_of env)"

(* sched.h 1155-1155: MDF_PUSH *)
definition MDF_PUSH :: "16 word" where "MDF_PUSH = 0x01"

definition upd_pending ::
    "nat \<Rightarrow> (set_affinity_pending \<Rightarrow> set_affinity_pending) \<Rightarrow> ('x, 'l) kernel \<Rightarrow> ('x, 'l) kernel" where
  "upd_pending i f k = k\<lparr>k_pendings := (k_pendings k)(i := f (k_pendings k i))\<rparr>"

definition complete_all :: "nat \<Rightarrow> ('x, 'l) kernel \<Rightarrow> ('x, 'l) kernel" where
  "complete_all i = upd_pending i (\<lambda>s. s\<lparr>sp_done := True\<rparr>)"

definition active_mask :: "('x, 'l, 'm) env_scheme \<Rightarrow> ('x, 'l) kernel \<Rightarrow> cpu set" where
  "active_mask env k = set (filter (\<lambda>c. e_cpu_active env c k) [0 ..< e_nr_cpu_ids env])"

definition online_mask :: "('x, 'l, 'm) env_scheme \<Rightarrow> ('x, 'l) kernel \<Rightarrow> cpu set" where
  "online_mask env k = set (filter (\<lambda>c. e_cpu_online env c k) [0 ..< e_nr_cpu_ids env])"

section \<open>The stopper functions\<close>

text \<open>The end of \<open>migration_cpu_stop\<close> at \<open>out:\<close>.\<close>

(* core.c !2386-2395: migration_cpu_stop (out) *)
definition migration_stop_out :: "nat option \<Rightarrow> bool \<Rightarrow> ('x, 'l) kernel \<Rightarrow> ('x, 'l) kernel" where
  "migration_stop_out pending complete k =
     (case pending of
        None \<Rightarrow> k
      | Some i \<Rightarrow>
          let k = upd_pending i (\<lambda>s. s\<lparr>sp_stop_pending := False\<rparr>) k
          in if complete then complete_all i k else k)"

(* core.c 2294-2396: migration_cpu_stop *)
definition migration_cpu_stop ::
    "('x, 'l, 'm) affine_env_scheme \<Rightarrow> migration_arg \<Rightarrow> ('x, 'l) kernel \<Rightarrow>
     (int \<times> ('x, 'l) kernel) option" where
  "migration_cpu_stop env arg k = do {
     let pending = arg_pending arg;
     let p = arg_task arg;
     let c = k_this_cpu k;
     k \<leftarrow> e_flush_smp_calls (affine_of env) k;
     let k = warn_on ''migration_cpu_stop: pending''
       (pending \<noteq> None \<and> pending \<noteq> t_migration_pending (tsk k p)) k;
     let uninstall = upd_task p (\<lambda>t. t\<lparr>t_migration_pending := None\<rparr>);
     if task_cpu k p = c then
       (if is_migration_disabled env (tsk k p) then Some (0, migration_stop_out pending False k)
        else
          let complete = (pending \<noteq> None);
              k = (if complete then uninstall k else k)
          in if complete \<and> task_cpu k p \<in> t_cpus_mask (tsk k p)
             then Some (0, migration_stop_out pending complete k)
             else if task_on_rq_queued k p
             then do {
               (_, k) \<leftarrow> migrate_task env c p (arg_dest_cpu k arg) k;
               Some (0, migration_stop_out pending complete k)
             }
             else Some (0, migration_stop_out pending complete
                             (upd_task p (\<lambda>t. t\<lparr>t_wake_cpu := arg_dest_cpu k arg\<rparr>) k)))
     else (case pending of
       None \<Rightarrow> Some (0, k)
     | Some i \<Rightarrow>
         if task_cpu k p \<in> cpus_ptr (tsk k p)
         then Some (0, migration_stop_out pending True (uninstall k))
         else let k = warn_on ''migration_cpu_stop: stop_pending'' (\<not> sp_stop_pending (k_pendings k i)) k
              in Some (0, ext_do (e_stop_nowait (affine_of env) (task_cpu k p) (Migration_stop (Pending_arg p i))) k))
   }"

(* core.c 2398-2439: push_cpu_stop *)
definition push_cpu_stop ::
    "('x, 'l, 'm) affine_env_scheme \<Rightarrow> tid \<Rightarrow> ('x, 'l) kernel \<Rightarrow> (int \<times> ('x, 'l) kernel) option"
where
  "push_cpu_stop env p k = do {
     let c = k_this_cpu k;
     let finish = (\<lambda>k. (0, ext_do (e_put_task (wake_of env) p) (upd_rq c (\<lambda>r. r\<lparr>rq_push_busy := False\<rparr>) k)));
     if task_cpu k p \<noteq> c then Some (finish k)
     else if is_migration_disabled env (tsk k p)
     then Some (finish (upd_task p (\<lambda>t. t\<lparr>t_migration_flags := t_migration_flags t OR MDF_PUSH\<rparr>) k))
     else
       let k = upd_task p (\<lambda>t. t\<lparr>t_migration_flags := clear_flag (t_migration_flags t) MDF_PUSH\<rparr>) k
       in case (case vt_find_lock_rq (cl env k p) of Some f \<Rightarrow> f p c k | None \<Rightarrow> None) of
            None \<Rightarrow> Some (finish k)
          | Some lowest \<Rightarrow>
              if task_cpu k p = c
              then do {
                k \<leftarrow> deactivate_task env c p 0 k;
                k \<leftarrow> set_task_cpu env p lowest k;
                k \<leftarrow> activate_task env lowest p 0 k;
                Some (finish (resched_curr env lowest k))
              } else Some (finish k)
   }"

section \<open>Moving the task of a request\<close>

(* core.c !2733-2746: affine_move_task (wait) *)
definition affine_wait ::
    "('x, 'l, 'm) affine_env_scheme \<Rightarrow> nat \<Rightarrow> nat \<Rightarrow> ('x, 'l) kernel \<Rightarrow> (int \<times> ('x, 'l) kernel) option"
where
  "affine_wait env i my k = do {
     k \<leftarrow> (if sp_done (k_pendings k i) then Some k else e_wait_completion (affine_of env) i k);
     let k = upd_pending i (\<lambda>s. s\<lparr>sp_refs := sp_refs s - 1\<rparr>) k;
     let k = (if sp_refs (k_pendings k i) = 0 then ext_do (e_wake_refs (affine_of env) i) k else k);
     k \<leftarrow> (if sp_refs (k_pendings k my) = 0 then Some k else e_wait_refs (affine_of env) my k);
     Some (0, warn_on ''affine_move_task: stop_pending'' (sp_stop_pending (k_pendings k my)) k)
   }"

text \<open>The first case: the task may run where it is. A push that was asked for while migration was
  disabled is started, and a waiting request without a stopper on its way is completed.\<close>

(* core.c !2646-2680: affine_move_task (allowed) *)
definition affine_allowed ::
    "('x, 'l, 'm) affine_env_scheme \<Rightarrow> cpu \<Rightarrow> tid \<Rightarrow> u32 \<Rightarrow> ('x, 'l) kernel \<Rightarrow> ('x, 'l) kernel" where
  "affine_allowed env c p flags k =
     (let push = (has_flag flags SCA_MIGRATE_ENABLE \<and> has_flag (t_migration_flags (tsk k p)) MDF_PUSH \<and>
            \<not> rq_push_busy (cpu_rq k c));
          k = (if push then ext_do (e_get_task (wake_of env) p) (upd_rq c (\<lambda>r. r\<lparr>rq_push_busy := True\<rparr>) k) else k);
          complete = (case t_migration_pending (tsk k p) of
            Some i \<Rightarrow> if sp_stop_pending (k_pendings k i) then None else Some i | None \<Rightarrow> None);
          k = (if complete \<noteq> None then upd_task p (\<lambda>t. t\<lparr>t_migration_pending := None\<rparr>) k else k);
          k = (if push then ext_do (e_stop_nowait (affine_of env) c (Push_stop p)) k else k)
      in case complete of Some i \<Rightarrow> complete_all i k | None \<Rightarrow> k)"

text \<open>The caller's own record is \<open>my\<close>; a request that waits already is joined.\<close>

(* core.c !2682-2711: affine_move_task (install) *)
definition affine_install :: "tid \<Rightarrow> cpu \<Rightarrow> u32 \<Rightarrow> nat \<Rightarrow> ('x, 'l) kernel \<Rightarrow> ('x, 'l) kernel" where
  "affine_install p dest_cpu flags my k =
     (if has_flag flags SCA_MIGRATE_ENABLE then k
      else case t_migration_pending (tsk k p) of
        None \<Rightarrow> upd_task p (\<lambda>t. t\<lparr>t_migration_pending := Some my\<rparr>)
          (upd_pending my (\<lambda>s. s\<lparr>sp_refs := 1, sp_done := False, sp_dest_cpu := dest_cpu\<rparr>) k)
      | Some i \<Rightarrow> upd_pending i (\<lambda>s. s\<lparr>sp_refs := sp_refs s + 1, sp_dest_cpu := dest_cpu\<rparr>) k)"

(* core.c 2639-2779: affine_move_task *)
definition affine_move_task ::
    "('x, 'l, 'm) affine_env_scheme \<Rightarrow> cpu \<Rightarrow> tid \<Rightarrow> cpu \<Rightarrow> u32 \<Rightarrow> ('x, 'l) kernel \<Rightarrow>
     (int \<times> ('x, 'l) kernel) option" where
  "affine_move_task env c p dest_cpu flags k =
     (if task_cpu k p \<in> t_cpus_mask (tsk k p) then Some (0, affine_allowed env c p flags k)
      else
       let my = k_nr_pendings k;
           k = upd_pending my (\<lambda>_. pending_zero) (k\<lparr>k_nr_pendings := my + 1\<rparr>);
           k = affine_install p dest_cpu flags my k
       in case t_migration_pending (tsk k p) of
            None \<Rightarrow> Some (- EINVAL, warn_on ''affine_move_task: no pending'' True k)
          | Some i \<Rightarrow>
              if task_running (e_smp env) k c p \<or> t_state (tsk k p) = TASK_WAKING
              then
                let stop_pending = sp_stop_pending (k_pendings k i);
                    k = upd_pending i (\<lambda>s. s\<lparr>sp_stop_pending := True\<rparr>) k;
                    k = (if has_flag flags SCA_MIGRATE_ENABLE
                      then upd_task p (\<lambda>t. t\<lparr>t_migration_flags := clear_flag (t_migration_flags t) MDF_PUSH\<rparr>) k
                      else k);
                    k = (if \<not> stop_pending
                      then ext_do (e_stop_nowait (affine_of env) c
                             (Migration_stop (Pending_arg p i))) k
                      else k)
                in if has_flag flags SCA_MIGRATE_ENABLE then Some (0, k) else affine_wait env i my k
              else do {
                k \<leftarrow> (if \<not> is_migration_disabled env (tsk k p)
                  then do {
                    k \<leftarrow> (if task_on_rq_queued k p then move_queued_task env c p dest_cpu k else Some k);
                    Some (if sp_stop_pending (k_pendings k i) then k
                          else complete_all i (upd_task p (\<lambda>t. t\<lparr>t_migration_pending := None\<rparr>) k))
                  } else Some k);
                affine_wait env i my k
              })"

section \<open>Changing the mask\<close>

(* core.c !2791-2849: __set_cpus_allowed_ptr_locked (checks) *)
definition set_cpus_allowed_check ::
    "('x, 'l, 'm) affine_env_scheme \<Rightarrow> tid \<Rightarrow> cpu set \<Rightarrow> u32 \<Rightarrow> ('x, 'l) kernel \<Rightarrow>
     (int + cpu) \<times> ('x, 'l) kernel" where
  "set_cpus_allowed_check env p new_mask flags k =
     (let kthread = has_flag (t_flags (tsk k p)) PF_KTHREAD;
          valid = (if kthread \<or> is_migration_disabled env (tsk k p)
                   then online_mask env k else active_mask env k);
          pinned = (p = current_task k \<and> is_migration_disabled env (tsk k p) \<and>
                    task_cpu k p \<notin> new_mask)
      in if \<not> kthread \<and> \<not> new_mask \<subseteq> e_task_cpu_possible_mask env p k then (Inl (- EINVAL), k)
         else if has_flag flags SCA_CHECK \<and> has_flag (t_flags (tsk k p)) PF_NO_SETAFFINITY
         then (Inl (- EINVAL), k)
         else if \<not> has_flag flags SCA_MIGRATE_ENABLE \<and> t_cpus_mask (tsk k p) = new_mask
         then (Inl 0, k)
         else if \<not> has_flag flags SCA_MIGRATE_ENABLE \<and> pinned
         then (Inl (- EBUSY), warn_on ''__set_cpus_allowed_ptr_locked'' True k)
         else let (dest_cpu, x) = e_any_and_distribute (affine_of env) valid new_mask k;
                  k = k\<lparr>k_ext := x\<rparr>
              in if dest_cpu \<ge> e_nr_cpu_ids env then (Inl (- EINVAL), k) else (Inr dest_cpu, k))"

(* core.c 2784-2867: __set_cpus_allowed_ptr_locked *)
definition set_cpus_allowed_ptr_locked ::
    "('x, 'l, 'm) affine_env_scheme \<Rightarrow> tid \<Rightarrow> cpu set \<Rightarrow> u32 \<Rightarrow> cpu \<Rightarrow> ('x, 'l) kernel \<Rightarrow>
     (int \<times> ('x, 'l) kernel) option" where
  "set_cpus_allowed_ptr_locked env p new_mask flags c k =
     (case set_cpus_allowed_check env p new_mask flags (update_rq_clock env c k) of
        (Inl ret, k) \<Rightarrow> Some (ret, k)
      | (Inr dest_cpu, k) \<Rightarrow> do {
          k \<leftarrow> do_set_cpus_allowed_flags env p new_mask flags k;
          let k = (if has_flag flags SCA_USER then snd (clear_user_cpus_ptr p k) else k);
          affine_move_task env c p dest_cpu flags k
        })"

(* core.c !2878-2886: __set_cpus_allowed_ptr *)
definition set_cpus_allowed_ptr_flags ::
    "('x, 'l, 'm) affine_env_scheme \<Rightarrow> tid \<Rightarrow> cpu set \<Rightarrow> u32 \<Rightarrow> ('x, 'l) kernel \<Rightarrow>
     (int \<times> ('x, 'l) kernel) option" where
  "set_cpus_allowed_ptr_flags env p new_mask flags k =
     (if e_smp env then set_cpus_allowed_ptr_locked env p new_mask flags (task_cpu k p) k
      else Some (if 0 \<notin> new_mask then - EINVAL else 0, k))"

(* core.c 2888-2891: set_cpus_allowed_ptr *)
definition set_cpus_allowed_ptr ::
    "('x, 'l, 'm) affine_env_scheme \<Rightarrow> tid \<Rightarrow> cpu set \<Rightarrow> ('x, 'l) kernel \<Rightarrow>
     (int \<times> ('x, 'l) kernel) option" where
  "set_cpus_allowed_ptr env p new_mask k = set_cpus_allowed_ptr_flags env p new_mask 0 k"

text \<open>The mask the task is restricted to comes back with the result.\<close>

(* core.c 2901-2948: restrict_cpus_allowed_ptr *)
definition restrict_cpus_allowed_ptr ::
    "('x, 'l, 'm) affine_env_scheme \<Rightarrow> tid \<Rightarrow> cpu set \<Rightarrow> ('x, 'l) kernel \<Rightarrow>
     (int \<times> ('x, 'l) kernel) option" where
  "restrict_cpus_allowed_ptr env p subset_mask k =
     (let fresh = (t_user_cpus_ptr (tsk k p) = None);
          new_mask = t_cpus_mask (tsk k p) \<inter> subset_mask
      in if fresh \<and> \<not> e_kmalloc_ok env k then Some (- ENOMEM, k)
         else if task_has_dl_policy (tsk k p) \<and> dl_bandwidth_enabled k then Some (- EPERM, k)
         else if new_mask = {} then Some (- EINVAL, k)
         else set_cpus_allowed_ptr_locked env p new_mask 0 (task_cpu k p)
                (if fresh then upd_task p (\<lambda>t. t\<lparr>t_user_cpus_ptr := Some (cpus_ptr t)\<rparr>) k else k))"

(* core.c 2956-2993: force_compatible_cpus_allowed_ptr *)
definition force_compatible_cpus_allowed_ptr ::
    "('x, 'l, 'm) affine_env_scheme \<Rightarrow> tid \<Rightarrow> ('x, 'l) kernel \<Rightarrow> ('x, 'l) kernel option" where
  "force_compatible_cpus_allowed_ptr env p k =
     (let override_mask = e_task_cpu_possible_mask env p k;
          set_mask = (\<lambda>m k. do {
            (ret, k) \<leftarrow> set_cpus_allowed_ptr env p m k;
            Some (warn_on ''force_compatible_cpus_allowed_ptr'' (ret \<noteq> 0) k)
          })
      in if \<not> e_alloc_mask_ok (affine_of env) k then set_mask override_mask k
         else do {
           (ret, k) \<leftarrow> restrict_cpus_allowed_ptr env p override_mask k;
           if ret = 0 then Some k else set_mask (e_cpuset_cpus_allowed (affine_of env) p k) k
         })"

(* core.c 2148-2173: migrate_enable *)
definition migrate_enable ::
    "('x, 'l, 'm) affine_env_scheme \<Rightarrow> ('x, 'l) kernel \<Rightarrow> ('x, 'l) kernel option" where
  "migrate_enable env k =
     (let p = current_task k in
      if t_migration_disabled (tsk k p) > 1
      then Some (upd_task p (\<lambda>t. t\<lparr>t_migration_disabled := t_migration_disabled t - 1\<rparr>) k)
      else do {
        k \<leftarrow> (if t_cpus_ptr (tsk k p) \<noteq> None
          then map_option snd
            (set_cpus_allowed_ptr_flags env p (t_cpus_mask (tsk k p)) SCA_MIGRATE_ENABLE k)
          else Some k);
        Some (upd_rq (k_this_cpu k) (\<lambda>r. r\<lparr>rq_nr_pinned := rq_nr_pinned r - 1\<rparr>)
               (upd_task p (\<lambda>t. t\<lparr>t_migration_disabled := 0\<rparr>) k))
      })"

end
