(* ===== verification/Affinity_Calls.thy ===== *)
theory Affinity_Calls
  imports Affine_Move Setsched_Calls
begin

text \<open>
  The callers of the affinity change (\<open>core.c\<close>, lines 3006 to 3024, 3082 to 3324, 3453 to 3492, 5146 to
  5166, 8019 to 8225 and 8808 to 8880): the system calls that set and read the mask of a task, the
  swap of two tasks, the balancing at \<open>execve\<close>, and waiting for a task to leave its CPU.

  A mask in user space is read as the set of its bits. The loops that wait for other CPUs are given
  fuel; a step of the other CPUs is the outside function \<open>e_relax\<close>.
\<close>

section \<open>Setting the mask\<close>

(* core.c 8019-8041: dl_task_check_affinity *)
definition dl_task_check_affinity ::
    "('x, 'l, 'm) env_scheme \<Rightarrow> tid \<Rightarrow> cpu set \<Rightarrow> ('x, 'l) kernel \<Rightarrow> int" where
  "dl_task_check_affinity env p cmask k =
     (if \<not> e_smp env then 0
      else if \<not> task_has_dl_policy (tsk k p) \<or> \<not> dl_bandwidth_enabled k then 0
      else if \<not> e_rd_span env (task_cpu k p) k \<subseteq> cmask then - EBUSY
      else 0)"

text \<open>The passes from the label \<open>again\<close>: another pass is made when the cpuset shrank in between.\<close>

(* core.c !8064-8077: __sched_setaffinity (again) *)
fun setaffinity_loop ::
    "nat \<Rightarrow> ('x, 'l, 'm) affine_env_scheme \<Rightarrow> tid \<Rightarrow> cpu set \<Rightarrow> ('x, 'l) kernel \<Rightarrow>
     (int \<times> ('x, 'l) kernel) option" where
  "setaffinity_loop 0 env p new_mask k = None"
| "setaffinity_loop (Suc n) env p new_mask k = do {
     (retval, k) \<leftarrow> set_cpus_allowed_ptr_flags env p new_mask (SCA_CHECK OR SCA_USER) k;
     if retval \<noteq> 0 then Some (retval, k)
     else let cpus_allowed = e_cpuset_cpus_allowed (affine_of env) p k
          in if \<not> new_mask \<subseteq> cpus_allowed then setaffinity_loop n env p cpus_allowed k
             else Some (retval, k)
   }"

(* core.c 8044-8084: __sched_setaffinity *)
definition sched_setaffinity_task ::
    "nat \<Rightarrow> ('x, 'l, 'm) affine_env_scheme \<Rightarrow> tid \<Rightarrow> cpu set \<Rightarrow> ('x, 'l) kernel \<Rightarrow>
     (int \<times> ('x, 'l) kernel) option" where
  "sched_setaffinity_task n env p cmask k =
     (if \<not> e_alloc_mask_ok (affine_of env) k then Some (- ENOMEM, k)
      else
       let new_mask = cmask \<inter> e_cpuset_cpus_allowed (affine_of env) p k;
           retval = dl_task_check_affinity env p new_mask k
       in if retval \<noteq> 0 then Some (retval, k) else setaffinity_loop n env p new_mask k)"

(* core.c 3006-3024: relax_compatible_cpus_allowed_ptr *)
definition relax_compatible_cpus_allowed_ptr ::
    "nat \<Rightarrow> ('x, 'l, 'm) affine_env_scheme \<Rightarrow> tid \<Rightarrow> ('x, 'l) kernel \<Rightarrow> ('x, 'l) kernel option" where
  "relax_compatible_cpus_allowed_ptr n env p k =
     (case t_user_cpus_ptr (tsk k p) of
        None \<Rightarrow> Some k
      | Some user_mask \<Rightarrow> do {
          (ret, k) \<leftarrow> sched_setaffinity_task n env p user_mask k;
          Some (if ret = 0 then k else snd (clear_user_cpus_ptr p k))
        })"

(* core.c 8086-8126: sched_setaffinity *)
definition sched_setaffinity ::
    "nat \<Rightarrow> ('x, 'l, 'm) affine_env_scheme \<Rightarrow> int \<Rightarrow> cpu set \<Rightarrow> ('x, 'l) kernel \<Rightarrow>
     (int \<times> ('x, 'l) kernel) option" where
  "sched_setaffinity n env pid in_mask k =
     (case find_process_by_pid env pid k of
        None \<Rightarrow> Some (- ESRCH, k)
      | Some p \<Rightarrow>
          if has_flag (t_flags (tsk k p)) PF_NO_SETAFFINITY then Some (- EINVAL, k)
          else if \<not> check_same_owner k p \<and> \<not> e_ns_capable_nice (affine_of env) p k then Some (- EPERM, k)
          else let retval = e_security_task_setscheduler env p k
               in if retval \<noteq> 0 then Some (retval, k)
                  else sched_setaffinity_task n env p in_mask k)"

text \<open>The bits of a mask that is too short are zero.\<close>

(* core.c 8128-8137: get_user_cpu_mask *)
definition get_user_cpu_mask ::
    "('x, 'l, 'm) affine_env_scheme \<Rightarrow> u32 \<Rightarrow> u32 \<Rightarrow> ('x, 'l) kernel \<Rightarrow> int + cpu set" where
  "get_user_cpu_mask env user_mask_ptr len k =
     (let len = (if len > e_cpumask_size (affine_of env) then e_cpumask_size (affine_of env) else len)
      in case e_copy_mask_from_user (affine_of env) user_mask_ptr len k of
           None \<Rightarrow> Inl (- EFAULT)
         | Some m \<Rightarrow> Inr (Set.filter (\<lambda>c. c < 8 * unat len) m))"

(* core.c 8147-8161: SYSCALL_DEFINE3(sched_setaffinity *)
definition sys_sched_setaffinity ::
    "nat \<Rightarrow> ('x, 'l, 'm) affine_env_scheme \<Rightarrow> int \<Rightarrow> u32 \<Rightarrow> u32 \<Rightarrow> ('x, 'l) kernel \<Rightarrow>
     (int \<times> ('x, 'l) kernel) option" where
  "sys_sched_setaffinity n env pid len user_mask_ptr k =
     (if \<not> e_alloc_mask_ok (affine_of env) k then Some (- ENOMEM, k)
      else case get_user_cpu_mask env user_mask_ptr len k of
        Inl e \<Rightarrow> Some (e, k)
      | Inr new_mask \<Rightarrow> sched_setaffinity n env pid new_mask k)"

section \<open>Reading the mask\<close>

(* core.c 8163-8188: sched_getaffinity *)
definition sched_getaffinity ::
    "('x, 'l, 'm) affine_env_scheme \<Rightarrow> int \<Rightarrow> ('x, 'l) kernel \<Rightarrow> int + cpu set" where
  "sched_getaffinity env pid k =
     (case find_process_by_pid env pid k of
        None \<Rightarrow> Inl (- ESRCH)
      | Some p \<Rightarrow>
          let retval = e_security_task_getscheduler env p k
          in if retval \<noteq> 0 then Inl retval
             else Inr (t_cpus_mask (tsk k p) \<inter> active_mask env k))"

text \<open>The size in bits is a product of 32-bit numbers and wraps.\<close>

(* core.c 8199-8225: SYSCALL_DEFINE3(sched_getaffinity *)
definition sys_sched_getaffinity ::
    "('x, 'l, 'm) affine_env_scheme \<Rightarrow> int \<Rightarrow> u32 \<Rightarrow> u32 \<Rightarrow> ('x, 'l) kernel \<Rightarrow>
     int \<times> ('x, 'l) kernel" where
  "sys_sched_getaffinity env pid len user_mask_ptr k =
     (if unat (len * 8) < e_nr_cpu_ids env then (- EINVAL, k)
      else if has_flag len 3 then (- EINVAL, k)
      else if \<not> e_alloc_mask_ok (affine_of env) k then (- ENOMEM, k)
      else case sched_getaffinity env pid k of
        Inl e \<Rightarrow> (e, k)
      | Inr m \<Rightarrow>
          let retlen = min len (e_cpumask_size (affine_of env))
          in case e_copy_mask_to_user (affine_of env) user_mask_ptr m retlen k of
               None \<Rightarrow> (- EFAULT, k)
             | Some x \<Rightarrow> (sint retlen, k\<lparr>k_ext := x\<rparr>))"

section \<open>Cpusets, NUMA and execve\<close>

(* core.c 8808-8825: task_can_attach *)
definition task_can_attach :: "tid \<Rightarrow> ('x, 'l) kernel \<Rightarrow> int" where
  "task_can_attach p k = (if has_flag (t_flags (tsk k p)) PF_NO_SETAFFINITY then - EINVAL else 0)"

(* core.c 5146-5166: sched_exec *)
definition sched_exec ::
    "('x, 'l, 'm) affine_env_scheme \<Rightarrow> ('x, 'l) kernel \<Rightarrow> ('x, 'l) kernel option" where
  "sched_exec env k = do {
     let p = current_task k;
     f \<leftarrow> vt_select_task_rq (cl env k p);
     (dest_cpu, k) \<leftarrow> f p (task_cpu k p) WF_EXEC k;
     if dest_cpu = k_this_cpu k then Some k
     else if e_cpu_active env dest_cpu k
     then map_option snd (e_stop_one_cpu (affine_of env) (task_cpu k p) (Migration_stop (Own_arg p dest_cpu)) k)
     else Some k
   }"

(* core.c 8831-8846: migrate_task_to *)
definition migrate_task_to ::
    "('x, 'l, 'm) affine_env_scheme \<Rightarrow> tid \<Rightarrow> cpu \<Rightarrow> ('x, 'l) kernel \<Rightarrow> (int \<times> ('x, 'l) kernel) option"
where
  "migrate_task_to env p target_cpu k =
     (let curr_cpu = task_cpu k p in
      if curr_cpu = target_cpu then Some (0, k)
      else if target_cpu \<notin> cpus_ptr (tsk k p) then Some (- EINVAL, k)
      else e_stop_one_cpu (affine_of env) curr_cpu (Migration_stop (Own_arg p target_cpu)) k)"

(* core.c 8852-8874: sched_setnuma *)
definition sched_setnuma ::
    "('x, 'l, 'm) env_scheme \<Rightarrow> tid \<Rightarrow> int \<Rightarrow> ('x, 'l) kernel \<Rightarrow> ('x, 'l) kernel option" where
  "sched_setnuma env p nid k = do {
     let c = task_cpu k p;
     let queued = task_on_rq_queued k p;
     let running = task_current k c p;
     k \<leftarrow> (if queued then dequeue_task env c p DEQUEUE_SAVE k else Some k);
     k \<leftarrow> (if running then put_prev_task env c p k else Some k);
     let k = upd_task p (\<lambda>t. t\<lparr>t_numa_preferred_nid := nid\<rparr>) k;
     k \<leftarrow> (if queued then enqueue_task env c p (ENQUEUE_RESTORE OR ENQUEUE_NOCLOCK) k else Some k);
     (if running then set_next_task env c p k else Some k)
   }"

(* core.c 3082-3110: __migrate_swap_task *)
definition migrate_swap_task ::
    "('x, 'l, 'm) env_scheme \<Rightarrow> tid \<Rightarrow> cpu \<Rightarrow> ('x, 'l) kernel \<Rightarrow> ('x, 'l) kernel option" where
  "migrate_swap_task env p c k =
     (if task_on_rq_queued k p
      then do {
        k \<leftarrow> deactivate_task env (task_cpu k p) p 0 k;
        k \<leftarrow> set_task_cpu env p c k;
        k \<leftarrow> activate_task env c p 0 k;
        check_preempt_curr env c p 0 k
      } else Some (upd_task p (\<lambda>t. t\<lparr>t_wake_cpu := c\<rparr>) k))"

(* core.c 3117-3156: migrate_swap_stop *)
definition migrate_swap_stop ::
    "('x, 'l, 'm) env_scheme \<Rightarrow> migration_swap_arg \<Rightarrow> ('x, 'l) kernel \<Rightarrow>
     (int \<times> ('x, 'l) kernel) option" where
  "migrate_swap_stop env arg k =
     (if \<not> e_cpu_active env (ms_src_cpu arg) k \<or> \<not> e_cpu_active env (ms_dst_cpu arg) k
      then Some (- EAGAIN, k)
      else if task_cpu k (ms_dst_task arg) \<noteq> ms_dst_cpu arg \<or>
              task_cpu k (ms_src_task arg) \<noteq> ms_src_cpu arg \<or>
              ms_dst_cpu arg \<notin> cpus_ptr (tsk k (ms_src_task arg)) \<or>
              ms_src_cpu arg \<notin> cpus_ptr (tsk k (ms_dst_task arg))
      then Some (- EAGAIN, k)
      else do {
        k \<leftarrow> migrate_swap_task env (ms_src_task arg) (ms_dst_cpu arg) k;
        k \<leftarrow> migrate_swap_task env (ms_dst_task arg) (ms_src_cpu arg) k;
        Some (0, k)
      })"

(* core.c 3161-3195: migrate_swap *)
definition migrate_swap ::
    "('x, 'l, 'm) affine_env_scheme \<Rightarrow> tid \<Rightarrow> tid \<Rightarrow> cpu \<Rightarrow> cpu \<Rightarrow> ('x, 'l) kernel \<Rightarrow>
     (int \<times> ('x, 'l) kernel) option" where
  "migrate_swap env cur p target_cpu curr_cpu k =
     (let arg = \<lparr>ms_src_task = cur, ms_dst_task = p, ms_src_cpu = curr_cpu, ms_dst_cpu = target_cpu\<rparr>
      in if curr_cpu = target_cpu then Some (- EINVAL, k)
         else if \<not> e_cpu_active env curr_cpu k \<or> \<not> e_cpu_active env target_cpu k
         then Some (- EINVAL, k)
         else if target_cpu \<notin> cpus_ptr (tsk k cur) \<or> curr_cpu \<notin> cpus_ptr (tsk k p)
         then Some (- EINVAL, k)
         else e_stop_two_cpus (affine_of env) target_cpu curr_cpu arg k)"

section \<open>Waiting for a task\<close>

text \<open>\<open>p->nvcsw | LONG_MIN\<close>: the count of voluntary switches, cut to 32 bits, with the top bit set.\<close>

definition switch_count :: "task \<Rightarrow> u32" where
  "switch_count t = ucast (t_nvcsw t) OR 0x80000000"

(* core.c !3239-3243: wait_task_inactive (task_running) *)
fun wait_while_running ::
    "nat \<Rightarrow> ('x, 'l, 'm) affine_env_scheme \<Rightarrow> cpu \<Rightarrow> tid \<Rightarrow> u32 \<Rightarrow> ('x, 'l) kernel \<Rightarrow>
     (bool \<times> ('x, 'l) kernel) option" where
  "wait_while_running 0 env c p match_state k = None"
| "wait_while_running (Suc n) env c p match_state k =
     (if \<not> task_running (e_smp env) k c p then Some (True, k)
      else if match_state \<noteq> 0 \<and> t_state (tsk k p) \<noteq> match_state then Some (False, k)
      else do {
        k \<leftarrow> e_relax (affine_of env) k;
        wait_while_running n env c p match_state k
      })"

(* core.c 3214-3304: wait_task_inactive *)
fun wait_task_inactive ::
    "nat \<Rightarrow> ('x, 'l, 'm) affine_env_scheme \<Rightarrow> tid \<Rightarrow> u32 \<Rightarrow> ('x, 'l) kernel \<Rightarrow>
     (u32 \<times> ('x, 'l) kernel) option" where
  "wait_task_inactive 0 env p match_state k = None"
| "wait_task_inactive (Suc n) env p match_state k = do {
     (off, k) \<leftarrow> wait_while_running n env (task_cpu k p) p match_state k;
     if \<not> off then Some (0, k)
     else
       let running = task_running (e_smp env) k (task_cpu k p) p;
           ncsw = (if match_state = 0 \<or> t_state (tsk k p) = match_state
                   then switch_count (tsk k p) else 0)
       in if ncsw = 0 then Some (ncsw, k)
          else if running then do {
            k \<leftarrow> e_relax (affine_of env) k;
            wait_task_inactive n env p match_state k
          }
          else if task_on_rq_queued k p then do {
            k \<leftarrow> e_schedule_hrtimeout (affine_of env)
                  (upd_task (current_task k) (\<lambda>t. t\<lparr>t_state := TASK_UNINTERRUPTIBLE\<rparr>) k);
            wait_task_inactive n env p match_state k
          }
          else Some (ncsw, k)
   }"

(* core.c 3319-3328: kick_process *)
definition kick_process :: "('x, 'l, 'm) env_scheme \<Rightarrow> tid \<Rightarrow> ('x, 'l) kernel \<Rightarrow> ('x, 'l) kernel" where
  "kick_process env p k =
     (if task_cpu k p \<noteq> k_this_cpu k \<and> task_curr k p
      then ext_do (e_smp_send_reschedule env (task_cpu k p)) k else k)"

(* core.c 3453-3496: sched_set_stop_task *)
definition sched_set_stop_task ::
    "('x, 'l, 'm) env_scheme \<Rightarrow> ('x, 'l) others \<Rightarrow> cpu \<Rightarrow> tid option \<Rightarrow> ('x, 'l) kernel \<Rightarrow>
     ('x, 'l) kernel option" where
  "sched_set_stop_task env others c stop k = do {
     let old_stop = rq_stop (cpu_rq k c);
     k \<leftarrow> (case stop of
       None \<Rightarrow> Some k
     | Some s \<Rightarrow> do {
         (_, k) \<leftarrow> sched_setscheduler_nocheck env others s SCHED_FIFO (MAX_RT_PRIO - 1) k;
         Some (upd_task s (\<lambda>t. t\<lparr>t_class := Stop_class\<rparr>) k)
       });
     let k = upd_rq c (\<lambda>r. r\<lparr>rq_stop := stop\<rparr>) k;
     Some (case old_stop of None \<Rightarrow> k | Some o' \<Rightarrow> upd_task o' (\<lambda>t. t\<lparr>t_class := Rt_class\<rparr>) k)
   }"

end
