(* ===== verification/Tick_Nohz.thy ===== *)
theory Tick_Nohz
  imports Affine_Move Prio Schedule
begin

text \<open>
  The tick outside the periodic path (\<open>core.c\<close>, lines 694 to 800, 989 to 1157 and 5048 to 5460;
  \<open>sched.h\<close>, lines 2372 to 2468 and 2755 to 2772): the high-resolution tick, waking a CPU that
  sleeps without one, the test whether a CPU may stop its tick, the remote tick of such a CPU, and the
  counters over all CPUs.

  Timers, work queues, inter-processor calls and the housekeeping masks are outside. Whether a
  function queues its delayed work is the flag of its result.
\<close>

record ('x, 'l) nohz_ops =
  e_hk_timer :: "cpu \<Rightarrow> bool"
  e_hk_tick :: "cpu \<Rightarrow> bool"
  e_hk_any_timer :: "('x, 'l) kernel \<Rightarrow> cpu"
  e_nohz_full_cpu :: "cpu \<Rightarrow> bool"
  e_tick_stopped :: "cpu \<Rightarrow> ('x, 'l) kernel \<Rightarrow> bool"
  e_full_kick_cpu :: "cpu \<Rightarrow> ('x, 'l) kernel \<Rightarrow> 'x"
  e_raise_sched_softirq :: "('x, 'l) kernel \<Rightarrow> 'x"
  e_tick_dep_clear :: "cpu \<Rightarrow> ('x, 'l) kernel \<Rightarrow> 'x"
  e_tick_dep_set :: "cpu \<Rightarrow> ('x, 'l) kernel \<Rightarrow> 'x"
  e_rd_set_overload :: "cpu \<Rightarrow> ('x, 'l) kernel \<Rightarrow> 'x"
  e_calc_load_nohz_remote :: "cpu \<Rightarrow> ('x, 'l) kernel \<Rightarrow> 'x"
  e_hrtimer_active :: "cpu \<Rightarrow> ('x, 'l) kernel \<Rightarrow> bool"
  e_hrtimer_cancel :: "cpu \<Rightarrow> ('x, 'l) kernel \<Rightarrow> 'x"
  e_hrtimer_start :: "cpu \<Rightarrow> u64 \<Rightarrow> ('x, 'l) kernel \<Rightarrow> 'x"
  e_hrtimer_now :: "cpu \<Rightarrow> ('x, 'l) kernel \<Rightarrow> u64"
  e_hrtimer_hres :: "cpu \<Rightarrow> ('x, 'l) kernel \<Rightarrow> bool"
  e_hrtick_csd :: "cpu \<Rightarrow> ('x, 'l) kernel \<Rightarrow> 'x"

type_synonym ('x, 'l, 'm) nohz_env_scheme = "('x, 'l, ('x, 'l, 'm) nohz_ops_scheme) affine_env_scheme"
type_synonym ('x, 'l) nohz_env = "('x, 'l, unit) nohz_env_scheme"

abbreviation nohz_of :: "('x, 'l, 'm) nohz_env_scheme \<Rightarrow> ('x, 'l, 'm) nohz_ops_scheme" where
  "nohz_of env \<equiv> affine_ops.more (affine_of env)"

section \<open>The high-resolution tick\<close>

(* core.c 694-698: hrtick_clear#1 *)
definition hrtick_clear ::
    "('x, 'l, 'm) nohz_env_scheme \<Rightarrow> cpu \<Rightarrow> ('x, 'l) kernel \<Rightarrow> ('x, 'l) kernel" where
  "hrtick_clear env c k =
     (if e_hrtimer_active (nohz_of env) c k then ext_do (e_hrtimer_cancel (nohz_of env) c) k else k)"

(* core.c 704-717: hrtick *)
definition hrtick ::
    "('x, 'l, 'm) env_scheme \<Rightarrow> cpu \<Rightarrow> ('x, 'l) kernel \<Rightarrow> ('x, 'l) kernel option" where
  "hrtick env c k = do {
     let k = warn_on ''hrtick'' (c \<noteq> k_this_cpu k) k;
     let k = update_rq_clock env c k;
     f \<leftarrow> vt_task_tick (cl env k (rq_curr (cpu_rq k c)));
     f c (rq_curr (cpu_rq k c)) 1 k
   }"

(* core.c 721-727: __hrtick_restart *)
definition hrtick_restart ::
    "('x, 'l, 'm) nohz_env_scheme \<Rightarrow> cpu \<Rightarrow> ('x, 'l) kernel \<Rightarrow> ('x, 'l) kernel" where
  "hrtick_restart env c k = ext_do (e_hrtimer_start (nohz_of env) c (rq_hrtick_time (cpu_rq k c))) k"

text \<open>Slices of less than 10000 ns are not scheduled. On SMP the delay is compared as a signed
  number, on UP as an unsigned one.\<close>

(* core.c 747-763: hrtick_start#1 *)
definition hrtick_start_smp ::
    "('x, 'l, 'm) nohz_env_scheme \<Rightarrow> cpu \<Rightarrow> u64 \<Rightarrow> ('x, 'l) kernel \<Rightarrow> ('x, 'l) kernel" where
  "hrtick_start_smp env c delay k =
     (let delta = (if sint delay > 10000 then delay else 10000);
          k = upd_rq c (\<lambda>r. r\<lparr>rq_hrtick_time := e_hrtimer_now (nohz_of env) c k + delta\<rparr>) k
      in if c = k_this_cpu k then hrtick_restart env c k else ext_do (e_hrtick_csd (nohz_of env) c) k)"

(* core.c 771-780: hrtick_start#2 *)
definition hrtick_start_up ::
    "('x, 'l, 'm) nohz_env_scheme \<Rightarrow> cpu \<Rightarrow> u64 \<Rightarrow> ('x, 'l) kernel \<Rightarrow> ('x, 'l) kernel" where
  "hrtick_start_up env c delay k = ext_do (e_hrtimer_start (nohz_of env) c (max delay 10000)) k"

(* sched.h 2449-2454: hrtick_enabled#1 *)
definition hrtick_enabled ::
    "('x, 'l, 'm) nohz_env_scheme \<Rightarrow> cpu \<Rightarrow> ('x, 'l) kernel \<Rightarrow> bool" where
  "hrtick_enabled env c k = (if \<not> e_cpu_active env c k then False else e_hrtimer_hres (nohz_of env) c k)"

section \<open>Waking a CPU without a tick\<close>

(* core.c 989-998: resched_cpu *)
definition resched_cpu ::
    "('x, 'l, 'm) env_scheme \<Rightarrow> cpu \<Rightarrow> ('x, 'l) kernel \<Rightarrow> ('x, 'l) kernel" where
  "resched_cpu env c k =
     (if e_cpu_online env c k \<or> c = k_this_cpu k then resched_curr env c k else k)"

text \<open>The CPUs of the domains in turn, without the CPU itself and those that do no housekeeping.\<close>

(* core.c 1010-1043: get_nohz_timer_target *)
definition get_nohz_timer_target ::
    "('x, 'l, 'm) nohz_env_scheme \<Rightarrow> ('x, 'l) kernel \<Rightarrow> cpu" where
  "get_nohz_timer_target env k =
     (let c = k_this_cpu k;
          default_cpu = (if e_hk_timer (nohz_of env) c then Some c else None);
          candidates = concat (map (\<lambda>sd. filter (e_hk_timer (nohz_of env)) (cpus_of env sd)) (e_domains (wake_of env) c k))
      in if e_hk_timer (nohz_of env) c \<and> \<not> idle_cpu env k c then c
         else case List.find (\<lambda>i. i \<noteq> c \<and> \<not> idle_cpu env k i) candidates of
           Some i \<Rightarrow> i
         | None \<Rightarrow> (case default_cpu of None \<Rightarrow> e_hk_any_timer (nohz_of env) k | Some d \<Rightarrow> d))"

(* core.c 1055-1066: wake_up_idle_cpu *)
definition wake_up_idle_cpu ::
    "('x, 'l, 'm) env_scheme \<Rightarrow> cpu \<Rightarrow> ('x, 'l) kernel \<Rightarrow> ('x, 'l) kernel" where
  "wake_up_idle_cpu env c k =
     (if c = k_this_cpu k then k
      else let (ipi, k) = set_nr_and_not_polling (rq_idle (cpu_rq k c)) k
           in if ipi then ext_do (e_smp_send_reschedule env c) k else k)"

(* core.c 1068-1086: wake_up_full_nohz_cpu *)
definition wake_up_full_nohz_cpu ::
    "('x, 'l, 'm) nohz_env_scheme \<Rightarrow> cpu \<Rightarrow> ('x, 'l) kernel \<Rightarrow> bool \<times> ('x, 'l) kernel" where
  "wake_up_full_nohz_cpu env c k =
     (if \<not> e_cpu_online env c k then (True, k)
      else if e_nohz_full_cpu (nohz_of env) c
      then (True, if c \<noteq> k_this_cpu k \<or> e_tick_stopped (nohz_of env) (k_this_cpu k) k
                  then ext_do (e_full_kick_cpu (nohz_of env) c) k else k)
      else (False, k))"

(* core.c 1093-1097: wake_up_nohz_cpu *)
definition wake_up_nohz_cpu ::
    "('x, 'l, 'm) nohz_env_scheme \<Rightarrow> cpu \<Rightarrow> ('x, 'l) kernel \<Rightarrow> ('x, 'l) kernel" where
  "wake_up_nohz_cpu env c k =
     (let (done, k) = wake_up_full_nohz_cpu env c k in if \<not> done then wake_up_idle_cpu env c k else k)"

(* sched.h 2755-2755: NOHZ_BALANCE_KICK_BIT *)
definition NOHZ_BALANCE_KICK_BIT :: nat where "NOHZ_BALANCE_KICK_BIT = 0"

(* sched.h 2756-2756: NOHZ_STATS_KICK_BIT *)
definition NOHZ_STATS_KICK_BIT :: nat where "NOHZ_STATS_KICK_BIT = 1"

(* sched.h 2757-2757: NOHZ_NEWILB_KICK_BIT *)
definition NOHZ_NEWILB_KICK_BIT :: nat where "NOHZ_NEWILB_KICK_BIT = 2"

(* sched.h 2758-2758: NOHZ_NEXT_KICK_BIT *)
definition NOHZ_NEXT_KICK_BIT :: nat where "NOHZ_NEXT_KICK_BIT = 3"

(* sched.h 2761-2761: NOHZ_BALANCE_KICK *)
definition NOHZ_BALANCE_KICK :: u32 where "NOHZ_BALANCE_KICK = push_bit NOHZ_BALANCE_KICK_BIT 1"

(* sched.h 2763-2763: NOHZ_STATS_KICK *)
definition NOHZ_STATS_KICK :: u32 where "NOHZ_STATS_KICK = push_bit NOHZ_STATS_KICK_BIT 1"

(* sched.h 2765-2765: NOHZ_NEWILB_KICK *)
definition NOHZ_NEWILB_KICK :: u32 where "NOHZ_NEWILB_KICK = push_bit NOHZ_NEWILB_KICK_BIT 1"

(* sched.h 2767-2767: NOHZ_NEXT_KICK *)
definition NOHZ_NEXT_KICK :: u32 where "NOHZ_NEXT_KICK = push_bit NOHZ_NEXT_KICK_BIT 1"

(* sched.h 2769-2769: NOHZ_KICK_MASK *)
definition NOHZ_KICK_MASK :: u32 where
  "NOHZ_KICK_MASK = (NOHZ_BALANCE_KICK OR NOHZ_STATS_KICK) OR NOHZ_NEXT_KICK"

(* core.c 1099-1116: nohz_csd_func *)
definition nohz_csd_func ::
    "('x, 'l, 'm) nohz_env_scheme \<Rightarrow> cpu \<Rightarrow> ('x, 'l) kernel \<Rightarrow> ('x, 'l) kernel" where
  "nohz_csd_func env c k =
     (let flags = rq_nohz_flags (cpu_rq k c);
          k = upd_rq c (\<lambda>r. r\<lparr>rq_nohz_flags :=
                clear_flag (rq_nohz_flags r) (NOHZ_KICK_MASK OR NOHZ_NEWILB_KICK)\<rparr>) k;
          k = warn_on ''nohz_csd_func'' (\<not> has_flag flags NOHZ_KICK_MASK) k;
          k = upd_rq c (\<lambda>r. r\<lparr>rq_idle_balance := idle_cpu env k c\<rparr>) k
      in if rq_idle_balance (cpu_rq k c)
         then ext_do (e_raise_sched_softirq (nohz_of env))
                (upd_rq c (\<lambda>r. r\<lparr>rq_nohz_idle_balance := flags\<rparr>) k)
         else k)"

section \<open>Stopping the tick\<close>

text \<open>The difference of the counters is an \<open>int\<close>; it is tested against zero only.\<close>

(* core.c 1121-1157: sched_can_stop_tick *)
definition sched_can_stop_tick :: "rq \<Rightarrow> bool" where
  "sched_can_stop_tick r =
     (if rq_dl_nr_running r \<noteq> 0 then False
      else if rq_rr_nr_running r \<noteq> 0 then (if rq_rr_nr_running r = 1 then True else False)
      else if rq_rt_nr_running r - rq_rr_nr_running r \<noteq> 0 then True
      else if rq_nr_running r > 1 then False
      else True)"

(* sched.h 2372-2383: sched_update_tick_dependency#1 *)
definition sched_update_tick_dependency ::
    "('x, 'l, 'm) nohz_env_scheme \<Rightarrow> cpu \<Rightarrow> ('x, 'l) kernel \<Rightarrow> ('x, 'l) kernel" where
  "sched_update_tick_dependency env c k =
     (if \<not> e_nohz_full_cpu (nohz_of env) c then k
      else if sched_can_stop_tick (cpu_rq k c) then ext_do (e_tick_dep_clear (nohz_of env) c) k
      else ext_do (e_tick_dep_set (nohz_of env) c) k)"

(* sched.h 2389-2406: add_nr_running *)
definition add_nr_running ::
    "('x, 'l, 'm) nohz_env_scheme \<Rightarrow> cpu \<Rightarrow> u32 \<Rightarrow> ('x, 'l) kernel \<Rightarrow> ('x, 'l) kernel" where
  "add_nr_running env c count k =
     (let prev_nr = rq_nr_running (cpu_rq k c);
          k = upd_rq c (\<lambda>r. r\<lparr>rq_nr_running := prev_nr + count\<rparr>) k;
          k = (if e_smp env \<and> prev_nr < 2 \<and> rq_nr_running (cpu_rq k c) \<ge> 2
               then ext_do (e_rd_set_overload (nohz_of env) c) k else k)
      in sched_update_tick_dependency env c k)"

(* sched.h 2408-2417: sub_nr_running *)
definition sub_nr_running ::
    "('x, 'l, 'm) nohz_env_scheme \<Rightarrow> cpu \<Rightarrow> u32 \<Rightarrow> ('x, 'l) kernel \<Rightarrow> ('x, 'l) kernel" where
  "sub_nr_running env c count k =
     sched_update_tick_dependency env c (upd_rq c (\<lambda>r. r\<lparr>rq_nr_running := rq_nr_running r - count\<rparr>) k)"

section \<open>The remote tick\<close>

(* core.c 5333-5333: TICK_SCHED_REMOTE_OFFLINE *)
definition TICK_SCHED_REMOTE_OFFLINE :: int where "TICK_SCHED_REMOTE_OFFLINE = 0"

(* core.c 5334-5334: TICK_SCHED_REMOTE_OFFLINING *)
definition TICK_SCHED_REMOTE_OFFLINING :: int where "TICK_SCHED_REMOTE_OFFLINING = 1"

(* core.c 5335-5335: TICK_SCHED_REMOTE_RUNNING *)
definition TICK_SCHED_REMOTE_RUNNING :: int where "TICK_SCHED_REMOTE_RUNNING = 2"

definition NSEC_PER_SEC :: u64 where "NSEC_PER_SEC = 1000000000"

definition upd_tick_work :: "cpu \<Rightarrow> (tick_work \<Rightarrow> tick_work) \<Rightarrow> ('x, 'l) kernel \<Rightarrow> ('x, 'l) kernel" where
  "upd_tick_work c f k = k\<lparr>k_tick_works := (k_tick_works k)(c := f (k_tick_works k c))\<rparr>"

(* core.c !5378-5400: sched_tick_remote (tick) *)
definition remote_tick ::
    "('x, 'l, 'm) nohz_env_scheme \<Rightarrow> cpu \<Rightarrow> ('x, 'l) kernel \<Rightarrow> ('x, 'l) kernel option" where
  "remote_tick env c k =
     (let curr = rq_curr (cpu_rq k c) in
      if \<not> e_cpu_online env c k then Some k
      else do {
        let k = update_rq_clock env c k;
        let k = (if \<not> is_idle_task (tsk k curr)
          then let (now, k) = rq_clock_task_read c k;
                   delta = now - se_exec_start (t_se (tsk k curr))
               in warn_on ''sched_tick_remote: delta'' (delta > NSEC_PER_SEC * 3) k
          else k);
        f \<leftarrow> vt_task_tick (cl env k curr);
        k \<leftarrow> f c curr 0 k;
        Some (ext_do (e_calc_load_nohz_remote (nohz_of env) c) k)
      })"

text \<open>The work of a CPU; the flag says whether it is queued again.\<close>

(* core.c 5362-5415: sched_tick_remote *)
definition sched_tick_remote ::
    "('x, 'l, 'm) nohz_env_scheme \<Rightarrow> cpu \<Rightarrow> ('x, 'l) kernel \<Rightarrow> (bool \<times> ('x, 'l) kernel) option" where
  "sched_tick_remote env w k = do {
     let c = tw_cpu (k_tick_works k w);
     k \<leftarrow> (if e_tick_stopped (nohz_of env) c k then remote_tick env c k else Some k);
     let os = tw_state (k_tick_works k w);
     let k = (if os = TICK_SCHED_REMOTE_RUNNING then k
              else upd_tick_work w (\<lambda>t. t\<lparr>tw_state := tw_state t - 1\<rparr>) k);
     let k = warn_on ''sched_tick_remote: os'' (os = TICK_SCHED_REMOTE_OFFLINE) k;
     Some (os = TICK_SCHED_REMOTE_RUNNING, k)
   }"

(* core.c 5417-5435: sched_tick_start#1 *)
definition sched_tick_start ::
    "('x, 'l, 'm) nohz_env_scheme \<Rightarrow> cpu \<Rightarrow> ('x, 'l) kernel \<Rightarrow> bool \<times> ('x, 'l) kernel" where
  "sched_tick_start env c k =
     (if e_hk_tick (nohz_of env) c then (False, k)
      else
       let os = tw_state (k_tick_works k c);
           k = upd_tick_work c (\<lambda>t. t\<lparr>tw_state := TICK_SCHED_REMOTE_RUNNING\<rparr>) k;
           k = warn_on ''sched_tick_start'' (os = TICK_SCHED_REMOTE_RUNNING) k
       in if os = TICK_SCHED_REMOTE_OFFLINE
          then (True, upd_tick_work c (\<lambda>t. t\<lparr>tw_cpu := c\<rparr>) k)
          else (False, k))"

(* core.c 5438-5453: sched_tick_stop#1 *)
definition sched_tick_stop ::
    "('x, 'l, 'm) nohz_env_scheme \<Rightarrow> cpu \<Rightarrow> ('x, 'l) kernel \<Rightarrow> ('x, 'l) kernel" where
  "sched_tick_stop env c k =
     (if e_hk_tick (nohz_of env) c then k
      else
       let os = tw_state (k_tick_works k c);
           k = upd_tick_work c (\<lambda>t. t\<lparr>tw_state := TICK_SCHED_REMOTE_OFFLINING\<rparr>) k
       in warn_on ''sched_tick_stop'' (os \<noteq> TICK_SCHED_REMOTE_RUNNING) k)"

section \<open>Counters\<close>

definition online_cpus :: "('x, 'l, 'm) env_scheme \<Rightarrow> ('x, 'l) kernel \<Rightarrow> cpu list" where
  "online_cpus env k = filter (\<lambda>c. e_cpu_online env c k) [0 ..< e_nr_cpu_ids env]"

(* core.c 5048-5056: nr_running *)
definition nr_running :: "('x, 'l, 'm) env_scheme \<Rightarrow> ('x, 'l) kernel \<Rightarrow> u32" where
  "nr_running env k = fold (\<lambda>c sum. sum + rq_nr_running (cpu_rq k c)) (online_cpus env k) 0"

(* core.c 5071-5074: single_task_running *)
definition single_task_running :: "('x, 'l) kernel \<Rightarrow> bool" where
  "single_task_running k \<longleftrightarrow> rq_nr_running (cpu_rq k (k_this_cpu k)) = 1"

(* core.c 5077-5086: nr_context_switches *)
definition nr_context_switches :: "('x, 'l, 'm) env_scheme \<Rightarrow> ('x, 'l) kernel \<Rightarrow> u64" where
  "nr_context_switches env k =
     fold (\<lambda>c sum. sum + rq_nr_switches (cpu_rq k c)) [0 ..< e_nr_cpu_ids env] 0"

(* core.c 5095-5098: nr_iowait_cpu *)
definition nr_iowait_cpu :: "('x, 'l) kernel \<Rightarrow> cpu \<Rightarrow> u32" where
  "nr_iowait_cpu k c = word_of_int (rq_nr_iowait (cpu_rq k c))"

(* core.c 5130-5138: nr_iowait *)
definition nr_iowait :: "('x, 'l, 'm) env_scheme \<Rightarrow> ('x, 'l) kernel \<Rightarrow> u32" where
  "nr_iowait env k = fold (\<lambda>c sum. sum + nr_iowait_cpu k c) [0 ..< e_nr_cpu_ids env] 0"

end
