(* ===== verification/Hotplug.thy ===== *)
theory Hotplug
  imports Tick_Nohz
begin

text \<open>
  CPU hotplug (\<open>core.c\<close>, lines 8882 to 9372): taking a CPU online and offline, pushing its tasks
  away while it goes down, and the checks before it dies. The kernel has \<open>CONFIG_HOTPLUG_CPU\<close> and
  \<open>CONFIG_SCHED_SMT\<close> and no \<open>CONFIG_SCHED_CORE\<close>.

  The CPU masks, the scheduling domains, the root domains and the cpusets are outside. The wait for an
  empty CPU is given fuel; a step of the system is \<open>e_relax\<close>.
\<close>

record ('x, 'l) hotplug_ops =
  e_init_mm :: nat
  e_finish_lock_switch_mm :: "('x, 'l) kernel \<Rightarrow> 'x"
  e_stop_balance_push :: "cpu \<Rightarrow> tid \<Rightarrow> ('x, 'l) kernel \<Rightarrow> 'x"
  e_rcuwait_active :: "cpu \<Rightarrow> ('x, 'l) kernel \<Rightarrow> bool"
  e_rcuwait_wake_up :: "cpu \<Rightarrow> ('x, 'l) kernel \<Rightarrow> 'x"
  e_rd_set_online :: "cpu \<Rightarrow> bool \<Rightarrow> ('x, 'l) kernel \<Rightarrow> 'x"
  e_tasks_frozen :: "('x, 'l) kernel \<Rightarrow> bool"
  e_partition_domains :: "('x, 'l) kernel \<Rightarrow> 'x"
  e_cpuset_force_rebuild :: "('x, 'l) kernel \<Rightarrow> 'x"
  e_cpuset_update_active :: "('x, 'l) kernel \<Rightarrow> 'x"
  e_dl_bw_check_overflow :: "cpu \<Rightarrow> ('x, 'l) kernel \<Rightarrow> int"
  e_smt_mask :: "cpu \<Rightarrow> ('x, 'l) kernel \<Rightarrow> cpu set"
  e_smt_present_inc :: "('x, 'l) kernel \<Rightarrow> 'x"
  e_smt_present_dec :: "('x, 'l) kernel \<Rightarrow> 'x"
  e_set_cpu_active :: "cpu \<Rightarrow> bool \<Rightarrow> ('x, 'l) kernel \<Rightarrow> 'x"
  e_numa_masks :: "cpu \<Rightarrow> bool \<Rightarrow> ('x, 'l) kernel \<Rightarrow> 'x"
  e_nohz_exit_idle :: "cpu \<Rightarrow> ('x, 'l) kernel \<Rightarrow> ('x, 'l) kernel"
  e_synchronize_rcu :: "('x, 'l) kernel \<Rightarrow> ('x, 'l) kernel option"
  e_update_max_interval :: "('x, 'l) kernel \<Rightarrow> 'x"
  e_calc_load_fold :: "cpu \<Rightarrow> ('x, 'l) kernel \<Rightarrow> u32 \<times> u32"
  e_hk_domain_mask :: "cpu set"
  e_init_numa_domains :: "('x, 'l) kernel \<Rightarrow> 'x"
  e_init_classes_smp :: "('x, 'l) kernel \<Rightarrow> 'x"

type_synonym ('x, 'l, 'm) hotplug_env_scheme = "('x, 'l, ('x, 'l, 'm) hotplug_ops_scheme) nohz_env_scheme"
type_synonym ('x, 'l) hotplug_env = "('x, 'l, unit) hotplug_env_scheme"

abbreviation hotplug_of :: "('x, 'l, 'm) hotplug_env_scheme \<Rightarrow> ('x, 'l, 'm) hotplug_ops_scheme" where
  "hotplug_of env \<equiv> nohz_ops.more (nohz_of env)"

section \<open>The idle task of a dying CPU\<close>

(* core.c 8882-8895: idle_task_exit *)
definition idle_task_exit ::
    "('x, 'l, 'm) hotplug_env_scheme \<Rightarrow> ('x, 'l) kernel \<Rightarrow> ('x, 'l) kernel option" where
  "idle_task_exit env k =
     (let mm = t_active_mm (tsk k (current_task k)) in
      if e_cpu_online env (k_this_cpu k) k then None
      else if current_task k \<noteq> rq_idle (cpu_rq k (k_this_cpu k)) then None
      else if mm \<noteq> Some (e_init_mm (hotplug_of env))
      then Some (ext_do (e_finish_lock_switch_mm (hotplug_of env))
             (ext_do (e_switch_mm env mm (Some (e_init_mm (hotplug_of env))) (current_task k)) k))
      else Some k)"

section \<open>Pushing tasks away\<close>

(* core.c 8897-8920: __balance_push_cpu_stop *)
definition balance_push_cpu_stop ::
    "('x, 'l, 'm) wake_env_scheme \<Rightarrow> tid \<Rightarrow> ('x, 'l) kernel \<Rightarrow> (int \<times> ('x, 'l) kernel) option" where
  "balance_push_cpu_stop env p k = do {
     let c = k_this_cpu k;
     let k = update_rq_clock env c k;
     k \<leftarrow> (if task_cpu k p = c \<and> task_on_rq_queued k p
       then do {
         (d, k) \<leftarrow> select_fallback_rq env c p k;
         map_option snd (migrate_task env c p d k)
       } else Some k);
     Some (0, ext_do (e_put_task (wake_of env) p) k)
   }"

(* core.c 8930-8991: balance_push#1 *)
definition balance_push ::
    "('x, 'l, 'm) hotplug_env_scheme \<Rightarrow> cpu \<Rightarrow> ('x, 'l) kernel \<Rightarrow> ('x, 'l) kernel" where
  "balance_push env c k =
     (let push_task = rq_curr (cpu_rq k c);
          k = upd_rq c (\<lambda>r. r\<lparr>rq_balance_callback := [balance_push_callback]\<rparr>) k
      in if \<not> e_cpu_dying env c k \<or> c \<noteq> k_this_cpu k then k
         else if e_kthread_is_per_cpu env push_task k \<or> is_migration_disabled env (tsk k push_task)
         then (if rq_nr_running (cpu_rq k c) = 0 \<and> \<not> rq_has_pinned_tasks env (cpu_rq k c) \<and>
                  e_rcuwait_active (hotplug_of env) c k
               then ext_do (e_rcuwait_wake_up (hotplug_of env) c) k else k)
         else ext_do (e_stop_balance_push (hotplug_of env) c push_task) (ext_do (e_get_task (wake_of env) push_task) k))"

(* core.c 8993-9006: balance_push_set#1 *)
definition balance_push_set :: "cpu \<Rightarrow> bool \<Rightarrow> ('x, 'l) kernel \<Rightarrow> ('x, 'l) kernel" where
  "balance_push_set c on k =
     (if on
      then upd_rq c (\<lambda>r. r\<lparr>rq_balance_callback := [balance_push_callback]\<rparr>)
             (warn_on ''balance_push_set'' (rq_balance_callback (cpu_rq k c) \<noteq> []) k)
      else if rq_balance_callback (cpu_rq k c) = [balance_push_callback]
      then upd_rq c (\<lambda>r. r\<lparr>rq_balance_callback := []\<rparr>) k
      else k)"

text \<open>The condition the hotplug thread waits for, and the wait.\<close>

definition cpu_quiescent :: "('x, 'l, 'm) env_scheme \<Rightarrow> rq \<Rightarrow> bool" where
  "cpu_quiescent env r \<longleftrightarrow> rq_nr_running r = 1 \<and> \<not> rq_has_pinned_tasks env r"

(* core.c 9014-9021: balance_hotplug_wait#1 *)
fun balance_hotplug_wait ::
    "nat \<Rightarrow> ('x, 'l, 'm) affine_env_scheme \<Rightarrow> ('x, 'l) kernel \<Rightarrow> ('x, 'l) kernel option" where
  "balance_hotplug_wait 0 env k = None"
| "balance_hotplug_wait (Suc n) env k =
     (if cpu_quiescent env (cpu_rq k (k_this_cpu k)) then Some k
      else do {
        k \<leftarrow> e_relax (affine_of env) k;
        balance_hotplug_wait n env k
      })"

section \<open>Online and offline\<close>

text \<open>The hooks of the classes in order; a class without the hook is passed over.\<close>

definition class_hooks ::
    "(('x, 'l) vtable \<Rightarrow> (cpu \<Rightarrow> ('x, 'l) kernel \<Rightarrow> ('x, 'l) kernel option) option) \<Rightarrow>
     ('x, 'l, 'm) env_scheme \<Rightarrow> cpu \<Rightarrow> ('x, 'l) kernel \<Rightarrow> ('x, 'l) kernel option" where
  "class_hooks hook env c k =
     fold (\<lambda>sc k. Option.bind k (\<lambda>k. case hook (class_vt env sc) of Some f \<Rightarrow> f c k | None \<Rightarrow> Some k))
       for_each_class (Some k)"

(* core.c 9039-9052: set_rq_online *)
definition set_rq_online ::
    "('x, 'l, 'm) hotplug_env_scheme \<Rightarrow> cpu \<Rightarrow> ('x, 'l) kernel \<Rightarrow> ('x, 'l) kernel option" where
  "set_rq_online env c k =
     (if \<not> rq_online (cpu_rq k c)
      then class_hooks vt_rq_online env c
             (upd_rq c (\<lambda>r. r\<lparr>rq_online := True\<rparr>) (ext_do (e_rd_set_online (hotplug_of env) c True) k))
      else Some k)"

(* core.c 9054-9067: set_rq_offline *)
definition set_rq_offline ::
    "('x, 'l, 'm) hotplug_env_scheme \<Rightarrow> cpu \<Rightarrow> ('x, 'l) kernel \<Rightarrow> ('x, 'l) kernel option" where
  "set_rq_offline env c k =
     (if rq_online (cpu_rq k c)
      then map_option (\<lambda>k. upd_rq c (\<lambda>r. r\<lparr>rq_online := False\<rparr>) (ext_do (e_rd_set_online (hotplug_of env) c False) k))
             (class_hooks vt_rq_offline env c k)
      else Some k)"

(* core.c 9082-9102: cpuset_cpu_active *)
definition cpuset_cpu_active ::
    "('x, 'l, 'm) hotplug_env_scheme \<Rightarrow> ('x, 'l) kernel \<Rightarrow> ('x, 'l) kernel" where
  "cpuset_cpu_active env k =
     (if e_tasks_frozen (hotplug_of env) k
      then let k = ext_do (e_partition_domains (hotplug_of env)) k;
               k = k\<lparr>k_num_cpus_frozen := k_num_cpus_frozen k - 1\<rparr>
           in if k_num_cpus_frozen k \<noteq> 0 then k
              else ext_do (e_cpuset_update_active (hotplug_of env)) (ext_do (e_cpuset_force_rebuild (hotplug_of env)) k)
      else ext_do (e_cpuset_update_active (hotplug_of env)) k)"

(* core.c 9104-9117: cpuset_cpu_inactive *)
definition cpuset_cpu_inactive ::
    "('x, 'l, 'm) hotplug_env_scheme \<Rightarrow> cpu \<Rightarrow> ('x, 'l) kernel \<Rightarrow> int \<times> ('x, 'l) kernel" where
  "cpuset_cpu_inactive env c k =
     (if \<not> e_tasks_frozen (hotplug_of env) k
      then let ret = e_dl_bw_check_overflow (hotplug_of env) c k
           in if ret \<noteq> 0 then (ret, k) else (0, ext_do (e_cpuset_update_active (hotplug_of env)) k)
      else (0, ext_do (e_partition_domains (hotplug_of env)) (k\<lparr>k_num_cpus_frozen := k_num_cpus_frozen k + 1\<rparr>)))"

(* core.c 9119-9125: sched_smt_present_inc *)
definition sched_smt_present_inc ::
    "('x, 'l, 'm) hotplug_env_scheme \<Rightarrow> cpu \<Rightarrow> ('x, 'l) kernel \<Rightarrow> ('x, 'l) kernel" where
  "sched_smt_present_inc env c k =
     (if length (cpus_of env (e_smt_mask (hotplug_of env) c k)) = 2 then ext_do (e_smt_present_inc (hotplug_of env)) k else k)"

(* core.c 9127-9133: sched_smt_present_dec *)
definition sched_smt_present_dec ::
    "('x, 'l, 'm) hotplug_env_scheme \<Rightarrow> cpu \<Rightarrow> ('x, 'l) kernel \<Rightarrow> ('x, 'l) kernel" where
  "sched_smt_present_dec env c k =
     (if length (cpus_of env (e_smt_mask (hotplug_of env) c k)) = 2 then ext_do (e_smt_present_dec (hotplug_of env)) k else k)"

(* core.c 9135-9174: sched_cpu_activate *)
definition sched_cpu_activate ::
    "('x, 'l, 'm) hotplug_env_scheme \<Rightarrow> cpu \<Rightarrow> ('x, 'l) kernel \<Rightarrow> (int \<times> ('x, 'l) kernel) option" where
  "sched_cpu_activate env c k = do {
     let k = balance_push_set c False k;
     let k = sched_smt_present_inc env c k;
     let k = ext_do (e_set_cpu_active (hotplug_of env) c True) k;
     let k = (if k_smp_initialized k
              then cpuset_cpu_active env (ext_do (e_numa_masks (hotplug_of env) c True) k) else k);
     k \<leftarrow> (if rq_rd (cpu_rq k c) = None then Some k
           else if c \<notin> e_rd_span env c k then None
           else set_rq_online env c k);
     Some (0, k)
   }"

(* core.c 9176-9239: sched_cpu_deactivate *)
definition sched_cpu_deactivate ::
    "('x, 'l, 'm) hotplug_env_scheme \<Rightarrow> cpu \<Rightarrow> ('x, 'l) kernel \<Rightarrow> (int \<times> ('x, 'l) kernel) option" where
  "sched_cpu_deactivate env c k = do {
     let k = e_nohz_exit_idle (hotplug_of env) c k;
     let k = ext_do (e_set_cpu_active (hotplug_of env) c False) k;
     let k = balance_push_set c True k;
     k \<leftarrow> e_synchronize_rcu (hotplug_of env) k;
     k \<leftarrow> (if rq_rd (cpu_rq k c) = None then Some k
           else let k = update_rq_clock env c k
                in if c \<notin> e_rd_span env c k then None else set_rq_offline env c k);
     let k = sched_smt_present_dec env c k;
     if \<not> k_smp_initialized k then Some (0, k)
     else let (ret, k) = cpuset_cpu_inactive env c k
          in if ret \<noteq> 0
             then Some (ret, ext_do (e_set_cpu_active (hotplug_of env) c True)
                    (balance_push_set c False (sched_smt_present_inc env c k)))
             else Some (0, ext_do (e_numa_masks (hotplug_of env) c False) k)
   }"

(* core.c 9241-9247: sched_rq_cpu_starting *)
definition sched_rq_cpu_starting ::
    "('x, 'l, 'm) hotplug_env_scheme \<Rightarrow> cpu \<Rightarrow> ('x, 'l) kernel \<Rightarrow> ('x, 'l) kernel" where
  "sched_rq_cpu_starting env c k =
     ext_do (e_update_max_interval (hotplug_of env))
       (upd_rq c (\<lambda>r. r\<lparr>rq_calc_load_update := k_calc_load_update k\<rparr>) k)"

text \<open>The first component says whether the remote tick's work was queued.\<close>

(* core.c 9249-9255: sched_cpu_starting *)
definition sched_cpu_starting ::
    "('x, 'l, 'm) hotplug_env_scheme \<Rightarrow> cpu \<Rightarrow> ('x, 'l) kernel \<Rightarrow> bool \<times> int \<times> ('x, 'l) kernel" where
  "sched_cpu_starting env c k =
     (let (queued, k) = sched_tick_start env c (sched_rq_cpu_starting env c k) in (queued, 0, k))"

(* core.c 9270-9274: sched_cpu_wait_empty *)
definition sched_cpu_wait_empty ::
    "nat \<Rightarrow> ('x, 'l, 'm) affine_env_scheme \<Rightarrow> ('x, 'l) kernel \<Rightarrow> (int \<times> ('x, 'l) kernel) option" where
  "sched_cpu_wait_empty n env k = map_option (Pair 0) (balance_hotplug_wait n env k)"

text \<open>\<open>calc_load_fold_active\<close> yields the difference and the new count of active tasks.\<close>

(* core.c 9285-9291: calc_load_migrate *)
definition calc_load_migrate ::
    "('x, 'l, 'm) hotplug_env_scheme \<Rightarrow> cpu \<Rightarrow> ('x, 'l) kernel \<Rightarrow> ('x, 'l) kernel" where
  "calc_load_migrate env c k =
     (let (delta, active) = e_calc_load_fold (hotplug_of env) c k;
          k = upd_rq c (\<lambda>r. r\<lparr>rq_calc_load_active := active\<rparr>) k
      in if delta \<noteq> 0 then k\<lparr>k_calc_load_tasks := k_calc_load_tasks k + delta\<rparr> else k)"

(* core.c 9312-9332: sched_cpu_dying *)
definition sched_cpu_dying ::
    "('x, 'l, 'm) hotplug_env_scheme \<Rightarrow> cpu \<Rightarrow> ('x, 'l) kernel \<Rightarrow> int \<times> ('x, 'l) kernel" where
  "sched_cpu_dying env c k =
     (let k = sched_tick_stop env c k;
          k = warn_on ''Dying CPU not properly vacated!''
                (rq_nr_running (cpu_rq k c) \<noteq> 1 \<or> rq_has_pinned_tasks env (cpu_rq k c)) k;
          k = calc_load_migrate env c k;
          k = ext_do (e_update_max_interval (hotplug_of env)) k
      in (0, hrtick_clear env c k))"

(* core.c 9335-9358: sched_init_smp#1 *)
definition sched_init_smp ::
    "('x, 'l, 'm) hotplug_env_scheme \<Rightarrow> ('x, 'l) kernel \<Rightarrow> ('x, 'l) kernel option" where
  "sched_init_smp env k = do {
     let k = ext_do (e_init_numa_domains (hotplug_of env)) k;
     (ret, k) \<leftarrow> set_cpus_allowed_ptr env (current_task k) (e_hk_domain_mask (hotplug_of env)) k;
     if ret < 0 then None
     else
       let k = upd_task (current_task k) (\<lambda>t. t\<lparr>t_flags := clear_flag (t_flags t) PF_NO_SETAFFINITY\<rparr>) k;
           k = ext_do (e_init_classes_smp (hotplug_of env)) k
       in Some (k\<lparr>k_smp_initialized := True\<rparr>)
   }"

(* core.c 9360-9364: migration_init *)
definition migration_init ::
    "('x, 'l, 'm) hotplug_env_scheme \<Rightarrow> ('x, 'l) kernel \<Rightarrow> bool \<times> int \<times> ('x, 'l) kernel" where
  "migration_init env k =
     (let (queued, _, k) = sched_cpu_starting env (k_this_cpu k) k in (queued, 0, k))"

end
