(* ===== verification/Boot.thy ===== *)
theory Boot
  imports Hotplug Setscheduler
begin

text \<open>
  The initialisation of the scheduler (\<open>core.c\<close>, lines 8720 to 8776 and 9396 to 9583) and the sysrq
  request that makes every user task a normal one (9717 to 9755).

  The runqueues of the other classes, the bandwidth timers, the root domain and the threads'
  architecture part are outside. The possible CPUs are the numbers below \<open>nr_cpu_ids\<close>.
\<close>

record ('x, 'l) boot_ops =
  e_no_hz_common :: bool
  e_fair_group_sched :: bool
  e_load_freq :: u32
  e_migration_cost :: u32
  e_root_group_load :: u32
  e_init_task :: tid
  e_init_bandwidths :: "('x, 'l) kernel \<Rightarrow> 'x"
  e_init_cfs_bandwidth :: cfs_bandwidth
  e_init_cfs_rq :: "cpu \<Rightarrow> ('x, 'l) kernel \<Rightarrow> ('x, 'l) kernel"
  e_init_rt_rq :: "cpu \<Rightarrow> ('x, 'l) kernel \<Rightarrow> ('x, 'l) kernel"
  e_init_dl_rq :: "cpu \<Rightarrow> ('x, 'l) kernel \<Rightarrow> ('x, 'l) kernel"
  e_init_tg_entry :: "cpu \<Rightarrow> ('x, 'l) kernel \<Rightarrow> ('x, 'l) kernel"
  e_rq_attach_root :: "cpu \<Rightarrow> ('x, 'l) kernel \<Rightarrow> ('x, 'l) kernel"
  e_hrtick_rq_init :: "cpu \<Rightarrow> ('x, 'l) kernel \<Rightarrow> 'x"
  e_sched_clock :: "('x, 'l) kernel \<Rightarrow> u64"
  e_init_idle_thread :: "tid \<Rightarrow> cpu \<Rightarrow> ('x, 'l) kernel \<Rightarrow> 'x"
  e_enter_lazy_tlb :: "('x, 'l) kernel \<Rightarrow> 'x"
  e_init_subsystems :: "('x, 'l) kernel \<Rightarrow> 'x"

type_synonym ('x, 'l, 'm) boot_env_scheme = "('x, 'l, ('x, 'l, 'm) boot_ops_scheme) hotplug_env_scheme"
type_synonym ('x, 'l) boot_env = "('x, 'l, unit) boot_env_scheme"

abbreviation boot_of :: "('x, 'l, 'm) boot_env_scheme \<Rightarrow> ('x, 'l, 'm) boot_ops_scheme" where
  "boot_of env \<equiv> hotplug_ops.more (hotplug_of env)"

section \<open>The idle task\<close>

(* core.c 8720-8791: init_idle *)
definition init_idle ::
    "('x, 'l, 'm) boot_env_scheme \<Rightarrow> tid \<Rightarrow> cpu \<Rightarrow> ('x, 'l) kernel \<Rightarrow> ('x, 'l) kernel" where
  "init_idle env idle c k =
     (let k = sched_fork_init env 0 idle k;
          k = upd_task idle (\<lambda>t. t\<lparr>t_state := TASK_RUNNING,
                t_se := (t_se t)\<lparr>se_exec_start := e_sched_clock (boot_of env) k\<rparr>,
                t_flags := t_flags t OR ((PF_IDLE OR PF_KTHREAD) OR PF_NO_SETAFFINITY)\<rparr>) k;
          k = (if e_smp env then set_cpus_allowed_common env idle {c} 0 k else k);
          k = set_task_cpu_raw env idle c k;
          k = upd_rq c (\<lambda>r. r\<lparr>rq_idle := idle, rq_curr := idle\<rparr>) k;
          k = upd_task idle (\<lambda>t. t\<lparr>t_on_rq := TASK_ON_RQ_QUEUED\<rparr>) k;
          k = (if e_smp env then upd_task idle (\<lambda>t. t\<lparr>t_on_cpu := True\<rparr>) k else k);
          k = upd_task idle (\<lambda>t. t\<lparr>t_class := Idle_class\<rparr>) k
      in ext_do (e_init_idle_thread (boot_of env) idle c) k)"

section \<open>A runqueue\<close>

text \<open>The SMP fields, with a balance callback that pushes tasks away until the CPU is active.\<close>

(* core.c !9511-9539: sched_init (CONFIG_SMP) *)
definition init_rq_smp ::
    "('x, 'l, 'm) boot_env_scheme \<Rightarrow> cpu \<Rightarrow> ('x, 'l) kernel \<Rightarrow> ('x, 'l) kernel" where
  "init_rq_smp env c k =
     (let jiffies = e_jiffies (wake_of env) k;
          k = upd_rq c (\<lambda>r. r\<lparr>rq_rd := None, rq_cpu_capacity := 1024, rq_cpu_capacity_orig := 1024,
                rq_balance_callback := [balance_push_callback], rq_active_balance := 0,
                rq_next_balance := jiffies, rq_push_cpu := 0, rq_online := False, rq_idle_stamp := 0,
                rq_avg_idle := ucast (2 * e_migration_cost (boot_of env)), rq_wake_stamp := jiffies,
                rq_wake_avg_idle := ucast (2 * e_migration_cost (boot_of env)),
                rq_max_idle_balance_cost := ucast (e_migration_cost (boot_of env))\<rparr>) k;
          k = e_rq_attach_root (boot_of env) c k
      in if e_no_hz_common (boot_of env)
         then upd_rq c (\<lambda>r. r\<lparr>rq_last_blocked_load_update_tick := jiffies, rq_nohz_flags := 0\<rparr>) k
         else k)"

(* core.c !9469-9551: sched_init (for_each_possible_cpu) *)
definition init_rq :: "('x, 'l, 'm) boot_env_scheme \<Rightarrow> cpu \<Rightarrow> ('x, 'l) kernel \<Rightarrow> ('x, 'l) kernel" where
  "init_rq env c k =
     (let k = upd_rq c (\<lambda>r. r\<lparr>rq_nr_running := 0, rq_calc_load_active := 0,
                rq_calc_load_update := e_jiffies (wake_of env) k + e_load_freq (boot_of env)\<rparr>) k;
          k = e_init_cfs_rq (boot_of env) c k;
          k = e_init_rt_rq (boot_of env) c k;
          k = e_init_dl_rq (boot_of env) c k;
          k = init_ltr_rq env c k;
          k = e_init_tg_entry (boot_of env) c k;
          k = (if e_smp env then init_rq_smp env c k else k);
          k = ext_do (e_hrtick_rq_init (boot_of env) c) k
      in upd_rq c (\<lambda>r. r\<lparr>rq_nr_iowait := 0\<rparr>) k)"

section \<open>sched_init\<close>

text \<open>The order of the class sections that the linker script has to keep; the last test is made on
  SMP only.\<close>

(* core.c !9401-9407: sched_init (BUG_ON) *)
definition class_sections_ok :: "bool \<Rightarrow> bool" where
  "class_sections_ok smp \<longleftrightarrow>
     class_addr Idle_class + 1 = class_addr Fair_class \<and> class_addr Fair_class + 1 = class_addr Rt_class \<and>
     class_addr Rt_class + 1 = class_addr Dl_class \<and>
     (smp \<longrightarrow> class_addr Dl_class + 1 = class_addr Stop_class)"

text \<open>\<open>list_add\<close> puts the root group in front.\<close>

(* core.c !9411-9467: sched_init (root_task_group) *)
definition init_root_group ::
    "('x, 'l, 'm) boot_env_scheme \<Rightarrow> ('x, 'l) kernel \<Rightarrow> ('x, 'l) kernel" where
  "init_root_group env k =
     (let k = (if e_fair_group_sched (boot_of env)
            then upd_tg root_task_group (\<lambda>t. t\<lparr>tg_shares := e_root_group_load (boot_of env),
                   tg_cfs_bandwidth := e_init_cfs_bandwidth (boot_of env)\<rparr>) k
            else k);
          k = ext_do (e_init_bandwidths (boot_of env)) k
      in if e_cgroup_sched (fork_of env)
         then upd_tg root_task_group (\<lambda>t. t\<lparr>tg_children := []\<rparr>)
                (k\<lparr>k_task_groups := root_task_group # k_task_groups k\<rparr>)
         else k)"

text \<open>The task that runs it is the boot task, \<open>init_task\<close>.\<close>

(* core.c 9396-9583: sched_init *)
definition sched_init ::
    "('x, 'l, 'm) boot_env_scheme \<Rightarrow> ('x, 'l) kernel \<Rightarrow> ('x, 'l) kernel option" where
  "sched_init env k =
     (if \<not> class_sections_ok (e_smp env) then None
      else do {
        let k = init_root_group env k;
        let k = fold (init_rq env) [0 ..< e_nr_cpu_ids env] k;
        k \<leftarrow> set_load_weight env (e_init_task (boot_of env)) False k;
        let k = ext_do (e_enter_lazy_tlb (boot_of env)) (ext_do (e_mmgrab env (Some (e_init_mm (hotplug_of env)))) k);
        let k = init_idle env (e_init_task (boot_of env)) (k_this_cpu k) k;
        let k = k\<lparr>k_calc_load_update := e_jiffies (wake_of env) k + e_load_freq (boot_of env)\<rparr>;
        let k = (if e_smp env then balance_push_set (k_this_cpu k) False k else k);
        let k = ext_do (e_init_subsystems (boot_of env)) k;
        let k = init_uclamp env [0 ..< e_nr_cpu_ids env] (e_init_task (boot_of env)) k;
        Some (k\<lparr>k_scheduler_running := True\<rparr>)
      })"

section \<open>Normalizing the tasks\<close>

text \<open>The attributes ask for the normal policy; the result of the change is ignored.\<close>

(* core.c !9729-9752: normalize_rt_tasks (for_each_process_thread) *)
definition normalize_task ::
    "('x, 'l, 'm) env_scheme \<Rightarrow> (('x, 'l) kernel \<Rightarrow> ('x, 'l) kernel) list \<Rightarrow> tid \<Rightarrow> ('x, 'l) kernel \<Rightarrow>
     ('x, 'l) kernel option" where
  "normalize_task env others p k =
     (if has_flag (t_flags (tsk k p)) PF_KTHREAD then Some k
      else
       let k = upd_task p (\<lambda>t. t\<lparr>t_se := (t_se t)\<lparr>se_exec_start := 0\<rparr>\<rparr>) k
       in if \<not> dl_prio (t_prio (tsk k p)) \<and> \<not> rt_prio (t_prio (tsk k p))
          then (if task_nice (tsk k p) < 0 then set_user_nice env p 0 k else Some k)
          else map_option snd
                 (sched_setscheduler_locking env others p
                    (zero_attr\<lparr>sa_policy := word_of_int SCHED_NORMAL\<rparr>) False False k))"

(* core.c 9721-9754: normalize_rt_tasks *)
definition normalize_rt_tasks ::
    "('x, 'l, 'm) env_scheme \<Rightarrow> (('x, 'l) kernel \<Rightarrow> ('x, 'l) kernel) list \<Rightarrow> ('x, 'l) kernel \<Rightarrow>
     ('x, 'l) kernel option" where
  "normalize_rt_tasks env others k =
     fold (\<lambda>p k. Option.bind k (normalize_task env others p)) (e_threads env k) (Some k)"

end
