(* ===== verification/Preempt.thy ===== *)
theory Preempt
  imports Wakeup Schedule
begin

text \<open>
  Preemption (\<open>core.c\<close>, lines 4960 to 4978, 5485 to 5536, 6498 to 6535, 6574 to 6798, 8259 to 8351
  and 8476 to 8496): the preemption counter and its checks, the entries to the scheduler from
  preemption, the modes of a dynamically preemptible kernel, and the voluntary preemption points.

  \<open>preempt_count()\<close> is the word \<open>k_preempt_count\<close>; a pair of \<open>preempt_disable\<close> and
  \<open>preempt_enable_no_resched\<close> around a call cancels and is left out. The constants and the test
  \<open>should_resched\<close> are those of \<open>linux/preempt.h\<close>. Lock and context tracking functions are outside.
\<close>

datatype lock_kind = Spin_lock | Read_lock | Write_lock

record ('x, 'l) preempt_ops =
  e_exception_enter :: "('x, 'l) kernel \<Rightarrow> 'x"
  e_exception_exit :: "('x, 'l) kernel \<Rightarrow> 'x"
  e_rcu_all_qs :: "('x, 'l) kernel \<Rightarrow> 'x"
  e_needbreak :: "lock_kind \<Rightarrow> nat \<Rightarrow> ('x, 'l) kernel \<Rightarrow> bool"
  e_unlock :: "lock_kind \<Rightarrow> nat \<Rightarrow> ('x, 'l) kernel \<Rightarrow> ('x, 'l) kernel option"
  e_lock :: "lock_kind \<Rightarrow> nat \<Rightarrow> ('x, 'l) kernel \<Rightarrow> ('x, 'l) kernel option"
  e_schedule_timeout :: "int \<Rightarrow> ('x, 'l) kernel \<Rightarrow> (int \<times> ('x, 'l) kernel) option"
  e_preempt_enable :: "('x, 'l) kernel \<Rightarrow> ('x, 'l) kernel option"
  e_put_child_tid :: "tid \<Rightarrow> ('x, 'l) kernel \<Rightarrow> 'x"
  e_resume :: "tid \<Rightarrow> ('x, 'l) kernel \<Rightarrow> ('x, 'l) kernel option"

type_synonym ('x, 'l, 'm) preempt_env_scheme = "('x, 'l, ('x, 'l, 'm) preempt_ops_scheme) wake_env_scheme"
type_synonym ('x, 'l) preempt_env = "('x, 'l, unit) preempt_env_scheme"

abbreviation preempt_of :: "('x, 'l, 'm) preempt_env_scheme \<Rightarrow> ('x, 'l, 'm) preempt_ops_scheme" where
  "preempt_of env \<equiv> wake_ops.more (wake_of env)"

text \<open>\<open>__schedule\<close> is followed from the side of its CPU, so another task may be current after it. Code
  that goes on after a call to the scheduler runs when its task is current again: \<open>e_resume\<close> is the
  state at that time, \<open>None\<close> if the task never runs again.\<close>

definition resume ::
    "('x, 'l, 'm) preempt_env_scheme \<Rightarrow> tid \<Rightarrow> ('x, 'l) kernel \<Rightarrow> ('x, 'l) kernel option" where
  "resume env p k = (if current_task k = p then Some k else e_resume (preempt_of env) p k)"

section \<open>The preemption counter\<close>

definition PREEMPT_MASK :: u32 where "PREEMPT_MASK = 0xff"
definition PREEMPT_LOCK_OFFSET :: u32 where "PREEMPT_LOCK_OFFSET = 1"

definition preemptible :: "('x, 'l) kernel \<Rightarrow> bool" where
  "preemptible k \<longleftrightarrow> k_preempt_count k = 0 \<and> \<not> k_irqs_disabled k"

definition should_resched :: "u32 \<Rightarrow> ('x, 'l) kernel \<Rightarrow> bool" where
  "should_resched offset k \<longleftrightarrow> k_preempt_count k = offset \<and> need_resched k"

text \<open>The checks are those of a kernel with \<open>DEBUG_PREEMPT\<close>. A counter whose sign bit is set is
  left alone.\<close>

(* core.c 5485-5503: preempt_count_add *)
definition preempt_count_add ::
    "('x, 'l, 'm) wake_env_scheme \<Rightarrow> u32 \<Rightarrow> ('x, 'l) kernel \<Rightarrow> ('x, 'l) kernel" where
  "preempt_count_add env val k =
     (if e_debug_preempt (wake_of env) \<and> sint (k_preempt_count k) < 0
      then warn_on ''preempt_count_add: underflow'' True k
      else let k = k\<lparr>k_preempt_count := k_preempt_count k + val\<rparr>
           in warn_on ''preempt_count_add: overflow''
                (e_debug_preempt (wake_of env) \<and> sint (k_preempt_count k AND PREEMPT_MASK) \<ge> sint (PREEMPT_MASK - 10)) k)"

(* core.c 5517-5535: preempt_count_sub *)
definition preempt_count_sub ::
    "('x, 'l, 'm) wake_env_scheme \<Rightarrow> u32 \<Rightarrow> ('x, 'l) kernel \<Rightarrow> ('x, 'l) kernel" where
  "preempt_count_sub env val k =
     (if e_debug_preempt (wake_of env) \<and> sint val > sint (k_preempt_count k)
      then warn_on ''preempt_count_sub: underflow'' True k
      else if e_debug_preempt (wake_of env) \<and> sint val < sint PREEMPT_MASK \<and> \<not> has_flag (k_preempt_count k) PREEMPT_MASK
      then warn_on ''preempt_count_sub: spinlock'' True k
      else k\<lparr>k_preempt_count := k_preempt_count k - val\<rparr>)"

section \<open>Entries to the scheduler\<close>

(* core.c 6574-6584: preempt_schedule *)
definition preempt_schedule ::
    "nat \<Rightarrow> ('x, 'l, 'm) env_scheme \<Rightarrow> ('x, 'l) kernel \<Rightarrow> ('x, 'l) kernel option" where
  "preempt_schedule n env k = (if \<not> preemptible k then Some k else preempt_schedule_common n env k)"

text \<open>The rounds of \<open>preempt_schedule_notrace\<close>, each inside an exception context.\<close>

(* core.c !6615-6643: preempt_schedule_notrace (loop) *)
fun notrace_rounds ::
    "nat \<Rightarrow> ('x, 'l, 'm) preempt_env_scheme \<Rightarrow> ('x, 'l) kernel \<Rightarrow> ('x, 'l) kernel option" where
  "notrace_rounds 0 env k = None"
| "notrace_rounds (Suc n) env k = do {
     let me = current_task k;
     k \<leftarrow> schedule_once env SM_PREEMPT (ext_do (e_exception_enter (preempt_of env)) k);
     k \<leftarrow> resume env me k;
     let k = ext_do (e_exception_exit (preempt_of env)) k;
     if need_resched k then notrace_rounds n env k else Some k
   }"

(* core.c 6608-6643: preempt_schedule_notrace *)
definition preempt_schedule_notrace ::
    "nat \<Rightarrow> ('x, 'l, 'm) preempt_env_scheme \<Rightarrow> ('x, 'l) kernel \<Rightarrow> ('x, 'l) kernel option" where
  "preempt_schedule_notrace n env k = (if \<not> preemptible k then Some k else notrace_rounds n env k)"

text \<open>Interrupts are enabled during each round and disabled after it.\<close>

(* core.c !6783-6789: preempt_schedule_irq (loop) *)
fun irq_rounds ::
    "nat \<Rightarrow> ('x, 'l, 'm) preempt_env_scheme \<Rightarrow> ('x, 'l) kernel \<Rightarrow> ('x, 'l) kernel option" where
  "irq_rounds 0 env k = None"
| "irq_rounds (Suc n) env k = do {
     let me = current_task k;
     k \<leftarrow> schedule_once env SM_PREEMPT (k\<lparr>k_irqs_disabled := False\<rparr>);
     k \<leftarrow> resume env me k;
     let k = k\<lparr>k_irqs_disabled := True\<rparr>;
     if need_resched k then irq_rounds n env k else Some k
   }"

(* core.c 6774-6792: preempt_schedule_irq *)
definition preempt_schedule_irq ::
    "nat \<Rightarrow> ('x, 'l, 'm) preempt_env_scheme \<Rightarrow> ('x, 'l) kernel \<Rightarrow> ('x, 'l) kernel option" where
  "preempt_schedule_irq n env k =
     (if k_preempt_count k \<noteq> 0 \<or> \<not> k_irqs_disabled k then None
      else map_option (ext_do (e_exception_exit (preempt_of env)))
             (irq_rounds n env (ext_do (e_exception_enter (preempt_of env)) k)))"

(* core.c 6498-6513: schedule_user *)
definition schedule_user ::
    "nat \<Rightarrow> ('x, 'l, 'm) preempt_env_scheme \<Rightarrow> ('x, 'l) kernel \<Rightarrow> ('x, 'l) kernel option" where
  "schedule_user n env k = do {
     let me = current_task k;
     k \<leftarrow> schedule n env (ext_do (e_exception_enter (preempt_of env)) k);
     k \<leftarrow> resume env me k;
     Some (ext_do (e_exception_exit (preempt_of env)) k)
   }"

(* core.c 6521-6526: schedule_preempt_disabled *)
definition schedule_preempt_disabled ::
    "nat \<Rightarrow> ('x, 'l, 'm) preempt_env_scheme \<Rightarrow> ('x, 'l) kernel \<Rightarrow> ('x, 'l) kernel option" where
  "schedule_preempt_disabled n env k = do {
     let me = current_task k;
     k \<leftarrow> schedule n env (k\<lparr>k_preempt_count := k_preempt_count k - 1\<rparr>);
     k \<leftarrow> resume env me k;
     Some (k\<lparr>k_preempt_count := k_preempt_count k + 1\<rparr>)
   }"

(* core.c 6529-6536: schedule_rtlock *)
definition schedule_rtlock ::
    "nat \<Rightarrow> ('x, 'l, 'm) env_scheme \<Rightarrow> ('x, 'l) kernel \<Rightarrow> ('x, 'l) kernel option" where
  "schedule_rtlock n env k = schedule_rounds n env SM_RTLOCK_WAIT k"

(* core.c 4960-4979: schedule_tail *)
definition schedule_tail ::
    "('x, 'l, 'm) preempt_env_scheme \<Rightarrow> tid \<Rightarrow> ('x, 'l) kernel \<Rightarrow> ('x, 'l) kernel option" where
  "schedule_tail env prev k = do {
     k \<leftarrow> finish_task_switch env (k_this_cpu k) prev k;
     k \<leftarrow> e_preempt_enable (preempt_of env) k;
     Some (ext_do (e_put_child_tid (preempt_of env) (current_task k)) k)
   }"

section \<open>The modes of a dynamically preemptible kernel\<close>

(* core.c !6688-6688: preempt_dynamic_none *)
definition preempt_dynamic_none :: int where "preempt_dynamic_none = 0"

(* core.c !6689-6689: preempt_dynamic_voluntary *)
definition preempt_dynamic_voluntary :: int where "preempt_dynamic_voluntary = 1"

(* core.c !6690-6690: preempt_dynamic_full *)
definition preempt_dynamic_full :: int where "preempt_dynamic_full = 2"

lemmas preempt_dynamic_defs =
  preempt_dynamic_none_def preempt_dynamic_voluntary_def preempt_dynamic_full_def

(* core.c 6695-6707: sched_dynamic_mode *)
definition sched_dynamic_mode :: "string \<Rightarrow> int" where
  "sched_dynamic_mode str =
     (if str = ''none'' then preempt_dynamic_none
      else if str = ''voluntary'' then preempt_dynamic_voluntary
      else if str = ''full'' then preempt_dynamic_full
      else - EINVAL)"

text \<open>All calls are enabled first, so that no transition passes through a state without any
  preemption point.\<close>

(* core.c 6709-6751: sched_dynamic_update *)
definition sched_dynamic_update :: "int \<Rightarrow> ('x, 'l) kernel \<Rightarrow> ('x, 'l) kernel" where
  "sched_dynamic_update mode k =
     (let calls = (k_preempt_calls k)\<lparr>pc_cond_resched := True, pc_might_resched := True,
            pc_preempt_schedule := True, pc_preempt_schedule_notrace := True,
            pc_irqentry_exit_cond_resched := True\<rparr>;
          calls =
            (if mode = preempt_dynamic_none
             then calls\<lparr>pc_cond_resched := True, pc_might_resched := False,
                    pc_preempt_schedule := False, pc_preempt_schedule_notrace := False,
                    pc_irqentry_exit_cond_resched := False\<rparr>
             else if mode = preempt_dynamic_voluntary
             then calls\<lparr>pc_cond_resched := True, pc_might_resched := True,
                    pc_preempt_schedule := False, pc_preempt_schedule_notrace := False,
                    pc_irqentry_exit_cond_resched := False\<rparr>
             else if mode = preempt_dynamic_full
             then calls\<lparr>pc_cond_resched := False, pc_might_resched := False,
                    pc_preempt_schedule := True, pc_preempt_schedule_notrace := True,
                    pc_irqentry_exit_cond_resched := True\<rparr>
             else calls)
      in k\<lparr>k_preempt_calls := calls\<lparr>pc_mode := mode\<rparr>\<rparr>)"

(* core.c 6753-6763: setup_preempt_mode *)
definition setup_preempt_mode :: "string \<Rightarrow> ('x, 'l) kernel \<Rightarrow> int \<times> ('x, 'l) kernel" where
  "setup_preempt_mode str k =
     (let mode = sched_dynamic_mode str
      in if mode < 0 then (0, k) else (1, sched_dynamic_update mode k))"

section \<open>Voluntary preemption points\<close>

(* core.c 8259-8280: __cond_resched *)
definition cond_resched_now ::
    "nat \<Rightarrow> ('x, 'l, 'm) preempt_env_scheme \<Rightarrow> ('x, 'l) kernel \<Rightarrow> (int \<times> ('x, 'l) kernel) option" where
  "cond_resched_now n env k =
     (if should_resched 0 k \<and> \<not> k_irqs_disabled k
      then map_option (Pair 1) (preempt_schedule_common n env k)
      else Some (0, ext_do (e_rcu_all_qs (preempt_of env)) k))"

text \<open>The static call: a function that returns 0 in the mode \<open>full\<close>.\<close>

(* linux/sched.h 2031-2034: _cond_resched#1 *)
definition cond_resched ::
    "nat \<Rightarrow> ('x, 'l, 'm) preempt_env_scheme \<Rightarrow> ('x, 'l) kernel \<Rightarrow> (int \<times> ('x, 'l) kernel) option" where
  "cond_resched n env k =
     (if pc_cond_resched (k_preempt_calls k) then cond_resched_now n env k else Some (0, k))"

text \<open>The three functions differ in the lock only.\<close>

(* core.c !8300-8315: __cond_resched_lock *)
definition cond_resched_locked ::
    "nat \<Rightarrow> ('x, 'l, 'm) preempt_env_scheme \<Rightarrow> lock_kind \<Rightarrow> nat \<Rightarrow> ('x, 'l) kernel \<Rightarrow>
     (int \<times> ('x, 'l) kernel) option" where
  "cond_resched_locked n env kind lock k =
     (let resched = should_resched PREEMPT_LOCK_OFFSET k; me = current_task k in
      if e_needbreak (preempt_of env) kind lock k \<or> resched
      then do {
        k \<leftarrow> e_unlock (preempt_of env) kind lock k;
        (_, k) \<leftarrow> cond_resched n env k;
        k \<leftarrow> resume env me k;
        k \<leftarrow> e_lock (preempt_of env) kind lock k;
        Some (1, k)
      } else Some (0, k))"

(* core.c 8300-8315: __cond_resched_lock *)
definition cond_resched_lock ::
    "nat \<Rightarrow> ('x, 'l, 'm) preempt_env_scheme \<Rightarrow> nat \<Rightarrow> ('x, 'l) kernel \<Rightarrow> (int \<times> ('x, 'l) kernel) option"
where
  "cond_resched_lock n env = cond_resched_locked n env Spin_lock"

(* core.c 8318-8333: __cond_resched_rwlock_read *)
definition cond_resched_rwlock_read ::
    "nat \<Rightarrow> ('x, 'l, 'm) preempt_env_scheme \<Rightarrow> nat \<Rightarrow> ('x, 'l) kernel \<Rightarrow> (int \<times> ('x, 'l) kernel) option"
where
  "cond_resched_rwlock_read n env = cond_resched_locked n env Read_lock"

(* core.c 8336-8351: __cond_resched_rwlock_write *)
definition cond_resched_rwlock_write ::
    "nat \<Rightarrow> ('x, 'l, 'm) preempt_env_scheme \<Rightarrow> nat \<Rightarrow> ('x, 'l) kernel \<Rightarrow> (int \<times> ('x, 'l) kernel) option"
where
  "cond_resched_rwlock_write n env = cond_resched_locked n env Write_lock"

section \<open>Sleeping on IO, and wait queues\<close>

(* core.c 8476-8486: io_schedule_timeout *)
definition io_schedule_timeout ::
    "('x, 'l, 'm) preempt_env_scheme \<Rightarrow> int \<Rightarrow> ('x, 'l) kernel \<Rightarrow> (int \<times> ('x, 'l) kernel) option" where
  "io_schedule_timeout env timeout k = do {
     let me = current_task k;
     (token, k) \<leftarrow> io_schedule_prepare env k;
     (ret, k) \<leftarrow> e_schedule_timeout (preempt_of env) timeout k;
     k \<leftarrow> resume env me k;
     Some (ret, io_schedule_finish token k)
   }"

(* core.c 8489-8496: io_schedule *)
definition io_schedule ::
    "nat \<Rightarrow> ('x, 'l, 'm) preempt_env_scheme \<Rightarrow> ('x, 'l) kernel \<Rightarrow> ('x, 'l) kernel option" where
  "io_schedule n env k = do {
     let me = current_task k;
     (token, k) \<leftarrow> io_schedule_prepare env k;
     k \<leftarrow> schedule n env k;
     k \<leftarrow> resume env me k;
     Some (io_schedule_finish token k)
   }"

(* core.c 6794-6799: default_wake_function *)
definition default_wake_function ::
    "('x, 'l, 'm) wake_env_scheme \<Rightarrow> tid \<Rightarrow> u32 \<Rightarrow> u32 \<Rightarrow> ('x, 'l) kernel \<Rightarrow>
     (bool \<times> ('x, 'l) kernel) option" where
  "default_wake_function env p mode wake_flags k =
     try_to_wake_up env p mode wake_flags
       (warn_on ''default_wake_function'' (e_sched_debug env \<and> has_flag wake_flags (NOT WF_SYNC)) k)"

end
