(* ===== verification/Smp_Machine.thy ===== *)
theory Smp_Machine
  imports Full_Machine Boot Preempt
begin

text \<open>
  The concrete machine with two CPUs and the outside functions of the affinity changes, the tick, CPU
  hotplug, the initialisation and preemption.
\<close>

section \<open>Affinity\<close>

text \<open>The waits of the machine end at once, every cpuset holds both CPUs, and the classes outside the
  repository have the common hook.\<close>

definition affine_ops0 :: "(unit, list_heap) affine_ops" where
  "affine_ops0 = affine_ops.fields (\<lambda>c w k. ()) (\<lambda>c w k. Some (0, k))
     (\<lambda>c d a k. Some (0, k)) (\<lambda>i k. Some k) (\<lambda>i k. Some k) (\<lambda>i k. ()) (\<lambda>k. Some k)
     (\<lambda>a b k. (if 0 \<in> a \<inter> b then 0 else if 1 \<in> a \<inter> b then 1 else 2, ())) (\<lambda>p k. {0, 1})
     (\<lambda>k. True) (\<lambda>p k. False) 4 (\<lambda>a n k. Some {0}) (\<lambda>a m n k. Some ()) (\<lambda>k. Some k)
     (\<lambda>k. Some k)"

definition env_smp0 :: "(unit, list_heap) env" where
  "env_smp0 = env0\<lparr>e_smp := True,
       e_class := (\<lambda>c. (e_class env0 c)\<lparr>vt_set_cpus_allowed :=
         Some (\<lambda>p m f k. Some (set_cpus_allowed_common env0 p m f k))\<rparr>)\<rparr>"

definition affine0 :: "(unit, list_heap) affine_env" where
  "affine0 = env.extend env_smp0 (wake_ops.extend wake_ops0 (fork_ops.extend fork_ops0 affine_ops0))"

lemmas affine_machine_defs = affine0_def env_smp0_def affine_ops0_def fork_machine_defs affine_ops.defs

lemma affine0_env:
  "e_smp affine0" "e_nr_cpu_ids affine0 = 2" "e_cpu_active affine0 = (\<lambda>c k. True)"
  "e_task_cpu_possible_mask affine0 = (\<lambda>p k. {0, 1})" "e_cpuset_cpus_allowed (affine_of affine0) = (\<lambda>p k. {0, 1})"
  "e_alloc_mask_ok (affine_of affine0) = (\<lambda>k. True)"
  "e_find_task affine0 = (\<lambda>n k. if n < 10 then Some (nat n) else None)"
  "e_security_task_setscheduler affine0 = (\<lambda>p k. 0)" "e_security_task_getscheduler affine0 = (\<lambda>p k. 0)"
  "e_any_and_distribute (affine_of affine0) =
     (\<lambda>a b k. (if 0 \<in> a \<inter> b then 0 else if 1 \<in> a \<inter> b then 1 else 2, ()))"
  "e_list affine0 = heap_ops" "e_sched_debug affine0 = False"
  "vt_set_cpus_allowed (e_class affine0 c) = Some (\<lambda>p m f k. Some (set_cpus_allowed_common env0 p m f k))"
  by (simp_all add: affine_machine_defs)

lemma affine0_masks: "set_cpus_allowed_common affine0 = set_cpus_allowed_common env0"
    "active_mask affine0 h = {0, 1}"
proof -
  have "e_nr_cpu_ids env0 = 2" by (simp add: env0_def)
  then show "set_cpus_allowed_common affine0 = set_cpus_allowed_common env0"
    by (intro ext) (simp add: set_cpus_allowed_common_def cpus_of_def affine0_env)
  have "[0 ..< 2] = [0, 1 :: nat]" by (simp add: numeral_2_eq_2)
  then show "active_mask affine0 h = {0, 1}" by (simp add: active_mask_def affine0_env del: upt_Suc One_nat_def)
qed

section \<open>Tick, hotplug and initialisation\<close>

text \<open>CPU 0 does the housekeeping; CPU 1 is a full dynticks CPU whose tick is stopped.\<close>

definition nohz_ops0 :: "(unit, list_heap) nohz_ops" where
  "nohz_ops0 = nohz_ops.fields (\<lambda>c. c = 0) (\<lambda>c. c = 0) (\<lambda>k. 0) (\<lambda>c. c = 1)
     (\<lambda>c k. c = 1) (\<lambda>c k. ()) (\<lambda>k. ()) (\<lambda>c k. ()) (\<lambda>c k. ()) (\<lambda>c k. ()) (\<lambda>c k. ()) (\<lambda>c k. False)
     (\<lambda>c k. ()) (\<lambda>c d k. ()) (\<lambda>c k. 0) (\<lambda>c k. False) (\<lambda>c k. ())"

definition nohz0 :: "(unit, list_heap) nohz_env" where
  "nohz0 = env.extend env_smp0 (wake_ops.extend wake_ops0 (fork_ops.extend fork_ops0
     (affine_ops.extend affine_ops0 nohz_ops0)))"

definition hotplug_ops0 :: "(unit, list_heap) hotplug_ops" where
  "hotplug_ops0 = hotplug_ops.fields 0 (\<lambda>k. ()) (\<lambda>c p k. ()) (\<lambda>c k. False) (\<lambda>c k. ())
     (\<lambda>c b k. ()) (\<lambda>k. False) (\<lambda>k. ()) (\<lambda>k. ()) (\<lambda>k. ()) (\<lambda>c k. 0) (\<lambda>c k. {c}) (\<lambda>k. ()) (\<lambda>k. ())
     (\<lambda>c b k. ()) (\<lambda>c b k. ()) (\<lambda>c k. k) (\<lambda>k. Some k) (\<lambda>k. ()) (\<lambda>c k. (0, 0)) {0} (\<lambda>k. ()) (\<lambda>k. ())"

definition hotplug0 :: "(unit, list_heap) hotplug_env" where
  "hotplug0 = env.extend env_smp0 (wake_ops.extend wake_ops0 (fork_ops.extend fork_ops0
     (affine_ops.extend affine_ops0 (nohz_ops.extend nohz_ops0 hotplug_ops0))))"

definition boot_ops0 :: "(unit, list_heap) boot_ops" where
  "boot_ops0 = boot_ops.fields True True 501 500000 1024 0 (\<lambda>k. ()) bw0
     (\<lambda>c k. k) (\<lambda>c k. k) (\<lambda>c k. k) (\<lambda>c k. k) (\<lambda>c k. upd_rq c (\<lambda>r. r\<lparr>rq_rd := Some 0\<rparr>) k) (\<lambda>c k. ())
     (\<lambda>k. 0) (\<lambda>p c k. ()) (\<lambda>k. ()) (\<lambda>k. ())"

definition boot_env0 :: "(unit, list_heap) boot_env" where
  "boot_env0 = env.extend env_smp0 (wake_ops.extend wake_ops0 (fork_ops.extend fork_ops0
     (affine_ops.extend affine_ops0 (nohz_ops.extend nohz_ops0 (hotplug_ops.extend hotplug_ops0 boot_ops0)))))"

lemmas smp_machine_defs = boot_env0_def boot_ops0_def hotplug0_def hotplug_ops0_def nohz0_def nohz_ops0_def
  affine_machine_defs nohz_ops.defs hotplug_ops.defs boot_ops.defs

lemma nohz0_env:
  "e_hk_tick (nohz_of nohz0) = (\<lambda>c. c = 0)" "e_tick_stopped (nohz_of nohz0) = (\<lambda>c k. c = 1)"
  "e_list nohz0 = heap_ops" "e_cpu_online nohz0 = (\<lambda>c k. True)" "e_class nohz0 = e_class affine0"
  by (simp_all add: smp_machine_defs)

lemma hotplug0_env:
  "e_hk_tick (nohz_of hotplug0) = (\<lambda>c. c = 0)" "e_smp hotplug0" "e_list hotplug0 = heap_ops"
  "e_calc_load_fold (hotplug_of hotplug0) = (\<lambda>c k. (0, 0))" "e_hrtimer_active (nohz_of hotplug0) = (\<lambda>c k. False)"
  by (simp_all add: smp_machine_defs)

lemma boot_env0_env:
  "e_smp boot_env0" "e_list boot_env0 = heap_ops" "e_nr_cpu_ids boot_env0 = 2" "e_init_task (boot_of boot_env0) = 0"
  "e_init_cfs_rq (boot_of boot_env0) = (\<lambda>c k. k)" "e_init_rt_rq (boot_of boot_env0) = (\<lambda>c k. k)"
  "e_init_dl_rq (boot_of boot_env0) = (\<lambda>c k. k)" "e_init_tg_entry (boot_of boot_env0) = (\<lambda>c k. k)"
  "e_rq_attach_root (boot_of boot_env0) = (\<lambda>c k. upd_rq c (\<lambda>r. r\<lparr>rq_rd := Some 0\<rparr>) k)"
  "e_uclamp boot_env0" "\<not> e_uclamp_group boot_env0" "\<not> e_cgroup_sched (fork_of boot_env0)"
  by (simp_all add: smp_machine_defs)

section \<open>Preemption\<close>

definition preempt_ops0 :: "(unit, list_heap) preempt_ops" where
  "preempt_ops0 = preempt_ops.fields (\<lambda>k. ()) (\<lambda>k. ()) (\<lambda>k. ()) (\<lambda>t l k. False)
     (\<lambda>t l k. Some k) (\<lambda>t l k. Some k) (\<lambda>n k. Some (0, k)) (\<lambda>k. Some k) (\<lambda>p k. ()) (\<lambda>p k. Some k)"

definition preempt0 :: "(unit, list_heap) preempt_env" where
  "preempt0 = env.extend env0 (wake_ops.extend wake_ops0 preempt_ops0)"

end
