(* ===== verification/Affinity_Props.thy ===== *)
theory Affinity_Props
  imports Affinity_Calls Core_Lottery Smp_Machine
begin

text \<open>
  Properties of the affinity changes: the mask of a blocked task is changed without waiting and reads
  back, a wait for a task ends with the task off its CPU, nested migration-disabled sections undo
  each other, and a lottery task's mask cannot be changed.
\<close>

section \<open>A blocked task\<close>

lemma upd_pending_simps [simp, kupd]:
  "k_tasks (upd_pending i f k) = k_tasks k" "k_rqs (upd_pending i f k) = k_rqs k"
  "k_this_cpu (upd_pending i f k) = k_this_cpu k" "k_nr_pendings (upd_pending i f k) = k_nr_pendings k"
  "k_pendings (upd_pending i f k) = (k_pendings k)(i := f (k_pendings k i))"
  by (simp_all add: upd_pending_def)

lemma uninstalled: "t_migration_pending t = None \<Longrightarrow> t\<lparr>t_migration_pending := None\<rparr> = t"
  by (cases t) simp

lemma no_flag_zero [simp]: "\<not> has_flag w 0" "\<not> has_flag 0 w"
  by (simp_all add: has_flag_def)

text \<open>The mask of a task that is neither queued nor running is set by the class hook alone.\<close>

lemma set_mask_blocked:
  assumes "t_on_rq (tsk k p) \<noteq> TASK_ON_RQ_QUEUED" and "\<not> task_current k (task_cpu k p) p"
    and "vt_set_cpus_allowed (cl env k p) = Some (\<lambda>p m f k. Some (set_cpus_allowed_common env p m f k))"
    and "\<not> has_flag flags SCA_MIGRATE_DISABLE"
  shows "do_set_cpus_allowed_flags env p m flags k = Some (set_cpus_allowed_common env p m flags k)"
  using assms by (simp add: do_set_cpus_allowed_flags_def Let_def task_on_rq_queued_def)

text \<open>The request of a blocked task is completed at once: nothing is waited for.\<close>

lemma affine_move_blocked:
  assumes "t_on_rq (tsk k p) \<noteq> TASK_ON_RQ_QUEUED" and "\<not> task_running (e_smp env) k c p"
    and "t_state (tsk k p) \<noteq> TASK_WAKING" and "\<not> is_migration_disabled env (tsk k p)"
    and "t_migration_pending (tsk k p) = None" and "\<not> has_flag flags SCA_MIGRATE_ENABLE"
  obtains k' where "affine_move_task env c p d flags k = Some (0, k')"
    and "k_tasks k' = k_tasks k"
proof (cases "task_cpu k p \<in> t_cpus_mask (tsk k p)")
  case True
  then have "affine_move_task env c p d flags k = Some (0, affine_allowed env c p flags k)"
    by (simp add: affine_move_task_def)
  moreover have "k_tasks (affine_allowed env c p flags k) = k_tasks k"
    using assms(5,6) by (simp add: affine_allowed_def)
  ultimately show ?thesis by (rule that)
next
  case False
  let ?my = "k_nr_pendings k"
  let ?k1 = "upd_pending ?my (\<lambda>_. pending_zero) (k\<lparr>k_nr_pendings := ?my + 1\<rparr>)"
  let ?k2 = "upd_task p (\<lambda>t. t\<lparr>t_migration_pending := Some ?my\<rparr>)
    (upd_pending ?my (\<lambda>s. s\<lparr>sp_refs := 1, sp_done := False, sp_dest_cpu := d\<rparr>) ?k1)"
  let ?k3 = "complete_all ?my (upd_task p (\<lambda>t. t\<lparr>t_migration_pending := None\<rparr>) ?k2)"
  have inst: "affine_install p d flags ?my ?k1 = ?k2"
    using assms(5,6) by (simp add: affine_install_def)
  have run: "\<not> task_running (e_smp env) ?k2 c p" "\<not> is_migration_disabled env (tsk ?k2 p)"
    "\<not> task_on_rq_queued ?k2 p" "t_state (tsk ?k2 p) \<noteq> TASK_WAKING"
    "\<not> sp_stop_pending (k_pendings ?k2 ?my)" "t_migration_pending (tsk ?k2 p) = Some ?my"
    using assms by (auto simp: task_running_def task_current_def is_migration_disabled_def
        task_on_rq_queued_def pending_zero_def split: if_splits)
  have w: "affine_wait env ?my ?my ?k3 = Some (0, ext_do (e_wake_refs (affine_of env) ?my)
      (upd_pending ?my (\<lambda>s. s\<lparr>sp_refs := sp_refs s - 1\<rparr>) ?k3))" (is "_ = Some (0, ?k4)")
    by (simp add: affine_wait_def complete_all_def pending_zero_def Let_def)
  have "affine_move_task env c p d flags k = Some (0, ?k4)"
    unfolding affine_move_task_def Let_def inst
    using False run w by (simp del: k_tasks_upd upd_pending_simps add: complete_all_def)
  moreover have "k_tasks ?k4 = k_tasks k"
    using uninstalled[OF assms(5)] by (simp add: complete_all_def fun_upd_idem)
  ultimately show ?thesis by (rule that)
qed


lemma set_common_tasks:
  "\<not> has_flag flags (SCA_MIGRATE_ENABLE OR SCA_MIGRATE_DISABLE) \<Longrightarrow>
     set_cpus_allowed_common env p m flags k =
       upd_task p (\<lambda>t. t\<lparr>t_cpus_mask := m, t_nr_cpus_allowed := length (cpus_of env m)\<rparr>) k"
  by (simp add: set_cpus_allowed_common_def)

lemma sca_flags:
  "\<not> has_flag (SCA_CHECK OR SCA_USER) (SCA_MIGRATE_ENABLE OR SCA_MIGRATE_DISABLE)"
  "\<not> has_flag (SCA_CHECK OR SCA_USER) SCA_MIGRATE_ENABLE"
  "\<not> has_flag (SCA_CHECK OR SCA_USER) SCA_MIGRATE_DISABLE"
  "has_flag (SCA_CHECK OR SCA_USER) SCA_USER" "has_flag (SCA_CHECK OR SCA_USER) SCA_CHECK"
  by (simp_all add: has_flag_def SCA_CHECK_def SCA_USER_def SCA_MIGRATE_ENABLE_def
      SCA_MIGRATE_DISABLE_def)

text \<open>The state of a task that is blocked and whose mask may be changed from user space.\<close>

definition affine_blocked :: "('x, 'l, 'm) affine_env_scheme \<Rightarrow> tid \<Rightarrow> ('x, 'l) kernel \<Rightarrow> bool" where
  "affine_blocked env p k \<longleftrightarrow>
     t_on_rq (tsk k p) \<noteq> TASK_ON_RQ_QUEUED \<and> \<not> task_current k (task_cpu k p) p \<and> \<not> t_on_cpu (tsk k p) \<and>
     t_state (tsk k p) \<noteq> TASK_WAKING \<and> t_migration_disabled (tsk k p) = 0 \<and>
     t_migration_pending (tsk k p) = None \<and> \<not> has_flag (t_flags (tsk k p)) PF_KTHREAD \<and>
     \<not> has_flag (t_flags (tsk k p)) PF_NO_SETAFFINITY"

lemma set_allowed_blocked:
  assumes "e_smp env" and "affine_blocked env p k"
    and "vt_set_cpus_allowed (cl env k p) = Some (\<lambda>p m f k. Some (set_cpus_allowed_common env p m f k))"
    and "\<And>h. m \<subseteq> e_task_cpu_possible_mask env p h" and "\<And>h. active_mask env h = act"
    and "\<And>v h. v \<inter> m \<noteq> {} \<Longrightarrow> fst (e_any_and_distribute (affine_of env) v m h) < e_nr_cpu_ids env"
    and "act \<inter> m \<noteq> {}"
  obtains k' where "set_cpus_allowed_ptr_flags env p m (SCA_CHECK OR SCA_USER) k = Some (0, k')"
    and "t_cpus_mask (tsk k' p) = m" and "t_migration_pending (tsk k' p) = None"
proof (cases "t_cpus_mask (tsk k p) = m")
  case True
  have "set_cpus_allowed_check env p m (SCA_CHECK OR SCA_USER) (update_rq_clock env (task_cpu k p) k) =
      (Inl 0, update_rq_clock env (task_cpu k p) k)"
    using assms(2,4) True by (simp add: set_cpus_allowed_check_def Let_def affine_blocked_def sca_flags)
  then have "set_cpus_allowed_ptr_flags env p m (SCA_CHECK OR SCA_USER) k =
      Some (0, update_rq_clock env (task_cpu k p) k)"
    using assms(1) by (simp add: set_cpus_allowed_ptr_flags_def set_cpus_allowed_ptr_locked_def)
  then show ?thesis using True assms(2)
    by (intro that[of "update_rq_clock env (task_cpu k p) k"]) (simp_all add: affine_blocked_def)
next
  case False
  let ?c = "task_cpu k p" and ?fl = "SCA_CHECK OR SCA_USER"
  let ?k1 = "update_rq_clock env ?c k"
  obtain d x where dist: "e_any_and_distribute (affine_of env) act m ?k1 = (d, x)" by fastforce
  then have d: "d < e_nr_cpu_ids env" using assms(6)[OF assms(7), of ?k1] by simp
  let ?k2 = "?k1\<lparr>k_ext := x\<rparr>"
  have chk: "set_cpus_allowed_check env p m ?fl ?k1 = (Inr d, ?k2)"
    using assms(2,4,5) False dist d
    by (simp add: set_cpus_allowed_check_def Let_def affine_blocked_def sca_flags is_migration_disabled_def)
  have c2: "task_cpu ?k2 p = ?c" "rq_curr (cpu_rq ?k2 ?c) = rq_curr (cpu_rq k ?c)"
    using rq_core_fields(1)[OF update_rq_clock_core] by (simp_all add: task_cpu_def)
  let ?k3 = "snd (clear_user_cpus_ptr p (set_cpus_allowed_common env p m ?fl ?k2))"
  have mask: "do_set_cpus_allowed_flags env p m ?fl ?k2 = Some (set_cpus_allowed_common env p m ?fl ?k2)"
    using assms(2,3) c2 by (intro set_mask_blocked)
      (simp_all add: affine_blocked_def task_current_def cl_def sca_flags)
  have t3: "tsk ?k3 p = (tsk k p)\<lparr>t_cpus_mask := m, t_nr_cpus_allowed := length (cpus_of env m),
      t_user_cpus_ptr := None\<rparr>"
    by (simp add: clear_user_cpus_ptr_def set_common_tasks[OF sca_flags(1)])
  obtain k' where k': "affine_move_task env ?c p d ?fl ?k3 = Some (0, k')" "k_tasks k' = k_tasks ?k3"
    by (rule affine_move_blocked[of ?k3 p env ?c ?fl d])
      (use assms(1,2) t3 in \<open>simp_all add: affine_blocked_def task_running_def is_migration_disabled_def sca_flags\<close>)
  have "set_cpus_allowed_ptr_flags env p m ?fl k = Some (0, k')"
    using assms(1) chk mask k'(1)
    by (simp add: set_cpus_allowed_ptr_flags_def set_cpus_allowed_ptr_locked_def sca_flags Let_def)
  moreover have "tsk k' p = (tsk k p)\<lparr>t_cpus_mask := m, t_nr_cpus_allowed := length (cpus_of env m),
      t_user_cpus_ptr := None\<rparr>" unfolding k'(2) by (rule t3)
  ultimately show ?thesis using assms(2) by (intro that[of k']) (simp_all add: affine_blocked_def)
qed

text \<open>C21: On SMP the system calls that set and read the affinity of a blocked task of a class with
  the common hook agree: the change succeeds after one pass without waiting for another CPU, leaves
  no request installed, and the mask that reads back is the requested one, cut to the CPUs of the
  task's cpuset and to the active ones.\<close>

theorem setaffinity_getaffinity:
  assumes "e_smp env" and "\<And>h. find_process_by_pid env pid h = Some p" and "affine_blocked env p k"
    and "vt_set_cpus_allowed (cl env k p) = Some (\<lambda>p m f k. Some (set_cpus_allowed_common env p m f k))"
    and "\<And>h. e_cpuset_cpus_allowed (affine_of env) p h = cs" and "m \<inter> cs = new"
    and "\<And>h. new \<subseteq> e_task_cpu_possible_mask env p h" and "\<And>h. active_mask env h = act"
    and "\<And>v h. v \<inter> new \<noteq> {} \<Longrightarrow> fst (e_any_and_distribute (affine_of env) v new h) < e_nr_cpu_ids env"
    and "act \<inter> new \<noteq> {}" and "e_alloc_mask_ok (affine_of env) k" and "\<not> task_has_dl_policy (tsk k p)"
    and "check_same_owner k p" and "e_security_task_setscheduler env p k = 0"
    and "\<And>h. e_security_task_getscheduler env p h = 0" and "0 < n"
  shows "\<exists>k'. sched_setaffinity n env pid m k = Some (0, k') \<and>
    sched_getaffinity env pid k' = Inr (m \<inter> cs \<inter> act) \<and> t_migration_pending (tsk k' p) = None"
proof -
  obtain k' where k': "set_cpus_allowed_ptr_flags env p new (SCA_CHECK OR SCA_USER) k = Some (0, k')"
    "t_cpus_mask (tsk k' p) = new" "t_migration_pending (tsk k' p) = None"
    by (rule set_allowed_blocked[OF assms(1,3,4,7,8) _ assms(10)]) (use assms(9) in auto)
  obtain i where i: "n = Suc i" using assms(16) gr0_conv_Suc by blast
  have "new \<subseteq> cs" using assms(6) by blast
  then have "setaffinity_loop n env p new k = Some (0, k')"
    using k'(1) assms(5) by (simp add: i)
  then have "sched_setaffinity_task n env p m k = Some (0, k')"
    using assms(5,6,11,12) by (simp add: sched_setaffinity_task_def dl_task_check_affinity_def)
  then have "sched_setaffinity n env pid m k = Some (0, k')"
    using assms(2,3,13,14) by (simp add: sched_setaffinity_def affine_blocked_def)
  moreover have "sched_getaffinity env pid k' = Inr (m \<inter> cs \<inter> act)"
    using k'(2) assms(2,6,8,15) by (simp add: sched_getaffinity_def)
  ultimately show ?thesis using k'(3) by blast
qed

definition fair_sleeper0 :: "(unit, list_heap) kernel" where
  "fair_sleeper0 = upd_task 3 (\<lambda>t. t\<lparr>t_class := Fair_class, t_policy := SCHED_NORMAL,
     t_state := TASK_INTERRUPTIBLE\<rparr>) kernel0"

theorem setaffinity_getaffinity_witness:
  "\<exists>k'. sched_setaffinity 1 affine0 3 {1, 5} fair_sleeper0 = Some (0, k') \<and>
     sched_getaffinity affine0 3 k' = Inr {1}"
proof -
  have s: "e_smp affine0" "find_process_by_pid affine0 3 h = Some 3"
    "affine_blocked affine0 3 fair_sleeper0"
    "vt_set_cpus_allowed (cl affine0 fair_sleeper0 3) =
       Some (\<lambda>p m f k. Some (set_cpus_allowed_common affine0 p m f k))"
    "e_cpuset_cpus_allowed (affine_of affine0) 3 h = {0, 1}" "{1, 5} \<inter> {0, 1} = {1 :: cpu}"
    "{1} \<subseteq> e_task_cpu_possible_mask affine0 3 h" "active_mask affine0 h = {0, 1}"
    "v \<inter> {1} \<noteq> {} \<Longrightarrow> fst (e_any_and_distribute (affine_of affine0) v {1} h) < e_nr_cpu_ids affine0"
    "{0, 1} \<inter> {1} \<noteq> ({} :: cpu set)" "e_alloc_mask_ok (affine_of affine0) fair_sleeper0"
    "\<not> task_has_dl_policy (tsk fair_sleeper0 3)" "check_same_owner fair_sleeper0 3"
    "e_security_task_setscheduler affine0 3 fair_sleeper0 = 0"
    "e_security_task_getscheduler affine0 3 h = 0" "(0 :: nat) < 1" for h v
    by (auto simp: affine0_env affine0_masks find_process_by_pid_def affine_blocked_def cl_def class_vt_def
        fair_sleeper0_def kernel0_def task0_def rq0_def task_current_def task_cpu_def has_flag_def
        TASK_INTERRUPTIBLE_def TASK_WAKING_def task_has_dl_policy_def dl_policy_def SCHED_NORMAL_def
        SCHED_DEADLINE_def check_same_owner_def current_task_def TASK_ON_RQ_QUEUED_def)
  from setaffinity_getaffinity[OF s] show ?thesis by auto
qed

section \<open>Waiting for a task\<close>

lemma wait_while_running_off:
  "wait_while_running n env c p ms k = Some (b, k') \<Longrightarrow> b \<Longrightarrow> \<not> task_running (e_smp env) k' c p"
  by (induction n arbitrary: k) (auto simp: bind_eq_Some_conv split: if_splits)

text \<open>The step of the other CPUs while the task is running, and the sleep of a tick while it is only queued, bring
  it closer to being off the runqueue, as the comment of the function demands of its callers. \<open>m\<close> counts how
  often they still have to.\<close>

definition wait_progress ::
    "('x, 'l, 'm) affine_env_scheme \<Rightarrow> tid \<Rightarrow> (('x, 'l) kernel \<Rightarrow> nat) \<Rightarrow> bool" where
  "wait_progress env p m \<longleftrightarrow>
     (\<forall>k c. task_running (e_smp env) k c p \<longrightarrow>
        (\<exists>k'. e_relax (affine_of env) k = Some k' \<and> m k' < m k)) \<and>
     (\<forall>k. \<not> task_running (e_smp env) k (task_cpu k p) p \<longrightarrow> task_on_rq_queued k p \<longrightarrow>
        (\<exists>k'. e_schedule_hrtimeout (affine_of env)
                (upd_task (current_task k) (\<lambda>t. t\<lparr>t_state := TASK_UNINTERRUPTIBLE\<rparr>) k) = Some k' \<and> m k' < m k))"

lemma switch_count_pos: "switch_count t \<noteq> 0"
proof
  assume "switch_count t = 0"
  then have "(ucast (t_nvcsw t) OR 0x80000000) AND (0x80000000 :: u32) = 0" by (simp add: switch_count_def)
  then show False by (simp only: or_and_absorb) simp
qed

lemma wait_while_running_ends:
  assumes "wait_progress env p m" and "m k < n"
  shows "\<exists>off k'. wait_while_running n env c p ms k = Some (off, k') \<and> m k' \<le> m k \<and>
    (if off then \<not> task_running (e_smp env) k' c p else ms \<noteq> 0 \<and> t_state (tsk k' p) \<noteq> ms)"
  using assms(2)
proof (induction n arbitrary: k)
  case (Suc n)
  show ?case
  proof (cases "task_running (e_smp env) k c p \<and> \<not> (ms \<noteq> 0 \<and> t_state (tsk k p) \<noteq> ms)")
    case True
    then obtain h where h: "e_relax (affine_of env) k = Some h" "m h < m k"
      using assms(1) by (auto simp: wait_progress_def)
    with Suc.prems have "m h < n" by simp
    from Suc.IH[OF this] True h show ?thesis by (fastforce split: if_splits)
  qed auto
qed simp

text \<open>C33: A wait for a task to become inactive ends. When every wait for the other CPUs brings the task
  closer to leaving its runqueue, two looks more than waits are needed. A result of 0
  means that the task was found in another state than the expected one; any other result means that it is off its CPU and
  off the runqueue, in the expected state if one was given, and is the task's switch count with the top
  bit set.\<close>

theorem wait_task_inactive_off:
  assumes "wait_progress env p m" and "m k + 2 \<le> n"
  shows "\<exists>ncsw k'. wait_task_inactive n env p match_state k = Some (ncsw, k') \<and>
    (if ncsw = 0 then match_state \<noteq> 0 \<and> t_state (tsk k' p) \<noteq> match_state
     else \<not> task_running (e_smp env) k' (task_cpu k' p) p \<and> \<not> task_on_rq_queued k' p \<and>
       ncsw = switch_count (tsk k' p) \<and> (match_state = 0 \<or> t_state (tsk k' p) = match_state))"
  using assms(2)
proof (induction n arbitrary: k)
  case (Suc n)
  from Suc.prems have "m k < n" by simp
  from wait_while_running_ends[OF assms(1) this] obtain off h where
    h: "wait_while_running n env (task_cpu k p) p match_state k = Some (off, h)" "m h \<le> m k"
    "if off then \<not> task_running (e_smp env) h (task_cpu k p) p
     else match_state \<noteq> 0 \<and> t_state (tsk h p) \<noteq> match_state" by blast
  let ?run = "task_running (e_smp env) h (task_cpu h p) p"
  let ?st = "match_state = 0 \<or> t_state (tsk h p) = match_state"
  have again: "\<exists>ncsw k'. wait_task_inactive n env p match_state g = Some (ncsw, k') \<and>
    (if ncsw = 0 then match_state \<noteq> 0 \<and> t_state (tsk k' p) \<noteq> match_state
     else \<not> task_running (e_smp env) k' (task_cpu k' p) p \<and> \<not> task_on_rq_queued k' p \<and>
       ncsw = switch_count (tsk k' p) \<and> (match_state = 0 \<or> t_state (tsk k' p) = match_state))"
    if "m g < m h" for g using that h(2) Suc.prems by (intro Suc.IH) simp
  show ?case
  proof (cases "off \<and> ?st")
    case False
    with h show ?thesis by (auto simp: Let_def)
  next
    case st: True
    show ?thesis
    proof (cases ?run)
      case True
      then obtain g where "e_relax (affine_of env) h = Some g" "m g < m h"
        using assms(1) by (auto simp: wait_progress_def)
      with again[of g] h(1) st True switch_count_pos show ?thesis by (simp add: Let_def)
    next
      case run: False
      show ?thesis
      proof (cases "task_on_rq_queued h p")
        case True
        then obtain g where "e_schedule_hrtimeout (affine_of env)
            (upd_task (current_task h) (\<lambda>t. t\<lparr>t_state := TASK_UNINTERRUPTIBLE\<rparr>) h) = Some g" "m g < m h"
          using assms(1) run by (auto simp: wait_progress_def)
        with again[of g] h(1) st True run switch_count_pos show ?thesis by (simp add: Let_def)
      next
        case False
        with h(1) st run switch_count_pos show ?thesis by (simp add: Let_def)
      qed
    qed
  qed
qed simp

text \<open>A machine whose CPUs take task 3 off: a task that is still queued is waited for.\<close>

definition retire0 :: "(unit, list_heap) affine_env" where
  "retire0 = env.extend env_smp0 (wake_ops.extend wake_ops0 (fork_ops.extend fork_ops0
     (affine_ops0\<lparr>e_relax := (\<lambda>k. Some (upd_task 3 (\<lambda>t. t\<lparr>t_on_cpu := False\<rparr>) k)),
        e_schedule_hrtimeout := (\<lambda>k. Some (upd_task 3 (\<lambda>t. t\<lparr>t_on_rq := 0\<rparr>) k))\<rparr>)))"

definition retiring0 :: "(unit, list_heap) kernel" where
  "retiring0 = upd_task 3 (\<lambda>t. t\<lparr>t_on_rq := TASK_ON_RQ_QUEUED\<rparr>) fair_sleeper0"

theorem wait_task_inactive_off_witness:
  "\<exists>ncsw k'. wait_task_inactive 4 retire0 3 0 retiring0 = Some (ncsw, k') \<and> ncsw \<noteq> 0 \<and>
     \<not> task_on_rq_queued k' 3"
proof -
  let ?m = "\<lambda>k. of_bool (t_on_cpu (tsk k 3)) + of_bool (task_on_rq_queued k 3) :: nat"
  have e: "e_smp retire0" "e_relax (affine_of retire0) = (\<lambda>k. Some (upd_task 3 (\<lambda>t. t\<lparr>t_on_cpu := False\<rparr>) k))"
    "e_schedule_hrtimeout (affine_of retire0) = (\<lambda>k. Some (upd_task 3 (\<lambda>t. t\<lparr>t_on_rq := 0\<rparr>) k))"
    by (simp_all add: retire0_def affine_machine_defs)
  have "wait_progress retire0 3 ?m"
    by (simp add: wait_progress_def e task_running_def task_on_rq_queued_def TASK_ON_RQ_QUEUED_def)
  moreover have "?m retiring0 + 2 \<le> 4" by (simp add: of_bool_def)
  ultimately obtain n k' where "wait_task_inactive 4 retire0 3 0 retiring0 = Some (n, k')"
    "if n = 0 then False else \<not> task_on_rq_queued k' 3"
    using wait_task_inactive_off[where match_state = 0] by (metis (no_types, lifting))
  then show ?thesis by (auto split: if_splits)
qed

section \<open>Disabling migration\<close>

lemma u16_count:
  assumes "(w :: 16 word) \<noteq> 0" and "w \<noteq> - 1"
  shows "1 < w + 1"
proof -
  have "unat w < 2 ^ 16" using unsigned_less[of w] by simp
  moreover have "unat w \<noteq> 65535"
  proof
    assume "unat w = 65535"
    moreover have "w = word_of_nat (unat w)" by simp
    ultimately have "w = word_of_nat 65535" by metis
    then show False using assms(2) by simp
  qed
  moreover have "0 < unat w" using assms(1) by (simp add: unat_gt_0)
  ultimately show ?thesis by (simp add: word_less_nat_alt unat_word_ariths)
qed

lemma upd_task_same: "f (g (tsk k p)) = tsk k p \<Longrightarrow> upd_task p f (upd_task p g k) = k"
  by (simp add: upd_task_def fun_upd_idem)

lemma upd_rq_same: "f (g (cpu_rq k c)) = cpu_rq k c \<Longrightarrow> upd_rq c f (upd_rq c g k) = k"
  by (simp add: upd_rq_def fun_upd_idem)

lemma upd_task_rq: "upd_task p f (upd_rq c g k) = upd_rq c g (upd_task p f k)"
  by (simp add: upd_task_def upd_rq_def)

text \<open>Disabling and enabling migration are inverse: a nested section, or a section in which the
  task was not switched out, leaves the state as it was. The count is 16 bits wide; the bound is the
  count one below its wrap.\<close>

theorem migrate_disable_enable:
  assumes "p = current_task k" and "t_migration_disabled (tsk k p) \<noteq> - 1"
    and "t_migration_disabled (tsk k p) = 0 \<Longrightarrow> t_cpus_ptr (tsk k p) = None"
  shows "migrate_enable env (migrate_disable k) = Some k"
proof (cases "t_migration_disabled (tsk k p) = 0")
  case True
  let ?k = "upd_task p (\<lambda>t. t\<lparr>t_migration_disabled := 1\<rparr>)
    (upd_rq (k_this_cpu k) (\<lambda>r. r\<lparr>rq_nr_pinned := rq_nr_pinned r + 1\<rparr>) k)"
  have md: "migrate_disable k = ?k" using True assms(1) by (simp add: migrate_disable_def Let_def)
  have cur: "current_task ?k = p" using assms(1) by (simp add: current_task_def)
  have "migrate_enable env ?k = Some (upd_rq (k_this_cpu k) (\<lambda>r. r\<lparr>rq_nr_pinned := rq_nr_pinned r - 1\<rparr>)
      (upd_task p (\<lambda>t. t\<lparr>t_migration_disabled := 0\<rparr>) ?k))"
    using assms(3)[OF True] unfolding migrate_enable_def Let_def cur by simp
  also have "upd_task p (\<lambda>t. t\<lparr>t_migration_disabled := 0\<rparr>) ?k =
      upd_rq (k_this_cpu k) (\<lambda>r. r\<lparr>rq_nr_pinned := rq_nr_pinned r + 1\<rparr>) k"
    using True unfolding upd_task_rq by (subst upd_task_same) simp_all
  finally show ?thesis unfolding md by (simp add: upd_rq_same)
next
  case False
  let ?k = "upd_task p (\<lambda>t. t\<lparr>t_migration_disabled := t_migration_disabled t + 1\<rparr>) k"
  have md: "migrate_disable k = ?k" using False assms(1) by (simp add: migrate_disable_def Let_def)
  have cur: "current_task ?k = p" using assms(1) by (simp add: current_task_def)
  have "1 < t_migration_disabled (tsk ?k p)" using u16_count[OF False assms(2)] by simp
  then have "migrate_enable env ?k =
      Some (upd_task p (\<lambda>t. t\<lparr>t_migration_disabled := t_migration_disabled t - 1\<rparr>) ?k)"
    unfolding migrate_enable_def Let_def cur by simp
  also have "\<dots> = Some k" by (simp add: upd_task_same)
  finally show ?thesis unfolding md .
qed

theorem migrate_disable_enable_witness:
  "migrate_enable affine0 (migrate_disable kernel0) = Some kernel0 \<and>
   migrate_enable affine0 (migrate_disable (migrate_disable kernel0)) = Some (migrate_disable kernel0)"
proof
  show "migrate_enable affine0 (migrate_disable kernel0) = Some kernel0"
    by (rule migrate_disable_enable[OF refl])
      (simp_all add: kernel0_def task0_def current_task_def rq0_def)
  show "migrate_enable affine0 (migrate_disable (migrate_disable kernel0)) = Some (migrate_disable kernel0)"
    by (rule migrate_disable_enable[OF refl])
      (simp_all add: kernel0_def task0_def current_task_def rq0_def migrate_disable_def Let_def)
qed

section \<open>Lottery tasks\<close>

lemma check_keeps_tasks:
  "set_cpus_allowed_check env p m fl k = (r, k') \<Longrightarrow> k_tasks k' = k_tasks k"
  by (auto simp: set_cpus_allowed_check_def Let_def split: if_splits prod.splits)

lemma lottery_mask_oops:
  assumes "t_class (tsk k p) = Lottery_class"
  shows "do_set_cpus_allowed_flags env p m fl k = None"
proof -
  let ?c = "task_cpu k p"
  let ?k = "warn_on ''__do_set_cpus_allowed''
    (e_sched_debug env \<and> has_flag fl SCA_MIGRATE_DISABLE \<and> \<not> t_on_cpu (tsk k p)) k"
  let ?deq = "if task_on_rq_queued ?k p
    then dequeue_task env ?c p (DEQUEUE_SAVE OR DEQUEUE_NOCLOCK) ?k else Some ?k"
  have last: "(do {
      k \<leftarrow> (if b then put_prev_task env ?c p k1 else Some k1);
      f \<leftarrow> vt_set_cpus_allowed (cl env k p);
      g f k
    }) = None" if "k_tasks k1 = k_tasks k" for b k1 g
    using assms that by (cases b) (simp_all add: put_prev_task_def put_prev_task_lottery_def)
  have deq: "k_tasks k1 = k_tasks k" if "?deq = Some k1" for k1
  proof (cases "task_on_rq_queued ?k p")
    case True
    have "t_class (tsk ?k p) = Lottery_class" using assms by simp
    then obtain k0 where "dequeue_task env ?c p (DEQUEUE_SAVE OR DEQUEUE_NOCLOCK) ?k =
        dequeue_task_lottery env ?c p (DEQUEUE_SAVE OR DEQUEUE_NOCLOCK) k0" "ltr_frame ?c ?k k0"
      using dequeue_task_lottery_core by metis
    with that True show ?thesis
      using ltr_frameD(1)[OF lottery_frame_deq, of env ?c p "DEQUEUE_SAVE OR DEQUEUE_NOCLOCK" k0 k1]
        ltr_frameD(1)[of ?c ?k k0] by simp
  qed (use that in auto)
  show ?thesis
  proof (cases ?deq)
    case None
    then show ?thesis unfolding do_set_cpus_allowed_flags_def Let_def by simp
  next
    case (Some k1)
    show ?thesis
      unfolding do_set_cpus_allowed_flags_def Let_def Some bind.bind_lunit
      by (rule last[OF deq[OF Some]])
  qed
qed

text \<open>On SMP the affinity mask of a lottery task cannot be changed: a request that passes the
  checks of \<open>__set_cpus_allowed_ptr\<close> is an oops, since the class has no \<open>set_cpus_allowed\<close> hook.\<close>

theorem set_cpus_allowed_lottery_oops:
  assumes "e_smp env" and "t_class (tsk k p) = Lottery_class"
  shows "set_cpus_allowed_ptr_flags env p m fl k =
    (case set_cpus_allowed_check env p m fl (update_rq_clock env (task_cpu k p) k) of
       (Inl ret, k') \<Rightarrow> Some (ret, k')
     | (Inr d, k') \<Rightarrow> None)"
proof -
  obtain r k1 where chk:
    "set_cpus_allowed_check env p m fl (update_rq_clock env (task_cpu k p) k) = (r, k1)" by fastforce
  have "t_class (tsk k1 p) = Lottery_class" using check_keeps_tasks[OF chk] assms(2) by simp
  from lottery_mask_oops[OF this, of env m fl] show ?thesis
    using assms(1) chk
    by (simp add: set_cpus_allowed_ptr_flags_def set_cpus_allowed_ptr_locked_def split: sum.splits)
qed

theorem set_cpus_allowed_lottery_oops_witness:
  "set_cpus_allowed_ptr affine0 3 {1} kernel0 = None"
proof -
  have c: "t_class (tsk kernel0 3) = Lottery_class" by (simp add: kernel0_def task0_def)
  have "fst (set_cpus_allowed_check affine0 3 {1} 0 (update_rq_clock affine0 (task_cpu kernel0 3) kernel0)) = Inr 1"
    by (simp add: set_cpus_allowed_check_def Let_def affine0_env affine0_masks kernel0_def task0_def
        has_flag_def is_migration_disabled_def)
  then obtain k1 where "set_cpus_allowed_check affine0 3 {1} 0
      (update_rq_clock affine0 (task_cpu kernel0 3) kernel0) = (Inr 1, k1)" by (metis prod.collapse)
  with set_cpus_allowed_lottery_oops[OF affine0_env(1) c, of "{1}" 0] show ?thesis
    by (simp add: set_cpus_allowed_ptr_def)
qed

end
