(* ===== verification/Hotplug_Props.thy ===== *)
theory Hotplug_Props
  imports Smp_Machine Core_Lottery
begin

text \<open>
  Properties of the tick and of CPU hotplug: the remote tick's work is queued exactly once, and lottery
  tasks are invisible to every count of runnable tasks, so that the tick may stop under them and a CPU
  may die with lottery tasks on its queue.
\<close>

section \<open>The work of the remote tick\<close>

lemma k_tick_works_clock [simp]: "k_tick_works (update_rq_clock env c k) = k_tick_works k"
  by (simp add: update_rq_clock_def update_rq_clock_task_def Let_def)

lemma k_tick_works_resched [simp]: "k_tick_works (resched_curr env c k) = k_tick_works k"
  by (simp add: resched_curr_def set_nr_and_not_polling_def Let_def)

lemma k_tick_works_lottery:
  "task_tick_lottery env c p q k = Some k' \<Longrightarrow> k_tick_works k' = k_tick_works k"
  by (auto simp: task_tick_lottery_def get_random_u32_def Let_def split: if_splits)

lemma k_tick_works_read [simp]: "k_tick_works (snd (rq_clock_task_read c k)) = k_tick_works k"
  by (simp add: rq_clock_task_read_def assert_clock_updated_def)

lemma k_tick_works_work [simp]:
  "k_tick_works (upd_tick_work c f k) = (k_tick_works k)(c := f (k_tick_works k c))"
  by (simp add: upd_tick_work_def)

text \<open>The hooks of the classes outside the repository leave the work structures alone.\<close>

definition ticks_keep_works :: "('x, 'l, 'm) env_scheme \<Rightarrow> bool" where
  "ticks_keep_works env \<longleftrightarrow> (\<forall>sc f c p q k k'. vt_task_tick (e_class env sc) = Some f \<longrightarrow>
     f c p q k = Some k' \<longrightarrow> k_tick_works k' = k_tick_works k)"

lemma remote_tick_works:
  assumes "ticks_keep_works env" and "remote_tick env c k = Some k'"
  shows "k_tick_works k' = k_tick_works k"
proof (cases "e_cpu_online env c k")
  case False
  with assms(2) show ?thesis by (simp add: remote_tick_def)
next
  case True
  let ?curr = "rq_curr (cpu_rq k c)"
  have vt: "k_tick_works h' = k_tick_works h"
    if "vt_task_tick (cl env h0 ?curr) = Some f" "f c ?curr 0 h = Some h'" for f h0 h h'
    using that assms(1) k_tick_works_lottery
    by (cases "t_class (tsk h0 ?curr) = Lottery_class")
      (auto simp: cl_def class_vt_def ticks_keep_works_def)
  have rd: "k_tick_works h' = k_tick_works h" if "rq_clock_task_read c h = (n, h')" for n h h'
    using k_tick_works_read[of c h] that by simp
  from assms(2) True show ?thesis
    by (auto simp: remote_tick_def bind_Some_iff Let_def dest!: vt rd split: if_splits prod.splits)
qed

lemma tick_remote_state:
  assumes "ticks_keep_works env" and "sched_tick_remote env w k = Some (q, k')"
  shows "q = (tw_state (k_tick_works k w) = TICK_SCHED_REMOTE_RUNNING)"
    and "k_tick_works k' w = (if tw_state (k_tick_works k w) = TICK_SCHED_REMOTE_RUNNING then k_tick_works k w
       else (k_tick_works k w)\<lparr>tw_state := tw_state (k_tick_works k w) - 1\<rparr>)"
proof -
  let ?c = "tw_cpu (k_tick_works k w)"
  obtain k1 where k1: "(if e_tick_stopped (nohz_of env) ?c k then remote_tick env ?c k else Some k) = Some k1"
    using assms(2) by (auto simp: sched_tick_remote_def Let_def bind_Some_iff)
  have w: "k_tick_works k1 = k_tick_works k"
    using remote_tick_works[OF assms(1), of ?c k k1] k1 by (simp split: if_splits)
  have r: "sched_tick_remote env w k = (let os = tw_state (k_tick_works k1 w);
      k2 = (if os = TICK_SCHED_REMOTE_RUNNING then k1
            else upd_tick_work w (\<lambda>t. t\<lparr>tw_state := tw_state t - 1\<rparr>) k1)
    in Some (os = TICK_SCHED_REMOTE_RUNNING,
         warn_on ''sched_tick_remote: os'' (os = TICK_SCHED_REMOTE_OFFLINE) k2))"
    unfolding sched_tick_remote_def Let_def k1 bind.bind_lunit ..
  from r assms(2) w show "q = (tw_state (k_tick_works k w) = TICK_SCHED_REMOTE_RUNNING)"
    by (simp add: Let_def)
  from r assms(2) w show "k_tick_works k' w =
      (if tw_state (k_tick_works k w) = TICK_SCHED_REMOTE_RUNNING then k_tick_works k w
       else (k_tick_works k w)\<lparr>tw_state := tw_state (k_tick_works k w) - 1\<rparr>)"
    by (auto simp: Let_def)
qed

text \<open>The events of a full dynticks CPU: it comes up when its tick is not running remotely, goes down
  when it is, its work runs when it is queued, and everything else leaves the structure alone. The
  number counts the queued works.\<close>

inductive tick_reach ::
    "('x, 'l, 'm) nohz_env_scheme \<Rightarrow> cpu \<Rightarrow> nat \<Rightarrow> ('x, 'l) kernel \<Rightarrow> bool" for env c where
  boot: "tw_state (k_tick_works k c) = TICK_SCHED_REMOTE_OFFLINE \<Longrightarrow> tick_reach env c 0 k"
| up: "tick_reach env c n k \<Longrightarrow> tw_state (k_tick_works k c) \<noteq> TICK_SCHED_REMOTE_RUNNING \<Longrightarrow>
    sched_tick_start env c k = (q, k') \<Longrightarrow> tick_reach env c (n + of_bool q) k'"
| down: "tick_reach env c n k \<Longrightarrow> tw_state (k_tick_works k c) = TICK_SCHED_REMOTE_RUNNING \<Longrightarrow>
    tick_reach env c n (sched_tick_stop env c k)"
| work: "tick_reach env c (Suc n) k \<Longrightarrow> sched_tick_remote env c k = Some (q, k') \<Longrightarrow>
    tick_reach env c (n + of_bool q) k'"
| other: "tick_reach env c n k \<Longrightarrow> k_tick_works k' = k_tick_works k \<Longrightarrow> tick_reach env c n k'"

lemmas tick_state_defs = TICK_SCHED_REMOTE_OFFLINE_def TICK_SCHED_REMOTE_OFFLINING_def
  TICK_SCHED_REMOTE_RUNNING_def

definition tick_work_ok :: "cpu \<Rightarrow> nat \<Rightarrow> tick_work \<Rightarrow> bool" where
  "tick_work_ok c n w \<longleftrightarrow>
     tw_state w \<in> {TICK_SCHED_REMOTE_OFFLINE, TICK_SCHED_REMOTE_OFFLINING, TICK_SCHED_REMOTE_RUNNING} \<and>
     n = (if tw_state w = TICK_SCHED_REMOTE_OFFLINE then 0 else 1) \<and>
     (tw_state w \<noteq> TICK_SCHED_REMOTE_OFFLINE \<longrightarrow> tw_cpu w = c)"

text \<open>C13: Whatever order a full dynticks CPU comes up, goes down and has its remote tick in, the work
  of the remote tick is queued exactly when the state is not \<open>OFFLINE\<close>, never twice, and for the CPU
  itself; so the work never finds the state \<open>OFFLINE\<close>, which is the warning of
  \<open>sched_tick_remote\<close>.\<close>

theorem tick_work_once:
  assumes "tick_reach env c n k" and "\<not> e_hk_tick (nohz_of env) c" and "ticks_keep_works env"
  shows "tick_work_ok c n (k_tick_works k c)"
  using assms(1)
proof induction
  case (boot k)
  then show ?case by (simp add: tick_work_ok_def)
next
  case (up n k q k')
  then show ?case using assms(2)
    by (auto simp: sched_tick_start_def Let_def tick_work_ok_def tick_state_defs split: if_splits)
next
  case (down n k)
  then show ?case using assms(2)
    by (auto simp: sched_tick_stop_def Let_def tick_work_ok_def tick_state_defs)
next
  case (work n k q k')
  note k1 = tick_remote_state[OF assms(3) work.hyps(2)]
  show ?case using work.IH k1 by (auto simp: tick_work_ok_def tick_state_defs split: if_splits)
next
  case (other n k k')
  then show ?case by simp
qed

lemma machine_ticks: "ticks_keep_works nohz0"
  by (auto simp: ticks_keep_works_def nohz0_env smp_machine_defs idle_vtable_def empty_vtable_def)

theorem tick_work_once_witness:
  "tick_work_ok 1 1 (k_tick_works (sched_tick_stop nohz0 1 (snd (sched_tick_start nohz0 1 kernel0))) 1)"
proof -
  have b: "tick_reach nohz0 1 0 kernel0" by (rule tick_reach.boot) (simp add: kernel0_def tick_state_defs)
  have s: "sched_tick_start nohz0 1 kernel0 = (True, snd (sched_tick_start nohz0 1 kernel0))"
    by (simp add: sched_tick_start_def nohz0_env kernel0_def tick_state_defs Let_def)
  have "tick_reach nohz0 1 (0 + of_bool True) (snd (sched_tick_start nohz0 1 kernel0))"
    by (rule tick_reach.up[OF b _ s]) (simp add: kernel0_def tick_state_defs)
  then have "tick_reach nohz0 1 (0 + of_bool True) (sched_tick_stop nohz0 1 (snd (sched_tick_start nohz0 1 kernel0)))"
    by (rule tick_reach.down)
      (simp add: sched_tick_start_def nohz0_env kernel0_def tick_state_defs Let_def)
  from tick_work_once[OF this _ machine_ticks] show ?thesis by (simp add: nohz0_env)
qed

section \<open>Lottery tasks are not counted\<close>

text \<open>A runqueue without its clocks and its lottery part.\<close>

definition rq_rest :: "rq \<Rightarrow> rq" where
  "rq_rest r = (rq_no_clock r)\<lparr>rq_ltr := \<lparr>lr_nr_running = 0, lr_total_tickets = 0\<rparr>\<rparr>"

lemma rq_no_clock_ltr: "rq_no_clock (r\<lparr>rq_ltr := q\<rparr>) = (rq_no_clock r)\<lparr>rq_ltr := q\<rparr>"
  by (simp add: rq_no_clock_def)

lemma rq_rest_fields:
  assumes "rq_rest r = rq_rest s"
  shows "rq_nr_running r = rq_nr_running s" "rq_curr r = rq_curr s" "rq_idle r = rq_idle s"
    "rq_ttwu_pending r = rq_ttwu_pending s" "rq_dl_nr_running r = rq_dl_nr_running s"
    "rq_rr_nr_running r = rq_rr_nr_running s" "rq_rt_nr_running r = rq_rt_nr_running s"
    "rq_nr_pinned r = rq_nr_pinned s"
proof -
  have "f (rq_rest r) = f (rq_rest s)" for f :: "rq \<Rightarrow> 'a" by (simp add: assms)
  from this[of rq_nr_running] this[of rq_curr] this[of rq_idle] this[of rq_ttwu_pending]
    this[of rq_dl_nr_running] this[of rq_rr_nr_running] this[of rq_rt_nr_running] this[of rq_nr_pinned]
  show "rq_nr_running r = rq_nr_running s" "rq_curr r = rq_curr s" "rq_idle r = rq_idle s"
    "rq_ttwu_pending r = rq_ttwu_pending s" "rq_dl_nr_running r = rq_dl_nr_running s"
    "rq_rr_nr_running r = rq_rr_nr_running s" "rq_rt_nr_running r = rq_rt_nr_running s"
    "rq_nr_pinned r = rq_nr_pinned s"
    by (simp_all add: rq_rest_def rq_no_clock_def)
qed

lemma lottery_enqueue_rest:
  assumes "t_class (tsk k p) = Lottery_class" and "enqueue_task env c p fl k = Some k'"
  shows "rq_rest (cpu_rq k' d) = rq_rest (cpu_rq k d)" and "k_this_cpu k' = k_this_cpu k"
proof -
  let ?k = "if \<not> has_flag fl ENQUEUE_NOCLOCK then update_rq_clock env c k else k"
  let ?k1 = "if \<not> has_flag fl ENQUEUE_RESTORE
     then ext_do (e_psi_enqueue env p (has_flag fl ENQUEUE_WAKEUP \<and>
            \<not> has_flag fl (ENQUEUE_MIGRATED (e_smp env)))) (ext_do (e_sched_info_enqueue env c p) ?k)
     else ?k"
  have c: "t_class (tsk ?k1 p) = Lottery_class" using assms(1) by simp
  have e: "enqueue_task_lottery env c p fl ?k1 = Some k'"
    using assms(2) c unfolding enqueue_task_def Let_def by (simp add: uclamp_lottery)
  have "rq_no_clock (cpu_rq ?k1 d) = rq_no_clock (cpu_rq k d)" by (simp add: update_rq_clock_rq)
  then have 1: "rq_rest (cpu_rq ?k1 d) = rq_rest (cpu_rq k d)" by (simp add: rq_rest_def)
  show "rq_rest (cpu_rq k' d) = rq_rest (cpu_rq k d)"
  proof (cases "d = c")
    case True
    have "rq_rest r = rq_no_clock (r\<lparr>rq_ltr := \<lparr>lr_nr_running = 0, lr_total_tickets = 0\<rparr>\<rparr>)" for r
      by (simp add: rq_rest_def rq_no_clock_ltr)
    with enqueue_task_lottery_frame(7)[OF e] True 1 show ?thesis by metis
  next
    case False
    with enqueue_task_lottery_frame(6)[OF e False] 1 show ?thesis by simp
  qed
  show "k_this_cpu k' = k_this_cpu k" using enqueue_task_lottery_frame(2)[OF e] by simp
qed

lemma fold_sum_cong: "(\<And>c. c \<in> set cs \<Longrightarrow> f c = g c) \<Longrightarrow> fold (\<lambda>c s. s + f c) cs a = fold (\<lambda>c s. s + g c) cs a"
  by (induction cs arbitrary: a) simp_all

text \<open>An activated lottery task is counted nowhere: the number of runnable tasks of the system,
  the test for a single running task, the idleness of a CPU, the test whether the tick may be stopped
  and the test for a quiescent CPU answer as before, on every CPU. Which CPUs are online does not
  depend on the tasks.\<close>

theorem lottery_not_counted:
  assumes "t_class (tsk k p) = Lottery_class" and "activate_task env c p fl k = Some k'"
    and "\<And>d h. e_cpu_online env d h = online d"
  shows "nr_running env k' = nr_running env k \<and> single_task_running k' = single_task_running k \<and>
    idle_cpu env k' d = idle_cpu env k d \<and>
    sched_can_stop_tick (cpu_rq k' d) = sched_can_stop_tick (cpu_rq k d) \<and>
    cpu_quiescent env (cpu_rq k' d) = cpu_quiescent env (cpu_rq k d)"
proof -
  let ?fl = "if task_on_rq_migrating k p then fl OR ENQUEUE_MIGRATED (e_smp env) else fl"
  obtain k1 where k1: "enqueue_task env c p ?fl k = Some k1"
    "k' = upd_task p (\<lambda>t. t\<lparr>t_on_rq := TASK_ON_RQ_QUEUED\<rparr>) k1"
    using assms(2) unfolding activate_task_def Let_def by (auto simp: bind_Some_iff)
  have rest: "rq_rest (cpu_rq k' e) = rq_rest (cpu_rq k e)" for e
    using lottery_enqueue_rest(1)[OF assms(1) k1(1)] k1(2) by simp
  note f = rq_rest_fields[OF rest]
  have this_cpu: "k_this_cpu k' = k_this_cpu k"
    using lottery_enqueue_rest(2)[OF assms(1) k1(1)] k1(2) by simp
  show ?thesis
    using assms(3) f this_cpu
    by (simp add: nr_running_def online_cpus_def single_task_running_def idle_cpu_def Let_def
        sched_can_stop_tick_def cpu_quiescent_def rq_has_pinned_tasks_def)
qed

definition offline_trio0 :: "(unit, list_heap) kernel" where
  "offline_trio0 = upd_rq 0 (\<lambda>r. r\<lparr>rq_nr_running := 1, rq_nr_pinned := 0\<rparr>) trio0"

lemma offline_trio0_facts:
  "ltr_queue heap_dll 0 offline_trio0 [1, 2, 3]" "k_this_cpu offline_trio0 = 0"
  "rq_nr_running (cpu_rq offline_trio0 0) = 1" "t_class (tsk offline_trio0 4) = Lottery_class"
proof -
  have "ltr_queue heap_dll 0 offline_trio0 [1, 2, 3] \<longleftrightarrow> ltr_queue heap_dll 0 trio0 [1, 2, 3]"
    unfolding offline_trio0_def by (intro ltr_queue_upd_rq) simp
  then show "ltr_queue heap_dll 0 offline_trio0 [1, 2, 3]" using trio0_run(2) by simp
qed (simp_all add: offline_trio0_def kernel0_def task0_def)

theorem lottery_not_counted_witness:
  "\<exists>k'. activate_task hotplug0 0 4 0 offline_trio0 = Some k' \<and>
     ltr_queue heap_dll 0 k' [1, 2, 3, 4] \<and> nr_running hotplug0 k' = nr_running hotplug0 offline_trio0"
proof -
  have l: "linux_list (e_list hotplug0) heap_dll"
    by (simp add: hotplug0_env heap_list.linux_list_axioms)
  obtain k' where k': "activate_task hotplug0 0 4 0 offline_trio0 = Some k'"
    "ltr_queue heap_dll 0 k' ([1, 2, 3] @ [4])"
    by (rule lottery_activate[OF l offline_trio0_facts(1) _ offline_trio0_facts(4), of 0]) simp_all
  have "e_cpu_online hotplug0 d h = True" for d and h :: "(unit, list_heap) kernel"
    by (simp add: smp_machine_defs)
  from lottery_not_counted[OF offline_trio0_facts(4) k'(1) this] k' show ?thesis by auto
qed

text \<open>The work structures of the remote tick stay as well.\<close>

lemma k_tick_works_log: "k_tick_works (log_event pid e k) = k_tick_works k"
  by (simp add: log_event_def ktime_get_ns_def split: prod.split)

lemma lottery_activate_rest:
  assumes "t_class (tsk k p) = Lottery_class" and "activate_task env c p fl k = Some k'"
  shows "rq_rest (cpu_rq k' d) = rq_rest (cpu_rq k d)" and "k_this_cpu k' = k_this_cpu k"
    and "k_tick_works k' = k_tick_works k"
proof -
  let ?fl = "if task_on_rq_migrating k p then fl OR ENQUEUE_MIGRATED (e_smp env) else fl"
  obtain k1 where k1: "enqueue_task env c p ?fl k = Some k1"
    "k' = upd_task p (\<lambda>t. t\<lparr>t_on_rq := TASK_ON_RQ_QUEUED\<rparr>) k1"
    using assms(2) unfolding activate_task_def Let_def by (auto simp: bind_Some_iff)
  show "rq_rest (cpu_rq k' d) = rq_rest (cpu_rq k d)" "k_this_cpu k' = k_this_cpu k"
    using lottery_enqueue_rest[OF assms(1) k1(1)] k1(2) by simp_all
  obtain h where h: "enqueue_task_lottery env c p ?fl h = Some k1" "k_tick_works h = k_tick_works k"
    using k1(1) assms(1) unfolding enqueue_task_def Let_def by (auto simp: uclamp_lottery split: if_splits)
  then have "k_tick_works k1 = k_tick_works k"
    by (auto simp: enqueue_task_lottery_def Let_def bind_Some_iff k_tick_works_log upd_ltr_def)
  then show "k_tick_works k' = k_tick_works k" using k1(2) by simp
qed

text \<open>C35: On a CPU that CPU hotplug takes for empty (its thread is the only task counted, and no task is
  pinned), a lottery task is put on the queue. The CPU still passes both checks: the hotplug thread that waits for
  the CPU to be empty goes on at once, and the CPU dies without the warning that it was not vacated; the
  task stays behind on the queue of the dead CPU. The work of the remote tick, if the CPU has one, is running,
  as it is for every CPU that was brought up.\<close>

theorem cpu_dies_with_lottery_tasks:
  assumes "linux_list (e_list env) dll" and "ltr_queue dll c k ps" and "p \<notin> set ps"
    and "t_class (tsk k p) = Lottery_class" and "c = k_this_cpu k" and "cpu_quiescent env (cpu_rq k c)"
    and "e_hk_tick (nohz_of env) c \<or> tw_state (k_tick_works k c) = TICK_SCHED_REMOTE_RUNNING"
  shows "\<exists>k1 k2. activate_task env c p fl k = Some k1 \<and> ltr_queue dll c k1 (ps @ [p]) \<and>
    sched_cpu_wait_empty (Suc n) env k1 = Some (0, k1) \<and>
    sched_cpu_dying env c k1 = (0, k2) \<and> ltr_queue dll c k2 (ps @ [p]) \<and> k_log k2 = k_log k1"
proof -
  obtain h where h: "activate_task env c p fl k = Some h" "ltr_queue dll c h (ps @ [p])"
    by (rule lottery_activate[OF assms(1-4), of fl])
  note r = lottery_activate_rest[OF assms(4) h(1)]
  have q: "cpu_quiescent env (cpu_rq h c)" and c: "c = k_this_cpu h"
    and w: "e_hk_tick (nohz_of env) c \<or> tw_state (k_tick_works h c) = TICK_SCHED_REMOTE_RUNNING"
    using assms(5-7) r rq_rest_fields[OF r(1)] by (simp_all add: cpu_quiescent_def rq_has_pinned_tasks_def)
  have wait: "sched_cpu_wait_empty (Suc n) env h = Some (0, h)"
    using q c by (simp add: sched_cpu_wait_empty_def)
  let ?k1 = "sched_tick_stop env c h"
  have 1: "k_log ?k1 = k_log h" "k_rqs ?k1 = k_rqs h" "k_links ?k1 = k_links h" "k_tasks ?k1 = k_tasks h"
    using w by (auto simp: sched_tick_stop_def upd_tick_work_def Let_def)
  obtain delta act where fold: "e_calc_load_fold (hotplug_of env) c ?k1 = (delta, act)" by fastforce
  let ?k2 = "hrtick_clear env c (ext_do (e_update_max_interval (hotplug_of env)) (calc_load_migrate env c ?k1))"
  have "sched_cpu_dying env c h = (0, ?k2)"
    using q 1(2) by (simp add: sched_cpu_dying_def Let_def cpu_quiescent_def)
  moreover have "k_log ?k2 = k_log h" "k_links ?k2 = k_links h" "k_tasks ?k2 = k_tasks h"
    "rq_ltr (cpu_rq ?k2 c) = rq_ltr (cpu_rq h c)"
    using 1 fold by (simp_all add: hrtick_clear_def calc_load_migrate_def Let_def)
  moreover from this(2-4) have "ltr_queue dll c ?k2 (ps @ [p]) \<longleftrightarrow> ltr_queue dll c h (ps @ [p])"
    by (intro ltr_queue_cong) simp_all
  ultimately show ?thesis using h wait by blast
qed

theorem cpu_dies_with_lottery_tasks_witness:
  "\<exists>k1 k2. activate_task hotplug0 0 4 0 offline_trio0 = Some k1 \<and>
     sched_cpu_dying hotplug0 0 k1 = (0, k2) \<and> ltr_queue heap_dll 0 k2 [1, 2, 3, 4]"
proof -
  have l: "linux_list (e_list hotplug0) heap_dll"
    by (simp add: hotplug0_env heap_list.linux_list_axioms)
  have q: "cpu_quiescent hotplug0 (cpu_rq offline_trio0 0)"
    by (simp add: offline_trio0_def cpu_quiescent_def rq_has_pinned_tasks_def)
  from cpu_dies_with_lottery_tasks[OF l offline_trio0_facts(1) _ offline_trio0_facts(4)
      offline_trio0_facts(2)[symmetric] q, of 0 0]
  show ?thesis by (auto simp: hotplug0_env)
qed

end
