(* ===== verification/Boot_Props.thy ===== *)
theory Boot_Props
  imports Smp_Machine Lottery_System Setsched_Props
begin

text \<open>
  Properties of the initialisation: it establishes the invariant of the lottery system on an empty queue
  of every CPU, and the sysrq request that normalizes the tasks changes no policy.
\<close>

section \<open>Initialisation\<close>

text \<open>What an initialisation outside the lottery part leaves as it is.\<close>

definition boot_frame :: "('x, 'l) kernel \<Rightarrow> ('x, 'l) kernel \<Rightarrow> bool" where
  "boot_frame k k' \<longleftrightarrow> k_links k' = k_links k \<and> k_this_cpu k' = k_this_cpu k \<and>
     (\<forall>d. rq_ltr (cpu_rq k' d) = rq_ltr (cpu_rq k d) \<and> rq_curr (cpu_rq k' d) = rq_curr (cpu_rq k d)) \<and>
     (\<forall>p. t_class (tsk k' p) = t_class (tsk k p) \<and> t_on_rq (tsk k' p) = t_on_rq (tsk k p))"

lemma boot_frame_refl [simp]: "boot_frame k k"
  by (simp add: boot_frame_def)

lemma boot_frame_trans: "boot_frame k k1 \<Longrightarrow> boot_frame k1 k2 \<Longrightarrow> boot_frame k k2"
  by (simp add: boot_frame_def)

lemma boot_frame_queue: "boot_frame k k' \<Longrightarrow> ltr_queue dll c k [] \<Longrightarrow> ltr_queue dll c k' []"
  by (simp add: boot_frame_def ltr_queue_def)

lemma boot_frame_fold: "(\<And>x h. boot_frame h (f x h)) \<Longrightarrow> boot_frame k (fold f xs k)"
proof (induction xs arbitrary: k)
  case (Cons x xs)
  from Cons.IH[OF Cons.prems, of "f x k"] Cons.prems[of k x] show ?case
    by (simp add: boot_frame_trans)
qed simp

text \<open>The functions outside the repository that initialise their part of a runqueue.\<close>

definition boot_outside :: "('x, 'l, 'm) boot_env_scheme \<Rightarrow> bool" where
  "boot_outside env \<longleftrightarrow> (\<forall>c k. boot_frame k (e_init_cfs_rq (boot_of env) c k) \<and> boot_frame k (e_init_rt_rq (boot_of env) c k) \<and>
     boot_frame k (e_init_dl_rq (boot_of env) c k) \<and> boot_frame k (e_init_tg_entry (boot_of env) c k) \<and>
     boot_frame k (e_rq_attach_root (boot_of env) c k))"

text \<open>Initialising the runqueue of \<open>c\<close> empties its lottery queue and leaves the other empty queues.\<close>

lemma init_rq_effect:
  assumes "linux_list (e_list env) dll" and "boot_outside env"
  shows "ltr_queue dll c (init_rq env c k) []"
    and "d \<noteq> c \<Longrightarrow> ltr_queue dll d k [] \<Longrightarrow> ltr_queue dll d (init_rq env c k) []"
    and "k_this_cpu (init_rq env c k) = k_this_cpu k"
    and "t_class (tsk (init_rq env c k) p) = t_class (tsk k p)"
    and "t_on_rq (tsk (init_rq env c k) p) = t_on_rq (tsk k p)"
proof -
  let ?k1 = "upd_rq c (\<lambda>r. r\<lparr>rq_nr_running := 0, rq_calc_load_active := 0,
                rq_calc_load_update := e_jiffies (wake_of env) k + e_load_freq (boot_of env)\<rparr>) k"
  let ?k2 = "e_init_dl_rq (boot_of env) c (e_init_rt_rq (boot_of env) c (e_init_cfs_rq (boot_of env) c ?k1))"
  let ?k3 = "init_ltr_rq env c ?k2"
  have f1: "boot_frame k ?k1" by (simp add: boot_frame_def)
  have "boot_frame ?k1 ?k2"
    using assms(2) unfolding boot_outside_def by (blast intro: boot_frame_trans)
  with f1 have f2: "boot_frame k ?k2" by (rule boot_frame_trans)
  have smp: "boot_frame h (init_rq_smp env c h)" for h
  proof -
    have "boot_frame (upd_rq c f h) (e_rq_attach_root (boot_of env) c (upd_rq c f h))" for f
      using assms(2) by (simp add: boot_outside_def)
    then show ?thesis
      by (auto simp: init_rq_smp_def Let_def boot_frame_def)
  qed
  have f3: "boot_frame ?k3 (init_rq env c k)"
  proof -
    let ?k4 = "e_init_tg_entry (boot_of env) c ?k3"
    let ?k5 = "if e_smp env then init_rq_smp env c ?k4 else ?k4"
    have "boot_frame ?k3 ?k4" using assms(2) by (simp add: boot_outside_def)
    moreover have "boot_frame ?k4 ?k5" using smp by simp
    moreover have "boot_frame ?k5 (init_rq env c k)"
      unfolding init_rq_def Let_def by (simp add: boot_frame_def)
    ultimately show ?thesis by (blast intro: boot_frame_trans)
  qed
  have "ltr_queue dll c ?k3 []" by (simp add: ltr_queue_def init_ltr_rq_def linux_list.init_dll[OF assms(1)])
  with f3 show "ltr_queue dll c (init_rq env c k) []" by (rule boot_frame_queue)
  show "ltr_queue dll d (init_rq env c k) []" if "d \<noteq> c" "ltr_queue dll d k []"
  proof -
    have "ltr_queue dll d ?k2 []" using boot_frame_queue[OF f2 that(2)] .
    then have "ltr_queue dll d ?k3 []"
      using that(1) linux_list.init_frame[OF assms(1), of "k_links ?k2" "RqQueue d" "[]" "RqQueue c"]
      by (simp add: ltr_queue_def init_ltr_rq_def)
    with f3 show ?thesis by (rule boot_frame_queue)
  qed
  show "k_this_cpu (init_rq env c k) = k_this_cpu k" "t_class (tsk (init_rq env c k) p) = t_class (tsk k p)"
    "t_on_rq (tsk (init_rq env c k) p) = t_on_rq (tsk k p)"
    using f2 f3 by (simp_all add: boot_frame_def init_ltr_rq_def)
qed

lemma init_rqs_effect:
  assumes "linux_list (e_list env) dll" and "boot_outside env"
  shows "c < n \<Longrightarrow> ltr_queue dll c (fold (init_rq env) [0 ..< n] k) []"
    and "k_this_cpu (fold (init_rq env) [0 ..< n] k) = k_this_cpu k"
    and "t_class (tsk (fold (init_rq env) [0 ..< n] k) p) = t_class (tsk k p)"
    and "t_on_rq (tsk (fold (init_rq env) [0 ..< n] k) p) = t_on_rq (tsk k p)"
proof (induction n arbitrary: c)
  case (Suc n)
  note e = init_rq_effect[OF assms(1,2), where c=n and k="fold (init_rq env) [0 ..< n] k"]
  { case 1 then show ?case using e(1) e(2)[of c] Suc(1)[of c] by (cases "c = n") simp_all }
  { case 2 then show ?case using e(3) Suc(2) by simp }
  { case 3 then show ?case using e(4) Suc(3) by simp }
  { case 4 then show ?case using e(5) Suc(4) by simp }
qed simp_all

lemma init_idle_effect:
  shows "k_links (init_idle env p c k) = k_links k" and "k_this_cpu (init_idle env p c k) = k_this_cpu k"
    and "rq_ltr (cpu_rq (init_idle env p c k) d) = rq_ltr (cpu_rq k d)"
    and "rq_curr (cpu_rq (init_idle env p c k) c) = p"
    and "t_class (tsk (init_idle env p c k) p) = Idle_class"
    and "q \<noteq> p \<Longrightarrow> t_class (tsk (init_idle env p c k) q) = t_class (tsk k q)"
    and "q \<noteq> p \<Longrightarrow> t_on_rq (tsk (init_idle env p c k) q) = t_on_rq (tsk k q)"
  by (simp_all add: init_idle_def Let_def sched_fork_init_def set_cpus_allowed_common_def
      set_task_cpu_raw_def split: prod.splits)

lemma load_weight_frame:
  "set_load_weight env p b k = Some k' \<Longrightarrow> boot_frame k k'"
  by (auto simp: set_load_weight_def Let_def bind_Some_iff boot_frame_def split: if_splits prod.splits)

lemma init_uclamp_frame: "boot_frame k (init_uclamp env cs p k)"
proof -
  have 1: "boot_frame h (fold (\<lambda>c. upd_rq c init_uclamp_rq) cs h)" for h :: "('a, 'b) kernel"
    by (rule boot_frame_fold) (simp add: boot_frame_def init_uclamp_rq_def)
  have 2: "boot_frame h (fold (\<lambda>i. upd_req p i (uclamp_se_set env (uclamp_none i) False)) is h)"
    for h :: "('a, 'b) kernel" and "is"
    by (rule boot_frame_fold) (simp add: boot_frame_def upd_req_def)
  show ?thesis
    using boot_frame_trans[OF 1 2]
    by (auto simp: init_uclamp_def Let_def boot_frame_def)
qed

lemma balance_push_set_frame: "boot_frame k (balance_push_set c b k)"
  by (simp add: balance_push_set_def boot_frame_def warn_on_def)

text \<open>C8: The initialisation establishes the invariant of the lottery system: afterwards the lottery
  queue of every possible CPU is empty, the boot task is current and in the idle class, and no task is
  queued as a lottery task. The outside initialisations keep to their own part of a runqueue.\<close>

theorem sched_init_establishes:
  assumes "linux_list (e_list env) dll" and "boot_outside env" and "sched_init env k = Some k'"
    and "k_this_cpu k < e_nr_cpu_ids env"
    and "\<And>p. p \<noteq> e_init_task (boot_of env) \<Longrightarrow> \<not> queued_lottery k p"
  shows "lottery_inv dll k' \<and> (\<forall>c < e_nr_cpu_ids env. ltr_queue dll c k' []) \<and>
    current_task k' = e_init_task (boot_of env) \<and> k_scheduler_running k'"
proof -
  let ?n = "e_nr_cpu_ids env" and ?p = "e_init_task (boot_of env)" and ?c = "k_this_cpu k"
  let ?k1 = "init_root_group env k"
  let ?k2 = "fold (init_rq env) [0 ..< ?n] ?k1"
  have f1: "boot_frame k ?k1"
    by (simp add: init_root_group_def Let_def boot_frame_def)
  obtain k3 where k3: "set_load_weight env ?p False ?k2 = Some k3"
    using assms(3) by (auto simp: sched_init_def Let_def bind_Some_iff split: if_splits)
  let ?k4 = "ext_do (e_enter_lazy_tlb (boot_of env)) (ext_do (e_mmgrab env (Some (e_init_mm (hotplug_of env)))) k3)"
  have f4: "boot_frame ?k2 ?k4" using load_weight_frame[OF k3] by (simp add: boot_frame_def)
  let ?k5 = "init_idle env ?p (k_this_cpu ?k4) ?k4"
  let ?k6 = "?k5\<lparr>k_calc_load_update := e_jiffies (wake_of env) ?k5 + e_load_freq (boot_of env)\<rparr>"
  let ?k7 = "if e_smp env then balance_push_set (k_this_cpu ?k6) False ?k6 else ?k6"
  let ?k8 = "init_uclamp env [0 ..< ?n] ?p (ext_do (e_init_subsystems (boot_of env)) ?k7)"
  have k': "k' = ?k8\<lparr>k_scheduler_running := True\<rparr>"
    using assms(3) k3 by (simp add: sched_init_def Let_def split: if_splits)
  have "boot_frame ?k6 ?k7"
    by (cases "e_smp env") (simp_all only: if_True if_False balance_push_set_frame boot_frame_refl)
  moreover have "boot_frame ?k7 (ext_do (e_init_subsystems (boot_of env)) ?k7)" by (simp add: boot_frame_def)
  ultimately have f8: "boot_frame ?k6 ?k8" using init_uclamp_frame boot_frame_trans by blast
  have f': "boot_frame ?k6 k'" using f8 unfolding k' by (simp add: boot_frame_def)
  have cpu: "k_this_cpu ?k4 = ?c"
    using f1 f4 init_rqs_effect(2)[OF assms(1,2), of ?n ?k1] by (simp add: boot_frame_def)
  have empty: "ltr_queue dll c k' []" if "c < ?n" for c
  proof -
    have "ltr_queue dll c ?k4 []"
      using boot_frame_queue[OF f4] init_rqs_effect(1)[OF assms(1,2) that] by blast
    then have "ltr_queue dll c ?k6 []" by (simp add: ltr_queue_def init_idle_effect)
    with f' show ?thesis by (rule boot_frame_queue)
  qed
  have cur: "rq_curr (cpu_rq k' ?c) = ?p" "k_this_cpu k' = ?c" "t_class (tsk k' ?p) = Idle_class"
    using f' init_idle_effect(2,4,5)[of env ?p "k_this_cpu ?k4" ?k4] cpu by (simp_all add: boot_frame_def)
  have "\<not> queued_lottery k' q" for q
  proof (cases "q = ?p")
    case True
    with cur(3) show ?thesis by (simp add: queued_lottery_def)
  next
    case False
    have "t_class (tsk k' q) = t_class (tsk k q)" "t_on_rq (tsk k' q) = t_on_rq (tsk k q)"
      using f' f4 f1 init_idle_effect(6,7)[OF False, of env "k_this_cpu ?k4" ?k4]
        init_rqs_effect(3,4)[OF assms(1,2), of ?n ?k1 q] by (simp_all add: boot_frame_def)
    with assms(5)[OF False] show ?thesis by (simp add: queued_lottery_def)
  qed
  then have "queue_agrees dll [] k'" using empty[OF assms(4)] cur(2) by (simp add: queue_agrees_def)
  moreover have "current_task k' = ?p" using cur by (simp add: current_task_def)
  moreover have "k_scheduler_running k'" by (simp add: k')
  ultimately show ?thesis using empty cur(3) by (auto simp: lottery_inv_def)
qed

theorem sched_init_establishes_witness:
  "\<exists>k'. sched_init boot_env0 kernel0 = Some k' \<and> lottery_inv heap_dll k' \<and>
     ltr_queue heap_dll 0 k' [] \<and> ltr_queue heap_dll 1 k' []"
proof -
  have l: "linux_list (e_list boot_env0) heap_dll"
    by (simp add: boot_env0_env heap_list.linux_list_axioms)
  have o: "boot_outside boot_env0" by (simp add: boot_outside_def boot_env0_env boot_frame_def)
  let ?k = "fold (init_rq boot_env0) [0 ..< 2] (init_root_group boot_env0 kernel0)"
  have "k_tasks (init_rq boot_env0 c k) = k_tasks k" for c k
    by (simp add: init_rq_def init_rq_smp_def boot_env0_env init_ltr_rq_def Let_def)
  then have "k_tasks ?k = k_tasks kernel0"
    by (subst fold_keeps[of k_tasks]) (simp_all add: init_root_group_def Let_def)
  then have "t_static_prio (tsk ?k 0) = 120" by (simp add: kernel0_def task0_def)
  then obtain k3 where k3: "set_load_weight boot_env0 0 False ?k = Some k3"
    using set_load_weight_in_range[of ?k 0 boot_env0 False] by auto
  obtain k' where k': "sched_init boot_env0 kernel0 = Some k'"
    using k3 by (simp add: sched_init_def class_sections_ok_def boot_env0_env Let_def)
  have "\<not> queued_lottery kernel0 p" for p
    by (simp add: queued_lottery_def kernel0_def task0_def TASK_ON_RQ_QUEUED_def)
  from sched_init_establishes[OF l o k' _ this] k' show ?thesis
    by (auto simp: boot_env0_env kernel0_def)
qed

section \<open>Normalizing\<close>

definition clear_exec_start :: "tid \<Rightarrow> ('x, 'l) kernel \<Rightarrow> ('x, 'l) kernel" where
  "clear_exec_start p k =
     (if has_flag (t_flags (tsk k p)) PF_KTHREAD then k
      else upd_task p (\<lambda>t. t\<lparr>t_se := (t_se t)\<lparr>se_exec_start := 0\<rparr>\<rparr>) k)"

lemma clear_exec_start_fields [simp]:
  "t_flags (tsk (clear_exec_start p k) q) = t_flags (tsk k q)"
  "t_prio (tsk (clear_exec_start p k) q) = t_prio (tsk k q)"
  "t_policy (tsk (clear_exec_start p k) q) = t_policy (tsk k q)"
  "t_class (tsk (clear_exec_start p k) q) = t_class (tsk k q)"
  "task_nice (tsk (clear_exec_start p k) q) = task_nice (tsk k q)"
  by (simp_all add: clear_exec_start_def task_nice_def)

definition untamed :: "task \<Rightarrow> bool" where
  "untamed t \<longleftrightarrow> has_flag (t_flags t) PF_KTHREAD \<or> rt_prio (t_prio t) \<or> 0 \<le> task_nice t"

lemma normalize_task_untamed:
  assumes "untamed (tsk k p)"
  shows "normalize_task env others p k = Some (clear_exec_start p k)"
proof -
  have "sint (word_of_int SCHED_NORMAL :: u32) = 0" "(0 :: int) \<noteq> SCHED_LOTTERY"
    by (simp_all add: SCHED_NORMAL_def SCHED_LOTTERY_def)
  then have "sched_setscheduler_locking env others p (zero_attr\<lparr>sa_policy := word_of_int SCHED_NORMAL\<rparr>)
      False False h = Some (- EINVAL, h)" for h
    using setscheduler_rejected[of 0]
    by (simp add: sched_setscheduler_locking_def zero_attr_def del: setscheduler_loop.simps)
  with assms show ?thesis
    by (auto simp: normalize_task_def clear_exec_start_def untamed_def task_nice_def Let_def)
qed

lemma normalize_fold:
  "\<forall>p \<in> set ps. untamed (tsk k p) \<Longrightarrow>
     fold (\<lambda>p k. Option.bind k (normalize_task env others p)) ps (Some k) = Some (fold clear_exec_start ps k)"
  by (induction ps arbitrary: k) (simp_all add: normalize_task_untamed untamed_def)

lemma clear_fold_fields:
  "t_policy (tsk (fold clear_exec_start ps k) q) = t_policy (tsk k q)"
  "t_class (tsk (fold clear_exec_start ps k) q) = t_class (tsk k q)"
  "t_prio (tsk (fold clear_exec_start ps k) q) = t_prio (tsk k q)"
  by (induction ps arbitrary: k) simp_all

text \<open>The request to normalize the tasks changes no policy, no class and no priority when no fair
  task has a negative nice value: \<open>__sched_setscheduler\<close> refuses the normal policy, so the real-time
  tasks it is meant to tame stay real-time, and lottery tasks are not considered at all.\<close>

theorem normalize_tames_nobody:
  assumes "\<And>p. p \<in> set (e_threads env k) \<Longrightarrow>
      has_flag (t_flags (tsk k p)) PF_KTHREAD \<or> rt_prio (t_prio (tsk k p)) \<or> 0 \<le> task_nice (tsk k p)"
  shows "\<exists>k'. normalize_rt_tasks env others k = Some k' \<and>
    (\<forall>q. t_policy (tsk k' q) = t_policy (tsk k q) \<and> t_class (tsk k' q) = t_class (tsk k q) \<and>
         t_prio (tsk k' q) = t_prio (tsk k q))"
proof -
  have "normalize_rt_tasks env others k = Some (fold clear_exec_start (e_threads env k) k)"
    unfolding normalize_rt_tasks_def
    by (rule normalize_fold) (use assms in \<open>simp add: untamed_def\<close>)
  then show ?thesis using clear_fold_fields by blast
qed

definition fifo0 :: "(unit, list_heap) kernel" where
  "fifo0 = upd_task 2 (\<lambda>t. t\<lparr>t_class := Rt_class, t_policy := SCHED_FIFO, t_prio := 49\<rparr>) kernel0"

theorem normalize_tames_nobody_witness:
  "\<exists>k'. normalize_rt_tasks (env0\<lparr>e_threads := \<lambda>k. [1, 2]\<rparr>) [] fifo0 = Some k' \<and>
     t_class (tsk k' 1) = Lottery_class \<and> t_class (tsk k' 2) = Rt_class"
proof -
  have "has_flag (t_flags (tsk fifo0 p)) PF_KTHREAD \<or> rt_prio (t_prio (tsk fifo0 p)) \<or> 0 \<le> task_nice (tsk fifo0 p)"
    for p
    by (simp add: fifo0_def kernel0_def task0_def task_nice_def PRIO_TO_NICE_def prio_consts)
  from normalize_tames_nobody[of "env0\<lparr>e_threads := \<lambda>k. [1, 2]\<rparr>" fifo0 "[]", OF this]
  show ?thesis by (auto simp: fifo0_def kernel0_def task0_def)
qed

end
