(* ===== verification/Preempt_Props.thy ===== *)
theory Preempt_Props
  imports Smp_Machine
begin

text \<open>
  Properties of preemption: the table of the dynamic modes and what a voluntary preemption point does.
\<close>

section \<open>The dynamic modes\<close>

lemma set_mode_calls:
  "k_preempt_calls (sched_dynamic_update mode k) = \<lparr>pc_mode = mode,
     pc_cond_resched = (mode \<noteq> preempt_dynamic_full),
     pc_might_resched = (mode \<noteq> preempt_dynamic_none \<and> mode \<noteq> preempt_dynamic_full),
     pc_preempt_schedule = (mode \<noteq> preempt_dynamic_none \<and> mode \<noteq> preempt_dynamic_voluntary),
     pc_preempt_schedule_notrace = (mode \<noteq> preempt_dynamic_none \<and> mode \<noteq> preempt_dynamic_voluntary),
     pc_irqentry_exit_cond_resched = (mode \<noteq> preempt_dynamic_none \<and> mode \<noteq> preempt_dynamic_voluntary)\<rparr>"
  by (cases "k_preempt_calls k") (simp add: sched_dynamic_update_def Let_def preempt_dynamic_defs)

text \<open>The boot parameter \<open>preempt=\<close> takes the three modes and nothing else; an unknown mode changes
  nothing. A mode sets the calls as the table in the source says: \<open>cond_resched\<close> works in the modes
  \<open>none\<close> and \<open>voluntary\<close>, \<open>might_resched\<close> in \<open>voluntary\<close> only, and the three calls of involuntary
  preemption in \<open>full\<close> only; so exactly one of voluntary and involuntary preemption is on.\<close>

theorem preempt_mode_table:
  assumes "setup_preempt_mode str k = (r, k')"
  shows "(str \<notin> {''none'', ''voluntary'', ''full''} \<longrightarrow> r = 0 \<and> k' = k) \<and>
    (str \<in> {''none'', ''voluntary'', ''full''} \<longrightarrow> r = 1 \<and>
       (let calls = k_preempt_calls k'
        in (pc_cond_resched calls \<longleftrightarrow> str \<noteq> ''full'') \<and> (pc_might_resched calls \<longleftrightarrow> str = ''voluntary'') \<and>
           (pc_preempt_schedule calls \<longleftrightarrow> str = ''full'') \<and>
           (pc_preempt_schedule_notrace calls \<longleftrightarrow> str = ''full'') \<and>
           (pc_irqentry_exit_cond_resched calls \<longleftrightarrow> str = ''full'') \<and>
           (pc_cond_resched calls \<noteq> pc_preempt_schedule calls) \<and>
           pc_mode calls = sched_dynamic_mode str))"
  using assms
  by (auto simp: setup_preempt_mode_def sched_dynamic_mode_def set_mode_calls preempt_dynamic_defs
      EINVAL_def Let_def split: if_splits)

theorem preempt_mode_table_witness:
  "pc_might_resched (k_preempt_calls (snd (setup_preempt_mode ''voluntary'' kernel0)))"
proof -
  obtain r k' where s: "setup_preempt_mode ''voluntary'' kernel0 = (r, k')" by fastforce
  from preempt_mode_table[OF s] show ?thesis by (simp add: s Let_def)
qed

section \<open>Voluntary preemption\<close>

lemma schedule_rounds_done: "schedule_rounds n env mode k = Some k' \<Longrightarrow> \<not> need_resched k'"
  by (induction n arbitrary: k) (auto simp: bind_Some_iff split: if_splits)

text \<open>A voluntary preemption point schedules exactly when the mode has it, a reschedule is asked
  for, no preemption is disabled and interrupts are on, and says so in its result; when it comes back
  from scheduling no further reschedule is pending on the CPU. Otherwise at most the state of RCU
  changes.\<close>

theorem cond_resched_effect:
  assumes "cond_resched n env k = Some (r, k')"
  shows "r = (if pc_cond_resched (k_preempt_calls k) \<and> need_resched k \<and> preemptible k then 1 else 0) \<and>
    (r = 1 \<longrightarrow> \<not> need_resched k') \<and> (r = 0 \<longrightarrow> (\<exists>x. k' = k\<lparr>k_ext := x\<rparr>))"
proof (cases "pc_cond_resched (k_preempt_calls k) \<and> need_resched k \<and> preemptible k")
  case True
  then have "map_option (Pair 1) (schedule_rounds n env SM_PREEMPT k) = Some (r, k')"
    using assms by (simp add: cond_resched_def cond_resched_now_def should_resched_def preemptible_def
        preempt_schedule_common_def)
  then have r: "r = 1" "schedule_rounds n env SM_PREEMPT k = Some k'" by auto
  from True r(1) schedule_rounds_done[OF r(2)] show ?thesis by simp
next
  case False
  have "r = 0 \<and> (k' = k \<or> k' = ext_do (e_rcu_all_qs (preempt_of env)) k)"
    using assms False
    by (simp add: cond_resched_def cond_resched_now_def should_resched_def preemptible_def split: if_splits)
  moreover have "\<exists>x. k = k\<lparr>k_ext := x\<rparr>" by (rule exI[of _ "k_ext k"]) simp
  ultimately show ?thesis using False by (auto simp: ext_do_def)
qed

theorem cond_resched_effect_witness:
  "cond_resched 1 preempt0 kernel0 = Some (0, kernel0) \<and> \<not> pc_cond_resched (k_preempt_calls kernel0)"
proof -
  have c: "cond_resched 1 preempt0 kernel0 = Some (0, kernel0)"
    by (simp add: cond_resched_def kernel0_def)
  from cond_resched_effect[OF c] c show ?thesis by (simp add: kernel0_def)
qed

end
