(* ===== verification/Core_Sched.thy ===== *)
theory Core_Sched
  imports Hotplug
begin

text \<open>
  Core scheduling (\<open>core.c\<close>, lines 93 to 361 and 5683 to 6187; \<open>sched.h\<close>, lines 1180 to 1272): the
  order of tagged tasks, the trees of tagged tasks, switching the feature on and off, the choice of
  tasks for all siblings of a core, stealing a task that matches the core's cookie, and the leader of a
  core. This is the code of a kernel with \<open>CONFIG_SCHED_CORE\<close>; the other theories model one without.

  The red-black trees of \<open>linux/rbtree.h\<close> are outside: a tree is the sequence of its tasks, and its
  operations are functions of the environment. \<open>t_core_node\<close> says whether a task's node is linked.
\<close>

record ('x, 'l) core_ops =
  e_cfs_prio_less :: "tid \<Rightarrow> tid \<Rightarrow> bool \<Rightarrow> ('x, 'l) kernel \<Rightarrow> bool"
  e_task_vruntime_update :: "cpu \<Rightarrow> tid \<Rightarrow> bool \<Rightarrow> ('x, 'l) kernel \<Rightarrow> ('x, 'l) kernel"
  e_rb_add :: "(tid \<Rightarrow> tid \<Rightarrow> bool) \<Rightarrow> tid \<Rightarrow> tid list \<Rightarrow> tid list"
  e_rb_erase :: "tid \<Rightarrow> tid list \<Rightarrow> tid list"
  e_rb_find_first :: "(tid \<Rightarrow> int) \<Rightarrow> tid list \<Rightarrow> tid option"
  e_rb_next :: "tid \<Rightarrow> tid list \<Rightarrow> tid option"
  e_schedule_core_put :: "('x, 'l) kernel \<Rightarrow> 'x"

type_synonym ('x, 'l, 'm) core_env_scheme = "('x, 'l, ('x, 'l, 'm) core_ops_scheme) hotplug_env_scheme"
type_synonym ('x, 'l) core_env = "('x, 'l, unit) core_env_scheme"

abbreviation coresched_of :: "('x, 'l, 'm) core_env_scheme \<Rightarrow> ('x, 'l, 'm) core_ops_scheme" where
  "coresched_of env \<equiv> hotplug_ops.more (hotplug_of env)"

section \<open>The core of a runqueue\<close>

text \<open>\<open>rq->core\<close>: the runqueue of the leader, which holds the shared state.\<close>

abbreviation core_of :: "('x, 'l) kernel \<Rightarrow> cpu \<Rightarrow> rq" where
  "core_of k c \<equiv> cpu_rq k (rq_core_rq (cpu_rq k c))"

definition upd_core :: "cpu \<Rightarrow> (rq \<Rightarrow> rq) \<Rightarrow> ('x, 'l) kernel \<Rightarrow> ('x, 'l) kernel" where
  "upd_core c f k = upd_rq (rq_core_rq (cpu_rq k c)) f k"

definition smt_cpus :: "('x, 'l, 'm) hotplug_env_scheme \<Rightarrow> cpu \<Rightarrow> ('x, 'l) kernel \<Rightarrow> cpu list" where
  "smt_cpus env c k = cpus_of env (e_smt_mask (hotplug_of env) c k)"

text \<open>\<open>for_each_cpu_wrap\<close>: from the CPU upwards, then the ones below it.\<close>

definition cpus_wrap :: "('x, 'l, 'm) env_scheme \<Rightarrow> cpu set \<Rightarrow> cpu \<Rightarrow> cpu list" where
  "cpus_wrap env m c = filter (\<lambda>i. c \<le> i) (cpus_of env m) @ filter (\<lambda>i. i < c) (cpus_of env m)"

(* sched.h 1180-1183: sched_core_enabled#1 *)
definition sched_core_enabled :: "('x, 'l) kernel \<Rightarrow> cpu \<Rightarrow> bool" where
  "sched_core_enabled k c \<longleftrightarrow> k_core_sched_key k \<and> rq_core_enabled (cpu_rq k c)"

(* sched.h 1185-1188: sched_core_disabled#1 *)
definition sched_core_disabled :: "('x, 'l) kernel \<Rightarrow> bool" where
  "sched_core_disabled k \<longleftrightarrow> \<not> k_core_sched_key k"

section \<open>The order of the tasks\<close>

(* core.c 93-105: __task_prio *)
definition task_prio_core :: "task \<Rightarrow> int" where
  "task_prio_core t =
     (if t_class t = Stop_class then -2
      else if rt_prio (t_prio t) then t_prio t
      else if t_class t = Idle_class then MAX_RT_PRIO + NICE_WIDTH
      else MAX_RT_PRIO + MAX_NICE)"

text \<open>\<open>dl_time_before(a, b)\<close> is \<open>(s64)(a - b) < 0\<close>.\<close>

(* core.c 115-133: prio_less *)
definition prio_less ::
    "('x, 'l, 'm) core_env_scheme \<Rightarrow> tid \<Rightarrow> tid \<Rightarrow> bool \<Rightarrow> ('x, 'l) kernel \<Rightarrow> bool" where
  "prio_less env a b in_fi k =
     (let pa = task_prio_core (tsk k a); pb = task_prio_core (tsk k b) in
      if - pa < - pb then True
      else if - pb < - pa then False
      else if pa = -1 then \<not> sint (t_dl_deadline (tsk k a) - t_dl_deadline (tsk k b)) < 0
      else if pa = MAX_RT_PRIO + MAX_NICE then e_cfs_prio_less (coresched_of env) a b in_fi k
      else False)"

(* core.c 135-148: __sched_core_less *)
definition sched_core_less ::
    "('x, 'l, 'm) core_env_scheme \<Rightarrow> ('x, 'l) kernel \<Rightarrow> tid \<Rightarrow> tid \<Rightarrow> bool" where
  "sched_core_less env k a b =
     (if t_core_cookie (tsk k a) < t_core_cookie (tsk k b) then True
      else if t_core_cookie (tsk k a) > t_core_cookie (tsk k b) then False
      else if prio_less env b a (rq_core_forceidle (core_of k (task_cpu k a))) k then True
      else False)"

(* core.c 157-169: rb_sched_core_cmp *)
definition sched_core_cmp :: "('x, 'l) kernel \<Rightarrow> u32 \<Rightarrow> tid \<Rightarrow> int" where
  "sched_core_cmp k cookie p =
     (if cookie < t_core_cookie (tsk k p) then -1
      else if cookie > t_core_cookie (tsk k p) then 1
      else 0)"

section \<open>The tree of tagged tasks\<close>

(* core.c 171-179: sched_core_enqueue#1 *)
definition sched_core_enqueue ::
    "('x, 'l, 'm) core_env_scheme \<Rightarrow> cpu \<Rightarrow> tid \<Rightarrow> ('x, 'l) kernel \<Rightarrow> ('x, 'l) kernel" where
  "sched_core_enqueue env c p k =
     (let k = upd_core c (\<lambda>r. r\<lparr>rq_core_task_seq := rq_core_task_seq r + 1\<rparr>) k
      in if t_core_cookie (tsk k p) = 0 then k
         else upd_task p (\<lambda>t. t\<lparr>t_core_node := True\<rparr>)
                (upd_rq c (\<lambda>r. r\<lparr>rq_core_tree :=
                   e_rb_add (coresched_of env) (sched_core_less env k) p (rq_core_tree r)\<rparr>) k))"

(* core.c 181-190: sched_core_dequeue#1 *)
definition sched_core_dequeue ::
    "('x, 'l, 'm) core_env_scheme \<Rightarrow> cpu \<Rightarrow> tid \<Rightarrow> ('x, 'l) kernel \<Rightarrow> ('x, 'l) kernel" where
  "sched_core_dequeue env c p k =
     (let k = upd_core c (\<lambda>r. r\<lparr>rq_core_task_seq := rq_core_task_seq r + 1\<rparr>) k
      in if \<not> t_core_node (tsk k p) then k
         else upd_task p (\<lambda>t. t\<lparr>t_core_node := False\<rparr>)
                (upd_rq c (\<lambda>r. r\<lparr>rq_core_tree := e_rb_erase (coresched_of env) p (rq_core_tree r)\<rparr>) k))"

text \<open>A NULL hook is an oops.\<close>

definition class_pick_task ::
    "('x, 'l, 'm) env_scheme \<Rightarrow> sched_class \<Rightarrow> cpu \<Rightarrow> ('x, 'l) kernel \<Rightarrow>
     (tid option \<times> ('x, 'l) kernel) option" where
  "class_pick_task env sc c k = do {
     f \<leftarrow> vt_pick_task (class_vt env sc);
     f c k
   }"

(* core.c 195-207: sched_core_find *)
definition sched_core_find ::
    "('x, 'l, 'm) core_env_scheme \<Rightarrow> cpu \<Rightarrow> u32 \<Rightarrow> ('x, 'l) kernel \<Rightarrow>
     (tid option \<times> ('x, 'l) kernel) option" where
  "sched_core_find env c cookie k =
     (case e_rb_find_first (coresched_of env) (sched_core_cmp k cookie) (rq_core_tree (cpu_rq k c)) of
        None \<Rightarrow> class_pick_task env Idle_class c k
      | Some p \<Rightarrow> Some (Some p, k))"

text \<open>The tree is the one of the runqueue the task is tagged on.\<close>

(* core.c 209-222: sched_core_next *)
definition sched_core_next ::
    "('x, 'l, 'm) core_env_scheme \<Rightarrow> cpu \<Rightarrow> tid \<Rightarrow> u32 \<Rightarrow> ('x, 'l) kernel \<Rightarrow> tid option" where
  "sched_core_next env c p cookie k =
     (case e_rb_next (coresched_of env) p (rq_core_tree (cpu_rq k c)) of
        None \<Rightarrow> None
      | Some q \<Rightarrow> if t_core_cookie (tsk k q) \<noteq> cookie then None else Some q)"

section \<open>Switching core scheduling on and off\<close>

text \<open>The online cores one by one: the siblings of a CPU leave the mask that is gone through.\<close>

(* core.c !271-283: __sched_core_flip (online) *)
fun core_flip_online ::
    "('x, 'l, 'm) hotplug_env_scheme \<Rightarrow> bool \<Rightarrow> cpu list \<Rightarrow> cpu set \<Rightarrow> ('x, 'l) kernel \<Rightarrow> ('x, 'l) kernel"
where
  "core_flip_online env b [] m k = k"
| "core_flip_online env b (c # cs) m k =
     (if c \<notin> m then core_flip_online env b cs m k
      else core_flip_online env b cs (m - e_smt_mask (hotplug_of env) c k)
             (fold (\<lambda>t. upd_rq t (\<lambda>r. r\<lparr>rq_core_enabled := b\<rparr>)) (smt_cpus env c k) k))"

(* core.c 261-295: __sched_core_flip *)
definition sched_core_flip ::
    "('x, 'l, 'm) hotplug_env_scheme \<Rightarrow> bool \<Rightarrow> ('x, 'l) kernel \<Rightarrow> ('x, 'l) kernel" where
  "sched_core_flip env enabled k =
     (let online = online_mask env k;
          k = core_flip_online env enabled [0 ..< e_nr_cpu_ids env] online k
      in fold (\<lambda>c. upd_rq c (\<lambda>r. r\<lparr>rq_core_enabled := enabled\<rparr>))
           (filter (\<lambda>c. c \<notin> online) [0 ..< e_nr_cpu_ids env]) k)"

(* core.c 297-303: sched_core_assert_empty *)
definition sched_core_assert_empty ::
    "('x, 'l, 'm) env_scheme \<Rightarrow> ('x, 'l) kernel \<Rightarrow> ('x, 'l) kernel" where
  "sched_core_assert_empty env k =
     fold (\<lambda>c k. warn_on ''sched_core_assert_empty'' (rq_core_tree (cpu_rq k c) \<noteq> []) k)
       [0 ..< e_nr_cpu_ids env] k"

(* core.c 305-315: __sched_core_enable *)
definition sched_core_enable ::
    "('x, 'l, 'm) hotplug_env_scheme \<Rightarrow> ('x, 'l) kernel \<Rightarrow> ('x, 'l) kernel option" where
  "sched_core_enable env k = do {
     k \<leftarrow> e_synchronize_rcu (hotplug_of env) (k\<lparr>k_core_sched_key := True\<rparr>);
     Some (sched_core_assert_empty env (sched_core_flip env True k))
   }"

(* core.c 317-322: __sched_core_disable *)
definition sched_core_disable ::
    "('x, 'l, 'm) hotplug_env_scheme \<Rightarrow> ('x, 'l) kernel \<Rightarrow> ('x, 'l) kernel" where
  "sched_core_disable env k =
     (sched_core_flip env False (sched_core_assert_empty env k))\<lparr>k_core_sched_key := False\<rparr>"

(* core.c 324-336: sched_core_get *)
definition sched_core_get ::
    "('x, 'l, 'm) hotplug_env_scheme \<Rightarrow> ('x, 'l) kernel \<Rightarrow> ('x, 'l) kernel option" where
  "sched_core_get env k =
     (if k_core_sched_count k \<noteq> 0 then Some (k\<lparr>k_core_sched_count := k_core_sched_count k + 1\<rparr>)
      else map_option (\<lambda>k. k\<lparr>k_core_sched_count := k_core_sched_count k + 1\<rparr>) (sched_core_enable env k))"

text \<open>The work that drops the last reference.\<close>

(* core.c 338-344: __sched_core_put *)
definition sched_core_put_work ::
    "('x, 'l, 'm) hotplug_env_scheme \<Rightarrow> ('x, 'l) kernel \<Rightarrow> ('x, 'l) kernel" where
  "sched_core_put_work env k =
     (let k = k\<lparr>k_core_sched_count := k_core_sched_count k - 1\<rparr>
      in if k_core_sched_count k = 0 then sched_core_disable env k else k)"

(* core.c 346-359: sched_core_put *)
definition sched_core_put ::
    "('x, 'l, 'm) core_env_scheme \<Rightarrow> ('x, 'l) kernel \<Rightarrow> ('x, 'l) kernel" where
  "sched_core_put env k =
     (if k_core_sched_count k \<noteq> 1 then k\<lparr>k_core_sched_count := k_core_sched_count k - 1\<rparr>
      else ext_do (e_schedule_core_put (coresched_of env)) k)"

section \<open>Cookies\<close>

(* core.c 5683-5686: is_task_rq_idle *)
definition is_task_rq_idle :: "('x, 'l) kernel \<Rightarrow> tid \<Rightarrow> bool" where
  "is_task_rq_idle k p \<longleftrightarrow> rq_idle (cpu_rq k (task_cpu k p)) = p"

(* core.c 5688-5691: cookie_equals *)
definition cookie_equals :: "('x, 'l) kernel \<Rightarrow> tid \<Rightarrow> u32 \<Rightarrow> bool" where
  "cookie_equals k p cookie \<longleftrightarrow> is_task_rq_idle k p \<or> t_core_cookie (tsk k p) = cookie"

(* core.c 5693-5699: cookie_match *)
definition cookie_match :: "('x, 'l) kernel \<Rightarrow> tid \<Rightarrow> tid \<Rightarrow> bool" where
  "cookie_match k a b =
     (if is_task_rq_idle k a \<or> is_task_rq_idle k b then True
      else t_core_cookie (tsk k a) = t_core_cookie (tsk k b))"

(* sched.h 1218-1225: sched_cpu_cookie_match#1 *)
definition sched_cpu_cookie_match :: "('x, 'l) kernel \<Rightarrow> cpu \<Rightarrow> tid \<Rightarrow> bool" where
  "sched_cpu_cookie_match k c p =
     (if \<not> sched_core_enabled k c then True
      else rq_core_cookie (core_of k c) = t_core_cookie (tsk k p))"

(* sched.h 1227-1248: sched_core_cookie_match#1 *)
definition sched_core_cookie_match ::
    "('x, 'l, 'm) hotplug_env_scheme \<Rightarrow> ('x, 'l) kernel \<Rightarrow> cpu \<Rightarrow> tid \<Rightarrow> bool" where
  "sched_core_cookie_match env k c p =
     (if \<not> sched_core_enabled k c then True
      else let idle_core = list_all (available_idle_cpu env k) (smt_cpus env c k)
           in idle_core \<or> rq_core_cookie (core_of k c) = t_core_cookie (tsk k p))"

text \<open>The group is the span of its CPUs.\<close>

(* sched.h 1250-1265: sched_group_cookie_match#1 *)
definition sched_group_cookie_match ::
    "('x, 'l, 'm) hotplug_env_scheme \<Rightarrow> ('x, 'l) kernel \<Rightarrow> cpu \<Rightarrow> tid \<Rightarrow> cpu set \<Rightarrow> bool" where
  "sched_group_cookie_match env k c p span =
     (if \<not> sched_core_enabled k c then True
      else list_ex (\<lambda>d. sched_core_cookie_match env k d p) (cpus_of env (span \<inter> cpus_ptr (tsk k p))))"

end
