(* ===== verification/Core_Pick.thy ===== *)
theory Core_Pick
  imports Core_Sched
begin

text \<open>
  Core-wide scheduling (\<open>core.c\<close>, lines 5701 to 6187): the choice of tasks for all siblings of a core,
  stealing a task that matches the core's cookie, and the leader of a core.
\<close>

section \<open>The pick of one sibling\<close>

text \<open>The tree holds no NULL and the idle class always has a task; where the code would follow a NULL
  pointer the result is \<open>None\<close>.\<close>

(* core.c 5709-5749: pick_task *)
definition pick_task ::
    "('x, 'l, 'm) core_env_scheme \<Rightarrow> cpu \<Rightarrow> sched_class \<Rightarrow> tid option \<Rightarrow> bool \<Rightarrow> ('x, 'l) kernel \<Rightarrow>
     (tid option \<times> ('x, 'l) kernel) option" where
  "pick_task env c sc mx in_fi k = do {
     let cookie = rq_core_cookie (core_of k c);
     (class_pick, k) \<leftarrow> class_pick_task env sc c k;
     case class_pick of
       None \<Rightarrow> Some (None, k)
     | Some p \<Rightarrow>
         if cookie = 0
         then (case mx of
                 Some m \<Rightarrow>
                   if t_core_cookie (tsk k p) \<noteq> 0 \<and> prio_less env p m in_fi k
                   then class_pick_task env Idle_class c k
                   else Some (Some p, k)
               | None \<Rightarrow> Some (Some p, k))
         else if cookie_equals k p cookie then Some (Some p, k)
         else do {
           (cookie_pick, k) \<leftarrow> sched_core_find env c cookie k;
           q \<leftarrow> cookie_pick;
           if prio_less env q p in_fi k \<and>
              (case mx of None \<Rightarrow> True | Some m \<Rightarrow> prio_less env m p in_fi k)
           then Some (Some p, k)
           else Some (Some q, k)
         }
   }"

section \<open>The pick for a core\<close>

text \<open>The first task of the classes by their \<open>pick_task\<close> hooks.\<close>

fun first_class_pick ::
    "('x, 'l, 'm) env_scheme \<Rightarrow> cpu \<Rightarrow> sched_class list \<Rightarrow> ('x, 'l) kernel \<Rightarrow>
     (tid option \<times> ('x, 'l) kernel) option" where
  "first_class_pick env c [] k = Some (None, k)"
| "first_class_pick env c (sc # scs) k = do {
     (p, k) \<leftarrow> class_pick_task env sc c k;
     case p of Some q \<Rightarrow> Some (Some q, k) | None \<Rightarrow> first_class_pick env c scs k
   }"

text \<open>One pass over the siblings for one class: \<open>True\<close> asks for another pass (\<open>goto again\<close>).\<close>

(* core.c !5866-5921: pick_next_task (siblings) *)
fun pick_siblings ::
    "('x, 'l, 'm) core_env_scheme \<Rightarrow> cpu \<Rightarrow> cpu list \<Rightarrow> sched_class \<Rightarrow> bool \<Rightarrow> cpu list \<Rightarrow>
     tid option \<Rightarrow> nat \<Rightarrow> ('x, 'l) kernel \<Rightarrow> (bool \<times> tid option \<times> nat \<times> ('x, 'l) kernel) option"
where
  "pick_siblings env c smt sc fi [] mx occ k = Some (False, mx, occ, k)"
| "pick_siblings env c smt sc fi (i # is) mx occ k =
     (if rq_core_pick (cpu_rq k i) \<noteq> None then pick_siblings env c smt sc fi is mx occ k
      else do {
        (r, k) \<leftarrow> pick_task env i sc mx fi k;
        case r of
          None \<Rightarrow> pick_siblings env c smt sc fi is mx occ k
        | Some p \<Rightarrow>
            let occ = (if is_task_rq_idle k p then occ else occ + 1);
                k = upd_rq i (\<lambda>r. r\<lparr>rq_core_pick := Some p\<rparr>) k;
                k = (if rq_idle (cpu_rq k i) = p \<and> rq_nr_running (cpu_rq k i) \<noteq> 0
                     then upd_core c (\<lambda>r. r\<lparr>rq_core_forceidle := True,
                            rq_core_forceidle_seq := rq_core_forceidle_seq r + (if fi then 0 else 1)\<rparr>) k
                     else k)
            in if (case mx of None \<Rightarrow> True | Some m \<Rightarrow> \<not> cookie_match k m p)
               then let cookie = t_core_cookie (tsk k p);
                        k = upd_core c (\<lambda>r. r\<lparr>rq_core_cookie := cookie\<rparr>) k
                    in (case mx of
                          None \<Rightarrow> pick_siblings env c smt sc fi is (Some p) occ k
                        | Some m \<Rightarrow>
                            let k = upd_core c (\<lambda>r. r\<lparr>rq_core_forceidle := False\<rparr>) k;
                                k = fold (\<lambda>j. upd_rq j (\<lambda>r. r\<lparr>rq_core_pick := None\<rparr>))
                                      (filter (\<lambda>j. j \<noteq> i) smt) k
                            in Some (True, Some p, 1, k))
               else pick_siblings env c smt sc fi is mx occ k
      })"

text \<open>The passes for one class are given fuel: the code relies on the order of the tasks to end.\<close>

fun pick_class_passes ::
    "nat \<Rightarrow> ('x, 'l, 'm) core_env_scheme \<Rightarrow> cpu \<Rightarrow> cpu set \<Rightarrow> sched_class \<Rightarrow> bool \<Rightarrow>
     tid option \<Rightarrow> nat \<Rightarrow> ('x, 'l) kernel \<Rightarrow> (tid option \<times> nat \<times> ('x, 'l) kernel) option"
where
  "pick_class_passes 0 env c m sc fi mx occ k = None"
| "pick_class_passes (Suc n) env c m sc fi mx occ k = do {
     (again, mx, occ, k) \<leftarrow>
       pick_siblings env c (cpus_of env m) sc fi (cpus_wrap env m c) mx occ k;
     if again then pick_class_passes n env c m sc fi mx occ k else Some (mx, occ, k)
   }"

fun pick_core_classes ::
    "nat \<Rightarrow> ('x, 'l, 'm) core_env_scheme \<Rightarrow> cpu \<Rightarrow> cpu set \<Rightarrow> bool \<Rightarrow> sched_class list \<Rightarrow>
     tid option \<Rightarrow> nat \<Rightarrow> ('x, 'l) kernel \<Rightarrow> (tid option \<times> nat \<times> ('x, 'l) kernel) option"
where
  "pick_core_classes n env c m fi [] mx occ k = Some (mx, occ, k)"
| "pick_core_classes n env c m fi (sc # scs) mx occ k = do {
     (mx, occ, k) \<leftarrow> pick_class_passes n env c m sc fi mx occ k;
     pick_core_classes n env c m fi scs mx occ k
   }"

text \<open>The siblings are told of their picks.\<close>

(* core.c !5939-5978: pick_next_task (reschedule siblings) *)
fun resched_siblings ::
    "('x, 'l, 'm) core_env_scheme \<Rightarrow> cpu \<Rightarrow> bool \<Rightarrow> nat \<Rightarrow> tid option \<Rightarrow> cpu list \<Rightarrow>
     ('x, 'l) kernel \<Rightarrow> ('x, 'l) kernel option" where
  "resched_siblings env c fi occ nxt [] k = Some k"
| "resched_siblings env c fi occ nxt (i # is) k =
     (case rq_core_pick (cpu_rq k i) of
        None \<Rightarrow> resched_siblings env c fi occ nxt is k
      | Some p \<Rightarrow>
          let now = rq_core_forceidle (core_of k c);
              k = (if \<not> (fi \<and> now) then e_task_vruntime_update (coresched_of env) i p now k else k);
              k = upd_task p (\<lambda>t. t\<lparr>t_core_occupation := of_nat occ\<rparr>) k
          in if i = c
             then resched_siblings env c fi occ nxt is (upd_rq i (\<lambda>r. r\<lparr>rq_core_pick := None\<rparr>) k)
             else (case nxt of
                     None \<Rightarrow> None
                   | Some q \<Rightarrow>
                       let k = warn_on ''pick_next_task'' (\<not> cookie_match k q p) k
                       in if rq_curr (cpu_rq k i) = p
                          then resched_siblings env c fi occ nxt is
                                 (upd_rq i (\<lambda>r. r\<lparr>rq_core_pick := None\<rparr>) k)
                          else resched_siblings env c fi occ nxt is (resched_curr env i k)))"

text \<open>The selection for the whole core, after the state of the last one is reset.\<close>

(* core.c !5851-5978: pick_next_task (core-wide) *)
definition pick_core_wide ::
    "nat \<Rightarrow> ('x, 'l, 'm) core_env_scheme \<Rightarrow> cpu \<Rightarrow> bool \<Rightarrow> ('x, 'l) kernel \<Rightarrow>
     (tid option \<times> ('x, 'l) kernel) option" where
  "pick_core_wide n env c fi k = do {
     let m = e_smt_mask (hotplug_of env) c k;
     let k = fold (\<lambda>i k. let k = upd_rq i (\<lambda>r. r\<lparr>rq_core_pick := None\<rparr>) k
                          in if i \<noteq> c then update_rq_clock env i k else k) (cpus_of env m) k;
     (mx, occ, k) \<leftarrow> pick_core_classes n env c m fi for_each_class None 0 k;
     let k = upd_core c (\<lambda>r. r\<lparr>rq_core_pick_seq := rq_core_task_seq r\<rparr>) k;
     let nxt = rq_core_pick (cpu_rq k c);
     let seq = rq_core_pick_seq (core_of k c);
     let k = upd_rq c (\<lambda>r. r\<lparr>rq_core_sched_seq := seq\<rparr>) k;
     let k = warn_on ''pick_next_task'' (nxt = None) k;
     k \<leftarrow> resched_siblings env c fi occ nxt (cpus_of env m) k;
     Some (nxt, k)
   }"

text \<open>The part behind the fast path. The result of the classes' loop is read without a test.\<close>

(* core.c !5803-5983: pick_next_task (slow path) *)
definition pick_next_task_core_slow ::
    "nat \<Rightarrow> ('x, 'l, 'm) core_env_scheme \<Rightarrow> cpu \<Rightarrow> tid \<Rightarrow> ('x, 'l) kernel \<Rightarrow>
     (tid \<times> ('x, 'l) kernel) option" where
  "pick_next_task_core_slow n env c prev k = do {
     k \<leftarrow> put_prev_task_balance env c prev k;
     let fi_before = rq_core_forceidle (core_of k c);
     let need_sync = (rq_core_cookie (core_of k c) \<noteq> 0 \<or> fi_before);
     let k = upd_core c (\<lambda>r. r\<lparr>rq_core_cookie := 0, rq_core_forceidle := False,
                              rq_core_task_seq := rq_core_task_seq r + 1\<rparr>) k;
     (nxt, k) \<leftarrow> (if need_sync then pick_core_wide n env c fi_before k
       else do {
         (p, k) \<leftarrow> first_class_pick env c for_each_class k;
         q \<leftarrow> p;
         if t_core_cookie (tsk k q) = 0
         then Some (Some q, e_task_vruntime_update (coresched_of env) c q False
                (warn_on ''pick_next_task'' fi_before (upd_rq c (\<lambda>r. r\<lparr>rq_core_pick := None\<rparr>) k)))
         else pick_core_wide n env c fi_before k
       });
     q \<leftarrow> nxt;
     k \<leftarrow> set_next_task env c q k;
     Some (q, k)
   }"

text \<open>The whole, with the fast path for a pick a sibling has already made.\<close>

(* core.c 5753-5984: pick_next_task#1 *)
definition pick_next_task_core ::
    "nat \<Rightarrow> ('x, 'l, 'm) core_env_scheme \<Rightarrow> cpu \<Rightarrow> tid \<Rightarrow> ('x, 'l) kernel \<Rightarrow>
     (tid \<times> ('x, 'l) kernel) option" where
  "pick_next_task_core n env c prev k =
     (if \<not> sched_core_enabled k c then pick_next_task env c prev k
      else if \<not> e_cpu_online env c k
      then pick_next_task env c prev (upd_rq c (\<lambda>r. r\<lparr>rq_core_pick := None\<rparr>) k)
      else case rq_core_pick (cpu_rq k c) of
          None \<Rightarrow> pick_next_task_core_slow n env c prev k
        | Some p \<Rightarrow>
            let seq = rq_core_pick_seq (core_of k c) in
            if seq = rq_core_task_seq (core_of k c) \<and> seq \<noteq> rq_core_sched_seq (cpu_rq k c)
            then do {
              let k = upd_rq c (\<lambda>r. r\<lparr>rq_core_sched_seq := seq\<rparr>) k;
              k \<leftarrow> (if p \<noteq> prev then do {
                       k \<leftarrow> put_prev_task env c prev k;
                       set_next_task env c p k
                     } else Some k);
              Some (p, upd_rq c (\<lambda>r. r\<lparr>rq_core_pick := None\<rparr>) k)
            }
            else pick_next_task_core_slow n env c prev k)"

section \<open>Stealing a matching task\<close>

text \<open>The tagged tasks one by one; the list is the rest of the tree, at most as long as it.\<close>

(* core.c !6007-6028: try_steal_cookie (loop) *)
fun steal_from ::
    "nat \<Rightarrow> ('x, 'l, 'm) core_env_scheme \<Rightarrow> cpu \<Rightarrow> cpu \<Rightarrow> u32 \<Rightarrow> tid \<Rightarrow> ('x, 'l) kernel \<Rightarrow>
     (bool \<times> ('x, 'l) kernel) option" where
  "steal_from 0 env this that cookie p k = None"
| "steal_from (Suc n) env this that cookie p k =
     (if Some p = rq_core_pick (cpu_rq k that) \<or> p = rq_curr (cpu_rq k that) \<or>
         \<not> is_cpu_allowed env k p this \<or>
         t_core_occupation (tsk k p) > t_core_occupation (tsk k (rq_idle (cpu_rq k this)))
      then (case sched_core_next env that p cookie k of
              None \<Rightarrow> Some (False, k)
            | Some q \<Rightarrow> steal_from n env this that cookie q k)
      else do {
        k \<leftarrow> deactivate_task env that p 0 k;
        k \<leftarrow> set_task_cpu env p this k;
        k \<leftarrow> activate_task env this p 0 k;
        Some (True, resched_curr env this k)
      })"

(* core.c 5986-6035: try_steal_cookie *)
definition try_steal_cookie ::
    "('x, 'l, 'm) core_env_scheme \<Rightarrow> cpu \<Rightarrow> cpu \<Rightarrow> ('x, 'l) kernel \<Rightarrow>
     (bool \<times> ('x, 'l) kernel) option" where
  "try_steal_cookie env this that k =
     (let cookie = rq_core_cookie (core_of k this) in
      if cookie = 0 then Some (False, k)
      else if rq_curr (cpu_rq k this) \<noteq> rq_idle (cpu_rq k this) then Some (False, k)
      else do {
        (r, k) \<leftarrow> sched_core_find env that cookie k;
        p \<leftarrow> r;
        if p = rq_idle (cpu_rq k that) then Some (False, k)
        else steal_from (length (rq_core_tree (cpu_rq k that))) env this that cookie p k
      })"

(* core.c 6037-6053: steal_cookie_task *)
fun steal_cookie_task ::
    "('x, 'l, 'm) core_env_scheme \<Rightarrow> cpu \<Rightarrow> cpu list \<Rightarrow> ('x, 'l) kernel \<Rightarrow>
     (bool \<times> ('x, 'l) kernel) option" where
  "steal_cookie_task env c [] k = Some (False, k)"
| "steal_cookie_task env c (i # is) k =
     (if i = c then steal_cookie_task env c is k
      else if need_resched k then Some (False, k)
      else do {
        (stolen, k) \<leftarrow> try_steal_cookie env c i k;
        if stolen then Some (True, k) else steal_cookie_task env c is k
      })"

text \<open>The domains of the CPU, from the smallest.\<close>

fun balance_domains ::
    "('x, 'l, 'm) core_env_scheme \<Rightarrow> cpu \<Rightarrow> cpu set list \<Rightarrow> ('x, 'l) kernel \<Rightarrow> ('x, 'l) kernel option"
where
  "balance_domains env c [] k = Some k"
| "balance_domains env c (sd # sds) k =
     (if need_resched k then Some k
      else do {
        (stolen, k) \<leftarrow> steal_cookie_task env c (cpus_wrap env sd c) k;
        if stolen then Some k else balance_domains env c sds k
      })"

(* core.c 6055-6073: sched_core_balance *)
definition sched_core_balance ::
    "('x, 'l, 'm) core_env_scheme \<Rightarrow> cpu \<Rightarrow> ('x, 'l) kernel \<Rightarrow> ('x, 'l) kernel option" where
  "sched_core_balance env c k = balance_domains env c (e_domains (wake_of env) c k) k"

text \<open>The pointer \<open>next\<close> of the last queued callback is NULL, so the guard does not see it.\<close>

(* sched.h 1728-1746: queue_balance_callback *)
definition queue_balance_callback :: "cpu \<Rightarrow> nat \<Rightarrow> ('x, 'l) kernel \<Rightarrow> ('x, 'l) kernel" where
  "queue_balance_callback c f k =
     (if f \<in> set (butlast (rq_balance_callback (cpu_rq k c))) \<or>
         rq_balance_callback (cpu_rq k c) = [balance_push_callback]
      then k
      else upd_rq c (\<lambda>r. r\<lparr>rq_balance_callback := f # rq_balance_callback r\<rparr>) k)"

text \<open>The callback of core scheduling.\<close>

(* core.c !6075-6075: core_balance_head *)
definition core_balance_callback :: nat where "core_balance_callback = 1"

(* core.c 6077-6089: queue_core_balance *)
definition queue_core_balance :: "cpu \<Rightarrow> ('x, 'l) kernel \<Rightarrow> ('x, 'l) kernel" where
  "queue_core_balance c k =
     (if \<not> sched_core_enabled k c then k
      else if rq_core_cookie (core_of k c) = 0 then k
      else if rq_nr_running (cpu_rq k c) = 0 then k
      else queue_balance_callback c core_balance_callback k)"

section \<open>The leader of a core\<close>

(* core.c 6091-6132: sched_core_cpu_starting#1 *)
definition sched_core_cpu_starting ::
    "('x, 'l, 'm) hotplug_env_scheme \<Rightarrow> cpu \<Rightarrow> ('x, 'l) kernel \<Rightarrow> ('x, 'l) kernel" where
  "sched_core_cpu_starting env c k =
     (let smt = smt_cpus env c k;
          k = warn_on ''sched_core_cpu_starting'' (rq_core_rq (cpu_rq k c) \<noteq> c) k
      in if length smt = 1 then k
         else case find (\<lambda>t. t \<noteq> c \<and> rq_core_rq (cpu_rq k t) = t) smt of
                None \<Rightarrow> warn_on ''sched_core_cpu_starting'' True k
              | Some l \<Rightarrow>
                  fold (\<lambda>t k. let k = (if t = c then upd_rq t (\<lambda>r. r\<lparr>rq_core_rq := l\<rparr>) k else k)
                               in warn_on ''sched_core_cpu_starting'' (rq_core_rq (cpu_rq k t) \<noteq> l) k)
                    smt k)"

(* core.c 6134-6179: sched_core_cpu_deactivate#1 *)
definition sched_core_cpu_deactivate ::
    "('x, 'l, 'm) hotplug_env_scheme \<Rightarrow> cpu \<Rightarrow> ('x, 'l) kernel \<Rightarrow> ('x, 'l) kernel" where
  "sched_core_cpu_deactivate env c k =
     (let smt = smt_cpus env c k in
      if length smt = 1
      then warn_on ''sched_core_cpu_deactivate'' (rq_core_rq (cpu_rq k c) \<noteq> c) k
      else if rq_core_rq (cpu_rq k c) \<noteq> c then k
      else case find (\<lambda>t. t \<noteq> c) smt of
             None \<Rightarrow> warn_on ''sched_core_cpu_deactivate'' True k
           | Some l \<Rightarrow>
               let s = cpu_rq k c;
                   k = upd_rq l (\<lambda>r. r\<lparr>rq_core_task_seq := rq_core_task_seq s,
                         rq_core_pick_seq := rq_core_pick_seq s, rq_core_cookie := rq_core_cookie s,
                         rq_core_forceidle := rq_core_forceidle s,
                         rq_core_forceidle_seq := rq_core_forceidle_seq s\<rparr>) k
               in fold (\<lambda>t. upd_rq t (\<lambda>r. r\<lparr>rq_core_rq := l\<rparr>)) smt k)"

(* core.c 6181-6187: sched_core_cpu_dying#1 *)
definition sched_core_cpu_dying :: "cpu \<Rightarrow> ('x, 'l) kernel \<Rightarrow> ('x, 'l) kernel" where
  "sched_core_cpu_dying c k =
     (if rq_core_rq (cpu_rq k c) \<noteq> c then upd_rq c (\<lambda>r. r\<lparr>rq_core_rq := c\<rparr>) k else k)"

(* sched.h 1269-1272: sched_core_enqueued *)
definition sched_core_enqueued :: "task \<Rightarrow> bool" where "sched_core_enqueued t = t_core_node t"

end
