(* ===== verification/Core_Sched_Props.thy ===== *)
theory Core_Sched_Props
  imports Smp_Machine Core_Pick
begin

text \<open>
  Properties of core scheduling: the switch reaches every CPU and is undone by the last reference, the
  leader of a core is handed over while CPUs go down and come up, and the lottery class, which has no
  \<open>pick_task\<close> hook, breaks every core-wide pick.
\<close>

section \<open>The switch\<close>

lemma fold_upd_rq_cpu:
  assumes "\<And>r. f (f r) = f r"
  shows "cpu_rq (fold (\<lambda>t. upd_rq t f) cs k) d = (if d \<in> set cs then f (cpu_rq k d) else cpu_rq k d)"
  by (induction cs arbitrary: k) (auto simp: upd_rq_def assms)

lemma fold_upd_rq_rest [simp]:
  "k_core_sched_key (fold (\<lambda>t. upd_rq t f) cs k) = k_core_sched_key k"
  "k_core_sched_count (fold (\<lambda>t. upd_rq t f) cs k) = k_core_sched_count k"
  "k_log (fold (\<lambda>t. upd_rq t f) cs k) = k_log k"
  by (induction cs arbitrary: k) (simp_all add: upd_rq_def)

text \<open>A CPU is a sibling of itself and the siblings do not change with the kernel's state.\<close>

definition smt_reflexive :: "('x, 'l, 'm) hotplug_env_scheme \<Rightarrow> bool" where
  "smt_reflexive env \<longleftrightarrow> (\<forall>c k. c \<in> e_smt_mask (hotplug_of env) c k) \<and>
     (\<forall>c k k'. e_smt_mask (hotplug_of env) c k = e_smt_mask (hotplug_of env) c k')"

lemma flip_online_keeps:
  "k_core_sched_key (core_flip_online env b cs m k) = k_core_sched_key k"
  "k_core_sched_count (core_flip_online env b cs m k) = k_core_sched_count k"
  by (induction env b cs m k rule: core_flip_online.induct) simp_all

lemma flip_online_sets:
  assumes "smt_reflexive env" and "d < e_nr_cpu_ids env"
  shows "d \<in> m \<and> d \<in> set cs \<or> rq_core_enabled (cpu_rq k d) = b \<Longrightarrow>
    rq_core_enabled (cpu_rq (core_flip_online env b cs m k) d) = b"
proof (induction cs arbitrary: m k)
  case Nil
  then show ?case by simp
next
  case (Cons c cs)
  have set_smt: "d \<in> set (smt_cpus env c k) \<longleftrightarrow> d \<in> e_smt_mask (hotplug_of env) c k"
    by (auto simp: smt_cpus_def cpus_of_def assms(2))
  have self: "c \<in> e_smt_mask (hotplug_of env) c k" using assms(1) by (simp add: smt_reflexive_def)
  show ?case
  proof (cases "c \<in> m")
    case False
    with Cons show ?thesis by auto
  next
    case True
    let ?k = "fold (\<lambda>t. upd_rq t (\<lambda>r. r\<lparr>rq_core_enabled := b\<rparr>)) (smt_cpus env c k) k"
    have en: "rq_core_enabled (cpu_rq ?k d) =
        (if d \<in> e_smt_mask (hotplug_of env) c k then b else rq_core_enabled (cpu_rq k d))"
      by (simp add: fold_upd_rq_cpu set_smt)
    have "d \<in> m - e_smt_mask (hotplug_of env) c k \<and> d \<in> set cs \<or> rq_core_enabled (cpu_rq ?k d) = b"
      unfolding en using Cons.prems self by auto
    from Cons.IH[OF this] True show ?thesis by simp
  qed
qed

lemma core_flip_all:
  assumes "smt_reflexive env" and "d < e_nr_cpu_ids env"
  shows "rq_core_enabled (cpu_rq (sched_core_flip env b k) d) = b"
proof (cases "d \<in> online_mask env k")
  case True
  with flip_online_sets[OF assms, of "online_mask env k" "[0 ..< e_nr_cpu_ids env]" k b] assms(2)
  show ?thesis by (simp add: sched_core_flip_def Let_def fold_upd_rq_cpu)
next
  case False
  with assms(2) show ?thesis by (simp add: sched_core_flip_def Let_def fold_upd_rq_cpu)
qed

lemma core_flip_rest [simp]:
  "k_core_sched_key (sched_core_flip env b k) = k_core_sched_key k"
  "k_core_sched_count (sched_core_flip env b k) = k_core_sched_count k"
  by (simp_all add: sched_core_flip_def Let_def flip_online_keeps)

lemma assert_empty_keeps [simp]:
  "k_core_sched_key (sched_core_assert_empty env k) = k_core_sched_key k"
  "k_core_sched_count (sched_core_assert_empty env k) = k_core_sched_count k"
  "cpu_rq (sched_core_assert_empty env k) = cpu_rq k"
proof -
  have "k_core_sched_key (fold (\<lambda>c k. warn_on s (rq_core_tree (cpu_rq k c) \<noteq> []) k) cs k) = k_core_sched_key k \<and>
    k_core_sched_count (fold (\<lambda>c k. warn_on s (rq_core_tree (cpu_rq k c) \<noteq> []) k) cs k) = k_core_sched_count k \<and>
    cpu_rq (fold (\<lambda>c k. warn_on s (rq_core_tree (cpu_rq k c) \<noteq> []) k) cs k) = cpu_rq k" for s cs and k :: "('a, 'b) kernel"
    by (induction cs arbitrary: k) (simp_all add: warn_on_def add_log_def)
  then show "k_core_sched_key (sched_core_assert_empty env k) = k_core_sched_key k"
    "k_core_sched_count (sched_core_assert_empty env k) = k_core_sched_count k"
    "cpu_rq (sched_core_assert_empty env k) = cpu_rq k"
    by (simp_all add: sched_core_assert_empty_def fun_eq_iff)
qed

text \<open>Nobody else counts references or switches core scheduling during the grace period: the mutex is
  held.\<close>

definition grace_keeps_core :: "('x, 'l, 'm) hotplug_env_scheme \<Rightarrow> bool" where
  "grace_keeps_core env \<longleftrightarrow> (\<forall>k k'. e_synchronize_rcu (hotplug_of env) k = Some k' \<longrightarrow>
     k_core_sched_key k' = k_core_sched_key k \<and> k_core_sched_count k' = k_core_sched_count k)"

text \<open>The references of further users, one after the other; nobody but the first and the last user
  touches a runqueue.\<close>

lemma core_get_again:
  assumes "k_core_sched_count k = 1"
  shows "((\<lambda>k. the (sched_core_get env k)) ^^ n) k = k\<lparr>k_core_sched_count := 1 + int n\<rparr>"
  by (induction n) (simp_all add: assms sched_core_get_def)

lemma core_put_again:
  "(sched_core_put env ^^ n) (k\<lparr>k_core_sched_count := 1 + int n\<rparr>) = k\<lparr>k_core_sched_count := 1\<rparr>"
  proof (induction n)
  case (Suc n)
  have "sched_core_put env (k\<lparr>k_core_sched_count := 1 + int (Suc n)\<rparr>) = k\<lparr>k_core_sched_count := 1 + int n\<rparr>"
    by (simp add: sched_core_put_def)
  with Suc show ?case by (simp add: funpow_Suc_right del: funpow.simps(2))
qed simp

text \<open>C34: The first reference to core scheduling enables it on every CPU, online or not. Any number
  of further references and as many drops only count; once the count is back at 1, the work of the last
  drop disables core scheduling on every CPU again.\<close>

theorem sched_core_get_put:
  assumes "smt_reflexive env" and "grace_keeps_core env"
    and "k_core_sched_count k = 0" and "sched_core_get env k = Some k1"
  shows "(\<forall>c<e_nr_cpu_ids env. sched_core_enabled k1 c) \<and>
    ((\<lambda>k. the (sched_core_get env k)) ^^ n) k1 = k1\<lparr>k_core_sched_count := 1 + int n\<rparr> \<and>
    (sched_core_put env ^^ n) (k1\<lparr>k_core_sched_count := 1 + int n\<rparr>) = k1 \<and>
    k_core_sched_count (sched_core_put_work env k1) = 0 \<and>
    sched_core_disabled (sched_core_put_work env k1) \<and>
    (\<forall>c<e_nr_cpu_ids env. \<not> rq_core_enabled (cpu_rq (sched_core_put_work env k1) c))"
proof -
  from assms(3,4) obtain h where h: "e_synchronize_rcu (hotplug_of env) (k\<lparr>k_core_sched_key := True\<rparr>) = Some h"
    and k1: "k1 = (sched_core_assert_empty env (sched_core_flip env True h))\<lparr>k_core_sched_count := k_core_sched_count h + 1\<rparr>"
    by (auto simp: sched_core_get_def sched_core_enable_def bind_Some_iff)
  from assms(2,3) h have hk: "k_core_sched_key h" "k_core_sched_count h = 0"
    by (auto simp: grace_keeps_core_def)
  have c1: "k_core_sched_count k1 = 1" by (simp add: k1 hk)
  then have same: "k1\<lparr>k_core_sched_count := 1\<rparr> = k1" by simp
  have "sched_core_enabled k1 c" if "c < e_nr_cpu_ids env" for c
    using core_flip_all[OF assms(1) that] by (simp add: sched_core_enabled_def k1 hk)
  moreover have "\<not> rq_core_enabled (cpu_rq (sched_core_put_work env k1) c)" if "c < e_nr_cpu_ids env" for c
    using core_flip_all[OF assms(1) that] by (simp add: sched_core_put_work_def sched_core_disable_def c1)
  moreover have "k_core_sched_count (sched_core_put_work env k1) = 0"
    "sched_core_disabled (sched_core_put_work env k1)"
    by (simp_all add: sched_core_put_work_def sched_core_disable_def sched_core_disabled_def c1)
  ultimately show ?thesis
    using core_get_again[OF c1, of n env] core_put_again[of n env k1] same by simp
qed

text \<open>Two hyperthreads of one core.\<close>

definition core_ops0 :: "(unit, list_heap) core_ops" where
  "core_ops0 = core_ops.fields (\<lambda>a b fi k. a < b) (\<lambda>c p fi k. k)
     (\<lambda>less p ps. takeWhile (\<lambda>q. less q p) ps @ p # dropWhile (\<lambda>q. less q p) ps) removeAll
     (\<lambda>cmp ps. find (\<lambda>p. cmp p = 0) ps)
     (\<lambda>p ps. case dropWhile (\<lambda>q. q \<noteq> p) ps of _ # q # _ \<Rightarrow> Some q | _ \<Rightarrow> None) (\<lambda>k. ())"

definition core_env0 :: "(unit, list_heap) core_env" where
  "core_env0 = env.extend env_smp0 (wake_ops.extend wake_ops0 (fork_ops.extend fork_ops0
     (affine_ops.extend affine_ops0 (nohz_ops.extend nohz_ops0
       (hotplug_ops.extend (hotplug_ops0\<lparr>e_smt_mask := (\<lambda>c k. insert c {0, 1})\<rparr>) core_ops0)))))"

lemma core_env0_env:
  "e_smt_mask (hotplug_of core_env0) = (\<lambda>c k. insert c {0, 1})" "e_nr_cpu_ids core_env0 = 2" "e_list core_env0 = heap_ops"
  "e_synchronize_rcu (hotplug_of core_env0) = Some" "e_cpu_online core_env0 = (\<lambda>c k. True)"
  by (simp_all add: core_env0_def core_ops0_def smp_machine_defs core_ops.defs fun_eq_iff)

theorem sched_core_get_put_witness:
  "sched_core_enabled (the (sched_core_get core_env0 kernel0)) 1 \<and>
   sched_core_disabled (sched_core_put_work core_env0 (the (sched_core_get core_env0 kernel0)))"
proof -
  have "sched_core_get core_env0 kernel0 = Some (the (sched_core_get core_env0 kernel0))"
    by (simp add: sched_core_get_def sched_core_enable_def core_env0_env kernel0_def)
  note * = sched_core_get_put[OF _ _ _ this]
  have r: "smt_reflexive core_env0" by (simp add: smt_reflexive_def core_env0_env)
  show ?thesis
    using *[OF r] by (simp add: grace_keeps_core_def core_env0_env kernel0_def)
qed

section \<open>The leader of a core\<close>

text \<open>All siblings point to one of them.\<close>

definition core_led_by :: "cpu set \<Rightarrow> cpu \<Rightarrow> ('x, 'l) kernel \<Rightarrow> bool" where
  "core_led_by S l k \<longleftrightarrow> l \<in> S \<and> (\<forall>t\<in>S. rq_core_rq (cpu_rq k t) = l)"

definition core_shared :: "rq \<Rightarrow> u32 \<times> u32 \<times> u32 \<times> bool \<times> u32" where
  "core_shared r = (rq_core_task_seq r, rq_core_pick_seq r, rq_core_cookie r, rq_core_forceidle r,
     rq_core_forceidle_seq r)"

lemma set_smt_cpus: "set (smt_cpus env c k) = {d \<in> e_smt_mask (hotplug_of env) c k. d < e_nr_cpu_ids env}"
  by (auto simp: smt_cpus_def cpus_of_def)

lemma core_deactivate_leader:
  assumes "set (smt_cpus env c k) = S" and "length (smt_cpus env c k) \<noteq> 1" and "c \<in> S"
    and "core_led_by S l k" and "\<exists>d\<in>S. d \<noteq> c"
  shows "\<exists>l'. l' \<noteq> c \<and> core_led_by S l' (sched_core_cpu_deactivate env c k) \<and>
    core_shared (cpu_rq (sched_core_cpu_deactivate env c k) l') = core_shared (cpu_rq k l) \<and>
    k_log (sched_core_cpu_deactivate env c k) = k_log k"
proof (cases "l = c")
  case False
  with assms show ?thesis
    by (intro exI[of _ l]) (auto simp: sched_core_cpu_deactivate_def Let_def core_led_by_def)
next
  case True
  obtain l' where f: "find (\<lambda>t. t \<noteq> c) (smt_cpus env c k) = Some l'"
    using assms(1,5) by (cases "find (\<lambda>t. t \<noteq> c) (smt_cpus env c k)") (auto simp: find_None_iff)
  then have l': "l' \<in> S" "l' \<noteq> c" using assms(1) by (auto simp: find_Some_iff)
  with True assms f show ?thesis
    by (intro exI[of _ l'])
      (auto simp: sched_core_cpu_deactivate_def Let_def core_led_by_def fold_upd_rq_cpu core_shared_def
        upd_rq_def)
qed

lemma core_starting_join:
  assumes "set (smt_cpus env c k) = S" and "length (smt_cpus env c k) \<noteq> 1" and "c \<in> S"
    and "core_led_by (S - {c}) l k" and "rq_core_rq (cpu_rq k c) = c"
  shows "sched_core_cpu_starting env c k = upd_rq c (\<lambda>r. r\<lparr>rq_core_rq := l\<rparr>) k"
proof -
  let ?smt = "smt_cpus env c k" and ?up = "upd_rq c (\<lambda>r. r\<lparr>rq_core_rq := l\<rparr>)"
  let ?step = "\<lambda>t k. let k = (if t = c then upd_rq t (\<lambda>r. r\<lparr>rq_core_rq := l\<rparr>) k else k)
     in warn_on ''sched_core_cpu_starting'' (rq_core_rq (cpu_rq k t) \<noteq> l) k"
  obtain t where t: "find (\<lambda>t. t \<noteq> c \<and> rq_core_rq (cpu_rq k t) = t) ?smt = Some t"
    using assms(1,4) by (cases "find (\<lambda>t. t \<noteq> c \<and> rq_core_rq (cpu_rq k t) = t) ?smt")
      (auto simp: find_None_iff core_led_by_def)
  then have "t = l" using assms(1,4) by (auto simp: find_Some_iff core_led_by_def dest: nth_mem)
  then have f: "find (\<lambda>t. t \<noteq> c \<and> rq_core_rq (cpu_rq k t) = t) ?smt = Some l" using t by simp
  have one: "?step c h = ?up h" "?step d h = h" if "d \<noteq> c" "rq_core_rq (cpu_rq h d) = l"
    for d and h :: "('a, 'b) kernel"
    using that by (simp_all add: Let_def warn_on_def upd_rq_def)
  have idem: "?up (?up h) = ?up h" for h :: "('a, 'b) kernel" by (simp add: upd_rq_def)
  have "fold ?step cs h = (if c \<in> set cs then ?up h else h)"
    if "\<forall>d\<in>set cs - {c}. rq_core_rq (cpu_rq h d) = l" for cs and h :: "('a, 'b) kernel"
    using that
  proof (induction cs arbitrary: h)
    case (Cons d cs)
    show ?case
    proof (cases "d = c")
      case True
      have "\<forall>d\<in>set cs - {c}. rq_core_rq (cpu_rq (?up h) d) = l"
        using Cons.prems by (auto simp: upd_rq_def)
      from Cons.IH[OF this] True show ?thesis
        by (simp add: Let_def warn_on_def upd_rq_def)
    next
      case False
      with Cons show ?thesis by (simp add: Let_def warn_on_def)
    qed
  qed simp
  moreover have "\<forall>d\<in>set ?smt - {c}. rq_core_rq (cpu_rq k d) = l"
    using assms(1,4) by (auto simp: core_led_by_def)
  ultimately have "fold ?step ?smt k = ?up k" using assms(1,3) by simp
  with f assms(2,5) show ?thesis
    by (simp add: sched_core_cpu_starting_def Let_def warn_on_def)
qed

text \<open>C14: A CPU of a core with several siblings goes down and comes up again: the deactivation makes
  another sibling the leader of them all and hands it the core's shared state, the dying CPU becomes
  its own leader without changing its siblings', and the starting CPU joins the leader it finds. No
  warning is logged, and the shared state is the one of the old leader throughout.\<close>

theorem core_leader_handover:
  assumes "\<And>k. set (smt_cpus env c k) = S" and "card S > 1" and "c \<in> S" and "core_led_by S l k"
    and "k1 = sched_core_cpu_deactivate env c k" and "k2 = sched_core_cpu_dying c k1"
    and "k3 = sched_core_cpu_starting env c k2"
  shows "\<exists>l'. l' \<noteq> c \<and> core_led_by S l' k1 \<and> core_led_by (S - {c}) l' k2 \<and> core_led_by {c} c k2 \<and>
    core_led_by S l' k3 \<and> core_shared (cpu_rq k3 l') = core_shared (cpu_rq k l) \<and> k_log k3 = k_log k"
proof -
  have len: "length (smt_cpus env c h) \<noteq> 1" for h :: "('a, 'b) kernel"
    using assms(1)[of h] assms(2) card_length[of "smt_cpus env c h"] by simp
  have "\<not> S \<subseteq> {c}" using assms(2) card_mono[of "{c}" S] by fastforce
  then have "\<exists>d\<in>S. d \<noteq> c" by blast
  from core_deactivate_leader[OF assms(1) len assms(3,4) this]
  obtain l' where l': "l' \<noteq> c" "core_led_by S l' k1" "core_shared (cpu_rq k1 l') = core_shared (cpu_rq k l)"
    "k_log k1 = k_log k" unfolding assms(5) by blast
  have k2: "k2 = upd_rq c (\<lambda>r. r\<lparr>rq_core_rq := c\<rparr>) k1"
    using l'(1,2) assms(3) unfolding assms(6) by (auto simp: sched_core_cpu_dying_def core_led_by_def)
  have led2: "core_led_by (S - {c}) l' k2" "core_led_by {c} c k2"
    using l'(1,2) by (auto simp: k2 core_led_by_def upd_rq_def)
  have k3: "k3 = upd_rq c (\<lambda>r. r\<lparr>rq_core_rq := l'\<rparr>) k2"
    unfolding assms(7) using led2(2)
    by (intro core_starting_join[OF assms(1) len assms(3) led2(1)]) (simp add: core_led_by_def)
  have "core_led_by S l' k3" using led2(1) l'(1) by (auto simp: k3 core_led_by_def upd_rq_def)
  moreover have "core_shared (cpu_rq k3 l') = core_shared (cpu_rq k1 l')" "k_log k3 = k_log k1"
    using l'(1) by (simp_all add: k3 k2 upd_rq_def)
  ultimately show ?thesis using l' led2 by auto
qed

text \<open>Two siblings led by CPU 0, which goes down.\<close>

definition core_kernel0 :: "(unit, list_heap) kernel" where
  "core_kernel0 = upd_rq 1 (\<lambda>r. r\<lparr>rq_core_rq := 0\<rparr>)
     (upd_rq 0 (\<lambda>r. r\<lparr>rq_core_rq := 0, rq_core_cookie := 7\<rparr>) kernel0)"

theorem core_leader_handover_witness:
  "\<exists>l. l \<noteq> 0 \<and> core_shared (cpu_rq (sched_core_cpu_starting core_env0 0
     (sched_core_cpu_dying 0 (sched_core_cpu_deactivate core_env0 0 core_kernel0))) l) = (0, 0, 7, False, 0)"
proof -
  have smt: "set (smt_cpus core_env0 0 k) = {0, 1}" for k
    by (auto simp: set_smt_cpus core_env0_env)
  have "core_led_by {0, 1} 0 core_kernel0"
    by (simp add: core_led_by_def core_kernel0_def upd_rq_def)
  from core_leader_handover[OF smt _ _ this refl refl refl]
  show ?thesis by (auto simp: core_kernel0_def upd_rq_def core_shared_def kernel0_def rq0_def)
qed

section \<open>Core-wide picks\<close>

lemma lottery_no_pick: "class_pick_task env Lottery_class c k = None"
  by (simp add: class_pick_task_def class_vt_def lottery_sched_class_def null_vtable_def)

lemma update_rq_clock_core_pick [simp]:
  "rq_core_pick (cpu_rq (update_rq_clock env c k) d) = rq_core_pick (cpu_rq k d)"
proof -
  have "rq_core_pick (rq_no_clock r) = rq_core_pick r" for r by (simp add: rq_no_clock_def)
  then show ?thesis by (metis update_rq_clock_rq)
qed

lemma core_picks_reset:
  assumes "d \<in> set cs \<or> rq_core_pick (cpu_rq k d) = None"
  shows "rq_core_pick (cpu_rq (fold (\<lambda>i k. let k = upd_rq i (\<lambda>r. r\<lparr>rq_core_pick := None\<rparr>) k
    in if i \<noteq> c then update_rq_clock env i k else k) cs k) d) = None"
  using assms
proof (induction cs arbitrary: k)
  case (Cons i cs)
  let ?k = "let k = upd_rq i (\<lambda>r. r\<lparr>rq_core_pick := None\<rparr>) k in if i \<noteq> c then update_rq_clock env i k else k"
  have "d \<in> set cs \<or> rq_core_pick (cpu_rq ?k d) = None"
    using Cons.prems by (auto simp: Let_def upd_rq_def)
  from Cons.IH[OF this] show ?case by simp
qed simp

lemma pick_lottery_siblings:
  assumes "rq_core_pick (cpu_rq k i) = None"
  shows "pick_siblings env c smt Lottery_class fi (i # js) mx occ k = None"
  using assms by (simp add: pick_task_def lottery_no_pick)

lemma core_wide_oops:
  assumes "\<And>k. c \<in> e_smt_mask (hotplug_of env) c k" and "c < e_nr_cpu_ids env"
  shows "pick_core_wide n env c fi k = None"
proof -
  let ?m = "e_smt_mask (hotplug_of env) c k"
  let ?k = "fold (\<lambda>i k. let k = upd_rq i (\<lambda>r. r\<lparr>rq_core_pick := None\<rparr>) k
    in if i \<noteq> c then update_rq_clock env i k else k) (cpus_of env ?m) k"
  have "c \<in> set (cpus_wrap env ?m c)"
    using assms by (auto simp: cpus_wrap_def cpus_of_def)
  then obtain i js where w: "cpus_wrap env ?m c = i # js" by (cases "cpus_wrap env ?m c") auto
  then have "i \<in> set (cpus_of env ?m)"
    using list.set_intros(1)[of i js] by (auto simp: cpus_wrap_def simp flip: w)
  then have p: "rq_core_pick (cpu_rq ?k i) = None" by (intro core_picks_reset) simp
  have "pick_core_classes n env c ?m fi for_each_class None 0 ?k = None"
    by (cases n) (simp_all add: for_each_class_eq w pick_lottery_siblings[OF p] del: pick_siblings.simps)
  then show ?thesis unfolding pick_core_wide_def Let_def by (simp add: Let_def)
qed

text \<open>With core scheduling enabled on an online CPU, every pick that does not just take the
  choice a sibling has made is an oops, for any fuel: the search starts with the lottery class, and its
  \<open>pick_task\<close> hook is NULL.\<close>

theorem core_pick_oops:
  assumes "sched_core_enabled k c" and "e_cpu_online env c k" and "rq_core_pick (cpu_rq k c) = None"
    and "\<And>k. c \<in> e_smt_mask (hotplug_of env) c k" and "c < e_nr_cpu_ids env"
  shows "pick_next_task_core n env c prev k = None"
proof -
  have "first_class_pick env c for_each_class h = None" for h :: "('a, 'b) kernel"
    by (simp add: for_each_class_eq lottery_no_pick)
  then have "pick_next_task_core_slow n env c prev k = None"
    by (cases "put_prev_task_balance env c prev k")
      (simp_all add: pick_next_task_core_slow_def core_wide_oops[OF assms(4,5)] Let_def)
  then show ?thesis
    using assms(1-3) by (simp add: pick_next_task_core_def)
qed

theorem core_pick_oops_witness:
  "pick_next_task_core 9 core_env0 0 0
     (upd_rq 0 (\<lambda>r. r\<lparr>rq_core_enabled := True\<rparr>) (kernel0\<lparr>k_core_sched_key := True\<rparr>)) = None"
  by (intro core_pick_oops)
    (simp_all add: core_env0_env sched_core_enabled_def upd_rq_def kernel0_def rq0_def)

end
