(* ===== verification/Prio_Types.thy ===== *)
theory Prio_Types
  imports Prio_Props Setsched_Props Full_Machine
begin

text \<open>
  The types of the priority fields: static priorities, effective priorities and real-time priorities
  stay in their ranges through every operation that writes them, so that the tables of weights are
  never indexed out of bounds.
\<close>

section \<open>Typed tasks\<close>

definition prio_typed :: "task \<Rightarrow> bool" where
  "prio_typed t \<longleftrightarrow> MAX_RT_PRIO \<le> t_static_prio t \<and> t_static_prio t < MAX_RT_PRIO + NICE_WIDTH \<and>
     -1 \<le> t_normal_prio t \<and> t_normal_prio t < MAX_RT_PRIO + NICE_WIDTH \<and>
     -1 \<le> t_prio t \<and> t_prio t < MAX_RT_PRIO + NICE_WIDTH \<and> t_rt_priority t \<le> 99"

definition all_typed :: "('x, 'l) kernel \<Rightarrow> bool" where
  "all_typed k \<longleftrightarrow> (\<forall>p. prio_typed (tsk k p))"

text \<open>A partial step of the kernel that keeps the types.\<close>

definition keeps_types :: "(('x, 'l) kernel \<Rightarrow> ('x, 'l) kernel option) \<Rightarrow> bool" where
  "keeps_types f \<longleftrightarrow> (\<forall>k k'. f k = Some k' \<longrightarrow> all_typed k \<longrightarrow> all_typed k')"

lemma keeps_typesD: "keeps_types f \<Longrightarrow> f k = Some k' \<Longrightarrow> all_typed k \<Longrightarrow> all_typed k'"
  by (auto simp: keeps_types_def)

lemma all_typed_tasks: "k_tasks k' = k_tasks k \<Longrightarrow> all_typed k' = all_typed k"
  by (simp add: all_typed_def)

lemma all_typed_frame [simp]:
  "all_typed (upd_rq c g k) = all_typed k" "all_typed (upd_ltr c l k) = all_typed k"
  "all_typed (warn_on s b k) = all_typed k" "all_typed (ext_do x k) = all_typed k"
  "all_typed (k\<lparr>k_ext := e\<rparr>) = all_typed k" "all_typed (update_rq_clock env c k) = all_typed k"
  "all_typed (k\<lparr>k_links := h\<rparr>) = all_typed k" "all_typed (log_event i ev k) = all_typed k"
  by (simp_all add: all_typed_def log_event_def ktime_get_ns_def)

lemma all_typed_upd:
  "all_typed k \<Longrightarrow> prio_typed (f (tsk k p)) \<Longrightarrow> all_typed (upd_task p f k)"
  by (simp add: all_typed_def)

lemma prio_typed_fields [simp]:
  "prio_typed (t\<lparr>t_on_rq := a\<rparr>) = prio_typed t" "prio_typed (t\<lparr>t_load := lw\<rparr>) = prio_typed t"
  "prio_typed (t\<lparr>t_uclamp := u\<rparr>) = prio_typed t" "prio_typed (t\<lparr>t_uclamp_req := u\<rparr>) = prio_typed t"
  "prio_typed (t\<lparr>t_class := sc\<rparr>) = prio_typed t" "prio_typed (t\<lparr>t_dl_pi_se := q\<rparr>) = prio_typed t"
  "prio_typed (t\<lparr>t_rt_timeout := n\<rparr>) = prio_typed t" "prio_typed (t\<lparr>t_pi_top_task := tp\<rparr>) = prio_typed t"
  "prio_typed (t\<lparr>t_reset_on_fork := b\<rparr>) = prio_typed t" "prio_typed (t\<lparr>t_policy := z\<rparr>) = prio_typed t"
  "prio_typed (t\<lparr>t_dl_flags := fl\<rparr>) = prio_typed t" "prio_typed (t\<lparr>t_need_resched := b\<rparr>) = prio_typed t"
  "prio_typed (t\<lparr>t_on_cpu := b\<rparr>) = prio_typed t"
  by (simp_all add: prio_typed_def)

section \<open>The parts of the operations\<close>

lemma sint_priority:
  fixes w :: u32
  assumes "w \<le> 99"
  shows "0 \<le> sint w" "sint w \<le> 99"
proof -
  have "uint w \<le> 99" using assms by (simp add: word_le_def)
  moreover have "- (2 ^ 31) \<le> uint w" by (rule order_trans[OF _ uint_nonnegative]) simp
  ultimately have "sint w = uint w"
    unfolding sint_uint by (intro signed_take_bit_int_eq_self) simp_all
  then show "0 \<le> sint w" "sint w \<le> 99" using \<open>uint w \<le> 99\<close> by simp_all
qed

lemma normal_prio_range:
  assumes "rtp \<le> 99" and "MIN_NICE \<le> nice" and "nice \<le> MAX_NICE"
  shows "-1 \<le> normal_prio_of policy rtp nice" "normal_prio_of policy rtp nice < MAX_RT_PRIO + NICE_WIDTH"
  using assms(2,3) sint_priority[OF assms(1)]
  by (simp_all add: normal_prio_of_def NICE_TO_PRIO_def prio_consts)

lemma typed_nice:
  "prio_typed t \<Longrightarrow> MIN_NICE \<le> task_nice t \<and> task_nice t \<le> MAX_NICE"
  by (simp add: prio_typed_def task_nice_def PRIO_TO_NICE_def prio_consts)

lemma typed_normal_prio:
  "prio_typed t \<Longrightarrow> -1 \<le> normal_prio t \<and> normal_prio t < MAX_RT_PRIO + NICE_WIDTH"
  using normal_prio_range[of "t_rt_priority t" "PRIO_TO_NICE (t_static_prio t)"] typed_nice[of t]
  by (simp add: normal_prio_def prio_typed_def task_nice_def)

lemma effective_prio_typed:
  assumes "all_typed k" and "effective_prio p k = (pr, k')"
  shows "all_typed k' \<and> -1 \<le> pr \<and> pr < MAX_RT_PRIO + NICE_WIDTH"
proof -
  have t: "prio_typed (tsk k p)" using assms(1) by (simp add: all_typed_def)
  note n = typed_normal_prio[OF t]
  have "prio_typed ((tsk k p)\<lparr>t_normal_prio := normal_prio (tsk k p)\<rparr>)"
    using t n by (simp add: prio_typed_def)
  with assms(1) have "all_typed (upd_task p (\<lambda>t. t\<lparr>t_normal_prio := normal_prio t\<rparr>) k)"
    by (intro all_typed_upd)
  moreover have "-1 \<le> pr \<and> pr < MAX_RT_PRIO + NICE_WIDTH"
    using assms(2) n t by (auto simp: effective_prio_def Let_def prio_typed_def split: if_splits)
  ultimately show ?thesis using assms(2) by (simp add: effective_prio_def Let_def)
qed

lemma set_load_weight_typed: "keeps_types (set_load_weight env p b)"
  by (auto simp: keeps_types_def set_load_weight_def bind_Some_iff Let_def intro!: all_typed_upd
    split: if_splits prod.splits) (simp_all add: all_typed_def)

lemma setscheduler_prio_typed:
  assumes "all_typed k" and "-1 \<le> pr" and "pr < MAX_RT_PRIO + NICE_WIDTH"
  shows "all_typed (setscheduler_prio p pr k)"
  using assms by (simp add: setscheduler_prio_def all_typed_def prio_typed_def)

lemma uclamp_typed [simp]:
  "all_typed (uclamp_rq_inc env c p k) = all_typed k" "all_typed (uclamp_rq_dec env c p k) = all_typed k"
  "all_typed (setscheduler_uclamp env p attr k) = all_typed k"
proof -
  have se: "all_typed (upd_se p i f k) = all_typed k" "all_typed (upd_req p i g k) = all_typed k"
    for p i f g and k :: "('a, 'b) kernel"
    by (auto simp: all_typed_def upd_se_def upd_req_def)
  have f: "all_typed (fold (uclamp_rq_inc_id env c p) is k) = all_typed k"
    "all_typed (fold (uclamp_rq_dec_id env c p) is k) = all_typed k"
    "all_typed (fold (setscheduler_uclamp_reset env p attr) is k) = all_typed k" for "is" k
    by (induction "is" arbitrary: k)
      (simp_all add: uclamp_rq_inc_id_def uclamp_rq_dec_id_def setscheduler_uclamp_reset_def se Let_def)
  show "all_typed (uclamp_rq_inc env c p k) = all_typed k" "all_typed (uclamp_rq_dec env c p k) = all_typed k"
    by (simp_all add: uclamp_rq_inc_def uclamp_rq_dec_def f)
  show "all_typed (setscheduler_uclamp env p attr k) = all_typed k"
    by (simp add: setscheduler_uclamp_def f se Let_def)
qed

section \<open>Calls of the classes\<close>

text \<open>The laws of the classes outside the repository: no hook writes a priority field, and the parameters of a
  deadline task do not contain a nice value.\<close>

definition hooks_typed :: "('x, 'l) vtable \<Rightarrow> bool" where
  "hooks_typed vt \<longleftrightarrow>
     (\<forall>f. vt_enqueue_task vt = Some f \<longrightarrow> (\<forall>c p fl. keeps_types (f c p fl))) \<and>
     (\<forall>f. vt_dequeue_task vt = Some f \<longrightarrow> (\<forall>c p fl. keeps_types (f c p fl))) \<and>
     (\<forall>f. vt_put_prev_task vt = Some f \<longrightarrow> (\<forall>c p. keeps_types (f c p))) \<and>
     (\<forall>f. vt_set_next_task vt = Some f \<longrightarrow> (\<forall>c p b. keeps_types (f c p b))) \<and>
     (\<forall>f. vt_switched_from vt = Some f \<longrightarrow> (\<forall>c p. keeps_types (f c p))) \<and>
     (\<forall>f. vt_switched_to vt = Some f \<longrightarrow> (\<forall>c p. keeps_types (f c p))) \<and>
     (\<forall>f. vt_prio_changed vt = Some f \<longrightarrow> (\<forall>c p o'. keeps_types (f c p o')))"

definition env_typed :: "('x, 'l, 'm) env_scheme \<Rightarrow> bool" where
  "env_typed env \<longleftrightarrow> (\<forall>sc. hooks_typed (e_class env sc)) \<and>
     (\<forall>n c. keeps_types (e_balance_callback env n c)) \<and> (\<forall>p. keeps_types (e_rt_mutex_adjust_pi env p)) \<and>
     (\<forall>p a k. sa_nice (e_getparam_dl env p a k) = sa_nice a)"

lemma lottery_typed: "hooks_typed (lottery_sched_class env)"
proof -
  have "keeps_types (enqueue_task_lottery env c p fl)" "keeps_types (dequeue_task_lottery env c p fl)" for c p fl
    by (auto simp: keeps_types_def enqueue_task_lottery_def dequeue_task_lottery_def bind_Some_iff Let_def)
  then show ?thesis
    by (auto simp: hooks_typed_def keeps_types_def put_prev_task_lottery_def set_next_task_lottery_def
      switched_to_lottery_def switched_from_lottery_def prio_changed_lottery_def split: if_splits)
qed

lemma class_typed: "env_typed env \<Longrightarrow> hooks_typed (class_vt env sc)"
  by (auto simp: class_vt_def env_typed_def lottery_typed)

lemma class_hook_typed:
  assumes "env_typed env"
  shows "vt_enqueue_task (class_vt env sc) = Some f1 \<Longrightarrow> f1 c p fl k = Some k' \<Longrightarrow> all_typed k \<Longrightarrow> all_typed k'"
    "vt_dequeue_task (class_vt env sc) = Some f1 \<Longrightarrow> f1 c p fl k = Some k' \<Longrightarrow> all_typed k \<Longrightarrow> all_typed k'"
    "vt_put_prev_task (class_vt env sc) = Some f2 \<Longrightarrow> f2 c p k = Some k' \<Longrightarrow> all_typed k \<Longrightarrow> all_typed k'"
    "vt_set_next_task (class_vt env sc) = Some f3 \<Longrightarrow> f3 c p b k = Some k' \<Longrightarrow> all_typed k \<Longrightarrow> all_typed k'"
    "vt_switched_from (class_vt env sc) = Some f2 \<Longrightarrow> f2 c p k = Some k' \<Longrightarrow> all_typed k \<Longrightarrow> all_typed k'"
    "vt_switched_to (class_vt env sc) = Some f2 \<Longrightarrow> f2 c p k = Some k' \<Longrightarrow> all_typed k \<Longrightarrow> all_typed k'"
    "vt_prio_changed (class_vt env sc) = Some f4 \<Longrightarrow> f4 c p old k = Some k' \<Longrightarrow> all_typed k \<Longrightarrow> all_typed k'"
  using class_typed[OF assms, of sc] by (simp_all add: hooks_typed_def keeps_types_def)

lemma core_typed:
  assumes "env_typed env"
  shows "keeps_types (enqueue_task env c p fl)" "keeps_types (dequeue_task env c p fl)"
    "keeps_types (put_prev_task env c p)" "keeps_types (set_next_task env c p)"
    "keeps_types (check_class_changed env c p sc old)"
proof -
  note h = class_hook_typed[OF assms]
  show "keeps_types (enqueue_task env c p fl)"
    by (auto simp: keeps_types_def enqueue_task_def bind_Some_iff Let_def cl_def elim: h(1))
  show "keeps_types (dequeue_task env c p fl)"
    by (auto simp: keeps_types_def dequeue_task_def bind_Some_iff Let_def cl_def elim: h(2))
  show "keeps_types (put_prev_task env c p)"
    by (auto simp: keeps_types_def put_prev_task_def bind_Some_iff Let_def cl_def elim: h(3))
  show "keeps_types (set_next_task env c p)"
    by (auto simp: keeps_types_def set_next_task_def bind_Some_iff Let_def cl_def elim: h(4))
  show "keeps_types (check_class_changed env c p sc old)"
    by (auto simp: keeps_types_def check_class_changed_def bind_Some_iff cl_def
      split: if_splits option.splits intro: h(5-7) dest: h(5))
qed

lemma callbacks_typed:
  assumes "env_typed env"
  shows "keeps_types (do_balance_callbacks env c fs)" "keeps_types (balance_callbacks env c fs)"
    "keeps_types (balance_callbacks_now env c)"
    "splice_balance_callbacks env c k = (fs, k') \<Longrightarrow> all_typed k' = all_typed k"
proof -
  have e: "e_balance_callback env n c k = Some k' \<Longrightarrow> all_typed k \<Longrightarrow> all_typed k'" for n k k'
    using assms by (auto simp: env_typed_def keeps_types_def)
  have d: "do_balance_callbacks env c fs k = Some k' \<Longrightarrow> all_typed k \<Longrightarrow> all_typed k'" for fs k k'
    by (induction fs arbitrary: k) (auto simp: bind_Some_iff dest: e)
  show "keeps_types (do_balance_callbacks env c fs)" "keeps_types (balance_callbacks env c fs)"
    "keeps_types (balance_callbacks_now env c)"
    by (auto simp: keeps_types_def balance_callbacks_def balance_callbacks_now_def d
      splice_balance_callbacks_split_def Let_def split: if_splits dest!: d)
  show "splice_balance_callbacks env c k = (fs, k') \<Longrightarrow> all_typed k' = all_typed k"
    by (auto simp: splice_balance_callbacks_def splice_balance_callbacks_split_def Let_def split: if_splits)
qed

section \<open>The operations\<close>

text \<open>A result that is typed when there is one, with a rule for each construct of the operations.\<close>

definition typed_res :: "('x, 'l) kernel option \<Rightarrow> bool" where
  "typed_res r \<longleftrightarrow> (\<forall>k. r = Some k \<longrightarrow> all_typed k)"

lemma typed_resI:
  "all_typed k \<Longrightarrow> typed_res (Some k)"
  "(b \<Longrightarrow> typed_res r) \<Longrightarrow> (\<not> b \<Longrightarrow> typed_res r') \<Longrightarrow> typed_res (if b then r else r')"
  "(\<And>x y. v = (x, y) \<Longrightarrow> typed_res (g x y)) \<Longrightarrow> typed_res (case v of (x, y) \<Rightarrow> g x y)"
  by (auto simp: typed_res_def split: prod.splits)

lemma typed_res_bind:
  "typed_res r \<Longrightarrow> (\<And>k. all_typed k \<Longrightarrow> typed_res (f k)) \<Longrightarrow> typed_res (Option.bind r f)"
  by (auto simp: typed_res_def bind_Some_iff)

lemma typed_res_bind_value:
  "(\<And>x. r = Some x \<Longrightarrow> typed_res (g x)) \<Longrightarrow> typed_res (Option.bind r g)"
  by (auto simp: typed_res_def bind_Some_iff)

lemma typed_res_keeps: "keeps_types f \<Longrightarrow> all_typed k \<Longrightarrow> typed_res (f k)"
  by (auto simp: typed_res_def keeps_types_def)

lemma typed_resD: "(\<And>k. all_typed k \<Longrightarrow> typed_res (f k)) \<Longrightarrow> keeps_types f"
  by (auto simp: typed_res_def keeps_types_def)

lemma typed_res_hook:
  assumes "env_typed env" and "vt_prio_changed (class_vt env sc) = Some f" and "all_typed k"
  shows "typed_res (f c p old k)"
  using class_hook_typed(7)[OF assms(1,2)] assms(3) by (auto simp: typed_res_def)

lemma set_static_typed:
  assumes "all_typed k" and "MIN_NICE \<le> nice" and "nice \<le> MAX_NICE"
  shows "all_typed (upd_task p (\<lambda>t. t\<lparr>t_static_prio := NICE_TO_PRIO nice\<rparr>) k)"
  using assms by (auto simp: all_typed_def prio_typed_def NICE_TO_PRIO_def prio_consts)

lemma set_prio_typed:
  assumes "all_typed k" and "effective_prio p k = (pr, k')"
  shows "all_typed (upd_task p (\<lambda>t. t\<lparr>t_prio := pr\<rparr>) k')"
  using effective_prio_typed[OF assms] by (auto simp: all_typed_def prio_typed_def)

lemma set_user_nice_typed:
  assumes "env_typed env"
  shows "keeps_types (set_user_nice env p nice)"
proof (rule typed_resD)
  fix k :: "('a, 'b) kernel" assume t: "all_typed k"
  note core = core_typed[OF assms, THEN typed_res_keeps] and load = set_load_weight_typed[THEN typed_res_keeps]
  show "typed_res (set_user_nice env p nice k)"
    unfolding set_user_nice_def Let_def cl_def
    by (intro typed_resI typed_res_bind core load set_static_typed set_prio_typed; (rule typed_res_bind_value)?;
      (erule typed_res_hook[OF assms])?; simp add: t)
qed

lemma effective_of_typed:
  assumes "all_typed k" and "-1 \<le> pr" and "pr < MAX_RT_PRIO + NICE_WIDTH"
  shows "-1 \<le> rt_effective_prio_of k q pr" "rt_effective_prio_of k q pr < MAX_RT_PRIO + NICE_WIDTH"
    "-1 \<le> rt_effective_prio env k p pr" "rt_effective_prio env k p pr < MAX_RT_PRIO + NICE_WIDTH"
proof -
  have t: "-1 \<le> t_prio (tsk k x)" for x using assms(1) by (simp add: all_typed_def prio_typed_def)
  then show a: "-1 \<le> rt_effective_prio_of k q pr" "rt_effective_prio_of k q pr < MAX_RT_PRIO + NICE_WIDTH" for q
    using assms(2,3) by (auto simp: rt_effective_prio_of_def split: option.split)
  show "-1 \<le> rt_effective_prio env k p pr" "rt_effective_prio env k p pr < MAX_RT_PRIO + NICE_WIDTH"
    using a assms(2,3) by (simp_all add: rt_effective_prio_def)
qed

lemma boost_entity_typed:
  assumes "pi_boost_entity env p q pr old fl k = Some (fl', k')" and "all_typed k"
  shows "all_typed k'"
proof -
  have u: "all_typed (upd_task p (\<lambda>t. t\<lparr>t_dl_pi_se := x\<rparr>) h)" "all_typed (upd_task p (\<lambda>t. t\<lparr>t_rt_timeout := n\<rparr>) h)"
    if "all_typed h" for x n and h :: "('a, 'b) kernel" using that by (auto simp: all_typed_def)
  with assms show ?thesis
    by (auto simp: pi_boost_entity_def bind_Some_iff Let_def split: if_splits)
qed

lemma rt_mutex_setprio_typed:
  assumes "env_typed env"
  shows "keeps_types (rt_mutex_setprio env p q)"
proof (rule typed_resD)
  fix k :: "('a, 'b) kernel" assume t: "all_typed k"
  let ?pr = "rt_effective_prio_of k q (t_normal_prio (tsk k p))"
  note core = core_typed[OF assms, THEN typed_res_keeps]
  have n: "-1 \<le> t_normal_prio (tsk k p)" "t_normal_prio (tsk k p) < MAX_RT_PRIO + NICE_WIDTH"
    using t by (simp_all add: all_typed_def prio_typed_def)
  note r = effective_of_typed(1,2)[OF t n, of q]
  have pc: "typed_res (pi_change_prio env c p q ?pr h)" if "all_typed h" for c and h :: "('a, 'b) kernel"
    unfolding pi_change_prio_def Let_def
    by (intro typed_resI typed_res_bind core that setscheduler_prio_typed r;
      (rule typed_res_bind_value)?; (intro typed_resI typed_res_bind core setscheduler_prio_typed r)?;
      auto simp: that dest: boost_entity_typed)
  have top: "all_typed (upd_task p (\<lambda>t. t\<lparr>t_pi_top_task := q\<rparr>) h)" if "all_typed h" for h :: "('a, 'b) kernel"
    using that by (simp add: all_typed_def)
  show "typed_res (rt_mutex_setprio env p q k)"
    unfolding rt_mutex_setprio_def Let_def
    by (intro typed_resI typed_res_bind callbacks_typed(3)[OF assms, THEN typed_res_keeps] pc)
      (simp_all add: t top)
qed

text \<open>A request with a nice value and a real-time priority in their ranges.\<close>

definition attr_typed :: "sched_attr \<Rightarrow> bool" where
  "attr_typed a \<longleftrightarrow> MIN_NICE \<le> sint (sa_nice a) \<and> sint (sa_nice a) \<le> MAX_NICE \<and> sa_priority a \<le> 99"

lemma setscheduler_params_typed:
  assumes "attr_typed attr"
  shows "keeps_types (setscheduler_params env p attr)"
proof (rule typed_resD)
  fix k :: "('a, 'b) kernel" assume t: "all_typed k"
  have nice: "prio_typed (h\<lparr>t_static_prio := NICE_TO_PRIO (sint (sa_nice attr))\<rparr>)"
    "prio_typed (h\<lparr>t_rt_priority := sa_priority attr\<rparr>)" if "prio_typed h" for h
    using assms that by (auto simp: attr_typed_def prio_typed_def NICE_TO_PRIO_def prio_consts)
  have norm: "prio_typed (h\<lparr>t_normal_prio := normal_prio h\<rparr>)" if "prio_typed h" for h
    using typed_normal_prio[OF that] that by (simp add: prio_typed_def)
  show "typed_res (setscheduler_params env p attr k)"
    unfolding setscheduler_params_def Let_def
    by (rule typed_res_keeps[OF set_load_weight_typed])
      (use t in \<open>auto simp: all_typed_def nice norm split: prod.split\<close>)
qed

lemma setscheduler_change_typed:
  assumes "env_typed env" and "attr_typed attr"
  shows "keeps_types (setscheduler_change env c p attr pi policy reset)"
proof (rule typed_resD)
  fix k :: "('a, 'b) kernel" assume t: "all_typed k"
  let ?k = "upd_task p (\<lambda>t. t\<lparr>t_reset_on_fork := reset\<rparr>) k"
  have tk: "all_typed ?k" using t by (simp add: all_typed_def)
  let ?n = "normal_prio_of policy (sa_priority attr) (sint (sa_nice attr))"
  have n: "-1 \<le> ?n" "?n < MAX_RT_PRIO + NICE_WIDTH"
    using normal_prio_range assms(2) by (simp_all add: attr_typed_def)
  let ?new = "if pi then rt_effective_prio env ?k p ?n else ?n"
  have r: "-1 \<le> ?new" "?new < MAX_RT_PRIO + NICE_WIDTH"
    by (simp_all add: n effective_of_typed(3,4)[OF tk n])
  note core = core_typed[OF assms(1), THEN typed_res_keeps] callbacks_typed(2)[OF assms(1), THEN typed_res_keeps]
    setscheduler_params_typed[OF assms(2), THEN typed_res_keeps]
  have adj: "typed_res (e_rt_mutex_adjust_pi env p h)" if "all_typed h" for h
    using assms(1) that by (auto simp: env_typed_def typed_res_keeps)
  show "typed_res (setscheduler_change env c p attr pi policy reset k)"
    unfolding setscheduler_change_def Let_def
    by (intro typed_resI typed_res_bind core adj setscheduler_prio_typed r)
      (auto simp: tk dest: callbacks_typed(4)[OF assms(1)])
qed

lemma setscheduler_check_typed:
  assumes "setscheduler_check env p attr user policy k = (r, k')"
  shows "all_typed k' = all_typed k" "r = Inr v \<Longrightarrow> sa_priority attr \<le> 99"
proof -
  have u: "k_tasks h' = k_tasks h" if "uclamp_validate env p attr h = (n, h')" for n and h h' :: "('a, 'b) kernel"
    using uclamp_validate_tasks[of env p attr h] that by simp
  have "k_tasks k' = k_tasks k"
    using assms by (simp add: setscheduler_check_def Let_def split: sum.splits if_splits prod.splits; auto dest: u)
  then show "all_typed k' = all_typed k" by (rule all_typed_tasks)
  show "r = Inr v \<Longrightarrow> sa_priority attr \<le> 99"
    using assms by (simp add: setscheduler_check_def Let_def setscheduler_attr_ok_def not_less
      split: sum.splits if_splits prod.splits)
qed

lemma setscheduler_locked_typed:
  assumes "env_typed env" and "attr_typed attr" and "all_typed k"
    and "setscheduler_locked env p attr user pi reset policy oldpolicy k = Some r"
  shows "case r of Return_with e k' \<Rightarrow> all_typed k' | Recheck k' \<Rightarrow> all_typed k'"
proof -
  have u: "all_typed (upd_task p (\<lambda>t. t\<lparr>t_reset_on_fork := reset\<rparr>) h)" if "all_typed h" for h :: "('a, 'b) kernel"
    using that by (simp add: all_typed_def)
  note c = setscheduler_change_typed[OF assms(1,2), THEN keeps_typesD]
  let ?k = "update_rq_clock env (task_cpu k p) k"
  let ?over = "if dl_policy policy \<or> dl_task (tsk ?k p)
    then case e_sched_dl_overflow env p policy attr ?k of (b, x) \<Rightarrow> (b, ?k\<lparr>k_ext := x\<rparr>) else (False, ?k)"
  obtain busy h where o: "?over = (busy, h)" by fastforce
  then have h: "all_typed h" using assms(3) by (auto split: if_splits prod.splits)
  have res: "case r of Return_with e k' \<Rightarrow> all_typed k' | Recheck k' \<Rightarrow> all_typed k'"
    if "(if busy then Some (Return_with (- EBUSY) h) else map_option (Return_with 0)
      (setscheduler_change env (task_cpu k p) p attr pi policy reset h)) = Some r"
    using that h c by (auto split: if_splits)
  show ?thesis
    using assms(3,4) res unfolding setscheduler_locked_def Let_def o prod.case
    by (auto simp: u split: if_splits)
qed

lemma bind_SomeE:
  assumes "Option.bind r f = Some y" and "\<And>x. r = Some x \<Longrightarrow> f x = Some y \<Longrightarrow> thesis"
  shows thesis
  using assms by (cases r) simp_all

lemma setscheduler_loop_typed:
  assumes "env_typed env" and "MIN_NICE \<le> sint (sa_nice attr)" and "sint (sa_nice attr) \<le> MAX_NICE"
    and "\<forall>f\<in>set others. \<forall>k. all_typed k \<longrightarrow> all_typed (f k)"
  shows "setscheduler_loop env p attr user pi policy others k = Some (e, k') \<Longrightarrow> all_typed k \<Longrightarrow> all_typed k'"
  using assms(4)
proof (induction others arbitrary: policy k)
  case Nil
  obtain r h where c: "setscheduler_check env p attr user policy k = (r, h)" by fastforce
  note ck = setscheduler_check_typed[OF c]
  note e = Nil.prems(1)[unfolded setscheduler_loop.simps[of env p attr user pi policy "[]"] c prod.case list.case]
  show ?case
  proof (cases r)
    case (Inl a)
    with e Nil.prems(2) ck(1) show ?thesis by simp
  next
    case (Inr v)
    with ck assms(2,3) have a: "attr_typed attr" by (simp add: attr_typed_def)
    note l = setscheduler_locked_typed[OF assms(1) a, rotated]
    obtain ro po op where v: "v = (ro, po, op)" by (cases v)
    from e[unfolded Inr v sum.case prod.case] obtain s where
      s: "setscheduler_locked env p attr user pi ro po op h = Some s"
        "(case s of Return_with e k \<Rightarrow> Some (e, k) | Recheck k \<Rightarrow> None) = Some (e, k')"
      by (rule bind_SomeE)
    from l[OF s(1)] Nil.prems(2) ck(1) s(2) show ?thesis by (cases s) auto
  qed
next
  case (Cons f fs)
  obtain r h where c: "setscheduler_check env p attr user policy k = (r, h)" by fastforce
  note ck = setscheduler_check_typed[OF c]
  note e = Cons.prems(1)[unfolded setscheduler_loop.simps[of env p attr user pi policy "f # fs"] c prod.case list.case]
  show ?case
  proof (cases r)
    case (Inl a)
    with e Cons.prems(2) ck(1) show ?thesis by simp
  next
    case (Inr v)
    with ck assms(2,3) have a: "attr_typed attr" by (simp add: attr_typed_def)
    note l = setscheduler_locked_typed[OF assms(1) a, rotated]
    have "all_typed (f h)" using Cons.prems(2,3) ck(1) by simp
    moreover have "\<forall>f\<in>set fs. \<forall>k. all_typed k \<longrightarrow> all_typed (f k)" using Cons.prems(3) by simp
    moreover obtain ro po op where v: "v = (ro, po, op)" by (cases v)
    from e[unfolded Inr v sum.case prod.case] obtain s where
      s: "setscheduler_locked env p attr user pi ro po op (f h) = Some s"
        "(case s of Return_with e k \<Rightarrow> Some (e, k)
          | Recheck k \<Rightarrow> setscheduler_loop env p attr user pi (-1) fs k) = Some (e, k')"
      by (rule bind_SomeE)
    ultimately show ?thesis using l[OF s(1)] s(2) Cons.IH
      by (cases s) (auto simp del: setscheduler_loop.simps)
  qed
qed

lemma sched_fork_typed:
  assumes "sched_fork env fl p k = Some (e, k')" and "all_typed k"
  shows "all_typed k'"
proof -
  have i: "all_typed (sched_fork_init env fl p h)" if "all_typed h" for h
    using that by (auto simp: sched_fork_init_def Let_def all_typed_def prio_typed_def split: prod.splits)
  have se: "all_typed (fold (\<lambda>i. upd_se p i g) is h) = all_typed h"
    "all_typed (fold (\<lambda>i. upd_req p i (f i)) is h) = all_typed h" for g f "is" and h :: "('a, 'b) kernel"
    by (induction "is" arbitrary: h) (auto simp: all_typed_def upd_se_def upd_req_def)
  have u: "all_typed (uclamp_fork env p h) = all_typed h" for h
    by (simp add: uclamp_fork_def Let_def se)
  have rof: "all_typed (upd_task p (\<lambda>t. t\<lparr>t_reset_on_fork := False\<rparr>) h)" if "all_typed h"
    for h :: "('a, 'b) kernel"
    using that by (simp add: all_typed_def)
  have r: "typed_res (sched_reset_fork env p h)" if "all_typed h" for h
  proof -
    let ?h = "if task_has_dl_policy (tsk h p) \<or> task_has_rt_policy (tsk h p)
      then upd_task p (\<lambda>t. t\<lparr>t_policy := SCHED_NORMAL, t_static_prio := NICE_TO_PRIO 0, t_rt_priority := 0\<rparr>) h
      else if PRIO_TO_NICE (t_static_prio (tsk h p)) < 0
      then upd_task p (\<lambda>t. t\<lparr>t_static_prio := NICE_TO_PRIO 0\<rparr>) h else h"
    have "all_typed ?h" using that
      by (auto simp: all_typed_def prio_typed_def NICE_TO_PRIO_def prio_consts)
    moreover have "prio_typed (t\<lparr>t_normal_prio := t_static_prio t, t_prio := t_static_prio t\<rparr>)"
      if "prio_typed t" for t using that by (simp add: prio_typed_def prio_consts)
    ultimately have "all_typed (upd_task p (\<lambda>t. t\<lparr>t_normal_prio := t_static_prio t, t_prio := t_static_prio t\<rparr>) ?h)"
      by (intro all_typed_upd) (auto simp: all_typed_def)
    then show ?thesis unfolding sched_reset_fork_def Let_def
      by (intro typed_resI typed_res_bind set_load_weight_typed[THEN typed_res_keeps])
        (simp_all add: that rof)
  qed
  let ?k1 = "sched_fork_init env fl p k"
  let ?k2 = "upd_task p (\<lambda>t. t\<lparr>t_state := TASK_NEW, t_prio := t_normal_prio (tsk ?k1 (current_task ?k1))\<rparr>) ?k1"
  have k1: "all_typed ?k1" using i assms(2) by simp
  then have "all_typed ?k2" by (auto simp: all_typed_def prio_typed_def)
  then have "all_typed (uclamp_fork env p ?k2)" by (simp add: u)
  then have t: "all_typed h" if "sched_reset_fork env p (uclamp_fork env p ?k2) = Some h" for h
    using r that by (auto simp: typed_res_def)
  have c: "all_typed (upd_task p (\<lambda>t. t\<lparr>t_class := sc\<rparr>) h)" "all_typed (upd_task p (\<lambda>t. t\<lparr>t_on_cpu := False\<rparr>) h)"
    if "all_typed h" for sc h using that by (simp_all add: all_typed_def)
  from assms(1) show ?thesis
    by (auto simp: sched_fork_def Let_def bind_Some_iff c dest!: t split: option.splits if_splits)
qed

section \<open>Type preservation\<close>

definition same_prios :: "task \<Rightarrow> task \<Rightarrow> bool" where
  "same_prios t u \<longleftrightarrow> t_static_prio t = t_static_prio u \<and> t_normal_prio t = t_normal_prio u \<and>
     t_prio t = t_prio u \<and> t_rt_priority t = t_rt_priority u"

text \<open>What other CPUs do between two looks of \<open>__sched_setscheduler\<close>.\<close>

definition others_typed :: "('x, 'l) others \<Rightarrow> bool" where
  "others_typed others \<longleftrightarrow> (\<forall>f\<in>set others. \<forall>h p. \<exists>q. same_prios (tsk (f h) p) (tsk h q))"

text \<open>The operations that write priorities, in any order. The system calls take any arguments; the
  in-kernel functions that are given a nice value do not check it, and are called with one in range.
  Every other step, the copy of a task by \<open>fork\<close> included, leaves each task with the priorities some task
  has.\<close>

inductive prio_reach ::
    "('x, 'l, 'm) fork_env_scheme \<Rightarrow> ('x, 'l) kernel \<Rightarrow> ('x, 'l) kernel \<Rightarrow> bool" for env k0 where
  start: "prio_reach env k0 k0"
| nice: "prio_reach env k0 k \<Longrightarrow> set_user_nice env p nice k = Some k' \<Longrightarrow> prio_reach env k0 k'"
| boost: "prio_reach env k0 k \<Longrightarrow> rt_mutex_setprio env p donor k = Some k' \<Longrightarrow> prio_reach env k0 k'"
| call_setscheduler: "prio_reach env k0 k \<Longrightarrow> others_typed others \<Longrightarrow>
    sys_sched_setscheduler env others pid policy param k = Some (e, k') \<Longrightarrow> prio_reach env k0 k'"
| call_setparam: "prio_reach env k0 k \<Longrightarrow> others_typed others \<Longrightarrow>
    sys_sched_setparam env others pid param k = Some (e, k') \<Longrightarrow> prio_reach env k0 k'"
| call_setattr: "prio_reach env k0 k \<Longrightarrow> others_typed others \<Longrightarrow>
    sys_sched_setattr env others pid uattr flags k = Some (e, k') \<Longrightarrow> prio_reach env k0 k'"
| policy: "prio_reach env k0 k \<Longrightarrow> others_typed others \<Longrightarrow>
    sched_setscheduler_param env others p policy priority check k = Some (e, k') \<Longrightarrow> prio_reach env k0 k'"
| fifo: "prio_reach env k0 k \<Longrightarrow> others_typed others \<Longrightarrow>
    sched_set_fifo env others p k = Some k' \<Longrightarrow> prio_reach env k0 k'"
| fifo_low: "prio_reach env k0 k \<Longrightarrow> others_typed others \<Longrightarrow>
    sched_set_fifo_low env others p k = Some k' \<Longrightarrow> prio_reach env k0 k'"
| normal: "prio_reach env k0 k \<Longrightarrow> others_typed others \<Longrightarrow> MIN_NICE \<le> nice \<Longrightarrow> nice \<le> MAX_NICE \<Longrightarrow>
    sched_set_normal env others p nice k = Some k' \<Longrightarrow> prio_reach env k0 k'"
| attr: "prio_reach env k0 k \<Longrightarrow> others_typed others \<Longrightarrow>
    MIN_NICE \<le> sint (sa_nice attr) \<Longrightarrow> sint (sa_nice attr) \<le> MAX_NICE \<Longrightarrow>
    sched_setscheduler_locking env others p attr user pi k = Some (e, k') \<Longrightarrow> prio_reach env k0 k'"
| fork: "prio_reach env k0 k \<Longrightarrow> sched_fork env fl p k = Some (e, k') \<Longrightarrow> prio_reach env k0 k'"
| other: "prio_reach env k0 k \<Longrightarrow> (\<And>p. \<exists>q. same_prios (tsk k' p) (tsk k q)) \<Longrightarrow> prio_reach env k0 k'"

lemma same_prios_typed:
  assumes "all_typed k" and "\<And>p. \<exists>q. same_prios (tsk k' p) (tsk k q)"
  shows "all_typed k'"
proof -
  have "prio_typed (tsk k' p)" for p
  proof -
    obtain q where "same_prios (tsk k' p) (tsk k q)" using assms(2) by blast
    moreover have "prio_typed (tsk k q)" using assms(1) by (simp add: all_typed_def)
    ultimately show ?thesis by (simp add: prio_typed_def same_prios_def)
  qed
  then show ?thesis by (simp add: all_typed_def)
qed

text \<open>The callers of \<open>__sched_setscheduler\<close>: the nice value that reaches it is the task's own, or clamped.\<close>

lemma task_nice_word:
  assumes "prio_typed t"
  shows "MIN_NICE \<le> sint (word_of_int (task_nice t) :: u32)" "sint (word_of_int (task_nice t) :: u32) \<le> MAX_NICE"
  using assms sint_nice[of "task_nice t"]
  by (simp_all add: prio_typed_def task_nice_def PRIO_TO_NICE_def prio_consts)

lemma locking_typed:
  assumes "env_typed env" and "others_typed others" and "MIN_NICE \<le> sint (sa_nice attr)"
    and "sint (sa_nice attr) \<le> MAX_NICE"
  shows "sched_setscheduler_locking env others p attr user pi k = Some (e, k') \<Longrightarrow> all_typed k \<Longrightarrow> all_typed k'"
proof -
  have "\<forall>f\<in>set others. \<forall>h. all_typed h \<longrightarrow> all_typed (f h)"
    using assms(2) same_prios_typed unfolding others_typed_def by blast
  with assms show "sched_setscheduler_locking env others p attr user pi k = Some (e, k') \<Longrightarrow> all_typed k \<Longrightarrow> all_typed k'"
    by (auto simp: sched_setscheduler_locking_def simp del: setscheduler_loop.simps split: if_splits
      intro: setscheduler_loop_typed[OF assms(1)])
qed

lemma setscheduler_param_typed:
  assumes "env_typed env" and "others_typed others" and "all_typed k"
    and "sched_setscheduler_param env others p policy priority check k = Some (e, k')"
  shows "all_typed k'"
proof -
  have "prio_typed (tsk k p)" using assms(3) by (simp add: all_typed_def)
  note n = task_nice_word[OF this, unfolded task_nice_def]
  let ?a = "zero_attr\<lparr>sa_policy := word_of_int policy, sa_priority := word_of_int priority,
    sa_nice := word_of_int (PRIO_TO_NICE (t_static_prio (tsk k p)))\<rparr>"
  let ?b = "if policy \<noteq> SETPARAM_POLICY \<and> policy AND 0x40000000 \<noteq> 0
    then ?a\<lparr>sa_flags := sa_flags ?a OR SCHED_FLAG_RESET_ON_FORK, sa_policy := word_of_int (policy AND NOT 0x40000000)\<rparr>
    else ?a"
  have r: "sched_setscheduler_locking env others p ?b check True k = Some (e, k')"
    using assms(4) unfolding sched_setscheduler_param_def Let_def .
  have "sa_nice ?b = word_of_int (PRIO_TO_NICE (t_static_prio (tsk k p)))" by simp
  with n have "MIN_NICE \<le> sint (sa_nice ?b)" "sint (sa_nice ?b) \<le> MAX_NICE" by simp_all
  from locking_typed[OF assms(1,2) this r assms(3)] show ?thesis .
qed

lemma do_setscheduler_typed:
  assumes "env_typed env" and "others_typed others" and "all_typed k"
    and "do_sched_setscheduler env others pid policy param k = Some (e, k')"
  shows "all_typed k'"
  using assms(3,4) setscheduler_param_typed[OF assms(1-3)]
  by (auto simp: do_sched_setscheduler_def sched_setscheduler_def split: option.splits if_splits)

lemma copy_attr_nice:
  assumes "sched_copy_attr u = Inr attr"
  shows "MIN_NICE \<le> sint (sa_nice attr) \<and> sint (sa_nice attr) \<le> MAX_NICE"
proof -
  have "MIN_NICE \<le> clamp_val n MIN_NICE MAX_NICE" "clamp_val n MIN_NICE MAX_NICE \<le> MAX_NICE" for n
    by (simp_all add: clamp_val_def prio_consts)
  with assms show ?thesis
    by (auto simp: sched_copy_attr_def Let_def sint_nice split: option.splits if_splits prod.splits)
qed

lemma get_params_nice:
  assumes "env_typed env" and "all_typed k" and "MIN_NICE \<le> sint (sa_nice a)" and "sint (sa_nice a) \<le> MAX_NICE"
  shows "MIN_NICE \<le> sint (sa_nice (get_params env k p a)) \<and> sint (sa_nice (get_params env k p a)) \<le> MAX_NICE"
proof -
  have "prio_typed (tsk k p)" using assms(2) by (simp add: all_typed_def)
  from task_nice_word[OF this] assms(1,3,4) show ?thesis by (simp add: get_params_def env_typed_def)
qed

lemma setattr_call_typed:
  assumes "env_typed env" and "others_typed others" and "all_typed k"
    and "sys_sched_setattr env others pid uattr flags k = Some (e, k')"
  shows "all_typed k'"
proof (cases "k' = k")
  case True
  with assms(3) show ?thesis by simp
next
  case False
  with assms(4) obtain u a p where u: "sched_copy_attr u = Inr a" and
    r: "let attr = (if has_flag (sa_flags a) SCHED_FLAG_KEEP_POLICY
            then a\<lparr>sa_policy := word_of_int SETPARAM_POLICY\<rparr> else a);
          attr = (if has_flag (sa_flags attr) SCHED_FLAG_KEEP_PARAMS then get_params env k p attr else attr)
        in sched_setattr env others p attr k = Some (e, k')"
    by (auto simp: sys_sched_setattr_def Let_def split: option.splits if_splits sum.splits)
  define b where "b = (if has_flag (sa_flags a) SCHED_FLAG_KEEP_POLICY
            then a\<lparr>sa_policy := word_of_int SETPARAM_POLICY\<rparr> else a)"
  define d where "d = (if has_flag (sa_flags b) SCHED_FLAG_KEEP_PARAMS then get_params env k p b else b)"
  have "sa_nice b = sa_nice a" by (simp add: b_def)
  with copy_attr_nice[OF u] get_params_nice[OF assms(1,3), of b p]
  have n: "MIN_NICE \<le> sint (sa_nice d)" "sint (sa_nice d) \<le> MAX_NICE" by (simp_all add: d_def)
  have "sched_setscheduler_locking env others p d True True k = Some (e, k')"
    using r unfolding Let_def b_def d_def sched_setattr_def .
  with locking_typed[OF assms(1,2) n] assms(3) show ?thesis by blast
qed

text \<open>C12: The priority fields are well typed: from any state where every task has them in their ranges
  (static priority 100 to 139, normal and effective priority -1 to 139, real-time priority at most 99),
  whatever sequence of nice changes, priority boosts, scheduler changes and forks runs, whether they
  succeed or are refused, they are in range again; so the tables of load weights are never indexed
  out of bounds, for any task. The scheduler changes are the system calls, with any arguments, and the
  in-kernel functions; those of the latter that are given a nice value (\<open>sched_set_normal\<close>,
  \<open>sched_setattr\<close>, \<open>sched_setattr_nocheck\<close>) do not check it, and their callers must keep to -20 to
  19.\<close>

theorem priorities_typed:
  assumes "prio_reach env k0 k" and "all_typed k0" and "env_typed env"
  shows "all_typed k \<and> set_load_weight env p b k \<noteq> None"
proof -
  note param = setscheduler_param_typed[OF assms(3)]
  from assms(1) have t: "all_typed k"
  proof induction
    case start
    show ?case by (rule assms(2))
  next
    case nice
    with set_user_nice_typed[OF assms(3), THEN keeps_typesD] show ?case by blast
  next
    case boost
    with rt_mutex_setprio_typed[OF assms(3), THEN keeps_typesD] show ?case by blast
  next
    case call_setscheduler
    with do_setscheduler_typed[OF assms(3)] show ?case
      by (auto simp: sys_sched_setscheduler_def split: if_splits)
  next
    case call_setparam
    with do_setscheduler_typed[OF assms(3)] show ?case by (auto simp: sys_sched_setparam_def)
  next
    case call_setattr
    with setattr_call_typed[OF assms(3)] show ?case by blast
  next
    case policy
    with param show ?case by blast
  next
    case fifo
    with param show ?case by (auto simp: sched_set_fifo_def sched_setscheduler_nocheck_def bind_eq_Some_conv)
  next
    case fifo_low
    with param show ?case by (auto simp: sched_set_fifo_low_def sched_setscheduler_nocheck_def bind_eq_Some_conv)
  next
    case (normal k others nice p k')
    let ?a = "zero_attr\<lparr>sa_policy := word_of_int SCHED_LOTTERY, sa_nice := word_of_int nice\<rparr>"
    have "MIN_NICE \<le> sint (sa_nice ?a)" "sint (sa_nice ?a) \<le> MAX_NICE" using normal by (simp_all add: sint_nice)
    from locking_typed[OF assms(3) normal.hyps(2) this] normal show ?case
      by (auto simp: sched_set_normal_def sched_setattr_nocheck_def bind_eq_Some_conv)
  next
    case attr
    with locking_typed[OF assms(3)] show ?case by blast
  next
    case fork
    then show ?case by (blast intro: sched_fork_typed)
  next
    case other
    then show ?case using same_prios_typed by blast
  qed
  then have "prio_typed (tsk k p)" by (simp add: all_typed_def)
  then have "100 \<le> t_static_prio (tsk k p)" "t_static_prio (tsk k p) < 140"
    by (simp_all add: prio_typed_def prio_consts)
  from set_load_weight_in_range[OF this, of env b] t show ?thesis by auto
qed

text \<open>A real-time task of the concrete machine is niced.\<close>

lemma machine_typed: "env_typed fork0" "all_typed kernel0"
  by (auto simp: env_typed_def hooks_typed_def keeps_types_def fork_machine_defs idle_vtable_def
    empty_vtable_def null_vtable_def all_typed_def prio_typed_def kernel0_def task0_def prio_consts)

theorem priorities_typed_witness:
  "\<exists>k. set_user_nice fork0 1 5 (upd_task 1 (\<lambda>t. t\<lparr>t_policy := SCHED_FIFO\<rparr>) kernel0) = Some k \<and>
     all_typed k \<and> set_load_weight fork0 1 True k \<noteq> None"
proof -
  let ?k0 = "upd_task 1 (\<lambda>t. t\<lparr>t_policy := SCHED_FIFO\<rparr>) kernel0"
  have t: "all_typed ?k0" using machine_typed(2) by (simp add: all_typed_def)
  obtain k where k: "set_user_nice fork0 1 5 ?k0 = Some k"
    by (simp add: set_user_nice_def task_has_rt_policy_def policy_pred_defs Let_def task_nice_def
      PRIO_TO_NICE_def prio_consts kernel0_def task0_def)
  have "prio_reach fork0 ?k0 k"
    by (rule prio_reach.nice[OF prio_reach.start k])
  from priorities_typed[OF this t machine_typed(1)] k show ?thesis by blast
qed

end
