(* ===== verification/Rq_Locks.thy ===== *)
theory Rq_Locks
  imports Sched_State
begin

text \<open>
  The locks of the runqueues (\<open>core.c\<close>, lines 241 to 313 and 468 to 563; \<open>sched.h\<close>, lines 1194 to
  1209 and 2537 to 2561), as an interleaving of the small steps of any number of threads and of the one
  that switches core scheduling on or off. Which spinlock guards a runqueue depends on the switch, so a
  lock is read, taken and read again.

  The state has the static key, \<open>core_enabled\<close> of each runqueue, the owner of each \<open>rq->__lock\<close>, where
  each thread is in the lock functions, the phase of the switch, and of each task the CPU and whether
  it is being migrated. The lists \<open>ls_cs\<close> and \<open>ls_tl\<close> record what the code relies on: the runqueues a
  thread has locked and not unlocked, and the tasks whose runqueue it has locked by \<open>__task_rq_lock\<close>.

  \<open>rq->core\<close> is the fixed map \<open>core\<close>, and the siblings of a CPU are those with the same core. The CPUs
  are all online. A spin on a lock is a step that is not possible while the lock has an owner.
\<close>

section \<open>State\<close>

datatype agent = Thread nat | Flipper

text \<open>What a thread does with a lock it gets: nothing more, lock a second runqueue
  (\<open>double_rq_lock\<close>), or test that the task is still there (\<open>__task_rq_lock\<close>).\<close>

datatype goal = Single | Second cpu | On_task tid

datatype pc =
    Run
  | Enter cpu goal \<comment> \<open>reads the static key\<close>
  | Plain cpu goal \<comment> \<open>it was off: spins on \<open>rq->__lock\<close>\<close>
  | Read cpu goal \<comment> \<open>reads \<open>__rq_lockp(rq)\<close>\<close>
  | Spin cpu cpu goal \<comment> \<open>spins on the lock it read\<close>
  | Check cpu cpu goal \<comment> \<open>has it and reads again\<close>
  | Got cpu goal \<comment> \<open>returns from \<open>raw_spin_rq_lock\<close>\<close>
  | Wait tid \<comment> \<open>waits for the end of a migration\<close>

text \<open>The switch: off, waiting for the grace period, on, and the cores still to go with the state of the
  one it is at: locks taken and to take, siblings to write, locks to drop.\<close>

datatype core_flip = Locking "cpu list" "cpu list" | Writing "cpu list" "cpu list" | Unlocking "cpu list"

datatype phase = Off | Grace | On | Flipping bool "cpu list" cpu core_flip | Between bool "cpu list"

record lsys =
  ls_key :: bool
  ls_enabled :: "cpu \<Rightarrow> bool"
  ls_owner :: "cpu \<Rightarrow> agent option"
  ls_pc :: "nat \<Rightarrow> pc"
  ls_phase :: phase
  ls_task_cpu :: "tid \<Rightarrow> cpu"
  ls_mover :: "tid \<Rightarrow> nat option"
  ls_cs :: "nat \<Rightarrow> cpu list"
  ls_tl :: "nat \<Rightarrow> tid list"

section \<open>The lock of a runqueue\<close>

(* sched.h 1202-1208: __rq_lockp#1 *)
definition rq_lockp_raw :: "(cpu \<Rightarrow> cpu) \<Rightarrow> lsys \<Rightarrow> cpu \<Rightarrow> cpu" where
  "rq_lockp_raw core s r = (if ls_enabled s r then core r else r)"

(* sched.h 1194-1200: rq_lockp#1 *)
definition rq_lockp :: "(cpu \<Rightarrow> cpu) \<Rightarrow> lsys \<Rightarrow> cpu \<Rightarrow> cpu" where
  "rq_lockp core s r = (if ls_key s \<and> ls_enabled s r then core r else r)"

(* sched.h 2537-2561: rq_order_less *)
definition rq_order_less :: "(cpu \<Rightarrow> cpu) \<Rightarrow> cpu \<Rightarrow> cpu \<Rightarrow> bool" where
  "rq_order_less core a b =
     (if core a < core b then True else if core a > core b then False else a < b)"

definition siblings :: "nat \<Rightarrow> (cpu \<Rightarrow> cpu) \<Rightarrow> cpu \<Rightarrow> cpu list" where
  "siblings n core c = filter (\<lambda>d. core d = core c) [0 ..< n]"

section \<open>The steps of a thread\<close>

abbreviation set_pc :: "nat \<Rightarrow> pc \<Rightarrow> lsys \<Rightarrow> lsys" where
  "set_pc t p s \<equiv> s\<lparr>ls_pc := (ls_pc s)(t := p)\<rparr>"

definition take_lock :: "agent \<Rightarrow> cpu \<Rightarrow> lsys \<Rightarrow> lsys option" where
  "take_lock a l s = (if ls_owner s l = None then Some (s\<lparr>ls_owner := (ls_owner s)(l := Some a)\<rparr>) else None)"

definition drop_lock :: "cpu \<Rightarrow> lsys \<Rightarrow> lsys" where
  "drop_lock l s = s\<lparr>ls_owner := (ls_owner s)(l := None)\<rparr>"

definition enter_cs :: "nat \<Rightarrow> cpu \<Rightarrow> lsys \<Rightarrow> lsys" where
  "enter_cs t r s = s\<lparr>ls_cs := (ls_cs s)(t := r # ls_cs s t)\<rparr>"

text \<open>The lock of \<open>r\<close> goes, and with it every runqueue of the thread under the same lock and the tasks
  on them.\<close>

(* core.c 517-520: raw_spin_rq_unlock *)
definition rq_unlock :: "(cpu \<Rightarrow> cpu) \<Rightarrow> nat \<Rightarrow> cpu \<Rightarrow> lsys \<Rightarrow> lsys" where
  "rq_unlock core t r s =
     (let l = rq_lockp core s r;
          cs = filter (\<lambda>d. rq_lockp core s d \<noteq> l) (ls_cs s t)
      in (drop_lock l s)\<lparr>ls_cs := (ls_cs s)(t := cs),
           ls_tl := (ls_tl s)(t := filter (\<lambda>p. ls_task_cpu s p \<in> set cs) (ls_tl s t))\<rparr>)"

text \<open>With the lock of the runqueue a task was on: either it is still there, or the thread drops the lock
  and waits for the end of a migration.\<close>

(* core.c 544-563: __task_rq_lock *)
definition task_rq_lock_got :: "(cpu \<Rightarrow> cpu) \<Rightarrow> nat \<Rightarrow> cpu \<Rightarrow> tid \<Rightarrow> lsys \<Rightarrow> lsys" where
  [simp]: "task_rq_lock_got core t r p s =
     (if r = ls_task_cpu s p \<and> ls_mover s p = None
      then set_pc t Run (s\<lparr>ls_tl := (ls_tl s)(t := p # ls_tl s t)\<rparr>)
      else set_pc t (Wait p) (rq_unlock core t r s))"

text \<open>One step of a thread inside a lock function.\<close>

(* core.c 468-491: raw_spin_rq_lock_nested *)
fun lock_step :: "(cpu \<Rightarrow> cpu) \<Rightarrow> nat \<Rightarrow> lsys \<Rightarrow> lsys option" where
  "lock_step core t s =
     (case ls_pc s t of
        Run \<Rightarrow> None
      | Enter r g \<Rightarrow> Some (set_pc t (if \<not> ls_key s then Plain r g else Read r g) s)
      | Plain r g \<Rightarrow> map_option (\<lambda>s. set_pc t (Got r g) (enter_cs t r s)) (take_lock (Thread t) r s)
      | Read r g \<Rightarrow> Some (set_pc t (Spin r (rq_lockp_raw core s r) g) s)
      | Spin r l g \<Rightarrow> map_option (set_pc t (Check r l g)) (take_lock (Thread t) l s)
      | Check r l g \<Rightarrow>
          Some (if l = rq_lockp_raw core s r then set_pc t (Got r g) (enter_cs t r s)
                else set_pc t (Read r g) (drop_lock l s))
      | Got r Single \<Rightarrow> Some (set_pc t Run s)
      | Got r (Second q) \<Rightarrow>
          Some (if rq_lockp_raw core s r \<noteq> rq_lockp_raw core s q then set_pc t (Enter q Single) s
                else set_pc t Run (enter_cs t q s))
      | Got r (On_task p) \<Rightarrow> Some (task_rq_lock_got core t r p s)
      | Wait p \<Rightarrow>
          Some (if ls_mover s p \<noteq> None then s else set_pc t (Enter (ls_task_cpu s p) (On_task p)) s))"

text \<open>What a thread that runs may start: lock a runqueue, two, or the one of a task; unlock one; and the
  three steps of a migration. A lock is taken with none held, as the order of the locks wants.\<close>

datatype action =
    Lock cpu | Double_lock cpu cpu | Task_lock tid | Unlock cpu
  | Migrate_start tid | Migrate_cpu tid cpu | Migrate_end tid

(* core.c 526-538: double_rq_lock *)
definition double_rq_lock :: "(cpu \<Rightarrow> cpu) \<Rightarrow> nat \<Rightarrow> cpu \<Rightarrow> cpu \<Rightarrow> lsys \<Rightarrow> lsys" where
  "double_rq_lock core t a b s =
     (let (a, b) = (if rq_order_less core b a then (b, a) else (a, b))
      in set_pc t (Enter a (Second b)) s)"

fun run_action :: "nat \<Rightarrow> (cpu \<Rightarrow> cpu) \<Rightarrow> nat \<Rightarrow> action \<Rightarrow> lsys \<Rightarrow> lsys option" where
  "run_action n core t (Lock r) s =
     (if ls_cs s t = [] \<and> r < n then Some (set_pc t (Enter r Single) s) else None)"
| "run_action n core t (Double_lock a b) s =
     (if ls_cs s t = [] \<and> a < n \<and> b < n then Some (double_rq_lock core t a b s) else None)"
| "run_action n core t (Task_lock p) s =
     (if ls_cs s t = [] then Some (set_pc t (Enter (ls_task_cpu s p) (On_task p)) s) else None)"
| "run_action n core t (Unlock r) s = (if r \<in> set (ls_cs s t) then Some (rq_unlock core t r s) else None)"
| "run_action n core t (Migrate_start p) s =
     (if ls_task_cpu s p \<in> set (ls_cs s t) \<and> ls_mover s p = None
      then Some (s\<lparr>ls_mover := (ls_mover s)(p := Some t),
                   ls_tl := (ls_tl s)(t := removeAll p (ls_tl s t))\<rparr>)
      else None)"
| "run_action n core t (Migrate_cpu p d) s =
     (if ls_mover s p = Some t \<and> ls_task_cpu s p \<in> set (ls_cs s t) \<and> d < n
      then Some (s\<lparr>ls_task_cpu := (ls_task_cpu s)(p := d)\<rparr>) else None)"
| "run_action n core t (Migrate_end p) s =
     (if ls_mover s p = Some t \<and> ls_task_cpu s p \<in> set (ls_cs s t)
      then Some (s\<lparr>ls_mover := (ls_mover s)(p := None), ls_tl := (ls_tl s)(t := p # ls_tl s t)\<rparr>)
      else None)"

section \<open>The steps of the switch\<close>

text \<open>The leaders of the cores, in the order \<open>__sched_core_flip\<close> comes to their cores.\<close>

definition leaders :: "nat \<Rightarrow> (cpu \<Rightarrow> cpu) \<Rightarrow> cpu list" where
  "leaders n core = remdups (map core [0 ..< n])"

text \<open>\<open>sched_core_lock\<close>, the writes and \<open>sched_core_unlock\<close> for one core after the other; the grace period
  ends when no thread is left that saw the key off before it had the lock.\<close>

(* core.c 241-249: sched_core_lock *)
definition sched_core_lock_step :: "bool \<Rightarrow> cpu list \<Rightarrow> cpu \<Rightarrow> cpu list \<Rightarrow> cpu \<Rightarrow> cpu list \<Rightarrow> lsys \<Rightarrow> lsys option" where
  [simp]: "sched_core_lock_step b cs c held l ls s =
     map_option (\<lambda>s. s\<lparr>ls_phase := Flipping b cs c (Locking (held @ [l]) ls)\<rparr>) (take_lock Flipper l s)"

(* core.c 251-259: sched_core_unlock *)
definition sched_core_unlock_step :: "bool \<Rightarrow> cpu list \<Rightarrow> cpu \<Rightarrow> cpu \<Rightarrow> cpu list \<Rightarrow> lsys \<Rightarrow> lsys" where
  [simp]: "sched_core_unlock_step b cs c l ls s = (drop_lock l s)\<lparr>ls_phase := Flipping b cs c (Unlocking ls)\<rparr>"

(* core.c 261-295: __sched_core_flip *)
fun flip_step :: "nat \<Rightarrow> (cpu \<Rightarrow> cpu) \<Rightarrow> lsys \<Rightarrow> lsys option" where
  "flip_step n core s =
     (case ls_phase s of
        Off \<Rightarrow> Some (s\<lparr>ls_key := True, ls_phase := Grace\<rparr>)
      | Grace \<Rightarrow> None
      | On \<Rightarrow> Some (s\<lparr>ls_phase := Between False (leaders n core)\<rparr>)
      | Between b [] \<Rightarrow> Some (if b then s\<lparr>ls_phase := On\<rparr> else s\<lparr>ls_key := False, ls_phase := Off\<rparr>)
      | Between b (c # cs) \<Rightarrow> Some (s\<lparr>ls_phase := Flipping b cs c (Locking [] (siblings n core c))\<rparr>)
      | Flipping b cs c (Locking held []) \<Rightarrow>
          Some (s\<lparr>ls_phase := Flipping b cs c (Writing [] (siblings n core c))\<rparr>)
      | Flipping b cs c (Locking held (l # ls)) \<Rightarrow> sched_core_lock_step b cs c held l ls s
      | Flipping b cs c (Writing dn []) \<Rightarrow>
          Some (s\<lparr>ls_phase := Flipping b cs c (Unlocking (siblings n core c))\<rparr>)
      | Flipping b cs c (Writing dn (d # ds)) \<Rightarrow>
          Some (s\<lparr>ls_enabled := (ls_enabled s)(d := b), ls_phase := Flipping b cs c (Writing (dn @ [d]) ds)\<rparr>)
      | Flipping b cs c (Unlocking []) \<Rightarrow> Some (s\<lparr>ls_phase := Between b cs\<rparr>)
      | Flipping b cs c (Unlocking (l # ls)) \<Rightarrow> Some (sched_core_unlock_step b cs c l ls s))"

section \<open>The system\<close>

inductive lock_system :: "nat \<Rightarrow> (cpu \<Rightarrow> cpu) \<Rightarrow> lsys \<Rightarrow> lsys \<Rightarrow> bool" for n core where
  inside: "lock_step core t s = Some s' \<Longrightarrow> lock_system n core s s'"
| start: "ls_pc s t = Run \<Longrightarrow> run_action n core t a s = Some s' \<Longrightarrow> lock_system n core s s'"
| flip: "flip_step n core s = Some s' \<Longrightarrow> lock_system n core s s'"
| grace: "ls_phase s = Grace \<Longrightarrow> (\<And>t r g. ls_pc s t \<noteq> Plain r g) \<Longrightarrow>
    lock_system n core s (s\<lparr>ls_phase := Between True (leaders n core)\<rparr>)"

definition lock_init :: "nat \<Rightarrow> lsys \<Rightarrow> bool" where
  "lock_init n s \<longleftrightarrow> (\<forall>p. ls_task_cpu s p < n) \<and> \<not> ls_key s \<and> (\<forall>r. \<not> ls_enabled s r) \<and> (\<forall>l. ls_owner s l = None) \<and>
     (\<forall>t. ls_pc s t = Run) \<and> ls_phase s = Off \<and> (\<forall>p. ls_mover s p = None) \<and> (\<forall>t. ls_cs s t = []) \<and>
     (\<forall>t. ls_tl s t = [])"

abbreviation lock_reachable :: "nat \<Rightarrow> (cpu \<Rightarrow> cpu) \<Rightarrow> lsys \<Rightarrow> bool" where
  "lock_reachable n core s \<equiv> \<exists>s0. lock_init n s0 \<and> (lock_system n core)\<^sup>*\<^sup>* s0 s"

section \<open>The invariant\<close>

text \<open>The locks of the switch, and what it has written.\<close>

fun flip_held :: "nat \<Rightarrow> (cpu \<Rightarrow> cpu) \<Rightarrow> phase \<Rightarrow> cpu set" where
  "flip_held n core (Flipping b cs c (Locking held ls)) = set held"
| "flip_held n core (Flipping b cs c (Writing dn ds)) = set (siblings n core c)"
| "flip_held n core (Flipping b cs c (Unlocking ls)) = set ls"
| "flip_held n core ph = {}"

text \<open>The leaders whose cores may still be enabled while the switch turns them off.\<close>

fun phase_ok :: "nat \<Rightarrow> (cpu \<Rightarrow> cpu) \<Rightarrow> (cpu \<Rightarrow> bool) \<Rightarrow> phase \<Rightarrow> bool" where
  "phase_ok n core en Off = (\<forall>r. \<not> en r)"
| "phase_ok n core en Grace = (\<forall>r. \<not> en r)"
| "phase_ok n core en On = True"
| "phase_ok n core en (Between b cs) =
     (set cs \<subseteq> set (leaders n core) \<and> (\<not> b \<longrightarrow> (\<forall>r<n. en r \<longrightarrow> core r \<in> set cs)))"
| "phase_ok n core en (Flipping b cs c sub) =
     (insert c (set cs) \<subseteq> set (leaders n core) \<and>
      (case sub of
         Locking held ls \<Rightarrow> held @ ls = siblings n core c \<and>
           (\<not> b \<longrightarrow> (\<forall>r<n. en r \<longrightarrow> core r \<in> insert c (set cs)))
       | Writing dn ds \<Rightarrow> set (dn @ ds) = set (siblings n core c) \<and>
           (\<not> b \<longrightarrow> (\<forall>r<n. en r \<longrightarrow> core r \<in> set cs \<or> r \<in> set ds))
       | Unlocking ls \<Rightarrow> distinct ls \<and> set ls \<subseteq> set (siblings n core c) \<and>
           (\<not> b \<longrightarrow> (\<forall>r<n. en r \<longrightarrow> core r \<in> set cs))))"

definition lock_inv :: "nat \<Rightarrow> (cpu \<Rightarrow> cpu) \<Rightarrow> lsys \<Rightarrow> bool" where
  "lock_inv n core s \<longleftrightarrow>
     (\<forall>t r. r \<in> set (ls_cs s t) \<longrightarrow> ls_owner s (rq_lockp_raw core s r) = Some (Thread t)) \<and>
     (\<forall>t r l g. ls_pc s t = Check r l g \<longrightarrow> ls_owner s l = Some (Thread t) \<and>
        l \<notin> rq_lockp_raw core s ` set (ls_cs s t)) \<and>
     (\<forall>t r g. ls_pc s t = Got r g \<longrightarrow> r \<in> set (ls_cs s t)) \<and>
     (\<forall>t r g. ls_pc s t = Plain r g \<longrightarrow> ls_phase s = Off \<or> ls_phase s = Grace) \<and>
     (\<forall>l. ls_owner s l = Some Flipper \<longleftrightarrow> l \<in> flip_held n core (ls_phase s)) \<and>
     (ls_key s \<longleftrightarrow> ls_phase s \<noteq> Off) \<and> phase_ok n core (ls_enabled s) (ls_phase s) \<and>
     (\<forall>r\<ge>n. \<not> ls_enabled s r) \<and>
     (\<forall>t p. p \<in> set (ls_tl s t) \<longrightarrow> ls_task_cpu s p \<in> set (ls_cs s t) \<and> ls_mover s p = None)"

lemma lock_invD:
  assumes "lock_inv n core s"
  shows "r \<in> set (ls_cs s t) \<Longrightarrow> ls_owner s (rq_lockp_raw core s r) = Some (Thread t)"
    "ls_pc s t = Check r l g \<Longrightarrow> ls_owner s l = Some (Thread t)"
    "ls_pc s t = Check r l g \<Longrightarrow> l \<notin> rq_lockp_raw core s ` set (ls_cs s t)"
    "ls_pc s t = Got r g \<Longrightarrow> r \<in> set (ls_cs s t)"
    "ls_pc s t = Plain r g \<Longrightarrow> ls_phase s = Off \<or> ls_phase s = Grace"
    "ls_owner s l = Some Flipper \<longleftrightarrow> l \<in> flip_held n core (ls_phase s)"
    "ls_key s \<longleftrightarrow> ls_phase s \<noteq> Off" "phase_ok n core (ls_enabled s) (ls_phase s)"
    "r \<ge> n \<Longrightarrow> \<not> ls_enabled s r"
    "p \<in> set (ls_tl s t) \<Longrightarrow> ls_task_cpu s p \<in> set (ls_cs s t) \<and> ls_mover s p = None"
  using assms unfolding lock_inv_def by (blast+)

lemma check_not_cs:
  assumes "lock_inv n core s" and "ls_pc s u = Check q (rq_lockp_raw core s x) g" and "x \<in> set (ls_cs s u)"
  shows False
  using lock_invD(3)[OF assms(1,2)] assms(3) by blast

text \<open>The two readings of the lock agree: while the key is off, no runqueue is switched.\<close>

lemma lockp_raw: "lock_inv n core s \<Longrightarrow> rq_lockp core s r = rq_lockp_raw core s r"
  using lock_invD(7,8)[of n core s] by (auto simp: rq_lockp_def rq_lockp_raw_def)

lemma raw_upd [simp]:
  "rq_lockp_raw core (s\<lparr>ls_pc := a\<rparr>) r = rq_lockp_raw core s r"
  "rq_lockp_raw core (s\<lparr>ls_owner := b\<rparr>) r = rq_lockp_raw core s r"
  "rq_lockp_raw core (s\<lparr>ls_cs := c\<rparr>) r = rq_lockp_raw core s r"
  "rq_lockp_raw core (s\<lparr>ls_tl := d\<rparr>) r = rq_lockp_raw core s r"
  "rq_lockp_raw core (s\<lparr>ls_phase := e\<rparr>) r = rq_lockp_raw core s r"
  "rq_lockp_raw core (s\<lparr>ls_mover := f\<rparr>) r = rq_lockp_raw core s r"
  "rq_lockp_raw core (s\<lparr>ls_task_cpu := h\<rparr>) r = rq_lockp_raw core s r"
  "rq_lockp_raw core (s\<lparr>ls_key := k\<rparr>) r = rq_lockp_raw core s r"
  by (simp_all add: rq_lockp_raw_def)

section \<open>The steps keep it\<close>

lemma enter_inv:
  assumes "lock_inv n core s" and "ls_owner s (rq_lockp_raw core s r) = Some (Thread t)"
    and "\<And>r l g. p \<noteq> Check r l g" and "\<And>q g. p = Got q g \<Longrightarrow> q = r" and "\<And>q g. p \<noteq> Plain q g"
  shows "lock_inv n core (set_pc t p (enter_cs t r s))"
  using assms unfolding lock_inv_def enter_cs_def by (auto; metis)

lemma set_pc_inv:
  assumes "lock_inv n core s" and "\<And>r l g. p \<noteq> Check r l g" and "\<And>q g. p \<noteq> Got q g"
    and "\<And>q g. p = Plain q g \<Longrightarrow> ls_phase s = Off \<or> ls_phase s = Grace"
  shows "lock_inv n core (set_pc t p s)"
  using assms unfolding lock_inv_def by auto

lemma unlock_inv:
  assumes "lock_inv n core s" and "r \<in> set (ls_cs s t)" and "\<And>q l g. ls_pc s t \<noteq> Check q l g"
    and "ls_pc s t = Got q g \<Longrightarrow> q = r" and "\<And>r l g. p \<noteq> Check r l g" and "\<And>q g. p \<noteq> Got q g"
    and "\<And>q g. p \<noteq> Plain q g"
  shows "lock_inv n core (set_pc t p (rq_unlock core t r s))"
proof -
  note inv = lock_invD[OF assms(1)]
  have own: "ls_owner s (rq_lockp_raw core s r) = Some (Thread t)" using inv(1)[OF assms(2)] .
  have a: "rq_lockp_raw core s d \<noteq> rq_lockp_raw core s r" if "u \<noteq> t" "d \<in> set (ls_cs s u)" for u d
    using inv(1)[OF that(2)] own that(1) by auto
  have c: "l \<noteq> rq_lockp_raw core s r" if "u \<noteq> t" "ls_pc s u = Check q l g" for u q l g
    using inv(2)[OF that(2)] own that(1) by auto
  note e = check_not_cs[OF assms(1)]
  have f: "rq_lockp_raw core s r \<notin> flip_held n core (ls_phase s)"
    using inv(6)[of "rq_lockp_raw core s r"] own by simp
  show ?thesis
    unfolding lock_inv_def rq_unlock_def Let_def drop_lock_def lockp_raw[OF assms(1)]
    using inv own f assms(5-7) by (auto dest: a c e)
qed

lemma take_inv:
  assumes "lock_inv n core s" and "ls_pc s t = Spin r l g" and "take_lock (Thread t) l s = Some s'"
  shows "lock_inv n core (set_pc t (Check r l g) s')"
proof -
  note inv = lock_invD[OF assms(1)]
  have s': "s' = s\<lparr>ls_owner := (ls_owner s)(l := Some (Thread t))\<rparr>" and free: "ls_owner s l = None"
    using assms(3) by (auto simp: take_lock_def split: if_splits)
  have a: "rq_lockp_raw core s d \<noteq> l" if "d \<in> set (ls_cs s u)" for u d
    using inv(1)[OF that] free by auto
  have c: "m \<noteq> l" if "ls_pc s u = Check q m g" for u q m g using inv(2)[OF that] free by auto
  note e = check_not_cs[OF assms(1)]
  have f: "l \<notin> flip_held n core (ls_phase s)" using inv(6)[of l] free by simp
  show ?thesis unfolding lock_inv_def s' using inv f by (auto dest: a c e)
qed

lemma plain_inv:
  assumes "lock_inv n core s" and "ls_pc s t = Plain r g" and "take_lock (Thread t) r s = Some s'"
  shows "lock_inv n core (set_pc t (Got r g) (enter_cs t r s'))"
proof -
  note inv = lock_invD[OF assms(1)]
  have s': "s' = s\<lparr>ls_owner := (ls_owner s)(r := Some (Thread t))\<rparr>" and free: "ls_owner s r = None"
    using assms(3) by (auto simp: take_lock_def split: if_splits)
  have "\<not> ls_enabled s r" using inv(5)[OF assms(2)] inv(8) by auto
  then have r: "rq_lockp_raw core s r = r" by (simp add: rq_lockp_raw_def)
  have a: "rq_lockp_raw core s d \<noteq> r" if "d \<in> set (ls_cs s u)" for u d
    using inv(1)[OF that] free by auto
  have c: "m \<noteq> r" if "ls_pc s u = Check q m g" for u q m g using inv(2)[OF that] free by auto
  note e = check_not_cs[OF assms(1)]
  have f: "r \<notin> flip_held n core (ls_phase s)" using inv(6)[of r] free by simp
  show ?thesis unfolding lock_inv_def s' enter_cs_def using inv f r by (auto dest: a c e)
qed

lemma drop_inv:
  assumes "lock_inv n core s" and "ls_pc s t = Check r l g"
  shows "lock_inv n core (set_pc t (Read r g) (drop_lock l s))"
proof -
  note inv = lock_invD[OF assms(1)]
  note own = inv(2,3)[OF assms(2)]
  have a: "rq_lockp_raw core s d \<noteq> l" if "d \<in> set (ls_cs s u)" for u d
    using inv(1)[OF that] own that by auto
  have c: "m \<noteq> l" if "u \<noteq> t" "ls_pc s u = Check q m g" for u q m g using inv(2)[OF that(2)] own(1) that(1) by auto
  note e = check_not_cs[OF assms(1)]
  have f: "l \<notin> flip_held n core (ls_phase s)" using inv(6)[of l] own(1) by simp
  show ?thesis unfolding lock_inv_def drop_lock_def using inv f by (auto dest: a c e)
qed

lemma task_got_inv:
  assumes "lock_inv n core s" and "ls_task_cpu s p \<in> set (ls_cs s t)" and "ls_mover s p = None"
  shows "lock_inv n core (set_pc t Run (s\<lparr>ls_tl := (ls_tl s)(t := p # ls_tl s t)\<rparr>))"
proof -
  note inv = lock_invD[OF assms(1)]
  note e = check_not_cs[OF assms(1)]
  show ?thesis unfolding lock_inv_def using inv assms(2,3) by (auto dest: e)
qed

lemma lock_step_inv:
  assumes "lock_inv n core s" and "lock_step core t s = Some s'"
  shows "lock_inv n core s'"
proof (cases "ls_pc s t")
  case Run
  with assms(2) show ?thesis by simp
next
  case (Enter r g)
  have "ls_phase s = Off" if "\<not> ls_key s" using lock_invD(7)[OF assms(1)] that by simp
  with Enter assms show ?thesis by (auto intro!: set_pc_inv split: if_splits)
next
  case (Plain r g)
  with assms(2) show ?thesis by (auto intro: plain_inv[OF assms(1)])
next
  case (Read r g)
  with assms show ?thesis by (auto intro!: set_pc_inv)
next
  case (Spin r l g)
  with assms(2) show ?thesis by (auto intro: take_inv[OF assms(1)])
next
  case (Check r l g)
  show ?thesis
  proof (cases "l = rq_lockp_raw core s r")
    case True
    then have "ls_owner s (rq_lockp_raw core s r) = Some (Thread t)"
      using lock_invD(2)[OF assms(1) Check] by simp
    with True Check assms show ?thesis by (auto intro!: enter_inv)
  next
    case False
    with Check assms(2) show ?thesis using drop_inv[OF assms(1) Check] by simp
  qed
next
  case (Got r g)
  note r = lock_invD(4)[OF assms(1) Got]
  show ?thesis
  proof (cases g)
    case Single
    with Got assms show ?thesis by (auto intro!: set_pc_inv)
  next
    case (Second q)
    show ?thesis
    proof (cases "rq_lockp_raw core s r = rq_lockp_raw core s q")
      case True
      then have "ls_owner s (rq_lockp_raw core s q) = Some (Thread t)"
        using lock_invD(1)[OF assms(1) r] by simp
      with True Got Second assms show ?thesis by (auto intro!: enter_inv)
    next
      case False
      with Got Second assms show ?thesis by (auto intro!: set_pc_inv)
    qed
  next
    case (On_task p)
    show ?thesis
    proof (cases "r = ls_task_cpu s p \<and> ls_mover s p = None")
      case True
      with r have "ls_task_cpu s p \<in> set (ls_cs s t)" "ls_mover s p = None" by simp_all
      from task_got_inv[OF assms(1) this] True Got On_task assms(2) show ?thesis by simp
    next
      case False
      have "lock_inv n core (set_pc t (Wait p) (rq_unlock core t r s))"
        by (rule unlock_inv[OF assms(1) r]) (simp_all add: Got)
      moreover have "s' = set_pc t (Wait p) (rq_unlock core t r s)"
        using False Got On_task assms(2) by auto
      ultimately show ?thesis by simp
    qed
  qed
next
  case (Wait p)
  with assms show ?thesis by (auto intro!: set_pc_inv)
qed

lemma run_action_inv:
  assumes "lock_inv n core s" and "ls_pc s t = Run" and "run_action n core t a s = Some s'"
  shows "lock_inv n core s'"
proof -
  note inv = lock_invD[OF assms(1)]
  note e = check_not_cs[OF assms(1)]
  show ?thesis
  proof (cases a)
    case (Unlock r)
    have id: "set_pc t Run (rq_unlock core t r s) = rq_unlock core t r s"
      using assms(2) by (simp add: rq_unlock_def drop_lock_def Let_def fun_upd_idem)
    have "lock_inv n core (set_pc t Run (rq_unlock core t r s))" if "r \<in> set (ls_cs s t)"
      by (rule unlock_inv[OF assms(1) that]) (simp_all add: assms(2))
    with Unlock assms(3) id show ?thesis by (auto split: if_splits)
  next
    case (Migrate_start p)
    have "p \<notin> set (ls_tl s u)" if "u \<noteq> t" "ls_task_cpu s p \<in> set (ls_cs s t)" for u
    proof
      assume "p \<in> set (ls_tl s u)"
      then have "ls_task_cpu s p \<in> set (ls_cs s u)" using inv(10) by blast
      with inv(1)[OF this] inv(1)[OF that(2)] that(1) show False by simp
    qed
    with Migrate_start assms(3) inv show ?thesis
      unfolding lock_inv_def by (auto dest: e split: if_splits)
  next
    case (Migrate_cpu p d)
    have "p \<notin> set (ls_tl s u)" if "ls_mover s p = Some t" for u using inv(10)[of p u] that by auto
    with Migrate_cpu assms(3) inv show ?thesis
      unfolding lock_inv_def by (auto dest: e split: if_splits)
  next
    case (Migrate_end p)
    with assms(3) inv show ?thesis unfolding lock_inv_def by (auto dest: e split: if_splits)
  qed (use assms in \<open>auto intro!: set_pc_inv simp: double_rq_lock_def split: if_splits\<close>)
qed

text \<open>The leader of a CPU's core leads itself.\<close>

definition core_map_ok :: "nat \<Rightarrow> (cpu \<Rightarrow> cpu) \<Rightarrow> bool" where
  "core_map_ok n core \<longleftrightarrow> (\<forall>c<n. core c < n \<and> core (core c) = core c)"

lemma set_siblings: "d \<in> set (siblings n core c) \<longleftrightarrow> d < n \<and> core d = core c"
  by (auto simp: siblings_def)

lemma set_leaders: "set (leaders n core) = core ` {..<n}"
  by (auto simp: leaders_def)

lemma phase_inv:
  assumes "lock_inv n core s" and "ls_phase s \<noteq> Off" and "ls_phase s = Grace \<Longrightarrow> \<forall>t r g. ls_pc s t \<noteq> Plain r g"
    and "flip_held n core ph = flip_held n core (ls_phase s)" and "phase_ok n core (ls_enabled s) ph" and "ph \<noteq> Off"
  shows "lock_inv n core (s\<lparr>ls_phase := ph\<rparr>)"
  using assms unfolding lock_inv_def by auto

lemma flip_take_inv:
  assumes "lock_inv n core s" and "ls_phase s = Flipping b cs c (Locking held (l # ls))" and "ls_owner s l = None"
  shows "lock_inv n core (s\<lparr>ls_owner := (ls_owner s)(l := Some Flipper),
    ls_phase := Flipping b cs c (Locking (held @ [l]) ls)\<rparr>)"
proof -
  note inv = lock_invD[OF assms(1)]
  have a: "rq_lockp_raw core s d \<noteq> l" if "d \<in> set (ls_cs s u)" for u d
    using inv(1)[OF that] assms(3) by auto
  have c: "m \<noteq> l" if "ls_pc s u = Check q m g" for u q m g using inv(2)[OF that] assms(3) by auto
  note e = check_not_cs[OF assms(1)]
  show ?thesis unfolding lock_inv_def using inv assms(2) by (auto dest: a c e)
qed

lemma flip_drop_inv:
  assumes "lock_inv n core s" and "ls_phase s = Flipping b cs c (Unlocking (l # ls))"
  shows "lock_inv n core ((drop_lock l s)\<lparr>ls_phase := Flipping b cs c (Unlocking ls)\<rparr>)"
proof -
  note inv = lock_invD[OF assms(1)]
  have own: "ls_owner s l = Some Flipper" using inv(6)[of l] assms(2) by simp
  have a: "rq_lockp_raw core s d \<noteq> l" if "d \<in> set (ls_cs s u)" for u d
    using inv(1)[OF that] own by auto
  have c: "m \<noteq> l" if "ls_pc s u = Check q m g" for u q m g using inv(2)[OF that] own by auto
  note e = check_not_cs[OF assms(1)]
  show ?thesis unfolding lock_inv_def drop_lock_def using inv assms(2) by (auto dest: a c e)
qed

lemma flip_write_inv:
  assumes "lock_inv n core s" and "core_map_ok n core"
    and "ls_phase s = Flipping b cs c (Writing dn (d # ds))"
  shows "lock_inv n core (s\<lparr>ls_enabled := (ls_enabled s)(d := b),
    ls_phase := Flipping b cs c (Writing (dn @ [d]) ds)\<rparr>)"
proof -
  note inv = lock_invD[OF assms(1)]
  let ?s = "s\<lparr>ls_enabled := (ls_enabled s)(d := b)\<rparr>"
  have d: "d < n" "core d = core c" using inv(8) assms(3) set_siblings by auto
  then have "rq_lockp_raw core s d \<in> set (siblings n core c)"
    using assms(2) by (auto simp: rq_lockp_raw_def set_siblings core_map_ok_def)
  then have "ls_owner s (rq_lockp_raw core s d) = Some Flipper"
    using inv(6)[of "rq_lockp_raw core s d"] assms(3) by simp
  then have out: "d \<notin> set (ls_cs s u)" for u using inv(1)[of d u] by auto
  have same: "rq_lockp_raw core ?s r = rq_lockp_raw core s r" if "r \<in> set (ls_cs s u)" for r u
    using out[of u] that by (auto simp: rq_lockp_raw_def)
  then have img: "rq_lockp_raw core ?s ` set (ls_cs s u) = rq_lockp_raw core s ` set (ls_cs s u)" for u
    by (intro image_cong) auto
  show ?thesis unfolding lock_inv_def
    using inv assms(3) d by (auto simp: same img check_not_cs[OF assms(1)])
qed

lemma flip_step_inv:
  assumes "lock_inv n core s" and "core_map_ok n core" and "flip_step n core s = Some s'"
  shows "lock_inv n core s'"
proof -
  note inv = lock_invD[OF assms(1)]
  have lead: "core c = c" if "c \<in> set (leaders n core)" for c
    using that assms(2) by (auto simp: set_leaders core_map_ok_def)
  show ?thesis
  proof (cases "ls_phase s")
    case Off
    with assms(1,3) show ?thesis unfolding lock_inv_def by (auto dest: check_not_cs[OF assms(1)])
  next
    case Grace
    with assms(3) show ?thesis by simp
  next
    case On
    then show ?thesis using assms(3) by (auto intro!: phase_inv[OF assms(1)] simp: set_leaders)
  next
    case (Between b cs)
    show ?thesis
    proof (cases cs)
      case Nil
      have "\<not> b \<Longrightarrow> \<forall>r. \<not> ls_enabled s r" using inv(8,9) Between Nil by (auto simp: not_le) (meson not_le)
      with Nil Between assms(1,3) show ?thesis
        by (cases b) (auto simp: lock_inv_def dest: check_not_cs[OF assms(1)])
    next
      case (Cons c ds)
      with Between assms(3) inv(8) show ?thesis
        by (auto intro!: phase_inv[OF assms(1)] simp: siblings_def)
    qed
  next
    case (Flipping b cs c sub)
    show ?thesis
    proof (cases sub)
      case (Locking held ls)
      show ?thesis
      proof (cases ls)
        case Nil
        with Flipping Locking assms(3) inv(8) lead show ?thesis
          by (auto intro!: phase_inv[OF assms(1)] simp: set_siblings)
      next
        case (Cons l ms)
        with Flipping Locking assms(3) show ?thesis
          using flip_take_inv[OF assms(1), of b cs c held l ms] by (auto simp: take_lock_def split: if_splits)
      qed
    next
      case (Writing dn ds)
      show ?thesis
      proof (cases ds)
        case Nil
        with Flipping Writing assms(3) inv(8) show ?thesis
          by (auto intro!: phase_inv[OF assms(1)] simp: siblings_def)
      next
        case (Cons d es)
        with Flipping Writing assms(3) show ?thesis
          using flip_write_inv[OF assms(1,2), of b cs c dn d es] by auto
      qed
    next
      case (Unlocking ls)
      show ?thesis
      proof (cases ls)
        case Nil
        with Flipping Unlocking assms(3) inv(8) show ?thesis
          by (auto intro!: phase_inv[OF assms(1)])
      next
        case (Cons l ms)
        with Flipping Unlocking assms(3) show ?thesis
          using flip_drop_inv[OF assms(1), of b cs c l ms] by auto
      qed
    qed
  qed
qed

lemma lock_system_inv:
  assumes "lock_system n core s s'" and "lock_inv n core s" and "core_map_ok n core"
  shows "lock_inv n core s'"
  using assms(1)
proof cases
  case (inside t)
  then show ?thesis using lock_step_inv[OF assms(2)] by blast
next
  case (start t a)
  then show ?thesis using run_action_inv[OF assms(2)] by blast
next
  case flip
  then show ?thesis using flip_step_inv[OF assms(2,3)] by blast
next
  case grace
  then show ?thesis using lock_invD(8)[OF assms(2)]
    by (auto intro!: phase_inv[OF assms(2)] simp: set_leaders)
qed

lemma lock_reachable_inv:
  assumes "lock_reachable n core s" and "core_map_ok n core"
  shows "lock_inv n core s"
proof -
  obtain s0 where s0: "lock_init n s0" "(lock_system n core)\<^sup>*\<^sup>* s0 s" using assms(1) by blast
  from s0(2) show ?thesis
  proof induction
    case base
    from s0(1) show ?case by (auto simp: lock_init_def lock_inv_def)
  next
    case (step s s')
    then show ?case using lock_system_inv assms(2) by blast
  qed
qed

end
