(* ===== verification/Rq_Lock_Props.thy ===== *)
theory Rq_Lock_Props
  imports Rq_Locks
begin

text \<open>
  Properties of the runqueue locks: a runqueue that is locked stays under a lock its holder owns,
  whatever the switch of core scheduling does meanwhile, and no set of threads and the switch can block
  one another for ever.
\<close>

section \<open>A locked runqueue stays locked\<close>

text \<open>C15: However threads lock one or two runqueues or the one of a task, unlock them and migrate
  tasks while core scheduling is switched on and off: from the return of the lock function to the
  unlock, the lock that currently guards the runqueue (the one \<open>raw_spin_rq_unlock\<close> would drop) belongs to
  the thread, no other thread has the runqueue locked, and a task locked by \<open>__task_rq_lock\<close> stays on
  that runqueue and is not migrated by anyone else.\<close>

theorem rq_lock_stable:
  assumes "lock_reachable n core s" and "core_map_ok n core"
  shows "(r \<in> set (ls_cs s t) \<longrightarrow>
      ls_owner s (rq_lockp core s r) = Some (Thread t) \<and> (\<forall>u. u \<noteq> t \<longrightarrow> r \<notin> set (ls_cs s u))) \<and>
    (p \<in> set (ls_tl s t) \<longrightarrow> ls_task_cpu s p \<in> set (ls_cs s t) \<and> ls_mover s p = None \<and>
      (\<forall>u a s'. u \<noteq> t \<longrightarrow> a \<in> {Migrate_start p, Migrate_end p} \<or> (\<exists>d. a = Migrate_cpu p d) \<longrightarrow>
         run_action n core u a s \<noteq> Some s'))"
proof -
  have inv: "lock_inv n core s" by (rule lock_reachable_inv[OF assms])
  have one: "r \<notin> set (ls_cs s u)" if "r \<in> set (ls_cs s t)" "u \<noteq> t" for r u
    using lock_invD(1)[OF inv, of r u] lock_invD(1)[OF inv that(1)] that(2) by auto
  have tl: "ls_task_cpu s p \<in> set (ls_cs s t) \<and> ls_mover s p = None" if "p \<in> set (ls_tl s t)"
    using lock_invD(10)[OF inv that] .
  have "run_action n core u a s \<noteq> Some s'" if "p \<in> set (ls_tl s t)" "u \<noteq> t"
    "a \<in> {Migrate_start p, Migrate_end p} \<or> (\<exists>d. a = Migrate_cpu p d)" for u a s'
    using tl[OF that(1)] one[OF _ that(2), of "ls_task_cpu s p"] that(3) by auto
  with lock_invD(1)[OF inv, of r t] one[of r] tl show ?thesis
    unfolding lockp_raw[OF inv] by blast
qed

text \<open>Two threads and the first one in the critical section of CPU 1.\<close>

definition lsys0 :: lsys where
  "lsys0 = \<lparr>ls_key = False, ls_enabled = (\<lambda>_. False), ls_owner = (\<lambda>_. None), ls_pc = (\<lambda>_. Run),
     ls_phase = Off, ls_task_cpu = (\<lambda>_. 0), ls_mover = (\<lambda>_. None), ls_cs = (\<lambda>_. []), ls_tl = (\<lambda>_. [])\<rparr>"

definition lsys1 :: lsys where
  "lsys1 = lsys0\<lparr>ls_pc := (\<lambda>_. Run)(7 := Got 1 Single), ls_owner := [1 \<mapsto> Thread 7], ls_cs := (\<lambda>_. [])(7 := [1])\<rparr>"

lemma lsys1_reachable: "lock_reachable 2 (\<lambda>_. 0) lsys1"
proof -
  let ?c = "\<lambda>_ :: cpu. 0 :: cpu"
  let ?a = "set_pc 7 (Enter 1 Single) lsys0" and ?b = "set_pc 7 (Plain 1 Single) lsys0"
  have "lock_system 2 ?c lsys0 ?a"
    by (rule lock_system.start[where t = 7 and a = "Lock 1"]) (simp_all add: lsys0_def)
  moreover have "lock_system 2 ?c ?a ?b"
    by (rule lock_system.inside[where t = 7]) (simp add: lsys0_def)
  moreover have "lock_system 2 ?c ?b lsys1"
    by (rule lock_system.inside[where t = 7]) (simp add: lsys0_def lsys1_def take_lock_def enter_cs_def)
  ultimately have "(lock_system 2 ?c)\<^sup>*\<^sup>* lsys0 lsys1" by (meson r_into_rtranclp rtranclp_trans)
  moreover have "lock_init 2 lsys0" by (simp add: lock_init_def lsys0_def)
  ultimately show ?thesis by blast
qed

theorem rq_lock_stable_witness:
  "ls_owner lsys1 (rq_lockp (\<lambda>_. 0) lsys1 1) = Some (Thread 7) \<and> 1 \<notin> set (ls_cs lsys1 8)"
proof -
  have "core_map_ok 2 (\<lambda>_. 0)" by (simp add: core_map_ok_def)
  from rq_lock_stable[OF lsys1_reachable this, of 1 7] show ?thesis by (simp add: lsys1_def)
qed

section \<open>The order of the locks\<close>

text \<open>What a thread holds comes before what it locks; both belong to the same core only while that is
  not switched on.\<close>

definition locks_ordered :: "nat \<Rightarrow> (cpu \<Rightarrow> cpu) \<Rightarrow> (cpu \<Rightarrow> bool) \<Rightarrow> cpu list \<Rightarrow> cpu \<Rightarrow> goal \<Rightarrow> bool" where
  "locks_ordered n core en cs r g \<longleftrightarrow> r < n \<and> (g \<noteq> Single \<longrightarrow> cs = []) \<and>
     (\<forall>q. g = Second q \<longrightarrow> q < n \<and> \<not> rq_order_less core q r) \<and>
     (\<forall>d\<in>set cs. d < n \<and> rq_order_less core d r \<and> (core d = core r \<longrightarrow> \<not> en d))"

fun thread_ordered :: "nat \<Rightarrow> (cpu \<Rightarrow> cpu) \<Rightarrow> (cpu \<Rightarrow> bool) \<Rightarrow> pc \<Rightarrow> cpu list \<Rightarrow> bool" where
  "thread_ordered n core en Run cs = (\<forall>d\<in>set cs. d < n)"
| "thread_ordered n core en (Enter r g) cs = locks_ordered n core en cs r g"
| "thread_ordered n core en (Plain r g) cs = locks_ordered n core en cs r g"
| "thread_ordered n core en (Read r g) cs = locks_ordered n core en cs r g"
| "thread_ordered n core en (Spin r l g) cs =
     (locks_ordered n core en cs r g \<and> (l = r \<or> l = core r) \<and> (\<forall>d\<in>set cs. core d = core r \<longrightarrow> l = r))"
| "thread_ordered n core en (Check r l g) cs = locks_ordered n core en cs r g"
| "thread_ordered n core en (Got r Single) cs = (\<forall>d\<in>set cs. d < n)"
| "thread_ordered n core en (Got r (Second q)) cs =
     (cs = [r] \<and> r < n \<and> q < n \<and> \<not> rq_order_less core q r)"
| "thread_ordered n core en (Got r (On_task p)) cs = (cs = [r] \<and> r < n)"
| "thread_ordered n core en (Wait p) cs = (cs = [])"

definition written_core :: "(cpu \<Rightarrow> cpu) \<Rightarrow> phase \<Rightarrow> cpu option" where
  "written_core core ph = (case ph of Flipping b cs c (Writing dn ds) \<Rightarrow> Some (core c) | _ \<Rightarrow> None)"

definition owner_ok :: "(cpu \<Rightarrow> cpu) \<Rightarrow> lsys \<Rightarrow> bool" where
  "owner_ok core s \<longleftrightarrow> (\<forall>l t. ls_owner s l = Some (Thread t) \<longrightarrow>
     l \<in> rq_lockp_raw core s ` set (ls_cs s t) \<or> (\<exists>r g. ls_pc s t = Check r l g))"

definition uniform :: "nat \<Rightarrow> (cpu \<Rightarrow> cpu) \<Rightarrow> (cpu \<Rightarrow> bool) \<Rightarrow> phase \<Rightarrow> bool" where
  "uniform n core en ph \<longleftrightarrow> (\<forall>c<n. \<forall>d<n. core c = core d \<longrightarrow> written_core core ph \<noteq> Some (core c) \<longrightarrow>
     en c = en d)"

lemma uniformD:
  assumes "uniform n core en ph" and "c < n" and "d < n" and "core c = core d"
    and "written_core core ph \<noteq> Some (core c)"
  shows "en c = en d"
  using assms unfolding uniform_def by blast

lemma uniform_phase:
  assumes "uniform n core en ph" and "written_core core ph = None"
  shows "uniform n core en ph'"
  unfolding uniform_def
proof (intro allI impI)
  fix c d assume "c < n" "d < n" "core c = core d"
  then show "en c = en d" by (rule uniformD[OF assms(1)]) (simp add: assms(2))
qed

text \<open>Inside the writes the written part is uniform, too.\<close>

fun written_ok :: "(cpu \<Rightarrow> bool) \<Rightarrow> phase \<Rightarrow> bool" where
  "written_ok en (Flipping b cs c (Writing dn ds)) = (\<forall>d\<in>set dn. en d = b)"
| "written_ok en ph = True"

definition order_inv :: "nat \<Rightarrow> (cpu \<Rightarrow> cpu) \<Rightarrow> lsys \<Rightarrow> bool" where
  "order_inv n core s \<longleftrightarrow> (\<forall>t. thread_ordered n core (ls_enabled s) (ls_pc s t) (ls_cs s t)) \<and>
     (\<forall>p. ls_task_cpu s p < n) \<and> owner_ok core s \<and> uniform n core (ls_enabled s) (ls_phase s) \<and>
     written_ok (ls_enabled s) (ls_phase s)"

text \<open>The core of a runqueue that is held is not being written.\<close>

lemma held_not_written:
  assumes "lock_inv n core s" and "core_map_ok n core" and "d \<in> set (ls_cs s t)" and "d < n"
  shows "written_core core (ls_phase s) \<noteq> Some (core d)"
proof
  assume "written_core core (ls_phase s) = Some (core d)"
  then obtain b cs c dn ds where ph: "ls_phase s = Flipping b cs c (Writing dn ds)" "core c = core d"
    by (auto simp: written_core_def split: phase.splits core_flip.splits)
  have "rq_lockp_raw core s d \<in> set (siblings n core c)"
    using assms(2,4) ph(2) by (auto simp: rq_lockp_raw_def set_siblings core_map_ok_def)
  with lock_invD(6)[OF assms(1), of "rq_lockp_raw core s d"] ph(1)
  have "ls_owner s (rq_lockp_raw core s d) = Some Flipper" by simp
  with lock_invD(1)[OF assms(1,3)] show False by simp
qed

text \<open>A step of one thread keeps the order when its own part and the owners are kept.\<close>

lemma order_thread_step:
  assumes "order_inv n core s" and "thread_ordered n core (ls_enabled s) (ls_pc s' t) (ls_cs s' t)"
    and "\<And>u. u \<noteq> t \<Longrightarrow> ls_pc s' u = ls_pc s u \<and> ls_cs s' u = ls_cs s u"
    and "ls_enabled s' = ls_enabled s" and "ls_phase s' = ls_phase s" and "ls_task_cpu s' = ls_task_cpu s"
    and "owner_ok core s'"
  shows "order_inv n core s'"
proof -
  have "thread_ordered n core (ls_enabled s) (ls_pc s' u) (ls_cs s' u)" for u
    using assms(1-3) by (cases "u = t") (auto simp: order_inv_def)
  with assms show ?thesis by (simp add: order_inv_def)
qed

lemma owner_ok_cs:
  assumes "owner_ok core s" and "ls_owner s l = Some (Thread t)" and "\<And>r g. ls_pc s t \<noteq> Check r l g"
  shows "l \<in> rq_lockp_raw core s ` set (ls_cs s t)"
proof -
  have "l \<in> rq_lockp_raw core s ` set (ls_cs s t) \<or> (\<exists>r g. ls_pc s t = Check r l g)"
    using assms(1,2) unfolding owner_ok_def by blast
  with assms(3) show ?thesis by blast
qed

lemma owner_ok_keep:
  assumes "owner_ok core s" and "\<And>r l g. ls_pc s t \<noteq> Check r l g" and "ls_enabled s' = ls_enabled s"
    and "\<And>u. u \<noteq> t \<Longrightarrow> ls_pc s' u = ls_pc s u \<and> ls_cs s' u = ls_cs s u"
    and "\<And>l. ls_owner s' l = Some (Thread t) \<Longrightarrow> ls_owner s l \<noteq> Some (Thread t) \<Longrightarrow>
      l \<in> rq_lockp_raw core s ` set (ls_cs s' t) \<or> (\<exists>r g. ls_pc s' t = Check r l g)"
    and "\<And>l u. u \<noteq> t \<Longrightarrow> ls_owner s' l = Some (Thread u) \<Longrightarrow> ls_owner s l = Some (Thread u)"
    and "set (ls_cs s t) \<subseteq> set (ls_cs s' t)"
  shows "owner_ok core s'"
  unfolding owner_ok_def
proof (intro allI impI)
  fix l u assume o: "ls_owner s' l = Some (Thread u)"
  have raw: "rq_lockp_raw core s' = rq_lockp_raw core s" using assms(3) by (auto simp: rq_lockp_raw_def)
  show "l \<in> rq_lockp_raw core s' ` set (ls_cs s' u) \<or> (\<exists>r g. ls_pc s' u = Check r l g)"
  proof (cases "u = t")
    case True
    show ?thesis
    proof (cases "ls_owner s l = Some (Thread t)")
      case own: True
      have "l \<in> rq_lockp_raw core s ` set (ls_cs s t)"
        using owner_ok_cs[OF assms(1) own] assms(2) by blast
      with assms(7) raw True show ?thesis by auto
    next
      case False
      with assms(5) o True raw show ?thesis by auto
    qed
  next
    case False
    from assms(6)[OF this o] assms(1) assms(4)[of u] False raw show ?thesis by (auto simp: owner_ok_def)
  qed
qed

lemma order_invD:
  assumes "order_inv n core s"
  shows "thread_ordered n core (ls_enabled s) (ls_pc s t) (ls_cs s t)" "ls_task_cpu s p < n"
    "owner_ok core s" "uniform n core (ls_enabled s) (ls_phase s)" "written_ok (ls_enabled s) (ls_phase s)"
  using assms by (simp_all add: order_inv_def)

lemma order_set_pc:
  assumes "order_inv n core s" and "\<And>r l g. ls_pc s t \<noteq> Check r l g"
    and "thread_ordered n core (ls_enabled s) p (ls_cs s t)"
  shows "order_inv n core (set_pc t p s)"
proof (rule order_thread_step[where t = t, OF assms(1)])
  show "owner_ok core (set_pc t p s)"
    by (rule owner_ok_keep[where t = t, OF order_invD(3)[OF assms(1)] assms(2)]) simp_all
qed (simp_all add: assms(3))

lemma order_enter:
  assumes "order_inv n core s" and "ls_owner s (rq_lockp_raw core s r) = Some (Thread t)"
    and "\<And>q l g. ls_pc s t = Check q l g \<Longrightarrow> l = rq_lockp_raw core s r"
    and "thread_ordered n core (ls_enabled s) p (r # ls_cs s t)"
  shows "order_inv n core (set_pc t p (enter_cs t r s))"
proof (rule order_thread_step[where t = t, OF assms(1)])
  show "owner_ok core (set_pc t p (enter_cs t r s))"
    unfolding owner_ok_def
  proof (intro allI impI)
    fix l u assume o: "ls_owner (set_pc t p (enter_cs t r s)) l = Some (Thread u)"
    then have o': "ls_owner s l = Some (Thread u)" by (simp add: enter_cs_def)
    note ok = order_invD(3)[OF assms(1), unfolded owner_ok_def, rule_format, OF o']
    show "l \<in> rq_lockp_raw core (set_pc t p (enter_cs t r s)) ` set (ls_cs (set_pc t p (enter_cs t r s)) u) \<or>
        (\<exists>q g. ls_pc (set_pc t p (enter_cs t r s)) u = Check q l g)"
      using ok assms(3) by (cases "u = t") (auto simp: enter_cs_def)
  qed
qed (simp_all add: assms(4) enter_cs_def)

lemma order_unlock:
  assumes "order_inv n core s" and "lock_inv n core s" and "\<And>q l g. ls_pc s t \<noteq> Check q l g"
    and "r \<in> set (ls_cs s t)"
    and "thread_ordered n core (ls_enabled s) p
      (filter (\<lambda>d. rq_lockp core s d \<noteq> rq_lockp core s r) (ls_cs s t))"
  shows "order_inv n core (set_pc t p (rq_unlock core t r s))"
proof (rule order_thread_step[where t = t, OF assms(1)])
  have own: "ls_owner s (rq_lockp_raw core s r) = Some (Thread t)" using lock_invD(1)[OF assms(2,4)] .
  show "owner_ok core (set_pc t p (rq_unlock core t r s))"
    unfolding owner_ok_def
  proof (intro allI impI)
    fix l u assume o: "ls_owner (set_pc t p (rq_unlock core t r s)) l = Some (Thread u)"
    then have o': "ls_owner s l = Some (Thread u)" "l \<noteq> rq_lockp_raw core s r"
      by (auto simp: rq_unlock_def drop_lock_def Let_def lockp_raw[OF assms(2)] split: if_splits)
    note ok = order_invD(3)[OF assms(1), unfolded owner_ok_def, rule_format, OF o'(1)]
    show "l \<in> rq_lockp_raw core (set_pc t p (rq_unlock core t r s)) ` set (ls_cs (set_pc t p (rq_unlock core t r s)) u) \<or>
        (\<exists>q g. ls_pc (set_pc t p (rq_unlock core t r s)) u = Check q l g)"
    proof (cases "u = t")
      case True
      with ok assms(3) obtain d where "d \<in> set (ls_cs s t)" "l = rq_lockp_raw core s d" by auto
      with True o'(2) show ?thesis by (auto simp: rq_unlock_def drop_lock_def Let_def lockp_raw[OF assms(2)])
    next
      case False
      with ok show ?thesis by (auto simp: rq_unlock_def drop_lock_def Let_def)
    qed
  qed
qed (simp_all add: assms(5) rq_unlock_def drop_lock_def Let_def)

lemma order_take:
  assumes "order_inv n core s" and "take_lock (Thread t) l s = Some s'" and "\<And>q l g. ls_pc s t \<noteq> Check q l g"
    and "thread_ordered n core (ls_enabled s) (Check r l g) (ls_cs s t)"
  shows "order_inv n core (set_pc t (Check r l g) s')"
proof (rule order_thread_step[where t = t, OF assms(1)])
  have s': "s' = s\<lparr>ls_owner := (ls_owner s)(l := Some (Thread t))\<rparr>" and free: "ls_owner s l = None"
    using assms(2) by (auto simp: take_lock_def split: if_splits)
  show "owner_ok core (set_pc t (Check r l g) s')"
    by (rule owner_ok_keep[OF order_invD(3)[OF assms(1)] assms(3)]) (auto simp: s' split: if_splits)
  show "ls_enabled (set_pc t (Check r l g) s') = ls_enabled s" "ls_phase (set_pc t (Check r l g) s') = ls_phase s"
    "ls_task_cpu (set_pc t (Check r l g) s') = ls_task_cpu s"
    "thread_ordered n core (ls_enabled s) (ls_pc (set_pc t (Check r l g) s') t) (ls_cs (set_pc t (Check r l g) s') t)"
    "\<And>u. u \<noteq> t \<Longrightarrow> ls_pc (set_pc t (Check r l g) s') u = ls_pc s u \<and> ls_cs (set_pc t (Check r l g) s') u = ls_cs s u"
    using assms(4) by (simp_all add: s')
qed

lemma order_total: "a \<noteq> b \<Longrightarrow> \<not> rq_order_less core b a \<Longrightarrow> rq_order_less core a b"
  by (auto simp: rq_order_less_def split: if_splits)

lemma lock_step_order:
  assumes "lock_inv n core s" and "order_inv n core s" and "core_map_ok n core" and "lock_step core t s = Some s'"
  shows "order_inv n core s'"
proof (cases "ls_pc s t")
  case Run
  with assms(4) show ?thesis by simp
next
  case (Enter r g)
  with order_invD(1)[OF assms(2), of t] assms(4) show ?thesis
    by (auto intro!: order_set_pc[OF assms(2)])
next
  case (Plain r g)
  have l: "locks_ordered n core (ls_enabled s) (ls_cs s t) r g"
    using order_invD(1)[OF assms(2), of t] Plain by simp
  obtain s1 where s1: "take_lock (Thread t) r s = Some s1" and s': "s' = set_pc t (Got r g) (enter_cs t r s1)"
    using Plain assms(4) by auto
  have s1_def: "s1 = s\<lparr>ls_owner := (ls_owner s)(r := Some (Thread t))\<rparr>"
    using s1 by (auto simp: take_lock_def split: if_splits)
  have "\<not> ls_enabled s r" using lock_invD(5)[OF assms(1) Plain] lock_invD(8)[OF assms(1)] by auto
  then have raw: "rq_lockp_raw core s r = r" by (simp add: rq_lockp_raw_def)
  show ?thesis
  proof (rule order_thread_step[where t = t, OF assms(2)])
    show "thread_ordered n core (ls_enabled s) (ls_pc s' t) (ls_cs s' t)"
      using l by (cases g) (auto simp: s' s1_def enter_cs_def locks_ordered_def)
    show "owner_ok core s'"
      by (rule owner_ok_keep[where t = t, OF order_invD(3)[OF assms(2)]])
        (auto simp: s' s1_def enter_cs_def Plain raw split: if_splits)
  qed (auto simp: s' s1_def enter_cs_def)
next
  case (Read r g)
  have l: "locks_ordered n core (ls_enabled s) (ls_cs s t) r g"
    using order_invD(1)[OF assms(2), of t] Read by simp
  have "rq_lockp_raw core s r = r" if d: "d \<in> set (ls_cs s t)" "core d = core r" for d
  proof -
    have dn: "d < n" "r < n" "\<not> ls_enabled s d" using l d by (auto simp: locks_ordered_def)
    have "written_core core (ls_phase s) \<noteq> Some (core d)"
      by (rule held_not_written[OF assms(1,3) d(1) dn(1)])
    with uniformD[OF order_invD(4)[OF assms(2)] dn(1,2) d(2)] dn(3) have "\<not> ls_enabled s r" by simp
    then show ?thesis by (simp add: rq_lockp_raw_def)
  qed
  then have "thread_ordered n core (ls_enabled s) (Spin r (rq_lockp_raw core s r) g) (ls_cs s t)"
    using l by (auto simp: rq_lockp_raw_def)
  with Read assms(4) show ?thesis by (auto intro!: order_set_pc[OF assms(2)])
next
  case (Spin r l g)
  obtain s1 where s1: "take_lock (Thread t) l s = Some s1" and s': "s' = set_pc t (Check r l g) s1"
    using Spin assms(4) by auto
  show ?thesis unfolding s'
    by (rule order_take[OF assms(2) s1]) (use Spin order_invD(1)[OF assms(2), of t] in simp_all)
next
  case (Check r l g)
  note own = lock_invD(2)[OF assms(1) Check]
  have lo: "locks_ordered n core (ls_enabled s) (ls_cs s t) r g"
    using order_invD(1)[OF assms(2), of t] Check by simp
  show ?thesis
  proof (cases "l = rq_lockp_raw core s r")
    case True
    have "thread_ordered n core (ls_enabled s) (Got r g) (r # ls_cs s t)"
      using lo by (cases g) (auto simp: locks_ordered_def)
    with True own Check assms(4) show ?thesis by (auto intro!: order_enter[OF assms(2)])
  next
    case False
    then have s': "s' = set_pc t (Read r g) (drop_lock l s)" using Check assms(4) by simp
    note img = lock_invD(3)[OF assms(1) Check]
    show ?thesis
    proof (rule order_thread_step[where t = t, OF assms(2)])
      show "owner_ok core s'"
        unfolding owner_ok_def
      proof (intro allI impI)
        fix m u assume o: "ls_owner s' m = Some (Thread u)"
        then have o': "ls_owner s m = Some (Thread u)" "m \<noteq> l"
          by (auto simp: s' drop_lock_def split: if_splits)
        from order_invD(3)[OF assms(2), unfolded owner_ok_def, rule_format, OF o'(1)] o'(2) Check
        show "m \<in> rq_lockp_raw core s' ` set (ls_cs s' u) \<or> (\<exists>r g. ls_pc s' u = Check r m g)"
          by (cases "u = t") (auto simp: s' drop_lock_def)
      qed
    qed (simp_all add: s' lo drop_lock_def)
  qed
next
  case (Got r g)
  note r = lock_invD(4)[OF assms(1) Got]
  have to: "thread_ordered n core (ls_enabled s) (Got r g) (ls_cs s t)"
    using order_invD(1)[OF assms(2), of t] Got by simp
  show ?thesis
  proof (cases g)
    case Single
    with Got assms(4) to show ?thesis by (auto intro!: order_set_pc[OF assms(2)])
  next
    case (Second q)
    show ?thesis
    proof (cases "rq_lockp_raw core s r = rq_lockp_raw core s q")
      case True
      then have "ls_owner s (rq_lockp_raw core s q) = Some (Thread t)"
        using lock_invD(1)[OF assms(1) r] by simp
      with True Got Second assms(4) to show ?thesis by (auto intro!: order_enter[OF assms(2)])
    next
      case False
      then have "q \<noteq> r" by auto
      with to Second have lt: "rq_order_less core r q" by (auto intro: order_total)
      have "\<not> ls_enabled s r" if "core r = core q"
      proof
        assume en: "ls_enabled s r"
        have "written_core core (ls_phase s) \<noteq> Some (core r)"
          using held_not_written[OF assms(1,3) r] to Second by simp
        with uniformD[OF order_invD(4)[OF assms(2)] _ _ that] to Second en have "ls_enabled s q" by simp
        with en that False show False by (simp add: rq_lockp_raw_def)
      qed
      with lt to Second have "locks_ordered n core (ls_enabled s) (ls_cs s t) q Single"
        by (auto simp: locks_ordered_def)
      with False Got Second assms(4) show ?thesis by (auto intro!: order_set_pc[OF assms(2)])
    qed
  next
    case (On_task p)
    have cs: "ls_cs s t = [r]" "r < n" using to On_task by simp_all
    show ?thesis
    proof (cases "r = ls_task_cpu s p \<and> ls_mover s p = None")
      case True
      then have s': "s' = set_pc t Run (s\<lparr>ls_tl := (ls_tl s)(t := p # ls_tl s t)\<rparr>)"
        using Got On_task assms(4) by simp
      show ?thesis
      proof (rule order_thread_step[where t = t, OF assms(2)])
        show "owner_ok core s'"
          by (rule owner_ok_keep[where t = t, OF order_invD(3)[OF assms(2)]]) (simp_all add: s' Got)
      qed (simp_all add: s' cs)
    next
      case False
      have "order_inv n core (set_pc t (Wait p) (rq_unlock core t r s))"
        by (rule order_unlock[OF assms(2,1) _ r]) (simp_all add: Got cs)
      moreover have "s' = set_pc t (Wait p) (rq_unlock core t r s)"
        using False Got On_task assms(4) by auto
      ultimately show ?thesis by simp
    qed
  qed
next
  case (Wait p)
  have cs: "ls_cs s t = []" using order_invD(1)[OF assms(2), of t] Wait by simp
  have "ls_task_cpu s p < n" by (rule order_invD(2)[OF assms(2)])
  then have "locks_ordered n core (ls_enabled s) (ls_cs s t) (ls_task_cpu s p) (On_task p)"
    by (simp add: locks_ordered_def cs)
  with Wait assms(2,4) show ?thesis by (auto intro!: order_set_pc[OF assms(2)] split: if_splits)
qed

lemma run_action_order:
  assumes "lock_inv n core s" and "order_inv n core s" and "ls_pc s t = Run"
    and "run_action n core t a s = Some s'"
  shows "order_inv n core s'"
proof -
  have cs: "\<forall>d\<in>set (ls_cs s t). d < n" using order_invD(1)[OF assms(2), of t] assms(3) by simp
  have tc: "ls_task_cpu s p < n" for p by (rule order_invD(2)[OF assms(2)])
  have keep: "owner_ok core (s\<lparr>ls_mover := m, ls_tl := l\<rparr>)" "owner_ok core (s\<lparr>ls_task_cpu := tcpu\<rparr>)" for m l tcpu
    using order_invD(3)[OF assms(2)] by (simp_all add: owner_ok_def)
  show ?thesis
  proof (cases a)
    case (Unlock r)
    have id: "set_pc t Run (rq_unlock core t r s) = rq_unlock core t r s"
      using assms(3) by (simp add: rq_unlock_def drop_lock_def Let_def fun_upd_idem)
    have "order_inv n core (set_pc t Run (rq_unlock core t r s))" if "r \<in> set (ls_cs s t)"
      by (rule order_unlock[OF assms(2,1) _ that]) (use assms(3) cs in simp_all)
    with Unlock assms(4) id show ?thesis by (auto split: if_splits)
  next
    case (Double_lock x y)
    then have s': "s' = double_rq_lock core t x y s" and e: "ls_cs s t = []" "x < n" "y < n"
      using assms(4) by (auto split: if_splits)
    have "\<not> rq_order_less core u v" if "rq_order_less core v u" for u v
      using that by (auto simp: rq_order_less_def split: if_splits)
    then have "order_inv n core (set_pc t (Enter u (Second v)) s)" if "(u, v) = (if rq_order_less core y x then (y, x) else (x, y))" for u v
      using that e assms(3) by (intro order_set_pc[OF assms(2)]) (auto simp: locks_ordered_def split: if_splits)
    then show ?thesis unfolding s' double_rq_lock_def Let_def by (auto split: prod.split)
  next
    case (Migrate_start p)
    with assms(2,4) keep(1) show ?thesis by (auto simp: order_inv_def split: if_splits)
  next
    case (Migrate_cpu p d)
    with assms(2,4) keep(2) show ?thesis by (auto simp: order_inv_def split: if_splits)
  next
    case (Migrate_end p)
    with assms(2,4) keep(1) show ?thesis by (auto simp: order_inv_def split: if_splits)
  qed (use assms tc in \<open>auto intro!: order_set_pc simp: locks_ordered_def split: if_splits\<close>)
qed

lemma order_phase:
  assumes "order_inv n core s" and "written_core core (ls_phase s) = None" and "written_ok (ls_enabled s) (ls_phase s')"
    and "ls_pc s' = ls_pc s" and "ls_cs s' = ls_cs s" and "ls_enabled s' = ls_enabled s"
    and "ls_task_cpu s' = ls_task_cpu s" and "\<And>l t. ls_owner s' l = Some (Thread t) \<Longrightarrow> ls_owner s l = Some (Thread t)"
  shows "order_inv n core s'"
proof -
  have "rq_lockp_raw core s' = rq_lockp_raw core s" by (intro ext) (simp add: rq_lockp_raw_def assms(6))
  then have "owner_ok core s'"
    using order_invD(3)[OF assms(1)] assms(4,5,8) by (simp add: owner_ok_def)
  with assms uniform_phase[OF order_invD(4)[OF assms(1)] assms(2)] show ?thesis
    by (simp add: order_inv_def)
qed

lemma flip_write_order:
  assumes "lock_inv n core s" and "order_inv n core s" and "core_map_ok n core"
    and "ls_phase s = Flipping b cs c (Writing dn (d # ds))"
  shows "order_inv n core (s\<lparr>ls_enabled := (ls_enabled s)(d := b),
    ls_phase := Flipping b cs c (Writing (dn @ [d]) ds)\<rparr>)"
proof -
  have d: "d < n" "core d = core c" using lock_invD(8)[OF assms(1)] assms(4) set_siblings by auto
  then have w: "written_core core (ls_phase s) = Some (core d)" using assms(4) by (simp add: written_core_def)
  then have out: "d \<notin> set (ls_cs s t)" for t using held_not_written[OF assms(1,3) _ d(1)] by blast
  let ?en = "(ls_enabled s)(d := b)"
  have lo: "locks_ordered n core ?en cs' r g" if "locks_ordered n core (ls_enabled s) cs' r g" "d \<notin> set cs'" for cs' r g
    using that by (auto simp: locks_ordered_def)
  have "thread_ordered n core ?en (ls_pc s t) (ls_cs s t)" for t
    using order_invD(1)[OF assms(2), of t] lo[OF _ out[of t]]
    by (cases "(n, core, ls_enabled s, ls_pc s t, ls_cs s t)" rule: thread_ordered.cases) auto
  moreover have "owner_ok core (s\<lparr>ls_enabled := ?en, ls_phase := ph\<rparr>)" for ph
  proof -
    have "rq_lockp_raw core (s\<lparr>ls_enabled := ?en\<rparr>) ` set (ls_cs s t) = rq_lockp_raw core s ` set (ls_cs s t)" for t
      using out[of t] by (intro image_cong) (auto simp: rq_lockp_raw_def)
    with order_invD(3)[OF assms(2)] show ?thesis by (simp add: owner_ok_def)
  qed
  moreover have "uniform n core ?en (Flipping b cs c (Writing (dn @ [d]) ds))"
    unfolding uniform_def
  proof (intro allI impI)
    fix x y assume xy: "x < n" "y < n" "core x = core y"
      "written_core core (Flipping b cs c (Writing (dn @ [d]) ds)) \<noteq> Some (core x)"
    then have "core x \<noteq> core d" using d(2) by (simp add: written_core_def)
    then have "ls_enabled s x = ls_enabled s y"
      using uniformD[OF order_invD(4)[OF assms(2)] xy(1-3)] w by simp
    with \<open>core x \<noteq> core d\<close> xy(3) show "?en x = ?en y" by auto
  qed
  moreover have "written_ok ?en (Flipping b cs c (Writing (dn @ [d]) ds))"
    using order_invD(5)[OF assms(2)] assms(4) by simp
  ultimately show ?thesis using order_invD(2)[OF assms(2)] by (simp add: order_inv_def)
qed

lemma flip_step_order:
  assumes "lock_inv n core s" and "order_inv n core s" and "core_map_ok n core"
    and "flip_step n core s = Some s'"
  shows "order_inv n core s'"
proof (cases "ls_phase s")
  case Off
  with assms(4) show ?thesis by (intro order_phase[OF assms(2)]) (auto simp: written_core_def)
next
  case Grace
  with assms(4) show ?thesis by simp
next
  case On
  with assms(4) show ?thesis by (intro order_phase[OF assms(2)]) (auto simp: written_core_def)
next
  case (Between b cs)
  with assms(4) show ?thesis
    by (intro order_phase[OF assms(2)]; cases cs; cases b) (auto simp: written_core_def)
next
  case (Flipping b cs c sub)
  show ?thesis
  proof (cases sub)
    case (Locking held ls)
    with Flipping assms(4) show ?thesis
      by (intro order_phase[OF assms(2)]; cases ls) (auto simp: take_lock_def written_core_def split: if_splits)
  next
    case (Writing dn ds)
    show ?thesis
    proof (cases ds)
      case Nil
      with Flipping Writing assms(4) have s': "s' = s\<lparr>ls_phase := Flipping b cs c (Unlocking (siblings n core c))\<rparr>"
        by simp
      have all: "ls_enabled s d = b" if "core d = core c" "d < n" for d
        using that lock_invD(8)[OF assms(1)] order_invD(5)[OF assms(2)] Flipping Writing Nil set_siblings[of d n core c]
        by auto
      have "uniform n core (ls_enabled s) ph" for ph
        unfolding uniform_def
      proof (intro allI impI)
        fix x y assume xy: "x < n" "y < n" "core x = core y"
        show "ls_enabled s x = ls_enabled s y"
        proof (cases "core x = core c")
          case True
          with xy all show ?thesis by simp
        next
          case False
          then show ?thesis
            using uniformD[OF order_invD(4)[OF assms(2)] xy] Flipping Writing by (simp add: written_core_def)
        qed
      qed
      with assms(2) show ?thesis by (simp add: s' order_inv_def owner_ok_def)
    next
      case (Cons d es)
      with Flipping Writing assms(4) show ?thesis
        using flip_write_order[OF assms(1-3), of b cs c dn d es] by auto
    qed
  next
    case (Unlocking ls)
    with Flipping assms(4) show ?thesis
      by (intro order_phase[OF assms(2)]; cases ls) (auto simp: drop_lock_def written_core_def split: if_splits)
  qed
qed

lemma order_reachable:
  assumes "lock_reachable n core s" and "core_map_ok n core"
  shows "order_inv n core s"
proof -
  obtain s0 where s0: "lock_init n s0" "(lock_system n core)\<^sup>*\<^sup>* s0 s" using assms(1) by blast
  from s0(2) show ?thesis
  proof induction
    case base
    from s0(1) show ?case by (auto simp: lock_init_def order_inv_def owner_ok_def uniform_def)
  next
    case (step s s')
    have inv: "lock_inv n core s" using lock_reachable_inv assms(2) s0(1) step.hyps(1) by blast
    from step.hyps(2) show ?case
    proof cases
      case (inside t)
      then show ?thesis using lock_step_order[OF inv step.IH assms(2)] by blast
    next
      case (start t a)
      then show ?thesis using run_action_order[OF inv step.IH] by blast
    next
      case flip
      then show ?thesis using flip_step_order[OF inv step.IH assms(2)] by blast
    next
      case grace
      then show ?thesis by (intro order_phase[OF step.IH]) (auto simp: written_core_def)
    qed
  qed
qed

section \<open>No deadlock\<close>

text \<open>The lock an agent spins on, and whether it can go on by itself.\<close>

fun wanted :: "lsys \<Rightarrow> agent \<Rightarrow> cpu option" where
  "wanted s (Thread t) = (case ls_pc s t of Plain r g \<Rightarrow> Some r | Spin r l g \<Rightarrow> Some l | _ \<Rightarrow> None)"
| "wanted s Flipper = (case ls_phase s of Flipping b cs c (Locking held (l # ls)) \<Rightarrow> Some l | _ \<Rightarrow> None)"

fun can_step :: "nat \<Rightarrow> (cpu \<Rightarrow> cpu) \<Rightarrow> lsys \<Rightarrow> agent \<Rightarrow> bool" where
  "can_step n core s (Thread t) \<longleftrightarrow> lock_step core t s \<noteq> None \<or>
     (ls_pc s t = Run \<and> (\<exists>r. run_action n core t (Unlock r) s \<noteq> None))"
| "can_step n core s Flipper \<longleftrightarrow> flip_step n core s \<noteq> None"

lemma free_can_step:
  assumes "wanted s a = Some l" and "ls_owner s l = None"
  shows "can_step n core s a"
proof (cases a)
  case (Thread t)
  with assms show ?thesis by (auto simp: take_lock_def split: pc.splits)
next
  case Flipper
  with assms show ?thesis by (auto simp: take_lock_def split: phase.splits core_flip.splits list.splits)
qed

text \<open>Who holds a lock can go on, or spins on a later one.\<close>

lemma thread_holder:
  assumes "order_inv n core s" and "core_map_ok n core" and "ls_owner s l = Some (Thread t)"
    and "\<not> can_step n core s (Thread t)"
  shows "\<exists>m<n. wanted s (Thread t) = Some m \<and> rq_order_less core l m"
proof -
  have nc: "ls_pc s t \<noteq> Check r m g" for r m g using assms(4) by auto
  obtain d where d: "d \<in> set (ls_cs s t)" "l = rq_lockp_raw core s d"
    using owner_ok_cs[OF order_invD(3)[OF assms(1)] assms(3)] nc by auto
  have "ls_pc s t \<noteq> Run"
  proof
    assume "ls_pc s t = Run"
    then have "can_step n core s (Thread t)" using d(1) by (auto intro!: exI[of _ d])
    with assms(4) show False ..
  qed
  moreover have "ls_pc s t \<noteq> Got r g" for r g using assms(4) by (cases g) auto
  ultimately obtain r m g where pc: "ls_pc s t = Plain r g \<and> m = r \<or> ls_pc s t = Spin r m g"
    using assms(4) by (cases "ls_pc s t") auto
  have w: "wanted s (Thread t) = Some m" using pc by auto
  note to = order_invD(1)[OF assms(1), of t]
  have lo: "locks_ordered n core (ls_enabled s) (ls_cs s t) r g" using to pc by auto
  then have dr: "r < n" "d < n" "rq_order_less core d r" "core d = core r \<Longrightarrow> \<not> ls_enabled s d"
    using d(1) by (auto simp: locks_ordered_def)
  have m: "m = r \<or> m = core r" "core d = core r \<Longrightarrow> m = r" using to pc d(1) by auto
  have idem: "core (core x) = core x" "core x < n" if "x < n" for x
    using assms(2) that by (auto simp: core_map_ok_def)
  have "core l = core d" "core m = core r" using d(2) m(1) idem dr by (auto simp: rq_lockp_raw_def)
  moreover have "rq_order_less core l m"
  proof (cases "core d = core r")
    case True
    with dr(4) d(2) m(2) dr(3) show ?thesis by (simp add: rq_lockp_raw_def)
  next
    case False
    with dr(3) calculation show ?thesis by (auto simp: rq_order_less_def split: if_splits)
  qed
  ultimately show ?thesis using w m(1) idem(2)[OF dr(1)] dr(1) by auto
qed

lemma flipper_holder:
  assumes "lock_inv n core s" and "ls_owner s l = Some Flipper" and "\<not> can_step n core s Flipper"
  shows "\<exists>m<n. wanted s Flipper = Some m \<and> rq_order_less core l m"
proof -
  note inv = lock_invD[OF assms(1)]
  have h: "l \<in> flip_held n core (ls_phase s)" using inv(6)[of l] assms(2) by simp
  then obtain b cs c sub where ph: "ls_phase s = Flipping b cs c sub" by (cases "ls_phase s") auto
  with assms(3) h obtain held m ls where sub: "sub = Locking held (m # ls)"
  proof (cases sub)
    case (Locking held ls)
    with that ph assms(3) show ?thesis by (cases ls) auto
  next
    case (Writing dn ds)
    with ph assms(3) show ?thesis by (cases ds) auto
  next
    case (Unlocking ls)
    with ph assms(3) show ?thesis by (cases ls) auto
  qed
  have sib: "held @ m # ls = siblings n core c" and l: "l \<in> set held" using inv(8) h ph sub by simp_all
  have "sorted_wrt (<) (siblings n core c)" by (simp add: siblings_def sorted_wrt_filter)
  then have "l < m" using l unfolding sib[symmetric] by (simp add: sorted_wrt_append)
  moreover have "m < n" "core m = core c" "core l = core c"
    using sib l set_siblings[of _ n core c] by (metis in_set_conv_decomp Un_iff set_append)+
  ultimately show ?thesis using ph sub by (auto simp: rq_order_less_def)
qed

lemma rq_order_less_trans: "rq_order_less core a b \<Longrightarrow> rq_order_less core b c \<Longrightarrow> rq_order_less core a c"
  by (auto simp: rq_order_less_def split: if_splits)

lemma rq_order_less_irrefl: "\<not> rq_order_less core a a"
  by (simp add: rq_order_less_def)

definition later :: "nat \<Rightarrow> (cpu \<Rightarrow> cpu) \<Rightarrow> cpu \<Rightarrow> cpu set" where
  "later n core l = {m. m < n \<and> rq_order_less core l m}"

lemma later_less:
  assumes "m < n" and "rq_order_less core l m"
  shows "card (later n core m) < card (later n core l)"
proof (rule psubset_card_mono)
  show "finite (later n core l)" by (simp add: later_def)
  have "m \<in> later n core l" "m \<notin> later n core m" using assms by (simp_all add: later_def rq_order_less_irrefl)
  moreover have "later n core m \<subseteq> later n core l"
    using rq_order_less_trans[OF assms(2)] by (auto simp: later_def)
  ultimately show "later n core m \<subset> later n core l" by blast
qed

lemma holder_waits:
  assumes "lock_inv n core s" and "order_inv n core s" and "core_map_ok n core"
    and "ls_owner s l = Some b" and "\<not> can_step n core s b"
  shows "\<exists>m<n. wanted s b = Some m \<and> rq_order_less core l m"
proof (cases b)
  case (Thread t)
  show ?thesis unfolding Thread by (rule thread_holder[OF assms(2,3)]) (use assms(4,5) Thread in simp_all)
next
  case Flipper
  show ?thesis unfolding Flipper by (rule flipper_holder[OF assms(1)]) (use assms(4,5) Flipper in simp_all)
qed

lemma holder_chain:
  assumes "lock_inv n core s" and "order_inv n core s" and "core_map_ok n core"
  shows "ls_owner s l = Some b \<Longrightarrow> \<exists>a m. ls_owner s m = Some a \<and> can_step n core s a"
proof (induction "card (later n core l)" arbitrary: l b rule: less_induct)
  case less
  show ?case
  proof (cases "can_step n core s b")
    case True
    from less.prems True show ?thesis by (intro exI conjI)
  next
    case False
    obtain m where m: "m < n" "wanted s b = Some m" "rq_order_less core l m"
      using holder_waits[OF assms less.prems False] by (elim exE conjE)
    show ?thesis
    proof (cases "ls_owner s m")
      case None
      from free_can_step[OF m(2) this] False show ?thesis by (rule notE[rotated])
    next
      case (Some a)
      show ?thesis by (rule less.hyps[OF later_less[OF m(1,3)] Some])
    qed
  qed
qed

text \<open>C16: The locks cannot deadlock: in every reachable state of any number of threads that lock one or
  two runqueues (in the order of \<open>rq_order_less\<close>) or the runqueue of a task, and of the switch of core
  scheduling, which locks all siblings of a core, an agent that spins on a lock can take it, or some
  agent that holds a lock can make a step of its own.\<close>

theorem rq_locks_deadlock_free:
  assumes "lock_reachable n core s" and "core_map_ok n core" and "wanted s a = Some l"
  shows "if ls_owner s l = None then can_step n core s a
    else \<exists>b m. ls_owner s m = Some b \<and> can_step n core s b"
proof (cases "ls_owner s l")
  case None
  from free_can_step[OF assms(3) this] None show ?thesis by simp
next
  case (Some b)
  have "\<exists>a m. ls_owner s m = Some a \<and> can_step n core s a"
    by (rule holder_chain[OF lock_reachable_inv[OF assms(1,2)] order_reachable[OF assms(1,2)] assms(2) Some])
  with Some show ?thesis by auto
qed

text \<open>A second thread spins on the lock the first one has.\<close>

definition lsys2 :: lsys where "lsys2 = set_pc 8 (Plain 1 Single) lsys1"

theorem rq_locks_deadlock_free_witness: "\<exists>b m. ls_owner lsys2 m = Some b \<and> can_step 2 (\<lambda>_. 0) lsys2 b"
proof -
  let ?c = "\<lambda>_ :: cpu. 0 :: cpu"
  have "lock_system 2 ?c lsys1 (set_pc 8 (Enter 1 Single) lsys1)"
    by (rule lock_system.start[where t = 8 and a = "Lock 1"]) (simp_all add: lsys1_def lsys0_def)
  moreover have "lock_system 2 ?c (set_pc 8 (Enter 1 Single) lsys1) lsys2"
    by (rule lock_system.inside[where t = 8]) (simp add: lsys1_def lsys0_def lsys2_def)
  ultimately have "lock_reachable 2 ?c lsys2"
    using lsys1_reachable by (meson rtranclp.rtrancl_into_rtrancl)
  moreover have "core_map_ok 2 ?c" by (simp add: core_map_ok_def)
  moreover have "wanted lsys2 (Thread 8) = Some 1" by (simp add: lsys2_def)
  ultimately have "if ls_owner lsys2 1 = None then can_step 2 ?c lsys2 (Thread 8)
    else \<exists>b m. ls_owner lsys2 m = Some b \<and> can_step 2 ?c lsys2 b"
    by (rule rq_locks_deadlock_free)
  moreover have "ls_owner lsys2 1 = Some (Thread 7)" by (simp add: lsys2_def lsys1_def)
  ultimately show ?thesis by simp
qed

end
