(* ===== verification/Fork_Share.thy ===== *)
theory Fork_Share
  imports Fork
begin

text \<open>
  What a fork shares and copies (\<open>fork.c\<close>, lines 1107 to 1165, 1311 to 1327, 1451 to 1690, 2183 to 2499 and
  3011 to 3204): the filesystem context, the file table, the signal handlers, the signal struct of a
  thread group and the address space, each with its reference counter; the order of \<open>copy_process\<close> with
  its labels for failures; and \<open>unshare\<close>.

  A pointer to an object is its number. The objects are in tables, and a freed object is no longer in its
  table. Of an object the counters are modelled and what the functions here decide on. The functions of
  other files (\<open>copy_fs_struct\<close>, \<open>dup_fd\<close>, \<open>exit_files\<close>, the allocators and so on) are the record
  \<open>share_ops\<close>; the subsystems with no table here only have a result and a state of their own,
  \<open>sr_ext\<close>.
\<close>

section \<open>State\<close>

record fs_struct =
  fs_users :: int
  fs_in_exec :: bool

record sighand_struct =
  sh_count :: int
  sh_action :: "nat \<Rightarrow> nat"

record signal_struct =
  sg_nr_threads :: int
  sg_live :: int
  sg_sigcnt :: int

record mm_struct =
  mm_users :: int
  mm_count :: int
  mm_binfmt :: "nat option"

text \<open>The part of \<open>task_struct\<close> that a fork links: the resources, and the place in the process tree.\<close>

record ptask =
  pt_fs :: "nat option"
  pt_files :: "nat option"
  pt_sighand :: "nat option"
  pt_signal :: "nat option"
  pt_mm :: "nat option"
  pt_active_mm :: "nat option"
  pt_kthread :: bool
  pt_leader :: tid
  pt_parent :: tid
  pt_exit_signal :: int

record 'x shares =
  sr_tasks :: "tid \<Rightarrow> ptask option"
  sr_current :: tid
  sr_fs :: "nat \<Rightarrow> fs_struct option"
  sr_files :: "nat \<Rightarrow> int option"
  sr_sighand :: "nat \<Rightarrow> sighand_struct option"
  sr_signal :: "nat \<Rightarrow> signal_struct option"
  sr_mm :: "nat \<Rightarrow> mm_struct option"
  sr_nr_threads :: int
  sr_total_forks :: u32
  sr_ext :: 'x

abbreviation ptk :: "'x shares \<Rightarrow> tid \<Rightarrow> ptask" where
  "ptk s p \<equiv> the (sr_tasks s p)"

abbreviation upd_ptk :: "tid \<Rightarrow> (ptask \<Rightarrow> ptask) \<Rightarrow> 'x shares \<Rightarrow> 'x shares" where
  "upd_ptk p f s \<equiv> s\<lparr>sr_tasks := (sr_tasks s)(p \<mapsto> f (ptk s p))\<rparr>"

section \<open>Functions of other files\<close>

text \<open>The stages of \<open>copy_process\<close> that concern other subsystems, in their order.\<close>

datatype stage = Before_files | Namespaces | Io_context | Thread_regs | Pid_alloc | Pidfd | Cgroup_can_fork | Attach

datatype unshare_act =
  Exit_sem | Exit_shm | Switch_namespaces | Commit_creds | Perf_namespaces | Put_cred

record 'x share_ops =
  o_alloc_task :: "'x shares \<Rightarrow> tid option"
  o_copy_fs_struct :: "nat \<Rightarrow> 'x shares \<Rightarrow> nat option \<times> 'x shares"
  o_free_fs_struct :: "nat \<Rightarrow> 'x shares \<Rightarrow> 'x shares"
  o_exit_fs :: "tid \<Rightarrow> 'x shares \<Rightarrow> 'x shares"
  o_dup_fd :: "nat \<Rightarrow> 'x shares \<Rightarrow> (int + nat) \<times> 'x shares"
  o_put_files_struct :: "nat \<Rightarrow> 'x shares \<Rightarrow> 'x shares"
  o_exit_files :: "tid \<Rightarrow> 'x shares \<Rightarrow> 'x shares"
  o_alloc_sighand :: "'x shares \<Rightarrow> nat option"
  o_flush_handlers :: "(nat \<Rightarrow> nat) \<Rightarrow> nat \<Rightarrow> nat"
  o_alloc_signal :: "'x shares \<Rightarrow> nat option"
  o_alloc_mm :: "'x shares \<Rightarrow> nat option"
  o_mm_contexts :: "nat \<Rightarrow> 'x shares \<Rightarrow> bool"
  o_dup_mmap :: "nat \<Rightarrow> nat \<Rightarrow> 'x shares \<Rightarrow> int \<times> 'x"
  o_module_get :: "nat \<Rightarrow> 'x shares \<Rightarrow> bool"
  o_mmget :: "nat \<Rightarrow> 'x shares \<Rightarrow> 'x shares"
  o_mmdrop :: "nat \<Rightarrow> 'x shares \<Rightarrow> 'x shares"
  o_exit_mmap :: "nat \<Rightarrow> 'x shares \<Rightarrow> 'x"
  o_stage :: "stage \<Rightarrow> u64 \<Rightarrow> tid \<Rightarrow> 'x shares \<Rightarrow> int \<times> 'x"
  o_undo :: "stage \<Rightarrow> tid \<Rightarrow> 'x shares \<Rightarrow> 'x"
  o_unshare_userns :: "u64 \<Rightarrow> 'x shares \<Rightarrow> int \<times> bool \<times> 'x"
  o_unshare_nsproxy :: "u64 \<Rightarrow> 'x shares \<Rightarrow> int \<times> bool \<times> 'x"
  o_set_cred_ucounts :: "'x shares \<Rightarrow> int \<times> 'x"
  o_act :: "unshare_act \<Rightarrow> 'x shares \<Rightarrow> 'x"

definition in_ext :: "('x shares \<Rightarrow> 'x) \<Rightarrow> 'x shares \<Rightarrow> 'x shares" where
  "in_ext f s = s\<lparr>sr_ext := f s\<rparr>"

section \<open>Address spaces\<close>

text \<open>\<open>__mmdrop\<close> ends an address space, \<open>__mmput\<close> its mappings.\<close>

(* fork.c 699-710: __mmdrop *)
definition mmdrop_free :: "nat \<Rightarrow> 'x shares \<Rightarrow> 'x shares" where
  "mmdrop_free m s = s\<lparr>sr_mm := (sr_mm s)(m := None)\<rparr>"

(* fork.c 1119-1138: __mmput *)
definition mmput_last :: "'x share_ops \<Rightarrow> nat \<Rightarrow> 'x shares \<Rightarrow> 'x shares" where
  "mmput_last ops m s = o_mmdrop ops m (in_ext (o_exit_mmap ops m) s)"

(* fork.c 1143-1149: mmput *)
definition mmput :: "'x share_ops \<Rightarrow> nat \<Rightarrow> 'x shares \<Rightarrow> 'x shares" where
  "mmput ops m s =
     (let q = the (sr_mm s m);
          n = mm_users q - 1;
          s = s\<lparr>sr_mm := (sr_mm s)(m \<mapsto> q\<lparr>mm_users := n\<rparr>)\<rparr>
      in if n = 0 then mmput_last ops m s else s)"

text \<open>A kernel thread's address space is borrowed and not given to others.\<close>

(* fork.c 1311-1325: get_task_mm *)
definition get_task_mm :: "'x share_ops \<Rightarrow> tid \<Rightarrow> 'x shares \<Rightarrow> nat option \<times> 'x shares" where
  "get_task_mm ops p s =
     (case pt_mm (ptk s p) of
        None \<Rightarrow> (None, s)
      | Some m \<Rightarrow> if pt_kthread (ptk s p) then (None, s) else (Some m, o_mmget ops m s))"

text \<open>The new address space of \<open>dup_mm\<close> is a copy with counters of its own; \<open>None\<close> when the page
  directory or the context cannot be made.\<close>

(* fork.c 1048-1102: mm_init *)
definition mm_init :: "'x share_ops \<Rightarrow> nat \<Rightarrow> 'x shares \<Rightarrow> bool \<times> 'x shares" where
  "mm_init ops m s =
     (let s = s\<lparr>sr_mm := (sr_mm s)(m \<mapsto> (the (sr_mm s m))\<lparr>mm_users := 1, mm_count := 1\<rparr>)\<rparr>
      in if \<not> o_mm_contexts ops m s then (False, s\<lparr>sr_mm := (sr_mm s)(m := None)\<rparr>) else (True, s))"

(* fork.c 1451-1486: dup_mm *)
definition dup_mm :: "'x share_ops \<Rightarrow> nat \<Rightarrow> 'x shares \<Rightarrow> nat option \<times> 'x shares" where
  "dup_mm ops oldmm s =
     (case o_alloc_mm ops s of
        None \<Rightarrow> (None, s)
      | Some m \<Rightarrow>
          let (ok, s) = mm_init ops m (s\<lparr>sr_mm := (sr_mm s)(m := sr_mm s oldmm)\<rparr>) in
          if \<not> ok then (None, s)
          else let (err, x) = o_dup_mmap ops m oldmm s;
                   s = s\<lparr>sr_ext := x\<rparr>;
                   q = the (sr_mm s m)
               in if err \<noteq> 0 \<or> (case mm_binfmt q of None \<Rightarrow> False | Some b \<Rightarrow> \<not> o_module_get ops b s)
                  then (None, mmput ops m (s\<lparr>sr_mm := (sr_mm s)(m \<mapsto> q\<lparr>mm_binfmt := None\<rparr>)\<rparr>))
                  else (Some m, s))"

section \<open>The copies of a fork\<close>

text \<open>Each function returns 0 or a negative error. The new task \<open>p\<close> starts as a copy of the current
  one, so a shared object is already in its field.\<close>

(* fork.c 1488-1526: copy_mm *)
definition copy_mm :: "'x share_ops \<Rightarrow> u64 \<Rightarrow> tid \<Rightarrow> 'x shares \<Rightarrow> int \<times> 'x shares" where
  "copy_mm ops clone_flags p s =
     (let s = upd_ptk p (\<lambda>t. t\<lparr>pt_mm := None, pt_active_mm := None\<rparr>) s in
      case pt_mm (ptk s (sr_current s)) of
        None \<Rightarrow> (0, s)
      | Some oldmm \<Rightarrow>
          let (mm, s) = (if has_flag clone_flags CLONE_VM then (Some oldmm, o_mmget ops oldmm s)
                         else dup_mm ops oldmm s)
          in case mm of None \<Rightarrow> (- ENOMEM, s)
             | Some m \<Rightarrow> (0, upd_ptk p (\<lambda>t. t\<lparr>pt_mm := Some m, pt_active_mm := Some m\<rparr>) s))"

(* fork.c 1528-1546: copy_fs *)
definition copy_fs :: "'x share_ops \<Rightarrow> u64 \<Rightarrow> tid \<Rightarrow> 'x shares \<Rightarrow> int \<times> 'x shares" where
  "copy_fs ops clone_flags p s =
     (let i = the (pt_fs (ptk s (sr_current s))); fs = the (sr_fs s i) in
      if has_flag clone_flags CLONE_FS then
        (if fs_in_exec fs then (- EAGAIN, s)
         else (0, s\<lparr>sr_fs := (sr_fs s)(i \<mapsto> fs\<lparr>fs_users := fs_users fs + 1\<rparr>)\<rparr>))
      else
        let (new, s) = o_copy_fs_struct ops i s; s = upd_ptk p (\<lambda>t. t\<lparr>pt_fs := new\<rparr>) s
        in (if new = None then - ENOMEM else 0, s))"

(* fork.c 1548-1570: copy_files *)
definition copy_files :: "'x share_ops \<Rightarrow> u64 \<Rightarrow> tid \<Rightarrow> 'x shares \<Rightarrow> int \<times> 'x shares" where
  "copy_files ops clone_flags p s =
     (case pt_files (ptk s (sr_current s)) of
        None \<Rightarrow> (0, s)
      | Some oldf \<Rightarrow>
          if has_flag clone_flags CLONE_FILES
          then (0, s\<lparr>sr_files := (sr_files s)(oldf \<mapsto> the (sr_files s oldf) + 1)\<rparr>)
          else case o_dup_fd ops oldf s of
            (Inl e, s) \<Rightarrow> (e, s)
          | (Inr newf, s) \<Rightarrow> (0, upd_ptk p (\<lambda>t. t\<lparr>pt_files := Some newf\<rparr>) s))"

(* fork.c 1598-1621: copy_sighand *)
definition copy_sighand :: "'x share_ops \<Rightarrow> u64 \<Rightarrow> tid \<Rightarrow> 'x shares \<Rightarrow> int \<times> 'x shares" where
  "copy_sighand ops clone_flags p s =
     (let i = the (pt_sighand (ptk s (sr_current s))); old = the (sr_sighand s i) in
      if has_flag clone_flags CLONE_SIGHAND
      then (0, s\<lparr>sr_sighand := (sr_sighand s)(i \<mapsto> old\<lparr>sh_count := sh_count old + 1\<rparr>)\<rparr>)
      else
        let new = o_alloc_sighand ops s; s = upd_ptk p (\<lambda>t. t\<lparr>pt_sighand := new\<rparr>) s in
        case new of None \<Rightarrow> (- ENOMEM, s)
        | Some j \<Rightarrow> (0, s\<lparr>sr_sighand := (sr_sighand s)(j \<mapsto> \<lparr>sh_count = 1, sh_action =
            (if has_flag clone_flags CLONE_CLEAR_SIGHAND then o_flush_handlers ops (sh_action old)
             else sh_action old)\<rparr>)\<rparr>))"

(* fork.c 1623-1633: __cleanup_sighand *)
definition cleanup_sighand :: "nat \<Rightarrow> 'x shares \<Rightarrow> 'x shares" where
  "cleanup_sighand i s =
     (let q = the (sr_sighand s i); n = sh_count q - 1
      in s\<lparr>sr_sighand := (sr_sighand s)(i := if n = 0 then None else Some (q\<lparr>sh_count := n\<rparr>))\<rparr>)"

(* fork.c 1647-1696: copy_signal *)
definition copy_signal :: "'x share_ops \<Rightarrow> u64 \<Rightarrow> tid \<Rightarrow> 'x shares \<Rightarrow> int \<times> 'x shares" where
  "copy_signal ops clone_flags p s =
     (if has_flag clone_flags CLONE_THREAD then (0, s)
      else
        let new = o_alloc_signal ops s; s = upd_ptk p (\<lambda>t. t\<lparr>pt_signal := new\<rparr>) s in
        case new of None \<Rightarrow> (- ENOMEM, s)
        | Some j \<Rightarrow> (0, s\<lparr>sr_signal := (sr_signal s)(j \<mapsto>
            \<lparr>sg_nr_threads = 1, sg_live = 1, sg_sigcnt = 1\<rparr>)\<rparr>))"

(* fork.c 729-740: free_signal_struct *)
definition free_signal_struct :: "nat \<Rightarrow> 'x shares \<Rightarrow> 'x shares" where
  "free_signal_struct i s = s\<lparr>sr_signal := (sr_signal s)(i := None)\<rparr>"

(* fork.c 742-746: put_signal_struct *)
definition put_signal_struct :: "nat \<Rightarrow> 'x shares \<Rightarrow> 'x shares" where
  "put_signal_struct i s =
     (let q = the (sr_signal s i); n = sg_sigcnt q - 1;
          s = s\<lparr>sr_signal := (sr_signal s)(i \<mapsto> q\<lparr>sg_sigcnt := n\<rparr>)\<rparr>
      in if n = 0 then free_signal_struct i s else s)"

section \<open>The labels of copy\_process\<close>

text \<open>A failure jumps to the label that undoes what was done before it, and falls through the ones
  below.\<close>

(* fork.c !2495-2498: copy_process (bad_fork_free) *)
definition bad_fork_free :: "tid \<Rightarrow> 'x shares \<Rightarrow> 'x shares" where
  "bad_fork_free p s = s\<lparr>sr_tasks := (sr_tasks s)(p := None)\<rparr>"

(* fork.c !2477-2494: copy_process (bad_fork_cleanup_semundo) *)
definition bad_fork_cleanup_semundo :: "'x share_ops \<Rightarrow> tid \<Rightarrow> 'x shares \<Rightarrow> 'x shares" where
  "bad_fork_cleanup_semundo ops p s = bad_fork_free p (in_ext (o_undo ops Before_files p) s)"

(* fork.c !2475-2476: copy_process (bad_fork_cleanup_files) *)
definition bad_fork_cleanup_files :: "'x share_ops \<Rightarrow> tid \<Rightarrow> 'x shares \<Rightarrow> 'x shares" where
  "bad_fork_cleanup_files ops p s = bad_fork_cleanup_semundo ops p (o_exit_files ops p s)"

(* fork.c !2473-2474: copy_process (bad_fork_cleanup_fs) *)
definition bad_fork_cleanup_fs :: "'x share_ops \<Rightarrow> tid \<Rightarrow> 'x shares \<Rightarrow> 'x shares" where
  "bad_fork_cleanup_fs ops p s = bad_fork_cleanup_files ops p (o_exit_fs ops p s)"

(* fork.c !2471-2472: copy_process (bad_fork_cleanup_sighand) *)
definition bad_fork_cleanup_sighand :: "'x share_ops \<Rightarrow> tid \<Rightarrow> 'x shares \<Rightarrow> 'x shares" where
  "bad_fork_cleanup_sighand ops p s =
     bad_fork_cleanup_fs ops p (cleanup_sighand (the (pt_sighand (ptk s p))) s)"

(* fork.c !2468-2470: copy_process (bad_fork_cleanup_signal) *)
definition bad_fork_cleanup_signal :: "'x share_ops \<Rightarrow> u64 \<Rightarrow> tid \<Rightarrow> 'x shares \<Rightarrow> 'x shares" where
  "bad_fork_cleanup_signal ops clone_flags p s =
     bad_fork_cleanup_sighand ops p
       (if \<not> has_flag clone_flags CLONE_THREAD then free_signal_struct (the (pt_signal (ptk s p))) s else s)"

(* fork.c !2463-2467: copy_process (bad_fork_cleanup_mm) *)
definition bad_fork_cleanup_mm :: "'x share_ops \<Rightarrow> u64 \<Rightarrow> tid \<Rightarrow> 'x shares \<Rightarrow> 'x shares" where
  "bad_fork_cleanup_mm ops clone_flags p s =
     bad_fork_cleanup_signal ops clone_flags p
       (case pt_mm (ptk s p) of None \<Rightarrow> s | Some m \<Rightarrow> mmput ops m s)"

text \<open>The stages of the other subsystems from the namespaces on; the later ones undo the earlier ones.\<close>

(* fork.c !2443-2462: copy_process (bad_fork_cancel_cgroup) *)
fun bad_fork_stages :: "'x share_ops \<Rightarrow> stage list \<Rightarrow> u64 \<Rightarrow> tid \<Rightarrow> 'x shares \<Rightarrow> 'x shares" where
  "bad_fork_stages ops [] clone_flags p s = bad_fork_cleanup_mm ops clone_flags p s"
| "bad_fork_stages ops (g # gs) clone_flags p s =
     bad_fork_stages ops gs clone_flags p (in_ext (o_undo ops g p) s)"

section \<open>The order of copy\_process\<close>

text \<open>The new task is made visible: its place in the process tree and in its thread group.\<close>

(* fork.c !2338-2351: copy_process (real_parent) *)
definition set_family :: "u64 \<Rightarrow> int \<Rightarrow> tid \<Rightarrow> 'x shares \<Rightarrow> 'x shares" where
  "set_family clone_flags sig p s =
     (let c = ptk s (sr_current s); l = (if has_flag clone_flags CLONE_THREAD then pt_leader c else p) in
      upd_ptk p (\<lambda>t.
        if has_flag clone_flags (CLONE_PARENT OR CLONE_THREAD) then
          t\<lparr>pt_leader := l, pt_parent := pt_parent c,
            pt_exit_signal := (if has_flag clone_flags CLONE_THREAD then - 1
                               else pt_exit_signal (ptk s (pt_leader c)))\<rparr>
        else t\<lparr>pt_leader := l, pt_parent := sr_current s, pt_exit_signal := sig\<rparr>) s)"

(* fork.c !2404-2422: copy_process (attach) *)
definition attach_task :: "u64 \<Rightarrow> bool \<Rightarrow> tid \<Rightarrow> 'x shares \<Rightarrow> 'x shares" where
  "attach_task clone_flags idle p s =
     (let i = the (pt_signal (ptk s (sr_current s))); q = the (sr_signal s i);
          s = (if idle then s else
                 (if has_flag clone_flags CLONE_THREAD
                  then s\<lparr>sr_signal := (sr_signal s)(i \<mapsto> q\<lparr>sg_nr_threads := sg_nr_threads q + 1,
                         sg_live := sg_live q + 1, sg_sigcnt := sg_sigcnt q + 1\<rparr>)\<rparr>
                  else s)\<lparr>sr_nr_threads := sr_nr_threads s + 1\<rparr>)
      in s\<lparr>sr_total_forks := sr_total_forks s + 1\<rparr>)"

text \<open>The stages from the namespaces on, by the subsystems of \<open>stage\<close>.\<close>

(* fork.c !2208-2227: copy_process (copy_namespaces) *)
fun copy_stages ::
    "'x share_ops \<Rightarrow> stage list \<Rightarrow> stage list \<Rightarrow> u64 \<Rightarrow> int \<Rightarrow> bool \<Rightarrow> tid \<Rightarrow> 'x shares \<Rightarrow> (int + tid) \<times> 'x shares"
where
  "copy_stages ops dn [] clone_flags sig idle p s =
     (Inr p, attach_task clone_flags idle p (set_family clone_flags sig p s))"
| "copy_stages ops dn (g # gs) clone_flags sig idle p s =
     (let (retval, x) = o_stage ops g clone_flags p s; s = s\<lparr>sr_ext := x\<rparr>
      in if retval \<noteq> 0 then (Inl retval, bad_fork_stages ops dn clone_flags p s)
         else copy_stages ops (g # dn) gs clone_flags sig idle p s)"

abbreviation late_stages :: "stage list" where
  "late_stages \<equiv> [Namespaces, Io_context, Thread_regs, Pid_alloc, Pidfd, Cgroup_can_fork, Attach]"

(* fork.c !2193-2207: copy_process (copy_files) *)
definition copy_resources ::
    "'x share_ops \<Rightarrow> u64 \<Rightarrow> int \<Rightarrow> bool \<Rightarrow> tid \<Rightarrow> 'x shares \<Rightarrow> (int + tid) \<times> 'x shares" where
  "copy_resources ops clone_flags sig idle p s =
     (let (retval, s) = copy_files ops clone_flags p s in
      if retval \<noteq> 0 then (Inl retval, bad_fork_cleanup_semundo ops p s) else
      let (retval, s) = copy_fs ops clone_flags p s in
      if retval \<noteq> 0 then (Inl retval, bad_fork_cleanup_files ops p s) else
      let (retval, s) = copy_sighand ops clone_flags p s in
      if retval \<noteq> 0 then (Inl retval, bad_fork_cleanup_fs ops p s) else
      let (retval, s) = copy_signal ops clone_flags p s in
      if retval \<noteq> 0 then (Inl retval, bad_fork_cleanup_sighand ops p s) else
      let (retval, s) = copy_mm ops clone_flags p s in
      if retval \<noteq> 0 then (Inl retval, bad_fork_cleanup_signal ops clone_flags p s) else
      copy_stages ops [] late_stages clone_flags sig idle p s)"

(* fork.c !2183-2192: copy_process (audit) *)
definition copy_process_resources ::
    "'x share_ops \<Rightarrow> u64 \<Rightarrow> int \<Rightarrow> bool \<Rightarrow> 'x shares \<Rightarrow> (int + tid) \<times> 'x shares" where
  "copy_process_resources ops clone_flags sig idle s =
     (case o_alloc_task ops s of
        None \<Rightarrow> (Inl (- ENOMEM), s)
      | Some p \<Rightarrow>
      let s = s\<lparr>sr_tasks := (sr_tasks s)(p := sr_tasks s (sr_current s))\<rparr>;
          (retval, x) = o_stage ops Before_files clone_flags p s;
          s = s\<lparr>sr_ext := x\<rparr> in
      if retval \<noteq> 0 then (Inl retval, bad_fork_free p s) else copy_resources ops clone_flags sig idle p s)"

section \<open>unshare\<close>

(* fork.c 3011-3027: unshare_fs *)
definition unshare_fs :: "'x share_ops \<Rightarrow> u64 \<Rightarrow> 'x shares \<Rightarrow> int \<times> nat option \<times> 'x shares" where
  "unshare_fs ops flags s =
     (case pt_fs (ptk s (sr_current s)) of
        None \<Rightarrow> (0, None, s)
      | Some i \<Rightarrow>
          if \<not> has_flag flags CLONE_FS \<or> fs_users (the (sr_fs s i)) = 1 then (0, None, s)
          else let (new, s) = o_copy_fs_struct ops i s
               in (if new = None then - ENOMEM else 0, new, s))"

(* fork.c 3032-3045: unshare_fd *)
definition unshare_fd :: "'x share_ops \<Rightarrow> u64 \<Rightarrow> 'x shares \<Rightarrow> int \<times> nat option \<times> 'x shares" where
  "unshare_fd ops flags s =
     (case pt_files (ptk s (sr_current s)) of
        None \<Rightarrow> (0, None, s)
      | Some f \<Rightarrow>
          if has_flag flags CLONE_FILES \<and> the (sr_files s f) > 1
          then (case o_dup_fd ops f s of (Inl e, s) \<Rightarrow> (e, None, s) | (Inr g, s) \<Rightarrow> (0, Some g, s))
          else (0, None, s))"

text \<open>What a flag implies.\<close>

(* fork.c !3064-3085: ksys_unshare (flags) *)
definition unshare_closure :: "u64 \<Rightarrow> u64" where
  "unshare_closure flags =
     (let flags = (if has_flag flags CLONE_NEWUSER then flags OR (CLONE_THREAD OR CLONE_FS) else flags);
          flags = (if has_flag flags CLONE_VM then flags OR CLONE_SIGHAND else flags);
          flags = (if has_flag flags CLONE_SIGHAND then flags OR CLONE_THREAD else flags)
      in if has_flag flags CLONE_NEWNS then flags OR CLONE_FS else flags)"

text \<open>The exchange of the structures; the old ones are returned, to be dropped, or \<open>None\<close> for a
  filesystem context that others still use.\<close>

(* fork.c !3134-3143: ksys_unshare (new_fs) *)
definition install_fs :: "nat option \<Rightarrow> 'x shares \<Rightarrow> nat option \<times> 'x shares" where
  "install_fs new_fs s =
     (case new_fs of None \<Rightarrow> (None, s)
      | Some j \<Rightarrow>
          let c = sr_current s; i = the (pt_fs (ptk s c)); fs = the (sr_fs s i); n = fs_users fs - 1;
              s = upd_ptk c (\<lambda>t. t\<lparr>pt_fs := Some j\<rparr>) s;
              s = s\<lparr>sr_fs := (sr_fs s)(i \<mapsto> fs\<lparr>fs_users := n\<rparr>)\<rparr>
          in (if n \<noteq> 0 then None else Some i, s))"

(* fork.c !3145-3149: ksys_unshare (new_fd) *)
definition install_fd :: "nat option \<Rightarrow> 'x shares \<Rightarrow> nat option \<times> 'x shares" where
  "install_fd new_fd s =
     (case new_fd of None \<Rightarrow> (None, s)
      | Some g \<Rightarrow>
          let c = sr_current s in (pt_files (ptk s c), upd_ptk c (\<lambda>t. t\<lparr>pt_files := Some g\<rparr>) s))"

(* fork.c !3162-3176: ksys_unshare (bad_unshare_cleanup_cred) *)
definition unshare_cleanup_fd :: "'x share_ops \<Rightarrow> nat option \<Rightarrow> nat option \<Rightarrow> 'x shares \<Rightarrow> 'x shares" where
  "unshare_cleanup_fd ops new_fd new_fs s =
     (let s = (case new_fd of None \<Rightarrow> s | Some f \<Rightarrow> o_put_files_struct ops f s)
      in case new_fs of None \<Rightarrow> s | Some i \<Rightarrow> o_free_fs_struct ops i s)"

(* fork.c !3116-3130: ksys_unshare (namespaces) *)
definition unshare_acts :: "'x share_ops \<Rightarrow> u64 \<Rightarrow> bool \<Rightarrow> 'x shares \<Rightarrow> 'x shares" where
  "unshare_acts ops flags new_ns s =
     (let s = (if has_flag flags (CLONE_NEWIPC OR CLONE_SYSVSEM) then in_ext (o_act ops Exit_sem) s else s);
          s = (if has_flag flags CLONE_NEWIPC then in_ext (o_act ops Exit_shm) s else s)
      in if new_ns then in_ext (o_act ops Switch_namespaces) s else s)"

(* fork.c !3131-3160: ksys_unshare (install) *)
definition unshare_install ::
    "'x share_ops \<Rightarrow> bool \<Rightarrow> nat option \<Rightarrow> nat option \<Rightarrow> 'x shares \<Rightarrow> nat option \<times> nat option \<times> 'x shares" where
  "unshare_install ops new_cred new_fs new_fd s =
     (let (old_fs, s) = install_fs new_fs s;
          (old_fd, s) = install_fd new_fd s;
          s = (if new_cred then in_ext (o_act ops Commit_creds) s else s)
      in (old_fd, old_fs, in_ext (o_act ops Perf_namespaces) s))"

(* fork.c 3055-3175: ksys_unshare *)
definition ksys_unshare ::
    "('y, 'l, 'm) fork_env_scheme \<Rightarrow> ('y, 'l) kernel \<Rightarrow> 'x share_ops \<Rightarrow> u64 \<Rightarrow> 'x shares \<Rightarrow> int \<times> 'x shares" where
  "ksys_unshare env k ops flags s =
     (let flags = unshare_closure flags;
          err = check_unshare_flags env k flags in
      if err \<noteq> 0 then (err, s) else
      let (err, new_fs, s) = unshare_fs ops flags s in
      if err \<noteq> 0 then (err, s) else
      let (err, new_fd, s) = unshare_fd ops flags s in
      if err \<noteq> 0 then (err, unshare_cleanup_fd ops None new_fs s) else
      let (err, new_cred, x) = o_unshare_userns ops flags s; s = s\<lparr>sr_ext := x\<rparr> in
      if err \<noteq> 0 then (err, unshare_cleanup_fd ops new_fd new_fs s) else
      let (err, new_ns, x) = o_unshare_nsproxy ops flags s; s = s\<lparr>sr_ext := x\<rparr>;
          put = (\<lambda>s. if new_cred then in_ext (o_act ops Put_cred) s else s) in
      if err \<noteq> 0 then (err, unshare_cleanup_fd ops new_fd new_fs (put s)) else
      let (err, x) = (if new_cred then o_set_cred_ucounts ops s else (0, sr_ext s)); s = s\<lparr>sr_ext := x\<rparr> in
      if err \<noteq> 0 then (err, unshare_cleanup_fd ops new_fd new_fs (put s)) else
      let (old_fd, old_fs, s) = unshare_install ops new_cred new_fs new_fd (unshare_acts ops flags new_ns s)
      in (0, unshare_cleanup_fd ops old_fd old_fs s))"

(* fork.c 3188-3204: unshare_files *)
definition unshare_files :: "'x share_ops \<Rightarrow> 'x shares \<Rightarrow> int \<times> 'x shares" where
  "unshare_files ops s =
     (let (error, copy, s) = unshare_fd ops CLONE_FILES s in
      if error \<noteq> 0 \<or> copy = None then (error, s)
      else let (old, s) = install_fd copy s in (0, case old of None \<Rightarrow> s | Some f \<Rightarrow> o_put_files_struct ops f s))"

end
