(* ===== verification/Fork_Share_Props.thy ===== *)
theory Fork_Share_Props
  imports Fork_Share Full_Machine
begin

text \<open>
  Properties of the shared structures of a fork: the contract of the functions of other files as the
  locale \<open>share_api\<close>, the counters against the tasks that refer to an object, the undoing of a failed
  fork, and what the threads of a group share.
\<close>

section \<open>The contract of the other files\<close>

locale share_api =
  fixes ops :: "'x share_ops"
  assumes alloc_task: "\<And>s p. o_alloc_task ops s = Some p \<Longrightarrow> sr_tasks s p = None"
    and copy_fs_none: "\<And>i s t. o_copy_fs_struct ops i s = (None, t) \<Longrightarrow> \<exists>x. t = s\<lparr>sr_ext := x\<rparr>"
    and copy_fs_some: "\<And>i s j t. o_copy_fs_struct ops i s = (Some j, t) \<Longrightarrow> sr_fs s j = None \<and>
      (\<exists>x. t = s\<lparr>sr_fs := (sr_fs s)(j \<mapsto> \<lparr>fs_users = 1, fs_in_exec = False\<rparr>), sr_ext := x\<rparr>)"
    and free_fs: "\<And>i s. \<exists>x. o_free_fs_struct ops i s = s\<lparr>sr_fs := (sr_fs s)(i := None), sr_ext := x\<rparr>"
    and exit_fs: "\<And>s p i f. pt_fs (ptk s p) = Some i \<Longrightarrow> sr_fs s i = Some f \<Longrightarrow>
      \<exists>x. o_exit_fs ops p s = s\<lparr>sr_tasks := (sr_tasks s)(p \<mapsto> (ptk s p)\<lparr>pt_fs := None\<rparr>),
        sr_fs := (sr_fs s)(i := if fs_users f = 1 then None else Some (f\<lparr>fs_users := fs_users f - 1\<rparr>)),
        sr_ext := x\<rparr>"
    and dup_fd_err: "\<And>f s e t. o_dup_fd ops f s = (Inl e, t) \<Longrightarrow> e \<noteq> 0 \<and> (\<exists>x. t = s\<lparr>sr_ext := x\<rparr>)"
    and dup_fd_ok: "\<And>f s g t. o_dup_fd ops f s = (Inr g, t) \<Longrightarrow> sr_files s g = None \<and>
      (\<exists>x. t = s\<lparr>sr_files := (sr_files s)(g \<mapsto> 1), sr_ext := x\<rparr>)"
    and put_files: "\<And>s f n. sr_files s f = Some n \<Longrightarrow>
      \<exists>x. o_put_files_struct ops f s =
        s\<lparr>sr_files := (sr_files s)(f := if n = 1 then None else Some (n - 1)), sr_ext := x\<rparr>"
    and exit_files: "\<And>p s. o_exit_files ops p s =
      (case pt_files (ptk s p) of None \<Rightarrow> s
       | Some f \<Rightarrow> o_put_files_struct ops f (upd_ptk p (\<lambda>t. t\<lparr>pt_files := None\<rparr>) s))"
    and alloc_sighand: "\<And>s i. o_alloc_sighand ops s = Some i \<Longrightarrow> sr_sighand s i = None"
    and alloc_signal: "\<And>s i. o_alloc_signal ops s = Some i \<Longrightarrow> sr_signal s i = None"
    and alloc_mm: "\<And>s i. o_alloc_mm ops s = Some i \<Longrightarrow> sr_mm s i = None"
    and mmget: "\<And>s m q. sr_mm s m = Some q \<Longrightarrow>
      \<exists>x. o_mmget ops m s = s\<lparr>sr_mm := (sr_mm s)(m \<mapsto> q\<lparr>mm_users := mm_users q + 1\<rparr>), sr_ext := x\<rparr>"
    and mmdrop: "\<And>s m q. sr_mm s m = Some q \<Longrightarrow>
      \<exists>x. o_mmdrop ops m s = (if mm_count q = 1 then mmdrop_free m s
        else s\<lparr>sr_mm := (sr_mm s)(m \<mapsto> q\<lparr>mm_count := mm_count q - 1\<rparr>)\<rparr>)\<lparr>sr_ext := x\<rparr>"

section \<open>Counters\<close>

definition users :: "(ptask \<Rightarrow> nat option) \<Rightarrow> (tid \<Rightarrow> ptask option) \<Rightarrow> nat \<Rightarrow> tid set" where
  "users ptr tasks i = {p. \<exists>t. tasks p = Some t \<and> ptr t = Some i}"

text \<open>Every object is referred to, its counter is the number of tasks that do, and no task refers to
  one that is not there.\<close>

definition counted ::
    "('o \<Rightarrow> int) \<Rightarrow> (nat \<Rightarrow> 'o option) \<Rightarrow> (ptask \<Rightarrow> nat option) \<Rightarrow> (tid \<Rightarrow> ptask option) \<Rightarrow> bool" where
  "counted cnt tab ptr tasks \<longleftrightarrow>
     (\<forall>i. case tab i of None \<Rightarrow> users ptr tasks i = {}
        | Some ob \<Rightarrow> users ptr tasks i \<noteq> {} \<and> cnt ob = int (card (users ptr tasks i)))"

lemma counted_iff:
  "counted cnt tab ptr tasks \<longleftrightarrow> (\<forall>i. tab i = None \<longrightarrow> users ptr tasks i = {}) \<and>
     (\<forall>i ob. tab i = Some ob \<longrightarrow> users ptr tasks i \<noteq> {} \<and> cnt ob = int (card (users ptr tasks i)))"
  unfolding counted_def by (auto split: option.splits)

definition shares_ok :: "'x shares \<Rightarrow> bool" where
  "shares_ok s \<longleftrightarrow> finite (dom (sr_tasks s)) \<and>
     counted fs_users (sr_fs s) pt_fs (sr_tasks s) \<and> counted id (sr_files s) pt_files (sr_tasks s) \<and>
     counted sh_count (sr_sighand s) pt_sighand (sr_tasks s) \<and>
     counted sg_nr_threads (sr_signal s) pt_signal (sr_tasks s) \<and>
     counted mm_users (sr_mm s) pt_mm (sr_tasks s) \<and>
     (\<forall>i q. sr_signal s i = Some q \<longrightarrow> sg_live q = sg_nr_threads q \<and> sg_sigcnt q = sg_nr_threads q) \<and>
     (\<exists>c. sr_tasks s (sr_current s) = Some c \<and> pt_fs c \<noteq> None \<and> pt_sighand c \<noteq> None \<and> pt_signal c \<noteq> None)"

lemma shares_okD:
  assumes "shares_ok s"
  shows "finite (dom (sr_tasks s))" "counted fs_users (sr_fs s) pt_fs (sr_tasks s)"
    "counted id (sr_files s) pt_files (sr_tasks s)" "counted sh_count (sr_sighand s) pt_sighand (sr_tasks s)"
    "counted sg_nr_threads (sr_signal s) pt_signal (sr_tasks s)" "counted mm_users (sr_mm s) pt_mm (sr_tasks s)"
    "\<And>i q. sr_signal s i = Some q \<Longrightarrow> sg_live q = sg_nr_threads q \<and> sg_sigcnt q = sg_nr_threads q"
    "\<exists>c. sr_tasks s (sr_current s) = Some c \<and> pt_fs c \<noteq> None \<and> pt_sighand c \<noteq> None \<and> pt_signal c \<noteq> None"
  using assms by (auto simp: shares_ok_def)

lemma users_upd:
  "users ptr (tasks(p \<mapsto> t)) i = (if ptr t = Some i then insert p (users ptr tasks i) else users ptr tasks i - {p})"
  by (auto simp: users_def)

lemma users_subset: "users ptr tasks i \<subseteq> dom tasks"
  by (auto simp: users_def)

lemma counted_exists:
  assumes "counted cnt tab ptr tasks" and "tasks p = Some t" and "ptr t = Some i" and "finite (dom tasks)"
  obtains ob where "tab i = Some ob" and "cnt ob = int (card (users ptr tasks i))" and "cnt ob \<ge> 1"
proof -
  have p: "p \<in> users ptr tasks i" using assms(2,3) by (auto simp: users_def)
  have "finite (users ptr tasks i)" using finite_subset[OF users_subset assms(4)] .
  with p have "card (users ptr tasks i) \<ge> 1" by (metis card_0_eq empty_iff less_one not_le)
  moreover note c = assms(1)[unfolded counted_iff, THEN conjunct1, rule_format, of i]
    assms(1)[unfolded counted_iff, THEN conjunct2, rule_format, of i]
  ultimately show ?thesis using p that by (cases "tab i") auto
qed

lemma counted_pos:
  assumes "counted cnt tab ptr tasks" and "finite (dom tasks)" and "tasks p = Some t" and "ptr t = Some i"
  shows "\<exists>ob. tab i = Some ob \<and> cnt ob \<ge> 1"
  by (rule counted_exists[OF assms(1,3,4,2)]) blast

text \<open>A new task that refers to nothing, to a new object, or to one more time an old one.\<close>

lemma counted_new:
  assumes "counted cnt tab ptr tasks" and "tasks p = None" and "finite (dom tasks)"
  shows "ptr t = None \<Longrightarrow> counted cnt tab ptr (tasks(p \<mapsto> t))"
    and "ptr t = Some i \<Longrightarrow> tab i = None \<Longrightarrow> cnt ob = 1 \<Longrightarrow> counted cnt (tab(i \<mapsto> ob)) ptr (tasks(p \<mapsto> t))"
    and "ptr t = Some i \<Longrightarrow> tab i = Some ob \<Longrightarrow> cnt ob' = cnt ob + 1 \<Longrightarrow>
      counted cnt (tab(i \<mapsto> ob')) ptr (tasks(p \<mapsto> t))"
proof -
  have out: "p \<notin> users ptr tasks i" "users ptr tasks i - {p} = users ptr tasks i" for i
    using assms(2) by (auto simp: users_def)
  have fin: "finite (users ptr tasks i)" for i using finite_subset[OF users_subset assms(3)] .
  note c = assms(1)[unfolded counted_iff, THEN conjunct1, rule_format]
    assms(1)[unfolded counted_iff, THEN conjunct2, rule_format]
  show "counted cnt tab ptr (tasks(p \<mapsto> t))" if "ptr t = None"
    using assms(1) that by (simp add: counted_iff users_upd out)
  show "counted cnt (tab(i \<mapsto> ob)) ptr (tasks(p \<mapsto> t))" if "ptr t = Some i" "tab i = None" "cnt ob = 1"
    using c(1)[of i] that assms(1) by (simp add: counted_iff users_upd out)
  show "counted cnt (tab(i \<mapsto> ob')) ptr (tasks(p \<mapsto> t))"
    if "ptr t = Some i" "tab i = Some ob" "cnt ob' = cnt ob + 1"
    using c(2)[of i ob] that assms(1) fin out(1) by (simp add: counted_iff users_upd out)
qed

section \<open>Each copy and its undoing\<close>

text \<open>The states differ in the task \<open>p\<close> and outside the tables only.\<close>

definition off :: "tid \<Rightarrow> 'x shares \<Rightarrow> 'x shares \<Rightarrow> bool" where
  "off p s t \<longleftrightarrow> sr_fs t = sr_fs s \<and> sr_files t = sr_files s \<and> sr_sighand t = sr_sighand s \<and>
     sr_signal t = sr_signal s \<and> sr_mm t = sr_mm s \<and> sr_nr_threads t = sr_nr_threads s \<and>
     sr_total_forks t = sr_total_forks s \<and> sr_current t = sr_current s \<and> sr_tasks t p \<noteq> None \<and>
     (\<forall>q. q \<noteq> p \<longrightarrow> sr_tasks t q = sr_tasks s q)"

lemma off_refl: "sr_tasks s p = Some q \<Longrightarrow> off p s s"
  by (simp add: off_def)

lemma off_trans: "off p s t \<Longrightarrow> off p t u \<Longrightarrow> off p s u"
  by (simp add: off_def)

context share_api
begin

lemma copy_fs_0:
  assumes "copy_fs ops fl p s = (0, t)" and "sr_tasks s (sr_current s) = Some c" and "sr_tasks s p = Some q"
    and "p \<noteq> sr_current s" and "pt_fs c = Some i" and "pt_fs q = Some i" and "sr_fs s i = Some f"
  obtains j g x where "t = s\<lparr>sr_tasks := (sr_tasks s)(p \<mapsto> q\<lparr>pt_fs := Some j\<rparr>),
      sr_fs := (sr_fs s)(j \<mapsto> g), sr_ext := x\<rparr>"
    and "if has_flag fl CLONE_FS then j = i \<and> g = f\<lparr>fs_users := fs_users f + 1\<rparr>
         else sr_fs s j = None \<and> fs_users g = 1"
proof (cases "has_flag fl CLONE_FS")
  case True
  have q: "q\<lparr>pt_fs := Some i\<rparr> = q" using assms(6) by simp
  have "t = s\<lparr>sr_tasks := (sr_tasks s)(p \<mapsto> q\<lparr>pt_fs := Some i\<rparr>),
      sr_fs := (sr_fs s)(i \<mapsto> f\<lparr>fs_users := fs_users f + 1\<rparr>), sr_ext := sr_ext s\<rparr>"
    unfolding q using assms(1,2,3,5,7) True by (simp add: copy_fs_def Let_def EAGAIN_def fun_upd_idem split: if_splits)
  then show ?thesis by (rule that) (simp add: True)
next
  case False
  obtain new u where new: "o_copy_fs_struct ops i s = (new, u)" by (cases "o_copy_fs_struct ops i s")
  with assms(1,2,5) False obtain j where j: "new = Some j" "t = upd_ptk p (\<lambda>t. t\<lparr>pt_fs := Some j\<rparr>) u"
    by (auto simp: copy_fs_def Let_def ENOMEM_def split: if_splits)
  obtain x where x: "sr_fs s j = None" "u = s\<lparr>sr_fs := (sr_fs s)(j \<mapsto> \<lparr>fs_users = 1, fs_in_exec = False\<rparr>), sr_ext := x\<rparr>"
    using copy_fs_some new j(1) by blast
  have "t = s\<lparr>sr_tasks := (sr_tasks s)(p \<mapsto> q\<lparr>pt_fs := Some j\<rparr>),
      sr_fs := (sr_fs s)(j \<mapsto> \<lparr>fs_users = 1, fs_in_exec = False\<rparr>), sr_ext := x\<rparr>"
    using j(2) x(2) assms(3) by simp
  then show ?thesis by (rule that) (simp add: False x(1))
qed

lemma copy_fs_err:
  assumes "copy_fs ops fl p s = (e, t)" and "e \<noteq> 0" and "sr_tasks s (sr_current s) = Some c" and "sr_tasks s p = Some q"
    and "pt_fs c = Some i"
  shows "off p s t \<and> pt_files (ptk t p) = pt_files q"
proof (cases "has_flag fl CLONE_FS")
  case True
  with assms show ?thesis by (auto simp: copy_fs_def Let_def off_def split: if_splits)
next
  case False
  obtain new u where new: "o_copy_fs_struct ops i s = (new, u)" by (cases "o_copy_fs_struct ops i s")
  with assms(1-3,5) False have n: "new = None" "t = upd_ptk p (\<lambda>t. t\<lparr>pt_fs := None\<rparr>) u"
    by (auto simp: copy_fs_def Let_def split: if_splits)
  obtain x where "u = s\<lparr>sr_ext := x\<rparr>" using copy_fs_none new n(1) by blast
  with n(2) assms(4) show ?thesis by (simp add: off_def)
qed

lemma exit_fs_undoes:
  assumes "off p (s\<lparr>sr_tasks := (sr_tasks s)(p \<mapsto> q), sr_fs := (sr_fs s)(j \<mapsto> g), sr_ext := x\<rparr>) u"
    and "pt_fs (ptk u p) = Some j" and "sr_fs s i = Some f" and "fs_users f \<ge> 1"
    and "if has_flag fl CLONE_FS then j = i \<and> g = f\<lparr>fs_users := fs_users f + 1\<rparr>
         else sr_fs s j = None \<and> fs_users g = 1"
  shows "off p s (o_exit_fs ops p u) \<and> ptk (o_exit_fs ops p u) p = (ptk u p)\<lparr>pt_fs := None\<rparr>"
proof -
  have u: "sr_fs u = (sr_fs s)(j \<mapsto> g)" using assms(1) by (simp add: off_def)
  obtain y where y: "o_exit_fs ops p u = u\<lparr>sr_tasks := (sr_tasks u)(p \<mapsto> (ptk u p)\<lparr>pt_fs := None\<rparr>),
      sr_fs := (sr_fs u)(j := if fs_users g = 1 then None else Some (g\<lparr>fs_users := fs_users g - 1\<rparr>)), sr_ext := y\<rparr>"
    using exit_fs[OF assms(2), of g] u by auto
  have "(sr_fs s)(j := if fs_users g = 1 then None else Some (g\<lparr>fs_users := fs_users g - 1\<rparr>)) = sr_fs s"
    using assms(3-5) by (auto simp: fun_upd_idem split: if_splits)
  then show ?thesis using assms(1) y u by (simp add: off_def)
qed

lemma copy_files_0:
  assumes "copy_files ops fl p s = (0, t)" and "sr_tasks s (sr_current s) = Some c" and "sr_tasks s p = Some q"
    and "p \<noteq> sr_current s" and "pt_files q = pt_files c" and "\<forall>i. pt_files c = Some i \<longrightarrow> (\<exists>n. sr_files s i = Some n)"
  obtains "pt_files c = None" and "t = s"
  | i n j m x where "pt_files c = Some i" and "sr_files s i = Some n"
    and "t = s\<lparr>sr_tasks := (sr_tasks s)(p \<mapsto> q\<lparr>pt_files := Some j\<rparr>), sr_files := (sr_files s)(j \<mapsto> m), sr_ext := x\<rparr>"
    and "if has_flag fl CLONE_FILES then j = i \<and> m = n + 1 else sr_files s j = None \<and> m = 1"
proof (cases "pt_files c")
  case None
  with assms(1,2) that(1) show ?thesis by (simp add: copy_files_def)
next
  case (Some i)
  obtain n where n: "sr_files s i = Some n" using assms(6) Some by blast
  show ?thesis
  proof (cases "has_flag fl CLONE_FILES")
    case True
    have q: "q\<lparr>pt_files := Some i\<rparr> = q" using assms(5) Some by simp
    have "t = s\<lparr>sr_tasks := (sr_tasks s)(p \<mapsto> q\<lparr>pt_files := Some i\<rparr>), sr_files := (sr_files s)(i \<mapsto> n + 1), sr_ext := sr_ext s\<rparr>"
    proof -
      have "t = s\<lparr>sr_files := (sr_files s)(i \<mapsto> n + 1)\<rparr>" using assms(1,2) True Some n by (simp add: copy_files_def)
      then show ?thesis unfolding q using assms(3) by (simp add: fun_upd_idem)
    qed
    with Some n show ?thesis by (rule that(2)) (simp add: True)
  next
    case False
    obtain r u where r: "o_dup_fd ops i s = (r, u)" by (cases "o_dup_fd ops i s")
    show ?thesis
    proof (cases r)
      case (Inl e)
      with r dup_fd_err assms(1,2) Some False show ?thesis by (auto simp: copy_files_def)
    next
      case (Inr g)
      with r obtain x where x: "sr_files s g = None" "u = s\<lparr>sr_files := (sr_files s)(g \<mapsto> 1), sr_ext := x\<rparr>"
        using dup_fd_ok by blast
      have "t = s\<lparr>sr_tasks := (sr_tasks s)(p \<mapsto> q\<lparr>pt_files := Some g\<rparr>), sr_files := (sr_files s)(g \<mapsto> 1), sr_ext := x\<rparr>"
        using assms(1-3) r Inr x(2) False Some by (auto simp: copy_files_def)
      with Some n show ?thesis by (rule that(2)) (simp add: False x(1))
    qed
  qed
qed

lemma copy_files_err:
  assumes "copy_files ops fl p s = (e, t)" and "e \<noteq> 0" and "sr_tasks s (sr_current s) = Some c" and "sr_tasks s p = Some q"
  shows "off p s t"
proof -
  obtain i where i: "pt_files c = Some i" using assms(1-3) by (cases "pt_files c") (auto simp: copy_files_def)
  obtain r u where r: "o_dup_fd ops i s = (r, u)" by (cases "o_dup_fd ops i s")
  with assms i obtain e where e: "r = Inl e" "t = u"
    by (auto simp: copy_files_def split: if_splits sum.splits)
  obtain x where "u = s\<lparr>sr_ext := x\<rparr>" using dup_fd_err r e(1) by blast
  with e(2) assms(4) show ?thesis by (simp add: off_def)
qed

lemma exit_files_undoes:
  assumes "off p (s\<lparr>sr_tasks := (sr_tasks s)(p \<mapsto> q), sr_files := (sr_files s)(j \<mapsto> m), sr_ext := x\<rparr>) u"
    and "pt_files (ptk u p) = Some j" and "sr_files s i = Some n" and "n \<ge> 1"
    and "if has_flag fl CLONE_FILES then j = i \<and> m = n + 1 else sr_files s j = None \<and> m = 1"
  shows "off p s (o_exit_files ops p u)"
proof -
  have u: "sr_files u = (sr_files s)(j \<mapsto> m)" using assms(1) by (simp add: off_def)
  obtain y where y: "o_exit_files ops p u = (upd_ptk p (\<lambda>t. t\<lparr>pt_files := None\<rparr>) u)
      \<lparr>sr_files := (sr_files u)(j := if m = 1 then None else Some (m - 1)), sr_ext := y\<rparr>"
    using put_files[of "upd_ptk p (\<lambda>t. t\<lparr>pt_files := None\<rparr>) u" j m] u exit_files[of p u] assms(2) by auto
  have "(sr_files s)(j := if m = 1 then None else Some (m - 1)) = sr_files s"
    using assms(3-5) by (auto simp: fun_upd_idem split: if_splits)
  then show ?thesis using assms(1) y u by (simp add: off_def)
qed

lemma copy_sighand_0:
  assumes "copy_sighand ops fl p s = (0, t)" and "sr_tasks s (sr_current s) = Some c" and "sr_tasks s p = Some q"
    and "pt_sighand c = Some i" and "pt_sighand q = Some i" and "sr_sighand s i = Some f"
  obtains j g x where "t = s\<lparr>sr_tasks := (sr_tasks s)(p \<mapsto> q\<lparr>pt_sighand := Some j\<rparr>),
      sr_sighand := (sr_sighand s)(j \<mapsto> g), sr_ext := x\<rparr>"
    and "if has_flag fl CLONE_SIGHAND then j = i \<and> g = f\<lparr>sh_count := sh_count f + 1\<rparr>
         else sr_sighand s j = None \<and> sh_count g = 1"
proof (cases "has_flag fl CLONE_SIGHAND")
  case True
  have q: "q\<lparr>pt_sighand := Some i\<rparr> = q" using assms(5) by simp
  have "t = s\<lparr>sr_sighand := (sr_sighand s)(i \<mapsto> f\<lparr>sh_count := sh_count f + 1\<rparr>)\<rparr>"
    using assms(1,2,4,6) True by (simp add: copy_sighand_def Let_def)
  then have "t = s\<lparr>sr_tasks := (sr_tasks s)(p \<mapsto> q\<lparr>pt_sighand := Some i\<rparr>),
      sr_sighand := (sr_sighand s)(i \<mapsto> f\<lparr>sh_count := sh_count f + 1\<rparr>), sr_ext := sr_ext s\<rparr>"
    unfolding q using assms(3) by (simp add: fun_upd_idem)
  then show ?thesis by (rule that) (simp add: True)
next
  case False
  show ?thesis
  proof (cases "o_alloc_sighand ops s")
    case None
    with assms(1) False show ?thesis by (simp add: copy_sighand_def Let_def ENOMEM_def)
  next
    case (Some j)
    show ?thesis
      by (rule that[where j = j and x = "sr_ext s" and g = "\<lparr>sh_count = 1, sh_action = (if has_flag fl CLONE_CLEAR_SIGHAND
          then o_flush_handlers ops (sh_action f) else sh_action f)\<rparr>"])
        (use assms False Some alloc_sighand[OF Some] in \<open>auto simp: copy_sighand_def Let_def\<close>)
  qed
qed

lemma copy_sighand_err:
  assumes "copy_sighand ops fl p s = (e, t)" and "e \<noteq> 0" and "sr_tasks s p = Some q"
  shows "off p s t \<and> pt_files (ptk t p) = pt_files q \<and> pt_fs (ptk t p) = pt_fs q"
  using assms by (auto simp: copy_sighand_def Let_def off_def split: if_splits option.splits)

lemma cleanup_sighand_undoes:
  assumes "off p (s\<lparr>sr_tasks := (sr_tasks s)(p \<mapsto> q), sr_sighand := (sr_sighand s)(j \<mapsto> g), sr_ext := x\<rparr>) u"
    and "sr_sighand s i = Some f" and "sh_count f \<ge> 1"
    and "if has_flag fl CLONE_SIGHAND then j = i \<and> g = f\<lparr>sh_count := sh_count f + 1\<rparr>
         else sr_sighand s j = None \<and> sh_count g = 1"
  shows "off p s (cleanup_sighand j u) \<and> sr_tasks (cleanup_sighand j u) = sr_tasks u"
proof -
  have u: "sr_sighand u = (sr_sighand s)(j \<mapsto> g)" using assms(1) by (simp add: off_def)
  have "(sr_sighand s)(j := if sh_count g = 1 then None else Some (g\<lparr>sh_count := sh_count g - 1\<rparr>)) = sr_sighand s"
    using assms(2-4) by (auto simp: fun_upd_idem split: if_splits)
  then show ?thesis using assms(1) u by (simp add: off_def cleanup_sighand_def Let_def)
qed

lemma copy_signal_0:
  assumes "copy_signal ops fl p s = (0, t)" and "sr_tasks s p = Some q"
  obtains "has_flag fl CLONE_THREAD" and "t = s"
  | j where "\<not> has_flag fl CLONE_THREAD" and "sr_signal s j = None"
    and "t = s\<lparr>sr_tasks := (sr_tasks s)(p \<mapsto> q\<lparr>pt_signal := Some j\<rparr>),
      sr_signal := (sr_signal s)(j \<mapsto> \<lparr>sg_nr_threads = 1, sg_live = 1, sg_sigcnt = 1\<rparr>)\<rparr>"
proof (cases "has_flag fl CLONE_THREAD")
  case True
  with assms(1) that(1) show ?thesis by (simp add: copy_signal_def)
next
  case False
  show ?thesis
  proof (cases "o_alloc_signal ops s")
    case None
    with assms(1) False show ?thesis by (simp add: copy_signal_def Let_def ENOMEM_def)
  next
    case (Some j)
    with assms False alloc_signal[OF Some] that(2) show ?thesis by (simp add: copy_signal_def Let_def)
  qed
qed

lemma copy_signal_err:
  assumes "copy_signal ops fl p s = (e, t)" and "e \<noteq> 0" and "sr_tasks s p = Some q"
  shows "off p s t \<and> pt_files (ptk t p) = pt_files q \<and> pt_fs (ptk t p) = pt_fs q \<and> pt_sighand (ptk t p) = pt_sighand q"
  using assms by (auto simp: copy_signal_def Let_def off_def split: if_splits option.splits)

text \<open>\<open>mmput\<close> on a counter that stays above zero, and on a new address space.\<close>

lemma mmput_shared:
  assumes "sr_mm s m = Some q" and "mm_users q \<noteq> 1"
  shows "mmput ops m s = s\<lparr>sr_mm := (sr_mm s)(m \<mapsto> q\<lparr>mm_users := mm_users q - 1\<rparr>)\<rparr>"
  using assms by (simp add: mmput_def Let_def)

lemma mmput_new:
  assumes "sr_mm s m = Some q" and "mm_users q = 1" and "mm_count q = 1"
  obtains x where "mmput ops m s = s\<lparr>sr_mm := (sr_mm s)(m := None), sr_ext := x\<rparr>"
proof -
  let ?s = "in_ext (o_exit_mmap ops m) (s\<lparr>sr_mm := (sr_mm s)(m \<mapsto> q\<lparr>mm_users := 0\<rparr>)\<rparr>)"
  have "sr_mm ?s m = Some (q\<lparr>mm_users := 0\<rparr>)" by (simp add: in_ext_def)
  from mmdrop[OF this] assms(3) obtain x where "o_mmdrop ops m ?s = (mmdrop_free m ?s)\<lparr>sr_ext := x\<rparr>" by auto
  then have "mmput ops m s = s\<lparr>sr_mm := (sr_mm s)(m := None), sr_ext := x\<rparr>"
    using assms by (simp add: mmput_def Let_def mmput_last_def mmdrop_free_def in_ext_def)
  then show ?thesis using that by blast
qed

text \<open>A new address space has its counters at one; a failure leaves none.\<close>

lemma dup_mm_cases:
  assumes "dup_mm ops i s = (r, t)" and "sr_mm s i = Some f"
  obtains x where "r = None" and "t = s\<lparr>sr_ext := x\<rparr>"
  | m g x where "r = Some m" and "sr_mm s m = None" and "mm_users g = 1" and "mm_count g = 1"
    and "t = s\<lparr>sr_mm := (sr_mm s)(m \<mapsto> g), sr_ext := x\<rparr>"
proof (cases "o_alloc_mm ops s")
  case None
  with assms(1) that(1)[of "sr_ext s"] show ?thesis by (simp add: dup_mm_def)
next
  case (Some m)
  have free: "sr_mm s m = None" by (rule alloc_mm[OF Some])
  let ?g = "f\<lparr>mm_users := 1, mm_count := 1\<rparr>" and ?h = "f\<lparr>mm_users := 1, mm_count := 1, mm_binfmt := None\<rparr>"
  let ?s = "s\<lparr>sr_mm := (sr_mm s)(m \<mapsto> ?g)\<rparr>"
  have restored: "(sr_mm s)(m := None) = sr_mm s" using free by (simp add: fun_upd_idem)
  show ?thesis
  proof (cases "o_mm_contexts ops m ?s")
    case False
    have "r = None" "t = s\<lparr>sr_ext := sr_ext s\<rparr>"
      using assms Some False by (simp_all add: dup_mm_def mm_init_def Let_def restored)
    then show ?thesis using that(1) by blast
  next
    case True
    obtain e x where e: "o_dup_mmap ops m i ?s = (e, x)" by (cases "o_dup_mmap ops m i ?s")
    let ?u = "?s\<lparr>sr_ext := x\<rparr>"
    show ?thesis
    proof (cases "e \<noteq> 0 \<or> (case mm_binfmt f of None \<Rightarrow> False | Some b \<Rightarrow> \<not> o_module_get ops b ?u)")
      case True
      let ?v = "?u\<lparr>sr_mm := (sr_mm s)(m \<mapsto> ?h)\<rparr>"
      obtain y where y: "mmput ops m ?v = ?v\<lparr>sr_mm := (sr_mm ?v)(m := None), sr_ext := y\<rparr>"
        by (rule mmput_new[of ?v m ?h]) simp_all
      have "r = None" "t = mmput ops m ?v"
        using assms Some \<open>o_mm_contexts ops m ?s\<close> e True by (simp_all add: dup_mm_def mm_init_def Let_def)
      then have "t = s\<lparr>sr_ext := y\<rparr>" using y restored by simp
      with \<open>r = None\<close> that(1) show ?thesis by blast
    next
      case False
      have "r = Some m" "t = ?u"
        using assms Some True e False by (simp_all add: dup_mm_def mm_init_def Let_def)
      then show ?thesis using that(2)[of m ?g x] free by simp
    qed
  qed
qed

lemma copy_mm_0:
  assumes "copy_mm ops fl p s = (0, t)" and "sr_tasks s (sr_current s) = Some c" and "sr_tasks s p = Some q"
    and "p \<noteq> sr_current s" and "\<forall>i. pt_mm c = Some i \<longrightarrow> (\<exists>f. sr_mm s i = Some f)"
  obtains "pt_mm c = None" and "t = s\<lparr>sr_tasks := (sr_tasks s)(p \<mapsto> q\<lparr>pt_mm := None, pt_active_mm := None\<rparr>)\<rparr>"
  | i f j g x where "pt_mm c = Some i" and "sr_mm s i = Some f"
    and "t = s\<lparr>sr_tasks := (sr_tasks s)(p \<mapsto> q\<lparr>pt_mm := Some j, pt_active_mm := Some j\<rparr>),
      sr_mm := (sr_mm s)(j \<mapsto> g), sr_ext := x\<rparr>"
    and "if has_flag fl CLONE_VM then j = i \<and> g = f\<lparr>mm_users := mm_users f + 1\<rparr>
         else sr_mm s j = None \<and> mm_users g = 1 \<and> mm_count g = 1"
proof -
  let ?s = "s\<lparr>sr_tasks := (sr_tasks s)(p \<mapsto> q\<lparr>pt_mm := None, pt_active_mm := None\<rparr>)\<rparr>"
  have cur: "ptk ?s (sr_current ?s) = c" using assms(2,4) by simp
  show ?thesis
  proof (cases "pt_mm c")
    case None
    with assms(1,3) cur that(1) show ?thesis by (simp add: copy_mm_def Let_def)
  next
    case (Some i)
    obtain f where f: "sr_mm s i = Some f" using assms(5) Some by blast
    show ?thesis
    proof (cases "has_flag fl CLONE_VM")
      case True
      obtain x where "o_mmget ops i ?s = ?s\<lparr>sr_mm := (sr_mm ?s)(i \<mapsto> f\<lparr>mm_users := mm_users f + 1\<rparr>), sr_ext := x\<rparr>"
        using mmget[of ?s i f] f by auto
      then have "t = s\<lparr>sr_tasks := (sr_tasks s)(p \<mapsto> q\<lparr>pt_mm := Some i, pt_active_mm := Some i\<rparr>),
          sr_mm := (sr_mm s)(i \<mapsto> f\<lparr>mm_users := mm_users f + 1\<rparr>), sr_ext := x\<rparr>"
        using assms(1,3) cur Some True by (auto simp: copy_mm_def Let_def)
      with Some f show ?thesis by (rule that(2)) (simp add: True)
    next
      case False
      obtain r u where u: "dup_mm ops i ?s = (r, u)" by (cases "dup_mm ops i ?s")
      have "sr_mm ?s i = Some f" using f by simp
      with u show ?thesis
      proof (cases rule: dup_mm_cases)
        case (1 x)
        with assms(1,3) cur Some False u show ?thesis by (simp add: copy_mm_def Let_def ENOMEM_def)
      next
        case (2 m g x)
        have "t = s\<lparr>sr_tasks := (sr_tasks s)(p \<mapsto> q\<lparr>pt_mm := Some m, pt_active_mm := Some m\<rparr>),
            sr_mm := (sr_mm s)(m \<mapsto> g), sr_ext := x\<rparr>"
          using assms(1,3) cur Some False u 2 by (auto simp: copy_mm_def Let_def)
        with Some f show ?thesis by (rule that(2)) (use False 2 in simp)
      qed
    qed
  qed
qed

lemma copy_mm_err:
  assumes "copy_mm ops fl p s = (e, t)" and "e \<noteq> 0" and "sr_tasks s (sr_current s) = Some c" and "sr_tasks s p = Some q"
    and "p \<noteq> sr_current s" and "\<forall>i. pt_mm c = Some i \<longrightarrow> (\<exists>f. sr_mm s i = Some f)"
  shows "off p s t \<and> ptk t p = q\<lparr>pt_mm := None, pt_active_mm := None\<rparr>"
proof -
  let ?s = "s\<lparr>sr_tasks := (sr_tasks s)(p \<mapsto> q\<lparr>pt_mm := None, pt_active_mm := None\<rparr>)\<rparr>"
  have cur: "ptk ?s (sr_current ?s) = c" using assms(3,5) by simp
  obtain i where i: "pt_mm c = Some i" "\<not> has_flag fl CLONE_VM"
    using assms(1,2,4) cur by (cases "pt_mm c"; cases "has_flag fl CLONE_VM") (auto simp: copy_mm_def Let_def)
  obtain f where f: "sr_mm s i = Some f" using assms(6) i(1) by blast
  obtain r u where u: "dup_mm ops i ?s = (r, u)" by (cases "dup_mm ops i ?s")
  have "r = None" "t = u" using assms(1,2,4) cur i u by (auto simp: copy_mm_def Let_def split: option.splits)
  moreover have "sr_mm ?s i = Some f" using f by simp
  then obtain x where "u = ?s\<lparr>sr_ext := x\<rparr>"
    by (cases rule: dup_mm_cases[OF u]) (use \<open>r = None\<close> in simp_all)
  ultimately show ?thesis using assms(4) by (simp add: off_def)
qed

lemma mmput_undoes:
  assumes "off p (s\<lparr>sr_tasks := (sr_tasks s)(p \<mapsto> q), sr_mm := (sr_mm s)(j \<mapsto> g), sr_ext := x\<rparr>) u"
    and "sr_mm s i = Some f" and "mm_users f \<ge> 1"
    and "if has_flag fl CLONE_VM then j = i \<and> g = f\<lparr>mm_users := mm_users f + 1\<rparr>
         else sr_mm s j = None \<and> mm_users g = 1 \<and> mm_count g = 1"
  shows "off p s (mmput ops j u) \<and> sr_tasks (mmput ops j u) = sr_tasks u"
proof -
  have u: "sr_mm u = (sr_mm s)(j \<mapsto> g)" using assms(1) by (simp add: off_def)
  show ?thesis
  proof (cases "has_flag fl CLONE_VM")
    case True
    then have g: "j = i" "g = f\<lparr>mm_users := mm_users f + 1\<rparr>" using assms(4) by auto
    have "mmput ops j u = u\<lparr>sr_mm := (sr_mm u)(j \<mapsto> g\<lparr>mm_users := mm_users g - 1\<rparr>)\<rparr>"
      by (rule mmput_shared) (use u g assms(3) in simp_all)
    moreover have "(sr_mm u)(j \<mapsto> g\<lparr>mm_users := mm_users g - 1\<rparr>) = sr_mm s"
      using u g assms(2) by (simp add: fun_upd_idem)
    ultimately show ?thesis using assms(1) by (simp add: off_def)
  next
    case False
    then have g: "sr_mm s j = None" "mm_users g = 1" "mm_count g = 1" using assms(4) by auto
    obtain y where "mmput ops j u = u\<lparr>sr_mm := (sr_mm u)(j := None), sr_ext := y\<rparr>"
      by (rule mmput_new[of u j g]) (use u g in simp_all)
    moreover have "(sr_mm u)(j := None) = sr_mm s" using u g by (simp add: fun_upd_idem)
    ultimately show ?thesis using assms(1) by (simp add: off_def)
  qed
qed

end

section \<open>Undoing a failed fork\<close>

text \<open>What a failed fork leaves: every table and every task as before.\<close>

definition restored :: "'x shares \<Rightarrow> 'x shares \<Rightarrow> bool" where
  "restored s t \<longleftrightarrow> sr_tasks t = sr_tasks s \<and> sr_current t = sr_current s \<and> sr_fs t = sr_fs s \<and>
     sr_files t = sr_files s \<and> sr_sighand t = sr_sighand s \<and> sr_signal t = sr_signal s \<and> sr_mm t = sr_mm s \<and>
     sr_nr_threads t = sr_nr_threads s \<and> sr_total_forks t = sr_total_forks s"

text \<open>The cleanup \<open>C\<close> restores \<open>s0\<close> from any state that differs from \<open>s\<close> in the fields of \<open>p\<close> that \<open>K\<close>
  does not read.\<close>

definition undone :: "tid \<Rightarrow> (ptask \<Rightarrow> 'k) \<Rightarrow> ('x shares \<Rightarrow> 'x shares) \<Rightarrow> 'x shares \<Rightarrow> 'x shares \<Rightarrow> bool" where
  "undone p K C s0 s \<longleftrightarrow> (\<forall>u. off p s u \<and> K (ptk u p) = K (ptk s p) \<longrightarrow> restored s0 (C u))"

lemma undoneI: "(\<And>u. off p s u \<Longrightarrow> K (ptk u p) = K (ptk s p) \<Longrightarrow> restored s0 (C u)) \<Longrightarrow> undone p K C s0 s"
  by (simp add: undone_def)

lemma undoneD: "undone p K C s0 s \<Longrightarrow> off p s u \<Longrightarrow> K (ptk u p) = K (ptk s p) \<Longrightarrow> restored s0 (C u)"
  by (simp add: undone_def)

text \<open>What \<open>copy_process\<close> needs of the current task and of the new one before a copy.\<close>

definition counts_pos :: "'x shares \<Rightarrow> bool" where
  "counts_pos s \<longleftrightarrow> (\<forall>q c. sr_tasks s q = Some c \<longrightarrow>
     (\<forall>i. pt_fs c = Some i \<longrightarrow> (\<exists>f. sr_fs s i = Some f \<and> fs_users f \<ge> 1)) \<and>
     (\<forall>i. pt_files c = Some i \<longrightarrow> (\<exists>n. sr_files s i = Some n \<and> n \<ge> 1)) \<and>
     (\<forall>i. pt_sighand c = Some i \<longrightarrow> (\<exists>f. sr_sighand s i = Some f \<and> sh_count f \<ge> 1)) \<and>
     (\<forall>i. pt_signal c = Some i \<longrightarrow> (\<exists>f. sr_signal s i = Some f \<and> sg_nr_threads f \<ge> 1)) \<and>
     (\<forall>i. pt_mm c = Some i \<longrightarrow> (\<exists>f. sr_mm s i = Some f \<and> mm_users f \<ge> 1)))"

lemma shares_ok_pos:
  assumes "shares_ok s"
  shows "counts_pos s"
proof -
  note ok = shares_okD[OF assms]
  show ?thesis unfolding counts_pos_def
    using counted_pos[OF ok(2,1)] counted_pos[OF ok(3,1)] counted_pos[OF ok(4,1)] counted_pos[OF ok(5,1)]
      counted_pos[OF ok(6,1)] by simp
qed

context share_api
begin

lemma undone_semundo:
  assumes "sr_tasks s0 p = None" and "off p s0 s"
  shows "undone p (\<lambda>_. ()) (bad_fork_cleanup_semundo ops p) s0 s"
proof (rule undoneI)
  fix u assume "off p s u"
  with assms(2) have u: "off p s0 u" by (rule off_trans)
  then have "(sr_tasks u)(p := None) = sr_tasks s0" using assms(1) by (intro ext) (simp add: off_def)
  then show "restored s0 (bad_fork_cleanup_semundo ops p u)"
    using u unfolding restored_def bad_fork_cleanup_semundo_def bad_fork_free_def in_ext_def off_def by simp
qed

lemma undone_files:
  assumes "undone p (\<lambda>_. ()) (bad_fork_cleanup_semundo ops p) s0 s" and "copy_files ops fl p s = (0, t)"
    and "sr_tasks s (sr_current s) = Some c" and "sr_tasks s p = Some q" and "p \<noteq> sr_current s"
    and "pt_files q = pt_files c" and "\<And>i. pt_files c = Some i \<Longrightarrow> \<exists>n. sr_files s i = Some n \<and> n \<ge> 1"
  shows "undone p pt_files (bad_fork_cleanup_files ops p) s0 t"
proof (rule undoneI)
  fix u assume u: "off p t u" "pt_files (ptk u p) = pt_files (ptk t p)"
  have ex: "\<forall>i. pt_files c = Some i \<longrightarrow> (\<exists>n. sr_files s i = Some n)" using assms(7) by blast
  have "off p s (o_exit_files ops p u)"
  proof (cases rule: copy_files_0[OF assms(2-6) ex])
    case 1
    with u assms(4,6) show ?thesis by (simp add: exit_files)
  next
    case (2 i n j m x)
    have "n \<ge> 1" using assms(7) 2(1,2) by fastforce
    moreover have "pt_files (ptk u p) = Some j" using u(2) 2(3) by simp
    ultimately show ?thesis using exit_files_undoes[OF u(1)[unfolded 2(3)] _ 2(2) _ 2(4)] by blast
  qed
  from undoneD[OF assms(1) this] show "restored s0 (bad_fork_cleanup_files ops p u)"
    by (simp add: bad_fork_cleanup_files_def)
qed

lemma undone_fs:
  assumes "undone p pt_files (bad_fork_cleanup_files ops p) s0 s" and "copy_fs ops fl p s = (0, t)"
    and "sr_tasks s (sr_current s) = Some c" and "sr_tasks s p = Some q" and "p \<noteq> sr_current s"
    and "pt_fs c = Some i" and "pt_fs q = Some i" and "sr_fs s i = Some f" and "fs_users f \<ge> 1"
  shows "undone p (\<lambda>t. (pt_files t, pt_fs t)) (bad_fork_cleanup_fs ops p) s0 t"
proof (rule undoneI)
  fix u assume u: "off p t u" "(pt_files (ptk u p), pt_fs (ptk u p)) = (pt_files (ptk t p), pt_fs (ptk t p))"
  obtain j g x where t: "t = s\<lparr>sr_tasks := (sr_tasks s)(p \<mapsto> q\<lparr>pt_fs := Some j\<rparr>), sr_fs := (sr_fs s)(j \<mapsto> g), sr_ext := x\<rparr>"
    and g: "if has_flag fl CLONE_FS then j = i \<and> g = f\<lparr>fs_users := fs_users f + 1\<rparr>
         else sr_fs s j = None \<and> fs_users g = 1"
    by (rule copy_fs_0[OF assms(2-8)])
  have "pt_fs (ptk u p) = Some j" "pt_files (ptk u p) = pt_files (ptk s p)" using u(2) t assms(4) by simp_all
  with exit_fs_undoes[OF u(1)[unfolded t] _ assms(8,9) g]
  show "restored s0 (bad_fork_cleanup_fs ops p u)"
    unfolding bad_fork_cleanup_fs_def by (intro undoneD[OF assms(1)]) simp_all
qed

lemma undone_sighand:
  assumes "undone p (\<lambda>t. (pt_files t, pt_fs t)) (bad_fork_cleanup_fs ops p) s0 s" and "copy_sighand ops fl p s = (0, t)"
    and "sr_tasks s (sr_current s) = Some c" and "sr_tasks s p = Some q"
    and "pt_sighand c = Some i" and "pt_sighand q = Some i" and "sr_sighand s i = Some f" and "sh_count f \<ge> 1"
  shows "undone p (\<lambda>t. (pt_files t, pt_fs t, pt_sighand t)) (bad_fork_cleanup_sighand ops p) s0 t"
proof (rule undoneI)
  fix u assume u: "off p t u" "(pt_files (ptk u p), pt_fs (ptk u p), pt_sighand (ptk u p)) =
    (pt_files (ptk t p), pt_fs (ptk t p), pt_sighand (ptk t p))"
  obtain j g x where t: "t = s\<lparr>sr_tasks := (sr_tasks s)(p \<mapsto> q\<lparr>pt_sighand := Some j\<rparr>),
      sr_sighand := (sr_sighand s)(j \<mapsto> g), sr_ext := x\<rparr>"
    and g: "if has_flag fl CLONE_SIGHAND then j = i \<and> g = f\<lparr>sh_count := sh_count f + 1\<rparr>
         else sr_sighand s j = None \<and> sh_count g = 1"
    by (rule copy_sighand_0[OF assms(2-7)])
  have "the (pt_sighand (ptk u p)) = j" using u(2) t by simp
  with cleanup_sighand_undoes[OF u(1)[unfolded t] assms(7,8) g] u(2) t assms(4)
  show "restored s0 (bad_fork_cleanup_sighand ops p u)"
    unfolding bad_fork_cleanup_sighand_def by (intro undoneD[OF assms(1)]) simp_all
qed

lemma undone_signal:
  assumes "undone p (\<lambda>t. (pt_files t, pt_fs t, pt_sighand t)) (bad_fork_cleanup_sighand ops p) s0 s"
    and "copy_signal ops fl p s = (0, t)" and "sr_tasks s p = Some q"
  shows "undone p (\<lambda>t. (pt_files t, pt_fs t, pt_sighand t, pt_signal t)) (bad_fork_cleanup_signal ops fl p) s0 t"
proof (rule undoneI)
  fix u assume u: "off p t u" "(pt_files (ptk u p), pt_fs (ptk u p), pt_sighand (ptk u p), pt_signal (ptk u p)) =
    (pt_files (ptk t p), pt_fs (ptk t p), pt_sighand (ptk t p), pt_signal (ptk t p))"
  show "restored s0 (bad_fork_cleanup_signal ops fl p u)"
  proof (cases rule: copy_signal_0[OF assms(2,3)])
    case 1
    with u undoneD[OF assms(1), of u] show ?thesis by (simp add: bad_fork_cleanup_signal_def)
  next
    case (2 j)
    have sig: "(sr_signal s)(j := None) = sr_signal s" using 2(2) by (simp add: fun_upd_idem)
    have "the (pt_signal (ptk u p)) = j" using u(2) 2(3) by simp
    moreover have "off p s (free_signal_struct j u)"
      using u(1) 2(3) sig by (simp add: off_def free_signal_struct_def)
    ultimately show ?thesis using undoneD[OF assms(1), of "free_signal_struct j u"] u(2) 2(1,3) assms(3)
      by (simp add: bad_fork_cleanup_signal_def free_signal_struct_def)
  qed
qed

lemma undone_mm:
  assumes "undone p (\<lambda>t. (pt_files t, pt_fs t, pt_sighand t, pt_signal t)) (bad_fork_cleanup_signal ops fl p) s0 s"
    and "copy_mm ops fl p s = (0, t)" and "sr_tasks s (sr_current s) = Some c" and "sr_tasks s p = Some q"
    and "p \<noteq> sr_current s" and "\<And>i. pt_mm c = Some i \<Longrightarrow> \<exists>f. sr_mm s i = Some f \<and> mm_users f \<ge> 1"
  shows "undone p (\<lambda>t. (pt_files t, pt_fs t, pt_sighand t, pt_signal t, pt_mm t)) (bad_fork_cleanup_mm ops fl p) s0 t"
proof (rule undoneI)
  fix u assume u: "off p t u" "(pt_files (ptk u p), pt_fs (ptk u p), pt_sighand (ptk u p), pt_signal (ptk u p), pt_mm (ptk u p)) =
    (pt_files (ptk t p), pt_fs (ptk t p), pt_sighand (ptk t p), pt_signal (ptk t p), pt_mm (ptk t p))"
  have ex: "\<forall>i. pt_mm c = Some i \<longrightarrow> (\<exists>f. sr_mm s i = Some f)" using assms(6) by blast
  show "restored s0 (bad_fork_cleanup_mm ops fl p u)"
  proof (cases rule: copy_mm_0[OF assms(2-5) ex])
    case 1
    have "off p s u" using u(1) 1(2) assms(4) by (simp add: off_def)
    with undoneD[OF assms(1) this] u(2) 1(2) assms(4) show ?thesis by (simp add: bad_fork_cleanup_mm_def)
  next
    case (2 i f j g x)
    have "mm_users f \<ge> 1" using assms(6) 2(1,2) by fastforce
    from mmput_undoes[OF u(1)[unfolded 2(3)] 2(2) this 2(4)] u(2) 2(3) assms(4)
    show ?thesis using undoneD[OF assms(1), of "mmput ops j u"] by (simp add: bad_fork_cleanup_mm_def)
  qed
qed

lemma undone_ext [simp]: "undone p K C s0 (s\<lparr>sr_ext := x\<rparr>) = undone p K C s0 s"
  by (simp add: undone_def off_def)

lemma bad_stages_restore:
  assumes "undone p (\<lambda>t. (pt_files t, pt_fs t, pt_sighand t, pt_signal t, pt_mm t)) (bad_fork_cleanup_mm ops fl p) s0 s"
  shows "off p s u \<Longrightarrow> ptk u p = ptk s p \<Longrightarrow> restored s0 (bad_fork_stages ops dn fl p u)"
proof (induction dn arbitrary: u)
  case Nil
  with undoneD[OF assms Nil(1)] show ?case by simp
next
  case (Cons g gs)
  have "off p s (in_ext (o_undo ops g p) u)" using Cons.prems(1) by (simp add: off_def in_ext_def)
  moreover have "ptk (in_ext (o_undo ops g p) u) p = ptk s p" using Cons.prems(2) by (simp add: in_ext_def)
  ultimately show ?case using Cons.IH by simp
qed

lemma copy_stages_fail:
  assumes "copy_stages ops dn gs fl sig idle p s = (Inl e, u)" and "sr_tasks s p = Some q"
    and "undone p (\<lambda>t. (pt_files t, pt_fs t, pt_sighand t, pt_signal t, pt_mm t)) (bad_fork_cleanup_mm ops fl p) s0 s"
  shows "e \<noteq> 0 \<and> restored s0 u"
  using assms
proof (induction gs arbitrary: dn s)
  case (Cons g gs)
  obtain r x where r: "o_stage ops g fl p s = (r, x)" by (cases "o_stage ops g fl p s")
  show ?case
  proof (cases "r = 0")
    case True
    with Cons.prems r show ?thesis by (intro Cons.IH[of "g # dn" "s\<lparr>sr_ext := x\<rparr>"]) simp_all
  next
    case False
    with Cons.prems(1) r have "e = r" "u = bad_fork_stages ops dn fl p (s\<lparr>sr_ext := x\<rparr>)" by simp_all
    moreover have "off p s (s\<lparr>sr_ext := x\<rparr>)" using Cons.prems(2) by (simp add: off_def)
    ultimately show ?thesis using bad_stages_restore[OF Cons.prems(3)] False by simp
  qed
qed simp

end

section \<open>What a fork has done so far\<close>

text \<open>The table of one resource: the new task shares the object of the old one, whose counter is one
  higher, or has an object of its own.\<close>

definition grown ::
    "('o \<Rightarrow> int) \<Rightarrow> bool \<Rightarrow> (nat \<Rightarrow> 'o option) \<Rightarrow> (nat \<Rightarrow> 'o option) \<Rightarrow> nat option \<Rightarrow> nat option \<Rightarrow> bool" where
  "grown cnt share tab tab' old new \<longleftrightarrow>
     (case new of None \<Rightarrow> old = None \<and> tab' = tab
      | Some j \<Rightarrow> \<exists>g. tab' = tab(j \<mapsto> g) \<and>
          (if share then old = Some j \<and> (\<exists>f. tab j = Some f \<and> cnt g = cnt f + 1)
           else old \<noteq> None \<and> tab j = None \<and> cnt g = 1))"

lemma counted_grown:
  assumes "counted cnt tab ptr tasks" and "tasks p = None" and "finite (dom tasks)"
    and "grown cnt share tab tab' old (ptr q)"
  shows "counted cnt tab' ptr (tasks(p \<mapsto> q))"
proof (cases "ptr q")
  case None
  with assms(4) counted_new(1)[OF assms(1-3) None] show ?thesis by (simp add: grown_def)
next
  case (Some j)
  with assms(4) obtain g where g: "tab' = tab(j \<mapsto> g)"
    and c: "if share then old = Some j \<and> (\<exists>f. tab j = Some f \<and> cnt g = cnt f + 1) else tab j = None \<and> cnt g = 1"
    by (auto simp: grown_def split: if_splits)
  show ?thesis
  proof (cases share)
    case True
    with c obtain f where "tab j = Some f" "cnt g = cnt f + 1" by auto
    with counted_new(3)[OF assms(1-3) Some] g show ?thesis by simp
  next
    case False
    with c counted_new(2)[OF assms(1-3) Some] g show ?thesis by simp
  qed
qed

definition signal_grown ::
    "bool \<Rightarrow> (nat \<Rightarrow> signal_struct option) \<Rightarrow> (nat \<Rightarrow> signal_struct option) \<Rightarrow> nat option \<Rightarrow> nat option \<Rightarrow> bool" where
  "signal_grown thread tab tab' old new \<longleftrightarrow>
     (if thread then tab' = tab \<and> new = old
      else \<exists>j. new = Some j \<and> tab j = None \<and> tab' = tab(j \<mapsto> \<lparr>sg_nr_threads = 1, sg_live = 1, sg_sigcnt = 1\<rparr>))"

text \<open>After the first \<open>n\<close> of the five copies.\<close>

definition forked :: "nat \<Rightarrow> u64 \<Rightarrow> ptask \<Rightarrow> tid \<Rightarrow> 'x shares \<Rightarrow> ptask \<Rightarrow> 'x shares \<Rightarrow> bool" where
  "forked n fl c p s q t \<longleftrightarrow> sr_tasks t = (sr_tasks s)(p \<mapsto> q) \<and> sr_current t = sr_current s \<and>
     sr_nr_threads t = sr_nr_threads s \<and> sr_total_forks t = sr_total_forks s \<and> pt_leader q = pt_leader c \<and>
     (if n \<ge> 1 then grown id (has_flag fl CLONE_FILES) (sr_files s) (sr_files t) (pt_files c) (pt_files q)
      else sr_files t = sr_files s \<and> pt_files q = pt_files c) \<and>
     (if n \<ge> 2 then grown fs_users (has_flag fl CLONE_FS) (sr_fs s) (sr_fs t) (pt_fs c) (pt_fs q)
      else sr_fs t = sr_fs s \<and> pt_fs q = pt_fs c) \<and>
     (if n \<ge> 3 then grown sh_count (has_flag fl CLONE_SIGHAND) (sr_sighand s) (sr_sighand t) (pt_sighand c) (pt_sighand q)
      else sr_sighand t = sr_sighand s \<and> pt_sighand q = pt_sighand c) \<and>
     (if n \<ge> 4 then signal_grown (has_flag fl CLONE_THREAD) (sr_signal s) (sr_signal t) (pt_signal c) (pt_signal q)
      else sr_signal t = sr_signal s \<and> pt_signal q = pt_signal c) \<and>
     (if n \<ge> 5 then grown mm_users (has_flag fl CLONE_VM) (sr_mm s) (sr_mm t) (pt_mm c) (pt_mm q)
      else sr_mm t = sr_mm s)"

text \<open>The current task \<open>c\<close>, and \<open>p\<close> for the new one.\<close>

definition forkable :: "ptask \<Rightarrow> tid \<Rightarrow> 'x shares \<Rightarrow> bool" where
  "forkable c p s \<longleftrightarrow> sr_tasks s (sr_current s) = Some c \<and> sr_tasks s p = None \<and> counts_pos s \<and>
     pt_fs c \<noteq> None \<and> pt_sighand c \<noteq> None \<and> pt_signal c \<noteq> None"

lemma forkableD:
  assumes "forkable c p s"
  shows "sr_tasks s (sr_current s) = Some c" "sr_tasks s p = None" "p \<noteq> sr_current s"
    "\<exists>i f. pt_fs c = Some i \<and> sr_fs s i = Some f \<and> fs_users f \<ge> 1"
    "\<And>i. pt_files c = Some i \<Longrightarrow> \<exists>n. sr_files s i = Some n \<and> n \<ge> 1"
    "\<exists>i f. pt_sighand c = Some i \<and> sr_sighand s i = Some f \<and> sh_count f \<ge> 1"
    "\<exists>i f. pt_signal c = Some i \<and> sr_signal s i = Some f"
    "\<And>i. pt_mm c = Some i \<Longrightarrow> \<exists>f. sr_mm s i = Some f \<and> mm_users f \<ge> 1"
proof -
  note a = assms[unfolded forkable_def counts_pos_def]
  then have c: "sr_tasks s (sr_current s) = Some c" by blast
  note pos = conjunct1[OF conjunct2[OF conjunct2[OF a]], rule_format, OF c]
  show "sr_tasks s (sr_current s) = Some c" "sr_tasks s p = None" "p \<noteq> sr_current s" using a by auto
  show "\<exists>i f. pt_fs c = Some i \<and> sr_fs s i = Some f \<and> fs_users f \<ge> 1" using a pos by auto
  show "\<exists>n. sr_files s i = Some n \<and> n \<ge> 1" if "pt_files c = Some i" for i using pos that by blast
  show "\<exists>i f. pt_sighand c = Some i \<and> sr_sighand s i = Some f \<and> sh_count f \<ge> 1" using a pos by auto
  show "\<exists>i f. pt_signal c = Some i \<and> sr_signal s i = Some f" using a pos by auto
  show "\<exists>f. sr_mm s i = Some f \<and> mm_users f \<ge> 1" if "pt_mm c = Some i" for i using pos that by blast
qed

text \<open>The result of the part of \<open>copy_process\<close> from \<open>copy_files\<close> on, one copy after the other.\<close>

abbreviation fork_result :: "u64 \<Rightarrow> int \<Rightarrow> bool \<Rightarrow> ptask \<Rightarrow> tid \<Rightarrow> 'x shares \<Rightarrow> (int + tid) \<times> 'x shares \<Rightarrow> bool" where
  "fork_result fl sig idle c p s ru \<equiv>
     (case ru of (Inl e, u) \<Rightarrow> e \<noteq> 0 \<and> restored s u
      | (Inr r, u) \<Rightarrow> r = p \<and> (\<exists>q t. forked 5 fl c p s q t \<and> u = attach_task fl idle p (set_family fl sig p t)))"

context share_api
begin

lemma step_files:
  assumes "forkable c p s" and "forked 0 fl c p s q t" and "copy_files ops fl p t = (0, u)"
    and "undone p (\<lambda>_. ()) (bad_fork_cleanup_semundo ops p) s t"
  shows "(\<exists>q. forked 1 fl c p s q u) \<and> undone p pt_files (bad_fork_cleanup_files ops p) s u"
proof -
  note c = forkableD[OF assms(1)]
  have t: "sr_tasks t (sr_current t) = Some c" "sr_tasks t p = Some q" "p \<noteq> sr_current t" "pt_files q = pt_files c"
    "\<And>i. pt_files c = Some i \<Longrightarrow> \<exists>n. sr_files t i = Some n \<and> n \<ge> 1"
    using assms(2) c by (simp_all add: forked_def)
  have ex: "\<forall>i. pt_files c = Some i \<longrightarrow> (\<exists>n. sr_files t i = Some n)" using t(5) by blast
  have "\<exists>q. forked 1 fl c p s q u"
  proof (cases rule: copy_files_0[OF assms(3) t(1-4) ex])
    case 1
    with assms(2) show ?thesis by (auto simp: forked_def grown_def)
  next
    case (2 i n j m x)
    have "forked 1 fl c p s (q\<lparr>pt_files := Some j\<rparr>) u"
      using assms(2) 2 by (auto simp: forked_def grown_def split: if_splits)
    then show ?thesis ..
  qed
  with undone_files[OF assms(4,3) t] show ?thesis by simp
qed

lemma step_fs:
  assumes "forkable c p s" and "forked 1 fl c p s q t" and "copy_fs ops fl p t = (0, u)"
    and "undone p pt_files (bad_fork_cleanup_files ops p) s t"
  shows "(\<exists>q. forked 2 fl c p s q u) \<and> undone p (\<lambda>t. (pt_files t, pt_fs t)) (bad_fork_cleanup_fs ops p) s u"
proof -
  note c = forkableD[OF assms(1)]
  obtain i f where i: "pt_fs c = Some i" "sr_fs s i = Some f" "fs_users f \<ge> 1" using c(4) by blast
  have t: "sr_tasks t (sr_current t) = Some c" "sr_tasks t p = Some q" "p \<noteq> sr_current t" "pt_fs c = Some i" "pt_fs q = Some i"
    "sr_fs t i = Some f" using assms(2) c i by (simp_all add: forked_def)
  obtain j g x where u: "u = t\<lparr>sr_tasks := (sr_tasks t)(p \<mapsto> q\<lparr>pt_fs := Some j\<rparr>), sr_fs := (sr_fs t)(j \<mapsto> g), sr_ext := x\<rparr>"
    and g: "if has_flag fl CLONE_FS then j = i \<and> g = f\<lparr>fs_users := fs_users f + 1\<rparr> else sr_fs t j = None \<and> fs_users g = 1"
    by (rule copy_fs_0[OF assms(3) t])
  have "forked 2 fl c p s (q\<lparr>pt_fs := Some j\<rparr>) u"
    using assms(2) u g i by (auto simp: forked_def grown_def split: if_splits)
  with undone_fs[OF assms(4,3) t i(3)] show ?thesis by blast
qed

lemma step_sighand:
  assumes "forkable c p s" and "forked 2 fl c p s q t" and "copy_sighand ops fl p t = (0, u)"
    and "undone p (\<lambda>t. (pt_files t, pt_fs t)) (bad_fork_cleanup_fs ops p) s t"
  shows "(\<exists>q. forked 3 fl c p s q u) \<and>
    undone p (\<lambda>t. (pt_files t, pt_fs t, pt_sighand t)) (bad_fork_cleanup_sighand ops p) s u"
proof -
  note c = forkableD[OF assms(1)]
  obtain i f where i: "pt_sighand c = Some i" "sr_sighand s i = Some f" "sh_count f \<ge> 1" using c(6) by blast
  have t: "sr_tasks t (sr_current t) = Some c" "sr_tasks t p = Some q" "pt_sighand c = Some i" "pt_sighand q = Some i"
    "sr_sighand t i = Some f" using assms(2) c i by (simp_all add: forked_def)
  obtain j g x where u: "u = t\<lparr>sr_tasks := (sr_tasks t)(p \<mapsto> q\<lparr>pt_sighand := Some j\<rparr>),
      sr_sighand := (sr_sighand t)(j \<mapsto> g), sr_ext := x\<rparr>"
    and g: "if has_flag fl CLONE_SIGHAND then j = i \<and> g = f\<lparr>sh_count := sh_count f + 1\<rparr>
         else sr_sighand t j = None \<and> sh_count g = 1"
    by (rule copy_sighand_0[OF assms(3) t])
  have "forked 3 fl c p s (q\<lparr>pt_sighand := Some j\<rparr>) u"
    using assms(2) u g i by (auto simp: forked_def grown_def split: if_splits)
  with undone_sighand[OF assms(4,3) t i(3)] show ?thesis by blast
qed

lemma step_signal:
  assumes "forkable c p s" and "forked 3 fl c p s q t" and "copy_signal ops fl p t = (0, u)"
    and "undone p (\<lambda>t. (pt_files t, pt_fs t, pt_sighand t)) (bad_fork_cleanup_sighand ops p) s t"
  shows "(\<exists>q. forked 4 fl c p s q u) \<and>
    undone p (\<lambda>t. (pt_files t, pt_fs t, pt_sighand t, pt_signal t)) (bad_fork_cleanup_signal ops fl p) s u"
proof -
  have t: "sr_tasks t p = Some q" using assms(2) by (simp add: forked_def)
  have "\<exists>q. forked 4 fl c p s q u"
  proof (cases rule: copy_signal_0[OF assms(3) t])
    case 1
    with assms(2) show ?thesis by (auto simp: forked_def signal_grown_def)
  next
    case (2 j)
    with assms(2) have "forked 4 fl c p s (q\<lparr>pt_signal := Some j\<rparr>) u" by (simp add: forked_def signal_grown_def)
    then show ?thesis ..
  qed
  with undone_signal[OF assms(4,3) t] show ?thesis by blast
qed

lemma step_mm:
  assumes "forkable c p s" and "forked 4 fl c p s q t" and "copy_mm ops fl p t = (0, u)"
    and "undone p (\<lambda>t. (pt_files t, pt_fs t, pt_sighand t, pt_signal t)) (bad_fork_cleanup_signal ops fl p) s t"
  shows "(\<exists>q. forked 5 fl c p s q u) \<and>
    undone p (\<lambda>t. (pt_files t, pt_fs t, pt_sighand t, pt_signal t, pt_mm t)) (bad_fork_cleanup_mm ops fl p) s u"
proof -
  note c = forkableD[OF assms(1)]
  have t: "sr_tasks t (sr_current t) = Some c" "sr_tasks t p = Some q" "p \<noteq> sr_current t"
    "\<And>i. pt_mm c = Some i \<Longrightarrow> \<exists>f. sr_mm t i = Some f \<and> mm_users f \<ge> 1"
    using assms(2) c by (simp_all add: forked_def)
  have ex: "\<forall>i. pt_mm c = Some i \<longrightarrow> (\<exists>f. sr_mm t i = Some f)" using t(4) by blast
  have "\<exists>q. forked 5 fl c p s q u"
  proof (cases rule: copy_mm_0[OF assms(3) t(1-3) ex])
    case 1
    with assms(2) have "forked 5 fl c p s (q\<lparr>pt_mm := None, pt_active_mm := None\<rparr>) u"
      by (simp add: forked_def grown_def)
    then show ?thesis ..
  next
    case (2 i f j g x)
    with assms(2) have "forked 5 fl c p s (q\<lparr>pt_mm := Some j, pt_active_mm := Some j\<rparr>) u"
      by (auto simp: forked_def grown_def split: if_splits)
    then show ?thesis ..
  qed
  with undone_mm[OF assms(4,3) t] show ?thesis by blast
qed

lemma forked_ext [simp]: "forked n fl c p s q (t\<lparr>sr_ext := x\<rparr>) = forked n fl c p s q t"
  by (simp add: forked_def)

lemma copy_stages_ok:
  "copy_stages ops dn gs fl sig idle p s = (Inr r, u) \<Longrightarrow>
     r = p \<and> (\<exists>x. u = attach_task fl idle p (set_family fl sig p (s\<lparr>sr_ext := x\<rparr>)))"
proof (induction gs arbitrary: dn s)
  case Nil
  then have "r = p" "u = attach_task fl idle p (set_family fl sig p (s\<lparr>sr_ext := sr_ext s\<rparr>))" by auto
  then show ?case by blast
next
  case (Cons g gs)
  obtain e x where e: "o_stage ops g fl p s = (e, x)" by (cases "o_stage ops g fl p s")
  with Cons.prems have "copy_stages ops (g # dn) gs fl sig idle p (s\<lparr>sr_ext := x\<rparr>) = (Inr r, u)"
    by (simp add: Let_def split: if_splits)
  from Cons.IH[OF this] show ?case by simp
qed

lemma result_stages:
  assumes "forked 5 fl c p s q t"
    and "undone p (\<lambda>t. (pt_files t, pt_fs t, pt_sighand t, pt_signal t, pt_mm t)) (bad_fork_cleanup_mm ops fl p) s t"
  shows "fork_result fl sig idle c p s (copy_stages ops [] gs fl sig idle p t)"
proof -
  have q: "sr_tasks t p = Some q" using assms(1) by (simp add: forked_def)
  obtain r u where ru: "copy_stages ops [] gs fl sig idle p t = (r, u)" by (cases "copy_stages ops [] gs fl sig idle p t")
  show ?thesis
  proof (cases r)
    case (Inl e)
    with copy_stages_fail[OF ru[unfolded Inl] q assms(2)] ru show ?thesis by simp
  next
    case (Inr v)
    obtain x where "v = p" "u = attach_task fl idle p (set_family fl sig p (t\<lparr>sr_ext := x\<rparr>))"
      using copy_stages_ok[OF ru[unfolded Inr]] by blast
    moreover have "forked 5 fl c p s q (t\<lparr>sr_ext := x\<rparr>)" using assms(1) by simp
    ultimately show ?thesis unfolding ru Inr by (auto simp del: forked_ext)
  qed
qed

lemma result_mm:
  assumes "forkable c p s" and "forked 4 fl c p s q t"
    and "undone p (\<lambda>t. (pt_files t, pt_fs t, pt_sighand t, pt_signal t)) (bad_fork_cleanup_signal ops fl p) s t"
  shows "fork_result fl sig idle c p s
    (let (e, u) = copy_mm ops fl p t in
     if e \<noteq> 0 then (Inl e, bad_fork_cleanup_signal ops fl p u) else copy_stages ops [] gs fl sig idle p u)"
proof -
  obtain e u where eu: "copy_mm ops fl p t = (e, u)" by (cases "copy_mm ops fl p t")
  show ?thesis
  proof (cases "e = 0")
    case True
    then obtain q' where "forked 5 fl c p s q' u"
      and "undone p (\<lambda>t. (pt_files t, pt_fs t, pt_sighand t, pt_signal t, pt_mm t)) (bad_fork_cleanup_mm ops fl p) s u"
      using step_mm[OF assms(1,2) eu[unfolded True] assms(3)] by blast
    from result_stages[OF this] show ?thesis unfolding eu True by simp
  next
    case False
    note c = forkableD[OF assms(1)]
    have t: "sr_tasks t (sr_current t) = Some c" "sr_tasks t p = Some q" "p \<noteq> sr_current t"
      "\<forall>i. pt_mm c = Some i \<longrightarrow> (\<exists>f. sr_mm t i = Some f)"
      using assms(2) c by (auto simp: forked_def)
    from copy_mm_err[OF eu False t] t(2) have "restored s (bad_fork_cleanup_signal ops fl p u)"
      by (intro undoneD[OF assms(3)]) simp_all
    with False show ?thesis unfolding eu by simp
  qed
qed

lemma result_signal:
  assumes "forkable c p s" and "forked 3 fl c p s q t"
    and "undone p (\<lambda>t. (pt_files t, pt_fs t, pt_sighand t)) (bad_fork_cleanup_sighand ops p) s t"
  shows "fork_result fl sig idle c p s
    (let (e, u) = copy_signal ops fl p t in
     if e \<noteq> 0 then (Inl e, bad_fork_cleanup_sighand ops p u) else
     let (e, u) = copy_mm ops fl p u in
     if e \<noteq> 0 then (Inl e, bad_fork_cleanup_signal ops fl p u) else copy_stages ops [] gs fl sig idle p u)"
proof -
  obtain e u where eu: "copy_signal ops fl p t = (e, u)" by (cases "copy_signal ops fl p t")
  show ?thesis
  proof (cases "e = 0")
    case True
    then obtain q' where "forked 4 fl c p s q' u"
      and "undone p (\<lambda>t. (pt_files t, pt_fs t, pt_sighand t, pt_signal t)) (bad_fork_cleanup_signal ops fl p) s u"
      using step_signal[OF assms(1,2) eu[unfolded True] assms(3)] by blast
    from result_mm[OF assms(1) this] show ?thesis unfolding eu True by simp
  next
    case False
    have "sr_tasks t p = Some q" using assms(2) by (simp add: forked_def)
    with copy_signal_err[OF eu False this] have "restored s (bad_fork_cleanup_sighand ops p u)"
      by (intro undoneD[OF assms(3)]) simp_all
    with False show ?thesis unfolding eu by simp
  qed
qed

lemma result_sighand:
  assumes "forkable c p s" and "forked 2 fl c p s q t"
    and "undone p (\<lambda>t. (pt_files t, pt_fs t)) (bad_fork_cleanup_fs ops p) s t"
  shows "fork_result fl sig idle c p s
    (let (e, u) = copy_sighand ops fl p t in
     if e \<noteq> 0 then (Inl e, bad_fork_cleanup_fs ops p u) else
     let (e, u) = copy_signal ops fl p u in
     if e \<noteq> 0 then (Inl e, bad_fork_cleanup_sighand ops p u) else
     let (e, u) = copy_mm ops fl p u in
     if e \<noteq> 0 then (Inl e, bad_fork_cleanup_signal ops fl p u) else copy_stages ops [] gs fl sig idle p u)"
proof -
  obtain e u where eu: "copy_sighand ops fl p t = (e, u)" by (cases "copy_sighand ops fl p t")
  show ?thesis
  proof (cases "e = 0")
    case True
    then obtain q' where "forked 3 fl c p s q' u"
      and "undone p (\<lambda>t. (pt_files t, pt_fs t, pt_sighand t)) (bad_fork_cleanup_sighand ops p) s u"
      using step_sighand[OF assms(1,2) eu[unfolded True] assms(3)] by blast
    from result_signal[OF assms(1) this] show ?thesis unfolding eu True by simp
  next
    case False
    have "sr_tasks t p = Some q" using assms(2) by (simp add: forked_def)
    with copy_sighand_err[OF eu False this] have "restored s (bad_fork_cleanup_fs ops p u)"
      by (intro undoneD[OF assms(3)]) simp_all
    with False show ?thesis unfolding eu by simp
  qed
qed

lemma result_fs:
  assumes "forkable c p s" and "forked 1 fl c p s q t"
    and "undone p pt_files (bad_fork_cleanup_files ops p) s t"
  shows "fork_result fl sig idle c p s
    (let (e, u) = copy_fs ops fl p t in
     if e \<noteq> 0 then (Inl e, bad_fork_cleanup_files ops p u) else
     let (e, u) = copy_sighand ops fl p u in
     if e \<noteq> 0 then (Inl e, bad_fork_cleanup_fs ops p u) else
     let (e, u) = copy_signal ops fl p u in
     if e \<noteq> 0 then (Inl e, bad_fork_cleanup_sighand ops p u) else
     let (e, u) = copy_mm ops fl p u in
     if e \<noteq> 0 then (Inl e, bad_fork_cleanup_signal ops fl p u) else copy_stages ops [] gs fl sig idle p u)"
proof -
  obtain e u where eu: "copy_fs ops fl p t = (e, u)" by (cases "copy_fs ops fl p t")
  show ?thesis
  proof (cases "e = 0")
    case True
    then obtain q' where "forked 2 fl c p s q' u"
      and "undone p (\<lambda>t. (pt_files t, pt_fs t)) (bad_fork_cleanup_fs ops p) s u"
      using step_fs[OF assms(1,2) eu[unfolded True] assms(3)] by blast
    from result_sighand[OF assms(1) this] show ?thesis unfolding eu True by simp
  next
    case False
    obtain i where i: "pt_fs c = Some i" using forkableD(4)[OF assms(1)] by blast
    have t: "sr_tasks t (sr_current t) = Some c" "sr_tasks t p = Some q"
      using assms(2) forkableD(1,3)[OF assms(1)] by (simp_all add: forked_def)
    with copy_fs_err[OF eu False t i] have "restored s (bad_fork_cleanup_files ops p u)"
      by (intro undoneD[OF assms(3)]) simp_all
    with False show ?thesis unfolding eu by simp
  qed
qed

lemma result_files:
  assumes "forkable c p s" and "forked 0 fl c p s q t"
    and "undone p (\<lambda>_. ()) (bad_fork_cleanup_semundo ops p) s t"
  shows "fork_result fl sig idle c p s (copy_resources ops fl sig idle p t)"
proof -
  obtain e u where eu: "copy_files ops fl p t = (e, u)" by (cases "copy_files ops fl p t")
  show ?thesis
  proof (cases "e = 0")
    case True
    then obtain q' where "forked 1 fl c p s q' u" and "undone p pt_files (bad_fork_cleanup_files ops p) s u"
      using step_files[OF assms(1,2) eu[unfolded True] assms(3)] by blast
    from result_fs[OF assms(1) this] show ?thesis unfolding copy_resources_def eu True by simp
  next
    case False
    have t: "sr_tasks t (sr_current t) = Some c" "sr_tasks t p = Some q"
      using assms(2) forkableD(1,3)[OF assms(1)] by (simp_all add: forked_def)
    have "restored s (bad_fork_cleanup_semundo ops p u)"
      by (intro undoneD[OF assms(3)] copy_files_err[OF eu False t]) simp
    with False show ?thesis unfolding copy_resources_def eu by simp
  qed
qed

lemma resources_result:
  assumes "shares_ok s" and "o_alloc_task ops s = Some p"
  shows "\<exists>c. forkable c p s \<and> fork_result fl sig idle c p s (copy_process_resources ops fl sig idle s)"
proof -
  have p: "sr_tasks s p = None" by (rule alloc_task[OF assms(2)])
  obtain c where c: "forkable c p s"
    using shares_okD(8)[OF assms(1)] shares_ok_pos[OF assms(1)] p by (auto simp: forkable_def)
  let ?s = "s\<lparr>sr_tasks := (sr_tasks s)(p := sr_tasks s (sr_current s))\<rparr>"
  obtain e x where ex: "o_stage ops Before_files fl p ?s = (e, x)" by (cases "o_stage ops Before_files fl p ?s")
  have f: "forked 0 fl c p s c (?s\<lparr>sr_ext := x\<rparr>)" using forkableD(1)[OF c] by (simp add: forked_def)
  have off: "off p s (?s\<lparr>sr_ext := x\<rparr>)" using forkableD(1)[OF c] by (simp add: off_def)
  show ?thesis
  proof (cases "e = 0")
    case True
    have eq: "copy_process_resources ops fl sig idle s = copy_resources ops fl sig idle p (?s\<lparr>sr_ext := x\<rparr>)"
      using assms(2) ex True by (simp add: copy_process_resources_def)
    have "fork_result fl sig idle c p s (copy_process_resources ops fl sig idle s)"
      unfolding eq by (rule result_files[OF c f undone_semundo[OF p off]])
    then show ?thesis by (intro exI[of _ c] conjI c)
  next
    case False
    have "(sr_tasks s)(p := None) = sr_tasks s" using p by (simp add: fun_upd_idem)
    with False have "fork_result fl sig idle c p s (copy_process_resources ops fl sig idle s)"
      using assms(2) ex by (simp add: copy_process_resources_def Let_def restored_def bad_fork_free_def)
    then show ?thesis by (intro exI[of _ c] conjI c)
  qed
qed

end

text \<open>C17: A fork that fails, at whatever stage, leaves nothing behind: the tables of all shared objects
  with their counters, the tasks and the totals are those before the call, and the result is an
  error.\<close>

theorem failed_fork_restores:
  assumes "share_api ops" and "shares_ok s" and "copy_process_resources ops clone_flags sig idle s = (Inl e, s')"
  shows "e \<noteq> 0 \<and> restored s s'"
proof (cases "o_alloc_task ops s")
  case None
  with assms(3) show ?thesis by (simp add: copy_process_resources_def restored_def ENOMEM_def)
next
  case (Some p)
  from share_api.resources_result[OF assms(1,2) Some, where fl = clone_flags and sig = sig and idle = idle] show ?thesis
    unfolding assms(3) by simp
qed

section \<open>The counters are exact\<close>

lemma shares_ok_restored:
  assumes "shares_ok s" and "restored s t"
  shows "shares_ok t"
  using assms by (simp add: shares_ok_def restored_def)

lemma family_tables [simp]:
  "sr_current (set_family fl sig p s) = sr_current s" "sr_fs (set_family fl sig p s) = sr_fs s"
  "sr_files (set_family fl sig p s) = sr_files s" "sr_sighand (set_family fl sig p s) = sr_sighand s"
  "sr_signal (set_family fl sig p s) = sr_signal s" "sr_mm (set_family fl sig p s) = sr_mm s"
  by (simp_all add: set_family_def Let_def)

text \<open>The resources of the new task.\<close>

definition same_links :: "ptask \<Rightarrow> ptask \<Rightarrow> bool" where
  "same_links q q' \<longleftrightarrow> pt_fs q' = pt_fs q \<and> pt_files q' = pt_files q \<and> pt_sighand q' = pt_sighand q \<and>
     pt_signal q' = pt_signal q \<and> pt_mm q' = pt_mm q"

lemma family_task:
  obtains q' where "sr_tasks (set_family fl sig p s) = (sr_tasks s)(p \<mapsto> q')" and "same_links (ptk s p) q'"
  by (rule that[of "ptk (set_family fl sig p s) p"]) (simp_all add: set_family_def Let_def same_links_def)

lemma attach_tables:
  "sr_tasks (attach_task fl idle p s) = sr_tasks s" "sr_current (attach_task fl idle p s) = sr_current s"
  "sr_fs (attach_task fl idle p s) = sr_fs s" "sr_files (attach_task fl idle p s) = sr_files s"
  "sr_sighand (attach_task fl idle p s) = sr_sighand s" "sr_mm (attach_task fl idle p s) = sr_mm s"
  "\<not> has_flag fl CLONE_THREAD \<Longrightarrow> sr_signal (attach_task fl idle p s) = sr_signal s"
  by (simp_all add: attach_task_def Let_def)

lemma attach_thread:
  assumes "has_flag fl CLONE_THREAD" and "\<not> idle" and "pt_signal (ptk s (sr_current s)) = Some i" and "sr_signal s i = Some q"
  shows "sr_signal (attach_task fl idle p s) = (sr_signal s)(i \<mapsto>
    q\<lparr>sg_nr_threads := sg_nr_threads q + 1, sg_live := sg_live q + 1, sg_sigcnt := sg_sigcnt q + 1\<rparr>)"
  using assms by (simp add: attach_task_def Let_def)

lemma attached_signal:
  assumes "shares_ok s" and "forkable c p s" and "forked 5 fl c p s q t" and "idle \<longrightarrow> \<not> has_flag fl CLONE_THREAD"
    and u_def: "u = attach_task fl idle p (set_family fl sig p t)"
  shows "grown sg_nr_threads (has_flag fl CLONE_THREAD) (sr_signal s) (sr_signal u) (pt_signal c) (pt_signal q)"
    and "sr_signal u i = Some g \<Longrightarrow> sg_live g = sg_nr_threads g \<and> sg_sigcnt g = sg_nr_threads g"
proof -
  note c = forkableD[OF assms(2)]
  obtain k f where k: "pt_signal c = Some k" "sr_signal s k = Some f" using c(7) by blast
  have sg: "signal_grown (has_flag fl CLONE_THREAD) (sr_signal s) (sr_signal t) (pt_signal c) (pt_signal q)"
    and cur: "ptk t (sr_current t) = c" using assms(3) c(1,3) by (simp_all add: forked_def)
  note live = shares_okD(7)[OF assms(1)]
  have "grown sg_nr_threads (has_flag fl CLONE_THREAD) (sr_signal s) (sr_signal u) (pt_signal c) (pt_signal q) \<and>
    (\<forall>i g. sr_signal u i = Some g \<longrightarrow> sg_live g = sg_nr_threads g \<and> sg_sigcnt g = sg_nr_threads g)"
  proof (cases "has_flag fl CLONE_THREAD")
    case True
    obtain q' where "sr_tasks (set_family fl sig p t) = (sr_tasks t)(p \<mapsto> q')" by (rule family_task)
    then have "ptk (set_family fl sig p t) (sr_current (set_family fl sig p t)) = c"
      using cur c(3) assms(3) by (simp add: forked_def)
    with True assms(4) k sg have "sr_signal u = (sr_signal s)(k \<mapsto>
        f\<lparr>sg_nr_threads := sg_nr_threads f + 1, sg_live := sg_live f + 1, sg_sigcnt := sg_sigcnt f + 1\<rparr>)"
      unfolding u_def by (subst attach_thread) (simp_all add: signal_grown_def)
    with True k sg live show ?thesis by (auto simp: grown_def signal_grown_def)
  next
    case False
    with sg obtain j where j: "pt_signal q = Some j" "sr_signal s j = None"
      "sr_signal u = (sr_signal s)(j \<mapsto> \<lparr>sg_nr_threads = 1, sg_live = 1, sg_sigcnt = 1\<rparr>)"
      by (auto simp: u_def attach_tables signal_grown_def)
    with False k live show ?thesis unfolding j(1,3) by (auto simp: grown_def intro!: exI split: if_splits)
  qed
  then show "grown sg_nr_threads (has_flag fl CLONE_THREAD) (sr_signal s) (sr_signal u) (pt_signal c) (pt_signal q)"
    and "sr_signal u i = Some g \<Longrightarrow> sg_live g = sg_nr_threads g \<and> sg_sigcnt g = sg_nr_threads g" by blast+
qed

lemma forked_ok:
  assumes "shares_ok s" and "forkable c p s" and "forked 5 fl c p s q t" and "idle \<longrightarrow> \<not> has_flag fl CLONE_THREAD"
  shows "shares_ok (attach_task fl idle p (set_family fl sig p t))"
proof -
  let ?u = "attach_task fl idle p (set_family fl sig p t)"
  note ok = shares_okD[OF assms(1)] and c = forkableD[OF assms(2)] and f = assms(3)[unfolded forked_def, simplified]
  note g = attached_signal[OF assms(1-4) refl, of sig]
  obtain q' where q': "sr_tasks (set_family fl sig p t) = (sr_tasks t)(p \<mapsto> q')" "same_links (ptk t p) q'"
    by (rule family_task)
  then have tasks: "sr_tasks ?u = (sr_tasks s)(p \<mapsto> q')" and l: "same_links q q'"
    using f by (simp_all add: attach_tables)
  have "counted fs_users (sr_fs ?u) pt_fs (sr_tasks ?u)"
    unfolding tasks by (rule counted_grown[where share = "has_flag fl CLONE_FS" and old = "pt_fs c", OF ok(2) c(2) ok(1)]) (use f l in \<open>simp add: attach_tables same_links_def\<close>)
  moreover have "counted id (sr_files ?u) pt_files (sr_tasks ?u)"
    unfolding tasks by (rule counted_grown[where share = "has_flag fl CLONE_FILES" and old = "pt_files c", OF ok(3) c(2) ok(1)]) (use f l in \<open>simp add: attach_tables same_links_def\<close>)
  moreover have "counted sh_count (sr_sighand ?u) pt_sighand (sr_tasks ?u)"
    unfolding tasks by (rule counted_grown[where share = "has_flag fl CLONE_SIGHAND" and old = "pt_sighand c", OF ok(4) c(2) ok(1)]) (use f l in \<open>simp add: attach_tables same_links_def\<close>)
  moreover have "counted mm_users (sr_mm ?u) pt_mm (sr_tasks ?u)"
    unfolding tasks by (rule counted_grown[where share = "has_flag fl CLONE_VM" and old = "pt_mm c", OF ok(6) c(2) ok(1)]) (use f l in \<open>simp add: attach_tables same_links_def\<close>)
  moreover have "counted sg_nr_threads (sr_signal ?u) pt_signal (sr_tasks ?u)"
    unfolding tasks by (rule counted_grown[where share = "has_flag fl CLONE_THREAD" and old = "pt_signal c", OF ok(5) c(2) ok(1)]) (use g(1) l in \<open>simp add: same_links_def\<close>)
  moreover have "finite (dom (sr_tasks ?u))" unfolding tasks using ok(1) by simp
  moreover have "\<exists>c. sr_tasks ?u (sr_current ?u) = Some c \<and> pt_fs c \<noteq> None \<and> pt_sighand c \<noteq> None \<and> pt_signal c \<noteq> None"
    unfolding tasks using c(1,3,4,6,7) f by (auto simp: attach_tables)
  ultimately show ?thesis using g(2) by (simp add: shares_ok_def)
qed

text \<open>C18: A fork, whether it succeeds or fails, keeps the counters exact: each filesystem context, file
  table, set of signal handlers, address space and signal struct is referred to, its counter is the
  number of tasks that refer to it, and no task refers to one that was freed. (A task with the pid 0 is
  not made a thread.)\<close>

theorem fork_counts_exact:
  assumes "share_api ops" and "shares_ok s" and "idle \<longrightarrow> \<not> has_flag clone_flags CLONE_THREAD"
    and "copy_process_resources ops clone_flags sig idle s = (r, s')"
  shows "shares_ok s'"
proof (cases "o_alloc_task ops s")
  case None
  with assms(2,4) show ?thesis by (simp add: copy_process_resources_def)
next
  case (Some p)
  obtain c where c: "forkable c p s" and
    res: "fork_result clone_flags sig idle c p s (r, s')"
    using share_api.resources_result[OF assms(1,2) Some, where fl = clone_flags and sig = sig and idle = idle]
    unfolding assms(4) by (elim exE conjE)
  show ?thesis
  proof (cases r)
    case (Inl e)
    with res shares_ok_restored[OF assms(2)] show ?thesis by simp
  next
    case (Inr v)
    with res forked_ok[OF assms(2) c _ assms(3)] show ?thesis by auto
  qed
qed

section \<open>What the threads of a group share\<close>

text \<open>Tasks with one signal struct have one set of signal handlers, and tasks with one set of handlers
  have one address space.\<close>

definition group_ok :: "ptask \<Rightarrow> ptask \<Rightarrow> bool" where
  "group_ok t u \<longleftrightarrow> (pt_signal t = pt_signal u \<longrightarrow> pt_sighand t = pt_sighand u) \<and>
     (pt_sighand t = pt_sighand u \<longrightarrow> pt_mm t = pt_mm u)"

definition groups_share :: "'x shares \<Rightarrow> bool" where
  "groups_share s \<longleftrightarrow> (\<forall>p q t u. sr_tasks s p = Some t \<longrightarrow> sr_tasks s q = Some u \<longrightarrow> group_ok t u)"

lemma group_ok_sym: "group_ok t u \<Longrightarrow> group_ok u t"
  by (auto simp: group_ok_def)

lemma group_ok_refl: "group_ok t t"
  by (simp add: group_ok_def)

lemma groups_shareD: "groups_share s \<Longrightarrow> sr_tasks s p = Some t \<Longrightarrow> sr_tasks s q = Some u \<Longrightarrow> group_ok t u"
  unfolding groups_share_def by blast

lemma grown_same: "grown cnt True tab tab' old new \<Longrightarrow> new = old"
  by (auto simp: grown_def split: option.splits)

lemma grown_fresh:
  assumes "grown cnt False tab tab' old new" and "old \<noteq> None" and "counted cnt tab ptr tasks" and "tasks o' = Some t"
  shows "new \<noteq> ptr t"
proof -
  obtain j where j: "new = Some j" "tab j = None" using assms(1,2) by (auto simp: grown_def split: option.splits)
  with assms(3) have "users ptr tasks j = {}" by (simp add: counted_iff)
  with assms(4) have "ptr t \<noteq> Some j" by (auto simp: users_def)
  with j(1) show ?thesis by simp
qed

lemma checked_flags:
  assumes "copy_process_checks env k fl = 0"
  shows "has_flag fl CLONE_THREAD \<Longrightarrow> has_flag fl CLONE_SIGHAND" "has_flag fl CLONE_SIGHAND \<Longrightarrow> has_flag fl CLONE_VM"
  using assms by (auto simp: copy_process_checks_def EINVAL_def split: if_splits)

lemma fork_links:
  assumes "shares_ok s" and "forkable c p s" and "forked 5 fl c p s q t" and "copy_process_checks env k fl = 0"
    and "sr_tasks s o' = Some u"
  shows "pt_signal q = pt_signal u \<Longrightarrow> has_flag fl CLONE_THREAD \<and> pt_signal c = pt_signal u \<and> pt_sighand q = pt_sighand c"
    and "pt_sighand q = pt_sighand u \<Longrightarrow> has_flag fl CLONE_SIGHAND \<and> pt_sighand c = pt_sighand u \<and> pt_mm q = pt_mm c"
proof -
  note ok = shares_okD[OF assms(1)] and c = forkableD[OF assms(2)] and f = assms(3)[unfolded forked_def, simplified]
  have sh: "pt_sighand c \<noteq> None" using c(6) by auto
  have eq: "has_flag fl CLONE_SIGHAND \<Longrightarrow> pt_sighand q = pt_sighand c \<and> pt_mm q = pt_mm c"
    using f checked_flags(2)[OF assms(4)] by (auto dest: grown_same)
  have new: "pt_sighand q \<noteq> pt_sighand u" if "\<not> has_flag fl CLONE_SIGHAND"
    by (rule grown_fresh[where tab' = "sr_sighand t", OF _ sh ok(4) assms(5)]) (use f that in simp)
  show "has_flag fl CLONE_SIGHAND \<and> pt_sighand c = pt_sighand u \<and> pt_mm q = pt_mm c" if "pt_sighand q = pt_sighand u"
    using that eq new by (cases "has_flag fl CLONE_SIGHAND") simp_all
  have newsig: "pt_signal q \<noteq> pt_signal u" if thr: "\<not> has_flag fl CLONE_THREAD"
  proof -
    obtain j where j: "pt_signal q = Some j" "sr_signal s j = None" using f thr by (auto simp: signal_grown_def)
    with ok(5) have "users pt_signal (sr_tasks s) j = {}" by (simp add: counted_iff)
    with assms(5) have "pt_signal u \<noteq> Some j" by (auto simp: users_def)
    with j(1) show ?thesis by simp
  qed
  show "has_flag fl CLONE_THREAD \<and> pt_signal c = pt_signal u \<and> pt_sighand q = pt_sighand c" if "pt_signal q = pt_signal u"
    using that f newsig eq checked_flags(1)[OF assms(4)]
    by (cases "has_flag fl CLONE_THREAD") (simp_all add: signal_grown_def)
qed

lemma forked_groups:
  assumes "shares_ok s" and "groups_share s" and "forkable c p s" and "forked 5 fl c p s q t"
    and "copy_process_checks env k fl = 0"
  shows "groups_share (attach_task fl idle p (set_family fl sig p t))"
proof -
  note c = forkableD[OF assms(3)]
  obtain q' where q': "sr_tasks (set_family fl sig p t) = (sr_tasks t)(p \<mapsto> q')" "same_links (ptk t p) q'"
    by (rule family_task)
  then have tasks: "sr_tasks (attach_task fl idle p (set_family fl sig p t)) = (sr_tasks s)(p \<mapsto> q')" and l: "same_links q q'"
    using assms(4) by (simp_all add: attach_tables forked_def)
  have new: "group_ok q' b" if b: "sr_tasks s y = Some b" for y b
    using fork_links[OF assms(1,3,4,5) b] groups_shareD[OF assms(2) c(1) b] l by (auto simp: same_links_def group_ok_def)
  show ?thesis unfolding groups_share_def tasks
  proof (intro allI impI)
    fix x y a b assume xy: "((sr_tasks s)(p \<mapsto> q')) x = Some a" "((sr_tasks s)(p \<mapsto> q')) y = Some b"
    show "group_ok a b"
    proof (cases "x = p")
      case True
      with xy new[of y b] show ?thesis by (cases "y = p") (auto simp: group_ok_refl)
    next
      case False
      with xy(1) have a: "sr_tasks s x = Some a" by simp
      with xy(2) group_ok_sym[OF new[OF a]] groups_shareD[OF assms(2) a, of y b] show ?thesis
        by (cases "y = p") auto
    qed
  qed
qed

text \<open>C19: With the flags the checks of \<open>copy_process\<close> let pass, a fork keeps what its comments demand:
  the threads of a group share the signal handlers, and shared handlers imply a shared address space.\<close>

theorem thread_groups_share:
  assumes "share_api ops" and "shares_ok s" and "groups_share s" and "copy_process_checks env k clone_flags = 0"
    and "copy_process_resources ops clone_flags sig idle s = (r, s')"
  shows "groups_share s'"
proof (cases "o_alloc_task ops s")
  case None
  with assms(3,5) show ?thesis by (simp add: copy_process_resources_def)
next
  case (Some p)
  obtain c where c: "forkable c p s" and
    res: "fork_result clone_flags sig idle c p s (r, s')"
    using share_api.resources_result[OF assms(1,2) Some, where fl = clone_flags and sig = sig and idle = idle]
    unfolding assms(5) by (elim exE conjE)
  show ?thesis
  proof (cases r)
    case (Inl e)
    with res assms(3) show ?thesis by (simp add: groups_share_def restored_def)
  next
    case (Inr v)
    with res obtain q t where "forked 5 clone_flags c p s q t" "s' = attach_task clone_flags idle p (set_family clone_flags sig p t)"
      by auto
    with forked_groups[OF assms(2,3) c _ assms(4)] show ?thesis by simp
  qed
qed

section \<open>unshare\<close>

lemma counted_same:
  assumes "counted cnt tab ptr tasks" and "tasks p = Some t" and "ptr t' = ptr t"
  shows "counted cnt tab ptr (tasks(p \<mapsto> t'))"
proof -
  have "users ptr (tasks(p \<mapsto> t')) i = users ptr tasks i" for i using assms(2,3) by (auto simp: users_def)
  with assms(1) show ?thesis by (simp add: counted_iff)
qed

text \<open>A task moves from a shared object to a new one.\<close>

lemma counted_move:
  assumes "counted cnt tab ptr tasks" and "finite (dom tasks)" and "tasks p = Some t" and "ptr t = Some i"
    and "tab i = Some ob" and "cnt ob \<noteq> 1" and "tab j = None" and "ptr t' = Some j" and "cnt ob' = cnt ob - 1" and "cnt new = 1"
  shows "counted cnt (tab(j \<mapsto> new, i \<mapsto> ob')) ptr (tasks(p \<mapsto> t'))"
proof -
  have ij: "j \<noteq> i" using assms(5,7) by auto
  have p: "p \<in> users ptr tasks i" using assms(3,4) by (auto simp: users_def)
  have fin: "finite (users ptr tasks i)" using finite_subset[OF users_subset assms(2)] .
  have j: "users ptr tasks j = {}" and i: "cnt ob = int (card (users ptr tasks i))"
    using assms(1,5,7) by (simp_all add: counted_iff)
  have out: "p \<notin> users ptr tasks k" if "k \<noteq> i" for k using assms(3,4) that by (auto simp: users_def)
  have less: "card (users ptr tasks i - {p}) = card (users ptr tasks i) - 1" using p fin by simp
  have "card (users ptr tasks i) \<noteq> 1" "card (users ptr tasks i) > 0" using i assms(6) p fin by (auto simp: card_gt_0_iff)
  with less have ne: "users ptr tasks i - {p} \<noteq> {}" by (metis card.empty diff_is_0_eq nat_less_le not_le less_one)
  have ob': "cnt ob' = int (card (users ptr tasks i - {p}))"
    using less i assms(9) \<open>card (users ptr tasks i) > 0\<close> by simp
  show ?thesis
    using assms(1,8,10) ij j ne ob' out by (auto simp: counted_iff users_upd)
qed

text \<open>The copies \<open>unshare\<close> makes before it installs them.\<close>

context share_api
begin

lemma unshare_fs_cases:
  assumes "unshare_fs ops fl s = (e, new, t)" and "sr_tasks s (sr_current s) = Some c" and "pt_fs c = Some i"
    and "sr_fs s i = Some f"
  obtains "e \<noteq> 0" and "\<exists>x. t = s\<lparr>sr_ext := x\<rparr>"
  | "e = 0" and "new = None" and "t = s" and "has_flag fl CLONE_FS \<longrightarrow> fs_users f = 1"
  | j x where "e = 0" and "new = Some j" and "sr_fs s j = None" and "fs_users f \<noteq> 1"
    and "t = s\<lparr>sr_fs := (sr_fs s)(j \<mapsto> \<lparr>fs_users = 1, fs_in_exec = False\<rparr>), sr_ext := x\<rparr>"
proof (cases "\<not> has_flag fl CLONE_FS \<or> fs_users f = 1")
  case True
  with assms that(2) show ?thesis by (auto simp: unshare_fs_def)
next
  case False
  obtain r u where r: "o_copy_fs_struct ops i s = (r, u)" by (cases "o_copy_fs_struct ops i s")
  with False assms have t: "e = (if r = None then - ENOMEM else 0)" "new = r" "t = u"
    by (auto simp: unshare_fs_def split: if_splits)
  show ?thesis
  proof (cases r)
    case None
    with t r copy_fs_none that(1) show ?thesis by (auto simp: ENOMEM_def)
  next
    case (Some j)
    with r copy_fs_some obtain x where "sr_fs s j = None"
      "u = s\<lparr>sr_fs := (sr_fs s)(j \<mapsto> \<lparr>fs_users = 1, fs_in_exec = False\<rparr>), sr_ext := x\<rparr>" by blast
    with t Some False show ?thesis by (intro that(3)[of j x]) simp_all
  qed
qed

lemma unshare_fd_cases:
  assumes "unshare_fd ops fl s = (e, new, t)" and "sr_tasks s (sr_current s) = Some c"
    and "\<forall>i. pt_files c = Some i \<longrightarrow> (\<exists>n. sr_files s i = Some n \<and> n \<ge> 1)"
  obtains "e \<noteq> 0" and "\<exists>x. t = s\<lparr>sr_ext := x\<rparr>"
  | "e = 0" and "new = None" and "t = s"
    and "\<forall>i. has_flag fl CLONE_FILES \<longrightarrow> pt_files c = Some i \<longrightarrow> sr_files s i = Some 1"
  | i n g x where "e = 0" and "new = Some g" and "pt_files c = Some i" and "sr_files s i = Some n" and "n > 1"
    and "sr_files s g = None" and "t = s\<lparr>sr_files := (sr_files s)(g \<mapsto> 1), sr_ext := x\<rparr>"
proof (cases "\<exists>i n. pt_files c = Some i \<and> sr_files s i = Some n \<and> n > 1 \<and> has_flag fl CLONE_FILES")
  case True
  then obtain i n where i: "pt_files c = Some i" "sr_files s i = Some n" "n > 1" "has_flag fl CLONE_FILES" by blast
  obtain r u where r: "o_dup_fd ops i s = (r, u)" by (cases "o_dup_fd ops i s")
  show ?thesis
  proof (cases r)
    case (Inl e')
    with i r assms(1,2) have "e = e'" "t = u" by (simp_all add: unshare_fd_def)
    with dup_fd_err[OF r[unfolded Inl]] that(1) show ?thesis by blast
  next
    case (Inr g)
    with i r assms(1,2) have t: "e = 0" "new = Some g" "t = u" by (simp_all add: unshare_fd_def)
    obtain x where "sr_files s g = None" "u = s\<lparr>sr_files := (sr_files s)(g \<mapsto> 1), sr_ext := x\<rparr>"
      using dup_fd_ok[OF r[unfolded Inr]] by blast
    with t i show ?thesis by (intro that(3)[of g i n x]) simp_all
  qed
next
  case False
  have "e = 0 \<and> new = None \<and> t = s"
  proof (cases "pt_files c")
    case None
    with assms(1,2) show ?thesis by (simp add: unshare_fd_def)
  next
    case (Some i)
    then obtain n where "sr_files s i = Some n" using assms(3) by blast
    with Some False assms(1,2) show ?thesis by (auto simp: unshare_fd_def split: if_splits)
  qed
  moreover have "\<forall>i. has_flag fl CLONE_FILES \<longrightarrow> pt_files c = Some i \<longrightarrow> sr_files s i = Some 1"
    using False assms(3) by fastforce
  ultimately show ?thesis using that(2) by blast
qed

end

text \<open>The new objects are in the tables and nothing else has changed.\<close>

definition prepared :: "nat option \<Rightarrow> nat option \<Rightarrow> ptask \<Rightarrow> 'x shares \<Rightarrow> 'x shares \<Rightarrow> bool" where
  "prepared new_fs new_fd c s t \<longleftrightarrow> sr_tasks t = sr_tasks s \<and> sr_current t = sr_current s \<and>
     sr_sighand t = sr_sighand s \<and> sr_signal t = sr_signal s \<and> sr_mm t = sr_mm s \<and>
     sr_nr_threads t = sr_nr_threads s \<and> sr_total_forks t = sr_total_forks s \<and>
     (case new_fs of None \<Rightarrow> sr_fs t = sr_fs s
      | Some j \<Rightarrow> \<exists>i f. pt_fs c = Some i \<and> sr_fs s i = Some f \<and> fs_users f \<noteq> 1 \<and> sr_fs s j = None \<and>
          sr_fs t = (sr_fs s)(j \<mapsto> \<lparr>fs_users = 1, fs_in_exec = False\<rparr>)) \<and>
     (case new_fd of None \<Rightarrow> sr_files t = sr_files s
      | Some g \<Rightarrow> \<exists>i n. pt_files c = Some i \<and> sr_files s i = Some n \<and> n > 1 \<and> sr_files s g = None \<and>
          sr_files t = (sr_files s)(g \<mapsto> 1))"

lemma prepared_ext [simp]:
  "prepared new_fs new_fd c s (t\<lparr>sr_ext := x\<rparr>) = prepared new_fs new_fd c s t"
  "prepared new_fs new_fd c s (in_ext h t) = prepared new_fs new_fd c s t"
  by (simp_all add: prepared_def in_ext_def split: option.splits)

text \<open>The new objects are installed, the old ones have a user less.\<close>

definition unshared :: "nat option \<Rightarrow> nat option \<Rightarrow> ptask \<Rightarrow> 'x shares \<Rightarrow> 'x shares \<Rightarrow> bool" where
  "unshared new_fs new_fd c s t \<longleftrightarrow>
     sr_tasks t = (sr_tasks s)(sr_current s \<mapsto> c
       \<lparr>pt_fs := (case new_fs of None \<Rightarrow> pt_fs c | Some j \<Rightarrow> Some j),
        pt_files := (case new_fd of None \<Rightarrow> pt_files c | Some g \<Rightarrow> Some g)\<rparr>) \<and>
     sr_current t = sr_current s \<and>
     sr_sighand t = sr_sighand s \<and> sr_signal t = sr_signal s \<and> sr_mm t = sr_mm s \<and>
     (case new_fs of None \<Rightarrow> sr_fs t = sr_fs s
      | Some j \<Rightarrow> \<exists>i f. pt_fs c = Some i \<and> sr_fs s i = Some f \<and> fs_users f \<noteq> 1 \<and> sr_fs s j = None \<and>
          sr_fs t = (sr_fs s)(j \<mapsto> \<lparr>fs_users = 1, fs_in_exec = False\<rparr>, i \<mapsto> f\<lparr>fs_users := fs_users f - 1\<rparr>)) \<and>
     (case new_fd of None \<Rightarrow> sr_files t = sr_files s
      | Some g \<Rightarrow> \<exists>i n. pt_files c = Some i \<and> sr_files s i = Some n \<and> n > 1 \<and> sr_files s g = None \<and>
          sr_files t = (sr_files s)(g \<mapsto> 1, i \<mapsto> n - 1))"

lemma unshared_ok:
  assumes "shares_ok s" and "sr_tasks s (sr_current s) = Some c" and "unshared new_fs new_fd c s t"
  shows "shares_ok t"
proof -
  note ok = shares_okD[OF assms(1)] and u = assms(3)[unfolded unshared_def]
  let ?c = "c\<lparr>pt_fs := (case new_fs of None \<Rightarrow> pt_fs c | Some j \<Rightarrow> Some j),
        pt_files := (case new_fd of None \<Rightarrow> pt_files c | Some g \<Rightarrow> Some g)\<rparr>"
  have tasks: "sr_tasks t = (sr_tasks s)(sr_current s \<mapsto> ?c)" using u by blast
  have "counted fs_users (sr_fs t) pt_fs (sr_tasks t)"
  proof (cases new_fs)
    case None
    with u counted_same[OF ok(2) assms(2), of ?c] show ?thesis unfolding tasks by simp
  next
    case (Some j)
    with u obtain i f where i: "pt_fs c = Some i" "sr_fs s i = Some f" "fs_users f \<noteq> 1" "sr_fs s j = None"
      "sr_fs t = (sr_fs s)(j \<mapsto> \<lparr>fs_users = 1, fs_in_exec = False\<rparr>, i \<mapsto> f\<lparr>fs_users := fs_users f - 1\<rparr>)" by auto
    show ?thesis unfolding tasks i(5)
      by (rule counted_move[where ptr = pt_fs, OF ok(2,1) assms(2) i(1-4)]) (simp_all add: Some)
  qed
  moreover have "counted id (sr_files t) pt_files (sr_tasks t)"
  proof (cases new_fd)
    case None
    with u counted_same[OF ok(3) assms(2), of ?c] show ?thesis unfolding tasks by simp
  next
    case (Some g)
    with u obtain i n where i: "pt_files c = Some i" "sr_files s i = Some n" "n > 1" "sr_files s g = None"
      "sr_files t = (sr_files s)(g \<mapsto> 1, i \<mapsto> n - 1)" by auto
    have "id n \<noteq> 1" using i(3) by simp
    show ?thesis unfolding tasks i(5)
      by (rule counted_move[where ptr = pt_files and cnt = id, OF ok(3,1) assms(2) i(1,2) \<open>id n \<noteq> 1\<close> i(4)])
        (simp_all add: Some)
  qed
  moreover have "counted sh_count (sr_sighand t) pt_sighand (sr_tasks t)"
    "counted sg_nr_threads (sr_signal t) pt_signal (sr_tasks t)" "counted mm_users (sr_mm t) pt_mm (sr_tasks t)"
    using u counted_same[OF ok(4) assms(2), of ?c] counted_same[OF ok(5) assms(2), of ?c]
      counted_same[OF ok(6) assms(2), of ?c] unfolding tasks by simp_all
  moreover have "finite (dom (sr_tasks t))" unfolding tasks using ok(1) by simp
  moreover have "\<exists>c. sr_tasks t (sr_current t) = Some c \<and> pt_fs c \<noteq> None \<and> pt_sighand c \<noteq> None \<and> pt_signal c \<noteq> None"
    unfolding tasks using u ok(8) assms(2) by (auto split: option.splits)
  ultimately show ?thesis unfolding shares_ok_def using u ok(7) by simp
qed

context share_api
begin

lemma cleanup_prepared:
  assumes "prepared new_fs new_fd c s t"
  shows "restored s (unshare_cleanup_fd ops new_fd new_fs t)"
proof -
  obtain x where x: "(case new_fd of None \<Rightarrow> t | Some f \<Rightarrow> o_put_files_struct ops f t) = t\<lparr>sr_files := sr_files s, sr_ext := x\<rparr>"
  proof (cases new_fd)
    case None
    with assms that[of "sr_ext t"] show ?thesis by (simp add: prepared_def)
  next
    case (Some g)
    with assms have g: "sr_files s g = None" "sr_files t = (sr_files s)(g \<mapsto> 1)" by (auto simp: prepared_def)
    moreover have "(sr_files s)(g := None) = sr_files s" using g(1) by (simp add: fun_upd_idem)
    ultimately show ?thesis using put_files[of t g 1] Some that by auto
  qed
  show ?thesis
  proof (cases new_fs)
    case None
    with assms x show ?thesis by (simp add: unshare_cleanup_fd_def prepared_def restored_def)
  next
    case (Some j)
    with assms have j: "sr_fs s j = None" "sr_fs t = (sr_fs s)(j \<mapsto> \<lparr>fs_users = 1, fs_in_exec = False\<rparr>)"
      by (auto simp: prepared_def)
    then have "(sr_fs t)(j := None) = sr_fs s" by (simp add: fun_upd_idem)
    with free_fs[of j "t\<lparr>sr_files := sr_files s, sr_ext := x\<rparr>"] assms x Some show ?thesis
      by (auto simp: unshare_cleanup_fd_def prepared_def restored_def)
  qed
qed

lemma install_fs_result:
  assumes "prepared new_fs new_fd c s t" and "sr_tasks s (sr_current s) = Some c"
  obtains tab where "install_fs new_fs t = (None, t\<lparr>sr_tasks := (sr_tasks s)(sr_current s \<mapsto>
      c\<lparr>pt_fs := (case new_fs of None \<Rightarrow> pt_fs c | Some j \<Rightarrow> Some j)\<rparr>), sr_fs := tab\<rparr>)"
    and "case new_fs of None \<Rightarrow> tab = sr_fs s
      | Some j \<Rightarrow> \<exists>i f. pt_fs c = Some i \<and> sr_fs s i = Some f \<and> fs_users f \<noteq> 1 \<and> sr_fs s j = None \<and>
          tab = (sr_fs s)(j \<mapsto> \<lparr>fs_users = 1, fs_in_exec = False\<rparr>, i \<mapsto> f\<lparr>fs_users := fs_users f - 1\<rparr>)"
proof (cases new_fs)
  case None
  have "install_fs new_fs t = (None, t\<lparr>sr_tasks := (sr_tasks s)(sr_current s \<mapsto> c\<lparr>pt_fs := pt_fs c\<rparr>), sr_fs := sr_fs s\<rparr>)"
    using None assms by (simp add: install_fs_def prepared_def fun_upd_idem)
  with None that[of "sr_fs s"] show ?thesis by simp
next
  case (Some j)
  with assms(1) obtain i f where i: "pt_fs c = Some i" "sr_fs s i = Some f" "fs_users f \<noteq> 1" "sr_fs s j = None"
    "sr_fs t = (sr_fs s)(j \<mapsto> \<lparr>fs_users = 1, fs_in_exec = False\<rparr>)" "sr_tasks t = sr_tasks s" "sr_current t = sr_current s"
    by (auto simp: prepared_def)
  then have "i \<noteq> j" by auto
  with i Some assms(2) have "install_fs new_fs t = (None, t\<lparr>sr_tasks := (sr_tasks s)(sr_current s \<mapsto> c\<lparr>pt_fs := Some j\<rparr>),
      sr_fs := (sr_fs s)(j \<mapsto> \<lparr>fs_users = 1, fs_in_exec = False\<rparr>, i \<mapsto> f\<lparr>fs_users := fs_users f - 1\<rparr>)\<rparr>)"
    by (simp add: install_fs_def Let_def)
  with Some i(1-4) show ?thesis by (intro that) auto
qed

lemma prepared_acts: "prepared new_fs new_fd c s t \<Longrightarrow> prepared new_fs new_fd c s (unshare_acts ops fl nn t)"
  by (simp add: unshare_acts_def Let_def)

lemma install_prepared:
  assumes "prepared new_fs new_fd c s t" and "sr_tasks s (sr_current s) = Some c"
    and "unshare_install ops nc new_fs new_fd t = (old_fd, old_fs, u)"
  shows "unshared new_fs new_fd c s (unshare_cleanup_fd ops old_fd old_fs u)"
proof -
  let ?c = "c\<lparr>pt_fs := (case new_fs of None \<Rightarrow> pt_fs c | Some j \<Rightarrow> Some j)\<rparr>"
  obtain tab where t1: "install_fs new_fs t = (None, t\<lparr>sr_tasks := (sr_tasks s)(sr_current s \<mapsto> ?c), sr_fs := tab\<rparr>)"
    and tab: "case new_fs of None \<Rightarrow> tab = sr_fs s
      | Some j \<Rightarrow> \<exists>i f. pt_fs c = Some i \<and> sr_fs s i = Some f \<and> fs_users f \<noteq> 1 \<and> sr_fs s j = None \<and>
          tab = (sr_fs s)(j \<mapsto> \<lparr>fs_users = 1, fs_in_exec = False\<rparr>, i \<mapsto> f\<lparr>fs_users := fs_users f - 1\<rparr>)"
    by (rule install_fs_result[OF assms(1,2)])
  let ?t = "t\<lparr>sr_tasks := (sr_tasks s)(sr_current s \<mapsto> ?c), sr_fs := tab\<rparr>"
  have cur: "sr_current t = sr_current s" using assms(1) by (simp add: prepared_def)
  show ?thesis
  proof (cases new_fd)
    case None
    have u: "old_fd = None" "old_fs = None" "\<exists>x. u = ?t\<lparr>sr_ext := x\<rparr>"
      using assms(3) None t1 by (auto simp: unshare_install_def install_fd_def in_ext_def Let_def split: if_splits)
    then show ?thesis using tab assms(1) None
      by (auto simp: unshare_cleanup_fd_def unshared_def prepared_def split: option.splits)
  next
    case (Some g)
    with assms(1) obtain i n where i: "pt_files c = Some i" "sr_files s i = Some n" "n > 1" "sr_files s g = None"
      "sr_files t = (sr_files s)(g \<mapsto> 1)" by (auto simp: prepared_def)
    then have "i \<noteq> g" by auto
    let ?v = "?t\<lparr>sr_tasks := (sr_tasks s)(sr_current s \<mapsto> ?c\<lparr>pt_files := Some g\<rparr>)\<rparr>"
    obtain x where u: "old_fd = Some i" "old_fs = None" "u = ?v\<lparr>sr_ext := x\<rparr>"
      using assms(3) Some t1 i(1) cur by (auto simp: unshare_install_def install_fd_def in_ext_def Let_def split: if_splits)
    obtain y where "o_put_files_struct ops i u = u\<lparr>sr_files := (sr_files s)(g \<mapsto> 1, i \<mapsto> n - 1), sr_ext := y\<rparr>"
      using put_files[of u i n] u(3) i \<open>i \<noteq> g\<close> by auto
    then show ?thesis using tab assms(1) Some u i
      by (auto simp: unshare_cleanup_fd_def unshared_def prepared_def split: option.splits)
  qed
qed

lemma prepared_start: "prepared None None c s s"
  by (simp add: prepared_def)

lemma unshare_fs_prepared:
  assumes "shares_ok s" and "sr_tasks s (sr_current s) = Some c" and "unshare_fs ops fl s = (e, new_fs, t)"
  shows "if e \<noteq> 0 then restored s t
    else prepared new_fs None c s t \<and>
      (has_flag fl CLONE_FS \<longrightarrow> new_fs = None \<longrightarrow> (\<exists>i f. pt_fs c = Some i \<and> sr_fs s i = Some f \<and> fs_users f = 1))"
proof -
  obtain i f where i: "pt_fs c = Some i" "sr_fs s i = Some f"
    using shares_okD(8)[OF assms(1)] counted_pos[OF shares_okD(2,1)[OF assms(1)] assms(2)] assms(2) by auto
  show ?thesis
  proof (cases rule: unshare_fs_cases[OF assms(3,2) i])
    case 1
    then show ?thesis by (auto simp: restored_def)
  next
    case 2
    with i show ?thesis by (auto simp: prepared_def)
  next
    case (3 j x)
    with i show ?thesis by (auto simp: prepared_def)
  qed
qed

lemma unshare_fd_prepared:
  assumes "shares_ok s" and "sr_tasks s (sr_current s) = Some c" and "prepared new_fs None c s t"
    and "unshare_fd ops fl t = (e, new_fd, u)"
  shows "if e \<noteq> 0 then prepared new_fs None c s u
    else prepared new_fs new_fd c s u \<and>
      (has_flag fl CLONE_FILES \<longrightarrow> new_fd = None \<longrightarrow> (\<forall>i. pt_files c = Some i \<longrightarrow> sr_files s i = Some 1))"
proof -
  have t: "sr_tasks t (sr_current t) = Some c" "sr_files t = sr_files s" using assms(2,3) by (simp_all add: prepared_def)
  have ex: "\<forall>i. pt_files c = Some i \<longrightarrow> (\<exists>n. sr_files t i = Some n \<and> n \<ge> 1)"
    using counted_pos[OF shares_okD(3,1)[OF assms(1)] assms(2)] t(2) by auto
  show ?thesis
  proof (cases rule: unshare_fd_cases[OF assms(4) t(1) ex])
    case 1
    then obtain x where "u = t\<lparr>sr_ext := x\<rparr>" by blast
    with assms(3) show ?thesis using 1(1) by simp
  next
    case 2
    with assms(3) t(2) show ?thesis by auto
  next
    case (3 i n g x)
    with assms(3) t(2) show ?thesis by (auto simp: prepared_def split: option.splits)
  qed
qed

text \<open>From the namespaces on.\<close>

lemma unshare_end:
  assumes "sr_tasks s (sr_current s) = Some c" and "prepared new_fs new_fd c s t"
    and "(let (err, new_cred, x) = o_unshare_userns ops fl t; s = t\<lparr>sr_ext := x\<rparr> in
      if err \<noteq> 0 then (err, unshare_cleanup_fd ops new_fd new_fs s) else
      let (err, new_ns, x) = o_unshare_nsproxy ops fl s; s = s\<lparr>sr_ext := x\<rparr>;
          put = (\<lambda>s. if new_cred then in_ext (o_act ops Put_cred) s else s) in
      if err \<noteq> 0 then (err, unshare_cleanup_fd ops new_fd new_fs (put s)) else
      let (err, x) = (if new_cred then o_set_cred_ucounts ops s else (0, sr_ext s)); s = s\<lparr>sr_ext := x\<rparr> in
      if err \<noteq> 0 then (err, unshare_cleanup_fd ops new_fd new_fs (put s)) else
      let (old_fd, old_fs, s) = unshare_install ops new_cred new_fs new_fd (unshare_acts ops fl new_ns s)
      in (0, unshare_cleanup_fd ops old_fd old_fs s)) = (e, u)"
  shows "if e \<noteq> 0 then restored s u else unshared new_fs new_fd c s u"
proof -
  obtain e1 cr x1 where u1: "o_unshare_userns ops fl t = (e1, cr, x1)" by (cases "o_unshare_userns ops fl t")
  let ?t = "t\<lparr>sr_ext := x1\<rparr>"
  obtain e2 ns x2 where u2: "o_unshare_nsproxy ops fl ?t = (e2, ns, x2)" by (cases "o_unshare_nsproxy ops fl ?t")
  let ?u = "?t\<lparr>sr_ext := x2\<rparr>"
  obtain e3 x3 where u3: "(if cr then o_set_cred_ucounts ops ?u else (0, sr_ext ?u)) = (e3, x3)"
    by (cases "if cr then o_set_cred_ucounts ops ?u else (0, sr_ext ?u)")
  let ?v = "?u\<lparr>sr_ext := x3\<rparr>"
  have p: "prepared new_fs new_fd c s ?t" "prepared new_fs new_fd c s ?u" "prepared new_fs new_fd c s ?v"
    "prepared new_fs new_fd c s (in_ext (o_act ops Put_cred) ?u)" "prepared new_fs new_fd c s (in_ext (o_act ops Put_cred) ?v)"
    using assms(2) by simp_all
  note back_to = cleanup_prepared[OF p(1)] cleanup_prepared[OF p(2)] cleanup_prepared[OF p(3)]
    cleanup_prepared[OF p(4)] cleanup_prepared[OF p(5)]
  obtain ofd ofs w where w: "unshare_install ops cr new_fs new_fd (unshare_acts ops fl ns ?v) = (ofd, ofs, w)"
    by (cases "unshare_install ops cr new_fs new_fd (unshare_acts ops fl ns ?v)")
  note installed = install_prepared[OF prepared_acts[OF p(3)] assms(1) w]
  note body = assms(3)[unfolded u1 prod.case Let_def u2 u3 w]
  show ?thesis
  proof (cases "e1 = 0 \<and> e2 = 0 \<and> e3 = 0")
    case True
    with body installed show ?thesis by auto
  next
    case False
    with body back_to show ?thesis by (cases "e1 = 0"; cases "e2 = 0"; cases cr) auto
  qed
qed

end

text \<open>Who may write to them: after a successful \<open>unshare\<close> nobody else has the structures.\<close>

definition alone :: "u64 \<Rightarrow> 'x shares \<Rightarrow> bool" where
  "alone fl s \<longleftrightarrow> (let c = ptk s (sr_current s) in
     (has_flag fl CLONE_FS \<longrightarrow> (\<exists>i f. pt_fs c = Some i \<and> sr_fs s i = Some f \<and> fs_users f = 1)) \<and>
     (has_flag fl CLONE_FILES \<longrightarrow> (\<forall>i. pt_files c = Some i \<longrightarrow> sr_files s i = Some 1)))"

lemma unshared_alone:
  assumes "unshared new_fs new_fd c s u"
    and "has_flag fl CLONE_FS \<longrightarrow> new_fs = None \<longrightarrow> (\<exists>i f. pt_fs c = Some i \<and> sr_fs s i = Some f \<and> fs_users f = 1)"
    and "has_flag fl CLONE_FILES \<longrightarrow> new_fd = None \<longrightarrow> (\<forall>i. pt_files c = Some i \<longrightarrow> sr_files s i = Some 1)"
  shows "alone fl u"
proof -
  note u = assms(1)[unfolded unshared_def]
  have "has_flag fl CLONE_FS \<longrightarrow> (\<exists>i f. pt_fs (ptk u (sr_current u)) = Some i \<and> sr_fs u i = Some f \<and> fs_users f = 1)"
    using u assms(2) by (cases new_fs) auto
  moreover have "has_flag fl CLONE_FILES \<longrightarrow> (\<forall>i. pt_files (ptk u (sr_current u)) = Some i \<longrightarrow> sr_files u i = Some 1)"
    using u assms(3) by (cases new_fd) auto
  ultimately show ?thesis by (simp add: alone_def Let_def)
qed

text \<open>C20: \<open>unshare\<close> keeps the counters exact. When it succeeds, the filesystem context and the file table of
  the caller are its own if their flags, or flags that imply them, are given; when it fails, every table
  and every task is as before.\<close>

theorem unshare_exclusive:
  assumes "share_api ops" and "shares_ok s" and "ksys_unshare env k ops flags s = (e, s')"
  shows "shares_ok s' \<and> (if e = 0 then alone (unshare_closure flags) s' else restored s s')"
proof -
  let ?F = "unshare_closure flags"
  obtain c where c: "sr_tasks s (sr_current s) = Some c" using shares_okD(8)[OF assms(2)] by blast
  obtain e1 fs t where t: "unshare_fs ops ?F s = (e1, fs, t)" by (cases "unshare_fs ops ?F s")
  obtain e2 fd u where u: "unshare_fd ops ?F t = (e2, fd, u)" by (cases "unshare_fd ops ?F t")
  note body = assms(3)[unfolded ksys_unshare_def Let_def[of ?F] t u prod.case]
  note p1 = share_api.unshare_fs_prepared[OF assms(1,2) c t]
  have "if e = 0 then alone ?F s' \<and> shares_ok s' else restored s s'"
  proof (cases "check_unshare_flags env k ?F = 0 \<and> e1 = 0")
    case False
    with body p1 show ?thesis by (auto simp: Let_def restored_def split: if_splits)
  next
    case True
    with p1 have p: "prepared fs None c s t"
      "has_flag ?F CLONE_FS \<longrightarrow> fs = None \<longrightarrow> (\<exists>i f. pt_fs c = Some i \<and> sr_fs s i = Some f \<and> fs_users f = 1)" by simp_all
    note p2 = share_api.unshare_fd_prepared[OF assms(1,2) c p(1) u]
    show ?thesis
    proof (cases "e2 = 0")
      case False
      with p2 share_api.cleanup_prepared[OF assms(1), of fs None c s u] body True show ?thesis by (simp add: u Let_def)
    next
      case e2: True
      with p2 have q: "prepared fs fd c s u"
        "has_flag ?F CLONE_FILES \<longrightarrow> fd = None \<longrightarrow> (\<forall>i. pt_files c = Some i \<longrightarrow> sr_files s i = Some 1)" by simp_all
      have "if e \<noteq> 0 then restored s s' else unshared fs fd c s s'"
        by (rule share_api.unshare_end[OF assms(1) c q(1), where fl = ?F]) (use body True e2 in \<open>simp add: u\<close>)
      with unshared_alone[OF _ p(2) q(2)] unshared_ok[OF assms(2) c] show ?thesis by (auto split: if_splits)
    qed
  qed
  then show ?thesis using shares_ok_restored[OF assms(2)] by (auto split: if_splits)
qed

section \<open>An implementation of the contract\<close>

text \<open>The functions of the other files by counters: \<open>sr_ext\<close> is the number of the next new object.\<close>

definition new_id :: "(nat shares \<Rightarrow> nat \<Rightarrow> 'o option) \<Rightarrow> nat shares \<Rightarrow> nat option" where
  "new_id tab s = (if tab s (sr_ext s) = None then Some (sr_ext s) else None)"

definition put_ref :: "int \<Rightarrow> (int \<Rightarrow> 'o) \<Rightarrow> 'o option" where
  "put_ref n f = (if n = 1 then None else Some (f (n - 1)))"

definition put_files0 :: "nat \<Rightarrow> nat shares \<Rightarrow> nat shares" where
  "put_files0 f s = s\<lparr>sr_files := (sr_files s)(f := put_ref (the (sr_files s f)) id)\<rparr>"

definition exit_fs0 :: "tid \<Rightarrow> nat shares \<Rightarrow> nat shares" where
  "exit_fs0 p s =
     (case pt_fs (ptk s p) of None \<Rightarrow> s
      | Some i \<Rightarrow> let f = the (sr_fs s i) in
          s\<lparr>sr_tasks := (sr_tasks s)(p \<mapsto> (ptk s p)\<lparr>pt_fs := None\<rparr>),
            sr_fs := (sr_fs s)(i := put_ref (fs_users f) (\<lambda>n. f\<lparr>fs_users := n\<rparr>))\<rparr>)"

definition share_ops0 :: "nat share_ops" where
  "share_ops0 = \<lparr>o_alloc_task = new_id sr_tasks,
     o_copy_fs_struct = (\<lambda>i s. case new_id sr_fs s of None \<Rightarrow> (None, s)
       | Some j \<Rightarrow> (Some j, s\<lparr>sr_fs := (sr_fs s)(j \<mapsto> \<lparr>fs_users = 1, fs_in_exec = False\<rparr>), sr_ext := j + 1\<rparr>)),
     o_free_fs_struct = (\<lambda>i s. s\<lparr>sr_fs := (sr_fs s)(i := None)\<rparr>), o_exit_fs = exit_fs0,
     o_dup_fd = (\<lambda>f s. case new_id sr_files s of None \<Rightarrow> (Inl (- ENOMEM), s)
       | Some g \<Rightarrow> (Inr g, s\<lparr>sr_files := (sr_files s)(g \<mapsto> 1), sr_ext := g + 1\<rparr>)),
     o_put_files_struct = put_files0,
     o_exit_files = (\<lambda>p s. case pt_files (ptk s p) of None \<Rightarrow> s
       | Some f \<Rightarrow> put_files0 f (upd_ptk p (\<lambda>t. t\<lparr>pt_files := None\<rparr>) s)),
     o_alloc_sighand = new_id sr_sighand, o_flush_handlers = (\<lambda>a n. if a n = 1 then 1 else 0),
     o_alloc_signal = new_id sr_signal, o_alloc_mm = new_id sr_mm, o_mm_contexts = (\<lambda>m s. True),
     o_dup_mmap = (\<lambda>m i s. (0, sr_ext s)), o_module_get = (\<lambda>b s. True),
     o_mmget = (\<lambda>m s. s\<lparr>sr_mm := (sr_mm s)(m \<mapsto> (the (sr_mm s m))\<lparr>mm_users := mm_users (the (sr_mm s m)) + 1\<rparr>)\<rparr>),
     o_mmdrop = (\<lambda>m s. let q = the (sr_mm s m) in if mm_count q = 1 then mmdrop_free m s
       else s\<lparr>sr_mm := (sr_mm s)(m \<mapsto> q\<lparr>mm_count := mm_count q - 1\<rparr>)\<rparr>),
     o_exit_mmap = (\<lambda>m s. sr_ext s), o_stage = (\<lambda>g fl p s. (0, sr_ext s)), o_undo = (\<lambda>g p s. sr_ext s),
     o_unshare_userns = (\<lambda>fl s. (0, False, sr_ext s)), o_unshare_nsproxy = (\<lambda>fl s. (0, False, sr_ext s)),
     o_set_cred_ucounts = (\<lambda>s. (0, sr_ext s)), o_act = (\<lambda>a s. sr_ext s)\<rparr>"

text \<open>The contract says nothing on the stages of the other subsystems.\<close>

lemma share_api0: "share_api (share_ops0\<lparr>o_stage := f\<rparr>)"
proof
  have same: "\<exists>x. s = s\<lparr>sr_ext := x\<rparr>" for s :: "nat shares" by (rule exI[of _ "sr_ext s"]) simp
  fix s t :: "nat shares" and i j p m g e n q h
  let ?o = "share_ops0\<lparr>o_stage := f\<rparr>"
  show "o_alloc_task ?o s = Some p \<Longrightarrow> sr_tasks s p = None" by (auto simp: share_ops0_def new_id_def split: if_splits)
  show "o_copy_fs_struct ?o i s = (None, t) \<Longrightarrow> \<exists>x. t = s\<lparr>sr_ext := x\<rparr>"
    using same by (auto simp: share_ops0_def split: option.splits)
  show "o_copy_fs_struct ?o i s = (Some j, t) \<Longrightarrow> sr_fs s j = None \<and>
      (\<exists>x. t = s\<lparr>sr_fs := (sr_fs s)(j \<mapsto> \<lparr>fs_users = 1, fs_in_exec = False\<rparr>), sr_ext := x\<rparr>)"
    by (auto simp: share_ops0_def new_id_def split: option.splits if_splits)
  show "\<exists>x. o_free_fs_struct ?o i s = s\<lparr>sr_fs := (sr_fs s)(i := None), sr_ext := x\<rparr>"
    by (rule exI[of _ "sr_ext s"]) (simp add: share_ops0_def)
  show "pt_fs (ptk s p) = Some i \<Longrightarrow> sr_fs s i = Some h \<Longrightarrow>
      \<exists>x. o_exit_fs ?o p s = s\<lparr>sr_tasks := (sr_tasks s)(p \<mapsto> (ptk s p)\<lparr>pt_fs := None\<rparr>),
        sr_fs := (sr_fs s)(i := if fs_users h = 1 then None else Some (h\<lparr>fs_users := fs_users h - 1\<rparr>)), sr_ext := x\<rparr>"
    by (rule exI[of _ "sr_ext s"]) (simp add: share_ops0_def exit_fs0_def put_ref_def Let_def)
  show "o_dup_fd ?o i s = (Inl e, t) \<Longrightarrow> e \<noteq> 0 \<and> (\<exists>x. t = s\<lparr>sr_ext := x\<rparr>)"
    using same by (auto simp: share_ops0_def ENOMEM_def split: option.splits)
  show "o_dup_fd ?o i s = (Inr g, t) \<Longrightarrow> sr_files s g = None \<and>
      (\<exists>x. t = s\<lparr>sr_files := (sr_files s)(g \<mapsto> 1), sr_ext := x\<rparr>)"
    by (auto simp: share_ops0_def new_id_def split: option.splits if_splits)
  show "sr_files s i = Some n \<Longrightarrow> \<exists>x. o_put_files_struct ?o i s =
        s\<lparr>sr_files := (sr_files s)(i := if n = 1 then None else Some (n - 1)), sr_ext := x\<rparr>"
    by (rule exI[of _ "sr_ext s"]) (simp add: share_ops0_def put_files0_def put_ref_def)
  show "o_exit_files ?o p s = (case pt_files (ptk s p) of None \<Rightarrow> s
       | Some f \<Rightarrow> o_put_files_struct ?o f (upd_ptk p (\<lambda>t. t\<lparr>pt_files := None\<rparr>) s))"
    by (simp add: share_ops0_def split: option.splits)
  show "o_alloc_sighand ?o s = Some i \<Longrightarrow> sr_sighand s i = None" "o_alloc_signal ?o s = Some i \<Longrightarrow> sr_signal s i = None"
    "o_alloc_mm ?o s = Some i \<Longrightarrow> sr_mm s i = None" by (auto simp: share_ops0_def new_id_def split: if_splits)
  show "sr_mm s m = Some q \<Longrightarrow>
      \<exists>x. o_mmget ?o m s = s\<lparr>sr_mm := (sr_mm s)(m \<mapsto> q\<lparr>mm_users := mm_users q + 1\<rparr>), sr_ext := x\<rparr>"
    by (rule exI[of _ "sr_ext s"]) (simp add: share_ops0_def)
  show "sr_mm s m = Some q \<Longrightarrow>
      \<exists>x. o_mmdrop ?o m s = (if mm_count q = 1 then mmdrop_free m s
        else s\<lparr>sr_mm := (sr_mm s)(m \<mapsto> q\<lparr>mm_count := mm_count q - 1\<rparr>)\<rparr>)\<lparr>sr_ext := x\<rparr>"
    by (rule exI[of _ "sr_ext s"]) (simp add: share_ops0_def mmdrop_free_def)
qed

interpretation counters: share_api share_ops0
  using share_api0[of "o_stage share_ops0"] by simp

text \<open>Two processes that share the filesystem context and the file table.\<close>

definition ptask0 :: ptask where
  "ptask0 = \<lparr>pt_fs = Some 0, pt_files = Some 0, pt_sighand = Some 0, pt_signal = Some 0, pt_mm = Some 0,
     pt_active_mm = Some 0, pt_kthread = False, pt_leader = 1, pt_parent = 0, pt_exit_signal = 17\<rparr>"

definition shares0 :: "nat shares" where
  "shares0 = \<lparr>sr_tasks = [1 \<mapsto> ptask0, 2 \<mapsto> ptask0\<lparr>pt_sighand := Some 1, pt_signal := Some 1, pt_mm := Some 1\<rparr>],
     sr_current = 1, sr_fs = [0 \<mapsto> \<lparr>fs_users = 2, fs_in_exec = False\<rparr>], sr_files = [0 \<mapsto> 2],
     sr_sighand = [0 \<mapsto> \<lparr>sh_count = 1, sh_action = (\<lambda>_. 0)\<rparr>, 1 \<mapsto> \<lparr>sh_count = 1, sh_action = (\<lambda>_. 0)\<rparr>],
     sr_signal = [0 \<mapsto> \<lparr>sg_nr_threads = 1, sg_live = 1, sg_sigcnt = 1\<rparr>, 1 \<mapsto> \<lparr>sg_nr_threads = 1, sg_live = 1, sg_sigcnt = 1\<rparr>],
     sr_mm = [0 \<mapsto> \<lparr>mm_users = 1, mm_count = 1, mm_binfmt = None\<rparr>, 1 \<mapsto> \<lparr>mm_users = 1, mm_count = 1, mm_binfmt = None\<rparr>],
     sr_nr_threads = 2, sr_total_forks = 1, sr_ext = 5\<rparr>"

lemma users_empty: "users ptr Map.empty i = {}"
  by (simp add: users_def)

lemma shares0_ok: "shares_ok shares0" "groups_share shares0"
proof -
  show "shares_ok shares0"
    by (auto simp: shares_ok_def shares0_def ptask0_def counted_iff users_upd users_empty split: if_splits)
  show "groups_share shares0"
    by (auto simp: groups_share_def shares0_def ptask0_def group_ok_def split: if_splits)
qed

lemmas copy_defs = copy_process_resources_def copy_resources_def copy_files_def copy_fs_def copy_sighand_def
  copy_signal_def copy_mm_def dup_mm_def mm_init_def

text \<open>A fork without sharing succeeds, with task 5; one whose pid cannot be allocated fails.\<close>

lemma fork0_result: "fst (copy_process_resources share_ops0 0 17 False shares0) = Inr 5"
  by (simp add: copy_defs share_ops0_def shares0_def ptask0_def new_id_def has_flag_def Let_def)

theorem fork_counts_exact_witness:
  "\<exists>s'. copy_process_resources share_ops0 0 17 False shares0 = (Inr 5, s') \<and> shares_ok s'"
proof -
  have eq: "copy_process_resources share_ops0 0 17 False shares0 =
      (Inr 5, snd (copy_process_resources share_ops0 0 17 False shares0))"
    using fork0_result by (metis prod.collapse)
  show ?thesis
    using eq fork_counts_exact[OF counters.share_api_axioms shares0_ok(1) _ eq] by auto
qed

definition no_pids :: "nat share_ops" where
  "no_pids = share_ops0\<lparr>o_stage := (\<lambda>g fl p s. (if g = Pid_alloc then - EAGAIN else 0, sr_ext s))\<rparr>"

theorem failed_fork_restores_witness:
  "\<exists>s'. copy_process_resources no_pids 0 17 False shares0 = (Inl (- EAGAIN), s') \<and> restored shares0 s'"
proof -
  have "fst (copy_process_resources no_pids 0 17 False shares0) = Inl (- EAGAIN)"
    by (simp add: copy_defs no_pids_def share_ops0_def shares0_def ptask0_def new_id_def has_flag_def Let_def EAGAIN_def)
  then have eq: "copy_process_resources no_pids 0 17 False shares0 =
      (Inl (- EAGAIN), snd (copy_process_resources no_pids 0 17 False shares0))"
    by (metis prod.collapse)
  have "share_api no_pids" unfolding no_pids_def by (rule share_api0)
  from failed_fork_restores[OF this shares0_ok(1) eq] eq show ?thesis by auto
qed

text \<open>A new thread of task 1.\<close>

theorem thread_groups_share_witness:
  "\<exists>s'. copy_process_resources share_ops0 (CLONE_THREAD OR CLONE_SIGHAND OR CLONE_VM) 17 False shares0 = (Inr 5, s') \<and>
     groups_share s'"
proof -
  let ?fl = "CLONE_THREAD OR CLONE_SIGHAND OR CLONE_VM"
  have "fst (copy_process_resources share_ops0 ?fl 17 False shares0) = Inr 5"
    by (simp add: copy_defs share_ops0_def shares0_def ptask0_def new_id_def has_flag_def Let_def clone_flag_defs)
  then have eq: "copy_process_resources share_ops0 ?fl 17 False shares0 =
      (Inr 5, snd (copy_process_resources share_ops0 ?fl 17 False shares0))"
    by (metis prod.collapse)
  have "copy_process_checks fork0 kernel0 ?fl = 0"
    by (simp add: copy_process_checks_def has_flag_def all_flags_def clone_flag_defs fork_machine_defs)
  from thread_groups_share[OF counters.share_api_axioms shares0_ok this eq] eq show ?thesis by auto
qed

theorem unshare_exclusive_witness:
  "\<exists>s'. ksys_unshare fork0 kernel0 share_ops0 (CLONE_FS OR CLONE_FILES) shares0 = (0, s') \<and>
     shares_ok s' \<and> alone (unshare_closure (CLONE_FS OR CLONE_FILES)) s'"
proof -
  let ?fl = "CLONE_FS OR CLONE_FILES"
  have fl: "?fl = 0x600" by (simp add: clone_flag_defs)
  have cl: "unshare_closure 0x600 = 0x600" by (simp add: unshare_closure_def has_flag_def clone_flag_defs)
  have chk: "check_unshare_flags fork0 kernel0 0x600 = 0"
    by (simp add: check_unshare_flags_def has_flag_def clone_flag_defs)
  have "fst (ksys_unshare fork0 kernel0 share_ops0 ?fl shares0) = 0"
    unfolding fl by (simp add: ksys_unshare_def Let_def cl chk unshare_fs_def unshare_fd_def share_ops0_def shares0_def
      ptask0_def new_id_def has_flag_def clone_flag_defs split: prod.splits)
  then have eq: "ksys_unshare fork0 kernel0 share_ops0 ?fl shares0 = (0, snd (ksys_unshare fork0 kernel0 share_ops0 ?fl shares0))"
    by (metis prod.collapse)
  from unshare_exclusive[OF counters.share_api_axioms shares0_ok(1) eq] eq show ?thesis by auto
qed

end
