(* ===== verification/Spec2Isabelle.thy ===== *)
theory Spec2Isabelle
  imports Lottery_Props Uclamp_Props Schedule_Props Setsched_Props Prio_Props Lottery_System Wakeup_Props Fork_Props
    Task_Group_Props Bandwidth_Props Cpu_Files_Props Affinity_Props Hotplug_Props Boot_Props Preempt_Props
    Core_Sched_Props Prio_Types Rq_Lock_Props Fork_Share_Props
begin

text \<open>
  A verification development of a Linux 5.15.180 kernel with a lottery scheduling class, of which the
  repository holds the changed files: \<open>kernel/sched/lottery.c\<close> (the class), \<open>kernel/sched/core.c\<close>
  (the scheduler core), \<open>kernel/sched/sched.h\<close>, \<open>kernel/fork.c\<close>, \<open>include/linux/sched.h\<close>,
  \<open>include/uapi/linux/sched.h\<close> and \<open>include/asm-generic/vmlinux.lds.h\<close>.

  \<^bold>\<open>The program.\<close> A task of the policy \<open>SCHED_LOTTERY\<close> holds tickets, which \<open>kernel_clone\<close> gives it at its
  fork. The lottery class keeps one list of tasks per CPU with the number of tasks and the sum of the
  tickets; \<open>pick_next_task\<close> draws a ticket. The linker script puts the class above all others. The core
  drives every class through a table of hooks (\<open>struct sched_class\<close>): wakeup and fork activate a task,
  \<open>__schedule\<close> picks and switches, the tick asks for a reschedule, priority inheritance, nice,
  \<open>sched_setscheduler\<close>, affinity changes, group changes, hotplug and initialisation take tasks out of
  their queue and put them back.

  \<^bold>\<open>State.\<close> \<open>Sched_State\<close> has a record for each struct (\<open>task\<close>, \<open>rq\<close>, \<open>ltr_rq\<close>, \<open>task_group\<close>, the
  requests of \<open>sched_setaffinity\<close>) with the fields the modelled functions use, and the record
  \<open>kernel\<close> that maps numbers to them: a pointer to a task, a runqueue or a group is its number, NULL is
  \<open>None\<close>. C integers keep their width: unsigned ones are words, \<open>unsigned long\<close> has the 32 bits of
  the machine the repository runs on; a signed value that the code only compares is an \<open>int\<close>. An
  operation returns the new state, or \<open>None\<close> for an oops: a call through a NULL hook, a \<open>BUG()\<close>, a
  poisoned list link, a NULL pointer. A \<open>WARN_ON\<close> is an entry of the log. Error codes are negative
  results. The randomness and the clock are streams of the state.

  \<^bold>\<open>Code outside the repository\<close> is a parameter: the record \<open>env\<close> of \<open>Sched_Env\<close> has the list library,
  the hooks of the other classes and every outside function the core calls. Each part that calls more has
  a table of its own, which its environment carries in the \<open>more\<close> part of the one it builds on
  (\<open>wake_env\<close> of \<open>Wakeup\<close>, \<open>fork_env\<close> of \<open>Fork\<close>, then \<open>group_env\<close> of \<open>Task_Group\<close>, and \<open>affine_env\<close> of
  \<open>Affine_Move\<close>, \<open>nohz_env\<close> of \<open>Tick_Nohz\<close>, \<open>hotplug_env\<close> of \<open>Hotplug\<close>, from which \<open>boot_env\<close> and \<open>core_env\<close>
  come; \<open>preempt_env\<close> of \<open>Preempt\<close> builds on \<open>wake_env\<close>): \<open>wake_of env\<close> is the table of wakeup. An outside function
  that only touches its own state changes \<open>k_ext\<close>. What a property needs of them is a hypothesis, and
  the concrete machines (\<open>Machine\<close> with one CPU, \<open>Full_Machine\<close> with wakeup, fork and groups,
  \<open>Smp_Machine\<close> with two CPUs) show that it can hold.

  \<^bold>\<open>The theories.\<close>
  \<^item> \<open>Sched_Prelude\<close>, \<open>Uapi_Sched\<close>, \<open>Sched_State\<close>, \<open>Sched_Env\<close>: types, constants, state, hook tables and the
    order of the classes.
  \<^item> \<open>List_API\<close>: the contract of \<open>linux/list.h\<close> as the locale \<open>linux_list\<close>, interpreted on a heap of
    linked nodes. \<open>Lottery\<close>: \<open>lottery.c\<close>, every hook. \<open>Lottery_Queue\<close>: the locale
    \<open>class_runqueue\<close> and the lottery queue as its instance; the drawing as an index into the drum of
    tickets. \<open>Lottery_Props\<close>: refinement of the abstract queue, distribution of the drawing.
  \<^item> \<open>Rq_Clock\<close>, \<open>Uclamp\<close>, \<open>Core_Queue\<close> (\<open>core.c\<close> 603 to 860, 1294 to 2107): clock, clamps, queue
    operations. \<open>Uclamp_Rq\<close>, \<open>Uclamp_Props\<close>: the buckets of a runqueue against a multiset of requests.
  \<^item> \<open>Prio\<close>, \<open>Setscheduler\<close>, \<open>Setsched_Calls\<close> (\<open>core.c\<close> 6804 to 8010): priorities, nice,
    \<open>__sched_setscheduler\<close> and its callers. \<open>Prio_Props\<close>, \<open>Setsched_Props\<close>, and \<open>Prio_Types\<close>: every
    operation that writes a priority keeps it in its range.
  \<^item> \<open>Affinity\<close>, \<open>Affine_Move\<close>, \<open>Affinity_Calls\<close> (\<open>core.c\<close> 2109 to 3452, 8017 to 8226): masks, migration,
    the stopper protocol of an affinity change, the system calls. \<open>Affinity_Props\<close>.
  \<^item> \<open>Schedule\<close> (\<open>core.c\<close> 5198 to 6567): tick, pick, switch, \<open>schedule()\<close>. \<open>Core_Lottery\<close>,
    \<open>Schedule_Lottery\<close>, \<open>Schedule_Props\<close>: these on lottery tasks. \<open>Lottery_System\<close>: all of it as a
    transition system with its invariant, over the contract \<open>other_classes\<close> of the hooks of the other classes.
  \<^item> \<open>Wakeup\<close>, \<open>Wakeup_Lottery\<close>, \<open>Wakeup_Props\<close> (\<open>core.c\<close> 3510 to 4222); \<open>Fork\<close>, \<open>Fork_Lottery\<close>,
    \<open>Fork_Props\<close> (\<open>core.c\<close> 4230 to 4540, \<open>fork.c\<close> 1957 to 2750).
  \<^item> \<open>Task_Group\<close>, \<open>Cfs_Bandwidth\<close> (\<open>core.c\<close> 1159 to 1205, 9786 to 10945): the group tree and the files
    of the cpu controller. \<open>Task_Group_Props\<close>, \<open>Bandwidth_Props\<close>, \<open>Cpu_Files_Props\<close>.
  \<^item> \<open>Tick_Nohz\<close>, \<open>Hotplug\<close>, \<open>Boot\<close> (\<open>core.c\<close> 694 to 1157, 5041 to 5465, 8720 to 9755): dynticks, CPU
    hotplug, \<open>sched_init\<close>. \<open>Hotplug_Props\<close>, \<open>Boot_Props\<close>.
  \<^item> \<open>Preempt\<close>, \<open>Preempt_Props\<close> (\<open>core.c\<close> 5485 to 5535, 6498 to 6799, 8259 to 8496): preemption.
  \<^item> \<open>Core_Sched\<close>, \<open>Core_Pick\<close>, \<open>Core_Sched_Props\<close> (\<open>core.c\<close> 93 to 361, 5683 to 6187): core scheduling. Only
    these have \<open>CONFIG_SCHED_CORE\<close>; the others are the code without it.
  \<^item> \<open>Rq_Locks\<close>, \<open>Rq_Lock_Props\<close> (\<open>core.c\<close> 241 to 313, 468 to 563; \<open>sched.h\<close> 1194 to 1209, 2537 to
    2561): the locks of the runqueues as interleaved small steps.
  \<^item> \<open>Fork_Share\<close>, \<open>Fork_Share_Props\<close> (\<open>fork.c\<close> 1107 to 1165, 1311 to 1327, 1451 to 1690, 2183 to 2499,
    3011 to 3204): the objects a fork shares or copies, with their reference counters, the labels that undo a
    failed fork, and \<open>unshare\<close>. They have their own state and their own table of outside functions,
    \<open>share_ops\<close>.

  \<^bold>\<open>What is shown.\<close> The lottery queue refines an abstract queue through every history; the queue, its
  counters and the tasks' states agree in every reachable state of a UP kernel, and \<open>sched_init\<close>
  establishes that; a task is drawn with the share of its tickets; a fork, a wakeup, a sleep, a boost, a
  migration and a group change keep a task's tickets and its place as stated. Clamp accounting is exact.
  The priorities are well typed through every system call,
  and through in-kernel changes that give a nice value in its range. The walk of the group tree equals the recursive traversal, quotas nest.
  Affinity masks, policies and files read back what was written. Where the class does not fit the core,
  the theorems show it: NULL hooks the core calls on SMP, tasks no counter counts, a queued task the fast
  path starves, a second dequeue on a class change. A locked runqueue stays locked while core scheduling
  is switched, and the locks do not deadlock. A fork that fails at any stage leaves no object and no
  reference behind; forks and \<open>unshare\<close> keep every counter equal to the number of its holders.

  \<^bold>\<open>Loops and fuel.\<close> \<open>schedule()\<close> repeats while a reschedule is pending; \<open>schedule_one_pass\<close> shows one
  round is enough for lottery tasks. The walk of the group tree needs two steps per group. The waits for
  other CPUs (\<open>affine_wait\<close>, \<open>wait_task_inactive\<close>, \<open>balance_hotplug_wait\<close>) and the retries of
  \<open>__sched_setaffinity\<close> take fuel, with a step of the rest of the system between two looks.
  \<open>wait_task_inactive\<close> is shown to return in two steps more than a measure that the rest of the system
  decreases while the task is on a CPU or queued; for the others the waited condition is assumed to come
  true. The passes of a core-wide pick
  take fuel because the order of the tasks comes from outside. Everything else terminates by structure.

  \<^bold>\<open>Conventions.\<close> A handler under a lock is atomic (the locks themselves are the
  subject of \<open>Rq_Locks\<close>); RCU, interrupts and memory barriers are not
  part of the state, so interleavings are those of whole handlers, or of the steps a loop gives other CPUs.
  The possible CPUs are the numbers below \<open>nr_cpu_ids\<close>, and a mask is a set of them. A test of a
  \<open>CONFIG_\<close> symbol is a boolean of the environment where both variants are modelled. Every mapped
  definition is preceded by a comment with its file, lines and symbol.

  \<^bold>\<open>Not modelled.\<close> Reports and tracing (\<open>printk\<close>, \<open>sched_show_task\<close>, \<open>__might_sleep\<close>, trace points), which
  change no scheduling state; the tables of cgroup and sysctl files, which only name the functions
  modelled; in \<open>fork.c\<close> the copying of memory maps (\<open>dup_mmap\<close>), thread stacks and their caches, executable files, pidfds
  and the release of a task, whose effects are outside the scheduler; the
  fields of the fair, real-time and deadline classes, whose code is not in the repository; the
  benchmark programs and scripts.
\<close>

end
